(* ===== verification/Prelude.thy ===== *)
theory Prelude
  imports Complex_Main "HOL-Library.AList" "HOL-Library.Char_ord"
begin

text \<open>
  Shared vocabulary of the development.

  \<^item> JavaScript strings are \<^typ>\<open>string\<close> (character lists); the string methods the proxy uses
    (\<^verbatim>\<open>split\<close>, \<^verbatim>\<open>join\<close>, \<^verbatim>\<open>startsWith\<close>, \<^verbatim>\<open>endsWith\<close>, \<^verbatim>\<open>includes\<close>, \<^verbatim>\<open>trim\<close>, \<^verbatim>\<open>lastIndexOf\<close>)
    are functions on lists.  Characters are bytes, so non-ASCII text is out of the model's range.
  \<^item> Parsed JSON is the datatype \<open>json\<close>; an absent member (\<^verbatim>\<open>undefined\<close>) is \<^const>\<open>None\<close>.
  \<^item> A JavaScript \<^verbatim>\<open>Map\<close> keeps insertion order: it is an association list with
    \<^const>\<open>AList.update\<close> as \<^verbatim>\<open>set\<close> (an existing key keeps its place) and \<^const>\<open>AList.delete\<close>.
  \<^item> A Postgres table is a list of rows.  The Prisma calls used by the code are their effect on
    the rows: \<^const>\<open>List.find\<close> (findUnique, findFirst), \<open>update_many\<close>, \<open>delete_many\<close>,
    \<open>count_rows\<close> (the \<^verbatim>\<open>count\<close> of a batch write) and \<open>create_row\<close>, which fails on a unique key
    that is taken (error P2002).
  \<^item> Time is \<^typ>\<open>int\<close>, milliseconds since the epoch, passed in by the caller.
\<close>

named_theorems frame \<open>an operation leaves a field of the state alone\<close>
named_theorems table_simps \<open>rows of a table after an operation\<close>

type_synonym time_ms = int
type_synonym ('k, 'v) jsmap = "('k \<times> 'v) list"

section \<open>JSON values and request bodies\<close>

datatype json =
    JNull
  | JBool bool
  | JNum rat
  | JStr string
  | JArr "json list"
  | JObj "(string \<times> json) list"

text \<open>An own-property read of an object; other values have no members.\<close>

fun member :: "json \<Rightarrow> string \<Rightarrow> json option" where
  "member (JObj fs) k = map_of fs k"
| "member _ k = None"

fun as_string :: "json option \<Rightarrow> string option" where
  "as_string (Some (JStr s)) = Some s"
| "as_string _ = None"

fun json_strings :: "json list \<Rightarrow> string list" where
  "json_strings [] = []"
| "json_strings (JStr s # js) = s # json_strings js"
| "json_strings (_ # js) = json_strings js"

section \<open>Strings\<close>

definition starts_with :: "string \<Rightarrow> string \<Rightarrow> bool" where
  "starts_with p s \<longleftrightarrow> take (length p) s = p"

definition ends_with :: "string \<Rightarrow> string \<Rightarrow> bool" where
  "ends_with p s \<longleftrightarrow> length p \<le> length s \<and> drop (length s - length p) s = p"

fun includes_str :: "string \<Rightarrow> string \<Rightarrow> bool" where
  "includes_str p [] \<longleftrightarrow> p = []"
| "includes_str p (c # s) \<longleftrightarrow> starts_with p (c # s) \<or> includes_str p s"

text \<open>\<^verbatim>\<open>s.split(c)\<close> for a one-character separator: empty pieces are kept.\<close>

fun split_on :: "char \<Rightarrow> string \<Rightarrow> string list" where
  "split_on c [] = [[]]"
| "split_on c (x # xs) =
     (if x = c then [] # split_on c xs
      else case split_on c xs of [] \<Rightarrow> [[x]] | w # ws \<Rightarrow> (x # w) # ws)"

fun join :: "string \<Rightarrow> string list \<Rightarrow> string" where
  "join sep [] = []"
| "join sep [w] = w"
| "join sep (w # v # ws) = w @ sep @ join sep (v # ws)"

text \<open>\<^verbatim>\<open>s.split(" ").filter(Boolean)\<close>, the reading of a scope parameter.\<close>

definition split_scopes :: "string \<Rightarrow> string list" where
  "split_scopes s = filter (\<lambda>w. w \<noteq> []) (split_on CHR '' '' s)"

definition code :: "char \<Rightarrow> nat" where
  "code c = of_char c"

definition in_range :: "char \<Rightarrow> char \<Rightarrow> char \<Rightarrow> bool" where
  "in_range lo hi c \<longleftrightarrow> code lo \<le> code c \<and> code c \<le> code hi"

definition is_digit :: "char \<Rightarrow> bool" where
  "is_digit c \<longleftrightarrow> in_range CHR ''0'' CHR ''9'' c"

definition is_lower :: "char \<Rightarrow> bool" where
  "is_lower c \<longleftrightarrow> in_range CHR ''a'' CHR ''z'' c"

definition is_upper :: "char \<Rightarrow> bool" where
  "is_upper c \<longleftrightarrow> in_range CHR ''A'' CHR ''Z'' c"

definition is_alnum :: "char \<Rightarrow> bool" where
  "is_alnum c \<longleftrightarrow> is_digit c \<or> is_lower c \<or> is_upper c"

definition is_lower_hex :: "char \<Rightarrow> bool" where
  "is_lower_hex c \<longleftrightarrow> is_digit c \<or> in_range CHR ''a'' CHR ''f'' c"

definition lower_char :: "char \<Rightarrow> char" where
  "lower_char c = (if is_upper c then char_of (code c + 32) else c)"

definition upper_char :: "char \<Rightarrow> char" where
  "upper_char c = (if is_lower c then char_of (code c - 32) else c)"

definition to_lower :: "string \<Rightarrow> string" where
  "to_lower = map lower_char"

definition to_upper :: "string \<Rightarrow> string" where
  "to_upper = map upper_char"

text \<open>The ASCII white space that \<^verbatim>\<open>trim\<close> removes: tab to carriage return, and the space.\<close>

definition is_space :: "char \<Rightarrow> bool" where
  "is_space c \<longleftrightarrow> (9 \<le> code c \<and> code c \<le> 13) \<or> code c = 32"

definition trim :: "string \<Rightarrow> string" where
  "trim s = rev (dropWhile is_space (rev (dropWhile is_space s)))"

text \<open>
  \<^verbatim>\<open>s.lastIndexOf(c)\<close> used to cut a string: the part before the last \<open>c\<close> and the part after
  it, when there is one.
\<close>

definition cut_last :: "char \<Rightarrow> string \<Rightarrow> (string \<times> string) option" where
  "cut_last c s =
     (let after = rev (takeWhile (\<lambda>x. x \<noteq> c) (rev s)) in
      if length after = length s then None
      else Some (take (length s - length after - 1) s, after))"

fun num_of_digits :: "string \<Rightarrow> nat \<Rightarrow> nat" where
  "num_of_digits [] acc = acc"
| "num_of_digits (c # s) acc = num_of_digits s (10 * acc + (code c - 48))"

text \<open>\<^verbatim>\<open>/^\d+$/\<close> and \<^verbatim>\<open>Number\<close> of such a string.\<close>

definition all_digits :: "string \<Rightarrow> bool" where
  "all_digits s \<longleftrightarrow> s \<noteq> [] \<and> (\<forall>c \<in> set s. is_digit c)"

definition number_of :: "string \<Rightarrow> nat" where
  "number_of s = num_of_digits s 0"

definition digit_char :: "nat \<Rightarrow> char" where
  "digit_char d = char_of (48 + d)"

text \<open>The decimal form a template literal gives an integer that is not negative.\<close>

fun show_nat :: "nat \<Rightarrow> string" where
  "show_nat n = (if n < 10 then [digit_char n] else show_nat (n div 10) @ [digit_char (n mod 10)])"

declare show_nat.simps [simp del]

section \<open>Tables\<close>

definition update_many :: "('r \<Rightarrow> bool) \<Rightarrow> ('r \<Rightarrow> 'r) \<Rightarrow> 'r list \<Rightarrow> 'r list" where
  "update_many P f t = map (\<lambda>r. if P r then f r else r) t"

definition delete_many :: "('r \<Rightarrow> bool) \<Rightarrow> 'r list \<Rightarrow> 'r list" where
  "delete_many P t = filter (\<lambda>r. \<not> P r) t"

definition count_rows :: "('r \<Rightarrow> bool) \<Rightarrow> 'r list \<Rightarrow> nat" where
  "count_rows P t = length (filter P t)"

definition create_row :: "('r \<Rightarrow> 'k) \<Rightarrow> 'r \<Rightarrow> 'r list \<Rightarrow> 'r list option" where
  "create_row key r t = (if key r \<in> key ` set t then None else Some (t @ [r]))"

text \<open>The row of a primary or unique key (Prisma findUnique).\<close>

definition row_of :: "('r \<Rightarrow> 'k) \<Rightarrow> 'k \<Rightarrow> 'r list \<Rightarrow> 'r option" where
  "row_of key k t = List.find (\<lambda>r. key r = k) t"

section \<open>JavaScript Map and Set\<close>

definition jm_has :: "'k \<Rightarrow> ('k, 'v) jsmap \<Rightarrow> bool" where
  "jm_has k m \<longleftrightarrow> k \<in> fst ` set m"

abbreviation jm_get :: "('k, 'v) jsmap \<Rightarrow> 'k \<Rightarrow> 'v option" where
  "jm_get m k \<equiv> map_of m k"

text \<open>\<^verbatim>\<open>map.delete(k); map.set(k, v)\<close>: the key moves to the newest position.\<close>

definition jm_reinsert :: "'k \<Rightarrow> 'v \<Rightarrow> ('k, 'v) jsmap \<Rightarrow> ('k, 'v) jsmap" where
  "jm_reinsert k v m = AList.update k v (AList.delete k m)"

text \<open>Dropping the oldest entry while the map is over its bound.\<close>

definition jm_evict_over :: "nat \<Rightarrow> ('k, 'v) jsmap \<Rightarrow> ('k, 'v) jsmap" where
  "jm_evict_over n m = drop (length m - n) m"

text \<open>\<^verbatim>\<open>[...new Set(xs)]\<close>: first occurrences, in order.\<close>

fun uniq :: "'a list \<Rightarrow> 'a list" where
  "uniq [] = []"
| "uniq (x # xs) = x # filter (\<lambda>y. y \<noteq> x) (uniq xs)"

subsection \<open>Facts about tables\<close>

lemma set_update_many [table_simps]:
  "set (update_many P f t) = (\<lambda>r. if P r then f r else r) ` set t"
  by (simp add: update_many_def)

lemma length_update_many [simp]: "length (update_many P f t) = length t"
  by (simp add: update_many_def)

lemma update_many_Nil [simp]: "update_many P f [] = []"
  by (simp add: update_many_def)

lemma update_many_Cons [simp]:
  "update_many P f (r # t) = (if P r then f r else r) # update_many P f t"
  by (simp add: update_many_def)

lemma update_many_append [simp]:
  "update_many P f (t @ u) = update_many P f t @ update_many P f u"
  by (simp add: update_many_def)

lemma set_delete_many [simp, table_simps]: "set (delete_many P t) = {r \<in> set t. \<not> P r}"
  by (auto simp: delete_many_def)

lemma map_key_update_many:
  assumes "\<And>r. key (f r) = key r"
  shows "map key (update_many P f t) = map key t"
  using assms by (simp add: update_many_def)

lemma distinct_key_delete_many:
  "distinct (map key t) \<Longrightarrow> distinct (map key (delete_many P t))"
  by (auto simp: delete_many_def distinct_map intro: inj_on_subset)

lemma count_rows_0 [simp]: "count_rows P t = 0 \<longleftrightarrow> (\<forall>r \<in> set t. \<not> P r)"
  by (auto simp: count_rows_def filter_empty_conv)

lemma update_many_idle: "\<forall>r \<in> set t. \<not> P r \<Longrightarrow> update_many P f t = t"
  by (simp add: update_many_def map_idI)

lemma filter_update_many_other:
  assumes "\<And>r. P r \<Longrightarrow> \<not> Q r \<and> \<not> Q (f r)"
  shows "filter Q (update_many P f t) = filter Q t"
  using assms by (induction t) auto

lemma update_many_allI:
  "(\<And>r. r \<in> set t \<Longrightarrow> Q (if P r then f r else r)) \<Longrightarrow> \<forall>x \<in> set (update_many P f t). Q x"
  unfolding set_update_many by blast

lemma row_of_Nil [simp]: "row_of key k [] = None"
  by (simp add: row_of_def)

lemma row_of_Cons [simp]:
  "row_of key k (r # t) = (if key r = k then Some r else row_of key k t)"
  by (simp add: row_of_def)

lemma row_of_SomeD:
  assumes "row_of key k t = Some r" shows "r \<in> set t" and "key r = k"
  using assms by (induction t) (auto split: if_splits)

lemma row_of_None_iff: "row_of key k t = None \<longleftrightarrow> k \<notin> key ` set t"
  by (induction t) auto

lemma row_of_member:
  "distinct (map key t) \<Longrightarrow> r \<in> set t \<Longrightarrow> row_of key (key r) t = Some r"
  by (induction t) (auto simp: rev_image_eqI)

lemma row_of_append:
  "row_of key k (t @ u) = (case row_of key k t of None \<Rightarrow> row_of key k u | Some r \<Rightarrow> Some r)"
  by (induction t) auto

lemma row_of_update_many:
  assumes "\<And>r. key (f r) = key r"
  shows "row_of key k (update_many P f t) =
           map_option (\<lambda>r. if P r then f r else r) (row_of key k t)"
  using assms by (induction t) auto

lemma row_of_delete_many:
  "distinct (map key t) \<Longrightarrow>
     row_of key k (delete_many P t) =
       (case row_of key k t of None \<Rightarrow> None | Some r \<Rightarrow> if P r then None else Some r)"
proof (induction t)
  case Nil
  then show ?case by (simp add: delete_many_def)
next
  case (Cons r t)
  have "row_of key k (filter (\<lambda>r. \<not> P r) t) = None" if "key r = k"
    using Cons.prems that by (auto simp: row_of_None_iff)
  with Cons show ?case by (auto simp: delete_many_def row_of_None_iff)
qed

lemma create_row_Some [table_simps]:
  "create_row key r t = Some t' \<longleftrightarrow> key r \<notin> key ` set t \<and> t' = t @ [r]"
  by (auto simp: create_row_def)

lemma create_row_distinct:
  "create_row key r t = Some t' \<Longrightarrow> distinct (map key t) \<Longrightarrow> distinct (map key t')"
  by (auto simp: create_row_Some)

subsection \<open>Facts about maps\<close>

lemma jm_get_update [simp]:
  "jm_get (AList.update k v m) k' = (if k' = k then Some v else jm_get m k')"
  by (simp add: update_conv')

lemma jm_get_delete [simp]:
  "jm_get (AList.delete k m) k' = (if k' = k then None else jm_get m k')"
  by (simp add: delete_conv')

lemma jm_has_get: "jm_has k m \<longleftrightarrow> jm_get m k \<noteq> None"
  by (auto simp: jm_has_def map_of_eq_None_iff)

lemma jm_reinsert_get [simp]:
  "jm_get (jm_reinsert k v m) k' = (if k' = k then Some v else jm_get m k')"
  by (simp add: jm_reinsert_def)

lemma update_fresh: "k \<notin> fst ` set m \<Longrightarrow> AList.update k v m = m @ [(k, v)]"
  by (induction m) auto

lemma length_update_present: "jm_has k m \<Longrightarrow> length (AList.update k v m) = length m"
  by (induction m) (auto simp: jm_has_def)

lemma delete_id: "k \<notin> fst ` set m \<Longrightarrow> AList.delete k m = m"
  by (induction m) (auto simp: AList.delete_eq)

lemma key_not_in_delete: "k \<notin> fst ` set (AList.delete k m)"
  by (auto simp: AList.delete_eq)

lemma jm_reinsert_eq: "jm_reinsert k v m = AList.delete k m @ [(k, v)]"
  unfolding jm_reinsert_def by (rule update_fresh) (rule key_not_in_delete)

lemma length_delete_le: "length (AList.delete k m) \<le> length m"
  by (simp add: AList.delete_eq)

lemma length_reinsert_le: "length (jm_reinsert k v m) \<le> Suc (length m)"
  using length_delete_le [of k m] by (simp add: jm_reinsert_eq)

lemma distinct_reinsert:
  "distinct (map fst m) \<Longrightarrow> distinct (map fst (jm_reinsert k v m))"
  unfolding jm_reinsert_def by (intro distinct_update distinct_delete)

lemma length_evict_over [simp]: "length (jm_evict_over n m) = min n (length m)"
  by (simp add: jm_evict_over_def min_def)

lemma distinct_evict_over:
  "distinct (map fst m) \<Longrightarrow> distinct (map fst (jm_evict_over n m))"
  by (simp add: jm_evict_over_def drop_map [symmetric] distinct_drop)

lemma evict_over_last:
  "0 < n \<Longrightarrow> jm_evict_over n (m @ [e]) = jm_evict_over (n - 1) m @ [e]"
  by (cases "length m \<le> n - 1") (auto simp: jm_evict_over_def Suc_diff_le)

subsection \<open>Facts about unique lists and strings\<close>

lemma set_uniq [simp]: "set (uniq xs) = set xs"
  by (induction xs) auto

lemma distinct_uniq [simp]: "distinct (uniq xs)"
  by (induction xs) auto

lemma uniq_id: "distinct xs \<Longrightarrow> uniq xs = xs"
  by (induction xs) (auto simp: filter_id_conv)

lemma starts_with_append [simp]: "starts_with p (p @ s)"
  by (simp add: starts_with_def)

lemma ends_with_append [simp]: "ends_with p (s @ p)"
  by (simp add: ends_with_def)

lemma split_on_nonempty [simp]: "split_on c s \<noteq> []"
  by (induction s) (auto split: list.splits)

lemma split_on_no_sep: "w \<in> set (split_on c s) \<Longrightarrow> c \<notin> set w"
  by (induction s arbitrary: w) (auto split: if_splits list.splits)

lemma join_Cons: "join sep (w # ws) = w @ (if ws = [] then [] else sep @ join sep ws)"
  by (cases ws) auto

lemma join_split_on: "join [c] (split_on c s) = s"
proof (induction s)
  case (Cons x s)
  then show ?case by (cases "split_on c s") (auto simp: join_Cons)
qed simp

lemma split_on_id: "c \<notin> set s \<Longrightarrow> split_on c s = [s]"
  by (induction s) auto

lemma split_on_append: "c \<notin> set w \<Longrightarrow> split_on c (w @ c # s) = w # split_on c s"
  by (induction w) auto

lemma split_join:
  "ws \<noteq> [] \<Longrightarrow> \<forall>w \<in> set ws. c \<notin> set w \<Longrightarrow> split_on c (join [c] ws) = ws"
  by (induction "[c]" ws rule: join.induct) (auto simp: split_on_id split_on_append)

text \<open>Printing scopes into one claim and reading them back.\<close>

lemma split_scopes_join:
  assumes "\<forall>w \<in> set ws. w \<noteq> [] \<and> CHR '' '' \<notin> set w"
  shows "split_scopes (join '' '' ws) = ws"
proof (cases "ws = []")
  case False
  with assms have "split_on CHR '' '' (join '' '' ws) = ws"
    by (intro split_join) auto
  with assms show ?thesis by (simp add: split_scopes_def filter_id_conv)
qed (simp add: split_scopes_def)

lemma code_char_of: "n < 256 \<Longrightarrow> code (char_of n) = n"
  by (simp add: code_def of_char_of)

lemma digit_char_digit: "d < 10 \<Longrightarrow> is_digit (digit_char d)"
  by (simp add: digit_char_def is_digit_def in_range_def code_char_of) (simp add: code_def)

lemma code_digit_char: "d < 10 \<Longrightarrow> code (digit_char d) = 48 + d"
  by (simp add: digit_char_def code_char_of)

lemma num_of_digits_append:
  "num_of_digits (s @ t) acc = num_of_digits t (num_of_digits s acc)"
  by (induction s arbitrary: acc) auto

lemma number_of_show_nat [simp]: "number_of (show_nat n) = n"
proof (induction n rule: show_nat.induct)
  case (1 n)
  show ?case
  proof (cases "n < 10")
    case True
    then show ?thesis by (simp add: show_nat.simps [of n] number_of_def code_digit_char)
  next
    case False
    with 1 have "number_of (show_nat (n div 10)) = n div 10" by simp
    with False show ?thesis
      by (simp add: show_nat.simps [of n] number_of_def num_of_digits_append code_digit_char)
  qed
qed

lemma all_digits_show_nat [simp]: "all_digits (show_nat n)"
proof (induction n rule: show_nat.induct)
  case (1 n)
  then show ?case
    by (cases "n < 10") (auto simp: show_nat.simps [of n] all_digits_def digit_char_digit)
qed

lemma show_nat_inject [simp]: "show_nat m = show_nat n \<longleftrightarrow> m = n"
  by (metis number_of_show_nat)

lemma digit_not_dot: "is_digit c \<Longrightarrow> c \<noteq> CHR ''.''"
  by (auto simp: is_digit_def in_range_def code_def)

lemma show_nat_no_dot: "CHR ''.'' \<notin> set (show_nat n)"
  using all_digits_show_nat [of n] digit_not_dot by (fastforce simp: all_digits_def)

lemma length_show_nat: "0 < k \<Longrightarrow> n < 10 ^ k \<Longrightarrow> length (show_nat n) \<le> k"
proof (induction n arbitrary: k rule: show_nat.induct)
  case (1 n)
  show ?case
  proof (cases "n < 10")
    case True
    with "1.prems" show ?thesis by (simp add: show_nat.simps [of n])
  next
    case False
    with "1.prems" obtain j where k: "k = Suc j" and j: "0 < j"
      by (cases k; cases "k - 1") auto
    from "1.prems"(2) k have "n div 10 < 10 ^ j" by (auto simp: div_less_iff_less_mult mult.commute)
    from "1.IH" [OF False j this] False k show ?thesis by (simp add: show_nat.simps [of n])
  qed
qed

lemma takeWhile_append_if_stops:
  "\<forall>x \<in> set xs. P x \<Longrightarrow> \<not> P y \<Longrightarrow> takeWhile P (xs @ y # ys) = xs"
  by (induction xs) auto

lemma cut_last_append:
  assumes "c \<notin> set t"
  shows "cut_last c (s @ c # t) = Some (s, t)"
proof -
  have "takeWhile (\<lambda>x. x \<noteq> c) (rev t @ c # rev s) = rev t"
    by (rule takeWhile_append_if_stops) (use assms in auto)
  then have "takeWhile (\<lambda>x. x \<noteq> c) (rev (s @ c # t)) = rev t" by simp
  then show ?thesis by (simp add: cut_last_def Let_def)
qed

section \<open>Contracts shared by the components\<close>

text \<open>
  A keyed table, as the handlers use one: the row of a key, an update of the rows that satisfy
  a condition, a deletion.  The provider promises what a lookup returns afterwards.
\<close>

locale keyed_table =
  fixes look :: "'k \<Rightarrow> 't \<Rightarrow> 'r option"
    and upd :: "('r \<Rightarrow> bool) \<Rightarrow> ('r \<Rightarrow> 'r) \<Rightarrow> 't \<Rightarrow> 't"
    and del :: "('r \<Rightarrow> bool) \<Rightarrow> 't \<Rightarrow> 't"
    and key :: "'r \<Rightarrow> 'k"
    and ok :: "'t \<Rightarrow> bool"
  assumes look_key: "look k t = Some r \<Longrightarrow> key r = k"
    and look_upd: "(\<And>r. key (f r) = key r) \<Longrightarrow>
          look k (upd P f t) = map_option (\<lambda>r. if P r then f r else r) (look k t)"
    and look_del: "ok t \<Longrightarrow> look k (del P t) =
          (case look k t of None \<Rightarrow> None | Some r \<Rightarrow> if P r then None else Some r)"
    and ok_upd: "(\<And>r. key (f r) = key r) \<Longrightarrow> ok t \<Longrightarrow> ok (upd P f t)"
    and ok_del: "ok t \<Longrightarrow> ok (del P t)"
begin

lemma look_upd_other:
  assumes "\<And>r. key (f r) = key r" and "\<And>r. P r \<Longrightarrow> key r \<noteq> k"
  shows "look k (upd P f t) = look k t"
  using assms look_upd [of f k P t] look_key [of k t] by (cases "look k t") auto

lemma look_del_other:
  assumes "ok t" and "\<And>r. P r \<Longrightarrow> key r \<noteq> k"
  shows "look k (del P t) = look k t"
  using assms look_del [of t k P] look_key [of k t] by (cases "look k t") auto

lemma look_del_Some:
  "ok t \<Longrightarrow> look k (del P t) = Some r \<longleftrightarrow> look k t = Some r \<and> \<not> P r"
  by (auto simp: look_del split: option.splits)

end

text \<open>
  The contract of single-use credentials (authorization codes, refresh tokens, device codes,
  authorization requests, upstream states) in a system whose steps may be labelled with the
  credential they redeem: only an unspent one is redeemed, redeeming it spends it, and no step
  un-spends it.  \<open>ok\<close> is the invariant the system needs for that.
\<close>

locale single_use =
  fixes step :: "'s \<Rightarrow> 'k option \<Rightarrow> 's \<Rightarrow> bool"
    and spent :: "'k \<Rightarrow> 's \<Rightarrow> bool"
    and ok :: "'s \<Rightarrow> bool"
  assumes ok_step: "ok s \<Longrightarrow> step s l s' \<Longrightarrow> ok s'"
    and win_unspent: "ok s \<Longrightarrow> step s (Some k) s' \<Longrightarrow> \<not> spent k s"
    and win_spends: "ok s \<Longrightarrow> step s (Some k) s' \<Longrightarrow> spent k s'"
    and step_keeps: "ok s \<Longrightarrow> spent k s \<Longrightarrow> step s l s' \<Longrightarrow> spent k s'"
begin

text \<open>A run of the system and the labels of its steps.\<close>

inductive run :: "'s \<Rightarrow> 'k option list \<Rightarrow> 's \<Rightarrow> bool" where
  run_nil: "run s [] s"
| run_step: "run s ls t \<Longrightarrow> step t l u \<Longrightarrow> run s (ls @ [l]) u"

lemma run_ok: "run s ls t \<Longrightarrow> ok s \<Longrightarrow> ok t"
  by (induction rule: run.induct) (auto intro: ok_step)

lemma run_spent: "run s ls t \<Longrightarrow> ok s \<Longrightarrow> Some k \<in> set ls \<or> spent k s \<Longrightarrow> spent k t"
proof (induction rule: run.induct)
  case (run_step s ls t l u)
  then have "ok t" by (blast intro: run_ok)
  with run_step show ?case by (auto intro: win_spends step_keeps)
qed auto

lemma spent_never_won: "run s ls t \<Longrightarrow> ok s \<Longrightarrow> spent k s \<Longrightarrow> Some k \<notin> set ls"
proof (induction rule: run.induct)
  case (run_step s ls t l u)
  then have "ok t" "spent k t" by (blast intro: run_ok run_spent)+
  with run_step show ?case by (auto dest: win_unspent)
qed auto

lemma at_most_one_win: "run s ls t \<Longrightarrow> ok s \<Longrightarrow> length (filter (\<lambda>l. l = Some k) ls) \<le> 1"
proof (induction rule: run.induct)
  case (run_step s ls t l u)
  then have t: "ok t" by (blast intro: run_ok)
  show ?case
  proof (cases "l = Some k \<and> Some k \<in> set ls")
    case True
    with run_step have "spent k t" by (blast intro: run_spent)
    with True run_step t show ?thesis by (auto dest: win_unspent)
  next
    case False
    with run_step show ?thesis by (auto simp: filter_empty_conv)
  qed
qed auto

end

text \<open>
  An invariant of a transition system: it holds at the start and every step keeps it, hence it
  holds in every reachable state.
\<close>

locale transition_system =
  fixes start :: "'s \<Rightarrow> bool"
    and step :: "'s \<Rightarrow> 's \<Rightarrow> bool"
    and inv :: "'s \<Rightarrow> bool"
  assumes inv_start: "start s \<Longrightarrow> inv s"
    and inv_step: "inv s \<Longrightarrow> step s t \<Longrightarrow> inv t"
begin

lemma inv_star: "step\<^sup>*\<^sup>* s t \<Longrightarrow> inv s \<Longrightarrow> inv t"
  by (induction rule: rtranclp_induct) (auto intro: inv_step)

lemma inv_reachable: "start s \<Longrightarrow> step\<^sup>*\<^sup>* s t \<Longrightarrow> inv t"
  by (blast intro: inv_start inv_star)

end

interpretation rows: keyed_table "row_of key" update_many delete_many key
    "\<lambda>t. distinct (map key t)"
  for key :: "'r \<Rightarrow> 'k"
  by unfold_locales
    (auto simp: row_of_update_many row_of_delete_many map_key_update_many
      intro: distinct_key_delete_many row_of_SomeD)

end
