(* ===== verification/RateLimit.thy ===== *)
theory RateLimit
  imports Prelude
begin

text \<open>
  \<^verbatim>\<open>rate-limit.ts\<close>: the key an address is counted under and the fixed-window limiters.  The
  locale \<open>fixed_window\<close> is the contract of a fixed-window limiter; it is interpreted here on
  \<^verbatim>\<open>createIpRateLimiter\<close> and in SafeFetch on the per-host limiter of the outbound fetcher.
\<close>

section \<open>IP addresses as text\<close>

text \<open>\<^verbatim>\<open>net.isIPv4\<close>: four decimal octets without leading zeros.\<close>

definition is_octet :: "string \<Rightarrow> bool" where
  "is_octet s \<longleftrightarrow> all_digits s \<and> length s \<le> 3 \<and> number_of s \<le> 255 \<and>
     (length s = 1 \<or> hd s \<noteq> CHR ''0'')"

definition isIPv4 :: "string \<Rightarrow> bool" where
  "isIPv4 s \<longleftrightarrow> (let ps = split_on CHR ''.'' s in length ps = 4 \<and> (\<forall>p \<in> set ps. is_octet p))"

definition is_hex :: "char \<Rightarrow> bool" where
  "is_hex c \<longleftrightarrow> is_lower_hex c \<or> in_range CHR ''A'' CHR ''F'' c"

definition is_hex_group :: "string \<Rightarrow> bool" where
  "is_hex_group g \<longleftrightarrow> g \<noteq> [] \<and> length g \<le> 4 \<and> (\<forall>c \<in> set g. is_hex c)"

text \<open>The text before and after the first \<^verbatim>\<open>"::"\<close>, when there is one.\<close>

fun cut_colons :: "string \<Rightarrow> (string \<times> string) option" where
  "cut_colons (a # b # s) =
     (if a = CHR '':'' \<and> b = CHR '':'' then Some ([], s)
      else map_option (\<lambda>(h, t). (a # h, t)) (cut_colons (b # s)))"
| "cut_colons _ = None"

definition groups_of :: "string \<Rightarrow> string list" where
  "groups_of s = (if s = [] then [] else split_on CHR '':'' s)"

text \<open>A dotted IPv4 tail fills two groups.\<close>

definition width :: "string list \<Rightarrow> nat" where
  "width gs = sum_list (map (\<lambda>g. if CHR ''.'' \<in> set g then 2 else 1) gs)"

text \<open>\<^verbatim>\<open>net.isIPv6\<close>: eight groups, or fewer with one \<^verbatim>\<open>"::"\<close>, the last possibly dotted, and an
  optional zone.\<close>

definition groups_ok :: "bool \<Rightarrow> string list \<Rightarrow> bool" where
  "groups_ok final gs \<longleftrightarrow>
     (\<forall>g \<in> set (butlast gs). is_hex_group g) \<and>
     (gs = [] \<or> is_hex_group (last gs) \<or> (final \<and> isIPv4 (last gs)))"

definition zone_ok :: "string \<Rightarrow> bool" where
  "zone_ok z \<longleftrightarrow> z \<noteq> [] \<and> (\<forall>c \<in> set z. is_alnum c \<or> c = CHR ''-'' \<or> c = CHR ''.'' \<or> c = CHR '':'')"

definition is_ipv6_body :: "string \<Rightarrow> bool" where
  "is_ipv6_body s =
     (case cut_colons s of
        None \<Rightarrow> (let gs = split_on CHR '':'' s in groups_ok True gs \<and> width gs = 8)
      | Some (h, t) \<Rightarrow>
          groups_ok False (groups_of h) \<and> groups_ok True (groups_of t) \<and>
          width (groups_of h) + width (groups_of t) \<le> 7)"

definition isIPv6 :: "string \<Rightarrow> bool" where
  "isIPv6 s =
     (case split_on CHR ''%'' s of
        [b] \<Rightarrow> is_ipv6_body b
      | [b, z] \<Rightarrow> is_ipv6_body b \<and> zone_ok z
      | _ \<Rightarrow> False)"

text \<open>\<^verbatim>\<open>/^::ffff:(\d+\.\d+\.\d+\.\d+)$/i\<close> together with the \<^verbatim>\<open>isIPv4\<close> test on its group.\<close>

definition mapped_ipv4 :: "string \<Rightarrow> string option" where
  "mapped_ipv4 ip =
     (if starts_with ''::ffff:'' (to_lower ip) \<and> isIPv4 (drop 7 ip) then Some (drop 7 ip) else None)"

text \<open>\<^verbatim>\<open>g.replace(/^0+(?=.)/, "")\<close>\<close>

fun strip_zeros :: "string \<Rightarrow> string" where
  "strip_zeros (a # b # s) = (if a = CHR ''0'' then strip_zeros (b # s) else a # b # s)"
| "strip_zeros s = s"

definition expand_groups :: "string \<Rightarrow> string list" where
  "expand_groups ip =
     (let base = hd (split_on CHR ''%'' (to_lower ip)) in
      case cut_colons base of
        None \<Rightarrow> groups_of base
      | Some (h, t) \<Rightarrow>
          groups_of h @
          replicate (8 - width (groups_of h) - width (groups_of t)) ''0'' @ groups_of t)"

definition ipRateLimitKey :: "string option \<Rightarrow> string" where
  "ipRateLimitKey ip =
     (case ip of
        None \<Rightarrow> ''unknown''
      | Some a \<Rightarrow>
          if a = [] then ''unknown''
          else case mapped_ipv4 a of
                 Some v4 \<Rightarrow> v4
               | None \<Rightarrow>
                   if \<not> isIPv6 a then a
                   else join '':'' (map strip_zeros (take 4 (expand_groups a))) @ ''::/64'')"

section \<open>The fixed-window limiter\<close>

record window =
  w_count :: nat
  w_start :: time_ms

record limiter_opts =
  l_max :: nat
  l_windowMs :: int
  l_maxEntries :: nat

text \<open>Dropping the oldest entry once when the map is over its bound.\<close>

definition evict_one :: "nat \<Rightarrow> ('k, 'v) jsmap \<Rightarrow> ('k, 'v) jsmap" where
  "evict_one n m = (if n < length m then tl m else m)"

definition ceil_div :: "int \<Rightarrow> int \<Rightarrow> int" where
  "ceil_div a b = - ((- a) div b)"

text \<open>\<^verbatim>\<open>hit\<close> on a key: the new windows and 0, or the seconds to wait when refused.\<close>

definition open_window :: "limiter_opts \<Rightarrow> time_ms \<Rightarrow> 'k \<Rightarrow> ('k, window) jsmap \<Rightarrow> ('k, window) jsmap \<times> window" where
  "open_window opts now key ws =
     (case jm_get ws key of
        Some w \<Rightarrow>
          if l_windowMs opts \<le> now - w_start w
          then (evict_one (l_maxEntries opts) (jm_reinsert key \<lparr>w_count = 0, w_start = now\<rparr> ws),
                \<lparr>w_count = 0, w_start = now\<rparr>)
          else (ws, w)
      | None \<Rightarrow>
          (evict_one (l_maxEntries opts) (jm_reinsert key \<lparr>w_count = 0, w_start = now\<rparr> ws),
           \<lparr>w_count = 0, w_start = now\<rparr>))"

definition limiter_hit :: "limiter_opts \<Rightarrow> time_ms \<Rightarrow> 'k \<Rightarrow> ('k, window) jsmap \<Rightarrow> ('k, window) jsmap \<times> int" where
  "limiter_hit opts now key ws =
     (case open_window opts now key ws of (ws', w) \<Rightarrow>
        if l_max opts \<le> w_count w
        then (ws', max 1 (ceil_div (w_start w + l_windowMs opts - now) 1000))
        else (if jm_has key ws' then AList.update key (w\<lparr>w_count := Suc (w_count w)\<rparr>) ws' else ws', 0))"

definition limiter_sweep :: "limiter_opts \<Rightarrow> time_ms \<Rightarrow> ('k, window) jsmap \<Rightarrow> ('k, window) jsmap" where
  "limiter_sweep opts now ws = filter (\<lambda>(_, w). now - w_start w < l_windowMs opts) ws"

definition oauthEndpointLimiter :: limiter_opts where
  "oauthEndpointLimiter = \<lparr>l_max = 60, l_windowMs = 60000, l_maxEntries = 50000\<rparr>"

definition clientResolutionLimiter :: limiter_opts where
  "clientResolutionLimiter = \<lparr>l_max = 60, l_windowMs = 60000, l_maxEntries = 50000\<rparr>"

definition rowCreationLimiter :: limiter_opts where
  "rowCreationLimiter = \<lparr>l_max = 30, l_windowMs = 60000, l_maxEntries = 50000\<rparr>"

definition ip_hit :: "limiter_opts \<Rightarrow> time_ms \<Rightarrow> string option \<Rightarrow> (string, window) jsmap \<Rightarrow> (string, window) jsmap \<times> int" where
  "ip_hit opts now ip ws = limiter_hit opts now (ipRateLimitKey ip) ws"

lemma first_hit: "0 < l_maxEntries opts \<Longrightarrow> 0 < l_max opts \<Longrightarrow>
    ip_hit opts now ip [] = ([(ipRateLimitKey ip, \<lparr>w_count = 1, w_start = now\<rparr>)], 0)"
  by (simp add: ip_hit_def limiter_hit_def open_window_def evict_one_def jm_reinsert_def jm_has_def)

section \<open>The contract\<close>

datatype 'k limiter_event = Hit 'k time_ms | Sweep time_ms

fun event_time :: "'k limiter_event \<Rightarrow> time_ms" where
  "event_time (Hit k t) = t"
| "event_time (Sweep t) = t"

fun event_keys :: "'k limiter_event \<Rightarrow> 'k set" where
  "event_keys (Hit k t) = {k}"
| "event_keys (Sweep t) = {}"

text \<open>
  \<open>win s k\<close> is the window of a key (its start and count) and \<open>room K s\<close> says that the state has
  room for the keys \<open>K\<close>, so that none of their windows is evicted.
\<close>

locale fixed_window =
  fixes hit :: "time_ms \<Rightarrow> 'k \<Rightarrow> 's \<Rightarrow> 's \<times> bool"
    and sweep :: "time_ms \<Rightarrow> 's \<Rightarrow> 's"
    and win :: "'s \<Rightarrow> 'k \<Rightarrow> (time_ms \<times> nat) option"
    and room :: "'k set \<Rightarrow> 's \<Rightarrow> bool"
    and W :: int
    and limit :: nat
  assumes hit_allowed: "room K s \<Longrightarrow> k \<in> K \<Longrightarrow> hit t k s = (s', True) \<Longrightarrow>
        \<exists>st c. win s' k = Some (st, Suc c) \<and> Suc c \<le> limit \<and>
          (win s k = Some (st, c) \<and> t < st + W \<or>
           st = t \<and> c = 0 \<and> (\<forall>st0 c0. win s k = Some (st0, c0) \<longrightarrow> st0 + W \<le> t))"
    and hit_refused: "room K s \<Longrightarrow> k \<in> K \<Longrightarrow> hit t k s = (s', False) \<Longrightarrow> win s' k = win s k"
    and hit_other: "room K s \<Longrightarrow> k \<in> K \<Longrightarrow> j \<noteq> k \<Longrightarrow> win (fst (hit t k s)) j = win s j"
    and hit_room: "room K s \<Longrightarrow> k \<in> K \<Longrightarrow> room K (fst (hit t k s))"
    and sweep_win: "room K s \<Longrightarrow> win (sweep t s) k = win s k \<or>
        (win (sweep t s) k = None \<and> (\<exists>st c. win s k = Some (st, c) \<and> st + W \<le> t))"
    and sweep_room: "room K s \<Longrightarrow> room K (sweep t s)"
begin

text \<open>The hits that were allowed, in order.\<close>

fun allowed :: "'k limiter_event list \<Rightarrow> 's \<Rightarrow> ('k \<times> time_ms) list" where
  "allowed [] s = []"
| "allowed (Hit k t # es) s =
     (case hit t k s of (s', ok) \<Rightarrow> (if ok then [(k, t)] else []) @ allowed es s')"
| "allowed (Sweep t # es) s = allowed es (sweep t s)"

definition counted :: "'k \<Rightarrow> time_ms \<Rightarrow> ('k \<times> time_ms) list \<Rightarrow> nat" where
  "counted k a hs = length (filter (\<lambda>(j, t). j = k \<and> a \<le> t \<and> t < a + W) hs)"

lemma counted_simps [simp]:
  "counted k a [] = 0"
  "counted k a ((j, t) # hs) = (if j = k \<and> a \<le> t \<and> t < a + W then Suc (counted k a hs) else counted k a hs)"
  by (auto simp: counted_def)

text \<open>
  What is known of \<open>f\<close>, the hits of \<open>k\<close> counted so far in the interval that starts at \<open>a\<close>, when the
  clock shows \<open>now\<close>: the window in force started before the interval and holds them all, or it
  started inside, and then the hits before it fit in one window too.
\<close>

definition tracks :: "'k \<Rightarrow> time_ms \<Rightarrow> nat \<Rightarrow> time_ms \<Rightarrow> 's \<Rightarrow> bool" where
  "tracks k a f now s \<longleftrightarrow>
     f \<le> 2 * limit \<and> (now < a \<longrightarrow> f = 0) \<and>
     (a + W \<le> now \<or>
      (case win s k of
         None \<Rightarrow> f \<le> limit
       | Some (st, c) \<Rightarrow> c \<le> limit \<and> (st < a \<longrightarrow> f \<le> c) \<and> (a \<le> st \<longrightarrow> f \<le> limit + c)))"

lemma tracks_hit:
  assumes tr: "tracks k a f now s" and rm: "room K s" "k \<in> K" and t: "now \<le> t"
    and h: "hit t k s = (s', ok)"
  shows "tracks k a (if ok \<and> a \<le> t \<and> t < a + W then Suc f else f) t s'"
proof (cases "t < a + W")
  case False
  with tr t show ?thesis by (auto simp: tracks_def)
next
  case True
  show ?thesis
  proof (cases ok)
    case False
    with h have "hit t k s = (s', False)" by simp
    with rm have "win s' k = win s k" by (rule hit_refused)
    with tr t True False show ?thesis by (auto simp: tracks_def split: option.splits)
  next
    case True
    from True h have "hit t k s = (s', True)" by simp
    from hit_allowed [OF rm this] obtain st c where "win s' k = Some (st, Suc c)" "Suc c \<le> limit"
      and "win s k = Some (st, c) \<and> t < st + W \<or>
           st = t \<and> c = 0 \<and> (\<forall>st0 c0. win s k = Some (st0, c0) \<longrightarrow> st0 + W \<le> t)"
      by blast
    with tr t \<open>t < a + W\<close> \<open>ok\<close> show ?thesis
      by (fastforce simp: tracks_def split: option.splits)
  qed
qed

lemma tracks_hit_other:
  assumes "tracks k a f now s" "room K s" "j \<in> K" "now \<le> t" "j \<noteq> k" "hit t j s = (s', ok)"
  shows "tracks k a f t s'"
proof -
  from assms hit_other [of K s j k t] have "win s' k = win s k" by simp
  with assms show ?thesis by (auto simp: tracks_def split: option.splits)
qed

lemma tracks_sweep:
  assumes "tracks k a f now s" "room K s" "now \<le> t"
  shows "tracks k a f t (sweep t s)"
  using assms sweep_win [of K s t k] by (fastforce simp: tracks_def split: option.splits)

lemma allowed_bound:
  assumes "tracks k a f now s" "room K s" "k \<in> K" "\<Union> (event_keys ` set es) \<subseteq> K"
    and "sorted (now # map event_time es)"
  shows "f + counted k a (allowed es s) \<le> 2 * limit"
  using assms
proof (induction es arbitrary: f now s)
  case Nil
  then show ?case by (simp add: tracks_def)
next
  case (Cons e es)
  show ?case
  proof (cases e)
    case (Sweep t)
    with Cons.prems Cons.IH [of f t "sweep t s"] show ?thesis
      by (auto intro: tracks_sweep sweep_room)
  next
    case (Hit j t)
    obtain s' ok where h: "hit t j s = (s', ok)" by fastforce
    from Hit Cons.prems have j: "j \<in> K" and t: "now \<le> t" by auto
    from hit_room [OF Cons.prems(2) j, of t] h have room': "room K s'" by simp
    show ?thesis
    proof (cases "j = k")
      case True
      from tracks_hit [OF Cons.prems(1,2,3) t] h True
      have "tracks k a (if ok \<and> a \<le> t \<and> t < a + W then Suc f else f) t s'" by simp
      from Cons.IH [OF this room'] Cons.prems Hit h True show ?thesis by (auto split: if_splits)
    next
      case False
      from tracks_hit_other [OF Cons.prems(1,2) j t False h] Cons.IH [of f t s'] room'
        Cons.prems Hit h False show ?thesis by auto
    qed
  qed
qed

text \<open>From a state with no window for \<open>k\<close>, any interval of one window's length lets at most
  \<open>2 * limit\<close> hits of \<open>k\<close> through.\<close>

lemma at_most_twice_the_limit:
  assumes "room K s" "win s k = None" "k \<in> K" "\<Union> (event_keys ` set es) \<subseteq> K"
    and "sorted (map event_time es)"
  shows "counted k a (allowed es s) \<le> 2 * limit"
proof (cases es)
  case (Cons e es')
  have "tracks k a 0 (event_time e) s" using assms(2) by (simp add: tracks_def)
  from allowed_bound [OF this assms(1,3,4)] assms(5) Cons show ?thesis by simp
qed simp

end

section \<open>The limiter meets the contract\<close>

definition limiter_room :: "limiter_opts \<Rightarrow> 'k set \<Rightarrow> ('k, window) jsmap \<Rightarrow> bool" where
  "limiter_room opts K ws \<longleftrightarrow>
     finite K \<and> card K \<le> l_maxEntries opts \<and> fst ` set ws \<subseteq> K \<and> distinct (map fst ws)"

definition limiter_win :: "('k, window) jsmap \<Rightarrow> 'k \<Rightarrow> (time_ms \<times> nat) option" where
  "limiter_win ws k = map_option (\<lambda>w. (w_start w, w_count w)) (jm_get ws k)"

definition limiter_allows :: "limiter_opts \<Rightarrow> time_ms \<Rightarrow> 'k \<Rightarrow> ('k, window) jsmap \<Rightarrow> ('k, window) jsmap \<times> bool" where
  "limiter_allows opts now key ws = (case limiter_hit opts now key ws of (ws', r) \<Rightarrow> (ws', r = 0))"

lemma room_no_evict:
  assumes "limiter_room opts K ws" "k \<in> K"
  shows "evict_one (l_maxEntries opts) (jm_reinsert k w ws) = jm_reinsert k w ws"
proof -
  have d: "distinct (map fst (jm_reinsert k w ws))"
    using assms by (simp add: limiter_room_def distinct_reinsert)
  have "fst ` set (jm_reinsert k w ws) \<subseteq> K"
    using assms by (auto simp: limiter_room_def jm_reinsert_eq AList.delete_eq)
  with assms d have "length (jm_reinsert k w ws) \<le> card K"
    by (metis card_mono distinct_card length_map limiter_room_def list.set_map)
  with assms show ?thesis by (simp add: evict_one_def limiter_room_def)
qed

lemma room_reinsert:
  "limiter_room opts K ws \<Longrightarrow> k \<in> K \<Longrightarrow> limiter_room opts K (jm_reinsert k w ws)"
  using distinct_reinsert [of ws k w]
  by (auto simp: limiter_room_def jm_reinsert_eq AList.delete_eq)

lemma room_update:
  "limiter_room opts K ws \<Longrightarrow> k \<in> K \<Longrightarrow> limiter_room opts K (AList.update k w ws)"
  by (auto simp: limiter_room_def distinct_update dom_update)

lemma open_window_eq:
  assumes "limiter_room opts K ws" "k \<in> K"
  shows "open_window opts t k ws =
    (case jm_get ws k of
       Some w \<Rightarrow> if l_windowMs opts \<le> t - w_start w
                 then (jm_reinsert k \<lparr>w_count = 0, w_start = t\<rparr> ws, \<lparr>w_count = 0, w_start = t\<rparr>)
                 else (ws, w)
     | None \<Rightarrow> (jm_reinsert k \<lparr>w_count = 0, w_start = t\<rparr> ws, \<lparr>w_count = 0, w_start = t\<rparr>))"
  using assms by (simp add: open_window_def room_no_evict split: option.splits)

lemma ceil_wait_pos: "max 1 (ceil_div a b) \<noteq> 0"
  by linarith

lemma limiter_hit_room:
  assumes "limiter_room opts K ws" "k \<in> K"
  shows "limiter_room opts K (fst (limiter_hit opts t k ws))"
  using assms
  by (auto simp: limiter_hit_def open_window_eq room_reinsert room_update split: option.splits)

lemma limiter_hit_other:
  assumes "limiter_room opts K ws" "k \<in> K" "j \<noteq> k"
  shows "jm_get (fst (limiter_hit opts t k ws)) j = jm_get ws j"
  using assms by (auto simp: limiter_hit_def open_window_eq split: option.splits)

lemma limiter_sweep_get:
  "distinct (map fst ws) \<Longrightarrow>
     jm_get (limiter_sweep opts t ws) k =
       (case jm_get ws k of None \<Rightarrow> None
        | Some w \<Rightarrow> if t - w_start w < l_windowMs opts then Some w else None)"
proof (induction ws)
  case (Cons e ws)
  obtain j w where e: "e = (j, w)" by fastforce
  have "k \<notin> fst ` set ws \<Longrightarrow> jm_get (limiter_sweep opts t ws) k = None"
    by (auto simp: limiter_sweep_def map_of_eq_None_iff)
  with Cons e show ?case
    by (auto simp: limiter_sweep_def split: option.splits)
qed (simp add: limiter_sweep_def)

lemma limiter_sweep_room: "limiter_room opts K ws \<Longrightarrow> limiter_room opts K (limiter_sweep opts t ws)"
  by (auto simp: limiter_room_def limiter_sweep_def distinct_map inj_on_def)

lemma limiter_allows_True:
  assumes "limiter_room opts K ws" "k \<in> K" "limiter_allows opts t k ws = (ws', True)"
  shows "\<exists>st c. limiter_win ws' k = Some (st, Suc c) \<and> Suc c \<le> l_max opts \<and>
     (limiter_win ws k = Some (st, c) \<and> t < st + l_windowMs opts \<or>
      st = t \<and> c = 0 \<and>
        (\<forall>st0 c0. limiter_win ws k = Some (st0, c0) \<longrightarrow> st0 + l_windowMs opts \<le> t))"
  using assms(3)
  by (auto simp: limiter_allows_def limiter_hit_def open_window_eq [OF assms(1,2)] limiter_win_def
      ceil_wait_pos jm_has_get split: option.splits if_splits prod.splits)

lemma limiter_allows_False:
  assumes "0 < l_max opts" "limiter_room opts K ws" "k \<in> K"
    "limiter_allows opts t k ws = (ws', False)"
  shows "limiter_win ws' k = limiter_win ws k"
  using assms(1,4)
  by (auto simp: limiter_allows_def limiter_hit_def open_window_eq [OF assms(2,3)] limiter_win_def
      ceil_wait_pos split: option.splits if_splits prod.splits)

lemma limiter_fixed_window:
  assumes "0 < l_max opts"
  shows "fixed_window (limiter_allows opts) (limiter_sweep opts) limiter_win
           (limiter_room opts) (l_windowMs opts) (l_max opts)"
proof (unfold_locales, goal_cases)
  case (1 K s k t s')
  then show ?case by (rule limiter_allows_True)
next
  case (2 K s k t s')
  with assms show ?case by (blast intro: limiter_allows_False)
next
  case (3 K s k j t)
  then show ?case
    using limiter_hit_other [of opts K s k j t]
    by (simp add: limiter_allows_def limiter_win_def case_prod_beta)
next
  case (4 K s k t)
  then show ?case
    using limiter_hit_room [of opts K s k t] by (simp add: limiter_allows_def case_prod_beta)
next
  case (5 K s t k)
  then show ?case
    by (auto simp: limiter_win_def limiter_room_def limiter_sweep_get split: option.splits)
next
  case (6 K s t)
  then show ?case by (rule limiter_sweep_room)
qed

interpretation row_limiter: fixed_window "limiter_allows rowCreationLimiter"
    "limiter_sweep rowCreationLimiter" limiter_win "limiter_room rowCreationLimiter"
    "l_windowMs rowCreationLimiter" "l_max rowCreationLimiter"
  by (rule limiter_fixed_window) (simp add: rowCreationLimiter_def)

interpretation oauth_limiter: fixed_window "limiter_allows oauthEndpointLimiter"
    "limiter_sweep oauthEndpointLimiter" limiter_win "limiter_room oauthEndpointLimiter"
    "l_windowMs oauthEndpointLimiter" "l_max oauthEndpointLimiter"
  by (rule limiter_fixed_window) (simp add: oauthEndpointLimiter_def)

text \<open>The bound on the tracked addresses holds whatever the requests are.\<close>

lemma limiter_hit_bounded:
  assumes "length ws \<le> l_maxEntries opts"
  shows "length (fst (limiter_hit opts t k ws)) \<le> l_maxEntries opts"
proof -
  show ?thesis
    using assms length_reinsert_le [of k "\<lparr>w_count = 0, w_start = t\<rparr>" ws]
    by (auto simp: limiter_hit_def open_window_def evict_one_def length_update_present split: option.splits)
qed

end
