(* ===== verification/Url.thy ===== *)
theory Url
  imports Prelude
begin

text \<open>
  The parts of a WHATWG \<^verbatim>\<open>URL\<close> the proxy reads.  The parser itself belongs to the platform: it is a
  parameter \<^emph>\<open>parse\<close> of every operation that calls \<^verbatim>\<open>new URL(s)\<close>, \<^const>\<open>None\<close> when the constructor
  throws.  Nothing is assumed of it unless a lemma says so.
\<close>

record url =
  url_protocol :: string
  url_username :: string
  url_password :: string
  url_hostname :: string
  url_port :: string
  url_host :: string
  url_pathname :: string
  url_search :: string
  url_hash :: string
  url_origin :: string
  url_href :: string

type_synonym url_parser = "string \<Rightarrow> url option"

text \<open>\<^verbatim>\<open>isLoopbackHost\<close>, the same three spellings in cimd.ts, consent.ts and jwks-cache.ts.\<close>

definition isLoopbackHost :: "string \<Rightarrow> bool" where
  "isLoopbackHost h \<longleftrightarrow> h = ''localhost'' \<or> h = ''127.0.0.1'' \<or> h = ''[::1]''"

text \<open>The hostname of a client identifier, or nothing when it is not a URL.\<close>

definition hostnameOf :: "url_parser \<Rightarrow> string \<Rightarrow> string option" where
  "hostnameOf parse clientId = map_option url_hostname (parse clientId)"

end
