(* ===== verification/SafeFetch.thy ===== *)
theory SafeFetch
  imports RateLimit Url "HOL-Library.Word"
begin

text \<open>
  \<^verbatim>\<open>clients/safe-fetch.ts\<close>: the hardened outbound fetcher.  DNS, the HTTP peer and the JSON parser
  are parameters; \<open>net_dns\<close> and \<open>net_http\<close> take the hop number, so a name may resolve
  differently on every hop and after it was checked (DNS rebinding).  The state keeps the
  per-host windows, the rejection counters and, in \<open>sent\<close>, every request that left the process
  with the address the socket was pinned to.
\<close>

section \<open>Blocked addresses\<close>

datatype ip_addr = V4 "32 word" | V6 "128 word"

type_synonym subnet4 = "32 word \<times> nat"
type_synonym subnet6 = "128 word \<times> nat"

definition in_subnet4 :: "32 word \<Rightarrow> subnet4 \<Rightarrow> bool" where
  "in_subnet4 a n = (drop_bit (32 - snd n) a = drop_bit (32 - snd n) (fst n))"

definition in_subnet6 :: "128 word \<Rightarrow> subnet6 \<Rightarrow> bool" where
  "in_subnet6 a n = (drop_bit (128 - snd n) a = drop_bit (128 - snd n) (fst n))"

definition SPECIAL_USE_IPV4 :: "subnet4 list" where
  "SPECIAL_USE_IPV4 =
     [(0x00000000, 8), (0x0A000000, 8), (0x64400000, 10), (0x7F000000, 8),
      (0xA9FE0000, 16), (0xAC100000, 12), (0xC0000000, 24), (0xC0000200, 24),
      (0xC0586300, 24), (0xC0A80000, 16), (0xC6120000, 15), (0xC6336400, 24),
      (0xCB007100, 24), (0xE0000000, 4), (0xF0000000, 4)]"

definition SPECIAL_USE_IPV6 :: "subnet6 list" where
  "SPECIAL_USE_IPV6 =
     [(0, 96),
      (0x0064FF9B000000000000000000000000, 96),
      (0x0064FF9B000100000000000000000000, 48),
      (0x01000000000000000000000000000000, 64),
      (0x20010000000000000000000000000000, 23),
      (0x20010DB8000000000000000000000000, 32),
      (0x20020000000000000000000000000000, 16),
      (0x3FFF0000000000000000000000000000, 20),
      (0x5F000000000000000000000000000000, 16),
      (0xFC000000000000000000000000000000, 7),
      (0xFE800000000000000000000000000000, 10),
      (0xFEC00000000000000000000000000000, 10),
      (0xFF000000000000000000000000000000, 8)]"

text \<open>::ffff:0:0/96, the IPv4-mapped prefix.\<close>

definition MAPPED_NET :: subnet6 where
  "MAPPED_NET = (0xFFFF00000000, 96)"

definition map_to_v6 :: "32 word \<Rightarrow> 128 word" where
  "map_to_v6 a = 0xFFFF00000000 + ucast a"

text \<open>
  \<^verbatim>\<open>BlockList.check\<close> of node:net, as documented: an IPv4 address is also compared, in its mapped
  form, with IPv6 subnets, and a mapped IPv6 address with the IPv4 subnets.
\<close>

fun blocklist_check :: "subnet4 list \<Rightarrow> subnet6 list \<Rightarrow> ip_addr \<Rightarrow> bool" where
  "blocklist_check n4 n6 (V4 a) \<longleftrightarrow>
     list_ex (in_subnet4 a) n4 \<or> list_ex (in_subnet6 (map_to_v6 a)) n6"
| "blocklist_check n4 n6 (V6 a) \<longleftrightarrow>
     list_ex (in_subnet6 a) n6 \<or> (in_subnet6 a MAPPED_NET \<and> list_ex (in_subnet4 (ucast a)) n4)"

fun isBlockedAddress :: "ip_addr \<Rightarrow> bool" where
  "isBlockedAddress (V4 a) \<longleftrightarrow> blocklist_check SPECIAL_USE_IPV4 SPECIAL_USE_IPV6 (V4 a)"
| "isBlockedAddress (V6 a) \<longleftrightarrow>
     blocklist_check SPECIAL_USE_IPV4 SPECIAL_USE_IPV6 (V6 a) \<or> blocklist_check [] [MAPPED_NET] (V6 a)"

text \<open>\<^verbatim>\<open>address.startsWith("127.")\<close>, and \<^verbatim>\<open>::1\<close>.\<close>

fun isLoopbackAddress :: "ip_addr \<Rightarrow> bool" where
  "isLoopbackAddress (V4 a) \<longleftrightarrow> in_subnet4 a (0x7F000000, 8)"
| "isLoopbackAddress (V6 a) \<longleftrightarrow> a = 1"

section \<open>State and options\<close>

datatype reject_reason =
    Invalid_url | Invalid_scheme | Insecure_http_not_loopback | Port_not_allowed
  | Dns_resolution_failed | Blocked_address | Rate_limited | Busy | Timeout | Response_too_large
  | Too_many_redirects | Invalid_redirect | Http_error | Invalid_content_type | Invalid_json
  | Connection_error

datatype fetch_pool = Pool_cimd | Pool_resource_metadata | Pool_client_jwks

record fetch_state =
  hostWindows :: "(fetch_pool \<times> string, window) jsmap"
  rejections :: "(reject_reason, nat) jsmap"
  inFlight :: "fetch_pool \<Rightarrow> nat"
  sent :: "(url \<times> ip_addr) list"

record fetch_options =
  fo_maxBytes :: nat
  fo_maxRedirects :: nat
  fo_allowPrivateNetwork :: bool
  fo_allowedPorts :: "nat list option"
  fo_pool :: fetch_pool

datatype dns_result = Dns_timeout | Dns_error | Dns_records "ip_addr list"

text \<open>What the peer sends: a status, headers, the body in chunks, and whether the stream ends or
  breaks; or no response at all.\<close>

record wire_response =
  wr_status :: nat
  wr_headers :: "(string, string) jsmap"
  wr_contentLength :: "nat option"
  wr_chunks :: "string list"
  wr_broken :: bool

datatype wire = Wire_timeout | Wire_error | Wire wire_response

record net =
  net_dns :: "nat \<Rightarrow> string \<Rightarrow> dns_result"
  net_http :: "nat \<Rightarrow> url \<Rightarrow> ip_addr \<Rightarrow> wire"
  net_parse_url :: url_parser
  net_resolve_url :: "string \<Rightarrow> url \<Rightarrow> string option"
  net_parse_json :: "string \<Rightarrow> json option"
  net_allowInsecure :: bool

definition count_rejection :: "reject_reason \<Rightarrow> fetch_state \<Rightarrow> fetch_state" where
  "count_rejection r s =
     s\<lparr>rejections := AList.update r
        (Suc (case jm_get (rejections s) r of None \<Rightarrow> 0 | Some n \<Rightarrow> n)) (rejections s)\<rparr>"

section \<open>The per-host limiter\<close>

definition RATE_LIMIT_MAX :: nat where "RATE_LIMIT_MAX = 10"
definition RATE_LIMIT_WINDOW_MS :: int where "RATE_LIMIT_WINDOW_MS = 60000"

text \<open>\<^verbatim>\<open>rawHostname.toLowerCase().replace(/\.+$/, "")\<close>\<close>

definition canonical_host :: "string \<Rightarrow> string" where
  "canonical_host h = rev (dropWhile (\<lambda>c. c = CHR ''.'') (rev (to_lower h)))"

definition check_window ::
    "time_ms \<Rightarrow> fetch_pool \<times> string \<Rightarrow> (fetch_pool \<times> string, window) jsmap \<Rightarrow>
     (fetch_pool \<times> string, window) jsmap \<times> bool" where
  "check_window now key ws =
     (case jm_get ws key of
        None \<Rightarrow> (AList.update key \<lparr>w_count = 1, w_start = now\<rparr> ws, True)
      | Some e \<Rightarrow>
          if RATE_LIMIT_WINDOW_MS \<le> now - w_start e
          then (AList.update key \<lparr>w_count = 1, w_start = now\<rparr> ws, True)
          else if RATE_LIMIT_MAX \<le> w_count e then (ws, False)
          else (AList.update key (e\<lparr>w_count := Suc (w_count e)\<rparr>) ws, True))"

definition sweep_windows ::
    "time_ms \<Rightarrow> (fetch_pool \<times> string, window) jsmap \<Rightarrow> (fetch_pool \<times> string, window) jsmap" where
  "sweep_windows now ws = filter (\<lambda>(_, w). \<not> RATE_LIMIT_WINDOW_MS \<le> now - w_start w) ws"

definition checkRateLimit :: "time_ms \<Rightarrow> fetch_pool \<Rightarrow> string \<Rightarrow> fetch_state \<Rightarrow> fetch_state \<times> bool" where
  "checkRateLimit now pool rawHostname s =
     (case check_window now (pool, canonical_host rawHostname) (hostWindows s) of
        (ws, ok) \<Rightarrow> (s\<lparr>hostWindows := ws\<rparr>, ok))"

section \<open>Validation of one hop\<close>

definition parseAndValidateScheme :: "net \<Rightarrow> string \<Rightarrow> reject_reason + url" where
  "parseAndValidateScheme n rawUrl =
     (case net_parse_url n rawUrl of
        None \<Rightarrow> Inl Invalid_url
      | Some u \<Rightarrow>
          if url_protocol u = ''https:'' then Inr u
          else if url_protocol u = ''http:'' \<and> net_allowInsecure n then Inr u
          else Inl Invalid_scheme)"

definition checkPort :: "url \<Rightarrow> nat list option \<Rightarrow> bool" where
  "checkPort u allowed =
     (case allowed of
        None \<Rightarrow> True
      | Some ports \<Rightarrow>
          url_protocol u \<noteq> ''https:'' \<or>
          (if url_port u = [] then 443 else number_of (url_port u)) \<in> set ports)"

definition stripBrackets :: "string \<Rightarrow> string" where
  "stripBrackets h =
     (if starts_with ''['' h \<and> ends_with '']'' h then take (length h - 2) (drop 1 h) else h)"

definition resolveAndValidate ::
    "net \<Rightarrow> nat \<Rightarrow> string \<Rightarrow> bool \<Rightarrow> bool \<Rightarrow> reject_reason + ip_addr" where
  "resolveAndValidate n hop rawHostname isHttp allowPrivate =
     (case net_dns n hop (stripBrackets rawHostname) of
        Dns_timeout \<Rightarrow> Inl Timeout
      | Dns_error \<Rightarrow> Inl Dns_resolution_failed
      | Dns_records [] \<Rightarrow> Inl Dns_resolution_failed
      | Dns_records (r # rs) \<Rightarrow>
          if isHttp then
            (if list_all isLoopbackAddress (r # rs) then Inr r else Inl Insecure_http_not_loopback)
          else if \<not> allowPrivate \<and> list_ex isBlockedAddress (r # rs) then Inl Blocked_address
          else Inr r)"

section \<open>The request\<close>

text \<open>Reading the body stops at the first chunk that crosses the cap.\<close>

fun read_chunks :: "nat \<Rightarrow> string \<Rightarrow> string list \<Rightarrow> string option" where
  "read_chunks maxBytes acc [] = Some acc"
| "read_chunks maxBytes acc (c # cs) =
     (if maxBytes < length acc + length c then None else read_chunks maxBytes (acc @ c) cs)"

definition performRequest :: "nat \<Rightarrow> wire \<Rightarrow> reject_reason + (nat \<times> (string, string) jsmap \<times> string)" where
  "performRequest maxBytes w =
     (case w of
        Wire_timeout \<Rightarrow> Inl Timeout
      | Wire_error \<Rightarrow> Inl Connection_error
      | Wire r \<Rightarrow>
          if (case wr_contentLength r of None \<Rightarrow> False | Some n \<Rightarrow> maxBytes < n)
          then Inl Response_too_large
          else case read_chunks maxBytes [] (wr_chunks r) of
                 None \<Rightarrow> Inl Response_too_large
               | Some body \<Rightarrow>
                   if wr_broken r then Inl Connection_error
                   else Inr (wr_status r, wr_headers r, body))"

definition is_word_char :: "char \<Rightarrow> bool" where
  "is_word_char c \<longleftrightarrow> is_alnum c \<or> c = CHR ''_''"

text \<open>\<^verbatim>\<open>/^application\/([\w.+-]+\+)?json\s*(;|$)/i\<close>\<close>

definition is_json_content_type :: "string \<Rightarrow> bool" where
  "is_json_content_type ct \<longleftrightarrow>
     (let l = to_lower ct; rest = drop 12 l;
          m = rev (dropWhile is_space (rev (takeWhile (\<lambda>c. c \<noteq> CHR '';'') rest)));
          y = take (length m - 5) m in
      starts_with ''application/'' l \<and>
      (m = ''json'' \<or>
       (ends_with ''+json'' m \<and> y \<noteq> [] \<and>
        (\<forall>c \<in> set y. is_word_char c \<or> c \<in> set ''.+-''))))"

section \<open>The fetch loop\<close>

type_synonym fetch_result = "reject_reason + (string, string) jsmap \<times> json"

text \<open>Whether a response is a redirect to follow: a 3xx status with a \<^verbatim>\<open>Location\<close>.\<close>

definition redirect_location :: "nat \<Rightarrow> (string, string) jsmap \<Rightarrow> string option" where
  "redirect_location status headers =
     (if 300 \<le> status \<and> status < 400 then
        (case jm_get headers ''location'' of
           None \<Rightarrow> None
         | Some l \<Rightarrow> if l = [] then None else Some l)
      else None)"

text \<open>The checks of one hop before a socket is opened.\<close>

definition validate_hop ::
    "net \<Rightarrow> fetch_options \<Rightarrow> time_ms \<Rightarrow> nat \<Rightarrow> string \<Rightarrow> fetch_state \<Rightarrow>
     fetch_state \<times> (reject_reason + url \<times> ip_addr)" where
  "validate_hop n opts now hop currentUrl s =
     (case parseAndValidateScheme n currentUrl of
        Inl r \<Rightarrow> (s, Inl r)
      | Inr u \<Rightarrow>
          if \<not> checkPort u (fo_allowedPorts opts) then (s, Inl Port_not_allowed)
          else case checkRateLimit now (fo_pool opts) (url_hostname u) s of
                 (s1, False) \<Rightarrow> (s1, Inl Rate_limited)
               | (s1, True) \<Rightarrow>
                   (case resolveAndValidate n hop (url_hostname u) (url_protocol u = ''http:'')
                           (fo_allowPrivateNetwork opts) of
                      Inl r \<Rightarrow> (s1, Inl r)
                    | Inr a \<Rightarrow> (s1, Inr (u, a))))"

text \<open>The treatment of a response that is not a redirect.\<close>

definition finish_response :: "net \<Rightarrow> nat \<Rightarrow> (string, string) jsmap \<Rightarrow> string \<Rightarrow> fetch_result" where
  "finish_response n status headers body =
     (if status < 200 \<or> 300 \<le> status then Inl Http_error
      else if \<not> is_json_content_type
                 (case jm_get headers ''content-type'' of None \<Rightarrow> [] | Some ct \<Rightarrow> ct)
      then Inl Invalid_content_type
      else case net_parse_json n body of
             None \<Rightarrow> Inl Invalid_json
           | Some j \<Rightarrow> Inr (headers, j))"

text \<open>
  \<^verbatim>\<open>safeFetchJsonInner\<close>: \<open>hop\<close> is \<^verbatim>\<open>redirectCount\<close>.  Every rejection is counted.
\<close>

function fetch_loop ::
    "net \<Rightarrow> fetch_options \<Rightarrow> time_ms \<Rightarrow> nat \<Rightarrow> string \<Rightarrow> fetch_state \<Rightarrow> fetch_state \<times> fetch_result" where
  "fetch_loop n opts now hop currentUrl s =
     (case validate_hop n opts now hop currentUrl s of
        (s1, Inl r) \<Rightarrow> (count_rejection r s1, Inl r)
      | (s1, Inr (u, a)) \<Rightarrow>
          (let s2 = s1\<lparr>sent := sent s1 @ [(u, a)]\<rparr> in
           case performRequest (fo_maxBytes opts) (net_http n hop u a) of
             Inl r \<Rightarrow> (count_rejection r s2, Inl r)
           | Inr (status, headers, body) \<Rightarrow>
               (case redirect_location status headers of
                  Some loc \<Rightarrow>
                    if fo_maxRedirects opts \<le> hop
                    then (count_rejection Too_many_redirects s2, Inl Too_many_redirects)
                    else (case net_resolve_url n loc u of
                            None \<Rightarrow> (count_rejection Invalid_redirect s2, Inl Invalid_redirect)
                          | Some next \<Rightarrow> fetch_loop n opts now (Suc hop) next s2)
                | None \<Rightarrow>
                    (case finish_response n status headers body of
                       Inl r \<Rightarrow> (count_rejection r s2, Inl r)
                     | Inr v \<Rightarrow> (s2, Inr v)))))"
  by pat_completeness auto
termination
  by (relation "measure (\<lambda>(n, opts, now, hop, currentUrl, s). fo_maxRedirects opts - hop)") auto

declare fetch_loop.simps [simp del]

section \<open>Entry point and concurrency cap\<close>

definition MAX_CONCURRENT_FETCHES :: nat where "MAX_CONCURRENT_FETCHES = 8"

definition fetch_enter :: "fetch_pool \<Rightarrow> fetch_state \<Rightarrow> fetch_state option" where
  "fetch_enter pool s =
     (if MAX_CONCURRENT_FETCHES \<le> inFlight s pool then None
      else Some (s\<lparr>inFlight := (inFlight s)(pool := Suc (inFlight s pool))\<rparr>))"

definition fetch_leave :: "fetch_pool \<Rightarrow> fetch_state \<Rightarrow> fetch_state" where
  "fetch_leave pool s = s\<lparr>inFlight := (inFlight s)(pool := inFlight s pool - 1)\<rparr>"

definition safeFetchJson ::
    "net \<Rightarrow> fetch_options \<Rightarrow> time_ms \<Rightarrow> string \<Rightarrow> fetch_state \<Rightarrow> fetch_state \<times> fetch_result" where
  "safeFetchJson n opts now u s =
     (case fetch_enter (fo_pool opts) s of
        None \<Rightarrow> (count_rejection Busy s, Inl Busy)
      | Some s1 \<Rightarrow>
          (case fetch_loop n opts now 0 u s1 of
             (s2, r) \<Rightarrow> (fetch_leave (fo_pool opts) s2, r)))"

section \<open>Facts about the block list\<close>

lemma in_subnet4_range:
  "in_subnet4 a (n, p) \<longleftrightarrow> uint a div 2 ^ (32 - p) = uint n div 2 ^ (32 - p)"
  by (simp add: in_subnet4_def word_uint_eq_iff unsigned_drop_bit_eq drop_bit_eq_div [where 'a = int] bintr_uint)

lemma in_subnet6_range:
  "in_subnet6 a (n, p) \<longleftrightarrow> uint a div 2 ^ (128 - p) = uint n div 2 ^ (128 - p)"
  by (simp add: in_subnet6_def word_uint_eq_iff unsigned_drop_bit_eq drop_bit_eq_div [where 'a = int] bintr_uint)

lemma uint_map_to_v6: "uint (map_to_v6 a) = 0xFFFF00000000 + uint a"
proof -
  have "uint a < 2 ^ 32" using uint_lt2p [of a] by simp
  moreover have "0 \<le> uint a" by simp
  ultimately show ?thesis
    by (simp add: map_to_v6_def uint_word_ariths uint_up_ucast is_up)
qed

lemma div_eq_interval:
  fixes x q d :: int
  assumes "0 < d"
  shows "x div d = q \<longleftrightarrow> d * q \<le> x \<and> x < d * q + d"
proof
  have e: "x = d * (x div d) + x mod d" by simp
  have m: "0 \<le> x mod d" "x mod d < d" using assms by simp_all
  assume "x div d = q"
  with e have "x = d * q + x mod d" by simp
  with m show "d * q \<le> x \<and> x < d * q + d" by linarith
next
  assume "d * q \<le> x \<and> x < d * q + d"
  then show "x div d = q" by (intro int_div_pos_eq [of x d q "x - d * q"]) auto
qed

lemma in_subnet6_mapped:
  "in_subnet6 (map_to_v6 a) (n, p) \<longleftrightarrow>
     2 ^ (128 - p) * (uint n div 2 ^ (128 - p)) \<le> 0xFFFF00000000 + uint a \<and>
     0xFFFF00000000 + uint a < 2 ^ (128 - p) * (uint n div 2 ^ (128 - p)) + 2 ^ (128 - p)"
  by (simp add: in_subnet6_range uint_map_to_v6 div_eq_interval)

lemma v4_not_in_v6_list: "\<not> list_ex (in_subnet6 (map_to_v6 a)) SPECIAL_USE_IPV6"
proof -
  have "uint a < 2 ^ 32" using uint_lt2p [of a] by simp
  moreover have "0 \<le> uint a" by simp
  then have "\<not> 281466386776064 + uint a < 0" by linarith
  ultimately show ?thesis
    by (simp add: SPECIAL_USE_IPV6_def in_subnet6_mapped)
qed

lemma mapped_in_net: "in_subnet6 (map_to_v6 a) MAPPED_NET"
proof -
  have "uint a < 2 ^ 32" using uint_lt2p [of a] by simp
  moreover have "0 \<le> uint a" by simp
  ultimately show ?thesis
    by (simp add: MAPPED_NET_def in_subnet6_mapped)
qed
lemma isBlocked_V4: "isBlockedAddress (V4 a) \<longleftrightarrow> list_ex (in_subnet4 a) SPECIAL_USE_IPV4"
  by (simp add: v4_not_in_v6_list)

lemma isBlocked_V6_mapped: "isBlockedAddress (V6 (map_to_v6 a))"
  by (simp add: mapped_in_net)

section \<open>The host limiter meets the contract\<close>

definition host_win :: "(fetch_pool \<times> string, window) jsmap \<Rightarrow> fetch_pool \<times> string \<Rightarrow> (time_ms \<times> nat) option" where
  "host_win ws k = map_option (\<lambda>w. (w_start w, w_count w)) (jm_get ws k)"

interpretation host_limiter: fixed_window check_window sweep_windows host_win
    "\<lambda>K ws. distinct (map fst ws)" RATE_LIMIT_WINDOW_MS RATE_LIMIT_MAX
proof (unfold_locales, goal_cases)
  case (1 K s k t s')
  then show ?case
    by (auto simp: check_window_def host_win_def RATE_LIMIT_MAX_def simp del: map_of_eq_Some_iff
        split: option.splits if_splits)
next
  case (2 K s k t s')
  then show ?case by (auto simp: check_window_def split: option.splits if_splits)
next
  case (3 K s k j t)
  then show ?case by (auto simp: check_window_def host_win_def split: option.splits)
next
  case (4 K s k t)
  then show ?case by (auto simp: check_window_def distinct_update split: option.splits)
next
  case (5 K s t k)
  then show ?case
  proof (induction s)
    case (Cons e s)
    obtain j w where e: "e = (j, w)" by fastforce
    have "k \<notin> fst ` set s \<Longrightarrow> jm_get (sweep_windows t s) k = None"
      by (auto simp: sweep_windows_def map_of_eq_None_iff)
    with Cons e show ?case by (auto simp: sweep_windows_def host_win_def)
  qed (simp add: sweep_windows_def)
next
  case (6 K s t)
  then show ?case by (auto simp: sweep_windows_def distinct_map inj_on_def)
qed

section \<open>Facts about the loop\<close>

lemma count_rejection_sent [simp]: "sent (count_rejection r s) = sent s"
  "inFlight (count_rejection r s) = inFlight s"
  by (simp_all add: count_rejection_def)

lemma checkRateLimit_sent:
  "checkRateLimit now pool h s = (s', ok) \<Longrightarrow> sent s' = sent s \<and> inFlight s' = inFlight s"
  by (auto simp: checkRateLimit_def split: prod.splits)

text \<open>What a hop that passes has been checked for.\<close>

definition hop_ok :: "net \<Rightarrow> fetch_options \<Rightarrow> url \<Rightarrow> ip_addr \<Rightarrow> bool" where
  "hop_ok n opts u a \<longleftrightarrow>
     (url_protocol u = ''https:'' \<and> (fo_allowPrivateNetwork opts \<or> \<not> isBlockedAddress a) \<and>
        checkPort u (fo_allowedPorts opts) \<or>
      url_protocol u = ''http:'' \<and> net_allowInsecure n \<and> isLoopbackAddress a)"

lemma resolveAndValidate_InrD:
  "resolveAndValidate n hop h isHttp priv = Inr a \<Longrightarrow>
     (if isHttp then isLoopbackAddress a else priv \<or> \<not> isBlockedAddress a)"
  by (auto simp: resolveAndValidate_def split: dns_result.splits list.splits if_splits)

lemma validate_hop_InrD:
  assumes "validate_hop n opts now hop cu s = (s1, Inr (u, a))"
  shows "hop_ok n opts u a" and "sent s1 = sent s" and "inFlight s1 = inFlight s"
  using assms
  by (auto simp: validate_hop_def parseAndValidateScheme_def hop_ok_def
      split: option.splits sum.splits if_splits prod.splits bool.splits
      dest!: resolveAndValidate_InrD checkRateLimit_sent)

lemma validate_hop_InlD:
  assumes "validate_hop n opts now hop cu s = (s1, Inl r)"
  shows "sent s1 = sent s" and "inFlight s1 = inFlight s"
  using assms
  by (auto simp: validate_hop_def split: option.splits sum.splits if_splits prod.splits bool.splits
      dest!: checkRateLimit_sent)

text \<open>Every request the loop sends was validated, and it sends at most one per hop allowed.\<close>

lemma fetch_loop_sent:
  assumes "fetch_loop n opts now hop cu s = (s', r)"
  shows "\<exists>reqs. sent s' = sent s @ reqs \<and> (\<forall>(u, a) \<in> set reqs. hop_ok n opts u a) \<and>
           length reqs \<le> Suc (fo_maxRedirects opts - hop) \<and> inFlight s' = inFlight s"
  using assms
proof (induction n opts now hop cu s arbitrary: s' r rule: fetch_loop.induct)
  case (1 n opts now hop cu s)
  obtain s1 v where v: "validate_hop n opts now hop cu s = (s1, v)" by fastforce
  show ?case
  proof (cases v)
    case (Inl e)
    with v 1(2) validate_hop_InlD [of n opts now hop cu s s1 e] show ?thesis
      by (auto simp: fetch_loop.simps [of n opts now hop cu s])
  next
    case (Inr ua)
    then obtain u a where v': "validate_hop n opts now hop cu s = (s1, Inr (u, a))"
      using v by (cases ua) auto
    note ok = validate_hop_InrD [OF v']
    let ?s2 = "s1\<lparr>sent := sent s1 @ [(u, a)]\<rparr>"
    show ?thesis
    proof (cases "\<exists>st h b loc nx. performRequest (fo_maxBytes opts) (net_http n hop u a) = Inr (st, h, b)
        \<and> redirect_location st h = Some loc \<and> \<not> fo_maxRedirects opts \<le> hop \<and> net_resolve_url n loc u = Some nx")
      case True
      then obtain st h b loc nx where
        p: "performRequest (fo_maxBytes opts) (net_http n hop u a) = Inr (st, h, b)"
        and l: "redirect_location st h = Some loc" and m: "\<not> fo_maxRedirects opts \<le> hop"
        and x: "net_resolve_url n loc u = Some nx" by blast
      from 1(2) v' p l m x have rec: "fetch_loop n opts now (Suc hop) nx ?s2 = (s', r)"
        by (simp add: fetch_loop.simps [of n opts now hop cu s])
      from 1(1) [OF v' [symmetric] refl refl refl p refl refl l m x rec]
      obtain reqs where "sent s' = sent ?s2 @ reqs" "\<forall>(u, a) \<in> set reqs. hop_ok n opts u a"
        "length reqs \<le> Suc (fo_maxRedirects opts - Suc hop)" "inFlight s' = inFlight s1" by auto
      with ok m show ?thesis by (intro exI [of _ "(u, a) # reqs"]) auto
    next
      case False
      with 1(2) v' have "sent s' = sent ?s2 \<and> inFlight s' = inFlight s1"
        by (auto simp: fetch_loop.simps [of n opts now hop cu s] Let_def
            split: sum.splits prod.splits option.splits if_splits)
      with ok show ?thesis by auto
    qed
  qed
qed

lemma read_chunks_bound:
  "read_chunks m acc cs = Some b \<Longrightarrow> length acc \<le> m \<Longrightarrow> length b \<le> m"
  by (induction m acc cs rule: read_chunks.induct) (auto split: if_splits)

lemma safeFetchJson_sent:
  assumes "safeFetchJson n opts now u s = (s', r)"
  shows "\<exists>reqs. sent s' = sent s @ reqs \<and> (\<forall>(u, a) \<in> set reqs. hop_ok n opts u a) \<and>
           length reqs \<le> Suc (fo_maxRedirects opts)"
proof (cases "fetch_enter (fo_pool opts) s")
  case None
  with assms show ?thesis by (auto simp: safeFetchJson_def)
next
  case (Some s1)
  obtain s2 r2 where l: "fetch_loop n opts now 0 u s1 = (s2, r2)" by fastforce
  from Some have "sent s1 = sent s" by (auto simp: fetch_enter_def split: if_splits)
  with assms Some l fetch_loop_sent [OF l] show ?thesis
    by (auto simp: safeFetchJson_def fetch_leave_def)
qed

lemma safeFetchJson_inFlight:
  assumes "safeFetchJson n opts now u s = (s', r)"
  shows "inFlight s' = inFlight s"
proof (cases "fetch_enter (fo_pool opts) s")
  case None
  with assms show ?thesis by (auto simp: safeFetchJson_def)
next
  case (Some s1)
  obtain s2 r2 where l: "fetch_loop n opts now 0 u s1 = (s2, r2)" by fastforce
  with fetch_loop_sent [OF l] have "inFlight s2 = inFlight s1" by auto
  with assms Some l show ?thesis
    by (auto simp: safeFetchJson_def fetch_leave_def fetch_enter_def fun_eq_iff split: if_splits)
qed

end
