(* ===== verification/Schema.thy ===== *)
theory Schema
  imports Prelude
begin

text \<open>
  The persistent state: one record per model of \<^verbatim>\<open>packages/proxy/prisma/schema.prisma\<close>
  (columns the code never reads or writes are left out) and the database as one record of row
  lists.  The record is extensible: the theories of the in-memory components extend it, and the
  operations below work on any extension.  Unique keys of the schema are the \<^emph>\<open>key\<close> functions
  given to \<^const>\<open>row_of\<close> and \<^const>\<open>create_row\<close>; \<open>db_keys_ok\<close> says they are unique.
\<close>

section \<open>Users\<close>

record user =
  u_id :: string
  u_oidcSub :: "string option"
  u_oidcIssuer :: "string option"
  u_email :: string
  u_deactivatedAt :: "time_ms option"
  u_sessionEpoch :: nat
  u_deviceEpoch :: nat
  u_lastKnownClaims :: "json option"
  u_upstreamRefreshToken :: "string option"
  u_upstreamCheckedAt :: "time_ms option"

record local_user =
  lu_id :: string
  lu_username :: string
  lu_passwordHash :: string
  lu_lastLoginAt :: "time_ms option"
  lu_isActive :: bool
  lu_isAdmin :: bool
  lu_userId :: string

datatype login_failure_kind = LF_login | LF_device | LF_password_change | LF_setup

record login_failure =
  lf_id :: nat
  lf_kind :: login_failure_kind
  lf_ip :: string
  lf_username :: "string option"
  lf_failedAt :: time_ms

section \<open>Signing keys, clients, denylist\<close>

record signing_key =
  sk_kid :: string
  sk_publicJwk :: json
  sk_privateJwk :: json
  sk_activatedAt :: "time_ms option"
  sk_retiredAt :: "time_ms option"

datatype client_source = Cimd | Dcr
datatype trust_level = Allowlisted | Domain_verified | Unverified

record oauth_client =
  oc_clientId :: string
  oc_source :: client_source
  oc_metadata :: json
  oc_trustLevel :: trust_level
  oc_fetchedAt :: time_ms
  oc_expiresAt :: "time_ms option"
  oc_lastSeenAt :: time_ms

datatype deny_kind = Deny_client_id | Deny_domain

record denied_client =
  dn_kind :: deny_kind
  dn_value :: string
  dn_reason :: "string option"

section \<open>Resource servers\<close>

record scope_policy =
  sp_scopeName :: string
  sp_shortLived :: bool
  sp_freshSignIn :: bool
  sp_requireGroups :: "string list"
  sp_descriptionOverride :: "string option"

record server_row =
  sr_id :: string
  sr_identifier :: string
  sr_displayName :: string
  sr_enabled :: bool
  sr_internal :: bool
  sr_releaseClaims :: "string list"
  sr_metadata :: "json option"
  sr_metadataFetchedAt :: "time_ms option"
  sr_metadataExpiresAt :: "time_ms option"
  sr_lastFetchError :: "string option"
  sr_lastFetchAttemptAt :: "time_ms option"
  sr_pendingMetadata :: "json option"
  sr_pendingSince :: "time_ms option"
  sr_approvedAt :: time_ms
  sr_approvedBy :: string
  sr_updatedAt :: time_ms
  sr_scopePolicies :: "scope_policy list"

record audit_row =
  au_actor :: string
  au_action :: string
  au_target :: string
  au_before :: "json option"
  au_after :: "json option"

section \<open>Flow state\<close>

datatype flow_type = FT_oauth | FT_self_login | FT_device

record auth_request =
  ar_handle :: string
  ar_flowType :: flow_type
  ar_clientId :: string
  ar_resource :: string
  ar_scopes :: "string list"
  ar_redirectUri :: string
  ar_state :: "string option"
  ar_codeChallenge :: string
  ar_codeChallengeMethod :: string
  ar_upstreamState :: "string option"
  ar_upstreamNonce :: "string option"
  ar_upstreamVerifier :: "string option"
  ar_subject :: "string option"
  ar_requireFreshLogin :: bool
  ar_shownClaims :: "string list"
  ar_expiresAt :: time_ms

record auth_code =
  ac_codeHash :: string
  ac_userId :: string
  ac_clientId :: string
  ac_codeChallenge :: string
  ac_codeChallengeMethod :: string
  ac_resource :: string
  ac_scopes :: "string list"
  ac_redirectUri :: string
  ac_grantId :: string
  ac_expiresAt :: time_ms
  ac_consumedAt :: "time_ms option"

datatype device_status = DS_pending | DS_approved | DS_denied | DS_consumed

record device_code =
  dv_deviceCodeHash :: string
  dv_userCode :: string
  dv_clientId :: string
  dv_resource :: string
  dv_scopes :: "string list"
  dv_status :: device_status
  dv_userId :: "string option"
  dv_lastPolledAt :: "time_ms option"
  dv_pollInterval :: int
  dv_expiresAt :: time_ms

section \<open>Grants and refresh tokens\<close>

record grant =
  gr_id :: string
  gr_userId :: string
  gr_clientId :: string
  gr_resource :: string
  gr_scopes :: "string list"
  gr_releasedClaims :: "string list"
  gr_grantedAt :: time_ms
  gr_revokedAt :: "time_ms option"

record refresh_token =
  rt_tokenHash :: string
  rt_userId :: string
  rt_clientId :: string
  rt_resource :: string
  rt_scopes :: "string list"
  rt_grantId :: string
  rt_expiresAt :: time_ms
  rt_rotatedTo :: "string option"
  rt_revokedAt :: "time_ms option"

section \<open>The database\<close>

record db =
  users :: "user list"
  localUsers :: "local_user list"
  loginFailures :: "login_failure list"
  signingKeys :: "signing_key list"
  oauthClients :: "oauth_client list"
  deniedClients :: "denied_client list"
  resourceServers :: "server_row list"
  adminAuditLog :: "audit_row list"
  authRequests :: "auth_request list"
  authCodes :: "auth_code list"
  deviceCodes :: "device_code list"
  grants :: "grant list"
  refreshTokens :: "refresh_token list"

definition grant_key :: "grant \<Rightarrow> string \<times> string \<times> string" where
  "grant_key g = (gr_userId g, gr_clientId g, gr_resource g)"

definition denied_key :: "denied_client \<Rightarrow> deny_kind \<times> string" where
  "denied_key d = (dn_kind d, dn_value d)"

text \<open>The unique constraints of the schema that the lemmas rely on.\<close>

definition db_keys_ok :: "'a db_scheme \<Rightarrow> bool" where
  "db_keys_ok s \<longleftrightarrow>
     distinct (map u_id (users s)) \<and>
     distinct (map ar_handle (authRequests s)) \<and>
     distinct (map ac_codeHash (authCodes s)) \<and>
     distinct (map dv_deviceCodeHash (deviceCodes s)) \<and>
     distinct (map gr_id (grants s)) \<and>
     distinct (map grant_key (grants s)) \<and>
     distinct (map rt_tokenHash (refreshTokens s))"

definition empty_db :: db where
  "empty_db = \<lparr>users = [], localUsers = [], loginFailures = [], signingKeys = [],
     oauthClients = [], deniedClients = [], resourceServers = [], adminAuditLog = [],
     authRequests = [], authCodes = [], deviceCodes = [], grants = [], refreshTokens = []\<rparr>"

text \<open>
  A user who may receive tokens and hold sessions: not deactivated, and with no local account or
  an active one.  The same \<^verbatim>\<open>where\<close> clause stands in \<^verbatim>\<open>isUserActive\<close> (oauth/token.ts) and in
  \<^verbatim>\<open>getSession\<close> (identity/session.ts).
\<close>

definition is_user_active :: "'a db_scheme \<Rightarrow> string \<Rightarrow> bool" where
  "is_user_active s userId \<longleftrightarrow>
     (\<exists>u \<in> set (users s). u_id u = userId \<and> u_deactivatedAt u = None \<and>
        (case row_of lu_userId userId (localUsers s) of
           None \<Rightarrow> True | Some l \<Rightarrow> lu_isActive l))"

end
