(* ===== verification/Registry.thy ===== *)
theory Registry
  imports Schema
begin

text \<open>
  \<^verbatim>\<open>resource-registry.ts\<close>, \<^verbatim>\<open>reserved-claims.ts\<close>, \<^verbatim>\<open>identity/released-claims.ts\<close> and
  \<^verbatim>\<open>oauth/fresh-sign-in.ts\<close>: the in-memory registry of resource servers (operator policy joined
  with the stored metadata snapshot), its reload with generations, the released identity claims
  and the group gates.
\<close>

section \<open>Scopes and servers\<close>

record scope =
  s_name :: string
  s_description :: string
  s_shortLived :: bool
  s_freshSignIn :: bool
  s_requireGroups :: "string list option"

record resource_server =
  rs_identifier :: string
  rs_name :: string
  rs_scopes :: "scope list"
  rs_releaseClaims :: "string list"

text \<open>A scope of the stored snapshot (\<^verbatim>\<open>DeclaredScope\<close> in resource-servers/metadata.ts).\<close>

record declared_scope =
  d_name :: string
  d_description :: string
  d_stepUp :: bool
  d_shortLived :: bool
  d_freshSignIn :: bool

text \<open>
  \<^verbatim>\<open>snapshotSchema\<close>: every entry has a non-empty name, a description and \<^verbatim>\<open>shortLived\<close>; the two
  younger flags default to false; other members are ignored.
\<close>

fun flag_default :: "json option \<Rightarrow> bool option" where
  "flag_default None = Some False"
| "flag_default (Some (JBool b)) = Some b"
| "flag_default (Some _) = None"

fun parse_snapshot_scope :: "json \<Rightarrow> declared_scope option" where
  "parse_snapshot_scope (JObj fs) =
     (case (map_of fs ''name'', map_of fs ''description'', map_of fs ''shortLived'',
            flag_default (map_of fs ''stepUp''), flag_default (map_of fs ''freshSignIn'')) of
        (Some (JStr n), Some (JStr d), Some (JBool sl), Some su, Some fr) \<Rightarrow>
          if n = [] then None
          else Some \<lparr>d_name = n, d_description = d, d_stepUp = su, d_shortLived = sl,
                     d_freshSignIn = fr\<rparr>
      | _ \<Rightarrow> None)"
| "parse_snapshot_scope _ = None"

fun all_some :: "'a option list \<Rightarrow> 'a list option" where
  "all_some [] = Some []"
| "all_some (None # xs) = None"
| "all_some (Some x # xs) = map_option ((#) x) (all_some xs)"

definition parse_snapshot :: "json \<Rightarrow> declared_scope list option" where
  "parse_snapshot j =
     (case member j ''scopes'' of
        Some (JArr es) \<Rightarrow> all_some (map parse_snapshot_scope es)
      | _ \<Rightarrow> None)"

section \<open>Joining policy and snapshot\<close>

text \<open>One scope: policy can only tighten what the server declares.\<close>

definition join_scope :: "(string \<Rightarrow> scope_policy option) \<Rightarrow> declared_scope \<Rightarrow> scope" where
  "join_scope policies d =
     (let policy = policies (d_name d);
          fresh = (d_freshSignIn d \<or>
                   (case policy of None \<Rightarrow> False | Some p \<Rightarrow> sp_freshSignIn p)) in
      \<lparr>s_name = d_name d,
       s_description =
         (case policy of None \<Rightarrow> d_description d
          | Some p \<Rightarrow> (case sp_descriptionOverride p of None \<Rightarrow> d_description d | Some t \<Rightarrow> t)),
       s_shortLived = (d_shortLived d \<or> d_stepUp d \<or> fresh \<or>
                       (case policy of None \<Rightarrow> False | Some p \<Rightarrow> sp_shortLived p)),
       s_freshSignIn = fresh,
       s_requireGroups =
         (case policy of None \<Rightarrow> None
          | Some p \<Rightarrow> if sp_requireGroups p \<noteq> [] then Some (sp_requireGroups p) else None)\<rparr>)"

fun join_scopes ::
    "(string \<Rightarrow> scope_policy option) \<Rightarrow> string list \<Rightarrow> declared_scope list \<Rightarrow> scope list" where
  "join_scopes policies seen [] = []"
| "join_scopes policies seen (d # ds) =
     (if d_name d \<in> set seen then join_scopes policies seen ds
      else join_scope policies d # join_scopes policies (d_name d # seen) ds)"

text \<open>\<^verbatim>\<open>new Map(entries)\<close>: the last entry of a key wins.\<close>

definition policy_map :: "scope_policy list \<Rightarrow> string \<Rightarrow> scope_policy option" where
  "policy_map ps = map_of (rev (map (\<lambda>p. (sp_scopeName p, p)) ps))"

definition joinResourceServer :: "server_row \<Rightarrow> resource_server option" where
  "joinResourceServer row =
     (if \<not> sr_enabled row then None
      else case sr_metadata row of
        None \<Rightarrow> None
      | Some m \<Rightarrow>
          (case parse_snapshot m of
             None \<Rightarrow> None
           | Some declared \<Rightarrow>
               Some \<lparr>rs_identifier = sr_identifier row, rs_name = sr_displayName row,
                     rs_scopes = join_scopes (policy_map (sr_scopePolicies row)) [] declared,
                     rs_releaseClaims = sr_releaseClaims row\<rparr>))"

section \<open>The registry and its reload\<close>

type_synonym registry = "(string, resource_server) jsmap"

record registry_state = db +
  registry :: registry
  nextGeneration :: nat
  appliedGeneration :: nat
  notifications :: nat

fun build_registry :: "server_row list \<Rightarrow> registry \<Rightarrow> registry" where
  "build_registry [] acc = acc"
| "build_registry (row # rows) acc =
     build_registry rows
       (case joinResourceServer row of
          None \<Rightarrow> acc
        | Some server \<Rightarrow> AList.update (rs_identifier server) server acc)"

text \<open>
  \<^verbatim>\<open>loadRegistry\<close> in its two halves, because another load can run between them: the start takes a
  generation and reads the enabled rows, the end swaps the new view in unless a load that
  started later has been applied already.
\<close>

definition load_start :: "'a registry_state_scheme \<Rightarrow> 'a registry_state_scheme \<times> nat \<times> server_row list" where
  "load_start s =
     (let g = Suc (nextGeneration s) in
      (s\<lparr>nextGeneration := g\<rparr>, g, filter sr_enabled (resourceServers s)))"

definition load_end :: "nat \<Rightarrow> server_row list \<Rightarrow> 'a registry_state_scheme \<Rightarrow> 'a registry_state_scheme" where
  "load_end g rows s =
     (if g < appliedGeneration s then s
      else s\<lparr>appliedGeneration := g, registry := build_registry rows []\<rparr>)"

definition loadRegistry :: "'a registry_state_scheme \<Rightarrow> 'a registry_state_scheme" where
  "loadRegistry s = (case load_start s of (s', g, rows) \<Rightarrow> load_end g rows s')"

definition lookupResourceServer :: "'a registry_state_scheme \<Rightarrow> string \<Rightarrow> resource_server option" where
  "lookupResourceServer s identifier = jm_get (registry s) identifier"

definition isRegisteredResource :: "'a registry_state_scheme \<Rightarrow> string \<Rightarrow> bool" where
  "isRegisteredResource s identifier \<longleftrightarrow> jm_has identifier (registry s)"

definition find_scope :: "resource_server \<Rightarrow> string \<Rightarrow> scope option" where
  "find_scope server name = List.find (\<lambda>sc. s_name sc = name) (rs_scopes server)"

definition declared_names :: "resource_server \<Rightarrow> string list" where
  "declared_names server = map s_name (rs_scopes server)"

definition requestsFreshSignIn :: "resource_server option \<Rightarrow> string list \<Rightarrow> bool" where
  "requestsFreshSignIn server scopes =
     (case server of None \<Rightarrow> False
      | Some rs \<Rightarrow> \<exists>name \<in> set scopes. \<exists>sc \<in> set (rs_scopes rs). s_name sc = name \<and> s_freshSignIn sc)"

section \<open>Reserved and released claims\<close>

definition RESERVED_CLAIMS :: "string list" where
  "RESERVED_CLAIMS =
     [''iss'', ''sub'', ''aud'', ''exp'', ''nbf'', ''iat'', ''jti'', ''client_id'', ''scope'', ''cnf'',
      ''act'', ''azp'', ''nonce'', ''auth_time'', ''typ'', ''token_type'', ''may_act'', ''acr'', ''amr'',
      ''sid'', ''__proto__'', ''constructor'', ''prototype'']"

datatype claims_problem = EmptyClaimName | ReservedClaim string | RepeatedClaim string

fun release_claims_problem :: "string list \<Rightarrow> string list \<Rightarrow> claims_problem option" where
  "release_claims_problem seen [] = None"
| "release_claims_problem seen (n # ns) =
     (if n = [] then Some EmptyClaimName
      else if n \<in> set RESERVED_CLAIMS then Some (ReservedClaim n)
      else if n \<in> set seen then Some (RepeatedClaim n)
      else release_claims_problem (n # seen) ns)"

definition releaseClaimsProblem :: "string list \<Rightarrow> claims_problem option" where
  "releaseClaimsProblem names = release_claims_problem [] names"

definition normalizedClaim :: "json option \<Rightarrow> string \<Rightarrow> (string, string) jsmap \<Rightarrow> json option" where
  "normalizedClaim upstream name claimMap =
     (case upstream of
        Some (JObj fs) \<Rightarrow>
          (let source = (case jm_get claimMap name of Some src \<Rightarrow> src | None \<Rightarrow> name) in map_of fs source)
      | _ \<Rightarrow> None)"

definition consentedClaimNames :: "string list \<Rightarrow> string list \<Rightarrow> string list" where
  "consentedClaimNames grantReleased registryReleased =
     filter (\<lambda>name. name \<in> set grantReleased) registryReleased"

text \<open>
  \<^verbatim>\<open>JSON.stringify(value).length\<close> is the parameter \<open>json_len\<close>.  A reserved name throws; a value
  that is absent, null or longer than 4096 characters is left out.
\<close>

definition MAX_CLAIM_JSON_LENGTH :: nat where
  "MAX_CLAIM_JSON_LENGTH = 4096"

fun selectReleasedClaims ::
    "(json \<Rightarrow> nat) \<Rightarrow> json option \<Rightarrow> string list \<Rightarrow> (string, string) jsmap \<Rightarrow>
     (string, json) jsmap \<Rightarrow> string + (string, json) jsmap" where
  "selectReleasedClaims json_len upstream [] claimMap out = Inr out"
| "selectReleasedClaims json_len upstream (name # names) claimMap out =
     (if name \<in> set RESERVED_CLAIMS then Inl name
      else case normalizedClaim upstream name claimMap of
             None \<Rightarrow> selectReleasedClaims json_len upstream names claimMap out
           | Some v \<Rightarrow>
               if v = JNull \<or> MAX_CLAIM_JSON_LENGTH < json_len v
               then selectReleasedClaims json_len upstream names claimMap out
               else selectReleasedClaims json_len upstream names claimMap (AList.update name v out))"

definition groupsFromClaims :: "json option \<Rightarrow> (string, string) jsmap \<Rightarrow> string list" where
  "groupsFromClaims upstream claimMap =
     (case normalizedClaim upstream ''groups'' claimMap of
        Some (JArr gs) \<Rightarrow> json_strings gs
      | _ \<Rightarrow> [])"

definition groupsSatisfy :: "string list \<Rightarrow> string list option \<Rightarrow> bool" where
  "groupsSatisfy userGroups requireGroups =
     (case requireGroups of
        None \<Rightarrow> True
      | Some gs \<Rightarrow> gs = [] \<or> (\<exists>g \<in> set gs. g \<in> set userGroups))"

definition loadLastKnownClaims :: "'a db_scheme \<Rightarrow> string \<Rightarrow> json option" where
  "loadLastKnownClaims s userId =
     (case row_of u_id userId (users s) of None \<Rightarrow> None | Some u \<Rightarrow> u_lastKnownClaims u)"

definition loadReleasedClaims ::
    "(json \<Rightarrow> nat) \<Rightarrow> (string, string) jsmap \<Rightarrow> 'a db_scheme \<Rightarrow> string \<Rightarrow> string list \<Rightarrow>
     string + (string, json) jsmap" where
  "loadReleasedClaims json_len claimMap s userId names =
     (if names = [] then Inr []
      else selectReleasedClaims json_len (loadLastKnownClaims s userId) names claimMap [])"

definition loadUserGroups :: "(string, string) jsmap \<Rightarrow> 'a db_scheme \<Rightarrow> string \<Rightarrow> string list" where
  "loadUserGroups claimMap s userId = groupsFromClaims (loadLastKnownClaims s userId) claimMap"

section \<open>Facts\<close>

lemma join_scopes_names_subset:
  "s_name ` set (join_scopes ps seen ds) \<subseteq> d_name ` set ds"
  by (induction ps seen ds rule: join_scopes.induct) (auto simp: join_scope_def Let_def)

lemma join_scopes_not_seen:
  "sc \<in> set (join_scopes ps seen ds) \<Longrightarrow> s_name sc \<notin> set seen"
  by (induction ps seen ds rule: join_scopes.induct)
    (auto simp: join_scope_def Let_def split: if_splits)

lemma join_scopes_distinct: "distinct (map s_name (join_scopes ps seen ds))"
  by (induction ps seen ds rule: join_scopes.induct)
    (auto simp: join_scope_def Let_def dest: join_scopes_not_seen)

lemma join_scopes_source:
  "sc \<in> set (join_scopes ps seen ds) \<Longrightarrow> \<exists>d \<in> set ds. sc = join_scope ps d"
  by (induction ps seen ds rule: join_scopes.induct) (auto split: if_splits)

lemma joinResourceServer_SomeD:
  assumes "joinResourceServer row = Some rs"
  obtains m ds where "sr_enabled row" "sr_metadata row = Some m" "parse_snapshot m = Some ds"
    "rs = \<lparr>rs_identifier = sr_identifier row, rs_name = sr_displayName row,
           rs_scopes = join_scopes (policy_map (sr_scopePolicies row)) [] ds,
           rs_releaseClaims = sr_releaseClaims row\<rparr>"
  using assms by (auto simp: joinResourceServer_def split: if_splits option.splits)

lemma isRegistered_lookup: "isRegisteredResource s r \<longleftrightarrow> lookupResourceServer s r \<noteq> None"
  by (simp add: isRegisteredResource_def lookupResourceServer_def jm_has_get)

lemma find_scope_SomeD:
  assumes "find_scope rs n = Some sc" shows "sc \<in> set (rs_scopes rs)" and "s_name sc = n"
  using assms by (auto simp: find_scope_def find_Some_iff)

text \<open>Every entry of a built registry is the join of some row, under the row's identifier.\<close>

lemma build_registry_get:
  "jm_get (build_registry rows acc) k = Some rs \<Longrightarrow>
     jm_get acc k = Some rs \<or>
     (\<exists>row \<in> set rows. joinResourceServer row = Some rs \<and> rs_identifier rs = k)"
  by (induction rows arbitrary: acc) (fastforce split: option.splits if_splits)+

lemma build_registry_sound:
  assumes "jm_get (build_registry rows []) k = Some rs"
  shows "\<exists>row \<in> set rows. joinResourceServer row = Some rs \<and> sr_identifier row = k"
proof -
  from build_registry_get [OF assms] obtain row where row: "row \<in> set rows"
    "joinResourceServer row = Some rs" "rs_identifier rs = k" by auto
  then have "sr_identifier row = k" by (auto elim: joinResourceServer_SomeD)
  with row show ?thesis by blast
qed

text \<open>What the registry promises about every server it holds.\<close>

definition registry_ok :: "registry \<Rightarrow> bool" where
  "registry_ok m \<longleftrightarrow>
     (\<forall>k rs. jm_get m k = Some rs \<longrightarrow> rs_identifier rs = k \<and> distinct (declared_names rs) \<and>
        (\<forall>sc \<in> set (rs_scopes rs). s_freshSignIn sc \<longrightarrow> s_shortLived sc))"

lemma registry_ok_build: "registry_ok (build_registry rows [])"
proof -
  have "rs_identifier rs = k \<and> distinct (declared_names rs) \<and>
        (\<forall>sc \<in> set (rs_scopes rs). s_freshSignIn sc \<longrightarrow> s_shortLived sc)"
    if get: "jm_get (build_registry rows []) k = Some rs" for k rs
  proof -
    from build_registry_sound [OF get] obtain row where
      "joinResourceServer row = Some rs" and "sr_identifier row = k" by blast
    then show ?thesis
      by (elim joinResourceServer_SomeD)
        (auto simp: declared_names_def join_scopes_distinct join_scope_def Let_def
          dest!: join_scopes_source)
  qed
  then show ?thesis by (simp add: registry_ok_def)
qed

lemma selectReleasedClaims_names:
  "selectReleasedClaims len up names cm out = Inr cs \<Longrightarrow>
     fst ` set cs \<subseteq> fst ` set out \<union> (set names - set RESERVED_CLAIMS)"
proof (induction names arbitrary: out)
  case (Cons n ns)
  show ?case
  proof (cases "normalizedClaim up n cm")
    case None
    with Cons show ?thesis by (auto split: if_splits)
  next
    case (Some v)
    with Cons.prems have n: "n \<notin> set RESERVED_CLAIMS" by (auto split: if_splits)
    show ?thesis
    proof (cases "v = JNull \<or> MAX_CLAIM_JSON_LENGTH < len v")
      case True
      with Cons.prems Some n Cons.IH [of out] show ?thesis by auto
    next
      case False
      with Cons.prems Some n Cons.IH [of "AList.update n v out"] show ?thesis
        by (auto simp: dom_update)
    qed
  qed
qed simp

lemma loadReleasedClaims_names:
  "loadReleasedClaims len cm s u names = Inr cs \<Longrightarrow>
     fst ` set cs \<subseteq> set names - set RESERVED_CLAIMS"
  using selectReleasedClaims_names
  by (fastforce simp: loadReleasedClaims_def split: if_splits)

lemma consentedClaimNames_subset:
  "set (consentedClaimNames g r) = set g \<inter> set r"
  by (auto simp: consentedClaimNames_def)

lemma load_end_frame [frame]:
  "users (load_end g rows s) = users s" "grants (load_end g rows s) = grants s"
  "refreshTokens (load_end g rows s) = refreshTokens s"
  "authCodes (load_end g rows s) = authCodes s"
  "deviceCodes (load_end g rows s) = deviceCodes s"
  "authRequests (load_end g rows s) = authRequests s"
  by (auto simp: load_end_def)

end
