(* ===== verification/Metrics.thy ===== *)
theory Metrics
  imports Registry "HOL-Library.List_Lexorder"
begin

text \<open>
  \<^verbatim>\<open>metrics.ts\<close>: the counters and latency sums kept in memory, and their Prometheus text form.  A
  label set is an association list; its serialised key (\<^verbatim>\<open>JSON.stringify\<close> of the sorted entries)
  is the sorted list itself, which \<^verbatim>\<open>JSON.stringify\<close> represents one to one.
\<close>

section \<open>The registry of series\<close>

type_synonym labels = "(string, string) jsmap"

record series =
  se_labels :: labels
  se_value :: int
  se_count :: nat

type_synonym series_registry = "(string, (labels, series) jsmap) jsmap"

record metrics_state = registry_state +
  counters :: series_registry
  durations :: series_registry

definition labelsKey :: "labels \<Rightarrow> labels" where
  "labelsKey ls = sort_key fst ls"

definition seriesFor :: "series_registry \<Rightarrow> string \<Rightarrow> labels \<Rightarrow> series" where
  "seriesFor reg name ls =
     (case jm_get reg name of
        None \<Rightarrow> \<lparr>se_labels = ls, se_value = 0, se_count = 0\<rparr>
      | Some bySeries \<Rightarrow>
          (case jm_get bySeries (labelsKey ls) of
             None \<Rightarrow> \<lparr>se_labels = ls, se_value = 0, se_count = 0\<rparr>
           | Some se \<Rightarrow> se))"

text \<open>The update of a series in place: the maps are created on the way when they are missing.\<close>

definition put_series :: "series_registry \<Rightarrow> string \<Rightarrow> labels \<Rightarrow> series \<Rightarrow> series_registry" where
  "put_series reg name ls se =
     AList.update name
       (AList.update (labelsKey ls) se (case jm_get reg name of None \<Rightarrow> [] | Some bs \<Rightarrow> bs)) reg"

definition incrementCounter ::
    "string \<Rightarrow> labels \<Rightarrow> 'a metrics_state_scheme \<Rightarrow> 'a metrics_state_scheme" where
  "incrementCounter name ls s =
     (let se = seriesFor (counters s) name ls in
      s\<lparr>counters := put_series (counters s) name ls (se\<lparr>se_value := se_value se + 1\<rparr>)\<rparr>)"

definition recordDuration ::
    "string \<Rightarrow> labels \<Rightarrow> int \<Rightarrow> 'a metrics_state_scheme \<Rightarrow> 'a metrics_state_scheme" where
  "recordDuration name ls ms s =
     (let se = seriesFor (durations s) name ls in
      s\<lparr>durations := put_series (durations s) name ls
          (se\<lparr>se_value := se_value se + ms, se_count := Suc (se_count se)\<rparr>)\<rparr>)"

definition counter_value :: "'a metrics_state_scheme \<Rightarrow> string \<Rightarrow> labels \<Rightarrow> int" where
  "counter_value s name ls = se_value (seriesFor (counters s) name ls)"

section \<open>Prometheus text\<close>

definition HELP :: "(string, string) jsmap" where
  "HELP =
     [(''refresh_reuse_detected_total'',
         ''Refresh token or authorization code replays that triggered descendant revocation.''),
      (''tokens_issued_total'', ''Access tokens issued.''),
      (''device_flow_outcomes_total'', ''Terminal outcomes of device authorization flows.''),
      (''consent_total'', ''Consent decisions.''),
      (''local_login_failures_total'', ''Failed local account logins.''),
      (''cimd_fetch_total'', ''Client ID metadata document fetches by outcome.''),
      (''cimd_fetch_duration_ms'', ''Client ID metadata document fetch duration in milliseconds.''),
      (''ssrf_rejections_total'', ''Outbound fetches rejected by the SSRF guard, by reason.'')]"

definition name_char :: "char \<Rightarrow> bool" where
  "name_char c \<longleftrightarrow> is_alnum c \<or> c = CHR ''_''"

definition sanitizeName :: "string \<Rightarrow> string" where
  "sanitizeName name =
     (let cleaned = map (\<lambda>c. if name_char c then c else CHR ''_'') name in
      if cleaned \<noteq> [] \<and> \<not> is_digit (hd cleaned) then cleaned else CHR ''_'' # cleaned)"

text \<open>\<^verbatim>\<open>s.replace(/c/g, t)\<close> for one character.\<close>

definition replace_char :: "char \<Rightarrow> string \<Rightarrow> string \<Rightarrow> string" where
  "replace_char c t s = concat (map (\<lambda>x. if x = c then t else [x]) s)"

definition NL :: char where "NL = CHR 0x0A"
definition BACKSLASH :: char where "BACKSLASH = CHR 0x5C"
definition DQUOTE :: char where "DQUOTE = CHR 0x22"

definition escapeLabelValue :: "string \<Rightarrow> string" where
  "escapeLabelValue v =
     replace_char NL [BACKSLASH, CHR ''n'']
       (replace_char DQUOTE [BACKSLASH, DQUOTE]
         (replace_char BACKSLASH [BACKSLASH, BACKSLASH] v))"

definition escapeHelp :: "string \<Rightarrow> string" where
  "escapeHelp t =
     replace_char NL [BACKSLASH, CHR ''n''] (replace_char BACKSLASH [BACKSLASH, BACKSLASH] t)"

definition formatLabels :: "labels \<Rightarrow> string" where
  "formatLabels ls =
     (let parts = map (\<lambda>(k, v). sanitizeName k @ ''='' @ [DQUOTE] @ escapeLabelValue v @ [DQUOTE])
                    (sort_key fst ls) in
      if parts \<noteq> [] then ''{'' @ join '','' parts @ ''}'' else [])"

definition underscores_to_spaces :: "string \<Rightarrow> string" where
  "underscores_to_spaces = map (\<lambda>c. if c = CHR ''_'' then CHR '' '' else c)"

definition helpLine :: "string \<Rightarrow> string \<Rightarrow> string" where
  "helpLine rawName name =
     ''# HELP '' @ name @ '' '' @
     escapeHelp (case jm_get HELP rawName of Some t \<Rightarrow> t | None \<Rightarrow> underscores_to_spaces rawName)"

definition show_int :: "int \<Rightarrow> string" where
  "show_int i = (if i < 0 then CHR ''-'' # show_nat (nat (- i)) else show_nat (nat i))"

type_synonym external_counters = "(string, (labels \<times> int) list) jsmap"

definition merge_external ::
    "(string, (labels \<times> int) list) jsmap \<Rightarrow> external_counters \<Rightarrow> (string, (labels \<times> int) list) jsmap" where
  "merge_external own external =
     fold (\<lambda>(name, ss) m. AList.update name ((case jm_get m name of None \<Rightarrow> [] | Some os \<Rightarrow> os) @ ss) m)
       external own"

definition counter_lines :: "string \<Rightarrow> (labels \<times> int) list \<Rightarrow> string list" where
  "counter_lines rawName ss =
     (let safe = sanitizeName rawName;
          name = (if ends_with ''_total'' safe then safe else safe @ ''_total'') in
      [helpLine rawName name, ''# TYPE '' @ name @ '' counter''] @
      map (\<lambda>(ls, v). name @ formatLabels ls @ '' '' @ show_int v) ss)"

definition duration_lines :: "string \<Rightarrow> series list \<Rightarrow> string list" where
  "duration_lines rawName ss =
     (let name = sanitizeName rawName in
      [helpLine rawName name, ''# TYPE '' @ name @ '' summary''] @
      concat (map (\<lambda>se. let ls = formatLabels (se_labels se) in
                [name @ ''_sum'' @ ls @ '' '' @ show_int (se_value se),
                 name @ ''_count'' @ ls @ '' '' @ show_nat (se_count se)]) ss))"

definition prometheus_lines :: "'a metrics_state_scheme \<Rightarrow> external_counters \<Rightarrow> string list" where
  "prometheus_lines s external =
     concat (map (\<lambda>(rawName, ss). counter_lines rawName ss)
       (sort_key fst
         (merge_external
           (map (\<lambda>(name, bs). (name, map (\<lambda>(_, se). (se_labels se, se_value se)) bs)) (counters s))
           external))) @
     concat (map (\<lambda>(rawName, bs). duration_lines rawName (map snd bs)) (sort_key fst (durations s)))"

definition renderPrometheus :: "'a metrics_state_scheme \<Rightarrow> external_counters \<Rightarrow> string" where
  "renderPrometheus s external =
     (let ls = prometheus_lines s external in if ls \<noteq> [] then join [NL] ls @ [NL] else [])"

section \<open>Facts\<close>

lemma seriesFor_put [simp]:
  "seriesFor (put_series reg name ls se) name' ls' =
     (if name' = name \<and> labelsKey ls' = labelsKey ls then se else seriesFor reg name' ls')"
  by (auto simp: seriesFor_def put_series_def split: option.splits)

lemma counter_value_increment:
  "counter_value (incrementCounter name ls s) name' ls' =
     counter_value s name' ls' + (if name' = name \<and> labelsKey ls' = labelsKey ls then 1 else 0)"
proof (cases "name' = name \<and> labelsKey ls' = labelsKey ls")
  case True
  then have "se_value (seriesFor (counters s) name ls) = se_value (seriesFor (counters s) name' ls')"
    by (auto simp: seriesFor_def split: option.splits)
  with True show ?thesis by (simp add: counter_value_def incrementCounter_def Let_def)
qed (auto simp: counter_value_def incrementCounter_def Let_def)

text \<open>Counting touches nothing but the counters.\<close>

lemma incrementCounter_frame [simp, frame]:
  "users (incrementCounter n l s) = users s" "localUsers (incrementCounter n l s) = localUsers s"
  "grants (incrementCounter n l s) = grants s" "authCodes (incrementCounter n l s) = authCodes s"
  "refreshTokens (incrementCounter n l s) = refreshTokens s"
  "deviceCodes (incrementCounter n l s) = deviceCodes s"
  "authRequests (incrementCounter n l s) = authRequests s"
  "signingKeys (incrementCounter n l s) = signingKeys s"
  "oauthClients (incrementCounter n l s) = oauthClients s"
  "deniedClients (incrementCounter n l s) = deniedClients s"
  "loginFailures (incrementCounter n l s) = loginFailures s"
  "resourceServers (incrementCounter n l s) = resourceServers s"
  "registry (incrementCounter n l s) = registry s"
  "durations (incrementCounter n l s) = durations s"
  "metrics_state.more (incrementCounter n l s) = metrics_state.more s"
  by (simp_all add: incrementCounter_def Let_def)

lemma recordDuration_frame [simp, frame]:
  "users (recordDuration n l m s) = users s" "localUsers (recordDuration n l m s) = localUsers s"
  "grants (recordDuration n l m s) = grants s" "authCodes (recordDuration n l m s) = authCodes s"
  "refreshTokens (recordDuration n l m s) = refreshTokens s"
  "deviceCodes (recordDuration n l m s) = deviceCodes s"
  "authRequests (recordDuration n l m s) = authRequests s"
  "signingKeys (recordDuration n l m s) = signingKeys s"
  "oauthClients (recordDuration n l m s) = oauthClients s"
  "deniedClients (recordDuration n l m s) = deniedClients s"
  "loginFailures (recordDuration n l m s) = loginFailures s"
  "resourceServers (recordDuration n l m s) = resourceServers s"
  "registry (recordDuration n l m s) = registry s"
  "counters (recordDuration n l m s) = counters s"
  "metrics_state.more (recordDuration n l m s) = metrics_state.more s"
  by (simp_all add: recordDuration_def Let_def)

text \<open>No line of the exposition holds a line break, whatever names and labels were counted.\<close>

lemma replace_char_notin: "c \<notin> set t \<Longrightarrow> c \<notin> set (replace_char c t s)"
  by (auto simp: replace_char_def)

lemma replace_char_keeps: "d \<notin> set s \<Longrightarrow> d \<notin> set t \<Longrightarrow> d \<notin> set (replace_char c t s)"
  by (auto simp: replace_char_def)

lemma NL_distinct [simp]: "NL \<noteq> BACKSLASH" "NL \<noteq> DQUOTE" "DQUOTE \<noteq> NL" "BACKSLASH \<noteq> NL"
    "NL \<noteq> CHR ''n''" "DQUOTE \<noteq> BACKSLASH" "BACKSLASH \<noteq> DQUOTE" "DQUOTE \<noteq> CHR ''n''"
  by (simp_all add: NL_def BACKSLASH_def DQUOTE_def)

lemma escapeLabelValue_no_NL [simp]: "NL \<notin> set (escapeLabelValue v)"
  by (simp add: escapeLabelValue_def replace_char_notin)

lemma escapeHelp_no_NL [simp]: "NL \<notin> set (escapeHelp t)"
  by (simp add: escapeHelp_def replace_char_notin)

lemma name_char_not_NL: "name_char c \<Longrightarrow> c \<noteq> NL"
  by (auto simp: name_char_def is_alnum_def is_digit_def is_lower_def is_upper_def in_range_def
      code_def NL_def)

lemma sanitizeName_chars: "c \<in> set (sanitizeName n) \<Longrightarrow> name_char c"
  by (auto simp: sanitizeName_def Let_def name_char_def split: if_splits)

lemma sanitizeName_no_NL [simp]: "NL \<notin> set (sanitizeName n)"
  using sanitizeName_chars name_char_not_NL by blast

lemma show_nat_no_NL [simp]: "NL \<notin> set (show_nat n)"
  using all_digits_show_nat [of n] name_char_not_NL
  by (fastforce simp: all_digits_def name_char_def is_alnum_def)

lemma show_int_no_NL [simp]: "NL \<notin> set (show_int i)"
  by (simp add: show_int_def) (simp add: NL_def)

lemma set_join_subset: "set (join sep ws) \<subseteq> set sep \<union> \<Union> (set ` set ws)"
  by (induction sep ws rule: join.induct) auto

lemma formatLabels_no_NL [simp]: "NL \<notin> set (formatLabels ls)"
proof
  assume nl: "NL \<in> set (formatLabels ls)"
  let ?parts = "map (\<lambda>(k, v). sanitizeName k @ ''='' @ [DQUOTE] @ escapeLabelValue v @ [DQUOTE])
                    (sort_key fst ls)"
  have lits: "NL \<notin> set ''{''" "NL \<notin> set ''}''" "NL \<notin> set '',''" "NL \<notin> set ''=''"
    by (simp_all add: NL_def)
  with nl have "NL \<in> set (join '','' ?parts)"
    unfolding formatLabels_def Let_def by (cases "?parts = []") auto
  with lits set_join_subset [of "'',''" ?parts] obtain p where
    "p \<in> set ?parts" "NL \<in> set p" by blast
  with lits show False by auto
qed

lemma helpLine_no_NL: "NL \<notin> set name \<Longrightarrow> NL \<notin> set (helpLine raw name)"
  by (simp add: helpLine_def) (simp add: NL_def)

lemma counter_lines_no_NL: "l \<in> set (counter_lines raw ss) \<Longrightarrow> NL \<notin> set l"
proof -
  have lits: "NL \<notin> set ''_total''" "NL \<notin> set ''# TYPE ''" "NL \<notin> set '' counter''" "NL \<noteq> CHR '' ''"
    by (simp_all add: NL_def)
  assume "l \<in> set (counter_lines raw ss)"
  with lits show ?thesis by (auto simp: counter_lines_def Let_def helpLine_no_NL split: if_split_asm)
qed

lemma duration_lines_no_NL: "l \<in> set (duration_lines raw ss) \<Longrightarrow> NL \<notin> set l"
proof -
  have lits: "NL \<notin> set ''_sum''" "NL \<notin> set ''_count''" "NL \<notin> set ''# TYPE ''"
      "NL \<notin> set '' summary''" "NL \<noteq> CHR '' ''"
    by (simp_all add: NL_def)
  assume "l \<in> set (duration_lines raw ss)"
  with lits show ?thesis by (auto simp: duration_lines_def Let_def helpLine_no_NL)
qed

lemma prometheus_lines_no_NL: "l \<in> set (prometheus_lines s ext) \<Longrightarrow> NL \<notin> set l"
  by (auto simp: prometheus_lines_def dest: counter_lines_no_NL duration_lines_no_NL)

end
