(* ===== verification/Env.thy ===== *)
theory Env
  imports SafeFetch Metrics
begin

text \<open>
  The environment of the proxy: its configuration, and the platform and library functions it
  calls.  All of them are parameters; nothing is assumed about them unless a lemma says so.  The
  functions of the platform are \<^verbatim>\<open>node:crypto\<close> (SHA-256, HMAC), \<^verbatim>\<open>new URL\<close> and
  \<^verbatim>\<open>domainToASCII\<close>, of jose \<^verbatim>\<open>jwtVerify\<close> and \<^verbatim>\<open>decodeProtectedHeader\<close>.  Random values are an
  argument of the operation that draws them.
\<close>

section \<open>Trust policy lists\<close>

record policy_list =
  pl_clientIds :: "string list"
  pl_domains :: "string list"

record policy =
  po_allowlist :: policy_list
  po_denylist :: policy_list

section \<open>jose\<close>

text \<open>The options \<^verbatim>\<open>jwtVerify\<close> is called with.\<close>

record jwt_expect =
  je_issuer :: string
  je_subject :: "string option"
  je_audience :: string
  je_algorithms :: "string list"
  je_clockTolerance :: int
  je_typ :: "string option"

text \<open>A failure with its message, or the verified payload.\<close>

type_synonym jwt_verifier = "jwt_expect \<Rightarrow> json list \<Rightarrow> time_ms \<Rightarrow> string \<Rightarrow> string + json"

section \<open>The environment\<close>

record env =
  e_net :: net
  e_policy :: policy
  e_sha256 :: "string \<Rightarrow> string"
  e_sha256_b64url :: "string \<Rightarrow> string"
  e_hmac :: "string \<Rightarrow> string"
  e_domainToASCII :: "string \<Rightarrow> string"
  e_json_len :: "json \<Rightarrow> nat"
  e_jwt_verify :: jwt_verifier
  e_jwt_kid :: "string \<Rightarrow> string option"
  e_issuerUrl :: string
  e_enableOidc :: bool
  e_enableLocalAccounts :: bool
  e_oidcIssuer :: "string option"
  e_subjectClaim :: string
  e_claimMap :: "(string, string) jsmap"
  e_adminGroups :: "string list"
  e_setupToken :: "string option"
  e_bcrypt_hash :: "string \<Rightarrow> string \<Rightarrow> string"
  e_bcrypt_compare :: "string \<Rightarrow> string \<Rightarrow> bool"
  e_localeLe :: "string \<Rightarrow> string \<Rightarrow> bool"

abbreviation new_URL :: "env \<Rightarrow> url_parser" where
  "new_URL e \<equiv> net_parse_url (e_net e)"

section \<open>Requests\<close>

text \<open>
  \<^verbatim>\<open>http-params.ts\<close>: the parsed body is an object or reads as empty; a field that is not a string
  (an array from a repeated field, an object) reads as absent.
\<close>

type_synonym body = "(string, json) jsmap"

fun bodyOf :: "json option \<Rightarrow> body" where
  "bodyOf (Some (JObj fs)) = fs"
| "bodyOf _ = []"

definition stringField :: "body \<Rightarrow> string \<Rightarrow> string option" where
  "stringField b k = as_string (map_of b k)"

text \<open>A field that is present and not the empty string (\<^verbatim>\<open>!x\<close> is false).\<close>

definition truthy :: "string option \<Rightarrow> string option" where
  "truthy v = (case v of Some s \<Rightarrow> if s = [] then None else Some s | None \<Rightarrow> None)"

lemma truthy_Some_iff [simp]: "truthy v = Some s \<longleftrightarrow> v = Some s \<and> s \<noteq> []"
  by (auto simp: truthy_def split: option.splits)

lemma truthy_simps [simp]: "truthy None = None" "truthy (Some []) = None" "v \<noteq> [] \<Longrightarrow> truthy (Some v) = Some v"
  by (simp_all add: truthy_def)

lemma stringField_SomeD: "stringField b k = Some v \<Longrightarrow> map_of b k = Some (JStr v)"
  by (auto simp: stringField_def elim: as_string.elims)

text \<open>\<^verbatim>\<open>Math.floor(ms / 1000)\<close>, the clock jose reads.\<close>

definition epoch_s :: "time_ms \<Rightarrow> int" where
  "epoch_s t = t div 1000"

end
