(* ===== verification/SigningKeys.thy ===== *)
theory SigningKeys
  imports Env
begin

text \<open>
  \<^verbatim>\<open>crypto/signing-keys.ts\<close>: the signing key table with at most one active key, rotation, the
  published key set and the signing of a token.  A generated key pair is an argument; a signed
  token is the record of what was signed and with which key (the compact form and the signature
  are jose's).
\<close>

record key_pair =
  kp_kid :: string
  kp_publicJwk :: json
  kp_privateJwk :: json

record jwt =
  jwt_kid :: string
  jwt_typ :: string
  jwt_claims :: "(string, json) jsmap"
  jwt_iat :: int
  jwt_exp :: int

definition RETIRED_KEY_RETENTION_MS :: int where
  "RETIRED_KEY_RETENTION_MS = 2 * 60 * 60 * 1000"

definition active :: "signing_key \<Rightarrow> bool" where
  "active k \<longleftrightarrow> sk_retiredAt k = None"

definition active_key :: "signing_key list \<Rightarrow> signing_key option" where
  "active_key ks = List.find active ks"

definition new_key :: "time_ms \<Rightarrow> key_pair \<Rightarrow> signing_key" where
  "new_key now g =
     \<lparr>sk_kid = kp_kid g, sk_publicJwk = kp_publicJwk g, sk_privateJwk = kp_privateJwk g,
      sk_activatedAt = Some now, sk_retiredAt = None\<rparr>"

text \<open>The insert, under the unique \<^verbatim>\<open>kid\<close> and the partial unique index on active rows.\<close>

definition create_key :: "signing_key \<Rightarrow> signing_key list \<Rightarrow> signing_key list option" where
  "create_key k ks =
     (if active k \<and> active_key ks \<noteq> None then None else create_row sk_kid k ks)"

text \<open>
  \<^verbatim>\<open>createAndActivateKey\<close>: at most three attempts, each with a fresh pair; a lost race (P2002)
  answers with the winner's key.  \<^const>\<open>None\<close> is the error thrown after the last attempt.
\<close>

fun create_attempts ::
    "time_ms \<Rightarrow> key_pair list \<Rightarrow> signing_key list \<Rightarrow> signing_key list \<times> signing_key option" where
  "create_attempts now [] ks = (ks, None)"
| "create_attempts now (g # gs) ks =
     (case create_key (new_key now g) ks of
        Some ks' \<Rightarrow> (ks', Some (new_key now g))
      | None \<Rightarrow> (case active_key ks of
                   Some winner \<Rightarrow> (ks, Some winner)
                 | None \<Rightarrow> create_attempts now gs ks))"

definition createAndActivateKey ::
    "time_ms \<Rightarrow> key_pair list \<Rightarrow> 'a db_scheme \<Rightarrow> 'a db_scheme \<times> signing_key option" where
  "createAndActivateKey now gs s =
     (case create_attempts now (take 3 gs) (signingKeys s) of
        (ks, r) \<Rightarrow> (s\<lparr>signingKeys := ks\<rparr>, r))"

text \<open>\<^verbatim>\<open>ensureActiveSigningKey\<close> and \<^verbatim>\<open>getSigningKeyForSigning\<close> differ in the columns they return.\<close>

definition getSigningKeyForSigning ::
    "time_ms \<Rightarrow> key_pair list \<Rightarrow> 'a db_scheme \<Rightarrow> 'a db_scheme \<times> signing_key option" where
  "getSigningKeyForSigning now gs s =
     (case active_key (signingKeys s) of
        Some k \<Rightarrow> (s, Some k)
      | None \<Rightarrow> createAndActivateKey now gs s)"

definition ensureActiveSigningKey ::
    "time_ms \<Rightarrow> key_pair list \<Rightarrow> 'a db_scheme \<Rightarrow> 'a db_scheme \<times> string option" where
  "ensureActiveSigningKey now gs s =
     (case getSigningKeyForSigning now gs s of (s', k) \<Rightarrow> (s', map_option sk_kid k))"

text \<open>The transaction of a rotation; \<^const>\<open>None\<close> when it is rolled back.\<close>

definition retire :: "time_ms \<Rightarrow> signing_key \<Rightarrow> signing_key" where
  "retire now k = k\<lparr>sk_retiredAt := Some now\<rparr>"

definition rotateSigningKey ::
    "bool \<Rightarrow> time_ms \<Rightarrow> key_pair \<Rightarrow> 'a db_scheme \<Rightarrow> ('a db_scheme \<times> string \<times> string list) option" where
  "rotateSigningKey compromised now g s =
     (let ks = signingKeys s;
          existing = (if compromised then map sk_kid ks else []);
          ks1 = (if compromised then delete_many (\<lambda>k. sk_kid k \<in> set existing) ks
                 else case active_key ks of
                        Some c \<Rightarrow> update_many (\<lambda>k. sk_kid k = sk_kid c) (retire now) ks
                      | None \<Rightarrow> ks) in
      case create_key (new_key now g) ks1 of
        None \<Rightarrow> None
      | Some ks2 \<Rightarrow> Some (s\<lparr>signingKeys := ks2\<rparr>, kp_kid g, existing))"

definition published :: "time_ms \<Rightarrow> signing_key \<Rightarrow> bool" where
  "published now k \<longleftrightarrow>
     (case sk_retiredAt k of None \<Rightarrow> True | Some t \<Rightarrow> now - RETIRED_KEY_RETENTION_MS < t)"

definition getJwks :: "time_ms \<Rightarrow> 'a db_scheme \<Rightarrow> json list" where
  "getJwks now s = map sk_publicJwk (filter (published now) (signingKeys s))"

text \<open>\<^verbatim>\<open>setIssuedAt()\<close> and \<^verbatim>\<open>setExpirationTime("Ns")\<close>: the clock in whole seconds, plus N.\<close>

definition signJwt ::
    "time_ms \<Rightarrow> key_pair list \<Rightarrow> (string, json) jsmap \<Rightarrow> int \<Rightarrow> 'a db_scheme \<Rightarrow>
     'a db_scheme \<times> jwt option" where
  "signJwt now gs payload expiresIn s =
     (case getSigningKeyForSigning now gs s of
        (s', None) \<Rightarrow> (s', None)
      | (s', Some k) \<Rightarrow>
          (s', Some \<lparr>jwt_kid = sk_kid k, jwt_typ = ''at+jwt'', jwt_claims = payload,
                     jwt_iat = epoch_s now, jwt_exp = epoch_s now + expiresIn\<rparr>))"

section \<open>Facts\<close>

text \<open>What the table's indexes guarantee: unique identifiers, at most one active key.\<close>

definition signing_keys_ok :: "'a db_scheme \<Rightarrow> bool" where
  "signing_keys_ok s \<longleftrightarrow>
     distinct (map sk_kid (signingKeys s)) \<and> length (filter active (signingKeys s)) \<le> 1"

lemma active_key_None: "active_key ks = None \<longleftrightarrow> filter active ks = []"
  by (auto simp: active_key_def find_None_iff filter_empty_conv)

lemma active_key_SomeD: "active_key ks = Some k \<Longrightarrow> k \<in> set ks \<and> active k"
  by (auto simp: active_key_def find_Some_iff)

lemma active_new_key [simp]: "active (new_key now g)"
  by (simp add: active_def new_key_def)

lemma create_key_Some:
  "create_key k ks = Some ks' \<Longrightarrow>
     ks' = ks @ [k] \<and> sk_kid k \<notin> sk_kid ` set ks \<and> (active k \<longrightarrow> filter active ks = [])"
  by (auto simp: create_key_def create_row_Some active_key_None split: if_splits)

lemma create_attempts_cases:
  "create_attempts now gs ks = (ks', r) \<Longrightarrow>
     (ks' = ks \<and> (\<forall>k. r = Some k \<longrightarrow> active_key ks = Some k)) \<or>
     (\<exists>k. ks' = ks @ [k] \<and> r = Some k \<and> active k \<and> sk_kid k \<notin> sk_kid ` set ks \<and> filter active ks = [])"
proof (induction now gs ks rule: create_attempts.induct)
  case (2 now g gs ks)
  then show ?case
    by (cases "create_key (new_key now g) ks"; cases "active_key ks") (auto dest!: create_key_Some)
qed auto

text \<open>Whatever another caller did in between, the key handed out is the active key of the table.\<close>

lemma getSigningKey_active:
  assumes "getSigningKeyForSigning now gs s = (s', Some k)"
  shows "k \<in> set (signingKeys s')" and "active k"
proof -
  have "k \<in> set (signingKeys s') \<and> active k"
  proof (cases "active_key (signingKeys s)")
    case None
    obtain ks r where c: "create_attempts now (take 3 gs) (signingKeys s) = (ks, r)" by fastforce
    from create_attempts_cases [OF c] None c assms show ?thesis
      by (auto simp: getSigningKeyForSigning_def createAndActivateKey_def)
  next
    case (Some k')
    with assms active_key_SomeD [OF Some] show ?thesis
      by (auto simp: getSigningKeyForSigning_def)
  qed
  then show "k \<in> set (signingKeys s')" and "active k" by simp_all
qed

lemma getSigningKey_ok:
  assumes "getSigningKeyForSigning now gs s = (s', r)" and "signing_keys_ok s"
  shows "signing_keys_ok s'"
proof (cases "active_key (signingKeys s)")
  case None
  obtain ks q where c: "create_attempts now (take 3 gs) (signingKeys s) = (ks, q)" by fastforce
  from create_attempts_cases [OF c] None c assms show ?thesis
    by (auto simp: getSigningKeyForSigning_def createAndActivateKey_def signing_keys_ok_def)
next
  case (Some k')
  with assms show ?thesis by (auto simp: getSigningKeyForSigning_def)
qed

lemma getSigningKey_frame:
  "getSigningKeyForSigning now gs s = (s', r) \<Longrightarrow> s' = s\<lparr>signingKeys := signingKeys s'\<rparr>"
  by (auto simp: getSigningKeyForSigning_def createAndActivateKey_def split: option.splits prod.splits)

lemma signJwt_SomeD:
  assumes "signJwt now gs p ttl s = (s', Some t)"
  obtains k where "getSigningKeyForSigning now gs s = (s', Some k)"
    "t = \<lparr>jwt_kid = sk_kid k, jwt_typ = ''at+jwt'', jwt_claims = p,
          jwt_iat = epoch_s now, jwt_exp = epoch_s now + ttl\<rparr>"
  using assms by (auto simp: signJwt_def split: prod.splits option.splits)

lemma signJwt_frame: "signJwt now gs p ttl s = (s', r) \<Longrightarrow> s' = s\<lparr>signingKeys := signingKeys s'\<rparr>"
  by (auto simp: signJwt_def split: prod.splits option.splits dest: getSigningKey_frame)

lemma retire_kid [simp]: "sk_kid (retire now k) = sk_kid k"
  by (simp add: retire_def)

lemma rotate_SomeD:
  assumes "rotateSigningKey c now g s = Some (s', kid, removed)"
  obtains ks1 where "signingKeys s' = ks1 @ [new_key now g]" "kid = kp_kid g"
    "kp_kid g \<notin> sk_kid ` set ks1" "filter active ks1 = []"
    "ks1 = (if c then delete_many (\<lambda>k. sk_kid k \<in> sk_kid ` set (signingKeys s)) (signingKeys s)
            else case active_key (signingKeys s) of
                   Some a \<Rightarrow> update_many (\<lambda>k. sk_kid k = sk_kid a) (retire now) (signingKeys s)
                 | None \<Rightarrow> signingKeys s)"
proof -
  let ?ks1 = "if c then delete_many (\<lambda>k. sk_kid k \<in> sk_kid ` set (signingKeys s)) (signingKeys s)
            else case active_key (signingKeys s) of
                   Some a \<Rightarrow> update_many (\<lambda>k. sk_kid k = sk_kid a) (retire now) (signingKeys s)
                 | None \<Rightarrow> signingKeys s"
  from assms obtain ks2 where c: "create_key (new_key now g) ?ks1 = Some ks2" "s' = s\<lparr>signingKeys := ks2\<rparr>"
    "kid = kp_kid g"
    by (auto simp: rotateSigningKey_def Let_def image_def split: option.splits if_splits)
  from create_key_Some [OF c(1)] have "ks2 = ?ks1 @ [new_key now g]"
    "kp_kid g \<notin> sk_kid ` set ?ks1" "filter active ?ks1 = []"
    by (simp_all add: new_key_def active_def)
  with c show thesis by (intro that [of ?ks1]) auto
qed

lemma distinct_kid_update:
  "distinct (map sk_kid ks) \<Longrightarrow> distinct (map sk_kid (update_many P (retire now) ks))"
  by (simp add: map_key_update_many)

text \<open>A retired key stays published at least until the last token it signed has expired and every
  cache of the key set (an hour) has been refreshed.\<close>

lemma published_after_rotation:
  assumes "rotateSigningKey False now g s = Some (s', kid, removed)"
    and "k \<in> set (signingKeys s)"
  shows "\<exists>k' \<in> set (signingKeys s'). sk_kid k' = sk_kid k \<and> sk_publicJwk k' = sk_publicJwk k \<and>
           (active k \<longrightarrow> (\<forall>t. t < now + RETIRED_KEY_RETENTION_MS \<longrightarrow> published t k'))"
  using assms(1)
proof (elim rotate_SomeD)
  fix ks1
  assume s': "signingKeys s' = ks1 @ [new_key now g]" and inact: "filter active ks1 = []"
    and ks1: "ks1 = (if False then delete_many (\<lambda>k. sk_kid k \<in> sk_kid ` set (signingKeys s)) (signingKeys s)
            else case active_key (signingKeys s) of
                   Some a \<Rightarrow> update_many (\<lambda>k. sk_kid k = sk_kid a) (retire now) (signingKeys s)
                 | None \<Rightarrow> signingKeys s)"
  show ?thesis
  proof (cases "active_key (signingKeys s)")
    case None
    with ks1 inact assms(2) s' show ?thesis by (auto simp: filter_empty_conv)
  next
    case (Some a)
    let ?k' = "if sk_kid k = sk_kid a then retire now k else k"
    have in1: "?k' \<in> set ks1" using ks1 Some assms(2) by (auto simp: set_update_many)
    moreover have "\<not> active ?k'" using inact in1 by (auto simp: filter_empty_conv)
    moreover have "published t ?k'" if "active k" "t < now + RETIRED_KEY_RETENTION_MS" for t
      using that \<open>\<not> active ?k'\<close>
      by (auto simp: published_def retire_def active_def split: if_splits)
    ultimately show ?thesis using s' by (intro bexI [of _ ?k']) (auto simp: retire_def)
  qed
qed

end
