(* ===== verification/Clients.thy ===== *)
theory Clients
  imports Env
begin

text \<open>
  \<^verbatim>\<open>clients/trust-policy.ts\<close> and \<^verbatim>\<open>clients/cimd.ts\<close>: the static trust policy, the denylist check,
  redirect URI rules, validation of a client metadata document, its cache lifetime, and
  \<^verbatim>\<open>resolveClient\<close>.  The state of the fetcher is a field of the proxy's state.
\<close>

record client_state = metrics_state +
  fetcher :: fetch_state

section \<open>Trust levels\<close>

text \<open>Trust levels are ordered by what the proxy vouches for.\<close>

fun trust_rank :: "trust_level \<Rightarrow> nat" where
  "trust_rank Unverified = 0"
| "trust_rank Domain_verified = 1"
| "trust_rank Allowlisted = 2"

instantiation trust_level :: linorder
begin

definition less_eq_trust_level :: "trust_level \<Rightarrow> trust_level \<Rightarrow> bool" where
  "less_eq_trust_level a b \<longleftrightarrow> trust_rank a \<le> trust_rank b"

definition less_trust_level :: "trust_level \<Rightarrow> trust_level \<Rightarrow> bool" where
  "less_trust_level a b \<longleftrightarrow> trust_rank a < trust_rank b"

instance
proof
  fix a b :: trust_level
  assume "a \<le> b" and "b \<le> a"
  then show "a = b" by (cases a; cases b) (auto simp: less_eq_trust_level_def)
qed (auto simp: less_eq_trust_level_def less_trust_level_def)

end

section \<open>Trust policy\<close>

text \<open>The lists as \<^verbatim>\<open>loadPolicy\<close> keeps them: domains lower-case and in punycode, invalid ones dropped.\<close>

definition policy_domains :: "env \<Rightarrow> string list \<Rightarrow> string list" where
  "policy_domains e ds =
     filter (\<lambda>a. a \<noteq> []) (map (\<lambda>d. e_domainToASCII e (to_lower (trim d))) ds)"

definition loadPolicy :: "env \<Rightarrow> (policy_list \<times> policy_list) option \<Rightarrow> policy" where
  "loadPolicy e parsed =
     (case parsed of
        None \<Rightarrow> \<lparr>po_allowlist = \<lparr>pl_clientIds = [], pl_domains = []\<rparr>,
                 po_denylist = \<lparr>pl_clientIds = [], pl_domains = []\<rparr>\<rparr>
      | Some (a, d) \<Rightarrow>
          \<lparr>po_allowlist = a\<lparr>pl_domains := policy_domains e (pl_domains a)\<rparr>,
           po_denylist = d\<lparr>pl_domains := policy_domains e (pl_domains d)\<rparr>\<rparr>)"

definition hostnameMatchesDomain :: "string \<Rightarrow> string \<Rightarrow> bool" where
  "hostnameMatchesDomain hostname domain \<longleftrightarrow>
     hostname = domain \<or> ends_with (CHR ''.'' # domain) hostname"

definition matchesList :: "env \<Rightarrow> string \<Rightarrow> policy_list \<Rightarrow> bool" where
  "matchesList e clientId l \<longleftrightarrow>
     clientId \<in> set (pl_clientIds l) \<or>
     (case hostnameOf (new_URL e) clientId of
        None \<Rightarrow> False
      | Some h \<Rightarrow> \<exists>d \<in> set (pl_domains l). hostnameMatchesDomain h d)"

fun suffixes1 :: "'a list \<Rightarrow> 'a list list" where
  "suffixes1 [] = []"
| "suffixes1 (x # xs) = (x # xs) # suffixes1 xs"

definition hostAndParents :: "string \<Rightarrow> string list" where
  "hostAndParents hostname = map (join ''.'') (suffixes1 (split_on CHR ''.'' hostname))"

definition isDenylisted :: "env \<Rightarrow> 'a db_scheme \<Rightarrow> string \<Rightarrow> bool" where
  "isDenylisted e s clientId \<longleftrightarrow>
     matchesList e clientId (po_denylist (e_policy e)) \<or>
     (\<exists>d \<in> set (deniedClients s).
        (dn_kind d = Deny_client_id \<and> dn_value d = clientId) \<or>
        (case hostnameOf (new_URL e) clientId of
           None \<Rightarrow> False
         | Some h \<Rightarrow> dn_kind d = Deny_domain \<and> dn_value d \<in> set (hostAndParents h)))"

definition isAllowlisted :: "env \<Rightarrow> string \<Rightarrow> bool" where
  "isAllowlisted e clientId = matchesList e clientId (po_allowlist (e_policy e))"

definition assignTrustLevel :: "env \<Rightarrow> string \<Rightarrow> client_source \<Rightarrow> trust_level" where
  "assignTrustLevel e clientId source =
     (if isAllowlisted e clientId then Allowlisted
      else if source = Cimd then Domain_verified else Unverified)"

section \<open>Redirect URIs\<close>

definition FORBIDDEN_REDIRECT_SCHEMES :: "string list" where
  "FORBIDDEN_REDIRECT_SCHEMES = [''javascript:'', ''vbscript:'', ''data:'', ''blob:'', ''file:'']"

definition isAllowedRedirectUri :: "url_parser \<Rightarrow> string \<Rightarrow> bool" where
  "isAllowedRedirectUri parse uri \<longleftrightarrow>
     (case parse uri of
        None \<Rightarrow> False
      | Some u \<Rightarrow>
          if url_hash u \<noteq> [] \<or> CHR ''#'' \<in> set uri then False
          else if url_protocol u \<in> set FORBIDDEN_REDIRECT_SCHEMES then False
          else if url_protocol u = ''http:'' then isLoopbackHost (url_hostname u)
          else True)"

definition isRegisteredRedirectUri :: "url_parser \<Rightarrow> string list \<Rightarrow> string \<Rightarrow> bool" where
  "isRegisteredRedirectUri parse registered requested \<longleftrightarrow>
     requested \<in> set registered \<or>
     (case parse requested of
        None \<Rightarrow> False
      | Some req \<Rightarrow>
          url_protocol req = ''http:'' \<and> isLoopbackHost (url_hostname req) \<and>
          (\<exists>r \<in> set registered.
             case parse r of
               None \<Rightarrow> False
             | Some reg \<Rightarrow>
                 url_protocol reg = ''http:'' \<and> isLoopbackHost (url_hostname reg) \<and>
                 url_hostname reg = url_hostname req \<and> url_pathname reg = url_pathname req \<and>
                 url_search reg = url_search req))"

section \<open>Client identifiers\<close>

definition CLIENT_ID_URL_MAX_LENGTH :: nat where
  "CLIENT_ID_URL_MAX_LENGTH = 2000"

text \<open>\<^verbatim>\<open>/^(?:\.|%2e){1,2}$/i\<close>\<close>

definition is_dot_segment :: "string \<Rightarrow> bool" where
  "is_dot_segment seg \<longleftrightarrow>
     to_lower seg \<in> {''.'', ''%2e'', ''..'', ''.%2e'', ''%2e.'', ''%2e%2e''}"

definition isCanonicalClientIdUrl :: "url_parser \<Rightarrow> string \<Rightarrow> bool" where
  "isCanonicalClientIdUrl parse clientId \<longleftrightarrow>
     (if CLIENT_ID_URL_MAX_LENGTH < length clientId then False
      else case parse clientId of
        None \<Rightarrow> False
      | Some u \<Rightarrow>
          if url_protocol u \<noteq> ''https:'' then False
          else if url_username u \<noteq> [] \<or> url_password u \<noteq> [] then False
          else if url_hash u \<noteq> [] \<or> CHR ''#'' \<in> set clientId then False
          else if ends_with ''.'' (url_hostname u) then False
          else if url_pathname u = [] \<or> url_pathname u = ''/'' then False
          else if \<exists>seg \<in> set (split_on CHR ''/'' (url_pathname u)). is_dot_segment seg then False
          else url_href u = clientId)"

section \<open>Metadata documents\<close>

datatype cimd_error =
    Not_an_object | Client_id_mismatch | Bad_client_name | Unsafe_client_name | Holds_secret
  | Bad_redirect_uris | No_allowed_redirect_uri | Bad_response_types | Bad_grant_types
  | Bad_auth_method | Missing_jwks_uri | Bad_jwks_uri | Jwks_uri_not_https

record client_document =
  cd_client_id :: string
  cd_client_name :: string
  cd_logo_uri :: "string option"
  cd_redirect_uris :: "string list"
  cd_grant_types :: "string list"
  cd_response_types :: "json list"
  cd_auth_method :: string
  cd_jwks_uri :: "string option"

definition SUPPORTED_GRANT_TYPES :: "string list" where
  "SUPPORTED_GRANT_TYPES =
     [''authorization_code'', ''refresh_token'', ''urn:ietf:params:oauth:grant-type:device_code'']"

definition DEFAULT_GRANT_TYPES :: "string list" where
  "DEFAULT_GRANT_TYPES = [''authorization_code'', ''refresh_token'']"

definition CLIENT_NAME_MAX_LENGTH :: nat where
  "CLIENT_NAME_MAX_LENGTH = 200"

text \<open>\<^verbatim>\<open>[\p{Cc}\p{Cf}\u2028\u2029]\<close>, in the Latin-1 range of the model: controls and the soft hyphen.\<close>

definition unsafe_char :: "char \<Rightarrow> bool" where
  "unsafe_char c \<longleftrightarrow> code c < 32 \<or> (127 \<le> code c \<and> code c < 160) \<or> code c = 173"

definition doc_redirect_uris :: "url_parser \<Rightarrow> (string \<times> json) list \<Rightarrow> cimd_error + string list" where
  "doc_redirect_uris parse doc =
     (case map_of doc ''redirect_uris'' of
        Some (JArr us) \<Rightarrow>
          if us = [] then Inl Bad_redirect_uris
          else (let ok = filter (isAllowedRedirectUri parse) (json_strings us) in
                if ok = [] then Inl No_allowed_redirect_uri else Inr ok)
      | _ \<Rightarrow> Inl Bad_redirect_uris)"

definition doc_response_types :: "(string \<times> json) list \<Rightarrow> cimd_error + json list" where
  "doc_response_types doc =
     (case (case map_of doc ''response_types'' of None \<Rightarrow> JArr [JStr ''code''] | Some j \<Rightarrow> j) of
        JArr rs \<Rightarrow> if JStr ''code'' \<in> set rs then Inr rs else Inl Bad_response_types
      | _ \<Rightarrow> Inl Bad_response_types)"

definition doc_grant_types :: "(string \<times> json) list \<Rightarrow> cimd_error + string list" where
  "doc_grant_types doc =
     (case (case map_of doc ''grant_types'' of
              None \<Rightarrow> Some DEFAULT_GRANT_TYPES
            | Some (JArr gs) \<Rightarrow> Some (filter (\<lambda>g. g \<in> set SUPPORTED_GRANT_TYPES) (json_strings gs))
            | Some _ \<Rightarrow> None) of
        None \<Rightarrow> Inl Bad_grant_types
      | Some gs \<Rightarrow> if ''authorization_code'' \<in> set gs then Inr gs else Inl Bad_grant_types)"

definition doc_auth :: "url_parser \<Rightarrow> (string \<times> json) list \<Rightarrow> cimd_error + (string \<times> string option)" where
  "doc_auth parse doc =
     (case (case map_of doc ''token_endpoint_auth_method'' of None \<Rightarrow> JStr ''none'' | Some j \<Rightarrow> j) of
        JStr m \<Rightarrow>
          if m = ''none'' then Inr (m, None)
          else if m = ''private_key_jwt'' then
            (case map_of doc ''jwks_uri'' of
               Some (JStr u) \<Rightarrow>
                 (case parse u of
                    None \<Rightarrow> Inl Bad_jwks_uri
                  | Some p \<Rightarrow> if url_protocol p = ''https:'' then Inr (m, Some u) else Inl Jwks_uri_not_https)
             | _ \<Rightarrow> Inl Missing_jwks_uri)
          else Inl Bad_auth_method
      | _ \<Rightarrow> Inl Bad_auth_method)"

definition validateDocument :: "url_parser \<Rightarrow> string \<Rightarrow> json \<Rightarrow> cimd_error + client_document" where
  "validateDocument parse fetchedFromUrl raw =
     (case raw of
        JObj doc \<Rightarrow>
          if map_of doc ''client_id'' \<noteq> Some (JStr fetchedFromUrl) then Inl Client_id_mismatch
          else (case map_of doc ''client_name'' of
            Some (JStr name) \<Rightarrow>
              if trim name = [] \<or> CLIENT_NAME_MAX_LENGTH < length (trim name) then Inl Bad_client_name
              else if \<exists>c \<in> set name. unsafe_char c then Inl Unsafe_client_name
              else if map_of doc ''client_secret'' \<noteq> None \<or> map_of doc ''client_secret_expires_at'' \<noteq> None
              then Inl Holds_secret
              else (case doc_redirect_uris parse doc of Inl er \<Rightarrow> Inl er | Inr uris \<Rightarrow>
                   (case doc_response_types doc of Inl er \<Rightarrow> Inl er | Inr rts \<Rightarrow>
                   (case doc_grant_types doc of Inl er \<Rightarrow> Inl er | Inr gts \<Rightarrow>
                   (case doc_auth parse doc of Inl er \<Rightarrow> Inl er | Inr (m, ju) \<Rightarrow>
                      Inr \<lparr>cd_client_id = fetchedFromUrl, cd_client_name = trim name,
                           cd_logo_uri = as_string (map_of doc ''logo_uri''),
                           cd_redirect_uris = uris, cd_grant_types = gts, cd_response_types = rts,
                           cd_auth_method = m, cd_jwks_uri = ju\<rparr>))))
          | _ \<Rightarrow> Inl Bad_client_name)
      | _ \<Rightarrow> Inl Not_an_object)"

text \<open>The document as it is stored; an absent member is left out.\<close>

definition document_json :: "client_document \<Rightarrow> json" where
  "document_json d =
     JObj ([(''client_id'', JStr (cd_client_id d)), (''client_name'', JStr (cd_client_name d))] @
           (case cd_logo_uri d of None \<Rightarrow> [] | Some u \<Rightarrow> [(''logo_uri'', JStr u)]) @
           [(''redirect_uris'', JArr (map JStr (cd_redirect_uris d))),
            (''grant_types'', JArr (map JStr (cd_grant_types d))),
            (''response_types'', JArr (cd_response_types d)),
            (''token_endpoint_auth_method'', JStr (cd_auth_method d))] @
           (case cd_jwks_uri d of None \<Rightarrow> [] | Some u \<Rightarrow> [(''jwks_uri'', JStr u)]))"

section \<open>Cache lifetime\<close>

definition DEFAULT_TTL_MS :: int where "DEFAULT_TTL_MS = 24 * 60 * 60 * 1000"
definition MIN_TTL_MS :: int where "MIN_TTL_MS = 5 * 60 * 1000"
definition STALE_MAX_AGE_MS :: int where "STALE_MAX_AGE_MS = 24 * 60 * 60 * 1000"
definition MAX_DOCUMENT_BYTES :: nat where "MAX_DOCUMENT_BYTES = 5 * 1024"

definition cacheLifetimeMs :: "string option \<Rightarrow> int" where
  "cacheLifetimeMs cacheControl =
     (case truthy cacheControl of
        None \<Rightarrow> DEFAULT_TTL_MS
      | Some value \<Rightarrow>
          (let directives = map trim (split_on CHR '','' (to_lower value)) in
           if ''no-store'' \<in> set directives \<or> ''no-cache'' \<in> set directives then 0
           else case List.find (starts_with ''max-age='') directives of
                  None \<Rightarrow> DEFAULT_TTL_MS
                | Some maxAge \<Rightarrow>
                    (let raw = drop 8 maxAge in
                     if \<not> all_digits raw then DEFAULT_TTL_MS
                     else if number_of raw = 0 then 0
                     else min (max (int (number_of raw) * 1000) MIN_TTL_MS) DEFAULT_TTL_MS)))"

definition computeExpiresAt :: "time_ms \<Rightarrow> (string, string) jsmap \<Rightarrow> time_ms" where
  "computeExpiresAt now headers = now + cacheLifetimeMs (jm_get headers ''cache-control'')"

section \<open>Resolving a client\<close>

definition cimd_fetch_options :: fetch_options where
  "cimd_fetch_options =
     \<lparr>fo_maxBytes = MAX_DOCUMENT_BYTES, fo_maxRedirects = 0, fo_allowPrivateNetwork = False,
      fo_allowedPorts = Some [443], fo_pool = Pool_cimd\<rparr>"

text \<open>The refresh of a cached row: last use and the trust level of today's policy.\<close>

definition touch_client :: "env \<Rightarrow> time_ms \<Rightarrow> oauth_client \<Rightarrow> oauth_client" where
  "touch_client e now c =
     c\<lparr>oc_lastSeenAt := now, oc_trustLevel := assignTrustLevel e (oc_clientId c) (oc_source c)\<rparr>"

definition upsert_client ::
    "env \<Rightarrow> time_ms \<Rightarrow> string \<Rightarrow> client_document \<Rightarrow> time_ms \<Rightarrow> oauth_client list \<Rightarrow>
     oauth_client list \<times> oauth_client" where
  "upsert_client e now clientId d expiresAt rows =
     (let level = assignTrustLevel e clientId Cimd in
      case row_of oc_clientId clientId rows of
        None \<Rightarrow>
          (let r = \<lparr>oc_clientId = clientId, oc_source = Cimd, oc_metadata = document_json d,
                    oc_trustLevel = level, oc_fetchedAt = now, oc_expiresAt = Some expiresAt,
                    oc_lastSeenAt = now\<rparr> in (rows @ [r], r))
      | Some old \<Rightarrow>
          (let upd = (\<lambda>c. c\<lparr>oc_metadata := document_json d, oc_trustLevel := level,
                         oc_expiresAt := Some expiresAt, oc_fetchedAt := now, oc_lastSeenAt := now\<rparr>) in
           (update_many (\<lambda>c. oc_clientId c = clientId) upd rows, upd old)))"

definition cimd_metrics :: "string \<Rightarrow> 'a metrics_state_scheme \<Rightarrow> 'a metrics_state_scheme" where
  "cimd_metrics outcome s =
     incrementCounter ''cimd_fetch_total'' [(''outcome'', outcome)]
       (recordDuration ''cimd_fetch_duration_ms'' [(''outcome'', outcome)] 0 s)"

text \<open>The duration recorded is the one of the fetch; in the model a fetch takes no time.\<close>

definition fetchAndStore ::
    "env \<Rightarrow> time_ms \<Rightarrow> string \<Rightarrow> oauth_client option \<Rightarrow> 'a client_state_scheme \<Rightarrow>
     'a client_state_scheme \<times> oauth_client option" where
  "fetchAndStore e now clientId cached s =
     (case safeFetchJson (e_net e) cimd_fetch_options now clientId (fetcher s) of
        (f, Inl reason) \<Rightarrow>
          (let s1 = cimd_metrics ''failure'' (s\<lparr>fetcher := f\<rparr>) in
           case cached of
             Some c \<Rightarrow>
               (case oc_expiresAt c of
                  Some ex \<Rightarrow>
                    if (reason = Rate_limited \<or> reason = Busy) \<and> now - ex \<le> STALE_MAX_AGE_MS
                    then (incrementCounter ''cimd_stale_served_total''
                            [(''reason'', if reason = Busy then ''busy'' else ''rate_limited'')] s1,
                          Some (c\<lparr>oc_trustLevel := assignTrustLevel e clientId (oc_source c)\<rparr>))
                    else (s1, None)
                | None \<Rightarrow> (s1, None))
           | None \<Rightarrow> (s1, None))
      | (f, Inr (headers, raw)) \<Rightarrow>
          (let s1 = cimd_metrics ''success'' (s\<lparr>fetcher := f\<rparr>) in
           case validateDocument (new_URL e) clientId raw of
             Inl _ \<Rightarrow> (s1, None)
           | Inr d \<Rightarrow>
               (case upsert_client e now clientId d (computeExpiresAt now headers) (oauthClients s1) of
                  (rows, r) \<Rightarrow> (s1\<lparr>oauthClients := rows\<rparr>, Some r))))"

definition cache_valid :: "time_ms \<Rightarrow> oauth_client \<Rightarrow> bool" where
  "cache_valid now c \<longleftrightarrow> (case oc_expiresAt c of None \<Rightarrow> True | Some ex \<Rightarrow> now < ex)"

definition resolveClient ::
    "env \<Rightarrow> time_ms \<Rightarrow> string \<Rightarrow> 'a client_state_scheme \<Rightarrow> 'a client_state_scheme \<times> oauth_client option" where
  "resolveClient e now clientId s =
     (if isDenylisted e s clientId then (s, None)
      else
        (let cached = row_of oc_clientId clientId (oauthClients s) in
         case cached of
           Some c \<Rightarrow>
             if cache_valid now c
             then (s\<lparr>oauthClients := update_many (\<lambda>r. oc_clientId r = clientId) (touch_client e now)
                                      (oauthClients s)\<rparr>,
                   Some (touch_client e now c))
             else if isCanonicalClientIdUrl (new_URL e) clientId
             then fetchAndStore e now clientId cached s
             else (s, None)
         | None \<Rightarrow>
             if isCanonicalClientIdUrl (new_URL e) clientId
             then fetchAndStore e now clientId None s else (s, None)))"

section \<open>Facts about host names\<close>

lemma split_on_append_sep: "split_on c (p @ c # d) = split_on c p @ split_on c d"
proof (induction p)
  case (Cons x p)
  then show ?case by (cases "split_on c p") auto
qed simp

lemma suffixes1_append: "suffixes1 (xs @ ys) = map (\<lambda>s. s @ ys) (suffixes1 xs) @ suffixes1 ys"
  by (induction xs) auto

lemma suffixes1_Cons_in: "xs \<noteq> [] \<Longrightarrow> xs \<in> set (suffixes1 xs)"
  by (cases xs) auto

lemma suffixes1_iff: "zs \<in> set (suffixes1 xs) \<longleftrightarrow> zs \<noteq> [] \<and> (\<exists>ps. xs = ps @ zs)"
proof (induction xs)
  case (Cons x xs)
  show ?case
  proof
    assume "zs \<in> set (suffixes1 (x # xs))"
    then show "zs \<noteq> [] \<and> (\<exists>ps. x # xs = ps @ zs)"
      using Cons by (auto simp: Cons_eq_append_conv)
  next
    assume "zs \<noteq> [] \<and> (\<exists>ps. x # xs = ps @ zs)"
    then show "zs \<in> set (suffixes1 (x # xs))"
      using Cons by (auto simp: Cons_eq_append_conv)
  qed
qed simp

lemma join_append:
  "ws \<noteq> [] \<Longrightarrow> vs \<noteq> [] \<Longrightarrow> join sep (ws @ vs) = join sep ws @ sep @ join sep vs"
  by (induction sep ws rule: join.induct) (auto simp: join_Cons)

text \<open>The indexed lookup and the suffix test agree.\<close>

lemma hostAndParents_iff: "d \<in> set (hostAndParents h) \<longleftrightarrow> hostnameMatchesDomain h d"
proof
  assume "d \<in> set (hostAndParents h)"
  then obtain zs ps where z: "zs \<noteq> []" "split_on CHR ''.'' h = ps @ zs" "d = join ''.'' zs"
    by (auto simp: hostAndParents_def suffixes1_iff)
  have h: "h = join ''.'' (ps @ zs)" using join_split_on [of "CHR ''.''" h] z(2) by simp
  show "hostnameMatchesDomain h d"
  proof (cases "ps = []")
    case True
    with h z show ?thesis by (simp add: hostnameMatchesDomain_def)
  next
    case False
    with h z have "h = join ''.'' ps @ (CHR ''.'' # d)" by (simp add: join_append)
    then show ?thesis by (metis ends_with_append hostnameMatchesDomain_def)
  qed
next
  assume "hostnameMatchesDomain h d"
  then consider "h = d" | p where "h = p @ CHR ''.'' # d"
    unfolding hostnameMatchesDomain_def ends_with_def by (metis append_take_drop_id)
  then show "d \<in> set (hostAndParents h)"
  proof cases
    case 1
    then show ?thesis
      using suffixes1_Cons_in [OF split_on_nonempty [of "CHR ''.''" h]]
      by (auto simp: hostAndParents_def join_split_on intro!: rev_image_eqI)
  next
    case (2 p)
    have "split_on CHR ''.'' d \<in> set (suffixes1 (split_on CHR ''.'' h))"
      using 2 by (auto simp: suffixes1_iff split_on_append_sep)
    then show ?thesis by (force simp: hostAndParents_def join_split_on)
  qed
qed

section \<open>Facts about documents and lifetimes\<close>

lemma cacheLifetimeMs_bounds:
  "cacheLifetimeMs cc = 0 \<or> (MIN_TTL_MS \<le> cacheLifetimeMs cc \<and> cacheLifetimeMs cc \<le> DEFAULT_TTL_MS)"
  by (simp add: cacheLifetimeMs_def Let_def MIN_TTL_MS_def DEFAULT_TTL_MS_def split: option.splits)

lemma doc_redirect_uris_ok:
  "doc_redirect_uris parse doc = Inr us \<Longrightarrow> us \<noteq> [] \<and> (\<forall>u \<in> set us. isAllowedRedirectUri parse u)"
  by (auto simp: doc_redirect_uris_def Let_def split: option.splits json.splits if_splits)

lemma doc_auth_ok:
  "doc_auth parse doc = Inr (m, ju) \<Longrightarrow>
     (m = ''none'' \<and> ju = None) \<or>
     (m = ''private_key_jwt'' \<and> (\<exists>u p. ju = Some u \<and> parse u = Some p \<and> url_protocol p = ''https:''))"
  by (auto simp: doc_auth_def split: option.splits json.splits if_splits)

lemma doc_grant_types_ok:
  "doc_grant_types doc = Inr gs \<Longrightarrow>
     ''authorization_code'' \<in> set gs \<and> set gs \<subseteq> set SUPPORTED_GRANT_TYPES"
  by (auto simp: doc_grant_types_def DEFAULT_GRANT_TYPES_def SUPPORTED_GRANT_TYPES_def
      split: option.splits json.splits if_splits)

lemma validateDocument_InrD:
  assumes "validateDocument parse url raw = Inr d"
  obtains doc name where "raw = JObj doc" "map_of doc ''client_id'' = Some (JStr url)"
    "map_of doc ''client_secret'' = None" "map_of doc ''client_secret_expires_at'' = None"
    "map_of doc ''client_name'' = Some (JStr name)" "cd_client_id d = url" "cd_client_name d = trim name"
    "trim name \<noteq> []" "length (trim name) \<le> CLIENT_NAME_MAX_LENGTH" "\<forall>c \<in> set name. \<not> unsafe_char c"
    "doc_redirect_uris parse doc = Inr (cd_redirect_uris d)"
    "doc_grant_types doc = Inr (cd_grant_types d)"
    "doc_response_types doc = Inr (cd_response_types d)"
    "doc_auth parse doc = Inr (cd_auth_method d, cd_jwks_uri d)"
proof (cases raw)
  case (JObj doc)
  show thesis
  proof (cases "map_of doc ''client_name''")
    case None
    with assms JObj show thesis by (auto simp: validateDocument_def split: if_splits)
  next
    case (Some j)
    with assms JObj obtain name where j: "j = JStr name"
      by (auto simp: validateDocument_def split: if_splits json.splits)
    show thesis
      using assms JObj Some j
      by (intro that [of doc name]) (auto simp: validateDocument_def split: if_splits sum.splits)
  qed
qed (use assms in \<open>auto simp: validateDocument_def\<close>)

section \<open>Facts about resolution\<close>

lemma cimd_metrics_frame [simp, frame]:
  "users (cimd_metrics oc s) = users s" "localUsers (cimd_metrics oc s) = localUsers s"
  "grants (cimd_metrics oc s) = grants s" "authCodes (cimd_metrics oc s) = authCodes s"
  "refreshTokens (cimd_metrics oc s) = refreshTokens s"
  "deviceCodes (cimd_metrics oc s) = deviceCodes s"
  "authRequests (cimd_metrics oc s) = authRequests s"
  "signingKeys (cimd_metrics oc s) = signingKeys s"
  "oauthClients (cimd_metrics oc s) = oauthClients s"
  "deniedClients (cimd_metrics oc s) = deniedClients s"
  "loginFailures (cimd_metrics oc s) = loginFailures s"
  "resourceServers (cimd_metrics oc s) = resourceServers s"
  "registry (cimd_metrics oc s) = registry s"
  "metrics_state.more (cimd_metrics oc s) = metrics_state.more s"
  by (simp_all add: cimd_metrics_def)

text \<open>The rows a flow depends on, in one value: what an operation leaves alone is one equation.\<close>

definition flow_rows :: "'a registry_state_scheme \<Rightarrow>
    (user list \<times> local_user list \<times> auth_request list \<times> auth_code list \<times> device_code list \<times>
     grant list \<times> refresh_token list) \<times> registry" where
  "flow_rows s =
     ((users s, localUsers s, authRequests s, authCodes s, deviceCodes s, grants s, refreshTokens s),
      registry s)"

lemma flow_rows_eqD:
  assumes "flow_rows s' = flow_rows s"
  shows "users s' = users s" "localUsers s' = localUsers s" "authRequests s' = authRequests s"
    "authCodes s' = authCodes s" "deviceCodes s' = deviceCodes s" "grants s' = grants s"
    "refreshTokens s' = refreshTokens s" "registry s' = registry s"
  using assms by (simp_all add: flow_rows_def)

lemma flow_rows_increment [simp]: "flow_rows (incrementCounter n l s) = flow_rows s"
  by (simp add: flow_rows_def)

lemma fetchAndStore_flow_rows:
  "flow_rows (fst (fetchAndStore e now cid cached s)) = flow_rows s"
  by (simp add: fetchAndStore_def flow_rows_def Let_def split: prod.splits sum.splits option.splits)

lemma flow_rows_oauthClients [simp]: "flow_rows (s\<lparr>oauthClients := x\<rparr>) = flow_rows s"
  by (simp add: flow_rows_def)

lemma resolveClient_flow_rows:
  assumes "resolveClient e now cid s = (s', c)"
  shows "flow_rows s' = flow_rows s"
proof -
  have "flow_rows (fst (resolveClient e now cid s)) = flow_rows s"
    by (simp add: resolveClient_def Let_def fetchAndStore_flow_rows split: option.splits)
  with assms show ?thesis by simp
qed

lemma upsert_client_id: "upsert_client e now cid d ex rows = (rows', r) \<Longrightarrow> oc_clientId r = cid"
  by (auto simp: upsert_client_def Let_def split: option.splits dest: row_of_SomeD)

lemma fetchAndStore_id:
  assumes "fetchAndStore e now cid cached s = (s', Some c)" and "\<And>x. cached = Some x \<Longrightarrow> oc_clientId x = cid"
  shows "oc_clientId c = cid"
  using assms
  by (auto simp: fetchAndStore_def Let_def split: prod.splits sum.splits option.splits if_splits
      dest: upsert_client_id)

lemma resolveClient_SomeD:
  assumes "resolveClient e now cid s = (s', Some c)"
  shows "oc_clientId c = cid" and "\<not> isDenylisted e s cid"
  using assms
  by (auto simp: resolveClient_def Let_def touch_client_def split: if_splits option.splits
      dest: row_of_SomeD fetchAndStore_id)

end
