(* ===== verification/Tokens.thy ===== *)
theory Tokens
  imports SigningKeys Clients
begin

text \<open>
  \<^verbatim>\<open>crypto/access-token.ts\<close> and \<^verbatim>\<open>crypto/refresh-token.ts\<close>: which scopes and claims an access token
  carries and how long it lives, and the issue of a refresh token.  Random values (the \<^verbatim>\<open>jti\<close>,
  generated keys, the opaque token) are arguments.
\<close>

section \<open>Access tokens\<close>

definition DEFAULT_TTL_SECONDS :: int where "DEFAULT_TTL_SECONDS = 15 * 60"
definition SHORT_LIVED_TTL_SECONDS :: int where "SHORT_LIVED_TTL_SECONDS = 5 * 60"

datatype mint_error = Unregistered_resource | Mint_fault

record mint_params =
  mp_userId :: string
  mp_clientId :: string
  mp_resource :: string
  mp_scopes :: "string list"
  mp_releaseClaims :: "string list"

record minted =
  mi_token :: jwt
  mi_expiresIn :: int

text \<open>The random values one request may draw.\<close>

record rand =
  r_keys :: "key_pair list"
  r_jti :: string
  r_token :: string
  r_id :: string

definition mintable_scopes :: "resource_server \<Rightarrow> string list \<Rightarrow> string list" where
  "mintable_scopes rs scopes = filter (\<lambda>sc. sc \<in> set (declared_names rs)) scopes"

definition is_short_lived :: "resource_server \<Rightarrow> string \<Rightarrow> bool" where
  "is_short_lived rs name = (case find_scope rs name of None \<Rightarrow> False | Some sc \<Rightarrow> s_shortLived sc)"

definition token_ttl :: "resource_server \<Rightarrow> string list \<Rightarrow> int" where
  "token_ttl rs scopes =
     (if \<exists>sc \<in> set scopes. is_short_lived rs sc then SHORT_LIVED_TTL_SECONDS else DEFAULT_TTL_SECONDS)"

text \<open>The payload: released claims first, so the protocol claims win.\<close>

definition token_payload ::
    "env \<Rightarrow> mint_params \<Rightarrow> string \<Rightarrow> string list \<Rightarrow> (string, json) jsmap \<Rightarrow> (string, json) jsmap" where
  "token_payload e p jti scopes released =
     fold (\<lambda>(k, v) m. AList.update k v m)
       [(''iss'', JStr (e_issuerUrl e)), (''sub'', JStr (mp_userId p)), (''aud'', JStr (mp_resource p)),
        (''client_id'', JStr (mp_clientId p)), (''scope'', JStr (join '' '' scopes)), (''jti'', JStr jti)]
       released"

definition mintAccessToken ::
    "env \<Rightarrow> time_ms \<Rightarrow> rand \<Rightarrow> mint_params \<Rightarrow> 'a registry_state_scheme \<Rightarrow>
     'a registry_state_scheme \<times> (mint_error + minted)" where
  "mintAccessToken e now rnd p s =
     (if mp_resource p = [] then (s, Inl Mint_fault)
      else case lookupResourceServer s (mp_resource p) of
        None \<Rightarrow> (s, Inl Unregistered_resource)
      | Some rs \<Rightarrow>
          (let scopes = mintable_scopes rs (mp_scopes p); expiresIn = token_ttl rs scopes in
           case loadReleasedClaims (e_json_len e) (e_claimMap e) s (mp_userId p) (mp_releaseClaims p) of
             Inl _ \<Rightarrow> (s, Inl Mint_fault)
           | Inr released \<Rightarrow>
               (case signJwt now (r_keys rnd) (token_payload e p (r_jti rnd) scopes released) expiresIn s of
                  (s', None) \<Rightarrow> (s', Inl Mint_fault)
                | (s', Some t) \<Rightarrow> (s', Inr \<lparr>mi_token = t, mi_expiresIn = expiresIn\<rparr>))))"

section \<open>Refresh tokens\<close>

definition REFRESH_TOKEN_TTL_MS :: int where
  "REFRESH_TOKEN_TTL_MS = 30 * 24 * 60 * 60 * 1000"

definition accessTokenScopes :: "string list \<Rightarrow> string list" where
  "accessTokenScopes scopes = filter (\<lambda>sc. sc \<noteq> ''offline_access'') scopes"

definition refreshableScopes ::
    "'a registry_state_scheme \<Rightarrow> string \<Rightarrow> string list \<Rightarrow> string list" where
  "refreshableScopes s resource scopes =
     (case lookupResourceServer s resource of
        None \<Rightarrow> scopes
      | Some rs \<Rightarrow>
          (let shortLived = map s_name (filter s_shortLived (rs_scopes rs));
               declared = declared_names rs in
           filter (\<lambda>sc. sc \<notin> set shortLived \<and> (sc = ''offline_access'' \<or> sc \<in> set declared)) scopes))"

definition permittedScopes ::
    "env \<Rightarrow> 'a registry_state_scheme \<Rightarrow> string \<Rightarrow> string \<Rightarrow> string list \<Rightarrow> string list" where
  "permittedScopes e s resource userId scopes =
     (case lookupResourceServer s resource of
        None \<Rightarrow> scopes
      | Some rs \<Rightarrow>
          (let gated = filter (\<lambda>sc. s_requireGroups sc \<noteq> None \<and> s_name sc \<in> set scopes) (rs_scopes rs) in
           if gated = [] then scopes
           else
             (let groups = loadUserGroups (e_claimMap e) s userId;
                  forbidden = map s_name (filter (\<lambda>sc. \<not> groupsSatisfy groups (s_requireGroups sc)) gated) in
              filter (\<lambda>sc. sc \<notin> set forbidden) scopes)))"

text \<open>The insert of a refresh token row; \<^const>\<open>None\<close> when its hash is taken (P2002).\<close>

definition issueRefreshToken ::
    "env \<Rightarrow> time_ms \<Rightarrow> string \<Rightarrow> string \<Rightarrow> string \<Rightarrow> string \<Rightarrow> string list \<Rightarrow> string \<Rightarrow>
     'a registry_state_scheme \<Rightarrow> 'a registry_state_scheme option" where
  "issueRefreshToken e now token userId clientId resource scopes grantId s =
     map_option (\<lambda>t. s\<lparr>refreshTokens := t\<rparr>)
       (create_row rt_tokenHash
          \<lparr>rt_tokenHash = e_sha256 e token, rt_userId = userId, rt_clientId = clientId,
           rt_resource = resource, rt_scopes = refreshableScopes s resource scopes,
           rt_grantId = grantId, rt_expiresAt = now + REFRESH_TOKEN_TTL_MS,
           rt_rotatedTo = None, rt_revokedAt = None\<rparr> (refreshTokens s))"

section \<open>Facts\<close>

lemma flow_rows_signingKeys [simp]: "flow_rows (s\<lparr>signingKeys := x\<rparr>) = flow_rows s"
  by (simp add: flow_rows_def)

lemma signJwt_flow_rows: "signJwt now gs p ttl s = (s', r) \<Longrightarrow> flow_rows s' = flow_rows s"
  by (metis flow_rows_signingKeys signJwt_frame)

lemma mint_flow_rows: "mintAccessToken e now rnd p s = (s', r) \<Longrightarrow> flow_rows s' = flow_rows s"
  by (auto simp: mintAccessToken_def Let_def split: if_splits option.splits sum.splits prod.splits
      dest: signJwt_flow_rows)

lemma token_payload_get:
  "jm_get (token_payload e p jti scopes released) ''iss'' = Some (JStr (e_issuerUrl e))"
  "jm_get (token_payload e p jti scopes released) ''sub'' = Some (JStr (mp_userId p))"
  "jm_get (token_payload e p jti scopes released) ''aud'' = Some (JStr (mp_resource p))"
  "jm_get (token_payload e p jti scopes released) ''client_id'' = Some (JStr (mp_clientId p))"
  "jm_get (token_payload e p jti scopes released) ''scope'' = Some (JStr (join '' '' scopes))"
  "jm_get (token_payload e p jti scopes released) ''jti'' = Some (JStr jti)"
  by (simp_all add: token_payload_def)

lemma token_payload_other:
  assumes "n \<notin> {''iss'', ''sub'', ''aud'', ''client_id'', ''scope'', ''jti''}"
  shows "jm_get (token_payload e p jti scopes released) n = jm_get released n"
  using assms by (simp add: token_payload_def)

lemma mint_InrD:
  assumes "mintAccessToken e now rnd p s = (s', Inr m)"
  obtains rs released k where "lookupResourceServer s (mp_resource p) = Some rs"
    "loadReleasedClaims (e_json_len e) (e_claimMap e) s (mp_userId p) (mp_releaseClaims p) = Inr released"
    "getSigningKeyForSigning now (r_keys rnd) s = (s', Some k)"
    "m = \<lparr>mi_token = \<lparr>jwt_kid = sk_kid k, jwt_typ = ''at+jwt'',
            jwt_claims = token_payload e p (r_jti rnd) (mintable_scopes rs (mp_scopes p)) released,
            jwt_iat = epoch_s now,
            jwt_exp = epoch_s now + token_ttl rs (mintable_scopes rs (mp_scopes p))\<rparr>,
          mi_expiresIn = token_ttl rs (mintable_scopes rs (mp_scopes p))\<rparr>"
proof -
  from assms obtain rs released t where *: "lookupResourceServer s (mp_resource p) = Some rs"
    "loadReleasedClaims (e_json_len e) (e_claimMap e) s (mp_userId p) (mp_releaseClaims p) = Inr released"
    "signJwt now (r_keys rnd) (token_payload e p (r_jti rnd) (mintable_scopes rs (mp_scopes p)) released)
       (token_ttl rs (mintable_scopes rs (mp_scopes p))) s = (s', Some t)"
    "m = \<lparr>mi_token = t, mi_expiresIn = token_ttl rs (mintable_scopes rs (mp_scopes p))\<rparr>"
    by (auto simp: mintAccessToken_def Let_def split: if_splits option.splits sum.splits prod.splits)
  from signJwt_SomeD [OF *(3)] * that show thesis by metis
qed

lemma is_short_lived_iff:
  assumes "distinct (declared_names rs)"
  shows "is_short_lived rs n \<longleftrightarrow> (\<exists>sc \<in> set (rs_scopes rs). s_name sc = n \<and> s_shortLived sc)"
proof
  assume "is_short_lived rs n"
  then show "\<exists>sc \<in> set (rs_scopes rs). s_name sc = n \<and> s_shortLived sc"
    by (auto simp: is_short_lived_def split: option.splits dest: find_scope_SomeD)
next
  assume "\<exists>sc \<in> set (rs_scopes rs). s_name sc = n \<and> s_shortLived sc"
  then obtain sc where sc: "sc \<in> set (rs_scopes rs)" "s_name sc = n" "s_shortLived sc" by blast
  then have "find_scope rs n = Some sc"
    using assms row_of_member [of s_name "rs_scopes rs" sc]
    by (simp add: find_scope_def row_of_def declared_names_def)
  with sc show "is_short_lived rs n" by (simp add: is_short_lived_def)
qed

lemma refreshableScopes_subset: "set (refreshableScopes s r scopes) \<subseteq> set scopes"
  by (auto simp: refreshableScopes_def Let_def split: option.splits)

lemma permittedScopes_subset: "set (permittedScopes e s r u scopes) \<subseteq> set scopes"
  by (auto simp: permittedScopes_def Let_def split: option.splits)

lemma refreshableScopes_not_short:
  assumes "lookupResourceServer s r = Some rs" and "n \<in> set (refreshableScopes s r scopes)"
    and "sc \<in> set (rs_scopes rs)" and "s_name sc = n"
  shows "\<not> s_shortLived sc"
  using assms by (auto simp: refreshableScopes_def Let_def)

lemma permittedScopes_groups:
  assumes "lookupResourceServer s r = Some rs" and "n \<in> set (permittedScopes e s r u scopes)"
    and "sc \<in> set (rs_scopes rs)" and "s_name sc = n"
  shows "groupsSatisfy (loadUserGroups (e_claimMap e) s u) (s_requireGroups sc)"
proof (cases "s_requireGroups sc")
  case (Some gs)
  have "n \<in> set scopes" using assms permittedScopes_subset by blast
  with assms Some show ?thesis
    by (auto simp: permittedScopes_def Let_def filter_empty_conv split: if_splits)
qed (simp add: groupsSatisfy_def)

lemma issueRefreshToken_Some:
  assumes "issueRefreshToken e now tok u c r scs g s = Some s'"
  obtains row where "s' = s\<lparr>refreshTokens := refreshTokens s @ [row]\<rparr>" "rt_tokenHash row = e_sha256 e tok"
    "rt_userId row = u" "rt_clientId row = c" "rt_resource row = r" "rt_grantId row = g"
    "rt_scopes row = refreshableScopes s r scs" "rt_expiresAt row = now + REFRESH_TOKEN_TTL_MS"
    "rt_rotatedTo row = None" "rt_revokedAt row = None" "e_sha256 e tok \<notin> rt_tokenHash ` set (refreshTokens s)"
proof -
  let ?row = "\<lparr>rt_tokenHash = e_sha256 e tok, rt_userId = u, rt_clientId = c,
           rt_resource = r, rt_scopes = refreshableScopes s r scs, rt_grantId = g,
           rt_expiresAt = now + REFRESH_TOKEN_TTL_MS, rt_rotatedTo = None, rt_revokedAt = None\<rparr>"
  from assms have "s' = s\<lparr>refreshTokens := refreshTokens s @ [?row]\<rparr>"
    "e_sha256 e tok \<notin> rt_tokenHash ` set (refreshTokens s)"
    by (auto simp: issueRefreshToken_def create_row_Some)
  then show thesis by (intro that [of ?row]) auto
qed

end
