(* ===== verification/ClientAssertion.thy ===== *)
theory ClientAssertion
  imports Clients
begin

text \<open>
  \<^verbatim>\<open>oauth/client-assertion.ts\<close>: the in-memory JWKS cache of confidential clients, the rate-limited
  refetch for an unknown \<^verbatim>\<open>kid\<close>, the replay store of \<^verbatim>\<open>jti\<close> values (bounded, fails closed) and the
  authentication of a client at the token endpoint.
\<close>

record cached_jwks =
  cj_keys :: "json list"
  cj_expiresAt :: time_ms

record assertion_state = client_state +
  jwksCache :: "(string, cached_jwks) jsmap"
  lastKidRefetch :: "(string, time_ms) jsmap"
  seenJti :: "(string, rat) jsmap"

section \<open>The JWKS cache\<close>

definition MAX_JWKS_CACHE_ENTRIES :: nat where "MAX_JWKS_CACHE_ENTRIES = 500"
definition KID_REFETCH_MIN_INTERVAL_MS :: int where "KID_REFETCH_MIN_INTERVAL_MS = 30 * 1000"
definition DEFAULT_JWKS_TTL_MS :: int where "DEFAULT_JWKS_TTL_MS = 24 * 60 * 60 * 1000"
definition MIN_JWKS_TTL_MS :: int where "MIN_JWKS_TTL_MS = 5 * 60 * 1000"

definition setBounded :: "'k \<Rightarrow> 'v \<Rightarrow> ('k, 'v) jsmap \<Rightarrow> ('k, 'v) jsmap" where
  "setBounded k v m = jm_evict_over MAX_JWKS_CACHE_ENTRIES (jm_reinsert k v m)"

text \<open>
  \<^verbatim>\<open>/(?:^|,)\s*(?:no-store|no-cache)\b/i\<close> and \<^verbatim>\<open>/(?:^|,)\s*max-age=([^,\s]*)/i\<close>: directives are the
  pieces between commas, without leading white space.
\<close>

definition directives_of :: "string \<Rightarrow> string list" where
  "directives_of v = map (dropWhile is_space) (split_on CHR '','' v)"

definition word_prefix :: "string \<Rightarrow> string \<Rightarrow> bool" where
  "word_prefix w d \<longleftrightarrow>
     starts_with w (to_lower d) \<and>
     (drop (length w) d = [] \<or> \<not> is_word_char (hd (drop (length w) d)))"

definition jwksTtlMs :: "string option \<Rightarrow> int" where
  "jwksTtlMs cacheControl =
     (case truthy cacheControl of
        None \<Rightarrow> DEFAULT_JWKS_TTL_MS
      | Some value \<Rightarrow>
          (let ds = directives_of value in
           if \<exists>d \<in> set ds. word_prefix ''no-store'' d \<or> word_prefix ''no-cache'' d then 0
           else case List.find (\<lambda>d. starts_with ''max-age='' (to_lower d)) ds of
                  None \<Rightarrow> DEFAULT_JWKS_TTL_MS
                | Some d \<Rightarrow>
                    (let v = takeWhile (\<lambda>c. \<not> is_space c) (drop 8 d) in
                     if \<not> all_digits v then DEFAULT_JWKS_TTL_MS
                     else if number_of v = 0 then 0
                     else min (max (int (number_of v) * 1000) MIN_JWKS_TTL_MS) DEFAULT_JWKS_TTL_MS)))"

datatype assertion_error =
    AE_fetch reject_reason
  | AE_bad_jwk_set
  | AE_bad_key
  | AE_jwt string
  | AE_missing_jti
  | AE_jti_too_long
  | AE_missing_exp
  | AE_exp_too_far
  | AE_iat_in_future
  | AE_jti_used
  | AE_replay_cache_full
  | AE_missing_jwks_uri
  | AE_assertion_required

definition DEFAULT_MAX_BYTES :: nat where "DEFAULT_MAX_BYTES = 16 * 1024"

definition jwks_fetch_options :: fetch_options where
  "jwks_fetch_options =
     \<lparr>fo_maxBytes = DEFAULT_MAX_BYTES, fo_maxRedirects = 0, fo_allowPrivateNetwork = False,
      fo_allowedPorts = Some [443], fo_pool = Pool_client_jwks\<rparr>"

definition fetchClientJwks ::
    "env \<Rightarrow> time_ms \<Rightarrow> string \<Rightarrow> 'a assertion_state_scheme \<Rightarrow>
     'a assertion_state_scheme \<times> (assertion_error + json list)" where
  "fetchClientJwks e now jwksUri s =
     (case safeFetchJson (e_net e) jwks_fetch_options now jwksUri (fetcher s) of
        (f, Inl reason) \<Rightarrow> (s\<lparr>fetcher := f\<rparr>, Inl (AE_fetch reason))
      | (f, Inr (headers, raw)) \<Rightarrow>
          (let s1 = s\<lparr>fetcher := f\<rparr> in
           case member raw ''keys'' of
             Some (JArr keys) \<Rightarrow>
               (let ttl = jwksTtlMs (jm_get headers ''cache-control'') in
                (if 0 < ttl
                 then s1\<lparr>jwksCache := setBounded jwksUri \<lparr>cj_keys = keys, cj_expiresAt = now + ttl\<rparr> (jwksCache s1)\<rparr>
                 else s1\<lparr>jwksCache := AList.delete jwksUri (jwksCache s1)\<rparr>,
                 Inr keys))
           | _ \<Rightarrow> (s1, Inl AE_bad_jwk_set)))"

text \<open>The flag says whether the keys were fetched just now.\<close>

definition getClientJwks ::
    "env \<Rightarrow> time_ms \<Rightarrow> string \<Rightarrow> 'a assertion_state_scheme \<Rightarrow>
     'a assertion_state_scheme \<times> (assertion_error + json list \<times> bool)" where
  "getClientJwks e now jwksUri s =
     (case jm_get (jwksCache s) jwksUri of
        Some c \<Rightarrow>
          if now < cj_expiresAt c then (s, Inr (cj_keys c, False))
          else (case fetchClientJwks e now jwksUri s of
                  (s1, Inl er) \<Rightarrow> (s1, Inl er) | (s1, Inr ks) \<Rightarrow> (s1, Inr (ks, True)))
      | None \<Rightarrow>
          (case fetchClientJwks e now jwksUri s of
             (s1, Inl er) \<Rightarrow> (s1, Inl er) | (s1, Inr ks) \<Rightarrow> (s1, Inr (ks, True))))"

text \<open>
  The keys an assertion is checked against: those of the cache, or after one forced refetch when
  the assertion names a key the cached set does not hold.  A \<^verbatim>\<open>null\<close> among the keys makes the
  property reads throw.
\<close>

definition assertion_keys ::
    "env \<Rightarrow> time_ms \<Rightarrow> string \<Rightarrow> string \<Rightarrow> 'a assertion_state_scheme \<Rightarrow>
     'a assertion_state_scheme \<times> (assertion_error + json list)" where
  "assertion_keys e now jwksUri assertion s =
     (case getClientJwks e now jwksUri s of
        (s1, Inl er) \<Rightarrow> (s1, Inl er)
      | (s1, Inr (keys, fresh)) \<Rightarrow>
          if JNull \<in> set keys then (s1, Inl AE_bad_key)
          else
            let refetch =
              (case e_jwt_kid e assertion of
                 None \<Rightarrow> False
               | Some kid \<Rightarrow>
                   \<not> fresh \<and> \<not> (\<exists>k \<in> set keys. member k ''kid'' = Some (JStr kid)) \<and>
                   (case jm_get (lastKidRefetch s1) jwksUri of
                      None \<Rightarrow> True | Some t \<Rightarrow> KID_REFETCH_MIN_INTERVAL_MS \<le> now - t)) in
            if refetch then
              (case fetchClientJwks e now jwksUri
                      (s1\<lparr>lastKidRefetch := setBounded jwksUri now (lastKidRefetch s1)\<rparr>) of
                 (s2, Inl er) \<Rightarrow> (s2, Inl er)
               | (s2, Inr ks) \<Rightarrow> if JNull \<in> set ks then (s2, Inl AE_bad_key) else (s2, Inr ks))
            else (s1, Inr keys))"

section \<open>The replay store\<close>

definition MAX_ASSERTION_LIFETIME_S :: int where "MAX_ASSERTION_LIFETIME_S = 300"
definition CLOCK_SKEW_S :: int where "CLOCK_SKEW_S = 60"
definition MAX_JTI_LENGTH :: nat where "MAX_JTI_LENGTH = 256"
definition MAX_SEEN_JTI :: nat where "MAX_SEEN_JTI = 50000"

definition ALLOWED_ALGORITHMS :: "string list" where
  "ALLOWED_ALGORITHMS = [''ES256'', ''ES384'', ''PS256'', ''RS256'', ''EdDSA'']"

definition jtiKey :: "env \<Rightarrow> string \<Rightarrow> string \<Rightarrow> string" where
  "jtiKey e clientId jti = e_sha256 e (clientId @ [CHR 0x00] @ jti)"

definition sweepSeenJti :: "time_ms \<Rightarrow> (string, rat) jsmap \<Rightarrow> (string, rat) jsmap" where
  "sweepSeenJti now m = filter (\<lambda>(_, expiresAt). \<not> expiresAt \<le> of_int now) m"

definition sweep_jti_state :: "time_ms \<Rightarrow> 'a assertion_state_scheme \<Rightarrow> 'a assertion_state_scheme" where
  "sweep_jti_state now s = s\<lparr>seenJti := sweepSeenJti now (seenJti s)\<rparr>"

text \<open>The last steps of a verification: the used \<^verbatim>\<open>jti\<close> is refused, a full store is swept and then
  refuses, otherwise the \<^verbatim>\<open>jti\<close> is kept until the assertion could no longer verify.\<close>

definition record_jti ::
    "time_ms \<Rightarrow> string \<Rightarrow> rat \<Rightarrow> (string, rat) jsmap \<Rightarrow> (string, rat) jsmap \<times> assertion_error option" where
  "record_jti now key xp m =
     (if jm_has key m then (m, Some AE_jti_used)
      else
        let m1 = (if MAX_SEEN_JTI \<le> length m then sweepSeenJti now m else m) in
        if MAX_SEEN_JTI \<le> length m1 then (m1, Some AE_replay_cache_full)
        else (AList.update key (xp * 1000 + of_int CLOCK_SKEW_S * 1000) m1, None))"

definition assertion_expect :: "env \<Rightarrow> string \<Rightarrow> jwt_expect" where
  "assertion_expect e clientId =
     \<lparr>je_issuer = clientId, je_subject = Some clientId,
      je_audience = e_issuerUrl e @ ''/oauth/token'', je_algorithms = ALLOWED_ALGORITHMS,
      je_clockTolerance = CLOCK_SKEW_S, je_typ = None\<rparr>"

text \<open>The checks of the payload itself.\<close>

definition check_payload :: "time_ms \<Rightarrow> json \<Rightarrow> assertion_error + (string \<times> rat)" where
  "check_payload now p =
     (case member p ''jti'' of
        Some (JStr jti) \<Rightarrow>
          if jti = [] then Inl AE_missing_jti
          else if MAX_JTI_LENGTH < length jti then Inl AE_jti_too_long
          else (case member p ''exp'' of
            Some (JNum xp) \<Rightarrow>
              if of_int (MAX_ASSERTION_LIFETIME_S + CLOCK_SKEW_S) < xp - of_int (epoch_s now)
              then Inl AE_exp_too_far
              else if (case member p ''iat'' of
                         Some (JNum iat) \<Rightarrow> of_int CLOCK_SKEW_S < iat - of_int (epoch_s now)
                       | _ \<Rightarrow> False)
              then Inl AE_iat_in_future
              else Inr (jti, xp)
          | _ \<Rightarrow> Inl AE_missing_exp)
      | _ \<Rightarrow> Inl AE_missing_jti)"

definition verifyClientAssertion ::
    "env \<Rightarrow> time_ms \<Rightarrow> string \<Rightarrow> string \<Rightarrow> string \<Rightarrow> 'a assertion_state_scheme \<Rightarrow>
     'a assertion_state_scheme \<times> assertion_error option" where
  "verifyClientAssertion e now clientId jwksUri assertion s =
     (case assertion_keys e now jwksUri assertion s of
        (s1, Inl er) \<Rightarrow> (s1, Some er)
      | (s1, Inr allKeys) \<Rightarrow>
          let keys = filter (\<lambda>k. member k ''kty'' \<noteq> Some (JStr ''oct'')) allKeys in
          (case e_jwt_verify e (assertion_expect e clientId) keys now assertion of
             Inl msg \<Rightarrow> (s1, Some (AE_jwt msg))
           | Inr payload \<Rightarrow>
               (case check_payload now payload of
                  Inl er \<Rightarrow> (s1, Some er)
                | Inr (jti, xp) \<Rightarrow>
                    (case record_jti now (jtiKey e clientId jti) xp (seenJti s1) of
                       (m, r) \<Rightarrow> (s1\<lparr>seenJti := m\<rparr>, r)))))"

section \<open>Client authentication\<close>

definition client_auth_method :: "oauth_client \<Rightarrow> string" where
  "client_auth_method c =
     (case member (oc_metadata c) ''token_endpoint_auth_method'' of Some (JStr m) \<Rightarrow> m | _ \<Rightarrow> ''none'')"

text \<open>\<^const>\<open>None\<close> is \<^verbatim>\<open>{ ok: true }\<close>; a failure is always \<^verbatim>\<open>invalid_client\<close>.\<close>

definition authenticateConfidentialClient ::
    "env \<Rightarrow> time_ms \<Rightarrow> oauth_client \<Rightarrow> body \<Rightarrow> 'a assertion_state_scheme \<Rightarrow>
     'a assertion_state_scheme \<times> assertion_error option" where
  "authenticateConfidentialClient e now client body s =
     (if client_auth_method client \<noteq> ''private_key_jwt'' then (s, None)
      else case member (oc_metadata client) ''jwks_uri'' of
        Some (JStr jwksUri) \<Rightarrow>
          (case truthy (stringField body ''client_assertion'') of
             Some assertion \<Rightarrow>
               if stringField body ''client_assertion_type'' =
                    Some ''urn:ietf:params:oauth:client-assertion-type:jwt-bearer''
               then verifyClientAssertion e now (oc_clientId client) jwksUri assertion s
               else (s, Some AE_assertion_required)
           | None \<Rightarrow> (s, Some AE_assertion_required))
      | _ \<Rightarrow> (s, Some AE_missing_jwks_uri))"

section \<open>Facts\<close>

lemma setBounded_length: "length (setBounded k v m) \<le> MAX_JWKS_CACHE_ENTRIES"
  by (simp add: setBounded_def)

lemma jwksTtlMs_bounds:
  "jwksTtlMs cc = 0 \<or> (MIN_JWKS_TTL_MS \<le> jwksTtlMs cc \<and> jwksTtlMs cc \<le> DEFAULT_JWKS_TTL_MS)"
  by (simp add: jwksTtlMs_def Let_def MIN_JWKS_TTL_MS_def DEFAULT_JWKS_TTL_MS_def split: option.splits)

lemma fetchClientJwks_frame:
  "flow_rows (fst (fetchClientJwks e now u s)) = flow_rows s \<and>
   seenJti (fst (fetchClientJwks e now u s)) = seenJti s \<and>
   (length (jwksCache s) \<le> MAX_JWKS_CACHE_ENTRIES \<longrightarrow>
      length (jwksCache (fst (fetchClientJwks e now u s))) \<le> MAX_JWKS_CACHE_ENTRIES)"
  using setBounded_length order_trans [OF length_delete_le]
  by (auto simp: fetchClientJwks_def flow_rows_def Let_def
      split: prod.splits sum.splits option.splits json.splits)

lemma getClientJwks_frame:
  "flow_rows (fst (getClientJwks e now u s)) = flow_rows s \<and>
   seenJti (fst (getClientJwks e now u s)) = seenJti s"
proof -
  obtain s1 r where f: "fetchClientJwks e now u s = (s1, r)" by fastforce
  with fetchClientJwks_frame [of e now u s] show ?thesis
    by (auto simp: getClientJwks_def split: option.splits sum.splits)
qed

lemma assertion_keys_frame:
  "flow_rows (fst (assertion_keys e now u a s)) = flow_rows s \<and>
   seenJti (fst (assertion_keys e now u a s)) = seenJti s"
proof -
  obtain s1 r where g: "getClientJwks e now u s = (s1, r)" by fastforce
  let ?s1 = "s1\<lparr>lastKidRefetch := setBounded u now (lastKidRefetch s1)\<rparr>"
  obtain s2 q where f: "fetchClientJwks e now u ?s1 = (s2, q)" by fastforce
  have "flow_rows ?s1 = flow_rows s1" by (simp add: flow_rows_def)
  with f g getClientJwks_frame [of e now u s] fetchClientJwks_frame [of e now u ?s1] show ?thesis
    by (auto simp: assertion_keys_def Let_def split: sum.splits)
qed

lemma flow_rows_seenJti [simp]: "flow_rows (s\<lparr>seenJti := m\<rparr>) = flow_rows s"
  by (simp add: flow_rows_def)

text \<open>A verification either leaves the replay store alone or is its last step.\<close>

lemma verify_seenJti:
  assumes "verifyClientAssertion e now cid u a s = (s', r)"
  shows "flow_rows s' = flow_rows s"
    and "(seenJti s' = seenJti s \<and> r \<noteq> None) \<or>
         (\<exists>keys p jti xp. e_jwt_verify e (assertion_expect e cid) keys now a = Inr p \<and>
            check_payload now p = Inr (jti, xp) \<and>
            record_jti now (jtiKey e cid jti) xp (seenJti s) = (seenJti s', r))"
proof -
  obtain s1 q where k: "assertion_keys e now u a s = (s1, q)" by fastforce
  with assertion_keys_frame [of e now u a s] have f: "flow_rows s1 = flow_rows s" "seenJti s1 = seenJti s"
    by simp_all
  from assms k f show "flow_rows s' = flow_rows s"
    by (auto simp: verifyClientAssertion_def Let_def split: sum.splits prod.splits)
  from assms k f show "(seenJti s' = seenJti s \<and> r \<noteq> None) \<or>
         (\<exists>keys p jti xp. e_jwt_verify e (assertion_expect e cid) keys now a = Inr p \<and>
            check_payload now p = Inr (jti, xp) \<and>
            record_jti now (jtiKey e cid jti) xp (seenJti s) = (seenJti s', r))"
    by (auto simp: verifyClientAssertion_def Let_def split: sum.splits prod.splits)
qed

lemma sweep_keeps:
  "jm_get m k = Some x \<Longrightarrow> of_int now < x \<Longrightarrow> distinct (map fst m) \<Longrightarrow>
     jm_get (sweepSeenJti now m) k = Some x"
  by (auto simp: sweepSeenJti_def distinct_map inj_on_def intro!: map_of_is_SomeI dest!: map_of_SomeD)

lemma sweep_distinct: "distinct (map fst m) \<Longrightarrow> distinct (map fst (sweepSeenJti now m))"
  by (auto simp: sweepSeenJti_def distinct_map inj_on_def)

lemma length_sweep: "length (sweepSeenJti now m) \<le> length m"
  by (simp add: sweepSeenJti_def)

lemma record_jti_distinct:
  "record_jti now k x m = (m', r) \<Longrightarrow> distinct (map fst m) \<Longrightarrow> distinct (map fst m')"
  by (auto simp: record_jti_def Let_def distinct_update sweep_distinct split: if_splits)

lemma length_update_le: "length (AList.update k v m) \<le> Suc (length m)"
  by (induction m) auto

lemma record_jti_bounded:
  "record_jti now k x m = (m', r) \<Longrightarrow> length m \<le> MAX_SEEN_JTI \<Longrightarrow> length m' \<le> MAX_SEEN_JTI"
  using length_sweep [of now m]
  by (auto simp: record_jti_def Let_def not_le Suc_le_eq split: if_splits
      intro!: order_trans [OF length_update_le])

lemma record_jti_keeps:
  assumes "record_jti now k x m = (m', r)" and "distinct (map fst m)"
    and "jm_get m j = Some y" and "of_int now < y"
  shows "jm_get m' j = Some y"
proof -
  have sw: "jm_get (sweepSeenJti now m) j = Some y" using assms(2-) by (rule_tac sweep_keeps) auto
  have "j \<noteq> k" if "\<not> jm_has k m" using that assms(3) by (auto simp: jm_has_get)
  with assms sw show ?thesis by (auto simp: record_jti_def Let_def split: if_splits)
qed

lemma record_jti_ok:
  "record_jti now k x m = (m', None) \<Longrightarrow> jm_get m' k = Some (x * 1000 + of_int CLOCK_SKEW_S * 1000)"
  by (auto simp: record_jti_def Let_def split: if_splits)

section \<open>Runs of the replay store\<close>

datatype jti_event = Jti_verify time_ms string string string | Jti_sweep time_ms

fun jti_event_time :: "jti_event \<Rightarrow> time_ms" where
  "jti_event_time (Jti_verify t _ _ _) = t"
| "jti_event_time (Jti_sweep t) = t"

fun jti_step :: "env \<Rightarrow> jti_event \<Rightarrow> 'a assertion_state_scheme \<Rightarrow> 'a assertion_state_scheme" where
  "jti_step e (Jti_verify t cid u a) s = fst (verifyClientAssertion e t cid u a s)"
| "jti_step e (Jti_sweep t) s = sweep_jti_state t s"

definition jti_run :: "env \<Rightarrow> jti_event list \<Rightarrow> 'a assertion_state_scheme \<Rightarrow> 'a assertion_state_scheme" where
  "jti_run e es s = fold (jti_step e) es s"

definition jti_store_ok :: "'a assertion_state_scheme \<Rightarrow> bool" where
  "jti_store_ok s \<longleftrightarrow> distinct (map fst (seenJti s)) \<and> length (seenJti s) \<le> MAX_SEEN_JTI"

lemma jti_step_ok: "jti_store_ok s \<Longrightarrow> jti_store_ok (jti_step e ev s)"
proof (cases ev)
  case (Jti_verify t cid u a)
  assume ok: "jti_store_ok s"
  obtain s' r where v: "verifyClientAssertion e t cid u a s = (s', r)" by fastforce
  from verify_seenJti(2) [OF v] ok have "jti_store_ok s'"
    by (auto simp: jti_store_ok_def dest: record_jti_distinct record_jti_bounded)
  with v Jti_verify show ?thesis by simp
next
  case (Jti_sweep t)
  assume "jti_store_ok s"
  then show ?thesis
    using Jti_sweep length_sweep [of t "seenJti s"]
    by (simp add: jti_store_ok_def sweep_jti_state_def sweep_distinct)
qed

lemma jti_run_ok: "jti_store_ok s \<Longrightarrow> jti_store_ok (jti_run e es s)"
  unfolding jti_run_def by (induction es arbitrary: s) (auto intro: jti_step_ok)

lemma jti_step_keeps:
  assumes "jti_store_ok s" and "jm_get (seenJti s) k = Some x" and "of_int (jti_event_time ev) < x"
  shows "jm_get (seenJti (jti_step e ev s)) k = Some x"
proof (cases ev)
  case (Jti_verify t cid u a)
  obtain s' r where v: "verifyClientAssertion e t cid u a s = (s', r)" by fastforce
  from verify_seenJti(2) [OF v] assms Jti_verify have "jm_get (seenJti s') k = Some x"
    by (auto simp: jti_store_ok_def dest: record_jti_keeps)
  with v Jti_verify show ?thesis by simp
next
  case (Jti_sweep t)
  with assms show ?thesis by (simp add: sweep_jti_state_def jti_store_ok_def sweep_keeps)
qed

lemma jti_run_keeps:
  assumes "jti_store_ok s" and "jm_get (seenJti s) k = Some x"
    and "\<forall>ev \<in> set es. of_int (jti_event_time ev) < x"
  shows "jm_get (seenJti (jti_run e es s)) k = Some x"
  using assms
  by (induction es arbitrary: s) (auto simp: jti_run_def intro: jti_step_ok jti_step_keeps)

lemma authenticate_flow_rows:
  "authenticateConfidentialClient e now c b s = (s', r) \<Longrightarrow> flow_rows s' = flow_rows s"
  by (auto simp: authenticateConfidentialClient_def split: if_splits option.splits json.splits
      dest: verify_seenJti(1))

end
