(* ===== verification/Upstream.thy ===== *)
theory Upstream
  imports ClientAssertion
begin

text \<open>
  \<^verbatim>\<open>identity/upstream-refresh.ts\<close> and the parts of \<^verbatim>\<open>identity/oidc.ts\<close> it shares with the callback:
  the cached discovery, the claims kept from the provider, the sorting of a failed upstream call
  and the re-check of a user before a refresh.  What the provider answers is an argument
  (\<open>provider\<close>); the calls of one user never overlap (\<^verbatim>\<open>inflight\<close>), so the model runs them one by
  one, but a sign-in may change the row between the read and the write (\<open>recheck_call\<close> takes the
  row that was read).
\<close>

record oidc_conf =
  co_authorization_endpoint :: "string option"

record upstream_state = assertion_state +
  oidcConfig :: "(oidc_conf \<times> time_ms) option"
  recentFailures :: "(string, time_ms) jsmap"

section \<open>Errors of the provider\<close>

datatype client_error_code =
    Not_conform "nat option"
  | Not_json "nat option"
  | Parse_error
  | Request_timeout
  | Request_abort
  | Other_code

datatype upstream_error =
    Response_body_error string nat
  | Challenge_error nat
  | Client_error client_error_code
  | Type_error bool
  | Other_error

datatype upstream_endpoint = Token_endpoint | Userinfo_endpoint
datatype verdict = Rejected | Unavailable | Refuse

definition outage :: "nat \<Rightarrow> bool" where
  "outage status \<longleftrightarrow> 500 \<le> status \<or> status = 429"

definition userinfo_denied :: "upstream_endpoint \<Rightarrow> nat \<Rightarrow> bool" where
  "userinfo_denied ep status \<longleftrightarrow> ep = Userinfo_endpoint \<and> (status = 401 \<or> status = 403)"

text \<open>The flag of \<open>Type_error\<close> says whether the error carries a code.\<close>

fun classifyUpstreamError :: "upstream_endpoint \<Rightarrow> upstream_error \<Rightarrow> verdict" where
  "classifyUpstreamError ep (Response_body_error err status) =
     (if ep = Token_endpoint \<and> err = ''invalid_grant'' then Rejected
      else if outage status then Unavailable else Refuse)"
| "classifyUpstreamError ep (Challenge_error status) =
     (if userinfo_denied ep status then Rejected else Refuse)"
| "classifyUpstreamError ep (Client_error (Not_conform None)) = Refuse"
| "classifyUpstreamError ep (Client_error (Not_conform (Some status))) =
     (if userinfo_denied ep status then Rejected
      else if outage status then Unavailable else Refuse)"
| "classifyUpstreamError ep (Client_error (Not_json None)) = Unavailable"
| "classifyUpstreamError ep (Client_error (Not_json (Some status))) =
     (if outage status \<or> status < 400 then Unavailable
      else if userinfo_denied ep status then Rejected else Refuse)"
| "classifyUpstreamError ep (Client_error Parse_error) = Unavailable"
| "classifyUpstreamError ep (Client_error Request_timeout) = Unavailable"
| "classifyUpstreamError ep (Client_error Request_abort) = Unavailable"
| "classifyUpstreamError ep (Client_error Other_code) = Refuse"
| "classifyUpstreamError ep (Type_error coded) = (if coded then Refuse else Unavailable)"
| "classifyUpstreamError ep Other_error = Refuse"

section \<open>Claims of the provider\<close>

definition CLAIM_KEYS_TO_DROP :: "string list" where
  "CLAIM_KEYS_TO_DROP = [''iat'', ''exp'', ''nbf'', ''nonce'', ''at_hash'', ''c_hash'', ''auth_time'']"

fun claimsToStore :: "json \<Rightarrow> json" where
  "claimsToStore (JObj fs) = JObj (filter (\<lambda>(k, _). k \<notin> set CLAIM_KEYS_TO_DROP) fs)"
| "claimsToStore _ = JObj []"

definition emailFromClaims :: "json \<Rightarrow> string option" where
  "emailFromClaims claims = truthy (as_string (member claims ''email''))"

text \<open>\<^const>\<open>None\<close> when it throws.\<close>

definition subjectFromClaims :: "env \<Rightarrow> json \<Rightarrow> string option" where
  "subjectFromClaims e claims = truthy (as_string (member claims (e_subjectClaim e)))"

section \<open>Discovery\<close>

definition DISCOVERY_TTL_MS :: int where "DISCOVERY_TTL_MS = 24 * 60 * 60 * 1000"

record refresh_answer =
  ra_claims :: "unit + json option"
  ra_refreshToken :: "string option"

text \<open>What the provider answers to the calls of one operation: discovery (or a failure), the refresh
  of a token, and the userinfo endpoint.\<close>

record provider =
  pv_discovery :: "oidc_conf option"
  pv_refresh :: "string \<Rightarrow> upstream_error + refresh_answer"
  pv_userinfo :: "upstream_error + json"

definition getOidcConfig ::
    "env \<Rightarrow> provider \<Rightarrow> time_ms \<Rightarrow> 'a upstream_state_scheme \<Rightarrow>
     'a upstream_state_scheme \<times> oidc_conf option" where
  "getOidcConfig e pv now s =
     (case oidcConfig s of
        Some (c, fetchedAt) \<Rightarrow>
          if now - fetchedAt < DISCOVERY_TTL_MS then (s, Some c)
          else if e_oidcIssuer e = None then (s, None)
          else (case pv_discovery pv of
                  Some c' \<Rightarrow> (s\<lparr>oidcConfig := Some (c', now)\<rparr>, Some c')
                | None \<Rightarrow> (s, Some c))
      | None \<Rightarrow>
          if e_oidcIssuer e = None then (s, None)
          else (case pv_discovery pv of
                  Some c' \<Rightarrow> (s\<lparr>oidcConfig := Some (c', now)\<rparr>, Some c')
                | None \<Rightarrow> (s, None)))"

section \<open>The re-check\<close>

definition UPSTREAM_RECHECK_INTERVAL_MS :: int where "UPSTREAM_RECHECK_INTERVAL_MS = 5 * 60 * 1000"
definition UPSTREAM_FAIL_OPEN_MS :: int where "UPSTREAM_FAIL_OPEN_MS = 24 * 60 * 60 * 1000"
definition UPSTREAM_FAILURE_BACKOFF_MS :: int where "UPSTREAM_FAILURE_BACKOFF_MS = 60 * 1000"

datatype recheck_reason =
    User_not_found | Issuer_mismatch | No_upstream_token | Upstream_unavailable | Upstream_rejected
  | Upstream_error | Subject_missing | Subject_mismatch

text \<open>\<^const>\<open>None\<close> is \<^verbatim>\<open>{ ok: true }\<close>.\<close>

type_synonym recheck = "recheck_reason option"

text \<open>The compare-and-set writes: only the row that still holds the token used and the check time read.\<close>

definition same_snapshot :: "string \<Rightarrow> string \<Rightarrow> time_ms option \<Rightarrow> user \<Rightarrow> bool" where
  "same_snapshot userId token checkedAt u \<longleftrightarrow>
     u_id u = userId \<and> u_upstreamRefreshToken u = Some token \<and> u_upstreamCheckedAt u = checkedAt"

definition clearUpstreamToken ::
    "string \<Rightarrow> string \<Rightarrow> time_ms option \<Rightarrow> 'a db_scheme \<Rightarrow> 'a db_scheme" where
  "clearUpstreamToken userId token checkedAt s =
     s\<lparr>users := update_many (same_snapshot userId token checkedAt)
        (\<lambda>u. u\<lparr>u_upstreamRefreshToken := None\<rparr>) (users s)\<rparr>"

definition store_recheck ::
    "string \<Rightarrow> string \<Rightarrow> time_ms option \<Rightarrow> time_ms \<Rightarrow> json \<Rightarrow> string option \<Rightarrow> 'a db_scheme \<Rightarrow> 'a db_scheme" where
  "store_recheck userId token checkedAt stamp claims newToken s =
     s\<lparr>users := update_many (same_snapshot userId token checkedAt)
        (\<lambda>u. u\<lparr>u_email := (case emailFromClaims claims of Some m \<Rightarrow> m | None \<Rightarrow> u_email u),
                u_lastKnownClaims := Some (claimsToStore claims),
                u_upstreamRefreshToken :=
                  (case truthy newToken of Some t \<Rightarrow> Some t | None \<Rightarrow> u_upstreamRefreshToken u),
                u_upstreamCheckedAt := Some stamp\<rparr>) (users s)\<rparr>"

definition failOpen :: "time_ms \<Rightarrow> time_ms option \<Rightarrow> recheck" where
  "failOpen now checkedAt =
     (case checkedAt of
        Some t \<Rightarrow> if now - t < UPSTREAM_FAIL_OPEN_MS then None else Some Upstream_unavailable
      | None \<Rightarrow> Some Upstream_unavailable)"

definition forget_failure :: "string \<Rightarrow> 'a upstream_state_scheme \<Rightarrow> 'a upstream_state_scheme" where
  "forget_failure userId s = s\<lparr>recentFailures := AList.delete userId (recentFailures s)\<rparr>"

definition after_failure ::
    "time_ms \<Rightarrow> string \<Rightarrow> string \<Rightarrow> time_ms option \<Rightarrow> verdict \<Rightarrow> 'a upstream_state_scheme \<Rightarrow>
     'a upstream_state_scheme \<times> recheck" where
  "after_failure now userId token checkedAt v s =
     (case v of
        Unavailable \<Rightarrow>
          (s\<lparr>recentFailures := AList.update userId now (recentFailures s)\<rparr>, failOpen now checkedAt)
      | Rejected \<Rightarrow> (clearUpstreamToken userId token checkedAt (forget_failure userId s), Some Upstream_rejected)
      | Refuse \<Rightarrow> (forget_failure userId s, Some Upstream_error))"

text \<open>The subject the provider confirmed against the stored one, and the write.\<close>

definition accept_claims ::
    "env \<Rightarrow> time_ms \<Rightarrow> string \<Rightarrow> string \<Rightarrow> time_ms option \<Rightarrow> string \<Rightarrow> json \<Rightarrow> string option \<Rightarrow>
     'a upstream_state_scheme \<Rightarrow> 'a upstream_state_scheme \<times> recheck" where
  "accept_claims e now userId token checkedAt oidcSub claims newToken s =
     (let s1 = forget_failure userId s in
      case subjectFromClaims e claims of
        None \<Rightarrow> (clearUpstreamToken userId token checkedAt s1, Some Subject_missing)
      | Some sub \<Rightarrow>
          if sub \<noteq> oidcSub
          then (clearUpstreamToken userId token checkedAt s1, Some Subject_mismatch)
          else (store_recheck userId token checkedAt now claims newToken s1, None))"

text \<open>The calls to the provider, for a user row read before they started.\<close>

definition recheck_call ::
    "env \<Rightarrow> provider \<Rightarrow> time_ms \<Rightarrow> string \<Rightarrow> string \<Rightarrow> time_ms option \<Rightarrow> string \<Rightarrow>
     'a upstream_state_scheme \<Rightarrow> 'a upstream_state_scheme \<times> recheck" where
  "recheck_call e pv now userId token checkedAt oidcSub s =
     (case getOidcConfig e pv now s of
        (s1, None) \<Rightarrow> after_failure now userId token checkedAt Unavailable s1
      | (s1, Some _) \<Rightarrow>
          (case pv_refresh pv token of
             Inl err \<Rightarrow> after_failure now userId token checkedAt (classifyUpstreamError Token_endpoint err) s1
           | Inr ans \<Rightarrow>
               (case ra_claims ans of
                  Inl _ \<Rightarrow> after_failure now userId token checkedAt Refuse s1
                | Inr (Some claims) \<Rightarrow>
                    accept_claims e now userId token checkedAt oidcSub claims (ra_refreshToken ans) s1
                | Inr None \<Rightarrow>
                    (case pv_userinfo pv of
                       Inl err \<Rightarrow>
                         after_failure now userId token checkedAt (classifyUpstreamError Userinfo_endpoint err) s1
                     | Inr claims \<Rightarrow>
                         accept_claims e now userId token checkedAt oidcSub claims (ra_refreshToken ans) s1))))"

definition recheckUpstream ::
    "env \<Rightarrow> provider \<Rightarrow> time_ms \<Rightarrow> string \<Rightarrow> 'a upstream_state_scheme \<Rightarrow>
     'a upstream_state_scheme \<times> recheck" where
  "recheckUpstream e pv now userId s =
     (case row_of u_id userId (users s) of
        None \<Rightarrow> (s, Some User_not_found)
      | Some u \<Rightarrow>
          (case u_oidcSub u of
             None \<Rightarrow> (s, None)
           | Some oidcSub \<Rightarrow>
               if e_oidcIssuer e = None \<or> u_oidcIssuer u \<noteq> e_oidcIssuer e then (s, Some Issuer_mismatch)
               else if (case u_upstreamCheckedAt u of
                          Some t \<Rightarrow> now - t < UPSTREAM_RECHECK_INTERVAL_MS | None \<Rightarrow> False)
               then (s, None)
               else (case truthy (u_upstreamRefreshToken u) of
                  None \<Rightarrow> (s, Some No_upstream_token)
                | Some token \<Rightarrow>
                    if (case jm_get (recentFailures s) userId of
                          Some t \<Rightarrow> now - t < UPSTREAM_FAILURE_BACKOFF_MS | None \<Rightarrow> False)
                    then (s, failOpen now (u_upstreamCheckedAt u))
                    else recheck_call e pv now userId token (u_upstreamCheckedAt u) oidcSub s)))"

section \<open>Facts\<close>

text \<open>The rows other than users, and the fields of a user the re-check may not touch.\<close>

definition token_rows :: "'a registry_state_scheme \<Rightarrow>
    (local_user list \<times> auth_request list \<times> auth_code list \<times> device_code list \<times> grant list \<times>
     refresh_token list) \<times> registry" where
  "token_rows s =
     ((localUsers s, authRequests s, authCodes s, deviceCodes s, grants s, refreshTokens s), registry s)"

definition user_keys :: "'a db_scheme \<Rightarrow> (string \<times> string option \<times> string option \<times> time_ms option \<times> nat \<times> nat) list" where
  "user_keys s = map (\<lambda>u. (u_id u, u_oidcSub u, u_oidcIssuer u, u_deactivatedAt u, u_sessionEpoch u, u_deviceEpoch u)) (users s)"

lemma token_rows_eqD:
  assumes "token_rows s' = token_rows s"
  shows "localUsers s' = localUsers s" "authRequests s' = authRequests s"
    "authCodes s' = authCodes s" "deviceCodes s' = deviceCodes s" "grants s' = grants s"
    "refreshTokens s' = refreshTokens s" "registry s' = registry s"
  using assms by (simp_all add: token_rows_def)

lemma flow_rows_token_rows: "flow_rows s' = flow_rows s \<Longrightarrow> token_rows s' = token_rows s \<and> user_keys s' = user_keys s"
  by (auto simp: flow_rows_def token_rows_def user_keys_def)

lemma same_users [frame]:
  "token_rows (clearUpstreamToken i t c s) = token_rows s"
  "user_keys (clearUpstreamToken i t c s) = user_keys s"
  "token_rows (store_recheck i t c a cl n s) = token_rows s"
  "user_keys (store_recheck i t c a cl n s) = user_keys s"
  "token_rows (forget_failure i s') = token_rows s'"
  "user_keys (forget_failure i s') = user_keys s'"
  by (simp_all add: clearUpstreamToken_def store_recheck_def forget_failure_def token_rows_def
      user_keys_def update_many_def)

lemma after_failure_frame:
  "after_failure now i t c v s = (s', r) \<Longrightarrow> token_rows s' = token_rows s \<and> user_keys s' = user_keys s"
  by (cases v) (auto simp: after_failure_def same_users(1,2,5,6) token_rows_def user_keys_def
      clearUpstreamToken_def forget_failure_def update_many_def)

lemma accept_claims_frame:
  "accept_claims e now i t c o' cl n s = (s', r) \<Longrightarrow> token_rows s' = token_rows s \<and> user_keys s' = user_keys s"
  by (auto simp: accept_claims_def Let_def frame split: option.splits if_splits)

lemma getOidcConfig_frame:
  "getOidcConfig e pv now s = (s', r) \<Longrightarrow> token_rows s' = token_rows s \<and> user_keys s' = user_keys s"
  by (auto simp: getOidcConfig_def token_rows_def user_keys_def split: option.splits if_splits prod.splits)

lemma recheck_call_frame:
  assumes "recheck_call e pv now i t c o' s = (s', r)"
  shows "token_rows s' = token_rows s \<and> user_keys s' = user_keys s"
proof -
  obtain s1 q where g: "getOidcConfig e pv now s = (s1, q)" by fastforce
  from assms g have "token_rows s' = token_rows s1 \<and> user_keys s' = user_keys s1"
    by (auto simp: recheck_call_def split: option.splits sum.splits
        dest: after_failure_frame accept_claims_frame)
  with getOidcConfig_frame [OF g] show ?thesis by simp
qed

lemma recheck_frame:
  "recheckUpstream e pv now i s = (s', r) \<Longrightarrow> token_rows s' = token_rows s \<and> user_keys s' = user_keys s"
  by (auto simp: recheckUpstream_def split: option.splits if_splits dest: recheck_call_frame)

text \<open>Being active depends on the user's key fields and the local accounts only.\<close>

lemma is_user_active_keys:
  "is_user_active s i \<longleftrightarrow>
     (\<exists>k \<in> set (user_keys s). fst k = i \<and> fst (snd (snd (snd k))) = None) \<and>
     (case row_of lu_userId i (localUsers s) of None \<Rightarrow> True | Some l \<Rightarrow> lu_isActive l)"
  by (auto simp: is_user_active_def user_keys_def)

lemma is_user_active_cong:
  "token_rows s' = token_rows s \<Longrightarrow> user_keys s' = user_keys s \<Longrightarrow> is_user_active s' i = is_user_active s i"
  by (simp add: is_user_active_keys token_rows_def)

text \<open>A re-check that says yes.\<close>

lemma failOpen_None: "failOpen now c = None \<longleftrightarrow> (\<exists>t. c = Some t \<and> now - t < UPSTREAM_FAIL_OPEN_MS)"
  by (auto simp: failOpen_def split: option.splits)

definition provider_confirms :: "env \<Rightarrow> provider \<Rightarrow> string \<Rightarrow> string \<Rightarrow> bool" where
  "provider_confirms e pv token sub \<longleftrightarrow>
     (\<exists>ans claims. pv_refresh pv token = Inr ans \<and>
        (ra_claims ans = Inr (Some claims) \<or> (ra_claims ans = Inr None \<and> pv_userinfo pv = Inr claims)) \<and>
        subjectFromClaims e claims = Some sub)"

lemma after_failure_ok:
  "after_failure now i t c v s = (s', None) \<Longrightarrow> v = Unavailable \<and> failOpen now c = None"
  by (cases v) (auto simp: after_failure_def)

lemma accept_claims_ok:
  "accept_claims e now i t c sub cl n s = (s', None) \<Longrightarrow> subjectFromClaims e cl = Some sub"
  by (auto simp: accept_claims_def Let_def split: option.splits if_splits)

lemma recheck_call_ok:
  assumes "recheck_call e pv now i t c sub s = (s', None)"
  shows "provider_confirms e pv t sub \<or> failOpen now c = None"
  using assms
  by (auto simp: recheck_call_def provider_confirms_def split: prod.splits option.splits sum.splits
      dest!: after_failure_ok accept_claims_ok)

lemma recheck_ok:
  assumes "recheckUpstream e pv now i s = (s', None)"
  obtains u where "row_of u_id i (users s) = Some u"
    "u_oidcSub u = None \<or>
     (\<exists>sub. u_oidcSub u = Some sub \<and> e_oidcIssuer e \<noteq> None \<and> u_oidcIssuer u = e_oidcIssuer e \<and>
        ((\<exists>t. u_upstreamCheckedAt u = Some t \<and> now - t < UPSTREAM_FAIL_OPEN_MS) \<or>
         (\<exists>t. u_upstreamRefreshToken u = Some t \<and> provider_confirms e pv t sub)))"
proof -
  from assms obtain u where u: "row_of u_id i (users s) = Some u"
    by (auto simp: recheckUpstream_def split: option.splits)
  show thesis
  proof (cases "u_oidcSub u")
    case None
    with u that show thesis by blast
  next
    case (Some sub)
    have "(\<exists>t. u_upstreamCheckedAt u = Some t \<and> now - t < UPSTREAM_FAIL_OPEN_MS) \<or>
          (\<exists>t. u_upstreamRefreshToken u = Some t \<and> provider_confirms e pv t sub)"
      using assms u Some
      by (auto simp: recheckUpstream_def failOpen_None UPSTREAM_RECHECK_INTERVAL_MS_def
          UPSTREAM_FAIL_OPEN_MS_def split: option.splits if_splits dest!: recheck_call_ok)
    moreover have "e_oidcIssuer e \<noteq> None \<and> u_oidcIssuer u = e_oidcIssuer e"
      using assms u Some by (auto simp: recheckUpstream_def split: if_splits)
    ultimately show thesis using u Some that by blast
  qed
qed

text \<open>A sign-in that stored something newer while the call was in flight is left alone.\<close>

lemma recheck_call_newer_wins:
  assumes "recheck_call e pv now i t c sub s = (s', r)"
    and "\<forall>u \<in> set (users s). u_id u = i \<longrightarrow> u_upstreamRefreshToken u \<noteq> Some t \<or> u_upstreamCheckedAt u \<noteq> c"
  shows "users s' = users s"
proof -
  have no: "\<forall>u \<in> set (users s). \<not> same_snapshot i t c u"
    using assms(2) by (auto simp: same_snapshot_def)
  obtain s1 q where g: "getOidcConfig e pv now s = (s1, q)" by fastforce
  then have u1: "users s1 = users s"
    by (auto simp: getOidcConfig_def split: option.splits if_splits prod.splits)
  have af: "users s'' = users s1" if "after_failure now i t c v s1 = (s'', r')" for v s'' r'
    using that no u1
    by (cases v) (auto simp: after_failure_def clearUpstreamToken_def forget_failure_def update_many_idle)
  have ac: "users s'' = users s1" if "accept_claims e now i t c sub cl n s1 = (s'', r')" for cl n s'' r'
    using that no u1
    by (auto simp: accept_claims_def Let_def clearUpstreamToken_def store_recheck_def forget_failure_def
        update_many_idle split: option.splits if_splits)
  from assms(1) g have "users s' = users s1"
    by (auto simp: recheck_call_def split: option.splits sum.splits intro: af ac)
  with u1 show ?thesis by simp
qed

end
