(* ===== verification/TokenEndpoint.thy ===== *)
theory TokenEndpoint
  imports Tokens Upstream
begin

text \<open>
  \<^verbatim>\<open>oauth/token.ts\<close>: the three grants.  Every handler is split where the code awaits between its
  checks and its transaction: \<open>*_checks\<close> reads, authenticates and mints (and does the writes made
  on the way), \<open>*_commit\<close> is the atomic claim with what follows it.  Another request may run in
  between, so a commit takes what the checks read as a value and a state of its own; the handler
  itself is the composition without interleaving.
\<close>

section \<open>Responses\<close>

datatype description = Text string | Assertion_failed assertion_error | No_description

record token_success =
  ts_access_token :: jwt
  ts_expires_in :: int
  ts_refresh_token :: "string option"
  ts_scope :: string

text \<open>\<open>Server_fault\<close> is an exception no handler catches.\<close>

datatype token_response =
    Token_error nat string description
  | Token_ok token_success
  | Server_fault

fun granted :: "token_response \<Rightarrow> bool" where
  "granted (Token_ok _) \<longleftrightarrow> True"
| "granted _ \<longleftrightarrow> False"

lemma granted_iff: "granted r \<longleftrightarrow> (\<exists>t. r = Token_ok t)"
  by (cases r) auto

abbreviation invalid_grant :: "string \<Rightarrow> token_response" where
  "invalid_grant d \<equiv> Token_error 400 ''invalid_grant'' (Text d)"

abbreviation invalid_request :: "string \<Rightarrow> token_response" where
  "invalid_request d \<equiv> Token_error 400 ''invalid_request'' (Text d)"

abbreviation invalid_target :: "string \<Rightarrow> token_response" where
  "invalid_target d \<equiv> Token_error 400 ''invalid_target'' (Text d)"

section \<open>Shared pieces\<close>

text \<open>\<^verbatim>\<open>/^[A-Za-z0-9._~-]{43,128}$/\<close>\<close>

definition valid_code_verifier :: "string \<Rightarrow> bool" where
  "valid_code_verifier v \<longleftrightarrow>
     43 \<le> length v \<and> length v \<le> 128 \<and> (\<forall>c \<in> set v. is_alnum c \<or> c \<in> set ''._~-'')"

definition grantClaims :: "'a registry_state_scheme \<Rightarrow> string \<Rightarrow> string list \<Rightarrow> string list" where
  "grantClaims s resource grantReleased =
     consentedClaimNames grantReleased
       (case lookupResourceServer s resource of None \<Rightarrow> [] | Some rs \<Rightarrow> rs_releaseClaims rs)"

text \<open>\<^verbatim>\<open>resource !== undefined && resource !== entry.resource\<close>, on the raw field.\<close>

definition resource_differs :: "body \<Rightarrow> string \<Rightarrow> bool" where
  "resource_differs body resource \<longleftrightarrow>
     (case map_of body ''resource'' of None \<Rightarrow> False | Some j \<Rightarrow> j \<noteq> JStr resource)"

definition mintOrRefuse ::
    "env \<Rightarrow> time_ms \<Rightarrow> rand \<Rightarrow> mint_params \<Rightarrow> 'a registry_state_scheme \<Rightarrow>
     'a registry_state_scheme \<times> (token_response + minted)" where
  "mintOrRefuse e now rnd p s =
     (case mintAccessToken e now rnd p s of
        (s', Inr m) \<Rightarrow> (s', Inr m)
      | (s', Inl Unregistered_resource) \<Rightarrow> (s', Inl (invalid_grant ''Resource is no longer registered''))
      | (s', Inl Mint_fault) \<Rightarrow> (s', Inl Server_fault))"

definition inactive_user :: token_response where
  "inactive_user = invalid_grant ''User account is deactivated''"

text \<open>Resolution and authentication of the client, the same lines in the three grants.\<close>

definition check_client ::
    "env \<Rightarrow> time_ms \<Rightarrow> string \<Rightarrow> body \<Rightarrow> 'a assertion_state_scheme \<Rightarrow>
     'a assertion_state_scheme \<times> token_response option" where
  "check_client e now client_id body s =
     (case resolveClient e now client_id s of
        (s1, None) \<Rightarrow>
          (s1, Some (Token_error 400 ''invalid_client'' (Text ''Client could not be resolved'')))
      | (s1, Some client) \<Rightarrow>
          (case authenticateConfidentialClient e now client body s1 of
             (s2, None) \<Rightarrow> (s2, None)
           | (s2, Some er) \<Rightarrow> (s2, Some (Token_error 400 ''invalid_client'' (Assertion_failed er)))))"

definition live_token :: "string \<Rightarrow> refresh_token \<Rightarrow> bool" where
  "live_token grantId t \<longleftrightarrow> rt_grantId t = grantId \<and> rt_revokedAt t = None"

definition revoke_token :: "time_ms \<Rightarrow> refresh_token \<Rightarrow> refresh_token" where
  "revoke_token now t = t\<lparr>rt_revokedAt := Some now\<rparr>"

definition revokeDescendantRefreshTokens ::
    "time_ms \<Rightarrow> string \<Rightarrow> string \<Rightarrow> 'a metrics_state_scheme \<Rightarrow> 'a metrics_state_scheme" where
  "revokeDescendantRefreshTokens now grantId kind s =
     (let n = count_rows (live_token grantId) (refreshTokens s);
          s1 = s\<lparr>refreshTokens := update_many (live_token grantId) (revoke_token now) (refreshTokens s)\<rparr> in
      if 0 < n then incrementCounter ''refresh_reuse_detected_total'' [(''kind'', kind)] s1 else s1)"

definition tokens_issued :: "string \<Rightarrow> string \<Rightarrow> 'a metrics_state_scheme \<Rightarrow> 'a metrics_state_scheme" where
  "tokens_issued clientId resource s =
     incrementCounter ''tokens_issued_total'' [(''client_id'', clientId), (''resource'', resource)] s"

section \<open>The authorization code grant\<close>

record code_claim =
  cc_entry :: auth_code
  cc_minted :: minted

definition delete_code :: "string \<Rightarrow> 'a db_scheme \<Rightarrow> 'a db_scheme" where
  "delete_code h s = s\<lparr>authCodes := delete_many (\<lambda>c. ac_codeHash c = h) (authCodes s)\<rparr>"

definition code_used :: "token_response" where
  "code_used = invalid_grant ''Authorization code already used''"

text \<open>The checks made on the stored code and the request alone; the answer for a failed one.\<close>

definition pkce_problem :: "env \<Rightarrow> auth_code \<Rightarrow> string option \<Rightarrow> string option" where
  "pkce_problem e entry code_verifier =
     (case code_verifier of
        None \<Rightarrow> Some ''code_verifier required''
      | Some v \<Rightarrow>
          if \<not> valid_code_verifier v then Some ''code_verifier malformed''
          else if ac_codeChallengeMethod entry \<noteq> ''S256'' then Some ''Unsupported code_challenge_method''
          else if e_sha256_b64url e v \<noteq> ac_codeChallenge entry then Some ''code_verifier mismatch''
          else None)"

text \<open>What happens once the client is authenticated.\<close>

definition code_authenticated ::
    "env \<Rightarrow> time_ms \<Rightarrow> rand \<Rightarrow> auth_code \<Rightarrow> 'a upstream_state_scheme \<Rightarrow>
     'a upstream_state_scheme \<times> (token_response + code_claim)" where
  "code_authenticated e now rnd entry s =
     (if ac_consumedAt entry \<noteq> None
      then (revokeDescendantRefreshTokens now (ac_grantId entry) ''code_replay'' s, Inl code_used)
      else case row_of gr_id (ac_grantId entry) (grants s) of
        None \<Rightarrow> (s, Inl (invalid_grant ''Grant has been revoked''))
      | Some g \<Rightarrow>
          if gr_revokedAt g \<noteq> None then (s, Inl (invalid_grant ''Grant has been revoked''))
          else if \<not> is_user_active s (ac_userId entry) then (s, Inl inactive_user)
          else
            (case mintOrRefuse e now rnd
                    \<lparr>mp_userId = ac_userId entry, mp_clientId = ac_clientId entry,
                     mp_resource = ac_resource entry, mp_scopes = accessTokenScopes (ac_scopes entry),
                     mp_releaseClaims = grantClaims s (ac_resource entry) (gr_releasedClaims g)\<rparr> s of
               (s', Inl r) \<Rightarrow> (s', Inl r)
             | (s', Inr m) \<Rightarrow> (s', Inr \<lparr>cc_entry = entry, cc_minted = m\<rparr>)))"

definition code_presented ::
    "env \<Rightarrow> time_ms \<Rightarrow> rand \<Rightarrow> body \<Rightarrow> string \<Rightarrow> string \<Rightarrow> auth_code \<Rightarrow> 'a upstream_state_scheme \<Rightarrow>
     'a upstream_state_scheme \<times> (token_response + code_claim)" where
  "code_presented e now rnd body client_id redirect_uri entry s =
     (let consumed = (ac_consumedAt entry \<noteq> None);
          reject = (\<lambda>d. if consumed then code_used else invalid_grant d) in
      if ac_expiresAt entry < now
      then (delete_code (ac_codeHash entry) s, Inl (invalid_grant ''Authorization code expired''))
      else if ac_clientId entry \<noteq> client_id \<or> ac_redirectUri entry \<noteq> redirect_uri
      then (if consumed then s else delete_code (ac_codeHash entry) s,
            Inl (reject ''client_id or redirect_uri mismatch''))
      else (case pkce_problem e entry (truthy (stringField body ''code_verifier'')) of
        Some d \<Rightarrow> (s, Inl (reject d))
      | None \<Rightarrow>
          if \<not> consumed \<and> resource_differs body (ac_resource entry)
          then (s, Inl (invalid_target ''resource does not match the authorization code''))
          else (case check_client e now client_id body s of
                  (s1, Some r) \<Rightarrow> (s1, Inl r)
                | (s1, None) \<Rightarrow> code_authenticated e now rnd entry s1)))"

definition code_checks ::
    "env \<Rightarrow> time_ms \<Rightarrow> rand \<Rightarrow> body \<Rightarrow> 'a upstream_state_scheme \<Rightarrow>
     'a upstream_state_scheme \<times> (token_response + code_claim)" where
  "code_checks e now rnd body s =
     (case (truthy (stringField body ''code''), truthy (stringField body ''redirect_uri''),
            truthy (stringField body ''client_id'')) of
        (Some code_param, Some redirect_uri, Some client_id) \<Rightarrow>
          (case row_of ac_codeHash (e_sha256 e code_param) (authCodes s) of
             None \<Rightarrow> (s, Inl (invalid_grant ''Authorization code invalid''))
           | Some entry \<Rightarrow> code_presented e now rnd body client_id redirect_uri entry s)
      | _ \<Rightarrow> (s, Inl (invalid_request ''code, redirect_uri, and client_id are required'')))"

text \<open>The transaction: claim the code, then issue the refresh token; \<^const>\<open>None\<close> rolls it back, an
  inner \<^const>\<open>None\<close> is a lost claim.\<close>

definition unconsumed_code :: "string \<Rightarrow> auth_code \<Rightarrow> bool" where
  "unconsumed_code h c \<longleftrightarrow> ac_codeHash c = h \<and> ac_consumedAt c = None"

definition consume_code :: "time_ms \<Rightarrow> string \<Rightarrow> 'a db_scheme \<Rightarrow> 'a db_scheme" where
  "consume_code now h s =
     s\<lparr>authCodes := update_many (unconsumed_code h) (\<lambda>c. c\<lparr>ac_consumedAt := Some now\<rparr>) (authCodes s)\<rparr>"

definition claim_code ::
    "env \<Rightarrow> time_ms \<Rightarrow> string \<Rightarrow> auth_code \<Rightarrow> 'a registry_state_scheme \<Rightarrow>
     ('a registry_state_scheme \<times> string option option) option" where
  "claim_code e now token entry s =
     (if count_rows (unconsumed_code (ac_codeHash entry)) (authCodes s) = 0 then Some (s, None)
      else
        let s1 = consume_code now (ac_codeHash entry) s in
        if ''offline_access'' \<notin> set (ac_scopes entry) then Some (s1, Some None)
        else map_option (\<lambda>s2. (s2, Some (Some token)))
          (issueRefreshToken e now token (ac_userId entry) (ac_clientId entry) (ac_resource entry)
             (ac_scopes entry) (ac_grantId entry) s1))"

definition code_commit ::
    "env \<Rightarrow> time_ms \<Rightarrow> rand \<Rightarrow> code_claim \<Rightarrow> 'a upstream_state_scheme \<Rightarrow>
     'a upstream_state_scheme \<times> token_response" where
  "code_commit e now rnd c s =
     (let entry = cc_entry c in
      case claim_code e now (r_token rnd) entry s of
        None \<Rightarrow> (s, Server_fault)
      | Some (s1, None) \<Rightarrow>
          (revokeDescendantRefreshTokens now (ac_grantId entry) ''code_replay'' s1, code_used)
      | Some (s1, Some refresh) \<Rightarrow>
          (tokens_issued (ac_clientId entry) (ac_resource entry) s1,
           Token_ok \<lparr>ts_access_token = mi_token (cc_minted c), ts_expires_in = mi_expiresIn (cc_minted c),
                     ts_refresh_token = refresh, ts_scope = join '' '' (ac_scopes entry)\<rparr>))"

definition handleAuthorizationCodeGrant ::
    "env \<Rightarrow> time_ms \<Rightarrow> rand \<Rightarrow> body \<Rightarrow> 'a upstream_state_scheme \<Rightarrow>
     'a upstream_state_scheme \<times> token_response" where
  "handleAuthorizationCodeGrant e now rnd body s =
     (case code_checks e now rnd body s of
        (s1, Inl r) \<Rightarrow> (s1, r)
      | (s1, Inr c) \<Rightarrow> code_commit e now rnd c s1)"

section \<open>The refresh token grant\<close>

record refresh_claim =
  rc_entry :: refresh_token
  rc_scopes :: "string list"
  rc_minted :: minted

definition refresh_used :: token_response where
  "refresh_used = invalid_grant ''Refresh token already used''"

text \<open>What happens once the client is authenticated.\<close>

definition refresh_authenticated ::
    "env \<Rightarrow> provider \<Rightarrow> time_ms \<Rightarrow> rand \<Rightarrow> body \<Rightarrow> refresh_token \<Rightarrow> 'a upstream_state_scheme \<Rightarrow>
     'a upstream_state_scheme \<times> (token_response + refresh_claim)" where
  "refresh_authenticated e pv now rnd body entry s =
     (if rt_rotatedTo entry \<noteq> None
      then (revokeDescendantRefreshTokens now (rt_grantId entry) ''refresh_reuse'' s, Inl refresh_used)
      else if rt_revokedAt entry \<noteq> None then (s, Inl (invalid_grant ''Refresh token revoked''))
      else if rt_expiresAt entry < now then (s, Inl (invalid_grant ''Refresh token expired''))
      else if resource_differs body (rt_resource entry)
      then (s, Inl (invalid_target ''resource does not match the refresh token''))
      else if \<not> isRegisteredResource s (rt_resource entry)
      then (s, Inl (invalid_grant ''Resource is no longer registered''))
      else case row_of gr_id (rt_grantId entry) (grants s) of
        None \<Rightarrow> (s, Inl (invalid_grant ''Grant has been revoked''))
      | Some g \<Rightarrow>
          if gr_revokedAt g \<noteq> None then (s, Inl (invalid_grant ''Grant has been revoked''))
          else if \<not> is_user_active s (rt_userId entry) then (s, Inl inactive_user)
          else
            (case recheckUpstream e pv now (rt_userId entry) s of
               (s1, Some _) \<Rightarrow>
                 (s1, Inl (invalid_grant ''Upstream sign-in is no longer valid; sign in again''))
             | (s1, None) \<Rightarrow>
                 (let scopes = permittedScopes e s1 (rt_resource entry) (rt_userId entry)
                                 (refreshableScopes s1 (rt_resource entry) (rt_scopes entry)) in
                  case mintOrRefuse e now rnd
                         \<lparr>mp_userId = rt_userId entry, mp_clientId = rt_clientId entry,
                          mp_resource = rt_resource entry, mp_scopes = accessTokenScopes scopes,
                          mp_releaseClaims = grantClaims s1 (rt_resource entry) (gr_releasedClaims g)\<rparr> s1 of
                    (s2, Inl r) \<Rightarrow> (s2, Inl r)
                  | (s2, Inr m) \<Rightarrow> (s2, Inr \<lparr>rc_entry = entry, rc_scopes = scopes, rc_minted = m\<rparr>))))"

definition refresh_checks ::
    "env \<Rightarrow> provider \<Rightarrow> time_ms \<Rightarrow> rand \<Rightarrow> body \<Rightarrow> 'a upstream_state_scheme \<Rightarrow>
     'a upstream_state_scheme \<times> (token_response + refresh_claim)" where
  "refresh_checks e pv now rnd body s =
     (case (truthy (stringField body ''refresh_token''), truthy (stringField body ''client_id'')) of
        (Some token, Some client_id) \<Rightarrow>
          (case row_of rt_tokenHash (e_sha256 e token) (refreshTokens s) of
             None \<Rightarrow> (s, Inl (invalid_grant ''Refresh token invalid''))
           | Some entry \<Rightarrow>
               if rt_clientId entry \<noteq> client_id then (s, Inl (invalid_grant ''client_id mismatch''))
               else (case check_client e now client_id body s of
                       (s1, Some r) \<Rightarrow> (s1, Inl r)
                     | (s1, None) \<Rightarrow> refresh_authenticated e pv now rnd body entry s1))
      | _ \<Rightarrow> (s, Inl (invalid_request ''refresh_token and client_id are required'')))"

definition rotatable :: "string \<Rightarrow> refresh_token \<Rightarrow> bool" where
  "rotatable h t \<longleftrightarrow> rt_tokenHash t = h \<and> rt_rotatedTo t = None \<and> rt_revokedAt t = None"

text \<open>The transaction: mark the token rotated, create its successor.\<close>

definition rotate_token ::
    "env \<Rightarrow> string \<Rightarrow> refresh_claim \<Rightarrow> 'a db_scheme \<Rightarrow> ('a db_scheme \<times> bool) option" where
  "rotate_token e newToken c s =
     (let entry = rc_entry c; newHash = e_sha256 e newToken in
      if count_rows (rotatable (rt_tokenHash entry)) (refreshTokens s) = 0 then Some (s, False)
      else map_option (\<lambda>t. (s\<lparr>refreshTokens := t\<rparr>, True))
        (create_row rt_tokenHash
           (entry\<lparr>rt_tokenHash := newHash, rt_scopes := rc_scopes c, rt_rotatedTo := None,
                  rt_revokedAt := None\<rparr>)
           (update_many (rotatable (rt_tokenHash entry)) (\<lambda>t. t\<lparr>rt_rotatedTo := Some newHash\<rparr>)
              (refreshTokens s))))"

definition refresh_commit ::
    "env \<Rightarrow> time_ms \<Rightarrow> rand \<Rightarrow> refresh_claim \<Rightarrow> 'a upstream_state_scheme \<Rightarrow>
     'a upstream_state_scheme \<times> token_response" where
  "refresh_commit e now rnd c s =
     (let entry = rc_entry c in
      case rotate_token e (r_token rnd) c s of
        None \<Rightarrow> (s, Server_fault)
      | Some (s1, False) \<Rightarrow>
          (revokeDescendantRefreshTokens now (rt_grantId entry) ''refresh_reuse'' s1, refresh_used)
      | Some (s1, True) \<Rightarrow>
          (tokens_issued (rt_clientId entry) (rt_resource entry) s1,
           Token_ok \<lparr>ts_access_token = mi_token (rc_minted c), ts_expires_in = mi_expiresIn (rc_minted c),
                     ts_refresh_token = Some (r_token rnd), ts_scope = join '' '' (rc_scopes c)\<rparr>))"

definition handleRefreshTokenGrant ::
    "env \<Rightarrow> provider \<Rightarrow> time_ms \<Rightarrow> rand \<Rightarrow> body \<Rightarrow> 'a upstream_state_scheme \<Rightarrow>
     'a upstream_state_scheme \<times> token_response" where
  "handleRefreshTokenGrant e pv now rnd body s =
     (case refresh_checks e pv now rnd body s of
        (s1, Inl r) \<Rightarrow> (s1, r)
      | (s1, Inr c) \<Rightarrow> refresh_commit e now rnd c s1)"

section \<open>The device code grant\<close>

record device_claim =
  dc_entry :: device_code
  dc_userId :: string
  dc_minted :: minted

definition delete_device :: "string \<Rightarrow> 'a db_scheme \<Rightarrow> 'a db_scheme" where
  "delete_device h s = s\<lparr>deviceCodes := delete_many (\<lambda>d. dv_deviceCodeHash d = h) (deviceCodes s)\<rparr>"

definition update_device :: "string \<Rightarrow> (device_code \<Rightarrow> device_code) \<Rightarrow> 'a db_scheme \<Rightarrow> 'a db_scheme" where
  "update_device h f s = s\<lparr>deviceCodes := update_many (\<lambda>d. dv_deviceCodeHash d = h) f (deviceCodes s)\<rparr>"

definition device_outcome :: "string \<Rightarrow> 'a metrics_state_scheme \<Rightarrow> 'a metrics_state_scheme" where
  "device_outcome oc s = incrementCounter ''device_flow_outcomes_total'' [(''outcome'', oc)] s"

text \<open>A poll of a pending code: polling faster than its interval raises the interval.\<close>

definition poll_pending ::
    "time_ms \<Rightarrow> device_code \<Rightarrow> 'a db_scheme \<Rightarrow> 'a db_scheme \<times> token_response" where
  "poll_pending now entry s =
     (if (case dv_lastPolledAt entry of
            Some t \<Rightarrow> now - t < dv_pollInterval entry * 1000 | None \<Rightarrow> False)
      then (update_device (dv_deviceCodeHash entry)
              (\<lambda>d. d\<lparr>dv_lastPolledAt := Some now, dv_pollInterval := dv_pollInterval entry + 5\<rparr>) s,
            Token_error 400 ''slow_down'' No_description)
      else (update_device (dv_deviceCodeHash entry) (\<lambda>d. d\<lparr>dv_lastPolledAt := Some now\<rparr>) s,
            Token_error 400 ''authorization_pending'' No_description))"

definition device_grant_of :: "'a db_scheme \<Rightarrow> string \<Rightarrow> device_code \<Rightarrow> grant option" where
  "device_grant_of s userId entry =
     row_of grant_key (userId, dv_clientId entry, dv_resource entry) (grants s)"

text \<open>An approved code.\<close>

definition device_approved ::
    "env \<Rightarrow> time_ms \<Rightarrow> rand \<Rightarrow> string \<Rightarrow> body \<Rightarrow> device_code \<Rightarrow> 'a upstream_state_scheme \<Rightarrow>
     'a upstream_state_scheme \<times> (token_response + device_claim)" where
  "device_approved e now rnd client_id body entry s =
     (case truthy (dv_userId entry) of
        None \<Rightarrow> (s, Inl (Token_error 500 ''server_error'' No_description))
      | Some userId \<Rightarrow>
          (case check_client e now client_id body s of
             (s1, Some r) \<Rightarrow> (s1, Inl r)
           | (s1, None) \<Rightarrow>
               if \<not> is_user_active s1 userId then (s1, Inl inactive_user)
               else
                 (case mintOrRefuse e now rnd
                         \<lparr>mp_userId = userId, mp_clientId = dv_clientId entry,
                          mp_resource = dv_resource entry, mp_scopes = accessTokenScopes (dv_scopes entry),
                          mp_releaseClaims = grantClaims s1 (dv_resource entry)
                            (case device_grant_of s1 userId entry of
                               None \<Rightarrow> [] | Some g \<Rightarrow> gr_releasedClaims g)\<rparr> s1 of
                    (s2, Inl r) \<Rightarrow> (s2, Inl r)
                  | (s2, Inr m) \<Rightarrow>
                      (s2, Inr \<lparr>dc_entry = entry, dc_userId = userId, dc_minted = m\<rparr>))))"

definition device_checks ::
    "env \<Rightarrow> time_ms \<Rightarrow> rand \<Rightarrow> body \<Rightarrow> 'a upstream_state_scheme \<Rightarrow>
     'a upstream_state_scheme \<times> (token_response + device_claim)" where
  "device_checks e now rnd body s =
     (case (truthy (stringField body ''device_code''), truthy (stringField body ''client_id'')) of
        (Some device_code, Some client_id) \<Rightarrow>
          (let h = e_sha256 e device_code in
           case row_of dv_deviceCodeHash h (deviceCodes s) of
             None \<Rightarrow> (s, Inl (invalid_grant ''device_code not found''))
           | Some entry \<Rightarrow>
               if dv_clientId entry \<noteq> client_id then (s, Inl (invalid_grant ''client_id mismatch''))
               else if dv_expiresAt entry < now
               then (device_outcome ''expired'' (delete_device h s),
                     Inl (Token_error 400 ''expired_token'' No_description))
               else if resource_differs body (dv_resource entry)
               then (s, Inl (invalid_target ''resource does not match the device code''))
               else (case dv_status entry of
                 DS_denied \<Rightarrow> (device_outcome ''denied'' (delete_device h s),
                               Inl (Token_error 400 ''access_denied'' No_description))
               | DS_consumed \<Rightarrow> (s, Inl (invalid_grant ''device_code already redeemed''))
               | DS_pending \<Rightarrow> (case poll_pending now entry s of (s', r) \<Rightarrow> (s', Inl r))
               | DS_approved \<Rightarrow> device_approved e now rnd client_id body entry s))
      | _ \<Rightarrow> (s, Inl (invalid_request ''device_code and client_id are required'')))"

datatype device_tx = Tx_lost | Tx_revoked | Tx_issued "string option"

definition approved_device :: "string \<Rightarrow> device_code \<Rightarrow> bool" where
  "approved_device h d \<longleftrightarrow> dv_deviceCodeHash d = h \<and> dv_status d = DS_approved"

definition claim_device ::
    "env \<Rightarrow> time_ms \<Rightarrow> string \<Rightarrow> device_claim \<Rightarrow> 'a registry_state_scheme \<Rightarrow>
     ('a registry_state_scheme \<times> device_tx) option" where
  "claim_device e now token c s =
     (let entry = dc_entry c; h = dv_deviceCodeHash entry in
      if count_rows (approved_device h) (deviceCodes s) = 0 then Some (s, Tx_lost)
      else
        let s1 = s\<lparr>deviceCodes := update_many (approved_device h) (\<lambda>d. d\<lparr>dv_status := DS_consumed\<rparr>)
                                     (deviceCodes s)\<rparr> in
        case device_grant_of s1 (dc_userId c) entry of
          None \<Rightarrow> Some (s1, Tx_revoked)
        | Some g \<Rightarrow>
            if gr_revokedAt g \<noteq> None then Some (s1, Tx_revoked)
            else if ''offline_access'' \<notin> set (dv_scopes entry) then Some (s1, Tx_issued None)
            else map_option (\<lambda>s2. (s2, Tx_issued (Some token)))
              (issueRefreshToken e now token (dc_userId c) (dv_clientId entry) (dv_resource entry)
                 (dv_scopes entry) (gr_id g) s1))"

definition device_commit ::
    "env \<Rightarrow> time_ms \<Rightarrow> rand \<Rightarrow> device_claim \<Rightarrow> 'a upstream_state_scheme \<Rightarrow>
     'a upstream_state_scheme \<times> token_response" where
  "device_commit e now rnd c s =
     (let entry = dc_entry c in
      case claim_device e now (r_token rnd) c s of
        None \<Rightarrow> (s, Server_fault)
      | Some (s1, Tx_lost) \<Rightarrow> (s1, invalid_grant ''device_code already redeemed'')
      | Some (s1, Tx_revoked) \<Rightarrow> (s1, invalid_grant ''Grant has been revoked'')
      | Some (s1, Tx_issued refresh) \<Rightarrow>
          (device_outcome ''success'' (tokens_issued (dv_clientId entry) (dv_resource entry) s1),
           Token_ok \<lparr>ts_access_token = mi_token (dc_minted c), ts_expires_in = mi_expiresIn (dc_minted c),
                     ts_refresh_token = refresh, ts_scope = join '' '' (dv_scopes entry)\<rparr>))"

definition handleDeviceCodeGrant ::
    "env \<Rightarrow> time_ms \<Rightarrow> rand \<Rightarrow> body \<Rightarrow> 'a upstream_state_scheme \<Rightarrow>
     'a upstream_state_scheme \<times> token_response" where
  "handleDeviceCodeGrant e now rnd body s =
     (case device_checks e now rnd body s of
        (s1, Inl r) \<Rightarrow> (s1, r)
      | (s1, Inr c) \<Rightarrow> device_commit e now rnd c s1)"

section \<open>The endpoint\<close>

definition token_endpoint ::
    "env \<Rightarrow> provider \<Rightarrow> time_ms \<Rightarrow> rand \<Rightarrow> json option \<Rightarrow> 'a upstream_state_scheme \<Rightarrow>
     'a upstream_state_scheme \<times> token_response" where
  "token_endpoint e pv now rnd req s =
     (let body = bodyOf req; grantType = stringField body ''grant_type'' in
      if grantType = Some ''authorization_code'' then handleAuthorizationCodeGrant e now rnd body s
      else if grantType = Some ''refresh_token'' then handleRefreshTokenGrant e pv now rnd body s
      else if grantType = Some ''urn:ietf:params:oauth:grant-type:device_code''
      then handleDeviceCodeGrant e now rnd body s
      else (s, Token_error 400 ''unsupported_grant_type'' No_description))"

end
