(* ===== verification/TokenFacts.thy ===== *)
theory TokenFacts
  imports TokenEndpoint
begin

text \<open>
  Lemmas about the token endpoint: what the checks establish, what each outcome leaves of the
  stored codes and tokens, and the effect of the three transactions.
\<close>

section \<open>Frames\<close>

lemma check_client_flow_rows:
  assumes "check_client e now cid body s = (s', r)"
  shows "flow_rows s' = flow_rows s"
proof -
  obtain s1 c where c: "resolveClient e now cid s = (s1, c)" by fastforce
  note r = resolveClient_flow_rows [OF c]
  show ?thesis
  proof (cases c)
    case None
    with assms c r show ?thesis by (simp add: check_client_def)
  next
    case (Some client)
    obtain s2 a where a: "authenticateConfidentialClient e now client body s1 = (s2, a)" by fastforce
    with assms c r Some authenticate_flow_rows [OF a] show ?thesis
      by (auto simp: check_client_def split: option.splits)
  qed
qed

lemma mintOrRefuse_flow_rows: "mintOrRefuse e now rnd p s = (s', r) \<Longrightarrow> flow_rows s' = flow_rows s"
  by (auto simp: mintOrRefuse_def split: prod.splits sum.splits mint_error.splits dest: mint_flow_rows)

lemma mintOrRefuse_Inr: "mintOrRefuse e now rnd p s = (s', Inr m) \<Longrightarrow> mintAccessToken e now rnd p s = (s', Inr m)"
  by (auto simp: mintOrRefuse_def split: prod.splits sum.splits mint_error.splits)

lemma mintOrRefuse_Inl: "mintOrRefuse e now rnd p s = (s', Inl r) \<Longrightarrow> \<forall>t. r \<noteq> Token_ok t"
  by (auto simp: mintOrRefuse_def split: prod.splits sum.splits mint_error.splits)

lemma check_client_not_ok: "check_client e now cid body s = (s', Some r) \<Longrightarrow> \<forall>t. r \<noteq> Token_ok t"
  by (auto simp: check_client_def split: prod.splits option.splits)

lemma check_client_ok:
  assumes "check_client e now cid body s = (s', None)"
  shows "\<not> isDenylisted e s cid"
  using assms by (auto simp: check_client_def split: prod.splits option.splits dest: resolveClient_SomeD)

text \<open>
  What an authenticated client is, stated without the code that checks it: the client resolves to a
  row of that id, and is either public or has presented an assertion that verifies under one of its
  published asymmetric keys for this issuer's token endpoint, with an unused \<^verbatim>\<open>jti\<close>.
\<close>

definition assertion_proven ::
    "env \<Rightarrow> time_ms \<Rightarrow> string \<Rightarrow> string \<Rightarrow> string \<Rightarrow> 'a assertion_state_scheme \<Rightarrow> bool" where
  "assertion_proven e now clientId jwksUri assertion s \<longleftrightarrow>
     (\<exists>s1 keys p jti xp. assertion_keys e now jwksUri assertion s = (s1, Inr keys) \<and>
        e_jwt_verify e (assertion_expect e clientId)
          (filter (\<lambda>k. member k ''kty'' \<noteq> Some (JStr ''oct'')) keys) now assertion = Inr p \<and>
        check_payload now p = Inr (jti, xp) \<and> \<not> jm_has (jtiKey e clientId jti) (seenJti s))"

definition client_proven :: "env \<Rightarrow> time_ms \<Rightarrow> string \<Rightarrow> body \<Rightarrow> 'a assertion_state_scheme \<Rightarrow> bool" where
  "client_proven e now cid body s \<longleftrightarrow>
     (\<exists>s1 client. resolveClient e now cid s = (s1, Some client) \<and> oc_clientId client = cid \<and>
        (client_auth_method client \<noteq> ''private_key_jwt'' \<or>
         (\<exists>jwksUri a. member (oc_metadata client) ''jwks_uri'' = Some (JStr jwksUri) \<and>
            stringField body ''client_assertion'' = Some a \<and>
            stringField body ''client_assertion_type'' =
              Some ''urn:ietf:params:oauth:client-assertion-type:jwt-bearer'' \<and>
            assertion_proven e now cid jwksUri a s1)))"

lemma record_jti_None: "record_jti now k x m = (m', None) \<Longrightarrow> \<not> jm_has k m"
  by (auto simp: record_jti_def split: if_splits)

lemma verify_proven:
  assumes "verifyClientAssertion e now cid u a s = (s', None)"
  shows "assertion_proven e now cid u a s"
proof -
  obtain s1 q where k: "assertion_keys e now u a s = (s1, q)" by fastforce
  moreover have "seenJti s1 = seenJti s" using assertion_keys_frame [of e now u a s] k by simp
  ultimately show ?thesis
    using assms unfolding assertion_proven_def verifyClientAssertion_def Let_def
    by (auto split: sum.splits prod.splits dest!: record_jti_None)
qed

lemma check_client_proven:
  assumes "check_client e now cid body s = (s', None)"
  shows "client_proven e now cid body s"
proof -
  from assms obtain s1 client where r: "resolveClient e now cid s = (s1, Some client)"
    and a: "authenticateConfidentialClient e now client body s1 = (s', None)"
    by (auto simp: check_client_def split: prod.splits option.splits)
  note id = resolveClient_SomeD(1) [OF r]
  show ?thesis
  proof (cases "client_auth_method client = ''private_key_jwt''")
    case True
    with a obtain u x where "member (oc_metadata client) ''jwks_uri'' = Some (JStr u)"
      "stringField body ''client_assertion'' = Some x"
      "stringField body ''client_assertion_type'' =
         Some ''urn:ietf:params:oauth:client-assertion-type:jwt-bearer''"
      "verifyClientAssertion e now cid u x s1 = (s', None)"
      by (auto simp: authenticateConfidentialClient_def id split: option.splits json.splits if_splits)
    with r id verify_proven show ?thesis unfolding client_proven_def by blast
  next
    case False
    with r id show ?thesis unfolding client_proven_def by blast
  qed
qed

text \<open>Revoking a family.\<close>

lemma revoke_frame [simp]:
  "users (revokeDescendantRefreshTokens now g k s) = users s"
  "localUsers (revokeDescendantRefreshTokens now g k s) = localUsers s"
  "authRequests (revokeDescendantRefreshTokens now g k s) = authRequests s"
  "authCodes (revokeDescendantRefreshTokens now g k s) = authCodes s"
  "deviceCodes (revokeDescendantRefreshTokens now g k s) = deviceCodes s"
  "grants (revokeDescendantRefreshTokens now g k s) = grants s"
  "registry (revokeDescendantRefreshTokens now g k s) = registry s"
  "refreshTokens (revokeDescendantRefreshTokens now g k s) =
     update_many (live_token g) (revoke_token now) (refreshTokens s)"
  by (simp_all add: revokeDescendantRefreshTokens_def Let_def)

lemma not_live_revoked: "\<not> live_token g (if live_token g t then revoke_token now t else t)"
  by (simp add: live_token_def revoke_token_def)

lemma revoked_family:
  "t \<in> set (update_many (live_token g) (revoke_token now) ts) \<Longrightarrow> \<not> live_token g t"
  unfolding set_update_many using not_live_revoked by blast

lemma tokens_issued_frame [simp]: "flow_rows (tokens_issued c r s) = flow_rows s"
  by (simp add: tokens_issued_def)

lemma device_outcome_frame [simp]: "flow_rows (device_outcome oc s) = flow_rows s"
  by (simp add: device_outcome_def)

section \<open>The authorization code grant\<close>

text \<open>What has been checked of a request whose claim may go ahead.\<close>

definition code_accepted ::
    "env \<Rightarrow> time_ms \<Rightarrow> body \<Rightarrow> auth_code \<Rightarrow> 'a upstream_state_scheme \<Rightarrow> bool" where
  "code_accepted e now body entry s \<longleftrightarrow>
     (\<exists>p v. stringField body ''code'' = Some p \<and> ac_codeHash entry = e_sha256 e p \<and>
        stringField body ''code_verifier'' = Some v \<and> valid_code_verifier v \<and>
        ac_codeChallengeMethod entry = ''S256'' \<and> e_sha256_b64url e v = ac_codeChallenge entry) \<and>
     row_of ac_codeHash (ac_codeHash entry) (authCodes s) = Some entry \<and>
     stringField body ''client_id'' = Some (ac_clientId entry) \<and>
     stringField body ''redirect_uri'' = Some (ac_redirectUri entry) \<and>
     \<not> resource_differs body (ac_resource entry) \<and>
     \<not> isDenylisted e s (ac_clientId entry) \<and> client_proven e now (ac_clientId entry) body s \<and>
     ac_consumedAt entry = None \<and> now \<le> ac_expiresAt entry \<and>
     (\<exists>g. row_of gr_id (ac_grantId entry) (grants s) = Some g \<and> gr_revokedAt g = None) \<and>
     is_user_active s (ac_userId entry) \<and>
     (\<exists>rs. lookupResourceServer s (ac_resource entry) = Some rs)"

lemma lookup_flow_rows: "flow_rows s' = flow_rows s \<Longrightarrow> lookupResourceServer s' r = lookupResourceServer s r"
  by (simp add: flow_rows_def lookupResourceServer_def)

lemma active_flow_rows: "flow_rows s' = flow_rows s \<Longrightarrow> is_user_active s' u = is_user_active s u"
  by (simp add: flow_rows_def is_user_active_def)

lemma pkce_None:
  "pkce_problem e entry (truthy v) = None \<longleftrightarrow>
     (\<exists>w. v = Some w \<and> valid_code_verifier w \<and> ac_codeChallengeMethod entry = ''S256'' \<and>
        e_sha256_b64url e w = ac_codeChallenge entry)"
  by (cases v) (auto simp: pkce_problem_def truthy_def valid_code_verifier_def)

lemma code_authenticated_Inr:
  assumes "code_authenticated e now rnd entry s = (s', Inr c)"
  obtains g where "cc_entry c = entry" "ac_consumedAt entry = None"
    "row_of gr_id (ac_grantId entry) (grants s) = Some g" "gr_revokedAt g = None"
    "is_user_active s (ac_userId entry)"
    "mintAccessToken e now rnd
       \<lparr>mp_userId = ac_userId entry, mp_clientId = ac_clientId entry,
        mp_resource = ac_resource entry, mp_scopes = accessTokenScopes (ac_scopes entry),
        mp_releaseClaims = grantClaims s (ac_resource entry) (gr_releasedClaims g)\<rparr> s
     = (s', Inr (cc_minted c))"
  using assms
  by (auto simp: code_authenticated_def split: if_splits option.splits prod.splits sum.splits
      dest: mintOrRefuse_Inr)

lemma code_authenticated_flow_rows:
  assumes "code_authenticated e now rnd entry s = (s', r)" and "ac_consumedAt entry = None"
  shows "flow_rows s' = flow_rows s"
  using assms
  by (auto simp: code_authenticated_def split: option.splits if_splits prod.splits sum.splits
      dest: mintOrRefuse_flow_rows)

text \<open>When a presented code is deleted: it has expired, or it is unconsumed and another client or
  redirect URI presents it.\<close>

definition code_burned :: "time_ms \<Rightarrow> string \<Rightarrow> string \<Rightarrow> auth_code \<Rightarrow> bool" where
  "code_burned now cid uri entry \<longleftrightarrow>
     ac_expiresAt entry < now \<or>
     (ac_consumedAt entry = None \<and> (ac_clientId entry \<noteq> cid \<or> ac_redirectUri entry \<noteq> uri))"

definition burns_code :: "env \<Rightarrow> time_ms \<Rightarrow> body \<Rightarrow> 'a db_scheme \<Rightarrow> string \<Rightarrow> bool" where
  "burns_code e now body s p \<longleftrightarrow>
     (\<exists>uri cid entry. truthy (stringField body ''code'') = Some p \<and>
        truthy (stringField body ''redirect_uri'') = Some uri \<and>
        truthy (stringField body ''client_id'') = Some cid \<and>
        row_of ac_codeHash (e_sha256 e p) (authCodes s) = Some entry \<and> code_burned now cid uri entry)"

lemma code_presented_cases:
  assumes "code_presented e now rnd body cid uri entry s = (s', v)"
  shows "(\<exists>r. v = Inl r \<and> (\<forall>t. r \<noteq> Token_ok t) \<and>
            (flow_rows s' = flow_rows s \<and> \<not> code_burned now cid uri entry \<or>
             s' = delete_code (ac_codeHash entry) s \<and> code_burned now cid uri entry)) \<or>
         (\<exists>w s1. now \<le> ac_expiresAt entry \<and> ac_clientId entry = cid \<and> ac_redirectUri entry = uri \<and>
            stringField body ''code_verifier'' = Some w \<and> valid_code_verifier w \<and>
            ac_codeChallengeMethod entry = ''S256'' \<and> e_sha256_b64url e w = ac_codeChallenge entry \<and>
            (ac_consumedAt entry = None \<longrightarrow> \<not> resource_differs body (ac_resource entry)) \<and>
            check_client e now cid body s = (s1, None) \<and>
            code_authenticated e now rnd entry s1 = (s', v))"
proof -
  obtain s1 q where c: "check_client e now cid body s = (s1, q)" by fastforce
  have "(\<forall>t. r \<noteq> Token_ok t) \<and> flow_rows s1 = flow_rows s" if "q = Some r" for r
    using c that check_client_not_ok check_client_flow_rows by blast
  with assms c show ?thesis
    by (cases q) (auto simp: code_presented_def Let_def pkce_None code_used_def not_less code_burned_def
        split: if_splits option.splits)
qed

lemma code_checks_cases:
  assumes "code_checks e now rnd body s = (s', v)"
  shows "(\<exists>r. v = Inl r \<and> (\<forall>t. r \<noteq> Token_ok t) \<and>
            (flow_rows s' = flow_rows s \<and> (\<forall>p. \<not> burns_code e now body s p) \<or>
             (\<exists>p. burns_code e now body s p \<and> s' = delete_code (e_sha256 e p) s))) \<or>
         (\<exists>p w entry s1. (\<forall>p. \<not> burns_code e now body s p) \<and> stringField body ''code'' = Some p \<and>
            row_of ac_codeHash (e_sha256 e p) (authCodes s) = Some entry \<and>
            now \<le> ac_expiresAt entry \<and>
            stringField body ''client_id'' = Some (ac_clientId entry) \<and>
            stringField body ''redirect_uri'' = Some (ac_redirectUri entry) \<and>
            stringField body ''code_verifier'' = Some w \<and> valid_code_verifier w \<and>
            ac_codeChallengeMethod entry = ''S256'' \<and> e_sha256_b64url e w = ac_codeChallenge entry \<and>
            (ac_consumedAt entry = None \<longrightarrow> \<not> resource_differs body (ac_resource entry)) \<and>
            check_client e now (ac_clientId entry) body s = (s1, None) \<and>
            code_authenticated e now rnd entry s1 = (s', v))"
proof -
  consider r where "v = Inl r" "\<forall>t. r \<noteq> Token_ok t" "s' = s" "\<forall>p. \<not> burns_code e now body s p"
    | p uri cid entry where "truthy (stringField body ''code'') = Some p"
        "truthy (stringField body ''redirect_uri'') = Some uri"
        "truthy (stringField body ''client_id'') = Some cid"
        "row_of ac_codeHash (e_sha256 e p) (authCodes s) = Some entry"
        "code_presented e now rnd body cid uri entry s = (s', v)"
    using assms unfolding code_checks_def burns_code_def
    by (cases "truthy (stringField body ''code'')"; cases "truthy (stringField body ''redirect_uri'')";
        cases "truthy (stringField body ''client_id'')";
        cases "row_of ac_codeHash (e_sha256 e (the (truthy (stringField body ''code'')))) (authCodes s)") auto
  then show ?thesis
  proof cases
    case (2 p uri cid entry)
    have h: "ac_codeHash entry = e_sha256 e p" using 2(4) by (rule row_of_SomeD)
    have b: "burns_code e now body s q \<longleftrightarrow> q = p \<and> code_burned now cid uri entry" for q
      using 2 by (auto simp: burns_code_def)
    have f: "stringField body ''code'' = Some p" "stringField body ''redirect_uri'' = Some uri"
      "stringField body ''client_id'' = Some cid"
      using 2(1-3) by (auto simp: truthy_def split: option.splits if_splits)
    from code_presented_cases [OF 2(5)] show ?thesis
    proof (elim disjE exE conjE)
      fix w s1
      assume "now \<le> ac_expiresAt entry" "ac_clientId entry = cid" "ac_redirectUri entry = uri"
      then have "\<not> code_burned now cid uri entry" by (simp add: code_burned_def)
      with code_presented_cases [OF 2(5)] b f h 2(4) show ?thesis by auto
    qed (use b h in auto)
  qed auto
qed

lemma code_checks_Inr:
  assumes "code_checks e now rnd body s = (s', Inr c)"
  obtains s1 where "code_authenticated e now rnd (cc_entry c) s1 = (s', Inr c)"
    "flow_rows s1 = flow_rows s" "code_accepted e now body (cc_entry c) s"
proof -
  from code_checks_cases [OF assms] obtain p w entry s1 where *:
    "stringField body ''code'' = Some p"
    "row_of ac_codeHash (e_sha256 e p) (authCodes s) = Some entry" "now \<le> ac_expiresAt entry"
    "stringField body ''client_id'' = Some (ac_clientId entry)"
    "stringField body ''redirect_uri'' = Some (ac_redirectUri entry)"
    "stringField body ''code_verifier'' = Some w" "valid_code_verifier w"
    "ac_codeChallengeMethod entry = ''S256''" "e_sha256_b64url e w = ac_codeChallenge entry"
    "ac_consumedAt entry = None \<longrightarrow> \<not> resource_differs body (ac_resource entry)"
    "check_client e now (ac_clientId entry) body s = (s1, None)"
    "code_authenticated e now rnd entry s1 = (s', Inr c)" by auto
  note f = check_client_flow_rows [OF *(11)]
  from code_authenticated_Inr [OF *(12)] obtain g where g: "cc_entry c = entry"
    "ac_consumedAt entry = None" "row_of gr_id (ac_grantId entry) (grants s1) = Some g"
    "gr_revokedAt g = None" "is_user_active s1 (ac_userId entry)"
    "mintAccessToken e now rnd
       \<lparr>mp_userId = ac_userId entry, mp_clientId = ac_clientId entry,
        mp_resource = ac_resource entry, mp_scopes = accessTokenScopes (ac_scopes entry),
        mp_releaseClaims = grantClaims s1 (ac_resource entry) (gr_releasedClaims g)\<rparr> s1
     = (s', Inr (cc_minted c))" .
  from g(6) obtain rs where rs: "lookupResourceServer s1 (ac_resource entry) = Some rs"
    by (auto elim: mint_InrD)
  have "ac_codeHash entry = e_sha256 e p" using *(2) by (rule row_of_SomeD)
  with * g rs check_client_ok [OF *(11)] check_client_proven [OF *(11)] lookup_flow_rows [OF f] active_flow_rows [OF f] flow_rows_eqD [OF f]
  have "code_accepted e now body entry s"
    by (auto simp: code_accepted_def)
  with * g f that show thesis by blast
qed

text \<open>
  A refused request leaves every stored row alone, or deletes the presented code, or (a proven
  replay of a used code) revokes the refresh tokens of the code's grant.
\<close>

definition replay_proven :: "env \<Rightarrow> body \<Rightarrow> auth_code \<Rightarrow> 'a db_scheme \<Rightarrow> bool" where
  "replay_proven e body entry s \<longleftrightarrow>
     (\<exists>p v. stringField body ''code'' = Some p \<and>
        row_of ac_codeHash (e_sha256 e p) (authCodes s) = Some entry \<and>
        stringField body ''code_verifier'' = Some v \<and> valid_code_verifier v \<and>
        e_sha256_b64url e v = ac_codeChallenge entry) \<and>
     stringField body ''client_id'' = Some (ac_clientId entry) \<and>
     stringField body ''redirect_uri'' = Some (ac_redirectUri entry) \<and>
     ac_consumedAt entry \<noteq> None"

lemma code_authenticated_Inl:
  assumes "code_authenticated e now rnd entry s = (s', Inl r)"
  shows "(\<forall>t. r \<noteq> Token_ok t) \<and>
     (if ac_consumedAt entry = None then flow_rows s' = flow_rows s
      else s' = revokeDescendantRefreshTokens now (ac_grantId entry) ''code_replay'' s \<and> r = code_used)"
  using assms
  by (auto simp: code_authenticated_def code_used_def inactive_user_def
      split: option.splits if_splits prod.splits sum.splits
      dest: mintOrRefuse_Inl mintOrRefuse_flow_rows)

lemma code_checks_Inl:
  assumes "code_checks e now rnd body s = (s', Inl r)"
  shows "(\<forall>t. r \<noteq> Token_ok t) \<and>
     (flow_rows s' = flow_rows s \<and> (\<forall>p. \<not> burns_code e now body s p) \<or>
      (\<exists>p. burns_code e now body s p \<and> s' = delete_code (e_sha256 e p) s) \<or>
      (\<exists>entry s1. replay_proven e body entry s \<and> now \<le> ac_expiresAt entry \<and>
         client_proven e now (ac_clientId entry) body s \<and> (\<forall>p. \<not> burns_code e now body s p) \<and>
         flow_rows s1 = flow_rows s \<and>
         s' = revokeDescendantRefreshTokens now (ac_grantId entry) ''code_replay'' s1 \<and> r = code_used))"
  using code_checks_cases [OF assms]
proof (elim disjE exE conjE)
  fix p w entry s1
  assume *: "\<forall>p. \<not> burns_code e now body s p" "now \<le> ac_expiresAt entry"
    "stringField body ''code'' = Some p"
    "row_of ac_codeHash (e_sha256 e p) (authCodes s) = Some entry"
    "stringField body ''client_id'' = Some (ac_clientId entry)"
    "stringField body ''redirect_uri'' = Some (ac_redirectUri entry)"
    "stringField body ''code_verifier'' = Some w" "valid_code_verifier w"
    "e_sha256_b64url e w = ac_codeChallenge entry"
    and c: "check_client e now (ac_clientId entry) body s = (s1, None)"
    and a: "code_authenticated e now rnd entry s1 = (s', Inl r)"
  note f = check_client_flow_rows [OF c]
  show ?thesis
  proof (cases "ac_consumedAt entry = None")
    case True
    with code_authenticated_Inl [OF a] f *(1) show ?thesis by simp
  next
    case False
    with * have "replay_proven e body entry s" by (auto simp: replay_proven_def)
    with False code_authenticated_Inl [OF a] f *(1,2) check_client_proven [OF c] show ?thesis by auto
  qed
qed auto

subsection \<open>The transaction\<close>

text \<open>A row a refresh token grant inserts: live, with the scopes that may be refreshed.\<close>

definition fresh_refresh_row ::
    "env \<Rightarrow> time_ms \<Rightarrow> string \<Rightarrow> string \<Rightarrow> string \<Rightarrow> string \<Rightarrow> string list \<Rightarrow> string \<Rightarrow>
     'a registry_state_scheme \<Rightarrow> refresh_token \<Rightarrow> bool" where
  "fresh_refresh_row e now tok u c r scs g s row \<longleftrightarrow>
     rt_tokenHash row = e_sha256 e tok \<and> rt_userId row = u \<and> rt_clientId row = c \<and>
     rt_resource row = r \<and> rt_grantId row = g \<and> rt_scopes row = refreshableScopes s r scs \<and>
     rt_expiresAt row = now + REFRESH_TOKEN_TTL_MS \<and> rt_rotatedTo row = None \<and>
     rt_revokedAt row = None \<and> rt_tokenHash row \<notin> rt_tokenHash ` set (refreshTokens s)"

lemma issue_fresh_row:
  assumes "issueRefreshToken e now tok u c r scs g s = Some s'"
  shows "\<exists>row. s' = s\<lparr>refreshTokens := refreshTokens s @ [row]\<rparr> \<and> fresh_refresh_row e now tok u c r scs g s row"
  using issueRefreshToken_Some [OF assms] unfolding fresh_refresh_row_def by metis

lemma claim_code_Some:
  assumes "claim_code e now tok entry s = Some (s', Some ref)"
  shows "(\<exists>c \<in> set (authCodes s). unconsumed_code (ac_codeHash entry) c) \<and>
     (if ''offline_access'' \<in> set (ac_scopes entry)
      then \<exists>row. ref = Some tok \<and>
             s' = (consume_code now (ac_codeHash entry) s)\<lparr>refreshTokens := refreshTokens s @ [row]\<rparr> \<and>
             fresh_refresh_row e now tok (ac_userId entry) (ac_clientId entry) (ac_resource entry)
               (ac_scopes entry) (ac_grantId entry) (consume_code now (ac_codeHash entry) s) row
      else ref = None \<and> s' = consume_code now (ac_codeHash entry) s)"
  using assms
  by (auto simp: claim_code_def Let_def split: if_splits dest!: issue_fresh_row)
    (auto simp: consume_code_def)

lemma claim_code_lost:
  "claim_code e now tok entry s = Some (s', None) \<longleftrightarrow>
     s' = s \<and> (\<forall>c \<in> set (authCodes s). \<not> unconsumed_code (ac_codeHash entry) c)"
  by (auto simp: claim_code_def Let_def)

lemma code_commit_ok:
  assumes "code_commit e now rnd c s = (s', Token_ok t)"
  obtains s1 where "claim_code e now (r_token rnd) (cc_entry c) s = Some (s1, Some (ts_refresh_token t))"
    "s' = tokens_issued (ac_clientId (cc_entry c)) (ac_resource (cc_entry c)) s1"
    "ts_access_token t = mi_token (cc_minted c)" "ts_expires_in t = mi_expiresIn (cc_minted c)"
    "ts_scope t = join '' '' (ac_scopes (cc_entry c))"
  using assms by (auto simp: code_commit_def code_used_def Let_def split: option.splits prod.splits)

lemma code_commit_not_ok:
  assumes "code_commit e now rnd c s = (s', r)" and "\<forall>t. r \<noteq> Token_ok t"
  shows "(r = Server_fault \<and> s' = s) \<or>
     (r = code_used \<and> (\<forall>x \<in> set (authCodes s). \<not> unconsumed_code (ac_codeHash (cc_entry c)) x) \<and>
      s' = revokeDescendantRefreshTokens now (ac_grantId (cc_entry c)) ''code_replay'' s)"
  using assms
  by (auto simp: code_commit_def Let_def claim_code_lost split: option.splits prod.splits)

section \<open>The refresh token grant\<close>

lemma refresh_authenticated_Inr:
  assumes "refresh_authenticated e pv now rnd body entry s = (s', Inr c)"
  obtains g s1 where "rc_entry c = entry" "rt_rotatedTo entry = None" "rt_revokedAt entry = None"
    "now \<le> rt_expiresAt entry" "\<not> resource_differs body (rt_resource entry)"
    "row_of gr_id (rt_grantId entry) (grants s) = Some g" "gr_revokedAt g = None"
    "is_user_active s (rt_userId entry)" "recheckUpstream e pv now (rt_userId entry) s = (s1, None)"
    "rc_scopes c = permittedScopes e s1 (rt_resource entry) (rt_userId entry)
                     (refreshableScopes s1 (rt_resource entry) (rt_scopes entry))"
    "mintAccessToken e now rnd
       \<lparr>mp_userId = rt_userId entry, mp_clientId = rt_clientId entry,
        mp_resource = rt_resource entry, mp_scopes = accessTokenScopes (rc_scopes c),
        mp_releaseClaims = grantClaims s1 (rt_resource entry) (gr_releasedClaims g)\<rparr> s1
     = (s', Inr (rc_minted c))"
  using assms
  by (auto simp: refresh_authenticated_def Let_def not_less
      split: if_splits option.splits prod.splits sum.splits dest!: mintOrRefuse_Inr)

lemma refresh_authenticated_Inl:
  assumes "refresh_authenticated e pv now rnd body entry s = (s', Inl r)"
  shows "(\<forall>t. r \<noteq> Token_ok t) \<and>
     (if rt_rotatedTo entry = None then token_rows s' = token_rows s \<and> user_keys s' = user_keys s
      else s' = revokeDescendantRefreshTokens now (rt_grantId entry) ''refresh_reuse'' s \<and> r = refresh_used)"
proof -
  have m: "token_rows s'' = token_rows s1 \<and> user_keys s'' = user_keys s1 \<and> (\<forall>t. r' \<noteq> Token_ok t)"
    if "mintOrRefuse e now rnd p s1 = (s'', Inl r')" for p s1 s'' r'
    using that mintOrRefuse_Inl mintOrRefuse_flow_rows flow_rows_token_rows by blast
  show ?thesis
    using assms
    by (auto simp: refresh_authenticated_def Let_def refresh_used_def inactive_user_def
        split: if_splits option.splits prod.splits sum.splits
        dest!: m recheck_frame)
qed

lemma refresh_checks_cases:
  assumes "refresh_checks e pv now rnd body s = (s', v)"
  shows "(\<exists>r. v = Inl r \<and> (\<forall>t. r \<noteq> Token_ok t) \<and> flow_rows s' = flow_rows s) \<or>
         (\<exists>p entry s1. stringField body ''refresh_token'' = Some p \<and>
            row_of rt_tokenHash (e_sha256 e p) (refreshTokens s) = Some entry \<and>
            stringField body ''client_id'' = Some (rt_clientId entry) \<and>
            check_client e now (rt_clientId entry) body s = (s1, None) \<and>
            refresh_authenticated e pv now rnd body entry s1 = (s', v))"
proof -
  have "(\<forall>t. r \<noteq> Token_ok t) \<and> flow_rows s1 = flow_rows s"
    if "check_client e now cid body s = (s1, Some r)" for cid s1 r
    using that check_client_not_ok check_client_flow_rows by blast
  with assms show ?thesis
    by (auto simp: refresh_checks_def split: if_splits option.splits prod.splits)
qed

definition refresh_accepted ::
    "env \<Rightarrow> time_ms \<Rightarrow> body \<Rightarrow> refresh_token \<Rightarrow> 'a upstream_state_scheme \<Rightarrow> bool" where
  "refresh_accepted e now body entry s \<longleftrightarrow>
     (\<exists>p. stringField body ''refresh_token'' = Some p \<and> rt_tokenHash entry = e_sha256 e p) \<and>
     row_of rt_tokenHash (rt_tokenHash entry) (refreshTokens s) = Some entry \<and>
     stringField body ''client_id'' = Some (rt_clientId entry) \<and>
     \<not> resource_differs body (rt_resource entry) \<and> \<not> isDenylisted e s (rt_clientId entry) \<and>
     client_proven e now (rt_clientId entry) body s \<and>
     rt_rotatedTo entry = None \<and> rt_revokedAt entry = None \<and> now \<le> rt_expiresAt entry \<and>
     (\<exists>g. row_of gr_id (rt_grantId entry) (grants s) = Some g \<and> gr_revokedAt g = None) \<and>
     is_user_active s (rt_userId entry) \<and>
     (\<exists>rs. lookupResourceServer s (rt_resource entry) = Some rs)"

lemma refresh_checks_Inr:
  assumes "refresh_checks e pv now rnd body s = (s', Inr c)"
  obtains s1 where "refresh_authenticated e pv now rnd body (rc_entry c) s1 = (s', Inr c)"
    "flow_rows s1 = flow_rows s" "refresh_accepted e now body (rc_entry c) s"
proof -
  from refresh_checks_cases [OF assms] obtain p entry s1 where *:
    "stringField body ''refresh_token'' = Some p"
    "row_of rt_tokenHash (e_sha256 e p) (refreshTokens s) = Some entry"
    "stringField body ''client_id'' = Some (rt_clientId entry)"
    "check_client e now (rt_clientId entry) body s = (s1, None)"
    "refresh_authenticated e pv now rnd body entry s1 = (s', Inr c)" by auto
  note f = check_client_flow_rows [OF *(4)]
  from refresh_authenticated_Inr [OF *(5)] obtain g s2 where g: "rc_entry c = entry"
    "rt_rotatedTo entry = None" "rt_revokedAt entry = None"
    "now \<le> rt_expiresAt entry" "\<not> resource_differs body (rt_resource entry)"
    "row_of gr_id (rt_grantId entry) (grants s1) = Some g" "gr_revokedAt g = None"
    "is_user_active s1 (rt_userId entry)" "recheckUpstream e pv now (rt_userId entry) s1 = (s2, None)"
    "mintAccessToken e now rnd
       \<lparr>mp_userId = rt_userId entry, mp_clientId = rt_clientId entry,
        mp_resource = rt_resource entry, mp_scopes = accessTokenScopes (rc_scopes c),
        mp_releaseClaims = grantClaims s2 (rt_resource entry) (gr_releasedClaims g)\<rparr> s2
     = (s', Inr (rc_minted c))" by metis
  have "registry s2 = registry s1" using recheck_frame [OF g(9)] by (simp add: token_rows_def)
  moreover obtain rs where "lookupResourceServer s2 (rt_resource entry) = Some rs"
    using mint_InrD [OF g(10)] by auto
  ultimately have "lookupResourceServer s1 (rt_resource entry) = Some rs"
    by (simp add: lookupResourceServer_def)
  with * g check_client_ok [OF *(4)] check_client_proven [OF *(4)] lookup_flow_rows [OF f] active_flow_rows [OF f] flow_rows_eqD [OF f]
    row_of_SomeD [OF *(2)]
  have "refresh_accepted e now body entry s" by (auto simp: refresh_accepted_def)
  with * g f that show thesis by blast
qed

definition successor_of :: "env \<Rightarrow> string \<Rightarrow> refresh_claim \<Rightarrow> refresh_token" where
  "successor_of e tok c =
     (rc_entry c)\<lparr>rt_tokenHash := e_sha256 e tok, rt_scopes := rc_scopes c,
                   rt_rotatedTo := None, rt_revokedAt := None\<rparr>"

definition mark_rotated :: "string \<Rightarrow> string \<Rightarrow> refresh_token list \<Rightarrow> refresh_token list" where
  "mark_rotated h newHash = update_many (rotatable h) (\<lambda>t. t\<lparr>rt_rotatedTo := Some newHash\<rparr>)"

lemma rotate_token_True:
  assumes "rotate_token e tok c s = Some (s', True)"
  shows "\<exists>t \<in> set (refreshTokens s). rotatable (rt_tokenHash (rc_entry c)) t"
    and "s' = s\<lparr>refreshTokens := mark_rotated (rt_tokenHash (rc_entry c)) (e_sha256 e tok) (refreshTokens s)
                                  @ [successor_of e tok c]\<rparr>"
    and "e_sha256 e tok \<notin> rt_tokenHash ` set (refreshTokens s)"
proof -
  have keys: "rt_tokenHash ` set (mark_rotated h n ts) = rt_tokenHash ` set ts" for h n ts
    unfolding mark_rotated_def list.set_map [symmetric] by (subst map_key_update_many) auto
  from assms keys show "\<exists>t \<in> set (refreshTokens s). rotatable (rt_tokenHash (rc_entry c)) t"
    and "s' = s\<lparr>refreshTokens := mark_rotated (rt_tokenHash (rc_entry c)) (e_sha256 e tok) (refreshTokens s)
                                  @ [successor_of e tok c]\<rparr>"
    and "e_sha256 e tok \<notin> rt_tokenHash ` set (refreshTokens s)"
    by (auto simp: rotate_token_def Let_def create_row_Some successor_of_def mark_rotated_def
        split: if_splits simp del: set_map)
qed

lemma rotate_token_False:
  "rotate_token e tok c s = Some (s', False) \<longleftrightarrow>
     s' = s \<and> (\<forall>t \<in> set (refreshTokens s). \<not> rotatable (rt_tokenHash (rc_entry c)) t)"
  by (auto simp: rotate_token_def Let_def)

lemma refresh_commit_ok:
  assumes "refresh_commit e now rnd c s = (s', Token_ok t)"
  obtains s1 where "rotate_token e (r_token rnd) c s = Some (s1, True)"
    "s' = tokens_issued (rt_clientId (rc_entry c)) (rt_resource (rc_entry c)) s1"
    "ts_access_token t = mi_token (rc_minted c)" "ts_expires_in t = mi_expiresIn (rc_minted c)"
    "ts_refresh_token t = Some (r_token rnd)" "ts_scope t = join '' '' (rc_scopes c)"
  using assms
  by (auto simp: refresh_commit_def refresh_used_def Let_def split: option.splits prod.splits bool.splits)

lemma refresh_commit_not_ok:
  assumes "refresh_commit e now rnd c s = (s', r)" and "\<forall>t. r \<noteq> Token_ok t"
  shows "(r = Server_fault \<and> s' = s) \<or>
     (r = refresh_used \<and> (\<forall>x \<in> set (refreshTokens s). \<not> rotatable (rt_tokenHash (rc_entry c)) x) \<and>
      s' = revokeDescendantRefreshTokens now (rt_grantId (rc_entry c)) ''refresh_reuse'' s)"
  using assms
  by (auto simp: refresh_commit_def Let_def rotate_token_False split: option.splits prod.splits bool.splits)

section \<open>The device code grant\<close>

lemma device_approved_Inr:
  assumes "device_approved e now rnd cid body entry s = (s', Inr c)"
  obtains userId s1 where "dv_userId entry = Some userId" "userId \<noteq> []"
    "check_client e now cid body s = (s1, None)" "is_user_active s1 userId"
    "mintAccessToken e now rnd
       \<lparr>mp_userId = userId, mp_clientId = dv_clientId entry, mp_resource = dv_resource entry,
        mp_scopes = accessTokenScopes (dv_scopes entry),
        mp_releaseClaims = grantClaims s1 (dv_resource entry)
          (case device_grant_of s1 userId entry of None \<Rightarrow> [] | Some g \<Rightarrow> gr_releasedClaims g)\<rparr> s1
     = (s', Inr (dc_minted c))"
    "dc_entry c = entry" "dc_userId c = userId"
  using assms
  by (auto simp: device_approved_def split: option.splits prod.splits if_splits sum.splits
      dest!: mintOrRefuse_Inr)

lemma device_approved_Inl:
  assumes "device_approved e now rnd cid body entry s = (s', Inl r)"
  shows "(\<forall>t. r \<noteq> Token_ok t) \<and> flow_rows s' = flow_rows s"
proof -
  have c: "(\<forall>t. r' \<noteq> Token_ok t) \<and> flow_rows s1 = flow_rows s"
    if "check_client e now cid body s = (s1, Some r')" for s1 r'
    using that check_client_not_ok check_client_flow_rows by blast
  have c0: "flow_rows s1 = flow_rows s" if "check_client e now cid body s = (s1, None)" for s1
    using that check_client_flow_rows by blast
  have m: "(\<forall>t. r' \<noteq> Token_ok t) \<and> flow_rows s2 = flow_rows s1"
    if "mintOrRefuse e now rnd p s1 = (s2, Inl r')" for p s1 s2 r'
    using that mintOrRefuse_Inl mintOrRefuse_flow_rows by blast
  show ?thesis
    using assms
    by (auto simp: device_approved_def inactive_user_def split: option.splits prod.splits if_splits sum.splits
        dest!: c m c0)
qed

text \<open>What polling does to the code, before it is approved.\<close>

lemma device_checks_cases:
  assumes "device_checks e now rnd body s = (s', v)"
  shows "(\<exists>r. v = Inl r \<and> (\<forall>t. r \<noteq> Token_ok t) \<and> s' = s) \<or>
         (\<exists>p entry. stringField body ''device_code'' = Some p \<and>
            row_of dv_deviceCodeHash (e_sha256 e p) (deviceCodes s) = Some entry \<and>
            stringField body ''client_id'' = Some (dv_clientId entry) \<and>
            ((now \<le> dv_expiresAt entry \<and> \<not> resource_differs body (dv_resource entry) \<and>
              ((dv_status entry = DS_approved \<and>
                device_approved e now rnd (dv_clientId entry) body entry s = (s', v)) \<or>
               (\<exists>r. dv_status entry = DS_pending \<and> poll_pending now entry s = (s', r) \<and> v = Inl r) \<or>
               (dv_status entry = DS_denied \<and> v = Inl (Token_error 400 ''access_denied'' No_description) \<and>
                s' = device_outcome ''denied'' (delete_device (e_sha256 e p) s)))) \<or>
             (dv_expiresAt entry < now \<and> v = Inl (Token_error 400 ''expired_token'' No_description) \<and>
              s' = device_outcome ''expired'' (delete_device (e_sha256 e p) s))))"
proof -
  consider r where "v = Inl r" "\<forall>t. r \<noteq> Token_ok t" "s' = s"
    | p cid entry where "stringField body ''device_code'' = Some p" "p \<noteq> []"
        "stringField body ''client_id'' = Some cid" "cid \<noteq> []"
        "row_of dv_deviceCodeHash (e_sha256 e p) (deviceCodes s) = Some entry"
    using assms by (auto simp: device_checks_def Let_def split: option.splits)
  then show ?thesis
  proof cases
    case (2 p cid entry)
    then have t: "truthy (stringField body ''device_code'') = Some p"
      "truthy (stringField body ''client_id'') = Some cid" by simp_all
    obtain s1 r where pp: "poll_pending now entry s = (s1, r)" by fastforce
    show ?thesis
      using assms t 2 pp
      by (cases "dv_status entry") (auto simp: device_checks_def Let_def not_less split: if_splits)
  qed auto
qed

lemma poll_pending_not_ok: "poll_pending now entry s = (s', r) \<Longrightarrow> \<forall>t. r \<noteq> Token_ok t"
  by (auto simp: poll_pending_def split: if_splits)

definition device_accepted ::
    "env \<Rightarrow> time_ms \<Rightarrow> body \<Rightarrow> device_code \<Rightarrow> string \<Rightarrow> 'a upstream_state_scheme \<Rightarrow> bool" where
  "device_accepted e now body entry userId s \<longleftrightarrow>
     (\<exists>p. stringField body ''device_code'' = Some p \<and> dv_deviceCodeHash entry = e_sha256 e p) \<and>
     row_of dv_deviceCodeHash (dv_deviceCodeHash entry) (deviceCodes s) = Some entry \<and>
     stringField body ''client_id'' = Some (dv_clientId entry) \<and>
     \<not> resource_differs body (dv_resource entry) \<and> \<not> isDenylisted e s (dv_clientId entry) \<and>
     client_proven e now (dv_clientId entry) body s \<and>
     dv_status entry = DS_approved \<and> now \<le> dv_expiresAt entry \<and> dv_userId entry = Some userId \<and>
     is_user_active s userId \<and> (\<exists>rs. lookupResourceServer s (dv_resource entry) = Some rs)"

lemma device_checks_Inr:
  assumes "device_checks e now rnd body s = (s', Inr c)"
  obtains s1 where "check_client e now (dv_clientId (dc_entry c)) body s = (s1, None)"
    "flow_rows s1 = flow_rows s" "device_accepted e now body (dc_entry c) (dc_userId c) s"
    "mintAccessToken e now rnd
       \<lparr>mp_userId = dc_userId c, mp_clientId = dv_clientId (dc_entry c),
        mp_resource = dv_resource (dc_entry c),
        mp_scopes = accessTokenScopes (dv_scopes (dc_entry c)),
        mp_releaseClaims = grantClaims s1 (dv_resource (dc_entry c))
          (case device_grant_of s1 (dc_userId c) (dc_entry c) of None \<Rightarrow> [] | Some g \<Rightarrow> gr_releasedClaims g)\<rparr> s1
     = (s', Inr (dc_minted c))"
proof -
  from device_checks_cases [OF assms] obtain p entry where *:
    "stringField body ''device_code'' = Some p"
    "row_of dv_deviceCodeHash (e_sha256 e p) (deviceCodes s) = Some entry"
    "stringField body ''client_id'' = Some (dv_clientId entry)" "now \<le> dv_expiresAt entry"
    "\<not> resource_differs body (dv_resource entry)" "dv_status entry = DS_approved"
    "device_approved e now rnd (dv_clientId entry) body entry s = (s', Inr c)" by auto
  from device_approved_Inr [OF *(7)] obtain userId s1 where a: "dv_userId entry = Some userId"
    "check_client e now (dv_clientId entry) body s = (s1, None)" "is_user_active s1 userId"
    "mintAccessToken e now rnd
       \<lparr>mp_userId = userId, mp_clientId = dv_clientId entry, mp_resource = dv_resource entry,
        mp_scopes = accessTokenScopes (dv_scopes entry),
        mp_releaseClaims = grantClaims s1 (dv_resource entry)
          (case device_grant_of s1 userId entry of None \<Rightarrow> [] | Some g \<Rightarrow> gr_releasedClaims g)\<rparr> s1
     = (s', Inr (dc_minted c))"
    "dc_entry c = entry" "dc_userId c = userId" by metis
  note f = check_client_flow_rows [OF a(2)]
  obtain rs where "lookupResourceServer s1 (dv_resource entry) = Some rs"
    using mint_InrD [OF a(4)] by auto
  with * a check_client_ok [OF a(2)] check_client_proven [OF a(2)] lookup_flow_rows [OF f] active_flow_rows [OF f]
    row_of_SomeD [OF *(2)]
  have "device_accepted e now body entry userId s" by (auto simp: device_accepted_def)
  with * a f that show thesis by blast
qed

definition consume_device :: "string \<Rightarrow> 'a db_scheme \<Rightarrow> 'a db_scheme" where
  "consume_device h s =
     s\<lparr>deviceCodes := update_many (approved_device h) (\<lambda>d. d\<lparr>dv_status := DS_consumed\<rparr>) (deviceCodes s)\<rparr>"

lemma claim_device_Some:
  assumes "claim_device e now tok c s = Some (s', tx)"
  shows "(tx = Tx_lost \<and> s' = s \<and>
            (\<forall>d \<in> set (deviceCodes s). \<not> approved_device (dv_deviceCodeHash (dc_entry c)) d)) \<or>
     ((\<exists>d \<in> set (deviceCodes s). approved_device (dv_deviceCodeHash (dc_entry c)) d) \<and>
      (let s1 = consume_device (dv_deviceCodeHash (dc_entry c)) s in
       (tx = Tx_revoked \<and> s' = s1 \<and>
          (\<forall>g. device_grant_of s (dc_userId c) (dc_entry c) = Some g \<longrightarrow> gr_revokedAt g \<noteq> None)) \<or>
       (\<exists>g. device_grant_of s (dc_userId c) (dc_entry c) = Some g \<and> gr_revokedAt g = None \<and>
          ((tx = Tx_issued None \<and> ''offline_access'' \<notin> set (dv_scopes (dc_entry c)) \<and> s' = s1) \<or>
           (\<exists>row. tx = Tx_issued (Some tok) \<and> ''offline_access'' \<in> set (dv_scopes (dc_entry c)) \<and>
              s' = s1\<lparr>refreshTokens := refreshTokens s @ [row]\<rparr> \<and>
              fresh_refresh_row e now tok (dc_userId c) (dv_clientId (dc_entry c))
                (dv_resource (dc_entry c)) (dv_scopes (dc_entry c)) (gr_id g) s1 row)))))"
  using assms
  by (auto simp: claim_device_def Let_def consume_device_def device_grant_of_def
      split: if_splits option.splits dest!: issue_fresh_row)

lemma device_commit_ok:
  assumes "device_commit e now rnd c s = (s', Token_ok t)"
  obtains s1 where "claim_device e now (r_token rnd) c s = Some (s1, Tx_issued (ts_refresh_token t))"
    "s' = device_outcome ''success'' (tokens_issued (dv_clientId (dc_entry c)) (dv_resource (dc_entry c)) s1)"
    "ts_access_token t = mi_token (dc_minted c)" "ts_expires_in t = mi_expiresIn (dc_minted c)"
    "ts_scope t = join '' '' (dv_scopes (dc_entry c))"
  using assms by (auto simp: device_commit_def Let_def split: option.splits prod.splits device_tx.splits)

lemma device_commit_not_ok:
  assumes "device_commit e now rnd c s = (s', r)" and "\<forall>t. r \<noteq> Token_ok t"
  shows "s' = s \<or> s' = consume_device (dv_deviceCodeHash (dc_entry c)) s"
proof (cases "claim_device e now (r_token rnd) c s")
  case None
  with assms show ?thesis by (auto simp: device_commit_def Let_def)
next
  case (Some p)
  then obtain s1 tx where cl: "claim_device e now (r_token rnd) c s = Some (s1, tx)" by (cases p) auto
  with assms have "s' = s1 \<and> (tx = Tx_lost \<or> tx = Tx_revoked)"
    by (auto simp: device_commit_def Let_def split: device_tx.splits)
  with claim_device_Some [OF cl] show ?thesis by (auto simp: Let_def)
qed

end
