(* ===== verification/Sample.thy ===== *)
theory Sample
  imports TokenEndpoint
begin

text \<open>
  A concrete environment and a concrete state, small enough to compute with: the inputs at which
  the properties are applied to show that their hypotheses can hold.  The hash functions here are
  injective stand-ins, the URL parser knows two addresses.
\<close>

definition sample_url :: "string \<Rightarrow> string \<Rightarrow> string \<Rightarrow> url" where
  "sample_url proto host path =
     \<lparr>url_protocol = proto, url_username = [], url_password = [], url_hostname = host, url_port = [],
      url_host = host, url_pathname = path, url_search = [], url_hash = [],
      url_origin = proto @ ''//'' @ host, url_href = proto @ ''//'' @ host @ path\<rparr>"

definition sample_parse :: url_parser where
  "sample_parse x =
     (if x = ''https://a.example/c'' then Some (sample_url ''https:'' ''a.example'' ''/c'')
      else if x = ''https://a.example/cb'' then Some (sample_url ''https:'' ''a.example'' ''/cb'')
      else None)"

definition sample_net :: net where
  "sample_net =
     \<lparr>net_dns = (\<lambda>_ _. Dns_records [V4 0x08080808]), net_http = (\<lambda>_ _ _. Wire_error),
      net_parse_url = sample_parse, net_resolve_url = (\<lambda>_ _. None), net_parse_json = (\<lambda>_. None),
      net_allowInsecure = False\<rparr>"

definition sample_env :: env where
  "sample_env =
     \<lparr>e_net = sample_net,
      e_policy = \<lparr>po_allowlist = \<lparr>pl_clientIds = [], pl_domains = []\<rparr>,
                  po_denylist = \<lparr>pl_clientIds = [], pl_domains = []\<rparr>\<rparr>,
      e_sha256 = (\<lambda>x. CHR ''h'' # x), e_sha256_b64url = (\<lambda>x. CHR ''b'' # x),
      e_hmac = (\<lambda>x. CHR ''m'' # x), e_domainToASCII = (\<lambda>x. x),
      e_json_len = (\<lambda>_. 2), e_jwt_verify = (\<lambda>_ _ _ _. Inl ''no''), e_jwt_kid = (\<lambda>_. None),
      e_issuerUrl = ''https://as.example'', e_enableOidc = False, e_enableLocalAccounts = True,
      e_oidcIssuer = None, e_subjectClaim = ''sub'', e_claimMap = [], e_adminGroups = [],
      e_setupToken = None, e_bcrypt_hash = (\<lambda>salt p. CHR ''k'' # p),
      e_bcrypt_compare = (\<lambda>p h. h = CHR ''k'' # p),
      e_localeLe = (\<lambda>a b. True)\<rparr>"

definition sample_server :: resource_server where
  "sample_server =
     \<lparr>rs_identifier = ''https://rs'', rs_name = ''RS'',
      rs_scopes = [\<lparr>s_name = ''read'', s_description = ''r'', s_shortLived = False, s_freshSignIn = False,
                    s_requireGroups = None\<rparr>,
                   \<lparr>s_name = ''admin'', s_description = ''a'', s_shortLived = True, s_freshSignIn = False,
                    s_requireGroups = None\<rparr>],
      rs_releaseClaims = [''email'']\<rparr>"

definition sample_client :: oauth_client where
  "sample_client =
     \<lparr>oc_clientId = ''https://a.example/c'', oc_source = Cimd, oc_metadata = JObj [],
      oc_trustLevel = Domain_verified, oc_fetchedAt = 0, oc_expiresAt = None, oc_lastSeenAt = 0\<rparr>"

definition sample_user :: user where
  "sample_user =
     \<lparr>u_id = ''u1'', u_oidcSub = None, u_oidcIssuer = None, u_email = ''m'', u_deactivatedAt = None,
      u_sessionEpoch = 0, u_deviceEpoch = 0, u_lastKnownClaims = Some (JObj [(''email'', JStr ''m'')]),
      u_upstreamRefreshToken = None, u_upstreamCheckedAt = None\<rparr>"

definition sample_key :: signing_key where
  "sample_key =
     \<lparr>sk_kid = ''k1'', sk_publicJwk = JNull, sk_privateJwk = JNull, sk_activatedAt = Some 0,
      sk_retiredAt = None\<rparr>"

definition sample_verifier :: string where
  "sample_verifier = replicate 43 CHR ''v''"

definition sample_code :: auth_code where
  "sample_code =
     \<lparr>ac_codeHash = ''hcode'', ac_userId = ''u1'', ac_clientId = ''https://a.example/c'',
      ac_codeChallenge = CHR ''b'' # sample_verifier, ac_codeChallengeMethod = ''S256'',
      ac_resource = ''https://rs'', ac_scopes = [''read'', ''offline_access''],
      ac_redirectUri = ''https://a.example/cb'', ac_grantId = ''g1'', ac_expiresAt = 600000,
      ac_consumedAt = None\<rparr>"

definition sample_grant :: grant where
  "sample_grant =
     \<lparr>gr_id = ''g1'', gr_userId = ''u1'', gr_clientId = ''https://a.example/c'',
      gr_resource = ''https://rs'', gr_scopes = [''read'', ''offline_access''],
      gr_releasedClaims = [''email''], gr_grantedAt = 0, gr_revokedAt = None\<rparr>"

definition sample_refresh :: refresh_token where
  "sample_refresh =
     \<lparr>rt_tokenHash = ''hrt'', rt_userId = ''u1'', rt_clientId = ''https://a.example/c'',
      rt_resource = ''https://rs'', rt_scopes = [''read'', ''offline_access''], rt_grantId = ''g1'',
      rt_expiresAt = 900000, rt_rotatedTo = None, rt_revokedAt = None\<rparr>"

definition sample_device :: device_code where
  "sample_device =
     \<lparr>dv_deviceCodeHash = ''hdev'', dv_userCode = ''ABCDEFGH'', dv_clientId = ''https://a.example/c'',
      dv_resource = ''https://rs'', dv_scopes = [''admin''], dv_status = DS_approved,
      dv_userId = Some ''u1'', dv_lastPolledAt = None, dv_pollInterval = 5, dv_expiresAt = 600000\<rparr>"

definition sample_fetcher :: fetch_state where
  "sample_fetcher = \<lparr>hostWindows = [], rejections = [], inFlight = (\<lambda>_. 0), sent = []\<rparr>"

definition sample_state :: upstream_state where
  "sample_state =
     \<lparr>users = [sample_user], localUsers = [], loginFailures = [], signingKeys = [sample_key],
      oauthClients = [sample_client], deniedClients = [], resourceServers = [], adminAuditLog = [],
      authRequests = [], authCodes = [sample_code], deviceCodes = [sample_device],
      grants = [sample_grant], refreshTokens = [sample_refresh],
      registry = [(''https://rs'', sample_server)], nextGeneration = 1, appliedGeneration = 1, notifications = 0,
      counters = [], durations = [], fetcher = sample_fetcher, jwksCache = [], lastKidRefetch = [],
      seenJti = [], oidcConfig = None, recentFailures = []\<rparr>"

definition sample_provider :: provider where
  "sample_provider = \<lparr>pv_discovery = None, pv_refresh = (\<lambda>_. Inl Other_error), pv_userinfo = Inl Other_error\<rparr>"

definition sample_rand :: rand where
  "sample_rand = \<lparr>r_keys = [], r_jti = ''j1'', r_token = ''new'', r_id = ''i1''\<rparr>"

definition code_body :: body where
  "code_body =
     [(''grant_type'', JStr ''authorization_code''), (''code'', JStr ''code''),
      (''redirect_uri'', JStr ''https://a.example/cb''), (''client_id'', JStr ''https://a.example/c''),
      (''code_verifier'', JStr sample_verifier)]"

definition refresh_body :: body where
  "refresh_body = [(''refresh_token'', JStr ''rt''), (''client_id'', JStr ''https://a.example/c'')]"

definition device_body :: body where
  "device_body = [(''device_code'', JStr ''dev''), (''client_id'', JStr ''https://a.example/c'')]"

section \<open>Runs\<close>

lemma sample_code_run: "granted (snd (handleAuthorizationCodeGrant sample_env 1000 sample_rand code_body sample_state))"
  by code_simp

lemma sample_refresh_run:
  "granted (snd (handleRefreshTokenGrant sample_env sample_provider 1000 sample_rand refresh_body sample_state))"
  by code_simp

lemma sample_device_run:
  "granted (snd (handleDeviceCodeGrant sample_env 1000 sample_rand device_body sample_state))"
  by code_simp

end
