(* ===== verification/TokenProps.thy ===== *)
theory TokenProps
  imports TokenFacts Sample
begin

text \<open>
  The properties of the token endpoint, one request at a time: what a granted request implies, what
  a refused one leaves, and what happens to the tokens of a family.  The properties of interleaved
  requests are in \<^verbatim>\<open>Interleaving\<close>.
\<close>

section \<open>What a token says\<close>

definition protocol_claims :: "string set" where
  "protocol_claims = {''iss'', ''sub'', ''aud'', ''client_id'', ''scope'', ''jti''}"

text \<open>
  An access token for one user, client and resource: signed by an active key of the store, the
  protocol claims as given, nothing else but claims the user consented to and the resource server
  may still receive.
\<close>

definition access_token_for ::
    "env \<Rightarrow> time_ms \<Rightarrow> 'a registry_state_scheme \<Rightarrow> 'a registry_state_scheme \<Rightarrow> string \<Rightarrow> string \<Rightarrow> string \<Rightarrow>
     string list \<Rightarrow> string list \<Rightarrow> jwt \<Rightarrow> int \<Rightarrow> bool" where
  "access_token_for e now s s' u c r scopes consented t ttl \<longleftrightarrow>
     (\<exists>rs. lookupResourceServer s r = Some rs \<and>
        (let granted_scopes = filter (\<lambda>n. n \<in> set (declared_names rs) \<and> n \<noteq> ''offline_access'') scopes in
         jm_get (jwt_claims t) ''iss'' = Some (JStr (e_issuerUrl e)) \<and>
         jm_get (jwt_claims t) ''sub'' = Some (JStr u) \<and>
         jm_get (jwt_claims t) ''aud'' = Some (JStr r) \<and>
         jm_get (jwt_claims t) ''client_id'' = Some (JStr c) \<and>
         jm_get (jwt_claims t) ''scope'' = Some (JStr (join '' '' granted_scopes)) \<and>
         (\<forall>n j. jm_get (jwt_claims t) n = Some j \<longrightarrow>
            n \<in> protocol_claims \<union> (set consented \<inter> set (rs_releaseClaims rs) - set RESERVED_CLAIMS)) \<and>
         jwt_typ t = ''at+jwt'' \<and> jwt_iat t = epoch_s now \<and> jwt_exp t = epoch_s now + ttl \<and>
         ttl = (if \<exists>n \<in> set granted_scopes. is_short_lived rs n then 300 else 900) \<and>
         (\<exists>k \<in> set (signingKeys s'). active k \<and> sk_kid k = jwt_kid t)))"

lemma minted_for:
  assumes "mintAccessToken e now rnd
       \<lparr>mp_userId = u, mp_clientId = c, mp_resource = r, mp_scopes = accessTokenScopes scopes,
        mp_releaseClaims = grantClaims s r consented\<rparr> s = (s1, Inr m)"
    and "registry s0 = registry s" and "signingKeys s' = signingKeys s1"
  shows "access_token_for e now s0 s' u c r scopes consented (mi_token m) (mi_expiresIn m)"
proof -
  let ?p = "\<lparr>mp_userId = u, mp_clientId = c, mp_resource = r, mp_scopes = accessTokenScopes scopes,
        mp_releaseClaims = grantClaims s r consented\<rparr>"
  from mint_InrD [OF assms(1)] obtain rs released k where l: "lookupResourceServer s r = Some rs"
    and rel: "loadReleasedClaims (e_json_len e) (e_claimMap e) s u (grantClaims s r consented) = Inr released"
    and k: "getSigningKeyForSigning now (r_keys rnd) s = (s1, Some k)"
    and m: "m = \<lparr>mi_token = \<lparr>jwt_kid = sk_kid k, jwt_typ = ''at+jwt'',
            jwt_claims = token_payload e ?p (r_jti rnd) (mintable_scopes rs (mp_scopes ?p)) released,
            jwt_iat = epoch_s now,
            jwt_exp = epoch_s now + token_ttl rs (mintable_scopes rs (mp_scopes ?p))\<rparr>,
          mi_expiresIn = token_ttl rs (mintable_scopes rs (mp_scopes ?p))\<rparr>" by auto
  have l0: "lookupResourceServer s0 r = Some rs"
    using l assms(2) by (simp add: lookupResourceServer_def)
  have sc: "mintable_scopes rs (mp_scopes ?p) =
      filter (\<lambda>n. n \<in> set (declared_names rs) \<and> n \<noteq> ''offline_access'') scopes"
    by (auto simp: mintable_scopes_def accessTokenScopes_def intro: filter_cong)
  have names: "fst ` set released \<subseteq> set consented \<inter> set (rs_releaseClaims rs) - set RESERVED_CLAIMS"
    using loadReleasedClaims_names [OF rel] l by (auto simp: grantClaims_def consentedClaimNames_subset)
  have only: "n \<in> protocol_claims \<union> (set consented \<inter> set (rs_releaseClaims rs) - set RESERVED_CLAIMS)"
    if "jm_get (jwt_claims (mi_token m)) n = Some j" for n j
  proof (cases "n \<in> protocol_claims")
    case False
    with that m have "jm_get released n = Some j"
      by (simp add: token_payload_other protocol_claims_def)
    then have "n \<in> fst ` set released" by (auto dest: map_of_SomeD intro: rev_image_eqI)
    with names show ?thesis by blast
  qed simp
  have key: "\<exists>k \<in> set (signingKeys s'). active k \<and> sk_kid k = jwt_kid (mi_token m)"
    using getSigningKey_active [OF k] m assms(3) by auto
  let ?G = "filter (\<lambda>n. n \<in> set (declared_names rs) \<and> n \<noteq> ''offline_access'') scopes"
  have ttl: "token_ttl rs ?G = (if \<exists>n \<in> set ?G. is_short_lived rs n then 300 else 900)"
    by (auto simp: token_ttl_def SHORT_LIVED_TTL_SECONDS_def DEFAULT_TTL_SECONDS_def)
  have get: "jm_get (jwt_claims (mi_token m)) n = jm_get (token_payload e ?p (r_jti rnd) ?G released) n" for n
    using m sc by simp
  have times: "jwt_typ (mi_token m) = ''at+jwt''" "jwt_iat (mi_token m) = epoch_s now"
    "jwt_exp (mi_token m) = epoch_s now + mi_expiresIn m" "mi_expiresIn m = token_ttl rs ?G"
    using m sc by simp_all
  note ttl' = times(4) [unfolded ttl]
  show ?thesis
    unfolding access_token_for_def Let_def
    by (intro exI [of _ rs] conjI l0 key allI impI only times ttl') (simp_all add: get token_payload_get)
qed

section \<open>Granted requests\<close>

lemma signingKeys_frame [simp]:
  "signingKeys (tokens_issued c r s) = signingKeys s"
  "signingKeys (device_outcome oc s) = signingKeys s"
  "signingKeys (consume_code now h s) = signingKeys s"
  "signingKeys (consume_device h s) = signingKeys s"
  by (simp_all add: tokens_issued_def device_outcome_def consume_code_def consume_device_def)

text \<open>The provider stands behind the user: the account is local, or was confirmed recently enough, or
  is confirmed by the call just made.\<close>

definition upstream_ok :: "env \<Rightarrow> provider \<Rightarrow> time_ms \<Rightarrow> string \<Rightarrow> 'a db_scheme \<Rightarrow> bool" where
  "upstream_ok e pv now i s \<longleftrightarrow>
     (\<exists>u. row_of u_id i (users s) = Some u \<and>
        (u_oidcSub u = None \<or>
         (\<exists>sub. u_oidcSub u = Some sub \<and> e_oidcIssuer e \<noteq> None \<and> u_oidcIssuer u = e_oidcIssuer e \<and>
            ((\<exists>t. u_upstreamCheckedAt u = Some t \<and> now - t < UPSTREAM_FAIL_OPEN_MS) \<or>
             (\<exists>t. u_upstreamRefreshToken u = Some t \<and> provider_confirms e pv t sub)))))"

lemma recheck_upstream_ok: "recheckUpstream e pv now i s = (s', None) \<Longrightarrow> upstream_ok e pv now i s"
  unfolding upstream_ok_def by (elim recheck_ok) blast

lemma refresh_checks_not_ok: "refresh_checks e pv now rnd body s = (s', Inl r) \<Longrightarrow> \<forall>t. r \<noteq> Token_ok t"
  using refresh_checks_cases refresh_authenticated_Inl by (metis sum.inject(1))

lemma device_checks_not_ok: "device_checks e now rnd body s = (s', Inl r) \<Longrightarrow> \<forall>t. r \<noteq> Token_ok t"
  by (drule device_checks_cases) (auto dest: device_approved_Inl poll_pending_not_ok)

text \<open>C1: An authorization code is only exchanged for tokens when the request proves possession
  (the stored S256 challenge is the hash of a well-formed verifier), repeats the client and
  redirect URI of the code, is made before expiry, by a client that is not denylisted and has
  authenticated (it is public, or its assertion verifies under its own keys, unused), for a resource still registered, under an unrevoked grant of an active user.  The token minted is for
  exactly that user, client, single audience and the declared part of the scopes; the code is
  consumed in the same transaction, and a refresh token is stored iff offline_access was granted.\<close>

theorem code_grant_sound:
  assumes "handleAuthorizationCodeGrant e now rnd body s = (s', Token_ok t)"
  shows "\<exists>entry g. code_accepted e now body entry s \<and>
     row_of gr_id (ac_grantId entry) (grants s) = Some g \<and>
     access_token_for e now s s' (ac_userId entry) (ac_clientId entry) (ac_resource entry)
       (ac_scopes entry) (gr_releasedClaims g) (ts_access_token t) (ts_expires_in t) \<and>
     authCodes s' = update_many (unconsumed_code (ac_codeHash entry))
       (\<lambda>c. c\<lparr>ac_consumedAt := Some now\<rparr>) (authCodes s) \<and> grants s' = grants s \<and>
     (if ''offline_access'' \<in> set (ac_scopes entry)
      then ts_refresh_token t = Some (r_token rnd) \<and>
           (\<exists>row. refreshTokens s' = refreshTokens s @ [row] \<and>
              fresh_refresh_row e now (r_token rnd) (ac_userId entry) (ac_clientId entry)
                (ac_resource entry) (ac_scopes entry) (ac_grantId entry) s row)
      else ts_refresh_token t = None \<and> refreshTokens s' = refreshTokens s)"
proof -
  obtain s2 v where cc: "code_checks e now rnd body s = (s2, v)" by fastforce
  with assms code_checks_Inl [of e now rnd body s s2] obtain c where v: "v = Inr c"
    and com: "code_commit e now rnd c s2 = (s', Token_ok t)"
    by (auto simp: handleAuthorizationCodeGrant_def split: sum.splits)
  from code_checks_Inr [OF cc [unfolded v]] obtain s1 where
    a: "code_authenticated e now rnd (cc_entry c) s1 = (s2, Inr c)"
    and f1: "flow_rows s1 = flow_rows s" and acc: "code_accepted e now body (cc_entry c) s" .
  have f2: "flow_rows s2 = flow_rows s"
    using code_authenticated_flow_rows [OF a] acc f1 by (auto simp: code_accepted_def)
  from code_authenticated_Inr [OF a] obtain g where
    g: "row_of gr_id (ac_grantId (cc_entry c)) (grants s1) = Some g"
    and m: "mintAccessToken e now rnd
       \<lparr>mp_userId = ac_userId (cc_entry c), mp_clientId = ac_clientId (cc_entry c),
        mp_resource = ac_resource (cc_entry c), mp_scopes = accessTokenScopes (ac_scopes (cc_entry c)),
        mp_releaseClaims = grantClaims s1 (ac_resource (cc_entry c)) (gr_releasedClaims g)\<rparr> s1
     = (s2, Inr (cc_minted c))" by metis
  from code_commit_ok [OF com] obtain s3 where
    cl: "claim_code e now (r_token rnd) (cc_entry c) s2 = Some (s3, Some (ts_refresh_token t))"
    and s': "s' = tokens_issued (ac_clientId (cc_entry c)) (ac_resource (cc_entry c)) s3"
    and t: "ts_access_token t = mi_token (cc_minted c)" "ts_expires_in t = mi_expiresIn (cc_minted c)" by metis
  note cs = claim_code_Some [OF cl]
  have fin: "signingKeys s' = signingKeys s2" "authCodes s' = authCodes (consume_code now (ac_codeHash (cc_entry c)) s2)"
    "grants s' = grants s2" "refreshTokens s' = refreshTokens s3"
    using cs s' by (auto simp: consume_code_def tokens_issued_def split: if_splits)
  have tok: "access_token_for e now s s' (ac_userId (cc_entry c)) (ac_clientId (cc_entry c))
      (ac_resource (cc_entry c)) (ac_scopes (cc_entry c)) (gr_releasedClaims g)
      (ts_access_token t) (ts_expires_in t)"
    unfolding t by (rule minted_for [OF m]) (use f1 fin in \<open>simp_all add: flow_rows_def\<close>)
  have reg: "fresh_refresh_row e now tk u cl r sc gi (consume_code now h s2) row =
      fresh_refresh_row e now tk u cl r sc gi s row" for tk u cl r sc gi h row
    using f2 by (simp add: fresh_refresh_row_def consume_code_def flow_rows_def refreshableScopes_def
        lookupResourceServer_def)
  show ?thesis
    using acc tok g cs fin flow_rows_eqD [OF f1] flow_rows_eqD [OF f2] reg
    by (intro exI [of _ "cc_entry c"] exI [of _ g]) (auto simp: consume_code_def split: if_splits)
qed

lemma code_grant_sound_sample:
  "\<exists>s' t entry. handleAuthorizationCodeGrant sample_env 1000 sample_rand code_body sample_state = (s', Token_ok t) \<and>
     code_accepted sample_env 1000 code_body entry sample_state"
  using sample_code_run
    code_grant_sound [of sample_env 1000 sample_rand code_body sample_state]
  by (metis granted_iff prod.collapse)

text \<open>A scope that survives a refresh is not short-lived, and its groups are the user's.\<close>

lemma refreshed_scope_kept:
  assumes "lookupResourceServer s resource = Some rs" and "sc \<in> set (rs_scopes rs)"
    and "s_name sc \<in> set (permittedScopes e s resource userId (refreshableScopes s resource scopes))"
  shows "\<not> s_shortLived sc \<and> groupsSatisfy (loadUserGroups (e_claimMap e) s userId) (s_requireGroups sc)"
proof
  have "s_name sc \<in> set (refreshableScopes s resource scopes)"
    using assms(3) permittedScopes_subset by fast
  then show "\<not> s_shortLived sc" by (rule refreshableScopes_not_short [OF assms(1) _ assms(2) refl])
  show "groupsSatisfy (loadUserGroups (e_claimMap e) s userId) (s_requireGroups sc)"
    by (rule permittedScopes_groups [OF assms(1) assms(3,2) refl])
qed

text \<open>C2: A refresh token is only exchanged when it is the stored one of this client, neither rotated
  nor revoked nor expired, the client has authenticated, its resource is registered, its grant unrevoked, its user active, and the
  identity provider stands behind the user.  The scopes can only shrink, and never keep a
  short-lived scope or one whose groups the user no longer has.  The presented token is marked
  rotated; its successor carries the same user, client, resource, grant and expiry.\<close>

theorem refresh_grant_sound:
  assumes "handleRefreshTokenGrant e pv now rnd body s = (s', Token_ok t)"
  shows "\<exists>entry g scopes. refresh_accepted e now body entry s \<and>
     row_of gr_id (rt_grantId entry) (grants s) = Some g \<and>
     upstream_ok e pv now (rt_userId entry) s \<and> set scopes \<subseteq> set (rt_scopes entry) \<and>
     (\<forall>rs sc. lookupResourceServer s (rt_resource entry) = Some rs \<longrightarrow> sc \<in> set (rs_scopes rs) \<longrightarrow>
        s_name sc \<in> set scopes \<longrightarrow> \<not> s_shortLived sc \<and>
        groupsSatisfy (loadUserGroups (e_claimMap e) s' (rt_userId entry)) (s_requireGroups sc)) \<and>
     access_token_for e now s s' (rt_userId entry) (rt_clientId entry) (rt_resource entry)
       scopes (gr_releasedClaims g) (ts_access_token t) (ts_expires_in t) \<and>
     ts_refresh_token t = Some (r_token rnd) \<and> ts_scope t = join '' '' scopes \<and>
     refreshTokens s' =
       mark_rotated (rt_tokenHash entry) (e_sha256 e (r_token rnd)) (refreshTokens s) @
       [entry\<lparr>rt_tokenHash := e_sha256 e (r_token rnd), rt_scopes := scopes,
              rt_rotatedTo := None, rt_revokedAt := None\<rparr>] \<and>
     authCodes s' = authCodes s \<and> deviceCodes s' = deviceCodes s \<and> grants s' = grants s"
proof -
  obtain s2 v where cc: "refresh_checks e pv now rnd body s = (s2, v)" by fastforce
  with assms refresh_checks_not_ok [of e pv now rnd body s s2] obtain c where v: "v = Inr c"
    and com: "refresh_commit e now rnd c s2 = (s', Token_ok t)"
    by (auto simp: handleRefreshTokenGrant_def split: sum.splits)
  let ?en = "rc_entry c"
  from refresh_checks_Inr [OF cc [unfolded v]] obtain s1 where
    a: "refresh_authenticated e pv now rnd body ?en s1 = (s2, Inr c)"
    and f1: "flow_rows s1 = flow_rows s" and acc: "refresh_accepted e now body ?en s" .
  from refresh_authenticated_Inr [OF a] obtain g sr where
    g: "row_of gr_id (rt_grantId ?en) (grants s1) = Some g"
    and re: "recheckUpstream e pv now (rt_userId ?en) s1 = (sr, None)"
    and scopes: "rc_scopes c = permittedScopes e sr (rt_resource ?en) (rt_userId ?en)
                   (refreshableScopes sr (rt_resource ?en) (rt_scopes ?en))"
    and m: "mintAccessToken e now rnd
       \<lparr>mp_userId = rt_userId ?en, mp_clientId = rt_clientId ?en,
        mp_resource = rt_resource ?en, mp_scopes = accessTokenScopes (rc_scopes c),
        mp_releaseClaims = grantClaims sr (rt_resource ?en) (gr_releasedClaims g)\<rparr> sr
     = (s2, Inr (rc_minted c))" by metis
  note fr = token_rows_eqD [OF conjunct1 [OF recheck_frame [OF re]]]
  note f2 = flow_rows_eqD [OF mint_flow_rows [OF m]]
  note F1 = flow_rows_eqD [OF f1]
  from refresh_commit_ok [OF com] obtain s3 where
    ro: "rotate_token e (r_token rnd) c s2 = Some (s3, True)"
    and s': "s' = tokens_issued (rt_clientId ?en) (rt_resource ?en) s3"
    and t: "ts_access_token t = mi_token (rc_minted c)" "ts_expires_in t = mi_expiresIn (rc_minted c)"
    "ts_refresh_token t = Some (r_token rnd)" "ts_scope t = join '' '' (rc_scopes c)" by metis
  note r = rotate_token_True [OF ro]
  have fin: "signingKeys s' = signingKeys s2" "users s' = users sr"
    using r(2) s' f2 by (simp_all add: tokens_issued_def)
  have tok: "access_token_for e now s s' (rt_userId ?en) (rt_clientId ?en) (rt_resource ?en)
      (rc_scopes c) (gr_releasedClaims g) (ts_access_token t) (ts_expires_in t)"
    unfolding t by (rule minted_for [OF m]) (use F1 fr fin in simp_all)
  have up: "upstream_ok e pv now (rt_userId ?en) s"
    using recheck_upstream_ok [OF re] F1 by (simp add: upstream_ok_def)
  have sub: "set (rc_scopes c) \<subseteq> set (rt_scopes ?en)"
    unfolding scopes using permittedScopes_subset refreshableScopes_subset by fast
  have keep: "\<not> s_shortLived sc \<and> groupsSatisfy (loadUserGroups (e_claimMap e) s' (rt_userId ?en)) (s_requireGroups sc)"
    if "lookupResourceServer s (rt_resource ?en) = Some rs" "sc \<in> set (rs_scopes rs)"
      "s_name sc \<in> set (rc_scopes c)" for rs sc
    using refreshed_scope_kept [OF _ that(2) that(3) [unfolded scopes]] that(1) F1 fr fin
    by (simp add: lookupResourceServer_def loadUserGroups_def loadLastKnownClaims_def)
  show ?thesis
    using acc tok g up sub keep r(2) s' t F1 fr f2
    by (intro exI [of _ ?en] exI [of _ g] exI [of _ "rc_scopes c"]) (simp add: tokens_issued_def successor_of_def)
qed

lemma refresh_grant_sound_sample:
  "\<exists>s' t entry. handleRefreshTokenGrant sample_env sample_provider 1000 sample_rand refresh_body sample_state
       = (s', Token_ok t) \<and> refresh_accepted sample_env 1000 refresh_body entry sample_state"
  using sample_refresh_run
    refresh_grant_sound [of sample_env sample_provider 1000 sample_rand refresh_body sample_state]
  by (metis granted_iff prod.collapse)

text \<open>C3: A device code is only exchanged when the user approved it, before it expires, by the client
  it was issued to, for a registered resource, while the user is active and the grant of exactly
  this user, client and resource is unrevoked at the moment the code is claimed.  The token is for
  that user and resource, the code becomes consumed, and a refresh token hangs off that grant.\<close>

theorem device_grant_sound:
  assumes "handleDeviceCodeGrant e now rnd body s = (s', Token_ok t)"
  shows "\<exists>entry userId g. device_accepted e now body entry userId s \<and>
     row_of grant_key (userId, dv_clientId entry, dv_resource entry) (grants s) = Some g \<and>
     gr_revokedAt g = None \<and>
     access_token_for e now s s' userId (dv_clientId entry) (dv_resource entry)
       (dv_scopes entry) (gr_releasedClaims g) (ts_access_token t) (ts_expires_in t) \<and>
     deviceCodes s' = update_many (approved_device (dv_deviceCodeHash entry))
       (\<lambda>d. d\<lparr>dv_status := DS_consumed\<rparr>) (deviceCodes s) \<and>
     authCodes s' = authCodes s \<and> grants s' = grants s \<and>
     (if ''offline_access'' \<in> set (dv_scopes entry)
      then ts_refresh_token t = Some (r_token rnd) \<and>
           (\<exists>row. refreshTokens s' = refreshTokens s @ [row] \<and>
              fresh_refresh_row e now (r_token rnd) userId (dv_clientId entry)
                (dv_resource entry) (dv_scopes entry) (gr_id g) s row)
      else ts_refresh_token t = None \<and> refreshTokens s' = refreshTokens s)"
proof -
  obtain s2 v where cc: "device_checks e now rnd body s = (s2, v)" by fastforce
  with assms device_checks_not_ok [of e now rnd body s s2] obtain c where v: "v = Inr c"
    and com: "device_commit e now rnd c s2 = (s', Token_ok t)"
    by (auto simp: handleDeviceCodeGrant_def split: sum.splits)
  let ?en = "dc_entry c" and ?u = "dc_userId c"
  from device_checks_Inr [OF cc [unfolded v]] obtain s1 where
    f1: "flow_rows s1 = flow_rows s" and acc: "device_accepted e now body ?en ?u s"
    and m: "mintAccessToken e now rnd
       \<lparr>mp_userId = ?u, mp_clientId = dv_clientId ?en, mp_resource = dv_resource ?en,
        mp_scopes = accessTokenScopes (dv_scopes ?en),
        mp_releaseClaims = grantClaims s1 (dv_resource ?en)
          (case device_grant_of s1 ?u ?en of None \<Rightarrow> [] | Some g \<Rightarrow> gr_releasedClaims g)\<rparr> s1
     = (s2, Inr (dc_minted c))" .
  note F1 = flow_rows_eqD [OF f1] and F2 = flow_rows_eqD [OF mint_flow_rows [OF m]]
  from device_commit_ok [OF com] obtain s3 where
    cl: "claim_device e now (r_token rnd) c s2 = Some (s3, Tx_issued (ts_refresh_token t))"
    and s': "s' = device_outcome ''success'' (tokens_issued (dv_clientId ?en) (dv_resource ?en) s3)"
    and t: "ts_access_token t = mi_token (dc_minted c)" "ts_expires_in t = mi_expiresIn (dc_minted c)" by metis
  from claim_device_Some [OF cl] obtain g where
    g: "device_grant_of s2 ?u ?en = Some g" "gr_revokedAt g = None"
    and s3: "(ts_refresh_token t = None \<and> ''offline_access'' \<notin> set (dv_scopes ?en) \<and>
              s3 = consume_device (dv_deviceCodeHash ?en) s2) \<or>
        (\<exists>row. ts_refresh_token t = Some (r_token rnd) \<and> ''offline_access'' \<in> set (dv_scopes ?en) \<and>
           s3 = (consume_device (dv_deviceCodeHash ?en) s2)\<lparr>refreshTokens := refreshTokens s2 @ [row]\<rparr> \<and>
           fresh_refresh_row e now (r_token rnd) ?u (dv_clientId ?en) (dv_resource ?en) (dv_scopes ?en)
             (gr_id g) (consume_device (dv_deviceCodeHash ?en) s2) row)"
    by (auto simp: Let_def)
  have fin: "signingKeys s' = signingKeys s2" "authCodes s' = authCodes s2" "grants s' = grants s2"
    "deviceCodes s' = deviceCodes (consume_device (dv_deviceCodeHash ?en) s2)"
    "refreshTokens s' = refreshTokens s3"
    using s3 s' by (auto simp: tokens_issued_def device_outcome_def consume_device_def)
  have g1: "device_grant_of s1 ?u ?en = Some g"
    using g F1 F2 by (simp add: device_grant_of_def)
  have tok: "access_token_for e now s s' ?u (dv_clientId ?en) (dv_resource ?en) (dv_scopes ?en)
      (gr_releasedClaims g) (ts_access_token t) (ts_expires_in t)"
    unfolding t by (rule minted_for [OF m [unfolded g1 option.case]]) (use F1 fin in simp_all)
  have reg: "fresh_refresh_row e now tk u cl r sc gi (consume_device h s2) row =
      fresh_refresh_row e now tk u cl r sc gi s row" for tk u cl r sc gi h row
    using F1 F2 by (simp add: fresh_refresh_row_def consume_device_def refreshableScopes_def
        lookupResourceServer_def)
  show ?thesis
    using acc tok g s3 fin F1 F2 reg
    by (intro exI [of _ ?en] exI [of _ ?u] exI [of _ g])
      (auto simp: consume_device_def device_grant_of_def)
qed

lemma device_grant_sound_sample:
  "\<exists>s' t entry u. handleDeviceCodeGrant sample_env 1000 sample_rand device_body sample_state
       = (s', Token_ok t) \<and> device_accepted sample_env 1000 device_body entry u sample_state"
  using sample_device_run
    device_grant_sound [of sample_env 1000 sample_rand device_body sample_state]
  by (metis granted_iff prod.collapse)

section \<open>Refused requests\<close>

text \<open>What revoking one family changes: the live refresh tokens of the grant, and no other flow row.\<close>

definition family_revoked :: "time_ms \<Rightarrow> string \<Rightarrow> 'a registry_state_scheme \<Rightarrow> 'a registry_state_scheme \<Rightarrow> bool" where
  "family_revoked now g s s' \<longleftrightarrow>
     users s' = users s \<and> localUsers s' = localUsers s \<and> authRequests s' = authRequests s \<and>
     authCodes s' = authCodes s \<and> deviceCodes s' = deviceCodes s \<and> grants s' = grants s \<and>
     registry s' = registry s \<and>
     refreshTokens s' = update_many (live_token g) (revoke_token now) (refreshTokens s)"

lemma family_revoked_revoke [simp]: "family_revoked now g s (revokeDescendantRefreshTokens now g k s)"
  by (simp add: family_revoked_def)




text \<open>C5: Presenting a used code together with its secrets (verifier, client authentication, redirect
  URI) is answered "already used" and leaves no live refresh token of the code's grant.\<close>

theorem code_replay_revokes_family:
  assumes "replay_proven e body entry s" and "now \<le> ac_expiresAt entry"
    and "ac_codeChallengeMethod entry = ''S256''"
    and "snd (check_client e now (ac_clientId entry) body s) = None"
    and "ac_redirectUri entry \<noteq> []" and "ac_clientId entry \<noteq> []"
    and "stringField body ''code'' \<noteq> Some []"
    and "handleAuthorizationCodeGrant e now rnd body s = (s', r)"
  shows "r = code_used \<and> (\<forall>t \<in> set (refreshTokens s'). \<not> live_token (ac_grantId entry) t)"
proof -
  from assms(1) obtain p v where body: "stringField body ''code'' = Some p"
    "row_of ac_codeHash (e_sha256 e p) (authCodes s) = Some entry"
    "stringField body ''code_verifier'' = Some v" "valid_code_verifier v"
    "e_sha256_b64url e v = ac_codeChallenge entry"
    "stringField body ''client_id'' = Some (ac_clientId entry)"
    "stringField body ''redirect_uri'' = Some (ac_redirectUri entry)" "ac_consumedAt entry \<noteq> None"
    by (auto simp: replay_proven_def)
  from body assms(7) have "p \<noteq> []" by auto
  have pk: "pkce_problem e entry (truthy (stringField body ''code_verifier'')) = None"
    using body assms(3) by (auto simp: pkce_None)
  obtain s1 where c: "check_client e now (ac_clientId entry) body s = (s1, None)"
    using assms(4) by (cases "check_client e now (ac_clientId entry) body s") simp
  have "code_checks e now rnd body s =
      (revokeDescendantRefreshTokens now (ac_grantId entry) ''code_replay'' s1, Inl code_used)"
    using body \<open>p \<noteq> []\<close> assms(2,5,6) pk c
    by (auto simp: code_checks_def code_presented_def code_authenticated_def Let_def)
  with assms(8) have "s' = revokeDescendantRefreshTokens now (ac_grantId entry) ''code_replay'' s1" "r = code_used"
    by (simp_all add: handleAuthorizationCodeGrant_def)
  then show ?thesis using revoked_family by auto
qed

definition used_state :: upstream_state where
  "used_state = fst (handleAuthorizationCodeGrant sample_env 1000 sample_rand code_body sample_state)"

lemma code_replay_revokes_family_sample:
  "list_ex (live_token ''g1'') (refreshTokens used_state) \<and>
   snd (handleAuthorizationCodeGrant sample_env 2000 sample_rand code_body used_state) = code_used \<and>
   list_all (\<lambda>t. \<not> live_token ''g1'' t)
     (refreshTokens (fst (handleAuthorizationCodeGrant sample_env 2000 sample_rand code_body used_state)))"
proof -
  let ?entry = "sample_code\<lparr>ac_consumedAt := Some 1000\<rparr>"
  have live: "list_ex (live_token ''g1'') (refreshTokens used_state)" by code_simp
  have c: "snd (check_client sample_env 2000 (ac_clientId ?entry) code_body used_state) = None" by code_simp
  have row: "row_of ac_codeHash (e_sha256 sample_env ''code'') (authCodes used_state) = Some ?entry" by code_simp
  have v: "valid_code_verifier sample_verifier" by code_simp
  have fields: "stringField code_body ''code'' = Some ''code''"
    "stringField code_body ''code_verifier'' = Some sample_verifier"
    "stringField code_body ''client_id'' = Some (ac_clientId ?entry)"
    "stringField code_body ''redirect_uri'' = Some (ac_redirectUri ?entry)"
    "e_sha256_b64url sample_env sample_verifier = ac_codeChallenge ?entry" by code_simp+
  have rp: "replay_proven sample_env code_body ?entry used_state"
    using row v fields by (auto simp: replay_proven_def)
  have g: "ac_grantId ?entry = ''g1''" by (simp add: sample_code_def)
  have m: "2000 \<le> ac_expiresAt ?entry" "ac_codeChallengeMethod ?entry = ''S256''"
    "ac_redirectUri ?entry \<noteq> []" "ac_clientId ?entry \<noteq> []" "stringField code_body ''code'' \<noteq> Some []"
    using fields by (simp_all add: sample_code_def)
  note main = code_replay_revokes_family [OF rp m(1,2) c m(3,4,5) prod.collapse [symmetric], unfolded g]
  from live main [of sample_rand] show ?thesis unfolding list_all_iff by blast
qed

section \<open>Refresh token families\<close>

lemma granted_refresh_live:
  assumes "granted (snd (handleRefreshTokenGrant e pv now rnd body s))"
    and "stringField body ''refresh_token'' = Some p"
    and "row_of rt_tokenHash (e_sha256 e p) (refreshTokens s) = Some t"
  shows "live_token (rt_grantId t) t"
proof -
  obtain s1 v where cc: "refresh_checks e pv now rnd body s = (s1, v)" by fastforce
  with assms(1) refresh_checks_not_ok [of e pv now rnd body s s1] obtain c where v: "v = Inr c"
    by (cases v) (auto simp: handleRefreshTokenGrant_def granted_iff)
  from refresh_checks_Inr [OF cc [unfolded v]] have "refresh_accepted e now body (rc_entry c) s" by blast
  with assms(2,3) have "rc_entry c = t" "rt_revokedAt (rc_entry c) = None"
    by (auto simp: refresh_accepted_def)
  then show ?thesis by (simp add: live_token_def)
qed

lemma revoked_tokens_rejected:
  assumes "\<forall>t \<in> set (refreshTokens s). \<not> live_token g t"
    and "stringField body ''refresh_token'' = Some p"
    and "row_of rt_tokenHash (e_sha256 e p) (refreshTokens s) = Some t" and "rt_grantId t = g"
  shows "\<not> granted (snd (handleRefreshTokenGrant e pv now rnd body s))"
  using granted_refresh_live [OF _ assms(2,3)] row_of_SomeD(1) [OF assms(3)] assms(1,4) by blast

text \<open>C6: Presenting a refresh token that has been rotated, by the client it belongs to, revokes every
  refresh token of its grant: the request is refused, and so is any later request that presents any
  token of that grant stored at that moment, the newest one included.\<close>

theorem refresh_reuse_kills_family:
  assumes "stringField body ''refresh_token'' = Some p" and "p \<noteq> []"
    and "row_of rt_tokenHash (e_sha256 e p) (refreshTokens s) = Some entry"
    and "rt_rotatedTo entry \<noteq> None"
    and "stringField body ''client_id'' = Some (rt_clientId entry)" and "rt_clientId entry \<noteq> []"
    and "snd (check_client e now (rt_clientId entry) body s) = None"
    and "handleRefreshTokenGrant e pv now rnd body s = (s', r)"
  shows "r = refresh_used \<and>
     (\<forall>pv2 now2 rnd2 body2 p2 t. stringField body2 ''refresh_token'' = Some p2 \<longrightarrow>
        row_of rt_tokenHash (e_sha256 e p2) (refreshTokens s') = Some t \<longrightarrow>
        rt_grantId t = rt_grantId entry \<longrightarrow>
        \<not> granted (snd (handleRefreshTokenGrant e pv2 now2 rnd2 body2 s')))"
proof -
  obtain s1 where c: "check_client e now (rt_clientId entry) body s = (s1, None)"
    using assms(7) by (cases "check_client e now (rt_clientId entry) body s") simp
  have "refresh_checks e pv now rnd body s =
      (revokeDescendantRefreshTokens now (rt_grantId entry) ''refresh_reuse'' s1, Inl refresh_used)"
    using assms(1-6) c by (simp add: refresh_checks_def refresh_authenticated_def)
  with assms(8) have eq: "s' = revokeDescendantRefreshTokens now (rt_grantId entry) ''refresh_reuse'' s1"
    and r: "r = refresh_used"
    by (simp_all add: handleRefreshTokenGrant_def)
  have "\<forall>t \<in> set (refreshTokens s'). \<not> live_token (rt_grantId entry) t"
    unfolding eq using revoked_family by auto
  with r show ?thesis using revoked_tokens_rejected by blast
qed

definition rotated_state :: upstream_state where
  "rotated_state = fst (handleRefreshTokenGrant sample_env sample_provider 1000 sample_rand refresh_body sample_state)"

definition next_body :: body where
  "next_body = [(''refresh_token'', JStr ''new''), (''client_id'', JStr ''https://a.example/c'')]"

lemma refresh_reuse_kills_family_sample:
  "granted (snd (handleRefreshTokenGrant sample_env sample_provider 3000 (sample_rand\<lparr>r_token := ''n2''\<rparr>) next_body rotated_state)) \<and>
   \<not> granted (snd (handleRefreshTokenGrant sample_env sample_provider 3000 (sample_rand\<lparr>r_token := ''n2''\<rparr>) next_body
      (fst (handleRefreshTokenGrant sample_env sample_provider 2000 sample_rand refresh_body rotated_state))))"
proof
  show "granted (snd (handleRefreshTokenGrant sample_env sample_provider 3000 (sample_rand\<lparr>r_token := ''n2''\<rparr>) next_body rotated_state))"
    by code_simp
next
  let ?entry = "sample_refresh\<lparr>rt_rotatedTo := Some ''hnew''\<rparr>"
  have row: "row_of rt_tokenHash (e_sha256 sample_env ''rt'') (refreshTokens rotated_state) = Some ?entry" by code_simp
  have c: "snd (check_client sample_env 2000 (rt_clientId ?entry) refresh_body rotated_state) = None" by code_simp
  have f: "stringField refresh_body ''refresh_token'' = Some ''rt''"
    "stringField refresh_body ''client_id'' = Some (rt_clientId ?entry)"
    "stringField next_body ''refresh_token'' = Some ''new''" by code_simp+
  let ?s = "fst (handleRefreshTokenGrant sample_env sample_provider 2000 sample_rand refresh_body rotated_state)"
  have new: "\<exists>t. row_of rt_tokenHash (e_sha256 sample_env ''new'') (refreshTokens ?s) = Some t \<and>
      rt_grantId t = rt_grantId ?entry"
    by (rule exI [of _ "sample_refresh\<lparr>rt_tokenHash := ''hnew'', rt_revokedAt := Some 2000\<rparr>"]) code_simp
  have m: "(''rt'' :: string) \<noteq> []" "rt_rotatedTo ?entry \<noteq> None" "rt_clientId ?entry \<noteq> []"
    by (simp_all add: sample_refresh_def)
  from refresh_reuse_kills_family [OF f(1) m(1) row m(2) f(2) m(3) c prod.collapse [symmetric]] new f(3)
  show "\<not> granted (snd (handleRefreshTokenGrant sample_env sample_provider 3000 (sample_rand\<lparr>r_token := ''n2''\<rparr>) next_body ?s))"
    by blast
qed

text \<open>C7: A refused refresh changes no grant, no code, no authorization request, no local account and no
  user identity; refresh tokens change only when the presented one was already rotated and its own
  client authenticated, and then exactly the live ones of its grant are revoked.\<close>

theorem refresh_refusal_effects:
  assumes "handleRefreshTokenGrant e pv now rnd body s = (s', r)" and "\<not> granted r"
  shows "grants s' = grants s \<and> authCodes s' = authCodes s \<and> deviceCodes s' = deviceCodes s \<and>
     authRequests s' = authRequests s \<and> localUsers s' = localUsers s \<and> user_keys s' = user_keys s \<and>
     (refreshTokens s' = refreshTokens s \<or>
      (\<exists>p entry. stringField body ''refresh_token'' = Some p \<and>
         row_of rt_tokenHash (e_sha256 e p) (refreshTokens s) = Some entry \<and> rt_rotatedTo entry \<noteq> None \<and>
         stringField body ''client_id'' = Some (rt_clientId entry) \<and>
         client_proven e now (rt_clientId entry) body s \<and> r = refresh_used \<and>
         refreshTokens s' = update_many (live_token (rt_grantId entry)) (revoke_token now) (refreshTokens s)))"
proof -
  have no: "\<forall>t. r \<noteq> Token_ok t" using assms(2) by (auto simp: granted_iff)
  obtain s1 v where cc: "refresh_checks e pv now rnd body s = (s1, v)" by fastforce
  show ?thesis
  proof (cases v)
    case (Inl r')
    with cc assms(1) have eq: "s' = s1" "r = r'" by (simp_all add: handleRefreshTokenGrant_def)
    from refresh_checks_cases [OF cc] Inl consider
        "flow_rows s1 = flow_rows s"
      | p entry s2 where "stringField body ''refresh_token'' = Some p"
          "row_of rt_tokenHash (e_sha256 e p) (refreshTokens s) = Some entry"
          "stringField body ''client_id'' = Some (rt_clientId entry)"
          "flow_rows s2 = flow_rows s" "refresh_authenticated e pv now rnd body entry s2 = (s1, Inl r')"
          "client_proven e now (rt_clientId entry) body s"
      using check_client_flow_rows check_client_proven by blast
    then show ?thesis
    proof cases
      case 1
      with eq show ?thesis by (auto dest: flow_rows_eqD simp: user_keys_def)
    next
      case 2
      note f = flow_rows_eqD [OF 2(4)]
      from refresh_authenticated_Inl [OF 2(5)] eq 2 f show ?thesis
        by (auto simp: user_keys_def dest: token_rows_eqD split: if_splits)
    qed
  next
    case (Inr c)
    with cc assms(1) have com: "refresh_commit e now rnd c s1 = (s', r)"
      by (simp add: handleRefreshTokenGrant_def)
    from refresh_checks_Inr [OF cc [unfolded Inr]] obtain s2 where
      a: "refresh_authenticated e pv now rnd body (rc_entry c) s2 = (s1, Inr c)"
      and f2: "flow_rows s2 = flow_rows s" and acc: "refresh_accepted e now body (rc_entry c) s" .
    obtain g :: grant and sr where re:
      "recheckUpstream e pv now (rt_userId (rc_entry c)) s2 = (sr, None)"
      and mi: "mintAccessToken e now rnd
       \<lparr>mp_userId = rt_userId (rc_entry c), mp_clientId = rt_clientId (rc_entry c),
        mp_resource = rt_resource (rc_entry c), mp_scopes = accessTokenScopes (rc_scopes c),
        mp_releaseClaims = grantClaims sr (rt_resource (rc_entry c)) (gr_releasedClaims g)\<rparr> sr
     = (s1, Inr (rc_minted c))"
      by (rule refresh_authenticated_Inr [OF a]) (rule that)
    have f1: "token_rows s1 = token_rows s" "user_keys s1 = user_keys s"
      using recheck_frame [OF re] flow_rows_token_rows [OF f2] flow_rows_token_rows [OF mint_flow_rows [OF mi]]
      by simp_all
    note F = token_rows_eqD [OF f1(1)]
    have "rc_entry c \<in> set (refreshTokens s1)" "rotatable (rt_tokenHash (rc_entry c)) (rc_entry c)"
      using acc F by (auto simp: refresh_accepted_def rotatable_def dest: row_of_SomeD)
    with refresh_commit_not_ok [OF com no] have "s' = s1" by blast
    with F f1 show ?thesis by simp
  qed
qed

lemma refresh_refusal_effects_sample:
  "grants (fst (handleRefreshTokenGrant sample_env sample_provider 2000000 sample_rand refresh_body sample_state)) =
     grants sample_state"
proof -
  have ng: "\<not> granted (snd (handleRefreshTokenGrant sample_env sample_provider 2000000 sample_rand refresh_body sample_state))"
    by code_simp
  from refresh_refusal_effects [OF prod.collapse [symmetric] ng] show ?thesis by blast
qed

section \<open>Polling\<close>

text \<open>A poll of a device code never changes who approved it and never makes it redeemable: a pending
  code is answered slow_down (raising its interval by five seconds) exactly when the previous poll
  was less than the current interval ago, else authorization_pending; either way only its poll
  fields change, so the code stays pending.\<close>

theorem device_poll_pending:
  assumes "stringField body ''device_code'' = Some p" and "p \<noteq> []"
    and "row_of dv_deviceCodeHash (e_sha256 e p) (deviceCodes s) = Some entry"
    and "dv_status entry = DS_pending" and "now \<le> dv_expiresAt entry"
    and "stringField body ''client_id'' = Some (dv_clientId entry)" and "dv_clientId entry \<noteq> []"
    and "\<not> resource_differs body (dv_resource entry)"
  shows "let (s', r) = handleDeviceCodeGrant e now rnd body s;
             fast = (\<exists>t. dv_lastPolledAt entry = Some t \<and> now - t < dv_pollInterval entry * 1000) in
     r = Token_error 400 (if fast then ''slow_down'' else ''authorization_pending'') No_description \<and>
     row_of dv_deviceCodeHash (e_sha256 e p) (deviceCodes s') =
       Some (entry\<lparr>dv_lastPolledAt := Some now,
                    dv_pollInterval := dv_pollInterval entry + (if fast then 5 else 0)\<rparr>) \<and>
     (\<forall>h. h \<noteq> e_sha256 e p \<longrightarrow>
        row_of dv_deviceCodeHash h (deviceCodes s') = row_of dv_deviceCodeHash h (deviceCodes s)) \<and>
     refreshTokens s' = refreshTokens s \<and> grants s' = grants s"
proof -
  have h: "dv_deviceCodeHash entry = e_sha256 e p" using assms(3) by (rule row_of_SomeD)
  have chk: "device_checks e now rnd body s = (case poll_pending now entry s of (s', r) \<Rightarrow> (s', Inl r))"
    using assms h by (simp add: device_checks_def Let_def)
  have other: "row_of dv_deviceCodeHash k (update_many (\<lambda>d. dv_deviceCodeHash d = e_sha256 e p) f ds) =
      row_of dv_deviceCodeHash k ds"
    if "k \<noteq> e_sha256 e p" "\<And>d. dv_deviceCodeHash (f d) = dv_deviceCodeHash d" for k f ds
    using that by (intro rows.look_upd_other) auto
  have hit: "row_of dv_deviceCodeHash (e_sha256 e p) (update_many (\<lambda>d. dv_deviceCodeHash d = e_sha256 e p) f (deviceCodes s)) =
      Some (f entry)" if "\<And>d. dv_deviceCodeHash (f d) = dv_deviceCodeHash d" for f
    using that assms(3) h by (simp add: row_of_update_many)
  show ?thesis
    using chk
    by (cases "dv_lastPolledAt entry")
      (auto simp: handleDeviceCodeGrant_def poll_pending_def update_device_def h hit other Let_def)
qed

lemma device_poll_pending_sample:
  "let s = sample_state\<lparr>deviceCodes := [sample_device\<lparr>dv_status := DS_pending, dv_lastPolledAt := Some 100\<rparr>]\<rparr> in
   snd (handleDeviceCodeGrant sample_env 2000 sample_rand device_body s) = Token_error 400 ''slow_down'' No_description"
proof -
  let ?s = "sample_state\<lparr>deviceCodes := [sample_device\<lparr>dv_status := DS_pending, dv_lastPolledAt := Some 100\<rparr>]\<rparr>"
  let ?entry = "sample_device\<lparr>dv_status := DS_pending, dv_lastPolledAt := Some 100\<rparr>"
  have f: "stringField device_body ''device_code'' = Some ''dev''"
    "row_of dv_deviceCodeHash (e_sha256 sample_env ''dev'') (deviceCodes ?s) = Some ?entry"
    "stringField device_body ''client_id'' = Some (dv_clientId ?entry)"
    "\<not> resource_differs device_body (dv_resource ?entry)" by code_simp+
  have m: "(''dev'' :: string) \<noteq> []" "dv_status ?entry = DS_pending" "2000 \<le> dv_expiresAt ?entry"
    "dv_clientId ?entry \<noteq> []" "dv_lastPolledAt ?entry = Some 100" "dv_pollInterval ?entry = 5"
    by (simp_all add: sample_device_def)
  from device_poll_pending [OF f(1) m(1) f(2) m(2,3) f(3) m(4) f(4), of sample_rand] m(5,6)
  show ?thesis by (simp add: Let_def split: prod.splits)
qed

end
