(* ===== verification/Session.thy ===== *)
theory Session
  imports Upstream
begin

text \<open>
  \<^verbatim>\<open>cookies.ts\<close>, \<^verbatim>\<open>identity/session.ts\<close>, \<^verbatim>\<open>identity/csrf.ts\<close>, \<^verbatim>\<open>identity/flow-binding.ts\<close> and
  \<^verbatim>\<open>identity/self-login.ts\<close>: the signed cookies a browser carries and what they prove.  A request
  holds the cookies whose signature cookie-parser verified, under their wire names; a response is
  the list of cookies set or cleared.
\<close>

section \<open>Requests and cookies\<close>

record request =
  q_body :: "json option"
  q_query :: "(string, json) jsmap"
  q_signed :: "(string, string) jsmap"
  q_ip :: "string option"

datatype same_site = Lax | Strict

record cookie =
  ck_name :: string
  ck_value :: string
  ck_sameSite :: same_site
  ck_maxAge :: int
  ck_secure :: bool
  ck_path :: string

datatype cookie_op = Set_cookie cookie | Clear_cookie string bool string

definition isHttps :: "env \<Rightarrow> bool" where
  "isHttps e = starts_with ''https:'' (e_issuerUrl e)"

definition cookieName :: "env \<Rightarrow> string \<Rightarrow> string" where
  "cookieName e base = (if isHttps e then ''__Host-'' @ base else base)"

definition setSignedCookie :: "env \<Rightarrow> string \<Rightarrow> string \<Rightarrow> same_site \<Rightarrow> int \<Rightarrow> cookie_op" where
  "setSignedCookie e base v site maxAge =
     Set_cookie \<lparr>ck_name = cookieName e base, ck_value = v, ck_sameSite = site, ck_maxAge = maxAge,
                 ck_secure = isHttps e, ck_path = ''/''\<rparr>"

definition readSignedCookie :: "env \<Rightarrow> request \<Rightarrow> string \<Rightarrow> string option" where
  "readSignedCookie e rq base = jm_get (q_signed rq) (cookieName e base)"

definition clearSignedCookie :: "env \<Rightarrow> string \<Rightarrow> cookie_op" where
  "clearSignedCookie e base = Clear_cookie (cookieName e base) (isHttps e) ''/''"

text \<open>What the browser holds after a response (the signature added and checked by cookie-parser).\<close>

fun apply_cookie :: "cookie_op \<Rightarrow> (string, string) jsmap \<Rightarrow> (string, string) jsmap" where
  "apply_cookie (Set_cookie c) jar = AList.update (ck_name c) (ck_value c) jar"
| "apply_cookie (Clear_cookie n _ _) jar = AList.delete n jar"

section \<open>Sessions\<close>

definition SESSION_TTL_MS :: int where "SESSION_TTL_MS = 7 * 24 * 60 * 60 * 1000"
definition FRESH_LOGIN_MAX_AGE_S :: int where "FRESH_LOGIN_MAX_AGE_S = 10 * 60"
definition REAUTH_MAX_AGE_MS :: int where "REAUTH_MAX_AGE_MS = FRESH_LOGIN_MAX_AGE_S * 1000"

definition session_value :: "string \<Rightarrow> nat \<Rightarrow> time_ms \<Rightarrow> string" where
  "session_value userId epoch now = userId @ ''.'' @ show_nat epoch @ ''.'' @ show_nat (nat now)"

definition setSession :: "env \<Rightarrow> time_ms \<Rightarrow> string \<Rightarrow> nat \<Rightarrow> cookie_op" where
  "setSession e now userId epoch =
     setSignedCookie e ''session'' (session_value userId epoch now) Lax SESSION_TTL_MS"

text \<open>\<^const>\<open>None\<close> when the user does not exist (findUniqueOrThrow).\<close>

definition startSession :: "env \<Rightarrow> time_ms \<Rightarrow> string \<Rightarrow> 'a db_scheme \<Rightarrow> cookie_op option" where
  "startSession e now userId s =
     map_option (\<lambda>u. setSession e now userId (u_sessionEpoch u)) (row_of u_id userId (users s))"

definition revokeSessions :: "string \<Rightarrow> 'a db_scheme \<Rightarrow> 'a db_scheme" where
  "revokeSessions userId s =
     s\<lparr>users := update_many (\<lambda>u. u_id u = userId)
        (\<lambda>u. u\<lparr>u_sessionEpoch := Suc (u_sessionEpoch u)\<rparr>) (users s)\<rparr>"

definition clearSession :: "env \<Rightarrow> cookie_op list" where
  "clearSession e = [clearSignedCookie e ''session'', clearSignedCookie e ''reauth'']"

definition markReauthenticated :: "env \<Rightarrow> time_ms \<Rightarrow> string \<Rightarrow> cookie_op" where
  "markReauthenticated e now userId =
     setSignedCookie e ''reauth'' (userId @ ''.'' @ show_nat (nat now)) Lax REAUTH_MAX_AGE_MS"

text \<open>\<^verbatim>\<open>/^\d{1,k}$/\<close>\<close>

definition digits_upto :: "nat \<Rightarrow> string \<Rightarrow> bool" where
  "digits_upto k s \<longleftrightarrow> all_digits s \<and> length s \<le> k"

definition reauthenticatedAt :: "env \<Rightarrow> time_ms \<Rightarrow> request \<Rightarrow> string \<Rightarrow> time_ms option" where
  "reauthenticatedAt e now rq userId =
     (case readSignedCookie e rq ''reauth'' of
        None \<Rightarrow> None
      | Some v \<Rightarrow>
          (case cut_last CHR ''.'' v of
             None \<Rightarrow> None
           | Some (who, stamp) \<Rightarrow>
               if who = [] \<or> who \<noteq> userId then None
               else if \<not> digits_upto 15 stamp then None
               else if now < int (number_of stamp) then None
               else Some (int (number_of stamp))))"

text \<open>The reading of the session cookie's value: user, epoch, time of issue.\<close>

definition parse_session :: "string \<Rightarrow> (string \<times> nat \<times> time_ms) option" where
  "parse_session v =
     (case cut_last CHR ''.'' v of
        None \<Rightarrow> None
      | Some (rest, issued) \<Rightarrow>
          if rest = [] then None
          else (case cut_last CHR ''.'' rest of
            None \<Rightarrow> None
          | Some (userId, epoch) \<Rightarrow>
              if userId = [] then None
              else if \<not> digits_upto 9 epoch then None
              else if \<not> digits_upto 15 issued then None
              else Some (userId, number_of epoch, int (number_of issued))))"

definition session_user_ok :: "'a db_scheme \<Rightarrow> string \<Rightarrow> nat \<Rightarrow> bool" where
  "session_user_ok s userId epoch \<longleftrightarrow>
     (\<exists>u \<in> set (users s). u_id u = userId \<and> u_sessionEpoch u = epoch \<and> u_deactivatedAt u = None \<and>
        (case row_of lu_userId userId (localUsers s) of
           None \<Rightarrow> True | Some l \<Rightarrow> lu_isActive l))"

definition getSession :: "env \<Rightarrow> time_ms \<Rightarrow> request \<Rightarrow> 'a db_scheme \<Rightarrow> (string \<times> time_ms) option" where
  "getSession e now rq s =
     (case readSignedCookie e rq ''session'' of
        None \<Rightarrow> None
      | Some v \<Rightarrow>
          (case parse_session v of
             None \<Rightarrow> None
           | Some (userId, epoch, issued) \<Rightarrow>
               if now - issued < 0 \<or> SESSION_TTL_MS < now - issued then None
               else if session_user_ok s userId epoch then Some (userId, issued) else None))"

definition getSessionUserId :: "env \<Rightarrow> time_ms \<Rightarrow> request \<Rightarrow> 'a db_scheme \<Rightarrow> string option" where
  "getSessionUserId e now rq s = map_option fst (getSession e now rq s)"

section \<open>CSRF tokens\<close>

definition CSRF_COOKIE_TTL_MS :: int where "CSRF_COOKIE_TTL_MS = 30 * 60 * 1000"

text \<open>\<open>nonce\<close> is the fresh random token, as \<^verbatim>\<open>generateCsrfToken\<close> draws one.\<close>

definition issueCsrfToken :: "env \<Rightarrow> string \<Rightarrow> string \<Rightarrow> string \<times> cookie_op" where
  "issueCsrfToken e name nonce = (nonce, setSignedCookie e name nonce Strict CSRF_COOKIE_TTL_MS)"

definition csrf_field :: "request \<Rightarrow> string" where
  "csrf_field rq = (case stringField (bodyOf (q_body rq)) ''csrf_token'' of Some t \<Rightarrow> t | None \<Rightarrow> [])"

definition verifyCsrfToken :: "env \<Rightarrow> request \<Rightarrow> string \<Rightarrow> bool" where
  "verifyCsrfToken e rq name \<longleftrightarrow>
     (case truthy (readSignedCookie e rq name) of None \<Rightarrow> False | Some c \<Rightarrow> c = csrf_field rq)"

definition is_nonce :: "string \<Rightarrow> bool" where
  "is_nonce n \<longleftrightarrow> length n = 64 \<and> (\<forall>c \<in> set n. is_lower_hex c)"

text \<open>Length-prefixed fields.\<close>

definition csrf_data :: "string list \<Rightarrow> string" where
  "csrf_data fs = join ''|'' (map (\<lambda>f. show_nat (length f) @ '':'' @ f) fs)"

definition boundToken :: "env \<Rightarrow> string \<Rightarrow> string \<Rightarrow> string \<Rightarrow> string" where
  "boundToken e purpose userId nonce =
     e_hmac e (''asterism-csrf-v1|'' @ csrf_data [purpose, userId, nonce])"

definition issueBoundCsrfToken ::
    "env \<Rightarrow> request \<Rightarrow> string \<Rightarrow> string \<Rightarrow> string \<Rightarrow> string \<Rightarrow> string \<times> cookie_op" where
  "issueBoundCsrfToken e rq name purpose userId fresh =
     (let nonce = (case readSignedCookie e rq name of
                     Some n \<Rightarrow> if is_nonce n then n else fresh | None \<Rightarrow> fresh) in
      (boundToken e purpose userId nonce, setSignedCookie e name nonce Strict CSRF_COOKIE_TTL_MS))"

definition verifyBoundCsrfToken :: "env \<Rightarrow> request \<Rightarrow> string \<Rightarrow> string \<Rightarrow> string \<Rightarrow> bool" where
  "verifyBoundCsrfToken e rq name purpose userId \<longleftrightarrow>
     (case readSignedCookie e rq name of
        None \<Rightarrow> False
      | Some n \<Rightarrow> is_nonce n \<and> boundToken e purpose userId n = csrf_field rq)"

section \<open>Flow binding\<close>

definition FLOW_BINDING_TTL_MS :: int where "FLOW_BINDING_TTL_MS = 10 * 60 * 1000"
definition MAX_BOUND_FLOWS :: nat where "MAX_BOUND_FLOWS = 8"

definition hashHandle :: "env \<Rightarrow> string \<Rightarrow> string" where
  "hashHandle e handle = take 32 (e_sha256 e handle)"

definition is_flow_hash :: "string \<Rightarrow> bool" where
  "is_flow_hash h \<longleftrightarrow> length h = 32 \<and> (\<forall>c \<in> set h. is_lower_hex c)"

definition boundHashes :: "env \<Rightarrow> request \<Rightarrow> string list" where
  "boundHashes e rq =
     (case truthy (readSignedCookie e rq ''flow_binding'') of
        None \<Rightarrow> []
      | Some v \<Rightarrow> filter is_flow_hash (split_on CHR '','' v))"

definition bindFlow :: "env \<Rightarrow> request \<Rightarrow> string \<Rightarrow> cookie_op" where
  "bindFlow e rq handle =
     (let hashes = filter (\<lambda>h. h \<noteq> hashHandle e handle) (boundHashes e rq) @ [hashHandle e handle] in
      setSignedCookie e ''flow_binding''
        (join '','' (drop (length hashes - MAX_BOUND_FLOWS) hashes)) Lax FLOW_BINDING_TTL_MS)"

definition isFlowBound :: "env \<Rightarrow> request \<Rightarrow> string \<Rightarrow> bool" where
  "isFlowBound e rq handle \<longleftrightarrow> hashHandle e handle \<in> set (boundHashes e rq)"

section \<open>Self-login\<close>

definition SELF_LOGIN_TTL_MS :: int where "SELF_LOGIN_TTL_MS = 10 * 60 * 1000"

definition isSelfLogin :: "auth_request \<Rightarrow> bool" where
  "isSelfLogin r \<longleftrightarrow> ar_flowType r = FT_self_login"

definition self_login_row :: "time_ms \<Rightarrow> string \<Rightarrow> string \<Rightarrow> bool \<Rightarrow> auth_request" where
  "self_login_row now handle returnTo fresh =
     \<lparr>ar_handle = handle, ar_flowType = FT_self_login, ar_clientId = ''urn:mcp-auth:self'',
      ar_resource = ''urn:mcp-auth:self'', ar_scopes = [], ar_redirectUri = ''urn:mcp-auth:self-login'',
      ar_state = Some returnTo, ar_codeChallenge = ''self-login-no-pkce'',
      ar_codeChallengeMethod = ''S256'', ar_upstreamState = None, ar_upstreamNonce = None,
      ar_upstreamVerifier = None, ar_subject = None, ar_requireFreshLogin = fresh,
      ar_shownClaims = [], ar_expiresAt = now + SELF_LOGIN_TTL_MS\<rparr>"

text \<open>\<open>handle\<close> is the random handle; \<^const>\<open>None\<close> when it is taken.\<close>

definition createSelfLoginRequest ::
    "env \<Rightarrow> time_ms \<Rightarrow> string \<Rightarrow> string \<Rightarrow> bool \<Rightarrow> request \<Rightarrow> 'a db_scheme \<Rightarrow>
     ('a db_scheme \<times> cookie_op) option" where
  "createSelfLoginRequest e now handle returnTo fresh rq s =
     map_option (\<lambda>t. (s\<lparr>authRequests := t\<rparr>, bindFlow e rq handle))
       (create_row ar_handle (self_login_row now handle returnTo fresh) (authRequests s))"

definition selfLoginReturnPath :: "string option \<Rightarrow> string" where
  "selfLoginReturnPath state =
     (case truthy state of
        None \<Rightarrow> ''/grants''
      | Some p \<Rightarrow>
          if \<not> starts_with ''/'' p \<or> starts_with ''//'' p \<or> starts_with [CHR ''/'', CHR 0x5C] p
          then ''/grants''
          else if \<exists>c \<in> set p. code c \<le> 0x1F \<or> code c = 0x7F \<or> c = CHR 0x5C then ''/grants''
          else if includes_str ''://'' p then ''/grants''
          else p)"

section \<open>Facts\<close>

lemma digits_upto_show_nat: "0 < k \<Longrightarrow> n < 10 ^ k \<Longrightarrow> digits_upto k (show_nat n)"
  by (simp add: digits_upto_def length_show_nat)

lemma parse_session_value:
  assumes "userId \<noteq> []" and "epoch < 10 ^ 9" and "0 \<le> now" and "now < 10 ^ 15"
  shows "parse_session (session_value userId epoch now) = Some (userId, epoch, now)"
proof -
  have "nat now < 10 ^ 15" using assms(3,4) by (simp add: nat_less_iff)
  then have "digits_upto 15 (show_nat (nat now))" "digits_upto 9 (show_nat epoch)"
    using assms(2) by (simp_all add: digits_upto_show_nat)
  then show ?thesis
    using assms(1,3) cut_last_append [OF show_nat_no_dot, of "userId @ CHR ''.'' # show_nat epoch" "nat now"]
      cut_last_append [OF show_nat_no_dot, of userId epoch]
    by (simp add: parse_session_def session_value_def)
qed

lemma cookieName_inject [simp]: "cookieName e a = cookieName e b \<longleftrightarrow> a = b"
  by (simp add: cookieName_def)

lemma read_after_set:
  "readSignedCookie e (rq\<lparr>q_signed := apply_cookie (setSignedCookie e b v site age) jar\<rparr>) b = Some v"
  by (simp add: readSignedCookie_def setSignedCookie_def)

lemma getSession_SomeD:
  assumes "getSession e now rq s = Some (u, t)"
  obtains epoch where "session_user_ok s u epoch" "t \<le> now" "now - t \<le> SESSION_TTL_MS"
    "parse_session (the (readSignedCookie e rq ''session'')) = Some (u, epoch, t)"
    "readSignedCookie e rq ''session'' \<noteq> None"
  using assms by (auto simp: getSession_def split: option.splits if_splits)

text \<open>Two lists of fields with the same encoding are the same list.\<close>

lemma not_digit_colon: "\<not> is_digit CHR '':''"
  by (simp add: is_digit_def in_range_def code_def)

lemma takeWhile_digits: "takeWhile is_digit (show_nat n @ CHR '':'' # r) = show_nat n"
  by (intro takeWhile_append_if_stops)
    (use all_digits_show_nat [of n] not_digit_colon in \<open>auto simp: all_digits_def\<close>)

lemma field_inject:
  assumes "show_nat (length f) @ '':'' @ f @ r = show_nat (length g) @ '':'' @ g @ q"
  shows "f = g \<and> r = q"
proof -
  from assms have "takeWhile is_digit (show_nat (length f) @ CHR '':'' # (f @ r)) =
      takeWhile is_digit (show_nat (length g) @ CHR '':'' # (g @ q))" by simp
  then have "length f = length g" by (simp only: takeWhile_digits show_nat_inject)
  with assms show ?thesis by simp
qed

lemma csrf_data_Cons:
  "csrf_data (f # fs) =
     show_nat (length f) @ '':'' @ f @ (if fs = [] then [] else CHR ''|'' # csrf_data fs)"
  by (simp add: csrf_data_def join_Cons)

lemma csrf_data_inject: "csrf_data fs = csrf_data gs \<Longrightarrow> length fs = length gs \<Longrightarrow> fs = gs"
proof (induction fs gs rule: list_induct2')
  case (4 f fs g gs)
  from 4(2) [unfolded csrf_data_Cons] have "f = g \<and> (if fs = [] then [] else CHR ''|'' # csrf_data fs) =
      (if gs = [] then [] else CHR ''|'' # csrf_data gs)"
    by (rule field_inject)
  with 4 show ?case by (auto split: if_splits)
qed auto

lemma lower_hex_not_comma: "is_lower_hex c \<Longrightarrow> c \<noteq> CHR '',''"
  by (auto simp: is_lower_hex_def is_digit_def in_range_def code_def)

lemma flow_hash_no_comma: "is_flow_hash h \<Longrightarrow> CHR '','' \<notin> set h"
  using lower_hex_not_comma by (auto simp: is_flow_hash_def)

lemma flow_hash_not_Nil: "is_flow_hash h \<Longrightarrow> h \<noteq> []"
  by (auto simp: is_flow_hash_def)

lemma read_hashes:
  assumes "ks \<noteq> []" and "\<forall>x \<in> set ks. is_flow_hash x"
  shows "filter is_flow_hash (split_on CHR '','' (join '','' ks)) = ks" and "join '','' ks \<noteq> []"
proof -
  have "\<forall>x \<in> set ks. CHR '','' \<notin> set x" using assms flow_hash_no_comma by blast
  with assms show "filter is_flow_hash (split_on CHR '','' (join '','' ks)) = ks"
    by (simp add: split_join filter_id_conv)
  show "join '','' ks \<noteq> []" using assms flow_hash_not_Nil by (cases ks) (auto simp: join_Cons)
qed

lemma boundHashes_ok: "x \<in> set (boundHashes e rq) \<Longrightarrow> is_flow_hash x"
  by (auto simp: boundHashes_def split: option.splits)

definition bound_after :: "env \<Rightarrow> string \<Rightarrow> string list \<Rightarrow> string list" where
  "bound_after e h old =
     (let hs = filter (\<lambda>x. x \<noteq> hashHandle e h) old @ [hashHandle e h] in
      drop (length hs - MAX_BOUND_FLOWS) hs)"

lemma boundHashes_bind:
  assumes "is_flow_hash (hashHandle e h)"
  shows "boundHashes e (rq'\<lparr>q_signed := apply_cookie (bindFlow e rq h) jar\<rparr>) =
     bound_after e h (boundHashes e rq)"
proof -
  define ks where "ks = bound_after e h (boundHashes e rq)"
  have ok: "\<forall>x \<in> set ks. is_flow_hash x"
    unfolding ks_def bound_after_def Let_def
    using assms by (auto dest!: in_set_dropD boundHashes_ok)
  have ne: "ks \<noteq> []" by (simp add: ks_def bound_after_def Let_def MAX_BOUND_FLOWS_def)
  have "bindFlow e rq h = setSignedCookie e ''flow_binding'' (join '','' ks) Lax FLOW_BINDING_TTL_MS"
    by (simp add: bindFlow_def ks_def bound_after_def Let_def)
  then have "boundHashes e (rq'\<lparr>q_signed := apply_cookie (bindFlow e rq h) jar\<rparr>) = ks"
    using read_hashes [OF ne ok] by (simp add: boundHashes_def read_after_set)
  then show ?thesis by (simp add: ks_def)
qed

end
