(* ===== verification/Consent.thy ===== *)
theory Consent
  imports Session TokenEndpoint
begin

text \<open>
  \<^verbatim>\<open>oauth/consent.ts\<close>: the consent page and its submission.  A submission is split where the code
  awaits: \<open>consent_checks\<close> decides what the submission is, \<open>consent_commit\<close> is the transaction
  that consumes the request together with its effect.
\<close>

section \<open>Replies\<close>

datatype reply =
    Message nat string
  | Redirect_with string "(string \<times> string) list"
  | Redirect_path string
  | View nat string
  | Fault

definition USED_MESSAGE :: string where
  "USED_MESSAGE = ''This authorization request has already been used or has expired.''"

definition WRONG_BROWSER_MESSAGE :: string where
  "WRONG_BROWSER_MESSAGE = ''This authorization request must be completed in the browser that started it. Please start again from the application.''"

definition INVALID_MESSAGE :: string where
  "INVALID_MESSAGE = ''This authorization request is invalid or has expired.''"

definition FRESH_MESSAGE :: string where
  "FRESH_MESSAGE = ''A permission in this request now needs a fresh sign-in. Please start again from the application.''"

definition AUTH_CODE_TTL_MS :: int where "AUTH_CODE_TTL_MS = 10 * 60 * 1000"

definition consentCsrfPurpose :: "string \<Rightarrow> string" where
  "consentCsrfPurpose handle = ''consent:'' @ handle"

section \<open>The flow\<close>

text \<open>A stored request that consent may act on, with its subject.\<close>

definition loadFlow :: "time_ms \<Rightarrow> string option \<Rightarrow> 'a db_scheme \<Rightarrow> (auth_request \<times> string) option" where
  "loadFlow now handle s =
     (case truthy handle of
        None \<Rightarrow> None
      | Some h \<Rightarrow>
          (case row_of ar_handle h (authRequests s) of
             None \<Rightarrow> None
           | Some r \<Rightarrow>
               if ar_expiresAt r < now then None
               else (case truthy (ar_subject r) of
                  None \<Rightarrow> None
                | Some subject \<Rightarrow> if isSelfLogin r then None else Some (r, subject))))"

definition requireFlowBrowser :: "env \<Rightarrow> time_ms \<Rightarrow> request \<Rightarrow> auth_request \<Rightarrow> string \<Rightarrow> 'a db_scheme \<Rightarrow> bool" where
  "requireFlowBrowser e now rq r subject s \<longleftrightarrow>
     isFlowBound e rq (ar_handle r) \<and> getSessionUserId e now rq s = Some subject"

definition isDeviceFlow :: "auth_request \<Rightarrow> bool" where
  "isDeviceFlow r \<longleftrightarrow> ar_flowType r = FT_device"

definition isShortLivedScope :: "'a registry_state_scheme \<Rightarrow> string \<Rightarrow> string \<Rightarrow> bool" where
  "isShortLivedScope s resource name =
     (case lookupResourceServer s resource of
        None \<Rightarrow> False
      | Some rs \<Rightarrow> is_short_lived rs name)"

definition required_groups :: "resource_server \<Rightarrow> string \<Rightarrow> string list option" where
  "required_groups rs name = (case find_scope rs name of None \<Rightarrow> None | Some sc \<Rightarrow> s_requireGroups sc)"

definition findForbiddenScope ::
    "env \<Rightarrow> auth_request \<Rightarrow> string \<Rightarrow> resource_server \<Rightarrow> 'a db_scheme \<Rightarrow> string option" where
  "findForbiddenScope e r subject rs s =
     (let gated = filter (\<lambda>n. required_groups rs n \<noteq> None) (ar_scopes r) in
      if gated = [] then None
      else List.find (\<lambda>n. \<not> groupsSatisfy (loadUserGroups (e_claimMap e) s subject) (required_groups rs n)) gated)"

definition lacksRequiredFreshSignIn :: "auth_request \<Rightarrow> resource_server \<Rightarrow> bool" where
  "lacksRequiredFreshSignIn r rs \<longleftrightarrow> \<not> ar_requireFreshLogin r \<and> requestsFreshSignIn (Some rs) (ar_scopes r)"

section \<open>Consuming a request\<close>

text \<open>\<^const>\<open>None\<close> when the request is not there any more.\<close>

definition consumeRequest :: "string \<Rightarrow> 'a db_scheme \<Rightarrow> 'a db_scheme option" where
  "consumeRequest handle s =
     (if count_rows (\<lambda>r. ar_handle r = handle) (authRequests s) = 0 then None
      else Some (s\<lparr>authRequests := delete_many (\<lambda>r. ar_handle r = handle) (authRequests s)\<rparr>))"

definition consent_counter :: "string \<Rightarrow> 'a metrics_state_scheme \<Rightarrow> 'a metrics_state_scheme" where
  "consent_counter oc s = incrementCounter ''consent_total'' [(''outcome'', oc)] s"

text \<open>The merge of a grant with a new approval: \<open>newId\<close> is the identifier of a created row;
  \<^const>\<open>None\<close> when the insert fails.\<close>

definition merged_scopes :: "'a registry_state_scheme \<Rightarrow> string \<Rightarrow> string list \<Rightarrow> string list \<Rightarrow> string list" where
  "merged_scopes s resource live requested =
     uniq (filter (\<lambda>sc. \<not> isShortLivedScope s resource sc) (live @ requested))"

definition merged_claims :: "resource_server \<Rightarrow> string list \<Rightarrow> string list \<Rightarrow> string list" where
  "merged_claims rs live shown = uniq (live @ filter (\<lambda>c. c \<in> set (rs_releaseClaims rs)) shown)"

definition upsertGrant ::
    "time_ms \<Rightarrow> string \<Rightarrow> auth_request \<Rightarrow> string \<Rightarrow> resource_server \<Rightarrow> 'a registry_state_scheme \<Rightarrow>
     ('a registry_state_scheme \<times> string) option" where
  "upsertGrant now newId r subject rs s =
     (let key = (subject, ar_clientId r, ar_resource r) in
      case row_of grant_key key (grants s) of
        None \<Rightarrow>
          map_option (\<lambda>t. (s\<lparr>grants := t\<rparr>, newId))
            (create_row gr_id
               \<lparr>gr_id = newId, gr_userId = subject, gr_clientId = ar_clientId r,
                gr_resource = ar_resource r,
                gr_scopes = merged_scopes s (ar_resource r) [] (ar_scopes r),
                gr_releasedClaims = merged_claims rs [] (ar_shownClaims r),
                gr_grantedAt = now, gr_revokedAt = None\<rparr> (grants s))
      | Some g \<Rightarrow>
          (let live = (gr_revokedAt g = None) in
           Some (s\<lparr>grants := update_many (\<lambda>x. grant_key x = key)
                    (\<lambda>x. x\<lparr>gr_scopes := merged_scopes s (ar_resource r) (if live then gr_scopes g else []) (ar_scopes r),
                            gr_releasedClaims := merged_claims rs (if live then gr_releasedClaims g else []) (ar_shownClaims r),
                            gr_revokedAt := None\<rparr>) (grants s)\<rparr>, gr_id g)))"

section \<open>Completing a device flow\<close>

datatype device_result = Dev_consumed | Dev_stale | Dev_ok

definition approvable_device :: "time_ms \<Rightarrow> string \<Rightarrow> auth_request \<Rightarrow> device_code \<Rightarrow> bool" where
  "approvable_device now userCode r d \<longleftrightarrow>
     dv_userCode d = userCode \<and> dv_status d = DS_pending \<and> dv_clientId d = ar_clientId r \<and>
     now < dv_expiresAt d"

text \<open>The transaction; \<open>upsert\<close> is present on approval.\<close>

definition device_transaction ::
    "time_ms \<Rightarrow> string \<Rightarrow> auth_request \<Rightarrow> string \<Rightarrow> (string \<times> resource_server) option \<Rightarrow>
     'a registry_state_scheme \<Rightarrow> ('a registry_state_scheme \<times> device_result) option" where
  "device_transaction now userCode r subject upsert s =
     (case consumeRequest (ar_handle r) s of
        None \<Rightarrow> Some (s, Dev_consumed)
      | Some s1 \<Rightarrow>
          if count_rows (approvable_device now userCode r) (deviceCodes s1) = 0 then Some (s1, Dev_stale)
          else
            (let s2 = s1\<lparr>deviceCodes := update_many (approvable_device now userCode r)
                        (\<lambda>d. if upsert \<noteq> None then d\<lparr>dv_status := DS_approved, dv_userId := Some subject\<rparr>
                             else d\<lparr>dv_status := DS_denied\<rparr>) (deviceCodes s1)\<rparr> in
             case upsert of
               None \<Rightarrow> Some (s2, Dev_ok)
             | Some (newId, rs) \<Rightarrow>
                 map_option (\<lambda>(s3, _). (s3, Dev_ok)) (upsertGrant now newId r subject rs s2)))"

definition completeDeviceFlow ::
    "time_ms \<Rightarrow> auth_request \<Rightarrow> string \<Rightarrow> (string \<times> resource_server) option \<Rightarrow> string \<Rightarrow>
     'a registry_state_scheme \<Rightarrow> 'a registry_state_scheme \<times> reply" where
  "completeDeviceFlow now r subject upsert deniedMessage s =
     (case truthy (ar_state r) of
        None \<Rightarrow> (s, Message 400 ''Invalid device authorization session.'')
      | Some userCode \<Rightarrow>
          (case device_transaction now userCode r subject upsert s of
             None \<Rightarrow> (s, Fault)
           | Some (s1, Dev_consumed) \<Rightarrow> (s1, Message 400 USED_MESSAGE)
           | Some (s1, Dev_stale) \<Rightarrow> (s1, Message 400 ''This code has already been used or has expired.'')
           | Some (s1, Dev_ok) \<Rightarrow>
               (s1, Message 200 (if upsert \<noteq> None then ''Access granted.'' else deniedMessage))))"

section \<open>Completing a redirect flow\<close>

definition response_params :: "env \<Rightarrow> auth_request \<Rightarrow> (string \<times> string) \<Rightarrow> (string \<times> string) list" where
  "response_params e r first =
     first # (''iss'', e_issuerUrl e) #
       (case truthy (ar_state r) of None \<Rightarrow> [] | Some st \<Rightarrow> [(''state'', st)])"

definition client_redirect :: "env \<Rightarrow> auth_request \<Rightarrow> (string \<times> string) \<Rightarrow> reply" where
  "client_redirect e r first =
     (case new_URL e (ar_redirectUri r) of
        None \<Rightarrow> Fault
      | Some _ \<Rightarrow> Redirect_with (ar_redirectUri r) (response_params e r first))"

definition new_code ::
    "env \<Rightarrow> time_ms \<Rightarrow> string \<Rightarrow> auth_request \<Rightarrow> string \<Rightarrow> string \<Rightarrow> auth_code" where
  "new_code e now c r subject grantId =
     \<lparr>ac_codeHash = e_sha256 e c, ac_userId = subject, ac_clientId = ar_clientId r,
      ac_codeChallenge = ar_codeChallenge r, ac_codeChallengeMethod = ar_codeChallengeMethod r,
      ac_resource = ar_resource r, ac_scopes = ar_scopes r, ac_redirectUri = ar_redirectUri r,
      ac_grantId = grantId, ac_expiresAt = now + AUTH_CODE_TTL_MS, ac_consumedAt = None\<rparr>"

text \<open>The transaction; an outer \<^const>\<open>None\<close> rolls it back, the flag says whether a code was issued.\<close>

definition issue_transaction ::
    "env \<Rightarrow> time_ms \<Rightarrow> rand \<Rightarrow> auth_request \<Rightarrow> string \<Rightarrow> resource_server \<Rightarrow>
     'a registry_state_scheme \<Rightarrow> ('a registry_state_scheme \<times> bool) option" where
  "issue_transaction e now rnd r subject rs s =
     (case consumeRequest (ar_handle r) s of
        None \<Rightarrow> Some (s, False)
      | Some s1 \<Rightarrow>
          (case upsertGrant now (r_id rnd) r subject rs s1 of
             None \<Rightarrow> None
           | Some (s2, grantId) \<Rightarrow>
               map_option (\<lambda>t. (s2\<lparr>authCodes := t\<rparr>, True))
                 (create_row ac_codeHash (new_code e now (r_token rnd) r subject grantId) (authCodes s2))))"

definition issueAuthCodeAndRedirect ::
    "env \<Rightarrow> time_ms \<Rightarrow> rand \<Rightarrow> auth_request \<Rightarrow> string \<Rightarrow> resource_server \<Rightarrow>
     'a registry_state_scheme \<Rightarrow> 'a registry_state_scheme \<times> reply" where
  "issueAuthCodeAndRedirect e now rnd r subject rs s =
     (case issue_transaction e now rnd r subject rs s of
        None \<Rightarrow> (s, Fault)
      | Some (s1, False) \<Rightarrow> (s1, Message 400 USED_MESSAGE)
      | Some (s1, True) \<Rightarrow> (s1, client_redirect e r (''code'', r_token rnd)))"

definition denyAndRedirect ::
    "env \<Rightarrow> auth_request \<Rightarrow> 'a registry_state_scheme \<Rightarrow> 'a registry_state_scheme \<times> reply" where
  "denyAndRedirect e r s =
     (case consumeRequest (ar_handle r) s of
        None \<Rightarrow> (s, Message 400 USED_MESSAGE)
      | Some s1 \<Rightarrow> (s1, client_redirect e r (''error'', ''access_denied'')))"

text \<open>The two refusals: the client is told nothing but, for a device, that access was denied.\<close>

definition refuse_flow ::
    "time_ms \<Rightarrow> auth_request \<Rightarrow> string \<Rightarrow> string \<Rightarrow> string \<Rightarrow> string \<Rightarrow> 'a metrics_state_scheme \<Rightarrow>
     'a metrics_state_scheme \<times> reply" where
  "refuse_flow now r subject oc deviceMessage pageMessage s =
     (let s1 = consent_counter oc s in
      if isDeviceFlow r then completeDeviceFlow now r subject None deviceMessage s1
      else case consumeRequest (ar_handle r) s1 of
        None \<Rightarrow> (s1, Message 400 USED_MESSAGE)
      | Some s2 \<Rightarrow> (s2, Message 400 pageMessage))"

definition refuseForbiddenScope ::
    "time_ms \<Rightarrow> auth_request \<Rightarrow> string \<Rightarrow> string \<Rightarrow> 'a metrics_state_scheme \<Rightarrow>
     'a metrics_state_scheme \<times> reply" where
  "refuseForbiddenScope now r subject name s =
     refuse_flow now r subject ''forbidden_scope'' (''You are not permitted to grant '' @ name)
       (''You are not permitted to grant '' @ name @ ''.'') s"

definition refuseMissingFreshSignIn ::
    "time_ms \<Rightarrow> auth_request \<Rightarrow> string \<Rightarrow> 'a metrics_state_scheme \<Rightarrow> 'a metrics_state_scheme \<times> reply" where
  "refuseMissingFreshSignIn now r subject s =
     refuse_flow now r subject ''fresh_sign_in_required'' FRESH_MESSAGE FRESH_MESSAGE s"

section \<open>Submitting the form\<close>

datatype decision =
    Approve resource_server
  | Deny
  | Forbidden string
  | Missing_fresh_sign_in

text \<open>The checks common to the page and to an approval.\<close>

definition revalidate ::
    "env \<Rightarrow> time_ms \<Rightarrow> auth_request \<Rightarrow> string \<Rightarrow> 'a client_state_scheme \<Rightarrow>
     'a client_state_scheme \<times> (reply + (oauth_client \<times> decision))" where
  "revalidate e now r subject s =
     (case resolveClient e now (ar_clientId r) s of
        (s1, None) \<Rightarrow> (s1, Inl (Message 400 ''This client could not be verified.''))
      | (s1, Some client) \<Rightarrow>
          (case lookupResourceServer s1 (ar_resource r) of
             None \<Rightarrow> (s1, Inl (Message 400 ''The requested resource is no longer registered.''))
           | Some rs \<Rightarrow>
               (case findForbiddenScope e r subject rs s1 of
                  Some name \<Rightarrow> (s1, Inr (client, Forbidden name))
                | None \<Rightarrow>
                    if lacksRequiredFreshSignIn r rs then (s1, Inr (client, Missing_fresh_sign_in))
                    else (s1, Inr (client, Approve rs)))))"

definition consent_checks ::
    "env \<Rightarrow> time_ms \<Rightarrow> request \<Rightarrow> 'a client_state_scheme \<Rightarrow>
     'a client_state_scheme \<times> (reply + (auth_request \<times> string \<times> decision))" where
  "consent_checks e now rq s =
     (case loadFlow now (stringField (bodyOf (q_body rq)) ''flow'') s of
        None \<Rightarrow> (s, Inl (Message 400 INVALID_MESSAGE))
      | Some (r, subject) \<Rightarrow>
          if \<not> requireFlowBrowser e now rq r subject s then (s, Inl (Message 400 WRONG_BROWSER_MESSAGE))
          else if \<not> verifyBoundCsrfToken e rq ''csrf_consent'' (consentCsrfPurpose (ar_handle r)) subject
          then (s, Inl (Message 403 ''Invalid or missing CSRF token. Please reload and try again.''))
          else if stringField (bodyOf (q_body rq)) ''action'' \<noteq> Some ''approve'' then (s, Inr (r, subject, Deny))
          else (case revalidate e now r subject s of
                  (s1, Inl rep) \<Rightarrow> (s1, Inl rep)
                | (s1, Inr (_, d)) \<Rightarrow> (s1, Inr (r, subject, d))))"

definition consent_commit ::
    "env \<Rightarrow> time_ms \<Rightarrow> rand \<Rightarrow> auth_request \<Rightarrow> string \<Rightarrow> decision \<Rightarrow> 'a metrics_state_scheme \<Rightarrow>
     'a metrics_state_scheme \<times> reply" where
  "consent_commit e now rnd r subject d s =
     (case d of
        Deny \<Rightarrow>
          (let s1 = consent_counter ''denied'' s in
           if isDeviceFlow r then completeDeviceFlow now r subject None ''Access denied.'' s1
           else denyAndRedirect e r s1)
      | Forbidden name \<Rightarrow> refuseForbiddenScope now r subject name s
      | Missing_fresh_sign_in \<Rightarrow> refuseMissingFreshSignIn now r subject s
      | Approve rs \<Rightarrow>
          (let s1 = consent_counter ''approved'' s in
           if isDeviceFlow r then completeDeviceFlow now r subject (Some (r_id rnd, rs)) [] s1
           else issueAuthCodeAndRedirect e now rnd r subject rs s1))"

definition consent_post ::
    "env \<Rightarrow> time_ms \<Rightarrow> rand \<Rightarrow> request \<Rightarrow> 'a client_state_scheme \<Rightarrow> 'a client_state_scheme \<times> reply" where
  "consent_post e now rnd rq s =
     (case consent_checks e now rq s of
        (s1, Inl rep) \<Rightarrow> (s1, rep)
      | (s1, Inr (r, subject, d)) \<Rightarrow> consent_commit e now rnd r subject d s1)"

section \<open>The page\<close>

record consent_view =
  cv_clientName :: string
  cv_logoUri :: "string option"
  cv_clientDomain :: "string option"
  cv_redirectHost :: "string option"
  cv_isLoopbackRedirect :: bool
  cv_resourceServerName :: string
  cv_releasedClaims :: "string list"
  cv_scopes :: "(string \<times> string) list"
  cv_unverified :: bool
  cv_hasGrant :: bool
  cv_isDevice :: bool
  cv_userCode :: "string option"

definition httpsUrlOrNull :: "env \<Rightarrow> json option \<Rightarrow> string option" where
  "httpsUrlOrNull e v =
     (case v of
        Some (JStr u) \<Rightarrow>
          (case new_URL e u of
             Some p \<Rightarrow> if url_protocol p = ''https:'' then Some u else None
           | None \<Rightarrow> None)
      | _ \<Rightarrow> None)"

definition findLiveGrant :: "'a db_scheme \<Rightarrow> string \<Rightarrow> string \<Rightarrow> string \<Rightarrow> grant option" where
  "findLiveGrant s userId clientId resource =
     (case row_of grant_key (userId, clientId, resource) (grants s) of
        Some g \<Rightarrow> if gr_revokedAt g = None then Some g else None
      | None \<Rightarrow> None)"

text \<open>How the redirect target is shown: the host of a web address, else the scheme too.\<close>

definition shown_redirect_host :: "url \<Rightarrow> string" where
  "shown_redirect_host u =
     (if url_protocol u = ''https:'' \<or> url_protocol u = ''http:'' then url_hostname u
      else if url_host u \<noteq> [] then url_protocol u @ ''//'' @ url_host u
      else url_protocol u @ url_pathname u)"

definition scope_view :: "resource_server \<Rightarrow> string \<Rightarrow> string \<times> string" where
  "scope_view rs name =
     (if name = ''offline_access''
      then (name, ''Stay connected for up to 30 days without asking again (until you revoke it at /grants)'')
      else (name, case find_scope rs name of None \<Rightarrow> name | Some sc \<Rightarrow> s_description sc))"

definition formatUserCode :: "string \<Rightarrow> string" where
  "formatUserCode c = take 4 c @ ''-'' @ drop 4 c"

definition consent_view_of ::
    "env \<Rightarrow> auth_request \<Rightarrow> string \<Rightarrow> oauth_client \<Rightarrow> resource_server \<Rightarrow> 'a db_scheme \<Rightarrow> consent_view option" where
  "consent_view_of e r subject client rs s =
     (let meta = oc_metadata client;
          existing = findLiveGrant s subject (ar_clientId r) (ar_resource r);
          view = (\<lambda>host loopback.
            \<lparr>cv_clientName = (case member meta ''client_name'' of Some (JStr n) \<Rightarrow> n | _ \<Rightarrow> ar_clientId r),
             cv_logoUri = httpsUrlOrNull e (member meta ''logo_uri''),
             cv_clientDomain = hostnameOf (new_URL e) (ar_clientId r),
             cv_redirectHost = host, cv_isLoopbackRedirect = loopback,
             cv_resourceServerName = rs_name rs, cv_releasedClaims = rs_releaseClaims rs,
             cv_scopes = map (scope_view rs) (ar_scopes r),
             cv_unverified = (oc_trustLevel client = Unverified),
             cv_hasGrant = (case existing of None \<Rightarrow> False
                            | Some g \<Rightarrow> list_all (\<lambda>sc. sc \<in> set (gr_scopes g)) (ar_scopes r)),
             cv_isDevice = isDeviceFlow r,
             cv_userCode = (if isDeviceFlow r then map_option formatUserCode (truthy (ar_state r)) else None)\<rparr>) in
      if isDeviceFlow r then Some (view None False)
      else (case new_URL e (ar_redirectUri r) of
              None \<Rightarrow> None
            | Some u \<Rightarrow> Some (view (Some (shown_redirect_host u)) (isLoopbackHost (url_hostname u)))))"

text \<open>What the page listed is pinned on the request.\<close>

definition pin_claims :: "string \<Rightarrow> string list \<Rightarrow> 'a db_scheme \<Rightarrow> 'a db_scheme" where
  "pin_claims handle claims s =
     s\<lparr>authRequests := update_many (\<lambda>r. ar_handle r = handle) (\<lambda>r. r\<lparr>ar_shownClaims := claims\<rparr>) (authRequests s)\<rparr>"

datatype consent_page = Consent_reply reply | Consent_form consent_view string "cookie_op list"

text \<open>\<open>nonce\<close> is a fresh CSRF nonce.\<close>

definition consent_get ::
    "env \<Rightarrow> time_ms \<Rightarrow> string \<Rightarrow> request \<Rightarrow> 'a client_state_scheme \<Rightarrow>
     'a client_state_scheme \<times> consent_page" where
  "consent_get e now nonce rq s =
     (case loadFlow now (as_string (map_of (q_query rq) ''flow'')) s of
        None \<Rightarrow> (s, Consent_reply (Message 400 INVALID_MESSAGE))
      | Some (r, subject) \<Rightarrow>
          if \<not> requireFlowBrowser e now rq r subject s
          then (s, Consent_reply (Message 400 WRONG_BROWSER_MESSAGE))
          else (case revalidate e now r subject s of
             (s1, Inl rep) \<Rightarrow> (s1, Consent_reply rep)
           | (s1, Inr (client, Approve rs)) \<Rightarrow>
               (case consent_view_of e r subject client rs s1 of
                  None \<Rightarrow> (s1, Consent_reply Fault)
                | Some v \<Rightarrow>
                    (case issueBoundCsrfToken e rq ''csrf_consent'' (consentCsrfPurpose (ar_handle r)) subject nonce of
                       (token, ck) \<Rightarrow>
                         (pin_claims (ar_handle r) (rs_releaseClaims rs) s1, Consent_form v token [ck])))
           | (s1, Inr (_, Forbidden name)) \<Rightarrow>
               (case refuseForbiddenScope now r subject name s1 of (s2, rep) \<Rightarrow> (s2, Consent_reply rep))
           | (s1, Inr (_, Missing_fresh_sign_in)) \<Rightarrow>
               (case refuseMissingFreshSignIn now r subject s1 of (s2, rep) \<Rightarrow> (s2, Consent_reply rep))
           | (s1, Inr (_, Deny)) \<Rightarrow> (s1, Consent_reply Fault)))"

end
