(* ===== verification/Authorize.thy ===== *)
theory Authorize
  imports Consent
begin

text \<open>
  \<^verbatim>\<open>oauth/authorize.ts\<close> and the start of an upstream sign-in (\<^verbatim>\<open>startUpstreamAuth\<close> in
  identity/oidc.ts): the validation of an authorization request and the row it creates.  The
  record \<open>proxy_state\<close> adds the request limiters, and so completes the state of the proxy.
\<close>

record proxy_state = upstream_state +
  oauthWindows :: "(string, window) jsmap"
  resolutionWindows :: "(string, window) jsmap"
  rowWindows :: "(string, window) jsmap"
  failedEntries :: "(string, window) jsmap"

section \<open>Limiters of the routes\<close>

definition clientResolutionRetryAfter ::
    "time_ms \<Rightarrow> request \<Rightarrow> 'a proxy_state_scheme \<Rightarrow> 'a proxy_state_scheme \<times> int" where
  "clientResolutionRetryAfter now rq s =
     (case ip_hit clientResolutionLimiter now (q_ip rq) (resolutionWindows s) of
        (ws, wait) \<Rightarrow> (s\<lparr>resolutionWindows := ws\<rparr>, wait))"

definition rowCreationRetryAfter ::
    "time_ms \<Rightarrow> request \<Rightarrow> 'a proxy_state_scheme \<Rightarrow> 'a proxy_state_scheme \<times> int" where
  "rowCreationRetryAfter now rq s =
     (case ip_hit rowCreationLimiter now (q_ip rq) (rowWindows s) of
        (ws, wait) \<Rightarrow> (s\<lparr>rowWindows := ws\<rparr>, wait))"

text \<open>The middleware of the token and revocation endpoints: the seconds to wait, or the handler.\<close>

definition limitOauthEndpoint ::
    "time_ms \<Rightarrow> string option \<Rightarrow> ('a proxy_state_scheme \<Rightarrow> 'a proxy_state_scheme \<times> 'r) \<Rightarrow>
     'a proxy_state_scheme \<Rightarrow> 'a proxy_state_scheme \<times> (int + 'r)" where
  "limitOauthEndpoint now ip handler s =
     (case ip_hit oauthEndpointLimiter now ip (oauthWindows s) of
        (ws, wait) \<Rightarrow>
          (let s1 = s\<lparr>oauthWindows := ws\<rparr> in
           if wait = 0 then (case handler s1 of (s2, r) \<Rightarrow> (s2, Inr r)) else (s1, Inl wait)))"

section \<open>The upstream sign-in\<close>

record flow_rand =
  fr_handle :: string
  fr_state :: string
  fr_nonce :: string
  fr_verifier :: string

definition upstream_auth_params :: "env \<Rightarrow> flow_rand \<Rightarrow> bool \<Rightarrow> (string \<times> string) list" where
  "upstream_auth_params e fr fresh =
     [(''redirect_uri'', e_issuerUrl e @ ''/oauth/callback''),
      (''scope'', ''openid email profile offline_access''),
      (''state'', fr_state fr), (''nonce'', fr_nonce fr),
      (''code_challenge'', e_sha256_b64url e (fr_verifier fr)), (''code_challenge_method'', ''S256'')] @
     (if fresh then [(''prompt'', ''login''), (''max_age'', show_nat (nat FRESH_LOGIN_MAX_AGE_S))] else [])"

text \<open>\<^const>\<open>None\<close> when it throws: no provider configuration, or no such request.\<close>

definition startUpstreamAuth ::
    "env \<Rightarrow> provider \<Rightarrow> time_ms \<Rightarrow> string \<Rightarrow> flow_rand \<Rightarrow> bool \<Rightarrow> 'a upstream_state_scheme \<Rightarrow>
     'a upstream_state_scheme \<times> (string \<times> string) list option" where
  "startUpstreamAuth e pv now handle fr fresh s =
     (case getOidcConfig e pv now s of
        (s1, None) \<Rightarrow> (s1, None)
      | (s1, Some _) \<Rightarrow>
          if count_rows (\<lambda>r. ar_handle r = handle) (authRequests s1) = 0 then (s1, None)
          else (s1\<lparr>authRequests := update_many (\<lambda>r. ar_handle r = handle)
                     (\<lambda>r. r\<lparr>ar_upstreamState := Some (fr_state fr), ar_upstreamNonce := Some (fr_nonce fr),
                             ar_upstreamVerifier := Some (fr_verifier fr)\<rparr>) (authRequests s1)\<rparr>,
                Some (upstream_auth_params e fr fresh)))"

text \<open>The dispatch every flow ends with: the local login page, or the provider.\<close>

definition dispatch_sign_in ::
    "env \<Rightarrow> provider \<Rightarrow> time_ms \<Rightarrow> string \<Rightarrow> flow_rand \<Rightarrow> bool \<Rightarrow> 'a upstream_state_scheme \<Rightarrow>
     'a upstream_state_scheme \<times> reply" where
  "dispatch_sign_in e pv now handle fr fresh s =
     (if e_enableLocalAccounts e \<and> \<not> e_enableOidc e
      then (s, Redirect_path (''/auth/login?flow='' @ handle))
      else (case startUpstreamAuth e pv now handle fr fresh s of
              (s1, None) \<Rightarrow> (s1, Fault)
            | (s1, Some params) \<Rightarrow> (s1, Redirect_with ''upstream'' params)))"

section \<open>Validation of the request\<close>

definition AUTHORIZATION_REQUEST_TTL_MS :: int where "AUTHORIZATION_REQUEST_TTL_MS = 10 * 60 * 1000"
definition MAX_STATE_LENGTH :: nat where "MAX_STATE_LENGTH = 512"

text \<open>\<^verbatim>\<open>/^[A-Za-z0-9_-]{43,128}$/\<close>\<close>

definition valid_code_challenge :: "string \<Rightarrow> bool" where
  "valid_code_challenge c \<longleftrightarrow>
     43 \<le> length c \<and> length c \<le> 128 \<and> (\<forall>x \<in> set c. is_alnum x \<or> x \<in> set ''_-'')"

definition scheme_char :: "char \<Rightarrow> bool" where
  "scheme_char c \<longleftrightarrow> is_alnum c \<or> c \<in> set ''+.-''"

text \<open>\<^verbatim>\<open>/^[a-z][a-z0-9+.-]*:\/\/([^/?#\\]*)/i\<close>: the authority of a URI, when it has one.\<close>

definition authority_of :: "string \<Rightarrow> string option" where
  "authority_of uri =
     (let scheme = takeWhile scheme_char uri; rest = drop (length scheme) uri in
      if scheme \<noteq> [] \<and> (is_lower (hd scheme) \<or> is_upper (hd scheme)) \<and> starts_with ''://'' rest
      then Some (takeWhile (\<lambda>c. c \<notin> {CHR ''/'', CHR ''?'', CHR ''#'', CHR 0x5C}) (drop 3 rest))
      else None)"

text \<open>\<^verbatim>\<open>replace(/%2e/gi, ".")\<close> and \<^verbatim>\<open>replace(/%(?:2f|5c)/gi, "/")\<close>\<close>

fun replace3 :: "(string \<Rightarrow> bool) \<Rightarrow> char \<Rightarrow> string \<Rightarrow> string" where
  "replace3 P d (a # b # c # s) =
     (if P [a, b, c] then d # replace3 P d s else a # replace3 P d (b # c # s))"
| "replace3 P d s = s"

definition hasAmbiguousRedirectForm :: "string \<Rightarrow> bool" where
  "hasAmbiguousRedirectForm uri \<longleftrightarrow>
     (case authority_of uri of None \<Rightarrow> False | Some a \<Rightarrow> CHR ''@'' \<in> set a) \<or>
     (let path = takeWhile (\<lambda>c. c \<noteq> CHR ''?'' \<and> c \<noteq> CHR ''#'') uri;
          dots = replace3 (\<lambda>t. to_lower t = ''%2e'') CHR ''.'' path;
          slashes = replace3 (\<lambda>t. to_lower t \<in> {''%2f'', ''%5c''}) CHR ''/'' dots;
          segments = split_on CHR ''/'' (map (\<lambda>c. if c = CHR 0x5C then CHR ''/'' else c) slashes) in
      \<exists>seg \<in> set segments. seg = ''.'' \<or> seg = ''..'')"

definition singleQueryValue :: "request \<Rightarrow> string \<Rightarrow> string option" where
  "singleQueryValue rq k = as_string (map_of (q_query rq) k)"

definition registered_uris :: "oauth_client \<Rightarrow> string list" where
  "registered_uris client =
     (case member (oc_metadata client) ''redirect_uris'' of Some (JArr us) \<Rightarrow> json_strings us | _ \<Rightarrow> [])"

text \<open>The redirect URI that may be trusted from here on, or nothing.\<close>

definition trusted_redirect :: "env \<Rightarrow> oauth_client \<Rightarrow> string option \<Rightarrow> string option" where
  "trusted_redirect e client uri =
     (case truthy uri of
        None \<Rightarrow> None
      | Some u \<Rightarrow>
          if starts_with ''urn:mcp-auth:'' u \<or> CHR ''#'' \<in> set u \<or> hasAmbiguousRedirectForm u then None
          else if isRegisteredRedirectUri (new_URL e) (registered_uris client) u then Some u else None)"

datatype authorize_error = Authorize_error string "string option"

text \<open>The scopes asked for, when every one is declared (or is offline_access).\<close>

definition requested_scopes :: "resource_server \<Rightarrow> json option \<Rightarrow> authorize_error + string list" where
  "requested_scopes rs raw =
     (case raw of
        Some (JStr t) \<Rightarrow>
          (let scopes = split_scopes t in
           case List.find (\<lambda>sc. sc \<noteq> ''offline_access'' \<and> sc \<notin> set (declared_names rs)) scopes of
             Some unknown \<Rightarrow> Inl (Authorize_error ''invalid_scope'' (Some unknown))
           | None \<Rightarrow> Inr scopes)
      | None \<Rightarrow> Inr []
      | Some _ \<Rightarrow> Inl (Authorize_error ''invalid_scope'' (Some ''scope must be a single space-delimited string'')))"

record authorize_params =
  ap_resource :: string
  ap_scopes :: "string list"
  ap_codeChallenge :: string
  ap_server :: resource_server

definition validate_authorize ::
    "request \<Rightarrow> 'a registry_state_scheme \<Rightarrow> authorize_error + authorize_params" where
  "validate_authorize rq s =
     (if (case singleQueryValue rq ''state'' of None \<Rightarrow> False | Some st \<Rightarrow> MAX_STATE_LENGTH < length st)
      then Inl (Authorize_error ''invalid_request'' (Some ''state must be at most 512 characters''))
      else if singleQueryValue rq ''response_type'' \<noteq> Some ''code''
      then Inl (Authorize_error ''unsupported_response_type'' None)
      else (case truthy (singleQueryValue rq ''code_challenge'') of
        None \<Rightarrow> Inl (Authorize_error ''invalid_request'' (Some ''code_challenge is required and code_challenge_method must be S256''))
      | Some challenge \<Rightarrow>
          if singleQueryValue rq ''code_challenge_method'' \<noteq> Some ''S256''
          then Inl (Authorize_error ''invalid_request'' (Some ''code_challenge is required and code_challenge_method must be S256''))
          else if \<not> valid_code_challenge challenge
          then Inl (Authorize_error ''invalid_request'' (Some ''code_challenge must be 43 to 128 base64url characters''))
          else (case truthy (singleQueryValue rq ''resource'') of
            None \<Rightarrow> Inl (Authorize_error ''invalid_target'' None)
          | Some resource \<Rightarrow>
              (case lookupResourceServer s resource of
                 None \<Rightarrow> Inl (Authorize_error ''invalid_target'' None)
               | Some rs \<Rightarrow>
                   (case requested_scopes rs (map_of (q_query rq) ''scope'') of
                      Inl er \<Rightarrow> Inl er
                    | Inr scopes \<Rightarrow>
                        Inr \<lparr>ap_resource = resource, ap_scopes = scopes, ap_codeChallenge = challenge,
                             ap_server = rs\<rparr>)))))"

text \<open>The redirect of a failure; a state that is too long is not echoed.\<close>

definition authorize_fail :: "env \<Rightarrow> request \<Rightarrow> string \<Rightarrow> authorize_error \<Rightarrow> reply" where
  "authorize_fail e rq uri er =
     (case er of Authorize_error err desc \<Rightarrow>
        (case new_URL e uri of
           None \<Rightarrow> Fault
         | Some _ \<Rightarrow>
             Redirect_with uri
               ([(''error'', err), (''iss'', e_issuerUrl e)] @
                (case desc of None \<Rightarrow> [] | Some d \<Rightarrow> [(''error_description'', d)]) @
                (case truthy (singleQueryValue rq ''state'') of
                   None \<Rightarrow> []
                 | Some st \<Rightarrow> if MAX_STATE_LENGTH < length st then [] else [(''state'', st)]))))"

section \<open>The handler\<close>

definition request_row ::
    "time_ms \<Rightarrow> string \<Rightarrow> string \<Rightarrow> string \<Rightarrow> string option \<Rightarrow> authorize_params \<Rightarrow> auth_request" where
  "request_row now handle clientId uri state p =
     \<lparr>ar_handle = handle, ar_flowType = FT_oauth, ar_clientId = clientId, ar_resource = ap_resource p,
      ar_scopes = ap_scopes p, ar_redirectUri = uri, ar_state = state,
      ar_codeChallenge = ap_codeChallenge p, ar_codeChallengeMethod = ''S256'',
      ar_upstreamState = None, ar_upstreamNonce = None, ar_upstreamVerifier = None,
      ar_subject = None, ar_requireFreshLogin = requestsFreshSignIn (Some (ap_server p)) (ap_scopes p),
      ar_shownClaims = [], ar_expiresAt = now + AUTHORIZATION_REQUEST_TTL_MS\<rparr>"

text \<open>From a trusted redirect URI on.\<close>

definition authorize_trusted ::
    "env \<Rightarrow> provider \<Rightarrow> time_ms \<Rightarrow> flow_rand \<Rightarrow> request \<Rightarrow> string \<Rightarrow> string \<Rightarrow> 'a proxy_state_scheme \<Rightarrow>
     'a proxy_state_scheme \<times> reply \<times> cookie_op list" where
  "authorize_trusted e pv now fr rq clientId uri s =
     (case validate_authorize rq s of
        Inl er \<Rightarrow> (s, authorize_fail e rq uri er, [])
      | Inr p \<Rightarrow>
          (case rowCreationRetryAfter now rq s of (s1, wait) \<Rightarrow>
             if 0 < wait then (s1, Message 429 ''Too many authorization requests from this address. Please wait a minute and try again.'', [])
             else
               (let row = request_row now (fr_handle fr) clientId uri (singleQueryValue rq ''state'') p in
                case create_row ar_handle row (authRequests s1) of
                  None \<Rightarrow> (s1, Fault, [])
                | Some rows \<Rightarrow>
                    (case dispatch_sign_in e pv now (fr_handle fr) fr (ar_requireFreshLogin row)
                            (s1\<lparr>authRequests := rows\<rparr>) of
                       (s2, rep) \<Rightarrow> (s2, rep, [bindFlow e rq (fr_handle fr)])))))"

definition authorize ::
    "env \<Rightarrow> provider \<Rightarrow> time_ms \<Rightarrow> flow_rand \<Rightarrow> request \<Rightarrow> 'a proxy_state_scheme \<Rightarrow>
     'a proxy_state_scheme \<times> reply \<times> cookie_op list" where
  "authorize e pv now fr rq s =
     (case truthy (singleQueryValue rq ''client_id'') of
        None \<Rightarrow> (s, Message 400 ''client_id is required'', [])
      | Some clientId \<Rightarrow>
          (case clientResolutionRetryAfter now rq s of (s1, wait) \<Rightarrow>
             if 0 < wait then (s1, Message 429 ''Too many authorization requests from this address. Please wait a minute and try again.'', [])
             else (case resolveClient e now clientId s1 of
               (s2, None) \<Rightarrow> (s2, Message 400 ''This client could not be verified.'', [])
             | (s2, Some client) \<Rightarrow>
                 (case trusted_redirect e client (singleQueryValue rq ''redirect_uri'') of
                    None \<Rightarrow> (s2, Message 400 ''redirect_uri is missing or not registered for this client.'', [])
                  | Some uri \<Rightarrow> authorize_trusted e pv now fr rq clientId uri s2))))"

end
