(* ===== verification/Device.thy ===== *)
theory Device
  imports Authorize
begin

text \<open>
  \<^verbatim>\<open>oauth/device.ts\<close>: the issue of a device code, the entry of a user code in the browser with its
  limit on failed entries, and the flow the entry starts.
\<close>

definition DEVICE_CODE_TTL_MS :: int where "DEVICE_CODE_TTL_MS = 15 * 60 * 1000"

definition USER_CODE_ALPHABET :: string where
  "USER_CODE_ALPHABET = ''ABCDEFGHJKMNPQRSTUVWXYZ23456789''"

text \<open>\<open>bytes\<close> are the eight random bytes.\<close>

definition generateUserCode :: "nat list \<Rightarrow> string" where
  "generateUserCode bytes = map (\<lambda>b. USER_CODE_ALPHABET ! (b mod length USER_CODE_ALPHABET)) bytes"

definition normalizeUserCode :: "string \<Rightarrow> string" where
  "normalizeUserCode raw = filter (\<lambda>c. is_upper c \<or> is_digit c) (to_upper raw)"

section \<open>The limit on failed entries\<close>

definition CODE_ENTRY_MAX_PER_IP :: nat where "CODE_ENTRY_MAX_PER_IP = 10"
definition CODE_ENTRY_WINDOW_MS :: int where "CODE_ENTRY_WINDOW_MS = 15 * 60 * 1000"
definition CODE_ENTRY_MAX_TRACKED_IPS :: nat where "CODE_ENTRY_MAX_TRACKED_IPS = 100000"

definition entry_opts :: limiter_opts where
  "entry_opts =
     \<lparr>l_max = CODE_ENTRY_MAX_PER_IP, l_windowMs = CODE_ENTRY_WINDOW_MS,
      l_maxEntries = CODE_ENTRY_MAX_TRACKED_IPS\<rparr>"

definition failedEntryRetryAfter :: "time_ms \<Rightarrow> string \<Rightarrow> (string, window) jsmap \<Rightarrow> int" where
  "failedEntryRetryAfter now ip ws =
     (case jm_get ws ip of
        None \<Rightarrow> 1
      | Some w \<Rightarrow> max 1 (ceil_div (w_start w + CODE_ENTRY_WINDOW_MS - now) 1000))"

text \<open>The reservation: the new windows, and the start of the window the slot was taken from when
  there was one.\<close>

definition reserveFailedEntry ::
    "time_ms \<Rightarrow> string \<Rightarrow> (string, window) jsmap \<Rightarrow> (string, window) jsmap \<times> time_ms option" where
  "reserveFailedEntry now ip ws =
     (case open_window entry_opts now ip ws of (ws', w) \<Rightarrow>
        if CODE_ENTRY_MAX_PER_IP \<le> w_count w then (ws', None)
        else (if jm_has ip ws' then AList.update ip (w\<lparr>w_count := Suc (w_count w)\<rparr>) ws' else ws',
              Some (w_start w)))"

text \<open>Giving a slot back, only into the window it was taken from.\<close>

definition release_entry :: "string \<Rightarrow> time_ms \<Rightarrow> (string, window) jsmap \<Rightarrow> (string, window) jsmap" where
  "release_entry ip start ws =
     (case jm_get ws ip of
        None \<Rightarrow> ws
      | Some w \<Rightarrow>
          if w_start w = start \<and> 0 < w_count w
          then AList.update ip (w\<lparr>w_count := w_count w - 1\<rparr>) ws else ws)"

section \<open>Issuing a device code\<close>

datatype device_reply =
    Device_error nat string
  | Device_issued string string
  | Device_fault

definition device_row ::
    "time_ms \<Rightarrow> string \<Rightarrow> string \<Rightarrow> string \<Rightarrow> string \<Rightarrow> string list \<Rightarrow> device_code" where
  "device_row now h userCode clientId resource scopes =
     \<lparr>dv_deviceCodeHash = h, dv_userCode = userCode, dv_clientId = clientId, dv_resource = resource,
      dv_scopes = scopes, dv_status = DS_pending, dv_userId = None, dv_lastPolledAt = None,
      dv_pollInterval = 5, dv_expiresAt = now + DEVICE_CODE_TTL_MS\<rparr>"

text \<open>Both unique keys, the hash and the user code, must be free.\<close>

definition create_device :: "device_code \<Rightarrow> device_code list \<Rightarrow> device_code list option" where
  "create_device d ds = (if dv_userCode d \<in> dv_userCode ` set ds then None else create_row dv_deviceCodeHash d ds)"

definition device_code_resolved ::
    "env \<Rightarrow> time_ms \<Rightarrow> rand \<Rightarrow> nat list \<Rightarrow> request \<Rightarrow> string \<Rightarrow> 'a proxy_state_scheme \<Rightarrow>
     'a proxy_state_scheme \<times> device_reply" where
  "device_code_resolved e now rnd bytes rq clientId s =
     (let body = bodyOf (q_body rq) in
      case truthy (stringField body ''resource'') of
        None \<Rightarrow> (s, Device_error 400 ''invalid_target'')
      | Some resource \<Rightarrow>
          (case lookupResourceServer s resource of
             None \<Rightarrow> (s, Device_error 400 ''invalid_target'')
           | Some rs \<Rightarrow>
               (case requested_scopes rs (map_of body ''scope'') of
                  Inl _ \<Rightarrow> (s, Device_error 400 ''invalid_scope'')
                | Inr scopes \<Rightarrow>
                    (case rowCreationRetryAfter now rq s of (s1, wait) \<Rightarrow>
                       if 0 < wait then (s1, Device_error 429 ''temporarily_unavailable'')
                       else (case create_device
                                    (device_row now (e_sha256 e (r_token rnd)) (generateUserCode bytes)
                                       clientId resource scopes) (deviceCodes s1) of
                               None \<Rightarrow> (s1, Device_fault)
                             | Some ds \<Rightarrow>
                                 (s1\<lparr>deviceCodes := ds\<rparr>,
                                  Device_issued (r_token rnd) (formatUserCode (generateUserCode bytes))))))))"

definition device_code_endpoint ::
    "env \<Rightarrow> time_ms \<Rightarrow> rand \<Rightarrow> nat list \<Rightarrow> request \<Rightarrow> 'a proxy_state_scheme \<Rightarrow>
     'a proxy_state_scheme \<times> device_reply" where
  "device_code_endpoint e now rnd bytes rq s =
     (case truthy (stringField (bodyOf (q_body rq)) ''client_id'') of
        None \<Rightarrow> (s, Device_error 400 ''invalid_request'')
      | Some clientId \<Rightarrow>
          (case clientResolutionRetryAfter now rq s of (s1, wait) \<Rightarrow>
             if 0 < wait then (s1, Device_error 429 ''temporarily_unavailable'')
             else (case resolveClient e now clientId s1 of
               (s2, None) \<Rightarrow> (s2, Device_error 400 ''invalid_client'')
             | (s2, Some _) \<Rightarrow> device_code_resolved e now rnd bytes rq clientId s2)))"

section \<open>Entering a user code\<close>

text \<open>The entry form shown again: its error, the code it is filled with and the status.\<close>

datatype entry_reply = Entry_form "string option" string nat | Entry_reply reply

definition device_request_row :: "string \<Rightarrow> bool \<Rightarrow> string \<Rightarrow> device_code \<Rightarrow> auth_request" where
  "device_request_row handle fresh userCode d =
     \<lparr>ar_handle = handle, ar_flowType = FT_device, ar_clientId = dv_clientId d,
      ar_resource = dv_resource d, ar_scopes = dv_scopes d, ar_redirectUri = ''urn:mcp-auth:device-flow'',
      ar_state = Some userCode, ar_codeChallenge = ''device-flow-no-pkce'',
      ar_codeChallengeMethod = ''S256'', ar_upstreamState = None, ar_upstreamNonce = None,
      ar_upstreamVerifier = None, ar_subject = None, ar_requireFreshLogin = fresh,
      ar_shownClaims = [], ar_expiresAt = dv_expiresAt d\<rparr>"

definition enterable :: "time_ms \<Rightarrow> string \<Rightarrow> device_code \<Rightarrow> bool" where
  "enterable now userCode d \<longleftrightarrow> dv_userCode d = userCode \<and> dv_status d = DS_pending \<and> now < dv_expiresAt d"

definition formatted_or_empty :: "string \<Rightarrow> string" where
  "formatted_or_empty code_text = (if code_text = [] then [] else formatUserCode code_text)"

definition startDeviceConsent ::
    "env \<Rightarrow> provider \<Rightarrow> time_ms \<Rightarrow> flow_rand \<Rightarrow> request \<Rightarrow> string \<Rightarrow> 'a proxy_state_scheme \<Rightarrow>
     'a proxy_state_scheme \<times> entry_reply \<times> cookie_op list" where
  "startDeviceConsent e pv now fr rq rawCode s =
     (if \<not> verifyCsrfToken e rq ''csrf_device''
      then (s, Entry_form (Some ''Invalid or missing CSRF token. Please try again.'')
                 (formatted_or_empty (normalizeUserCode rawCode)) 403, [])
      else
        (let ip = ipRateLimitKey (q_ip rq) in
         case reserveFailedEntry now ip (failedEntries s) of
           (ws, None) \<Rightarrow>
             (s\<lparr>failedEntries := ws\<rparr>, Entry_form (Some ''Too many attempts. Please wait and try again.'') [] 429, [])
         | (ws, Some start) \<Rightarrow>
             (let s1 = s\<lparr>failedEntries := ws\<rparr>;
                  released = s1\<lparr>failedEntries := release_entry ip start ws\<rparr>;
                  userCode = normalizeUserCode rawCode in
              if userCode = [] then (released, Entry_form None [] 200, [])
              else (case List.find (enterable now userCode) (deviceCodes s1) of
                None \<Rightarrow> (s1, Entry_form (Some ''Invalid or expired code. Please try again.'') [] 200, [])
              | Some d \<Rightarrow>
                  (let fresh = requestsFreshSignIn (lookupResourceServer released (dv_resource d)) (dv_scopes d) in
                   case create_row ar_handle (device_request_row (fr_handle fr) fresh userCode d)
                          (authRequests released) of
                     None \<Rightarrow> (released, Entry_reply Fault, [])
                   | Some rows \<Rightarrow>
                       (case dispatch_sign_in e pv now (fr_handle fr) fr fresh
                               (released\<lparr>authRequests := rows\<rparr>) of
                          (s2, rep) \<Rightarrow>
                            (s2, Entry_reply rep,
                             [bindFlow e rq (fr_handle fr), clearSignedCookie e ''csrf_device''])))))))"

definition device_entry_post ::
    "env \<Rightarrow> provider \<Rightarrow> time_ms \<Rightarrow> flow_rand \<Rightarrow> request \<Rightarrow> 'a proxy_state_scheme \<Rightarrow>
     'a proxy_state_scheme \<times> entry_reply \<times> cookie_op list" where
  "device_entry_post e pv now fr rq s =
     startDeviceConsent e pv now fr rq
       (case stringField (bodyOf (q_body rq)) ''user_code'' of None \<Rightarrow> [] | Some c \<Rightarrow> c) s"

text \<open>The GET only fills the form.\<close>

definition device_entry_get :: "request \<Rightarrow> entry_reply" where
  "device_entry_get rq =
     (let raw = (case as_string (map_of (q_query rq) ''user_code'') of None \<Rightarrow> [] | Some c \<Rightarrow> c);
          normalized = take 8 (normalizeUserCode raw) in
      Entry_form None (formatted_or_empty normalized) 200)"

section \<open>Facts\<close>

lemma alphabet_chars: "c \<in> set USER_CODE_ALPHABET \<Longrightarrow> (is_upper c \<or> is_digit c) \<and> upper_char c = c"
proof -
  have "\<forall>c \<in> set USER_CODE_ALPHABET. (is_upper c \<or> is_digit c) \<and> upper_char c = c"
    by code_simp
  then show "c \<in> set USER_CODE_ALPHABET \<Longrightarrow> (is_upper c \<or> is_digit c) \<and> upper_char c = c" by blast
qed

lemma alphabet_length: "length USER_CODE_ALPHABET = 31"
  by (simp add: USER_CODE_ALPHABET_def)

lemma generateUserCode_chars:
  assumes "c \<in> set (generateUserCode bytes)"
  shows "c \<in> set USER_CODE_ALPHABET"
proof -
  from assms obtain b where c: "c = USER_CODE_ALPHABET ! (b mod length USER_CODE_ALPHABET)"
    unfolding generateUserCode_def set_map by (elim imageE) simp
  have "0 < length USER_CODE_ALPHABET" by (simp add: alphabet_length)
  then have "b mod length USER_CODE_ALPHABET < length USER_CODE_ALPHABET" by (rule mod_less_divisor)
  then have "USER_CODE_ALPHABET ! (b mod length USER_CODE_ALPHABET) \<in> set USER_CODE_ALPHABET"
    by (rule nth_mem)
  then show ?thesis by (simp only: c)
qed

lemma normalize_append: "normalizeUserCode (a @ b) = normalizeUserCode a @ normalizeUserCode b"
  by (simp add: normalizeUserCode_def to_upper_def)

lemma normalize_id:
  assumes "set c \<subseteq> set USER_CODE_ALPHABET"
  shows "normalizeUserCode c = c"
  using assms
proof (induction c)
  case (Cons x c)
  then have "upper_char x = x \<and> (is_upper x \<or> is_digit x)" using alphabet_chars by auto
  with Cons show ?case by (simp add: normalizeUserCode_def to_upper_def)
qed (simp add: normalizeUserCode_def to_upper_def)

lemma normalize_dash: "normalizeUserCode ''-'' = []"
  by code_simp

lemma upper_lower_char: "is_upper c \<or> is_digit c \<Longrightarrow> upper_char (lower_char c) = c"
proof -
  assume "is_upper c \<or> is_digit c"
  moreover have "code (char_of (code c + 32)) = code c + 32" if "is_upper c"
    using that by (intro code_char_of) (auto simp: is_upper_def in_range_def code_def)
  moreover have "char_of (code c) = c" by (simp add: code_def)
  ultimately show ?thesis
    by (auto simp: upper_char_def lower_char_def is_lower_def is_upper_def is_digit_def in_range_def)
      (auto simp: code_def)
qed

text \<open>A user may type the code in any case, with or without the dash.\<close>

lemma normalize_typed:
  assumes "set c \<subseteq> set USER_CODE_ALPHABET"
  shows "normalizeUserCode (formatUserCode c) = c" and "normalizeUserCode (to_lower c) = c"
proof -
  have "set (take 4 c) \<subseteq> set USER_CODE_ALPHABET" "set (drop 4 c) \<subseteq> set USER_CODE_ALPHABET"
    using assms by (auto dest: in_set_takeD in_set_dropD)
  then have "normalizeUserCode (take 4 c) = take 4 c" "normalizeUserCode (drop 4 c) = drop 4 c"
    by (blast intro: normalize_id)+
  then show "normalizeUserCode (formatUserCode c) = c"
    by (simp only: formatUserCode_def normalize_append normalize_dash append_Nil append_take_drop_id)
  show "normalizeUserCode (to_lower c) = c"
    using assms
  proof (induction c)
    case (Cons x c)
    then have "upper_char (lower_char x) = x \<and> (is_upper x \<or> is_digit x)"
      using alphabet_chars upper_lower_char by auto
    with Cons show ?case by (simp add: normalizeUserCode_def to_upper_def to_lower_def)
  qed (simp add: normalizeUserCode_def to_upper_def to_lower_def)
qed

end
