(* ===== verification/LocalAccounts.thy ===== *)
theory LocalAccounts
  imports Authorize
begin

text \<open>
  \<^verbatim>\<open>identity/local-accounts.ts\<close>, \<^verbatim>\<open>password-policy.ts\<close>, \<^verbatim>\<open>device-cookie.ts\<close> and
  \<^verbatim>\<open>local-accounts-router.ts\<close>: the login throttle, the accounts, and the handlers of /setup,
  /auth/login and /auth/password.  bcrypt is a parameter of the environment; identifiers the database
  draws and the salt of a hash are arguments.  Characters are bytes here, so the byte length of a
  password is its length and NFKC does nothing.
\<close>

section \<open>Passwords and names\<close>

definition MIN_PASSWORD_LENGTH :: nat where "MIN_PASSWORD_LENGTH = 12"
definition MAX_PASSWORD_BYTES :: nat where "MAX_PASSWORD_BYTES = 72"

datatype password_issue = Too_short | Too_long

definition passwordProblem :: "string \<Rightarrow> password_issue option" where
  "passwordProblem p =
     (if length p < MIN_PASSWORD_LENGTH then Some Too_short
      else if MAX_PASSWORD_BYTES < length p then Some Too_long else None)"

definition normalizeUsername :: "string \<Rightarrow> string" where
  "normalizeUsername raw = to_lower (trim raw)"

section \<open>The throttle\<close>

definition MAX_IP_FAILURES :: nat where "MAX_IP_FAILURES = 5"
definition MAX_USERNAME_FAILURES :: nat where "MAX_USERNAME_FAILURES = 10"
definition MAX_PASSWORD_CHANGE_FAILURES :: nat where "MAX_PASSWORD_CHANGE_FAILURES = 5"
definition MAX_DEVICE_COOKIE_FAILURES :: nat where "MAX_DEVICE_COOKIE_FAILURES = 5"
definition MAX_THROTTLE_KEY_LENGTH :: nat where "MAX_THROTTLE_KEY_LENGTH = 256"
definition FAILURE_WINDOW_MS :: int where "FAILURE_WINDOW_MS = 15 * 60 * 1000"

definition IP_LIMITED_KINDS :: "login_failure_kind list" where
  "IP_LIMITED_KINDS = [LF_login, LF_device, LF_setup]"

record attempt_limits =
  al_kind :: login_failure_kind
  al_ip :: string
  al_maxPerIp :: "nat option"
  al_key :: "string option"
  al_maxPerKey :: "nat option"

record attempt_slot =
  at_id :: nat
  at_kind :: login_failure_kind
  at_key :: "string option"

definition throttle_ip :: "attempt_limits \<Rightarrow> string" where
  "throttle_ip l = (if al_maxPerIp l \<noteq> None then ipRateLimitKey (Some (al_ip l)) else al_ip l)"

definition throttle_key :: "attempt_limits \<Rightarrow> string option" where
  "throttle_key l = map_option (take MAX_THROTTLE_KEY_LENGTH) (al_key l)"

definition counts_for_ip :: "time_ms \<Rightarrow> string \<Rightarrow> login_failure \<Rightarrow> bool" where
  "counts_for_ip since ip f \<longleftrightarrow> lf_kind f \<in> set IP_LIMITED_KINDS \<and> lf_ip f = ip \<and> since \<le> lf_failedAt f"

definition counts_for_key :: "time_ms \<Rightarrow> login_failure_kind \<Rightarrow> string \<Rightarrow> login_failure \<Rightarrow> bool" where
  "counts_for_key since kind key f \<longleftrightarrow>
     lf_kind f = kind \<and> lf_username f = Some key \<and> since \<le> lf_failedAt f"

text \<open>Counted and recorded in one transaction under the locks of its keys; \<open>newId\<close> is the next value of
  the row sequence.  \<^const>\<open>None\<close> refuses the attempt.\<close>

definition reserveAttempt ::
    "time_ms \<Rightarrow> nat \<Rightarrow> attempt_limits \<Rightarrow> 'a db_scheme \<Rightarrow> 'a db_scheme \<times> attempt_slot option" where
  "reserveAttempt now newId l s =
     (let since = now - FAILURE_WINDOW_MS; ip = throttle_ip l; key = throttle_key l in
      if (case al_maxPerIp l of None \<Rightarrow> False
          | Some m \<Rightarrow> m \<le> count_rows (counts_for_ip since ip) (loginFailures s))
      then (s, None)
      else if (case (key, al_maxPerKey l) of
                 (Some k, Some m) \<Rightarrow> m \<le> count_rows (counts_for_key since (al_kind l) k) (loginFailures s)
               | _ \<Rightarrow> False)
      then (s, None)
      else (s\<lparr>loginFailures := loginFailures s @
               [\<lparr>lf_id = newId, lf_kind = al_kind l, lf_ip = ip, lf_username = key, lf_failedAt = now\<rparr>]\<rparr>,
            Some \<lparr>at_id = newId, at_kind = al_kind l, at_key = key\<rparr>))"

definition login_limits :: "string \<Rightarrow> string \<Rightarrow> attempt_limits" where
  "login_limits ip username =
     \<lparr>al_kind = LF_login, al_ip = ip, al_maxPerIp = Some MAX_IP_FAILURES,
      al_key = Some username, al_maxPerKey = Some MAX_USERNAME_FAILURES\<rparr>"

definition device_limits :: "string \<Rightarrow> string \<Rightarrow> attempt_limits" where
  "device_limits ip nonce =
     \<lparr>al_kind = LF_device, al_ip = ip, al_maxPerIp = Some MAX_IP_FAILURES,
      al_key = Some nonce, al_maxPerKey = Some MAX_DEVICE_COOKIE_FAILURES\<rparr>"

definition password_change_limits :: "string \<Rightarrow> attempt_limits" where
  "password_change_limits userId =
     \<lparr>al_kind = LF_password_change, al_ip = ''pwchange'', al_maxPerIp = None,
      al_key = Some userId, al_maxPerKey = Some MAX_PASSWORD_CHANGE_FAILURES\<rparr>"

definition ip_limits :: "string \<Rightarrow> attempt_limits" where
  "ip_limits ip =
     \<lparr>al_kind = LF_setup, al_ip = ip, al_maxPerIp = Some MAX_IP_FAILURES,
      al_key = None, al_maxPerKey = None\<rparr>"

definition settled :: "attempt_slot \<Rightarrow> login_failure \<Rightarrow> bool" where
  "settled slot f \<longleftrightarrow>
     lf_id f = at_id slot \<or>
     (case at_key slot of
        None \<Rightarrow> False | Some k \<Rightarrow> lf_kind f = at_kind slot \<and> lf_username f = Some k)"

definition endAttempt :: "attempt_slot \<Rightarrow> bool \<Rightarrow> 'a metrics_state_scheme \<Rightarrow> 'a metrics_state_scheme" where
  "endAttempt slot success s =
     (if \<not> success then incrementCounter ''local_login_failures_total'' [] s
      else s\<lparr>loginFailures := delete_many (settled slot) (loginFailures s)\<rparr>)"

definition pruneLoginFailures :: "time_ms \<Rightarrow> 'a db_scheme \<Rightarrow> 'a db_scheme" where
  "pruneLoginFailures now s =
     s\<lparr>loginFailures := delete_many (\<lambda>f. lf_failedAt f < now - FAILURE_WINDOW_MS) (loginFailures s)\<rparr>"

section \<open>Accounts\<close>

datatype account_error =
    Username_required | Password_too_long | Username_taken | Invalid_credentials | Account_deactivated
  | No_local_account | Current_password_incorrect

definition localAccountsExist :: "'a db_scheme \<Rightarrow> bool" where
  "localAccountsExist s \<longleftrightarrow> localUsers s \<noteq> []"

definition hashPassword :: "env \<Rightarrow> string \<Rightarrow> string \<Rightarrow> string option" where
  "hashPassword e salt p = (if MAX_PASSWORD_BYTES < length p then None else Some (e_bcrypt_hash e salt p))"

text \<open>The random values of an account: the identifiers of its rows and the salt.\<close>

record account_rand =
  acr_userId :: string
  acr_localId :: string
  acr_salt :: string

definition new_user :: "string \<Rightarrow> string \<Rightarrow> user" where
  "new_user i email =
     \<lparr>u_id = i, u_oidcSub = None, u_oidcIssuer = None, u_email = email, u_deactivatedAt = None,
      u_sessionEpoch = 0, u_deviceEpoch = 0, u_lastKnownClaims = None,
      u_upstreamRefreshToken = None, u_upstreamCheckedAt = None\<rparr>"

definition createLocalUser ::
    "env \<Rightarrow> account_rand \<Rightarrow> string \<Rightarrow> string \<Rightarrow> 'a db_scheme \<Rightarrow> 'a db_scheme \<times> (account_error + string)" where
  "createLocalUser e rnd rawName password s =
     (let username = normalizeUsername rawName in
      if username = [] then (s, Inl Username_required)
      else case hashPassword e (acr_salt rnd) password of
        None \<Rightarrow> (s, Inl Password_too_long)
      | Some h \<Rightarrow>
          (case (create_row u_id (new_user (acr_userId rnd) username) (users s),
                 create_row lu_username
                   \<lparr>lu_id = acr_localId rnd, lu_username = username, lu_passwordHash = h,
                    lu_lastLoginAt = None, lu_isActive = True, lu_isAdmin = False,
                    lu_userId = acr_userId rnd\<rparr> (localUsers s)) of
             (Some us, Some ls) \<Rightarrow> (s\<lparr>users := us, localUsers := ls\<rparr>, Inr (acr_userId rnd))
           | _ \<Rightarrow> (s, Inl Username_taken)))"

text \<open>The outer \<^const>\<open>None\<close>: an account exists already.\<close>

definition createFirstLocalUser ::
    "env \<Rightarrow> account_rand \<Rightarrow> string \<Rightarrow> string \<Rightarrow> 'a db_scheme \<Rightarrow>
     'a db_scheme \<times> (account_error + string) option" where
  "createFirstLocalUser e rnd username password s =
     (if localAccountsExist s then (s, None)
      else (case createLocalUser e rnd username password s of (s', r) \<Rightarrow> (s', Some r)))"

definition user_deactivated :: "'a db_scheme \<Rightarrow> string \<Rightarrow> bool" where
  "user_deactivated s userId \<longleftrightarrow>
     (case row_of u_id userId (users s) of None \<Rightarrow> False | Some u \<Rightarrow> u_deactivatedAt u \<noteq> None)"

definition validateLocalUser ::
    "env \<Rightarrow> time_ms \<Rightarrow> string \<Rightarrow> string \<Rightarrow> 'a db_scheme \<Rightarrow> 'a db_scheme \<times> (account_error + string)" where
  "validateLocalUser e now rawName password s =
     (case row_of lu_username (normalizeUsername rawName) (localUsers s) of
        None \<Rightarrow> (s, Inl Invalid_credentials)
      | Some l \<Rightarrow>
          if \<not> lu_isActive l \<or> user_deactivated s (lu_userId l) then (s, Inl Account_deactivated)
          else if \<not> e_bcrypt_compare e password (lu_passwordHash l) then (s, Inl Invalid_credentials)
          else (s\<lparr>localUsers := update_many (\<lambda>x. lu_id x = lu_id l)
                    (\<lambda>x. x\<lparr>lu_lastLoginAt := Some now\<rparr>) (localUsers s)\<rparr>, Inr (lu_userId l)))"

text \<open>The new session epoch, or why not.  (A user row that is gone makes the transaction fail; the
  local account refers to it, so it is there.)\<close>

definition changePassword ::
    "env \<Rightarrow> string \<Rightarrow> string \<Rightarrow> string \<Rightarrow> string \<Rightarrow> 'a db_scheme \<Rightarrow> 'a db_scheme \<times> (account_error + nat)" where
  "changePassword e salt userId current newPassword s =
     (case row_of lu_userId userId (localUsers s) of
        None \<Rightarrow> (s, Inl No_local_account)
      | Some l \<Rightarrow>
          if \<not> e_bcrypt_compare e current (lu_passwordHash l) then (s, Inl Current_password_incorrect)
          else (case (hashPassword e salt newPassword, row_of u_id userId (users s)) of
            (Some h, Some u) \<Rightarrow>
              (s\<lparr>localUsers := update_many (\<lambda>x. lu_id x = lu_id l) (\<lambda>x. x\<lparr>lu_passwordHash := h\<rparr>) (localUsers s),
                 users := update_many (\<lambda>x. u_id x = userId)
                   (\<lambda>x. x\<lparr>u_sessionEpoch := Suc (u_sessionEpoch x), u_deviceEpoch := Suc (u_deviceEpoch x)\<rparr>)
                   (users s)\<rparr>,
               Inr (Suc (u_sessionEpoch u)))
          | _ \<Rightarrow> (s, Inl Password_too_long)))"

section \<open>Device cookies\<close>

definition DEVICE_COOKIE_TTL_MS :: int where "DEVICE_COOKIE_TTL_MS = 180 * 24 * 60 * 60 * 1000"

definition userTag :: "env \<Rightarrow> string \<Rightarrow> string" where
  "userTag e username = take 32 (e_hmac e (''device-cookie-user'' @ CHR 0x00 # username))"

definition device_cookie_value :: "string \<Rightarrow> nat \<Rightarrow> string \<Rightarrow> time_ms \<Rightarrow> string" where
  "device_cookie_value tag epoch nonce now =
     join ''.'' [''d1'', tag, show_nat epoch, nonce, show_nat (nat now)]"

definition issueDeviceCookie :: "env \<Rightarrow> time_ms \<Rightarrow> string \<Rightarrow> string \<Rightarrow> nat \<Rightarrow> cookie_op" where
  "issueDeviceCookie e now nonce username epoch =
     setSignedCookie e (''device_'' @ userTag e username)
       (device_cookie_value (userTag e username) epoch nonce now) Lax DEVICE_COOKIE_TTL_MS"

text \<open>The pattern of a value: tag, epoch, nonce and time of issue.\<close>

definition parse_device_cookie :: "string \<Rightarrow> (string \<times> nat \<times> string \<times> time_ms) option" where
  "parse_device_cookie v =
     (case split_on CHR ''.'' v of
        [d1, tag, epoch, nonce, issued] \<Rightarrow>
          if d1 = ''d1'' \<and> is_flow_hash tag \<and> digits_upto 9 epoch \<and> is_flow_hash nonce \<and> digits_upto 15 issued
          then Some (tag, number_of epoch, nonce, int (number_of issued)) else None
      | _ \<Rightarrow> None)"

definition validDeviceCookieNonce ::
    "env \<Rightarrow> time_ms \<Rightarrow> request \<Rightarrow> string \<Rightarrow> 'a db_scheme \<Rightarrow> string option" where
  "validDeviceCookieNonce e now rq username s =
     (let tag = userTag e username in
      case readSignedCookie e rq (''device_'' @ tag) of
        None \<Rightarrow> None
      | Some v \<Rightarrow>
          (case parse_device_cookie v of
             None \<Rightarrow> None
           | Some (tag', epoch, nonce, issued) \<Rightarrow>
               if tag' \<noteq> tag \<or> now - issued < 0 \<or> DEVICE_COOKIE_TTL_MS < now - issued then None
               else (case row_of lu_username username (localUsers s) of
                  None \<Rightarrow> None
                | Some l \<Rightarrow>
                    (case row_of u_id (lu_userId l) (users s) of
                       None \<Rightarrow> None
                     | Some u \<Rightarrow>
                         if lu_isActive l \<and> u_deactivatedAt u = None \<and> u_deviceEpoch u = epoch
                         then Some nonce else None))))"

end
