(* ===== verification/LocalRouter.thy ===== *)
theory LocalRouter
  imports LocalAccounts
begin

text \<open>
  \<^verbatim>\<open>identity/local-accounts-router.ts\<close>: /setup, /auth/login, /auth/account and /auth/password.  A
  handler returns the state, the reply and the cookies it sets, in order.  The two awaited steps of
  a login, the recording of the attempt and the check of the password, are functions of their own,
  so that attempts can be interleaved.
\<close>

definition NOT_FOUND :: reply where "NOT_FOUND = Message 404 ''Not found''"

definition THROTTLE_MESSAGE :: string where
  "THROTTLE_MESSAGE = ''Too many failed attempts. Please wait 15 minutes.''"

text \<open>The random values of one request.\<close>

record login_rand =
  lr_attemptId :: nat
  lr_csrf :: string
  lr_nonce :: string

section \<open>Setup\<close>

definition field_or_empty :: "body \<Rightarrow> string \<Rightarrow> string" where
  "field_or_empty b k = (case stringField b k of None \<Rightarrow> [] | Some v \<Rightarrow> v)"

definition ip_or_unknown :: "request \<Rightarrow> string" where
  "ip_or_unknown rq = (case q_ip rq of None \<Rightarrow> ''unknown'' | Some a \<Rightarrow> a)"

definition setupTokenMatches :: "env \<Rightarrow> string \<Rightarrow> string \<Rightarrow> bool" where
  "setupTokenMatches e given expected \<longleftrightarrow> e_sha256 e given = e_sha256 e expected"

definition setup_form :: "env \<Rightarrow> login_rand \<Rightarrow> nat \<Rightarrow> reply \<times> cookie_op list" where
  "setup_form e lr status = (View status ''setup'', [snd (issueCsrfToken e ''csrf_setup'' (lr_csrf lr))])"

definition setup_get :: "env \<Rightarrow> login_rand \<Rightarrow> 'a db_scheme \<Rightarrow> reply \<times> cookie_op list" where
  "setup_get e lr s = (if localAccountsExist s then (NOT_FOUND, []) else setup_form e lr 200)"

text \<open>The setup token, when one is configured: guesses are throttled like a login.\<close>

definition setup_token_stage ::
    "env \<Rightarrow> time_ms \<Rightarrow> login_rand \<Rightarrow> request \<Rightarrow> 'a metrics_state_scheme \<Rightarrow>
     'a metrics_state_scheme \<times> nat option" where
  "setup_token_stage e now lr rq s =
     (case e_setupToken e of
        None \<Rightarrow> (s, None)
      | Some expected \<Rightarrow>
          (case reserveAttempt now (lr_attemptId lr) (ip_limits (ip_or_unknown rq)) s of
             (s1, None) \<Rightarrow> (s1, Some 429)
           | (s1, Some slot) \<Rightarrow>
               (let ok = setupTokenMatches e (field_or_empty (bodyOf (q_body rq)) ''setup_token'') expected in
                (endAttempt slot ok s1, if ok then None else Some 403))))"

definition setup_fields_ok :: "body \<Rightarrow> bool" where
  "setup_fields_ok b \<longleftrightarrow>
     normalizeUsername (field_or_empty b ''username'') \<noteq> [] \<and>
     passwordProblem (field_or_empty b ''password'') = None \<and>
     field_or_empty b ''password'' = field_or_empty b ''confirm_password''"

definition setup_post ::
    "env \<Rightarrow> time_ms \<Rightarrow> login_rand \<Rightarrow> account_rand \<Rightarrow> request \<Rightarrow> 'a metrics_state_scheme \<Rightarrow>
     'a metrics_state_scheme \<times> reply \<times> cookie_op list" where
  "setup_post e now lr rnd rq s =
     (if localAccountsExist s then (s, NOT_FOUND, [])
      else if \<not> verifyCsrfToken e rq ''csrf_setup'' then (s, View 403 ''setup'', [])
      else (case setup_token_stage e now lr rq s of
        (s1, Some status) \<Rightarrow> (s1, setup_form e lr status)
      | (s1, None) \<Rightarrow>
          (let b = bodyOf (q_body rq); username = normalizeUsername (field_or_empty b ''username'') in
           if \<not> setup_fields_ok b then (s1, setup_form e lr 200)
           else (case createFirstLocalUser e rnd username (field_or_empty b ''password'') s1 of
             (s2, None) \<Rightarrow> (s2, NOT_FOUND, [])
           | (s2, Some (Inl _)) \<Rightarrow> (s2, setup_form e lr 200)
           | (s2, Some (Inr userId)) \<Rightarrow>
               (case startSession e now userId s2 of
                  None \<Rightarrow> (s2, Fault, [clearSignedCookie e ''csrf_setup''])
                | Some ck \<Rightarrow>
                    (s2, Redirect_path ''/auth/account'', [clearSignedCookie e ''csrf_setup'', ck]))))))"

section \<open>Login\<close>

definition login_form :: "env \<Rightarrow> login_rand \<Rightarrow> nat \<Rightarrow> reply \<times> cookie_op list" where
  "login_form e lr status = (View status ''login'', [snd (issueCsrfToken e ''csrf_login'' (lr_csrf lr))])"

definition login_get :: "env \<Rightarrow> login_rand \<Rightarrow> reply \<times> cookie_op list" where
  "login_get e lr = login_form e lr 200"

text \<open>The attempt: by a browser that proves an earlier login with a device cookie, or by any other.\<close>

definition login_attempt ::
    "env \<Rightarrow> time_ms \<Rightarrow> login_rand \<Rightarrow> request \<Rightarrow> string \<Rightarrow> 'a db_scheme \<Rightarrow> 'a db_scheme \<times> attempt_slot option" where
  "login_attempt e now lr rq username s =
     (case validDeviceCookieNonce e now rq username s of
        Some nonce \<Rightarrow> reserveAttempt now (lr_attemptId lr) (device_limits (ip_or_unknown rq) nonce) s
      | None \<Rightarrow> reserveAttempt now (lr_attemptId lr) (login_limits (ip_or_unknown rq) username) s)"

text \<open>Where a login that names a flow goes: the subject is written to a request that has not expired.\<close>

definition continue_flow ::
    "time_ms \<Rightarrow> string option \<Rightarrow> string \<Rightarrow> 'a db_scheme \<Rightarrow> 'a db_scheme \<times> reply" where
  "continue_flow now flow userId s =
     (case truthy flow of
        None \<Rightarrow> (s, Redirect_path ''/auth/account'')
      | Some h \<Rightarrow>
          (case row_of ar_handle h (authRequests s) of
             None \<Rightarrow> (s, Redirect_path ''/auth/account'')
           | Some r \<Rightarrow>
               if ar_expiresAt r \<le> now then (s, Redirect_path ''/auth/account'')
               else (s\<lparr>authRequests := update_many (\<lambda>x. ar_handle x = h)
                         (\<lambda>x. x\<lparr>ar_subject := Some userId\<rparr>) (authRequests s)\<rparr>,
                     if isSelfLogin r then Redirect_path (selfLoginReturnPath (ar_state r))
                     else Redirect_path (''/oauth/consent?flow='' @ h))))"

text \<open>After the password was found right.\<close>

definition login_success ::
    "env \<Rightarrow> time_ms \<Rightarrow> login_rand \<Rightarrow> string option \<Rightarrow> string \<Rightarrow> string \<Rightarrow> 'a db_scheme \<Rightarrow>
     'a db_scheme \<times> reply \<times> cookie_op list" where
  "login_success e now lr flow username userId s =
     (case row_of u_id userId (users s) of
        None \<Rightarrow> (s, Fault, [clearSignedCookie e ''csrf_login''])
      | Some u \<Rightarrow>
          (case continue_flow now flow userId s of (s', rep) \<Rightarrow>
             (s', rep,
              [clearSignedCookie e ''csrf_login'', setSession e now userId (u_sessionEpoch u),
               markReauthenticated e now userId,
               issueDeviceCookie e now (lr_nonce lr) username (u_deviceEpoch u)])))"

definition login_post ::
    "env \<Rightarrow> time_ms \<Rightarrow> login_rand \<Rightarrow> request \<Rightarrow> 'a metrics_state_scheme \<Rightarrow>
     'a metrics_state_scheme \<times> reply \<times> cookie_op list" where
  "login_post e now lr rq s =
     (let b = bodyOf (q_body rq); flow = stringField b ''flow'';
          username = normalizeUsername (field_or_empty b ''username'') in
      if \<not> verifyCsrfToken e rq ''csrf_login'' then (s, login_form e lr 403)
      else if (case truthy flow of None \<Rightarrow> False | Some h \<Rightarrow> \<not> isFlowBound e rq h)
      then (s, Message 400 ''This sign-in must be completed in the browser that started it. Please return to the application and try again.'', [])
      else (case login_attempt e now lr rq username s of
        (s1, None) \<Rightarrow> (s1, login_form e lr 429)
      | (s1, Some slot) \<Rightarrow>
          (case validateLocalUser e now username (field_or_empty b ''password'') s1 of
             (s2, Inl _) \<Rightarrow> (endAttempt slot False s2, login_form e lr 200)
           | (s2, Inr userId) \<Rightarrow> login_success e now lr flow username userId (endAttempt slot True s2))))"

section \<open>The account page and the password change\<close>

definition account_page ::
    "env \<Rightarrow> login_rand \<Rightarrow> request \<Rightarrow> string \<Rightarrow> nat \<Rightarrow> reply \<times> cookie_op list" where
  "account_page e lr rq userId status =
     (View status ''account'',
      [snd (issueBoundCsrfToken e rq ''csrf_password'' ''password-change'' userId (lr_csrf lr)),
       snd (issueBoundCsrfToken e rq ''csrf_logout'' ''logout'' userId (lr_csrf lr))])"

definition account_get ::
    "env \<Rightarrow> time_ms \<Rightarrow> login_rand \<Rightarrow> request \<Rightarrow> 'a db_scheme \<Rightarrow> reply \<times> cookie_op list" where
  "account_get e now lr rq s =
     (case getSessionUserId e now rq s of
        None \<Rightarrow> (Redirect_path ''/auth/login'', [])
      | Some userId \<Rightarrow>
          (case row_of lu_userId userId (localUsers s) of
             None \<Rightarrow> (Redirect_path ''/auth/login'', clearSession e)
           | Some _ \<Rightarrow> account_page e lr rq userId 200))"

definition password_fields_ok :: "body \<Rightarrow> bool" where
  "password_fields_ok b \<longleftrightarrow>
     passwordProblem (field_or_empty b ''new_password'') = None \<and>
     field_or_empty b ''new_password'' = field_or_empty b ''confirm_new_password''"

definition password_post ::
    "env \<Rightarrow> time_ms \<Rightarrow> login_rand \<Rightarrow> string \<Rightarrow> request \<Rightarrow> 'a metrics_state_scheme \<Rightarrow>
     'a metrics_state_scheme \<times> reply \<times> cookie_op list" where
  "password_post e now lr salt rq s =
     (case getSessionUserId e now rq s of
        None \<Rightarrow> (s, Redirect_path ''/auth/login'', [])
      | Some userId \<Rightarrow>
          (case row_of lu_userId userId (localUsers s) of
             None \<Rightarrow> (s, Redirect_path ''/auth/login'', clearSession e)
           | Some _ \<Rightarrow>
               if \<not> verifyBoundCsrfToken e rq ''csrf_password'' ''password-change'' userId
               then (s, account_page e lr rq userId 403)
               else
                 (let b = bodyOf (q_body rq) in
                  if \<not> password_fields_ok b then (s, account_page e lr rq userId 200)
                  else (case reserveAttempt now (lr_attemptId lr) (password_change_limits userId) s of
                    (s1, None) \<Rightarrow> (s1, account_page e lr rq userId 429)
                  | (s1, Some slot) \<Rightarrow>
                      (case changePassword e salt userId (field_or_empty b ''current_password'')
                              (field_or_empty b ''new_password'') s1 of
                         (s2, Inl _) \<Rightarrow> (endAttempt slot False s2, account_page e lr rq userId 200)
                       | (s2, Inr epoch) \<Rightarrow>
                           (case account_page e lr rq userId 200 of (rep, cks) \<Rightarrow>
                              (endAttempt slot True s2, rep, setSession e now userId epoch # cks)))))))"

end
