(* ===== verification/OidcCallback.thy ===== *)
theory OidcCallback
  imports Authorize
begin

text \<open>
  \<^verbatim>\<open>handleUpstreamCallback\<close> of \<^verbatim>\<open>identity/oidc.ts\<close> and \<^verbatim>\<open>identity/oidc-router.ts\<close>.  The callback is
  split at its call to the provider: \<open>callback_claim\<close> finds the request and consumes its upstream
  state, \<open>callback_finish\<close> stores what the provider answered.  The answer is a function of what the
  library is told to expect, an argument of the handler.
\<close>

text \<open>What \<^verbatim>\<open>authorizationCodeGrant\<close> is told to check.\<close>

record code_expect =
  ce_state :: string
  ce_nonce :: string
  ce_verifier :: string
  ce_maxAge :: "int option"

record code_answer =
  ca_claims :: "json option"
  ca_refreshToken :: "string option"

type_synonym exchange = "code_expect \<Rightarrow> code_answer option"

text \<open>The request the state belongs to, its upstream state consumed; \<^const>\<open>None\<close> when it throws.\<close>

definition with_upstream_state :: "string \<Rightarrow> string \<Rightarrow> auth_request \<Rightarrow> bool" where
  "with_upstream_state h st r \<longleftrightarrow> ar_handle r = h \<and> ar_upstreamState r = Some st"

definition callback_claim ::
    "env \<Rightarrow> time_ms \<Rightarrow> request \<Rightarrow> string option \<Rightarrow> 'a db_scheme \<Rightarrow>
     'a db_scheme \<times> (auth_request \<times> code_expect) option" where
  "callback_claim e now rq returnedState s =
     (case truthy returnedState of
        None \<Rightarrow> (s, None)
      | Some st \<Rightarrow>
          (case List.find (\<lambda>r. ar_upstreamState r = Some st) (authRequests s) of
             None \<Rightarrow> (s, None)
           | Some r \<Rightarrow>
               if ar_expiresAt r < now then (s, None)
               else (case (truthy (ar_upstreamNonce r), truthy (ar_upstreamVerifier r)) of
                 (Some nonce, Some verifier) \<Rightarrow>
                   if \<not> isFlowBound e rq (ar_handle r) then (s, None)
                   else if count_rows (with_upstream_state (ar_handle r) st) (authRequests s) \<noteq> 1
                   then (s\<lparr>authRequests := update_many (with_upstream_state (ar_handle r) st)
                             (\<lambda>x. x\<lparr>ar_upstreamState := None\<rparr>) (authRequests s)\<rparr>, None)
                   else (s\<lparr>authRequests := update_many (with_upstream_state (ar_handle r) st)
                             (\<lambda>x. x\<lparr>ar_upstreamState := None\<rparr>) (authRequests s)\<rparr>,
                         Some (r, \<lparr>ce_state = st, ce_nonce = nonce, ce_verifier = verifier,
                                   ce_maxAge = (if ar_requireFreshLogin r then Some FRESH_LOGIN_MAX_AGE_S
                                                else None)\<rparr>))
               | _ \<Rightarrow> (s, None))))"

text \<open>The insert or update of the user with this subject at this issuer.\<close>

definition oidc_key :: "user \<Rightarrow> string option \<times> string option" where
  "oidc_key u = (u_oidcSub u, u_oidcIssuer u)"

definition upsert_oidc_user ::
    "time_ms \<Rightarrow> string \<Rightarrow> string \<Rightarrow> string \<Rightarrow> json \<Rightarrow> string option \<Rightarrow> 'a db_scheme \<Rightarrow>
     ('a db_scheme \<times> user) option" where
  "upsert_oidc_user now newId sub issuer claims refreshToken s =
     (let key = (Some sub, Some issuer); email = emailFromClaims claims in
      case row_of oidc_key key (users s) of
        None \<Rightarrow>
          (let u = \<lparr>u_id = newId, u_oidcSub = Some sub, u_oidcIssuer = Some issuer,
                    u_email = (case email of Some m \<Rightarrow> m | None \<Rightarrow> []), u_deactivatedAt = None,
                    u_sessionEpoch = 0, u_deviceEpoch = 0, u_lastKnownClaims = Some (claimsToStore claims),
                    u_upstreamRefreshToken = truthy refreshToken, u_upstreamCheckedAt = Some now\<rparr> in
           map_option (\<lambda>us. (s\<lparr>users := us\<rparr>, u)) (create_row u_id u (users s)))
      | Some u \<Rightarrow>
          (let f = (\<lambda>x. x\<lparr>u_email := (case email of Some m \<Rightarrow> m | None \<Rightarrow> u_email x),
                          u_lastKnownClaims := Some (claimsToStore claims),
                          u_upstreamRefreshToken :=
                            (case truthy refreshToken of Some t \<Rightarrow> Some t | None \<Rightarrow> u_upstreamRefreshToken x),
                          u_upstreamCheckedAt := Some now\<rparr>) in
           Some (s\<lparr>users := update_many (\<lambda>x. oidc_key x = key) f (users s)\<rparr>, f u)))"

text \<open>What follows the provider's answer; the second component is the user signed in.\<close>

definition callback_finish ::
    "env \<Rightarrow> time_ms \<Rightarrow> string \<Rightarrow> auth_request \<Rightarrow> code_answer \<Rightarrow> 'a db_scheme \<Rightarrow> 'a db_scheme \<times> string option" where
  "callback_finish e now newId r ans s =
     (case (ca_claims ans, e_oidcIssuer e) of
        (Some claims, Some issuer) \<Rightarrow>
          (case subjectFromClaims e claims of
             None \<Rightarrow> (s, None)
           | Some sub \<Rightarrow>
               (case upsert_oidc_user now newId sub issuer claims (ca_refreshToken ans) s of
                  None \<Rightarrow> (s, None)
                | Some (s1, u) \<Rightarrow>
                    if u_deactivatedAt u \<noteq> None then (s1, None)
                    else if count_rows (\<lambda>x. ar_handle x = ar_handle r) (authRequests s1) = 0 then (s1, None)
                    else (s1\<lparr>authRequests := update_many (\<lambda>x. ar_handle x = ar_handle r)
                              (\<lambda>x. x\<lparr>ar_subject := Some (u_id u)\<rparr>) (authRequests s1)\<rparr>,
                          Some (u_id u))))
      | _ \<Rightarrow> (s, None))"

definition handleUpstreamCallback ::
    "env \<Rightarrow> provider \<Rightarrow> exchange \<Rightarrow> time_ms \<Rightarrow> string \<Rightarrow> request \<Rightarrow> string option \<Rightarrow>
     'a upstream_state_scheme \<Rightarrow> 'a upstream_state_scheme \<times> (string \<times> string) option" where
  "handleUpstreamCallback e pv ex now newId rq returnedState s =
     (case getOidcConfig e pv now s of
        (s1, None) \<Rightarrow> (s1, None)
      | (s1, Some _) \<Rightarrow>
          (case callback_claim e now rq returnedState s1 of
             (s2, None) \<Rightarrow> (s2, None)
           | (s2, Some (r, expect)) \<Rightarrow>
               (case ex expect of
                  None \<Rightarrow> (s2, None)
                | Some ans \<Rightarrow>
                    (case callback_finish e now newId r ans s2 of
                       (s3, None) \<Rightarrow> (s3, None)
                     | (s3, Some userId) \<Rightarrow> (s3, Some (ar_handle r, userId))))))"

definition SIGN_IN_FAILED :: reply where
  "SIGN_IN_FAILED = Message 400 ''The sign-in could not be completed. Please return to the application and try again.''"

definition oauth_callback ::
    "env \<Rightarrow> provider \<Rightarrow> exchange \<Rightarrow> time_ms \<Rightarrow> string \<Rightarrow> request \<Rightarrow> string option \<Rightarrow>
     'a upstream_state_scheme \<Rightarrow> 'a upstream_state_scheme \<times> reply \<times> cookie_op list" where
  "oauth_callback e pv ex now newId rq returnedState s =
     (case handleUpstreamCallback e pv ex now newId rq returnedState s of
        (s1, None) \<Rightarrow> (s1, SIGN_IN_FAILED, [])
      | (s1, Some (handle, userId)) \<Rightarrow>
          (case row_of ar_handle handle (authRequests s1) of
             None \<Rightarrow> (s1, Fault, [])
           | Some r \<Rightarrow>
               (case startSession e now userId s1 of
                  None \<Rightarrow> (s1, Fault, [])
                | Some ck \<Rightarrow>
                    (s1,
                     if isSelfLogin r then Redirect_path (selfLoginReturnPath (ar_state r))
                     else Redirect_path (''/oauth/consent?flow='' @ handle),
                     ck # (if ar_requireFreshLogin r then [markReauthenticated e now userId] else [])))))"

end
