(* ===== verification/AdminAuth.thy ===== *)
theory AdminAuth
  imports Authorize
begin

text \<open>
  \<^verbatim>\<open>admin/auth.ts\<close>: who may use the admin pages, and whether a re-authentication is recent.
\<close>

definition local_admin :: "'a db_scheme \<Rightarrow> string \<Rightarrow> bool" where
  "local_admin s userId \<longleftrightarrow>
     (case row_of lu_userId userId (localUsers s) of
        None \<Rightarrow> False
      | Some l \<Rightarrow>
          lu_isAdmin l \<and> lu_isActive l \<and>
          (case row_of u_id userId (users s) of None \<Rightarrow> False | Some u \<Rightarrow> u_deactivatedAt u = None))"

definition isAdmin ::
    "env \<Rightarrow> provider \<Rightarrow> time_ms \<Rightarrow> string \<Rightarrow> 'a upstream_state_scheme \<Rightarrow> 'a upstream_state_scheme \<times> bool" where
  "isAdmin e pv now userId s =
     (if e_enableLocalAccounts e \<and> local_admin s userId then (s, True)
      else if e_enableOidc e \<and> e_adminGroups e \<noteq> []
      then (case recheckUpstream e pv now userId s of
              (s1, Some _) \<Rightarrow> (s1, False)
            | (s1, None) \<Rightarrow>
                (s1, groupsSatisfy (loadUserGroups (e_claimMap e) s1 userId) (Some (e_adminGroups e))))
      else (s, False))"

definition isRecentReauth :: "time_ms \<Rightarrow> time_ms option \<Rightarrow> bool" where
  "isRecentReauth now reauthAt \<longleftrightarrow>
     (case reauthAt of None \<Rightarrow> False | Some t \<Rightarrow> now - t \<le> FRESH_LOGIN_MAX_AGE_S * 1000)"

definition adminReturnPath :: "string option \<Rightarrow> string" where
  "adminReturnPath raw =
     (let path = selfLoginReturnPath raw in
      if path = ''/admin'' \<or> starts_with ''/admin/'' path \<or> starts_with ''/admin?'' path then path
      else ''/admin'')"

lemma isAdmin_frame:
  "isAdmin e pv now u s = (s', b) \<Longrightarrow> token_rows s' = token_rows s \<and> user_keys s' = user_keys s"
  by (auto simp: isAdmin_def split: if_splits prod.splits option.splits dest: recheck_frame)

end
