(* ===== verification/Grants.thy ===== *)
theory Grants
  imports AdminAuth LocalAccounts
begin

text \<open>
  \<^verbatim>\<open>oauth/grants.ts\<close>: sign-out, the list of a user's grants, the revocation of a grant, and the
  revocation endpoint of RFC 7009; and \<^verbatim>\<open>cleanup.ts\<close>.
\<close>

section \<open>The session of the account pages\<close>

text \<open>The signed-in user, or the reply that starts a sign-in.\<close>

definition grants_session ::
    "env \<Rightarrow> provider \<Rightarrow> time_ms \<Rightarrow> flow_rand \<Rightarrow> request \<Rightarrow> string \<Rightarrow> 'a proxy_state_scheme \<Rightarrow>
     'a proxy_state_scheme \<times> (reply \<times> cookie_op list + string)" where
  "grants_session e pv now fr rq returnTo s =
     (case truthy (getSessionUserId e now rq s) of
        Some userId \<Rightarrow> (s, Inr userId)
      | None \<Rightarrow>
          (case rowCreationRetryAfter now rq s of (s1, wait) \<Rightarrow>
             if 0 < wait then (s1, Inl (Message 429 ''Too many sign-in requests from this address. Please wait a minute and try again.'', []))
             else (case createSelfLoginRequest e now (fr_handle fr) returnTo False rq s1 of
               None \<Rightarrow> (s1, Inl (Fault, []))
             | Some (s2, ck) \<Rightarrow>
                 (case dispatch_sign_in e pv now (fr_handle fr) fr False s2 of
                    (s3, rep) \<Rightarrow> (s3, Inl (rep, [ck]))))))"

definition logout_post ::
    "env \<Rightarrow> time_ms \<Rightarrow> request \<Rightarrow> 'a db_scheme \<Rightarrow> 'a db_scheme \<times> reply \<times> cookie_op list" where
  "logout_post e now rq s =
     (case truthy (getSessionUserId e now rq s) of
        None \<Rightarrow> (s, Message 403 ''Invalid or missing CSRF token. Please reload the page and try again.'', [])
      | Some userId \<Rightarrow>
          if \<not> verifyBoundCsrfToken e rq ''csrf_logout'' ''logout'' userId
          then (s, Message 403 ''Invalid or missing CSRF token. Please reload the page and try again.'', [])
          else (revokeSessions userId s, Message 200 ''Your session has ended.'',
                clearSession e @ [clearSignedCookie e ''csrf_logout'']))"

section \<open>The list\<close>

record grant_view =
  gv_id :: string
  gv_clientName :: string
  gv_clientDomain :: "string option"
  gv_resourceServerName :: string
  gv_scopes :: "string list"
  gv_grantedAt :: time_ms

definition live_grants :: "'a db_scheme \<Rightarrow> string \<Rightarrow> grant list" where
  "live_grants s userId =
     rev (sort_key gr_grantedAt (rev (filter (\<lambda>g. gr_userId g = userId \<and> gr_revokedAt g = None) (grants s))))"

definition grant_view_of :: "env \<Rightarrow> oauth_client option \<Rightarrow> 'a registry_state_scheme \<Rightarrow> grant \<Rightarrow> grant_view" where
  "grant_view_of e client s g =
     \<lparr>gv_id = gr_id g,
      gv_clientName = (case client of
         None \<Rightarrow> gr_clientId g
       | Some c \<Rightarrow> (case member (oc_metadata c) ''client_name'' of Some (JStr n) \<Rightarrow> n | _ \<Rightarrow> gr_clientId g)),
      gv_clientDomain = hostnameOf (new_URL e) (gr_clientId g),
      gv_resourceServerName =
        (case lookupResourceServer s (gr_resource g) of None \<Rightarrow> gr_resource g | Some rs \<Rightarrow> rs_name rs),
      gv_scopes = gr_scopes g, gv_grantedAt = gr_grantedAt g\<rparr>"

text \<open>The clients are resolved one after the other here; the code starts them together.\<close>

fun grant_views ::
    "env \<Rightarrow> time_ms \<Rightarrow> grant list \<Rightarrow> 'a client_state_scheme \<Rightarrow> 'a client_state_scheme \<times> grant_view list" where
  "grant_views e now [] s = (s, [])"
| "grant_views e now (g # gs) s =
     (case resolveClient e now (gr_clientId g) s of (s1, client) \<Rightarrow>
        (case grant_views e now gs s1 of (s2, vs) \<Rightarrow> (s2, grant_view_of e client s1 g # vs)))"

datatype grants_page = Grants_reply reply "cookie_op list" | Grants_list "grant_view list" bool "cookie_op list"

definition grants_get ::
    "env \<Rightarrow> provider \<Rightarrow> time_ms \<Rightarrow> flow_rand \<Rightarrow> string \<Rightarrow> request \<Rightarrow> 'a proxy_state_scheme \<Rightarrow>
     'a proxy_state_scheme \<times> grants_page" where
  "grants_get e pv now fr nonce rq s =
     (case grants_session e pv now fr rq ''/grants'' s of
        (s1, Inl (rep, cks)) \<Rightarrow> (s1, Grants_reply rep cks)
      | (s1, Inr userId) \<Rightarrow>
          (case grant_views e now (live_grants s1 userId) s1 of (s2, vs) \<Rightarrow>
             (case isAdmin e pv now userId s2 of (s3, admin) \<Rightarrow>
                (s3, Grants_list vs admin
                   [snd (issueBoundCsrfToken e rq ''csrf_grants'' ''grants-revoke'' userId nonce),
                    snd (issueBoundCsrfToken e rq ''csrf_logout'' ''logout'' userId nonce)]))))"

section \<open>Revoking a grant\<close>

definition revoke_grant :: "time_ms \<Rightarrow> string \<Rightarrow> 'a db_scheme \<Rightarrow> 'a db_scheme" where
  "revoke_grant now grantId s =
     s\<lparr>grants := update_many (\<lambda>g. gr_id g = grantId) (\<lambda>g. g\<lparr>gr_revokedAt := Some now\<rparr>) (grants s),
       refreshTokens := update_many (live_token grantId) (revoke_token now) (refreshTokens s)\<rparr>"

definition revoke_post ::
    "env \<Rightarrow> time_ms \<Rightarrow> request \<Rightarrow> string \<Rightarrow> 'a db_scheme \<Rightarrow> 'a db_scheme \<times> reply" where
  "revoke_post e now rq grantId s =
     (case truthy (getSessionUserId e now rq s) of
        None \<Rightarrow> (s, Message 401 ''Not signed in.'')
      | Some userId \<Rightarrow>
          if \<not> verifyBoundCsrfToken e rq ''csrf_grants'' ''grants-revoke'' userId
          then (s, Message 403 ''Invalid or missing CSRF token. Please reload and try again.'')
          else (case row_of gr_id grantId (grants s) of
             None \<Rightarrow> (s, Message 404 ''Grant not found.'')
           | Some g \<Rightarrow>
               if gr_userId g \<noteq> userId then (s, Message 404 ''Grant not found.'')
               else (revoke_grant now (gr_id g) s, Redirect_path ''/grants'')))"

section \<open>The revocation endpoint\<close>

datatype revocation_reply = Revocation_error nat string description | Revocation_done

definition oauth_revoke ::
    "env \<Rightarrow> time_ms \<Rightarrow> json option \<Rightarrow> 'a assertion_state_scheme \<Rightarrow> 'a assertion_state_scheme \<times> revocation_reply" where
  "oauth_revoke e now req s =
     (let body = bodyOf req in
      case (truthy (stringField body ''token''), truthy (stringField body ''client_id'')) of
        (Some token, Some client_id) \<Rightarrow>
          (case row_of rt_tokenHash (e_sha256 e token) (refreshTokens s) of
             None \<Rightarrow> (s, Revocation_done)
           | Some entry \<Rightarrow>
               if rt_clientId entry \<noteq> client_id then (s, Revocation_done)
               else (case check_client e now client_id body s of
                 (s1, Some (Token_error st er d)) \<Rightarrow> (s1, Revocation_error st er d)
               | (s1, Some _) \<Rightarrow> (s1, Revocation_done)
               | (s1, None) \<Rightarrow>
                   (s1\<lparr>refreshTokens := update_many (live_token (rt_grantId entry)) (revoke_token now)
                                           (refreshTokens s1)\<rparr>, Revocation_done)))
      | _ \<Rightarrow> (s, Revocation_error 400 ''invalid_request'' (Text ''token and client_id are required'')))"

section \<open>Cleanup\<close>

definition pruneExpiredRows :: "time_ms \<Rightarrow> 'a db_scheme \<Rightarrow> 'a db_scheme" where
  "pruneExpiredRows now s = pruneLoginFailures now
     (s\<lparr>authRequests := delete_many (\<lambda>r. ar_expiresAt r < now) (authRequests s),
       authCodes := delete_many (\<lambda>c. ac_expiresAt c < now) (authCodes s),
       deviceCodes := delete_many (\<lambda>d. dv_expiresAt d < now) (deviceCodes s),
       refreshTokens := delete_many (\<lambda>t. rt_expiresAt t < now) (refreshTokens s),
       oauthClients := delete_many (\<lambda>c. case oc_expiresAt c of Some t \<Rightarrow> t < now | None \<Rightarrow> False) (oauthClients s)\<rparr>)"

end
