(* ===== verification/Interleaving.thy ===== *)
theory Interleaving
  imports TokenFacts Device LocalRouter OidcCallback Grants
begin

text \<open>
  What the handlers do to the credentials, for the transition system of \<^verbatim>\<open>Runs\<close>.  An event is a handler, or one of the two halves of a handler
  that awaits between its checks and its transaction; a commit event may carry any claim at all, so
  every interleaving of requests is covered, and more.  A \<open>credential\<close> is anything that may be
  redeemed once.  \<open>live\<close> says it can still be redeemed; no event makes a credential live but the one
  it draws at random (\<open>news\<close>), and a redemption ends its life.
\<close>

section \<open>Credentials\<close>

datatype credential =
    Code string
  | Refresh string
  | Device string
  | Request string
  | Signin string string

definition redeemable_device :: "string \<Rightarrow> device_code \<Rightarrow> bool" where
  "redeemable_device h d \<longleftrightarrow> dv_deviceCodeHash d = h \<and> (dv_status d = DS_pending \<or> dv_status d = DS_approved)"

fun live :: "'a db_scheme \<Rightarrow> credential \<Rightarrow> bool" where
  "live s (Code h) \<longleftrightarrow> (\<exists>c \<in> set (authCodes s). unconsumed_code h c)"
| "live s (Refresh h) \<longleftrightarrow> (\<exists>t \<in> set (refreshTokens s). rotatable h t)"
| "live s (Device h) \<longleftrightarrow> (\<exists>d \<in> set (deviceCodes s). redeemable_device h d)"
| "live s (Request h) \<longleftrightarrow> (\<exists>r \<in> set (authRequests s). ar_handle r = h)"
| "live s (Signin h st) \<longleftrightarrow> (\<exists>r \<in> set (authRequests s). with_upstream_state h st r)"

text \<open>Nothing but the four flow tables matters.\<close>

definition flow_tables :: "'a db_scheme \<Rightarrow> auth_code list \<times> refresh_token list \<times> device_code list \<times> auth_request list" where
  "flow_tables s = (authCodes s, refreshTokens s, deviceCodes s, authRequests s)"

lemma live_flow_tables: "flow_tables s' = flow_tables s \<Longrightarrow> live s' k = live s k"
  by (cases k) (simp_all add: flow_tables_def)

lemma flow_tables_flow_rows: "flow_rows s' = flow_rows s \<Longrightarrow> flow_tables s' = flow_tables s"
  by (simp add: flow_rows_def flow_tables_def)

lemma flow_tables_token_rows: "token_rows s' = token_rows s \<Longrightarrow> flow_tables s' = flow_tables s"
  by (simp add: token_rows_def flow_tables_def)

lemmas live_flow_rows = live_flow_tables [OF flow_tables_flow_rows]
lemmas live_token_rows = live_flow_tables [OF flow_tables_token_rows]

text \<open>A step that makes nothing live but some new credentials.\<close>

abbreviation device_keys :: "'a db_scheme \<Rightarrow> bool" where
  "device_keys s \<equiv> distinct (map dv_deviceCodeHash (deviceCodes s))"

definition revives_only :: "credential set \<Rightarrow> 'a db_scheme \<Rightarrow> 'a db_scheme \<Rightarrow> bool" where
  "revives_only N s s' \<longleftrightarrow> (\<forall>k. live s' k \<longrightarrow> live s k \<or> k \<in> N) \<and> (device_keys s \<longrightarrow> device_keys s')"

lemma device_keys_flow_tables: "flow_tables s' = flow_tables s \<Longrightarrow> device_keys s' = device_keys s"
  by (simp add: flow_tables_def)

declare map_key_update_many [simp] distinct_key_delete_many [simp]

lemma revives_keys: "revives_only N s s' \<Longrightarrow> device_keys s \<Longrightarrow> device_keys s'"
  by (simp add: revives_only_def)

lemma revives_onlyD: "revives_only N s s' \<Longrightarrow> live s' k \<Longrightarrow> live s k \<or> k \<in> N"
  by (simp add: revives_only_def)

lemma revives_same [intro]: "flow_tables s' = flow_tables s \<Longrightarrow> revives_only N s s'"
  unfolding revives_only_def using live_flow_tables [of s' s] device_keys_flow_tables [of s' s] by blast

lemma revives_rows [intro]: "flow_rows s' = flow_rows s \<Longrightarrow> revives_only N s s'"
  by (intro revives_same flow_tables_flow_rows)

lemma revives_refl [simp, intro]: "revives_only N s s"
  by (simp add: revives_only_def)

lemma revives_mono: "revives_only M s s' \<Longrightarrow> M \<subseteq> N \<Longrightarrow> revives_only N s s'"
  by (auto simp: revives_only_def)

lemma revives_trans: "revives_only N s s1 \<Longrightarrow> revives_only N s1 s2 \<Longrightarrow> revives_only N s s2"
  by (auto simp: revives_only_def)

lemma revives_from_rows: "flow_tables s1 = flow_tables s \<Longrightarrow> revives_only N s1 s' \<Longrightarrow> revives_only N s s'"
  by (blast intro: revives_trans revives_same)

lemma revives_to_rows: "flow_tables s' = flow_tables s1 \<Longrightarrow> revives_only N s s1 \<Longrightarrow> revives_only N s s'"
  by (blast intro: revives_trans revives_same)

text \<open>Each table on its own: an update that keeps keys and spends, a deletion, an insertion.\<close>

lemma revives_tables:
  assumes "\<And>h c. c \<in> set (authCodes s') \<Longrightarrow> unconsumed_code h c \<Longrightarrow>
             (\<exists>c' \<in> set (authCodes s). unconsumed_code h c') \<or> Code h \<in> N"
    and "\<And>h t. t \<in> set (refreshTokens s') \<Longrightarrow> rotatable h t \<Longrightarrow>
             (\<exists>t' \<in> set (refreshTokens s). rotatable h t') \<or> Refresh h \<in> N"
    and "\<And>h d. d \<in> set (deviceCodes s') \<Longrightarrow> redeemable_device h d \<Longrightarrow>
             (\<exists>d' \<in> set (deviceCodes s). redeemable_device h d') \<or> Device h \<in> N"
    and "\<And>r. r \<in> set (authRequests s') \<Longrightarrow>
             (\<exists>r' \<in> set (authRequests s). ar_handle r' = ar_handle r) \<or> Request (ar_handle r) \<in> N"
    and "\<And>h st r. r \<in> set (authRequests s') \<Longrightarrow> with_upstream_state h st r \<Longrightarrow>
             (\<exists>r' \<in> set (authRequests s). with_upstream_state h st r') \<or> Signin h st \<in> N"
    and "device_keys s \<Longrightarrow> device_keys s'"
  shows "revives_only N s s'"
  unfolding revives_only_def
proof (intro conjI allI impI)
  fix k assume "live s' k"
  then show "live s k \<or> k \<in> N"
  proof (cases k)
    case (Code h)
    with \<open>live s' k\<close> assms(1) show ?thesis by auto
  next
    case (Refresh h)
    with \<open>live s' k\<close> assms(2) show ?thesis by auto
  next
    case (Device h)
    with \<open>live s' k\<close> assms(3) show ?thesis by auto
  next
    case (Request h)
    with \<open>live s' k\<close> assms(4) show ?thesis by auto
  next
    case (Signin h st)
    with \<open>live s' k\<close> assms(5) show ?thesis by auto
  qed
qed (rule assms(6))

section \<open>The token endpoint\<close>

lemma revives_revoke [intro]:
  "revives_only N s (revokeDescendantRefreshTokens now g kind s)"
  by (rule revives_tables) (auto simp: set_update_many rotatable_def revoke_token_def split: if_splits)

lemma revives_delete_code [intro]: "revives_only N s (delete_code h s)"
  by (rule revives_tables) (auto simp: delete_code_def)

lemma revives_consume_code: "revives_only N s (consume_code now h s)"
  by (rule revives_tables) (auto simp: consume_code_def set_update_many unconsumed_code_def split: if_splits)

lemma revives_add_refresh:
  "revives_only (insert (Refresh (rt_tokenHash row)) N) s (s\<lparr>refreshTokens := refreshTokens s @ [row]\<rparr>)"
  by (rule revives_tables) (auto simp: rotatable_def)

lemma code_checks_revives:
  assumes "code_checks e now rnd body s = (s', v)" shows "revives_only {} s s'"
proof (cases v)
  case (Inl r)
  with code_checks_Inl [of e now rnd body s s' r] assms
  show ?thesis by (auto intro: revives_from_rows [OF flow_tables_flow_rows])
next
  case (Inr c)
  with code_checks_Inr assms obtain s1 where a: "code_authenticated e now rnd (cc_entry c) s1 = (s', Inr c)"
    and f: "flow_rows s1 = flow_rows s" and "code_accepted e now body (cc_entry c) s" by metis
  then have "flow_rows s' = flow_rows s1"
    by (intro code_authenticated_flow_rows [OF a]) (simp add: code_accepted_def)
  with f show ?thesis by auto
qed

lemma code_commit_revives:
  assumes "code_commit e now rnd c s = (s', r)"
  shows "revives_only {Refresh (e_sha256 e (r_token rnd))} s s'"
proof (cases "granted r")
  case True
  then obtain t where "r = Token_ok t" by (auto simp: granted_iff)
  with assms obtain s1 where
    cl: "claim_code e now (r_token rnd) (cc_entry c) s = Some (s1, Some (ts_refresh_token t))"
    and s': "s' = tokens_issued (ac_clientId (cc_entry c)) (ac_resource (cc_entry c)) s1"
    by (metis code_commit_ok)
  let ?u = "consume_code now (ac_codeHash (cc_entry c)) s"
  have u: "revives_only {Refresh (e_sha256 e (r_token rnd))} s ?u" by (rule revives_consume_code)
  have ru: "refreshTokens ?u = refreshTokens s" by (simp add: consume_code_def)
  from claim_code_Some [OF cl] consider "s1 = ?u"
    | row where "s1 = ?u\<lparr>refreshTokens := refreshTokens ?u @ [row]\<rparr>" "rt_tokenHash row = e_sha256 e (r_token rnd)"
    by (cases "''offline_access'' \<in> set (ac_scopes (cc_entry c))") (auto simp: fresh_refresh_row_def ru)
  then have "revives_only {Refresh (e_sha256 e (r_token rnd))} s s1"
  proof cases
    case 2
    with u revives_add_refresh [of row "{}" ?u] show ?thesis by (auto intro: revives_trans)
  qed (use u in simp)
  then show ?thesis
    unfolding s' by (rule revives_to_rows [OF flow_tables_flow_rows [OF tokens_issued_frame]])
next
  case False
  then have "\<forall>t. r \<noteq> Token_ok t" by (auto simp: granted_iff)
  with code_commit_not_ok [OF assms] show ?thesis by auto
qed

lemma code_commit_wins:
  assumes "code_commit e now rnd c s = (s', r)" and "granted r"
  shows "live s (Code (ac_codeHash (cc_entry c)))" and "\<not> live s' (Code (ac_codeHash (cc_entry c)))"
proof -
  from assms obtain t where "r = Token_ok t" by (auto simp: granted_iff)
  with assms obtain s1 where
    cl: "claim_code e now (r_token rnd) (cc_entry c) s = Some (s1, Some (ts_refresh_token t))"
    and s': "s' = tokens_issued (ac_clientId (cc_entry c)) (ac_resource (cc_entry c)) s1"
    by (metis code_commit_ok)
  from claim_code_Some [OF cl] show "live s (Code (ac_codeHash (cc_entry c)))" by simp
  from claim_code_Some [OF cl] have "authCodes s' = authCodes (consume_code now (ac_codeHash (cc_entry c)) s)"
    by (auto simp: s' tokens_issued_def split: if_splits)
  then show "\<not> live s' (Code (ac_codeHash (cc_entry c)))"
    by (auto simp: consume_code_def set_update_many unconsumed_code_def split: if_splits)
qed

lemma refresh_checks_revives:
  assumes "refresh_checks e pv now rnd body s = (s', v)" shows "revives_only {} s s'"
  using refresh_checks_cases [OF assms]
proof (elim disjE exE conjE)
  fix p entry s1
  assume c: "check_client e now (rt_clientId entry) body s = (s1, None)"
    and a: "refresh_authenticated e pv now rnd body entry s1 = (s', v)"
  note f = flow_tables_flow_rows [OF check_client_flow_rows [OF c]]
  show ?thesis
  proof (cases v)
    case (Inl r)
    from refresh_authenticated_Inl [OF a [unfolded Inl]] have "revives_only {} s1 s'"
      by (auto split: if_splits intro: revives_to_rows [OF flow_tables_token_rows])
    with f show ?thesis by (rule revives_from_rows)
  next
    case (Inr c)
    obtain g :: grant and sr where re: "recheckUpstream e pv now (rt_userId entry) s1 = (sr, None)"
      and mi: "mintAccessToken e now rnd
       \<lparr>mp_userId = rt_userId entry, mp_clientId = rt_clientId entry,
        mp_resource = rt_resource entry, mp_scopes = accessTokenScopes (rc_scopes c),
        mp_releaseClaims = grantClaims sr (rt_resource entry) (gr_releasedClaims g)\<rparr> sr
     = (s', Inr (rc_minted c))"
      by (rule refresh_authenticated_Inr [OF a [unfolded Inr]]) (rule that)
    have "flow_tables s' = flow_tables s"
      using f flow_tables_token_rows [OF conjunct1 [OF recheck_frame [OF re]]]
        flow_tables_flow_rows [OF mint_flow_rows [OF mi]] by simp
    then show ?thesis by auto
  qed
qed auto

lemma refresh_commit_revives:
  assumes "refresh_commit e now rnd c s = (s', r)"
  shows "revives_only {Refresh (e_sha256 e (r_token rnd))} s s'"
proof (cases "granted r")
  case True
  then obtain t where "r = Token_ok t" by (auto simp: granted_iff)
  with assms obtain s1 where ro: "rotate_token e (r_token rnd) c s = Some (s1, True)"
    and s': "s' = tokens_issued (rt_clientId (rc_entry c)) (rt_resource (rc_entry c)) s1"
    by (metis refresh_commit_ok)
  have "revives_only {Refresh (e_sha256 e (r_token rnd))} s s1"
    unfolding rotate_token_True(2) [OF ro]
    by (rule revives_tables)
      (auto simp: mark_rotated_def set_update_many rotatable_def successor_of_def split: if_splits)
  then show ?thesis
    unfolding s' by (rule revives_to_rows [OF flow_tables_flow_rows [OF tokens_issued_frame]])
next
  case False
  then have "\<forall>t. r \<noteq> Token_ok t" by (auto simp: granted_iff)
  with refresh_commit_not_ok [OF assms] show ?thesis by auto
qed

lemma refresh_commit_wins:
  assumes "refresh_commit e now rnd c s = (s', r)" and "granted r"
  shows "live s (Refresh (rt_tokenHash (rc_entry c)))" and "\<not> live s' (Refresh (rt_tokenHash (rc_entry c)))"
proof -
  from assms obtain t where "r = Token_ok t" by (auto simp: granted_iff)
  with assms obtain s1 where ro: "rotate_token e (r_token rnd) c s = Some (s1, True)"
    and s': "s' = tokens_issued (rt_clientId (rc_entry c)) (rt_resource (rc_entry c)) s1"
    by (metis refresh_commit_ok)
  note r = rotate_token_True [OF ro]
  from r(1) show "live s (Refresh (rt_tokenHash (rc_entry c)))" by simp
  from r(1) have "rt_tokenHash (rc_entry c) \<in> rt_tokenHash ` set (refreshTokens s)"
    by (auto simp: rotatable_def intro: rev_image_eqI)
  with r(3) have "e_sha256 e (r_token rnd) \<noteq> rt_tokenHash (rc_entry c)" by metis
  then show "\<not> live s' (Refresh (rt_tokenHash (rc_entry c)))"
    by (auto simp: s' tokens_issued_def r(2) mark_rotated_def set_update_many rotatable_def successor_of_def
        split: if_splits)
qed

lemma revives_delete_device [intro]: "revives_only N s (delete_device h s)"
  by (rule revives_tables) (auto simp: delete_device_def)

lemma revives_device_outcome: "revives_only N s s1 \<Longrightarrow> revives_only N s (device_outcome oc s1)"
  by (rule revives_to_rows [OF flow_tables_flow_rows [OF device_outcome_frame]])

lemma revives_update_device:
  assumes "\<And>d. dv_deviceCodeHash (f d) = dv_deviceCodeHash d" and "\<And>d. dv_status (f d) = dv_status d"
  shows "revives_only N s (s\<lparr>deviceCodes := update_many P f (deviceCodes s)\<rparr>)"
proof -
  have r: "redeemable_device h (f d) = redeemable_device h d" for h d
    using assms by (simp add: redeemable_device_def)
  show ?thesis by (rule revives_tables) (auto simp: assms set_update_many r split: if_splits)
qed

lemma revives_poll: "poll_pending now entry s = (s', r) \<Longrightarrow> revives_only N s s'"
  by (auto simp: poll_pending_def update_device_def intro!: revives_update_device split: if_splits)

lemma device_checks_revives:
  assumes "device_checks e now rnd body s = (s', v)" shows "revives_only {} s s'"
proof -
  have ap: "flow_tables s' = flow_tables s" if "device_approved e now rnd cid body entry s = (s', v)" for cid entry
  proof (cases v)
    case (Inl r)
    with that show ?thesis using device_approved_Inl flow_tables_flow_rows by blast
  next
    case (Inr c)
    have d: "device_approved e now rnd cid body entry s = (s', Inr c)" using that Inr by simp
    show ?thesis
    proof (rule device_approved_Inr [OF d])
      fix u s1
      assume k: "check_client e now cid body s = (s1, None)"
        and m: "mintAccessToken e now rnd
         \<lparr>mp_userId = u, mp_clientId = dv_clientId entry, mp_resource = dv_resource entry,
          mp_scopes = accessTokenScopes (dv_scopes entry),
          mp_releaseClaims = grantClaims s1 (dv_resource entry)
            (case device_grant_of s1 u entry of None \<Rightarrow> [] | Some g \<Rightarrow> gr_releasedClaims g)\<rparr> s1
         = (s', Inr (dc_minted c))"
      from check_client_flow_rows [OF k] mint_flow_rows [OF m]
      show ?thesis by (intro flow_tables_flow_rows) simp
    qed
  qed
  from device_checks_cases [OF assms] show ?thesis
    by (auto intro: revives_poll revives_device_outcome dest!: ap)
qed

lemma revives_consume_device: "revives_only N s (consume_device h s)"
  by (rule revives_tables)
    (auto simp: consume_device_def set_update_many approved_device_def redeemable_device_def split: if_splits)

lemma device_commit_ok_cases:
  assumes "device_commit e now rnd c s = (s', r)" and "granted r"
  shows "\<exists>s1. flow_tables s' = flow_tables s1 \<and>
     (\<exists>d \<in> set (deviceCodes s). approved_device (dv_deviceCodeHash (dc_entry c)) d) \<and>
     (s1 = consume_device (dv_deviceCodeHash (dc_entry c)) s \<or>
      (\<exists>row. s1 = (consume_device (dv_deviceCodeHash (dc_entry c)) s)
                    \<lparr>refreshTokens := refreshTokens s @ [row]\<rparr> \<and> rt_tokenHash row = e_sha256 e (r_token rnd)))"
proof -
  from assms obtain t where "r = Token_ok t" by (auto simp: granted_iff)
  with assms obtain s1 where
    cl: "claim_device e now (r_token rnd) c s = Some (s1, Tx_issued (ts_refresh_token t))"
    and s': "s' = device_outcome ''success'' (tokens_issued (dv_clientId (dc_entry c)) (dv_resource (dc_entry c)) s1)"
    by (metis device_commit_ok)
  have "flow_tables s' = flow_tables s1"
    unfolding s' by (rule flow_tables_flow_rows) simp
  with claim_device_Some [OF cl] show ?thesis
    by (intro exI [of _ s1]) (auto simp: Let_def fresh_refresh_row_def)
qed

lemma device_commit_revives:
  assumes "device_commit e now rnd c s = (s', r)"
  shows "revives_only {Refresh (e_sha256 e (r_token rnd))} s s'"
proof (cases "granted r")
  case True
  let ?u = "consume_device (dv_deviceCodeHash (dc_entry c)) s"
  have u: "revives_only {Refresh (e_sha256 e (r_token rnd))} s ?u" by (rule revives_consume_device)
  have ru: "refreshTokens ?u = refreshTokens s" by (simp add: consume_device_def)
  from device_commit_ok_cases [OF assms True] obtain s1 where f: "flow_tables s' = flow_tables s1"
    and "s1 = ?u \<or> (\<exists>row. s1 = ?u\<lparr>refreshTokens := refreshTokens ?u @ [row]\<rparr> \<and> rt_tokenHash row = e_sha256 e (r_token rnd))"
    unfolding ru by blast
  then consider "s1 = ?u"
    | row where "s1 = ?u\<lparr>refreshTokens := refreshTokens ?u @ [row]\<rparr>" "rt_tokenHash row = e_sha256 e (r_token rnd)"
    by blast
  then have "revives_only {Refresh (e_sha256 e (r_token rnd))} s s1"
  proof cases
    case 2
    with revives_add_refresh [of row "{}" ?u]
    have "revives_only {Refresh (e_sha256 e (r_token rnd))} ?u s1" by simp
    with u show ?thesis by (rule revives_trans)
  qed (use u in simp)
  with f show ?thesis by (rule revives_to_rows)
next
  case False
  then have "\<forall>t. r \<noteq> Token_ok t" by (auto simp: granted_iff)
  with device_commit_not_ok [OF assms] show ?thesis
    by (auto intro: revives_consume_device)
qed

lemma consumed_device_dead:
  assumes "device_keys s" and "d \<in> set (deviceCodes s)" and "approved_device h d"
    and "deviceCodes s' = deviceCodes (consume_device h s)"
  shows "\<not> live s' (Device h)"
proof -
  have "dv_status x = DS_approved" if "x \<in> set (deviceCodes s)" "dv_deviceCodeHash x = h" for x
  proof -
    from assms(1) have "inj_on dv_deviceCodeHash (set (deviceCodes s))" by (simp add: distinct_map)
    with assms(2,3) that have "x = d" by (metis approved_device_def inj_onD)
    with assms(3) show ?thesis by (simp add: approved_device_def)
  qed
  then have "\<not> redeemable_device h (if approved_device h x then x\<lparr>dv_status := DS_consumed\<rparr> else x)"
    if "x \<in> set (deviceCodes s)" for x
    using that by (auto simp: approved_device_def redeemable_device_def)
  then have "\<forall>x \<in> set (deviceCodes (consume_device h s)). \<not> redeemable_device h x"
    unfolding consume_device_def by (simp add: set_update_many ball_simps(9) del: if_image_distrib)
  then show ?thesis by (simp add: assms(4))
qed

lemma device_commit_wins:
  assumes "device_commit e now rnd c s = (s', r)" and "granted r" and "device_keys s"
  shows "live s (Device (dv_deviceCodeHash (dc_entry c)))" and "\<not> live s' (Device (dv_deviceCodeHash (dc_entry c)))"
proof -
  from device_commit_ok_cases [OF assms(1,2)] obtain d where
    d: "d \<in> set (deviceCodes s)" "approved_device (dv_deviceCodeHash (dc_entry c)) d"
    and dev: "deviceCodes s' = deviceCodes (consume_device (dv_deviceCodeHash (dc_entry c)) s)"
    by (auto simp: flow_tables_def)
  from d show "live s (Device (dv_deviceCodeHash (dc_entry c)))"
    by (auto simp: approved_device_def redeemable_device_def)
  from assms(3) d dev show "\<not> live s' (Device (dv_deviceCodeHash (dc_entry c)))"
    by (rule consumed_device_dead)
qed

end
