(* ===== verification/World.thy ===== *)
theory World
  imports Interleaving
begin

text \<open>
  The rest of what the handlers do to credentials: the authorization and device endpoints, the account
  pages, the callback, the consent.  The events built of them, and the runs of the proxy, are in \<^verbatim>\<open>Runs\<close>.
\<close>

section \<open>Authorization requests\<close>

text \<open>Only the table of authorization requests changes.\<close>

lemma revives_requests:
  assumes "\<And>r. r \<in> set rows \<Longrightarrow>
             (\<exists>r' \<in> set (authRequests s). ar_handle r' = ar_handle r) \<or> Request (ar_handle r) \<in> N"
    and "\<And>r st. r \<in> set rows \<Longrightarrow> ar_upstreamState r = Some st \<Longrightarrow>
             (\<exists>r' \<in> set (authRequests s). with_upstream_state (ar_handle r) st r') \<or> Signin (ar_handle r) st \<in> N"
  shows "revives_only N s (s\<lparr>authRequests := rows\<rparr>)"
proof (rule revives_tables)
  fix h st r assume r: "r \<in> set (authRequests (s\<lparr>authRequests := rows\<rparr>))" "with_upstream_state h st r"
  then have "r \<in> set rows" "ar_upstreamState r = Some st" "ar_handle r = h"
    by (simp_all add: with_upstream_state_def)
  with assms(2) [of r st]
  show "(\<exists>r' \<in> set (authRequests s). with_upstream_state h st r') \<or> Signin h st \<in> N" by simp
qed (use assms(1) in auto)

text \<open>An update that keeps handles, and upstream states or clears them.\<close>

lemma revives_update_requests:
  assumes "\<And>r. ar_handle (f r) = ar_handle r"
    and "\<And>r. ar_upstreamState (f r) = ar_upstreamState r \<or> ar_upstreamState (f r) = None"
  shows "revives_only N s (s\<lparr>authRequests := update_many P f (authRequests s)\<rparr>)"
proof (rule revives_requests)
  fix r assume "r \<in> set (update_many P f (authRequests s))"
  then obtain r0 where r0: "r0 \<in> set (authRequests s)" "r = (if P r0 then f r0 else r0)"
    by (auto simp: set_update_many)
  then have h: "ar_handle r0 = ar_handle r" using assms(1) by simp
  with r0 show "(\<exists>r' \<in> set (authRequests s). ar_handle r' = ar_handle r) \<or> Request (ar_handle r) \<in> N"
    by blast
  fix st assume "ar_upstreamState r = Some st"
  with r0 assms(2) [of r0] have "ar_upstreamState r0 = Some st" by (auto split: if_splits)
  with h have "with_upstream_state (ar_handle r) st r0" by (simp add: with_upstream_state_def)
  with r0(1) show "(\<exists>r' \<in> set (authRequests s). with_upstream_state (ar_handle r) st r') \<or>
      Signin (ar_handle r) st \<in> N"
    by blast
qed

lemma revives_delete_requests:
  "revives_only N s (s\<lparr>authRequests := delete_many P (authRequests s)\<rparr>)"
  by (rule revives_requests) (auto simp: with_upstream_state_def)

text \<open>A new row with a new handle and no upstream state.\<close>

lemma revives_create_request:
  assumes "create_row ar_handle row (authRequests s) = Some rows" and "ar_upstreamState row = None"
    and "Request (ar_handle row) \<in> N"
  shows "revives_only N s (s\<lparr>authRequests := rows\<rparr>)"
  using assms(2,3)
  by (intro revives_requests) (auto simp: create_row_Some [THEN iffD1, OF assms(1)] with_upstream_state_def)

text \<open>Starting a sign-in writes a new upstream state.\<close>

lemma getOidcConfig_flow_tables: "getOidcConfig e pv now s = (s', r) \<Longrightarrow> flow_tables s' = flow_tables s"
  by (rule flow_tables_token_rows) (blast dest: getOidcConfig_frame)

lemma dispatch_revives:
  assumes "dispatch_sign_in e pv now h fr fresh s = (s', r)"
  shows "revives_only {Signin h (fr_state fr)} s s'"
proof -
  let ?f = "\<lambda>r. r\<lparr>ar_upstreamState := Some (fr_state fr), ar_upstreamNonce := Some (fr_nonce fr),
                  ar_upstreamVerifier := Some (fr_verifier fr)\<rparr>"
  have up: "revives_only {Signin h (fr_state fr)} s1
      (s1\<lparr>authRequests := update_many (\<lambda>r. ar_handle r = h) ?f (authRequests s1)\<rparr>)" for s1 :: "'a upstream_state_scheme"
    by (rule revives_requests) (auto simp: set_update_many with_upstream_state_def split: if_splits)
  obtain s1 q where g: "getOidcConfig e pv now s = (s1, q)" by fastforce
  note f = getOidcConfig_flow_tables [OF g]
  have "s' = s \<or> s' = s1 \<or>
      s' = s1\<lparr>authRequests := update_many (\<lambda>r. ar_handle r = h) ?f (authRequests s1)\<rparr>"
    using assms unfolding dispatch_sign_in_def startUpstreamAuth_def g
    by (simp split: if_splits option.splits)
  then consider "s' = s" | "s' = s1"
    | "s' = s1\<lparr>authRequests := update_many (\<lambda>r. ar_handle r = h) ?f (authRequests s1)\<rparr>" by blast
  then show ?thesis
  proof cases
    case 2
    with f show ?thesis by (intro revives_same) simp
  next
    case 3
    show ?thesis unfolding 3 by (rule revives_from_rows [OF f up])
  qed simp
qed

lemma limiter_flow_tables:
  "rowCreationRetryAfter now rq s = (s', w) \<Longrightarrow> flow_tables s' = flow_tables s"
  "clientResolutionRetryAfter now rq s = (s', w) \<Longrightarrow> flow_tables s' = flow_tables s"
  by (auto simp: rowCreationRetryAfter_def clientResolutionRetryAfter_def flow_tables_def split: prod.splits)

lemma resolveClient_flow_tables: "resolveClient e now c s = (s', r) \<Longrightarrow> flow_tables s' = flow_tables s"
  by (rule flow_tables_flow_rows) (rule resolveClient_flow_rows)

text \<open>What a handler that creates a request may draw.\<close>

definition new_request :: "flow_rand \<Rightarrow> credential set" where
  "new_request fr = {Request (fr_handle fr), Signin (fr_handle fr) (fr_state fr)}"

lemma created_and_dispatched:
  assumes "create_row ar_handle row (authRequests s) = Some rows" and "ar_handle row = fr_handle fr"
    and "ar_upstreamState row = None"
    and "dispatch_sign_in e pv now (fr_handle fr) fr fresh (s\<lparr>authRequests := rows\<rparr>) = (s', rep)"
  shows "revives_only (new_request fr) s s'"
proof (rule revives_trans)
  show "revives_only (new_request fr) s (s\<lparr>authRequests := rows\<rparr>)"
    by (rule revives_create_request [OF assms(1,3)]) (simp add: assms(2) new_request_def)
  show "revives_only (new_request fr) (s\<lparr>authRequests := rows\<rparr>) s'"
    by (rule revives_mono [OF dispatch_revives [OF assms(4)]]) (simp add: new_request_def)
qed

lemma authorize_trusted_revives:
  assumes "authorize_trusted e pv now fr rq cid uri s = (s', out)"
  shows "revives_only (new_request fr) s s'"
proof (cases "validate_authorize rq s")
  case (Inr p)
  obtain s1 w where l: "rowCreationRetryAfter now rq s = (s1, w)" by fastforce
  let ?row = "request_row now (fr_handle fr) cid uri (singleQueryValue rq ''state'') p"
  have "revives_only (new_request fr) s1 s'"
  proof (cases "create_row ar_handle ?row (authRequests s1)")
    case None
    with assms Inr l show ?thesis by (auto simp: authorize_trusted_def Let_def split: if_splits)
  next
    case (Some rows)
    obtain s2 rep where d: "dispatch_sign_in e pv now (fr_handle fr) fr (ar_requireFreshLogin ?row)
        (s1\<lparr>authRequests := rows\<rparr>) = (s2, rep)" by fastforce
    with assms Inr l Some have "s' = s1 \<or> s' = s2"
      by (auto simp: authorize_trusted_def Let_def split: if_splits)
    with created_and_dispatched [OF Some _ _ d] show ?thesis by (auto simp: request_row_def)
  qed
  with limiter_flow_tables(1) [OF l] show ?thesis by (rule revives_from_rows)
qed (use assms in \<open>simp add: authorize_trusted_def\<close>)

lemma authorize_revives:
  assumes "authorize e pv now fr rq s = (s', out)" shows "revives_only (new_request fr) s s'"
proof (cases "truthy (singleQueryValue rq ''client_id'')")
  case (Some cid)
  obtain s1 w where l: "clientResolutionRetryAfter now rq s = (s1, w)" by fastforce
  obtain s2 c where r: "resolveClient e now cid s1 = (s2, c)" by fastforce
  from assms Some l r have "s' = s1 \<or> s' = s2 \<or> (\<exists>uri. authorize_trusted e pv now fr rq cid uri s2 = (s', out))"
    by (auto simp: authorize_def split: if_splits option.splits)
  moreover have "flow_tables s2 = flow_tables s"
    using limiter_flow_tables(2) [OF l] resolveClient_flow_tables [OF r] by simp
  ultimately show ?thesis
    using limiter_flow_tables(2) [OF l] authorize_trusted_revives revives_from_rows by blast
qed (use assms in \<open>simp add: authorize_def\<close>)

section \<open>Device codes\<close>

lemma revives_create_device:
  assumes "create_device d (deviceCodes s) = Some ds"
  shows "revives_only {Device (dv_deviceCodeHash d)} s (s\<lparr>deviceCodes := ds\<rparr>)"
proof -
  from assms have ds: "ds = deviceCodes s @ [d]" "dv_deviceCodeHash d \<notin> dv_deviceCodeHash ` set (deviceCodes s)"
    by (auto simp: create_device_def create_row_Some split: if_splits)
  show ?thesis by (rule revives_tables) (auto simp: ds redeemable_device_def)
qed

lemma device_code_resolved_revives:
  assumes "device_code_resolved e now rnd bytes rq cid s = (s', r)"
  shows "revives_only {Device (e_sha256 e (r_token rnd))} s s'"
proof -
  obtain s1 w where l: "rowCreationRetryAfter now rq s = (s1, w)" by fastforce
  note f = limiter_flow_tables(1) [OF l]
  have "s' = s \<or> s' = s1 \<or> (\<exists>d ds. dv_deviceCodeHash d = e_sha256 e (r_token rnd) \<and>
      create_device d (deviceCodes s1) = Some ds \<and> s' = s1\<lparr>deviceCodes := ds\<rparr>)"
    using assms unfolding device_code_resolved_def Let_def l
    by (force simp: device_row_def split: if_splits option.splits sum.splits)
  then show ?thesis
  proof (elim disjE exE conjE)
    fix d ds
    assume h: "dv_deviceCodeHash d = e_sha256 e (r_token rnd)" and c: "create_device d (deviceCodes s1) = Some ds"
      and s': "s' = s1\<lparr>deviceCodes := ds\<rparr>"
    show ?thesis unfolding s' by (rule revives_from_rows [OF f]) (use revives_create_device [OF c] h in simp)
  qed (use f in auto)
qed

lemma device_code_endpoint_revives:
  assumes "device_code_endpoint e now rnd bytes rq s = (s', r)"
  shows "revives_only {Device (e_sha256 e (r_token rnd))} s s'"
proof (cases "truthy (stringField (bodyOf (q_body rq)) ''client_id'')")
  case (Some cid)
  obtain s1 w where l: "clientResolutionRetryAfter now rq s = (s1, w)" by fastforce
  obtain s2 c where c: "resolveClient e now cid s1 = (s2, c)" by fastforce
  from assms Some l c have "s' = s1 \<or> s' = s2 \<or> device_code_resolved e now rnd bytes rq cid s2 = (s', r)"
    by (auto simp: device_code_endpoint_def split: if_splits option.splits)
  moreover have "flow_tables s2 = flow_tables s"
    using limiter_flow_tables(2) [OF l] resolveClient_flow_tables [OF c] by simp
  ultimately show ?thesis
    using limiter_flow_tables(2) [OF l] device_code_resolved_revives revives_from_rows by blast
qed (use assms in \<open>simp add: device_code_endpoint_def\<close>)

lemma failedEntries_flow_tables [simp]: "flow_tables (s\<lparr>failedEntries := w\<rparr>) = flow_tables s"
  by (simp add: flow_tables_def)

lemma device_entry_revives:
  assumes "startDeviceConsent e pv now fr rq raw s = (s', out)"
  shows "revives_only (new_request fr) s s'"
proof -
  obtain ws start where w: "reserveFailedEntry now (ipRateLimitKey (q_ip rq)) (failedEntries s) = (ws, start)"
    by fastforce
  have "(\<exists>w. s' = s\<lparr>failedEntries := w\<rparr>) \<or> s' = s \<or>
    (\<exists>w fresh d rows rep. create_row ar_handle (device_request_row (fr_handle fr) fresh (normalizeUserCode raw) d)
        (authRequests s) = Some rows \<and>
      dispatch_sign_in e pv now (fr_handle fr) fr fresh (s\<lparr>failedEntries := w, authRequests := rows\<rparr>) = (s', rep))"
    using assms unfolding startDeviceConsent_def Let_def w
    by (auto split: if_splits option.splits prod.splits)
  then show ?thesis
  proof (elim disjE exE conjE)
    fix w fresh d rows rep
    assume c: "create_row ar_handle (device_request_row (fr_handle fr) fresh (normalizeUserCode raw) d)
        (authRequests s) = Some rows"
      and d: "dispatch_sign_in e pv now (fr_handle fr) fr fresh (s\<lparr>failedEntries := w, authRequests := rows\<rparr>) = (s', rep)"
    from c have c': "create_row ar_handle (device_request_row (fr_handle fr) fresh (normalizeUserCode raw) d)
        (authRequests (s\<lparr>failedEntries := w\<rparr>)) = Some rows" by simp
    from d have d': "dispatch_sign_in e pv now (fr_handle fr) fr fresh
        ((s\<lparr>failedEntries := w\<rparr>)\<lparr>authRequests := rows\<rparr>) = (s', rep)" by simp
    have "revives_only (new_request fr) (s\<lparr>failedEntries := w\<rparr>) s'"
      by (rule created_and_dispatched [OF c' _ _ d']) (simp_all add: device_request_row_def)
    then show ?thesis by (rule revives_from_rows [rotated]) simp
  qed auto
qed

section \<open>Account pages\<close>

lemma grants_session_revives:
  assumes "grants_session e pv now fr rq to s = (s', out)"
  shows "revives_only (new_request fr) s s'"
proof -
  obtain s1 w where l: "rowCreationRetryAfter now rq s = (s1, w)" by fastforce
  note f = limiter_flow_tables(1) [OF l]
  have "s' = s \<or> s' = s1 \<or> (\<exists>rows rep. create_row ar_handle (self_login_row now (fr_handle fr) to False)
        (authRequests s1) = Some rows \<and>
      dispatch_sign_in e pv now (fr_handle fr) fr False (s1\<lparr>authRequests := rows\<rparr>) = (s', rep))"
    using assms unfolding grants_session_def l createSelfLoginRequest_def
    by (auto split: if_splits option.splits prod.splits)
  then show ?thesis
  proof (elim disjE exE conjE)
    fix rows rep
    assume c: "create_row ar_handle (self_login_row now (fr_handle fr) to False) (authRequests s1) = Some rows"
      and d: "dispatch_sign_in e pv now (fr_handle fr) fr False (s1\<lparr>authRequests := rows\<rparr>) = (s', rep)"
    have "revives_only (new_request fr) s1 s'"
      by (rule created_and_dispatched [OF c _ _ d]) (simp_all add: self_login_row_def)
    with f show ?thesis by (rule revives_from_rows)
  qed (auto intro: f)
qed

lemma grant_views_flow_tables: "grant_views e now gs s = (s', vs) \<Longrightarrow> flow_tables s' = flow_tables s"
proof (induction gs arbitrary: s s' vs)
  case (Cons g gs)
  then show ?case by (auto split: prod.splits dest!: resolveClient_flow_tables)
qed simp

lemma isAdmin_flow_tables: "isAdmin e pv now u s = (s', b) \<Longrightarrow> flow_tables s' = flow_tables s"
  by (rule flow_tables_token_rows) (blast dest: isAdmin_frame)

lemma grants_get_revives:
  assumes "grants_get e pv now fr nonce rq s = (s', page)"
  shows "revives_only (new_request fr) s s'"
proof -
  obtain s1 q where g: "grants_session e pv now fr rq ''/grants'' s = (s1, q)" by fastforce
  have "flow_tables s' = flow_tables s1"
    using assms unfolding grants_get_def g
    by (auto split: sum.splits prod.splits dest!: grant_views_flow_tables isAdmin_flow_tables)
  with grants_session_revives [OF g] show ?thesis by (blast intro: revives_to_rows)
qed

lemma revives_revoke_tokens:
  "revives_only N s (s\<lparr>refreshTokens := update_many P (revoke_token now) (refreshTokens s)\<rparr>)"
  by (rule revives_tables) (auto simp: set_update_many rotatable_def revoke_token_def split: if_splits)

lemma revoke_post_revives:
  assumes "revoke_post e now rq gid s = (s', r)" shows "revives_only N s s'"
proof -
  have "revives_only N s (revoke_grant now g s)" for g
    by (rule revives_to_rows [OF _ revives_revoke_tokens [of N s "live_token g" now]])
      (simp add: revoke_grant_def flow_tables_def)
  with assms show ?thesis by (auto simp: revoke_post_def split: option.splits if_splits)
qed

lemma oauth_revoke_revives:
  assumes "oauth_revoke e now req s = (s', r)" shows "revives_only N s s'"
proof -
  have "s' = s \<or> (\<exists>cid s1 er. check_client e now cid (bodyOf req) s = (s1, er) \<and>
      (s' = s1 \<or> (\<exists>g. s' = s1\<lparr>refreshTokens := update_many (live_token g) (revoke_token now) (refreshTokens s1)\<rparr>)))"
    using assms by (auto simp: oauth_revoke_def Let_def split: option.splits if_splits prod.splits token_response.splits)
  then show ?thesis
    by (auto intro: revives_from_rows [OF flow_tables_flow_rows] check_client_flow_rows revives_revoke_tokens)
qed

lemma prune_revives: "revives_only N s (pruneExpiredRows now s)"
  by (rule revives_tables) (auto simp: pruneExpiredRows_def pruneLoginFailures_def)

lemma logout_flow_tables: "logout_post e now rq s = (s', out) \<Longrightarrow> flow_tables s' = flow_tables s"
  by (auto simp: logout_post_def revokeSessions_def flow_tables_def split: option.splits if_splits)

section \<open>Signing in\<close>

lemma throttle_flow_tables:
  "reserveAttempt now i l s = (s', r) \<Longrightarrow> flow_tables s' = flow_tables s"
  "login_attempt e now lr rq u s = (s', r) \<Longrightarrow> flow_tables s' = flow_tables s"
  "flow_tables (endAttempt slot b s0) = flow_tables s0"
  by (auto simp: login_attempt_def reserveAttempt_def endAttempt_def Let_def flow_tables_def
      split: if_splits option.splits)

lemma account_flow_tables:
  "validateLocalUser e now u p s = (s', r) \<Longrightarrow> flow_tables s' = flow_tables s"
  "changePassword e salt u c n s = (s', r2) \<Longrightarrow> flow_tables s' = flow_tables s"
  "createFirstLocalUser e rnd u p s = (s', r3) \<Longrightarrow> flow_tables s' = flow_tables s"
  by (auto simp: validateLocalUser_def changePassword_def createFirstLocalUser_def createLocalUser_def
      Let_def flow_tables_def split: if_splits option.splits prod.splits)

lemma continue_flow_revives:
  assumes "continue_flow now flow u s = (s', r)" shows "revives_only N s s'"
proof -
  have "s' = s \<or> (\<exists>h. s' = s\<lparr>authRequests := update_many (\<lambda>x. ar_handle x = h)
                         (\<lambda>x. x\<lparr>ar_subject := Some u\<rparr>) (authRequests s)\<rparr>)"
    using assms by (auto simp: continue_flow_def split: option.splits if_splits)
  then show ?thesis by (auto intro!: revives_update_requests)
qed

lemma login_success_revives:
  "login_success e now lr flow un u s = (s', out) \<Longrightarrow> revives_only N s s'"
  by (auto simp: login_success_def split: option.splits prod.splits intro: continue_flow_revives)

lemma login_post_revives:
  assumes "login_post e now lr rq s = (s', out)" shows "revives_only N s s'"
proof -
  let ?un = "normalizeUsername (field_or_empty (bodyOf (q_body rq)) ''username'')"
  let ?pw = "field_or_empty (bodyOf (q_body rq)) ''password''"
  obtain s1 a where a: "login_attempt e now lr rq ?un s = (s1, a)" by fastforce
  obtain s2 v where v: "validateLocalUser e now ?un ?pw s1 = (s2, v)" by fastforce
  have f: "flow_tables s1 = flow_tables s" "flow_tables s2 = flow_tables s"
    using throttle_flow_tables(2) [OF a] account_flow_tables(1) [OF v] by simp_all
  have "s' = s \<or> s' = s1 \<or> (\<exists>slot. s' = endAttempt slot False s2) \<or>
    (\<exists>slot fl u. login_success e now lr fl ?un u (endAttempt slot True s2) = (s', out))"
    using assms unfolding login_post_def Let_def a
    by (auto simp: v split: if_splits option.splits sum.splits)
  then show ?thesis
  proof (elim disjE exE)
    fix slot fl u assume "login_success e now lr fl ?un u (endAttempt slot True s2) = (s', out)"
    then show ?thesis
      by (intro revives_from_rows [OF _ login_success_revives]) (auto simp: throttle_flow_tables(3) f)
  qed (use f in \<open>auto intro!: revives_same simp: throttle_flow_tables(3)\<close>)
qed

lemma setup_post_flow_tables:
  assumes "setup_post e now lr rnd rq s = (s', out)" shows "flow_tables s' = flow_tables s"
proof -
  have t: "setup_token_stage e now lr rq s = (s1, q) \<Longrightarrow> flow_tables s1 = flow_tables s" for s1 q
    by (auto simp: setup_token_stage_def Let_def throttle_flow_tables(3)
        split: option.splits prod.splits dest: throttle_flow_tables(1))
  from assms show ?thesis
    by (auto simp: setup_post_def Let_def split: if_splits option.splits prod.splits sum.splits
        dest!: t account_flow_tables(3))
qed

lemma password_post_flow_tables:
  assumes "password_post e now lr salt rq s = (s', out)" shows "flow_tables s' = flow_tables s"
  using assms
  by (auto simp: password_post_def Let_def throttle_flow_tables(3)
      split: if_splits option.splits prod.splits sum.splits
      dest!: throttle_flow_tables(1) account_flow_tables(2))

section \<open>The sign-in callback\<close>

lemma callback_claim_cases:
  assumes "callback_claim e now rq st s = (s', out)"
  shows "s' = s \<and> out = None \<or>
    (\<exists>r t. ar_upstreamState r = Some t \<and> r \<in> set (authRequests s) \<and>
      s' = s\<lparr>authRequests := update_many (with_upstream_state (ar_handle r) t)
               (\<lambda>x. x\<lparr>ar_upstreamState := None\<rparr>) (authRequests s)\<rparr> \<and>
      (out = None \<or> (\<exists>x. out = Some (r, x) \<and> ce_state x = t)))"
proof -
  have fd: "List.find P xs = Some r \<Longrightarrow> r \<in> set xs \<and> P r" for P and xs :: "auth_request list" and r
    by (auto simp: find_Some_iff)
  from assms show ?thesis
    unfolding callback_claim_def
    by (fastforce dest: fd split: option.splits if_splits)
qed

lemma callback_claim_revives:
  "callback_claim e now rq st s = (s', out) \<Longrightarrow> revives_only N s s'"
  by (drule callback_claim_cases) (auto intro!: revives_update_requests)

lemma callback_claim_wins:
  assumes "callback_claim e now rq st s = (s', Some (r, x))"
  shows "live s (Signin (ar_handle r) (ce_state x))" and "\<not> live s' (Signin (ar_handle r) (ce_state x))"
  using callback_claim_cases [OF assms]
  by (auto simp: with_upstream_state_def set_update_many)

lemma callback_finish_revives:
  assumes "callback_finish e now i r ans s = (s', out)" shows "revives_only N s s'"
proof -
  have up: "upsert_oidc_user now i sub iss cl rt s = Some (s1, u) \<Longrightarrow> flow_tables s1 = flow_tables s"
    for sub iss cl rt s1 u
    by (auto simp: upsert_oidc_user_def Let_def flow_tables_def split: option.splits)
  have "s' = s \<or> (\<exists>sub iss cl s1 u. upsert_oidc_user now i sub iss cl (ca_refreshToken ans) s = Some (s1, u) \<and>
      (s' = s1 \<or> s' = s1\<lparr>authRequests := update_many (\<lambda>x. ar_handle x = ar_handle r)
                            (\<lambda>x. x\<lparr>ar_subject := Some (u_id u)\<rparr>) (authRequests s1)\<rparr>))"
    using assms unfolding callback_finish_def
    by (simp split: option.splits if_splits prod.splits) blast+
  then show ?thesis
  proof (elim disjE exE conjE)
    fix sub iss cl s1 u
    assume "upsert_oidc_user now i sub iss cl (ca_refreshToken ans) s = Some (s1, u)"
    note f = up [OF this]
    { assume "s' = s1" with f show ?thesis by auto }
    assume s': "s' = s1\<lparr>authRequests := update_many (\<lambda>x. ar_handle x = ar_handle r)
                              (\<lambda>x. x\<lparr>ar_subject := Some (u_id u)\<rparr>) (authRequests s1)\<rparr>"
    show ?thesis unfolding s' by (rule revives_from_rows [OF f], rule revives_update_requests) simp_all
  qed auto
qed

section \<open>Consent\<close>

text \<open>What a submission may do besides counting: consume the request and, with it, add one code and
  decide pending device codes.\<close>

definition consumed_by :: "string \<Rightarrow> string \<Rightarrow> 'a db_scheme \<Rightarrow> 'a db_scheme \<Rightarrow> bool" where
  "consumed_by h c s s' \<longleftrightarrow>
     (\<exists>r \<in> set (authRequests s). ar_handle r = h) \<and>
     authRequests s' = delete_many (\<lambda>r. ar_handle r = h) (authRequests s) \<and>
     refreshTokens s' = refreshTokens s \<and>
     (authCodes s' = authCodes s \<or> (\<exists>row. ac_codeHash row = c \<and> authCodes s' = authCodes s @ [row])) \<and>
     (\<exists>P f. deviceCodes s' = update_many P f (deviceCodes s) \<and>
        (\<forall>d. dv_deviceCodeHash (f d) = dv_deviceCodeHash d) \<and> (\<forall>d. P d \<longrightarrow> dv_status d = DS_pending))"

definition consent_rows :: "'a db_scheme \<Rightarrow> auth_code list \<times> grant list \<times> device_code list" where
  "consent_rows s = (authCodes s, grants s, deviceCodes s)"

lemma consumeRequest_Some:
  assumes "consumeRequest h s = Some s1"
  shows "s1 = s\<lparr>authRequests := delete_many (\<lambda>r. ar_handle r = h) (authRequests s)\<rparr>"
    and "\<exists>r \<in> set (authRequests s). ar_handle r = h"
  using assms by (auto simp: consumeRequest_def split: if_splits)

lemma consumed_alone:
  assumes "consumeRequest h s = Some s1" shows "consumed_by h c s s1"
  using consumeRequest_Some [OF assms]
  by (auto simp: consumed_by_def intro!: exI [of _ "\<lambda>_. False"] exI [of _ id] simp: update_many_def)

lemma upsertGrant_tables:
  assumes "upsertGrant now i r subject rs s = Some (s1, g)" shows "flow_tables s1 = flow_tables s"
  using assms by (auto simp: upsertGrant_def Let_def flow_tables_def split: option.splits)

lemma consumed_by_tables: "flow_tables s2 = flow_tables s1 \<Longrightarrow> consumed_by h c s s1 \<Longrightarrow> consumed_by h c s s2"
  by (simp add: consumed_by_def flow_tables_def)

lemma device_transaction_consumed:
  assumes "device_transaction now uc r subject up s = Some (s', oc)"
  shows "s' = s \<or> consumed_by (ar_handle r) c s s'"
proof (cases "consumeRequest (ar_handle r) s")
  case (Some s1)
  let ?f = "\<lambda>d. if up \<noteq> None then d\<lparr>dv_status := DS_approved, dv_userId := Some subject\<rparr>
                             else d\<lparr>dv_status := DS_denied\<rparr>"
  let ?s2 = "s1\<lparr>deviceCodes := update_many (approvable_device now uc r) ?f (deviceCodes s1)\<rparr>"
  note c = consumeRequest_Some [OF Some]
  have d: "consumed_by (ar_handle r) c s ?s2"
    using c(2) unfolding consumed_by_def c(1)
    by (intro conjI exI [of _ "approvable_device now uc r"] exI [of _ ?f])
      (auto simp: approvable_device_def)
  from assms Some have "s' = s1 \<or> flow_tables s' = flow_tables ?s2"
    by (auto simp: device_transaction_def Let_def split: if_splits option.splits prod.splits
        dest: upsertGrant_tables)
  with consumed_alone [OF Some] consumed_by_tables [OF _ d] show ?thesis by blast
qed (use assms in \<open>simp add: device_transaction_def\<close>)

lemma completeDeviceFlow_consumed:
  assumes "completeDeviceFlow now r subject up m s = (s', rep)"
  shows "s' = s \<or> consumed_by (ar_handle r) c s s'"
  using assms
  by (auto simp: completeDeviceFlow_def split: option.splits device_result.splits prod.splits
      dest: device_transaction_consumed)

lemma issue_consumed:
  assumes "issueAuthCodeAndRedirect e now rnd r subject rs s = (s', rep)"
  shows "s' = s \<or> consumed_by (ar_handle r) (e_sha256 e (r_token rnd)) s s'"
proof (cases "consumeRequest (ar_handle r) s")
  case (Some s1)
  note c = consumeRequest_Some [OF Some]
  have "s' = s \<or> (\<exists>s2 g. flow_tables s2 = flow_tables s1 \<and>
      s' = s2\<lparr>authCodes := authCodes s2 @ [new_code e now (r_token rnd) r subject g]\<rparr>)"
    using assms Some
    by (auto simp: issueAuthCodeAndRedirect_def issue_transaction_def create_row_def
        split: option.splits if_splits prod.splits dest!: upsertGrant_tables)
  with c(2) show ?thesis
    by (auto simp: consumed_by_def c(1) flow_tables_def new_code_def update_many_def
        intro!: exI [of _ "\<lambda>_. False"] exI [of _ id])
next
  case None
  with assms show ?thesis by (auto simp: issueAuthCodeAndRedirect_def issue_transaction_def)
qed

lemma consent_counter_rows [simp]:
  "flow_tables (consent_counter oc s) = flow_tables s" "grants (consent_counter oc s) = grants s"
  "consent_rows (consent_counter oc s) = consent_rows s"
  "consumed_by h c (consent_counter oc s) s' = consumed_by h c s s'"
  by (simp_all add: consent_counter_def consumed_by_def flow_tables_def consent_rows_def)

lemma consent_commit_consumed:
  assumes "consent_commit e now rnd r subject d s = (s', rep)"
  shows "consent_rows s' = consent_rows s \<and> flow_tables s' = flow_tables s \<or>
    consumed_by (ar_handle r) (e_sha256 e (r_token rnd)) s s'"
proof -
  have "(\<exists>oc. s' = consent_counter oc s) \<or> consumed_by (ar_handle r) (e_sha256 e (r_token rnd)) s s'"
    using assms
    by (auto simp: consent_commit_def Let_def refuseForbiddenScope_def refuseMissingFreshSignIn_def
        refuse_flow_def denyAndRedirect_def
        split: decision.splits if_splits option.splits prod.splits
        dest!: completeDeviceFlow_consumed [where c = "e_sha256 e (r_token rnd)"] issue_consumed
          consumed_alone [where c = "e_sha256 e (r_token rnd)"])
  then show ?thesis by auto
qed

lemma consumed_by_revives:
  assumes "consumed_by h c s s'" shows "revives_only {Code c} s s'"
proof -
  from assms obtain P f where d: "deviceCodes s' = update_many P f (deviceCodes s)"
    "\<And>d. dv_deviceCodeHash (f d) = dv_deviceCodeHash d" "\<And>d. P d \<Longrightarrow> dv_status d = DS_pending"
    by (auto simp: consumed_by_def)
  have r: "redeemable_device h' (f d) \<Longrightarrow> P d \<Longrightarrow> redeemable_device h' d" for h' d
    using d(2,3) by (auto simp: redeemable_device_def)
  from assms show ?thesis
    by (intro revives_tables)
      (auto simp: consumed_by_def unconsumed_code_def d(1,2) set_update_many dest: r)
qed

lemma consumed_by_spends:
  assumes "consumed_by h c s s'" shows "live s (Request h)" and "\<not> live s' (Request h)"
  using assms by (auto simp: consumed_by_def)

lemma consent_commit_revives:
  assumes "consent_commit e now rnd r subject d s = (s', rep)"
  shows "revives_only {Code (e_sha256 e (r_token rnd))} s s'"
  using consent_commit_consumed [OF assms] by (auto intro: consumed_by_revives)

lemma revalidate_flow_tables: "revalidate e now r subject s = (s', v) \<Longrightarrow> flow_tables s' = flow_tables s"
  by (auto simp: revalidate_def split: option.splits prod.splits if_splits dest: resolveClient_flow_tables)

lemma consent_checks_flow_tables: "consent_checks e now rq s = (s', v) \<Longrightarrow> flow_tables s' = flow_tables s"
  by (auto simp: consent_checks_def split: option.splits prod.splits if_splits sum.splits
      dest: revalidate_flow_tables)

text \<open>The page pins what it shows, or refuses the request; neither issues a code.\<close>

lemma revives_no_code:
  assumes "\<And>c. revives_only {Code c} s s'" shows "revives_only N s s'"
proof -
  have "live s k" if "live s' k" for k
    using revives_onlyD [OF assms that, of "''a''"] revives_onlyD [OF assms that, of "''b''"] by auto
  with revives_keys [OF assms] show ?thesis by (auto simp: revives_only_def)
qed

lemma refuse_flow_revives:
  assumes "refuse_flow now r subject oc dm pm s = (s', rep)" shows "revives_only N s s'"
proof (rule revives_no_code)
  fix c
  have "(\<exists>oc. s' = consent_counter oc s) \<or> consumed_by (ar_handle r) c s s'"
    using assms
    by (auto simp: refuse_flow_def Let_def split: if_splits option.splits
        dest!: completeDeviceFlow_consumed [where c = c] consumed_alone [where c = c])
  then show "revives_only {Code c} s s'" by (auto intro: consumed_by_revives)
qed

lemma consent_get_revives:
  assumes "consent_get e now nonce rq s = (s', page)" shows "revives_only N s s'"
proof -
  have "s' = s \<or> (\<exists>r subject s1 v. revalidate e now r subject s = (s1, v) \<and>
      (s' = s1 \<or> (\<exists>h c. s' = pin_claims h c s1) \<or>
       (\<exists>oc dm pm rep. refuse_flow now r subject oc dm pm s1 = (s', rep))))"
    using assms unfolding consent_get_def refuseForbiddenScope_def refuseMissingFreshSignIn_def
    by (simp split: option.splits if_splits prod.splits sum.splits decision.splits) blast+
  then show ?thesis
  proof (elim disjE exE conjE)
    fix r subject s1 v h c
    assume f: "revalidate e now r subject s = (s1, v)" and s': "s' = pin_claims h c s1"
    show ?thesis
      unfolding s' pin_claims_def
      by (rule revives_from_rows [OF revalidate_flow_tables [OF f]], rule revives_update_requests) simp_all
  next
    fix r subject s1 v oc dm pm rep
    assume f: "revalidate e now r subject s = (s1, v)" and "refuse_flow now r subject oc dm pm s1 = (s', rep)"
    then show ?thesis by (blast intro: revives_from_rows revalidate_flow_tables refuse_flow_revives)
  qed (auto dest: revalidate_flow_tables)
qed

end
