(* ===== verification/Metadata.thy ===== *)
theory Metadata
  imports Clients "HOL-Library.List_Lexorder"
begin

text \<open>
  \<^verbatim>\<open>resource-servers/metadata.ts\<close> and \<^verbatim>\<open>resource-servers/metadata-changes.ts\<close>: the protected resource
  metadata document of a resource server (where it is fetched from, what a valid one is), and the
  comparison that decides whether a new document widens access.  An error is a value of
  \<open>metadata_error\<close>; its text is not modelled.
\<close>

section \<open>Documents\<close>

record resource_metadata =
  rm_resource :: string
  rm_resourceName :: "string option"
  rm_scopes :: "declared_scope list"
  rm_scopesSupported :: "string list"
  rm_hasScopeDescriptions :: bool

datatype metadata_error =
    Identifier_not_url | Identifier_not_https | Identifier_credentials | Identifier_fragment
  | Identifier_query | Not_object | Wrong_resource | Servers_not_strings | Issuer_not_listed
  | Bad_resource_name | Unsafe_text | Bad_scope_token | Reserved_scope string | Not_an_array
  | Too_many_scopes | Scope_repeated string | Entry_not_object | Bad_description string
  | Bad_flag string string | Undeclared_scope string | Step_up_supported string | No_scopes
  | Could_not_fetch reject_reason

definition MAX_METADATA_BYTES :: nat where "MAX_METADATA_BYTES = 64 * 1024"
definition METADATA_MIN_TTL_MS :: int where "METADATA_MIN_TTL_MS = 5 * 60 * 1000"
definition RESOURCE_NAME_MAX_LENGTH :: nat where "RESOURCE_NAME_MAX_LENGTH = 200"
definition DESCRIPTION_MAX_LENGTH :: nat where "DESCRIPTION_MAX_LENGTH = 300"
definition MAX_SCOPES :: nat where "MAX_SCOPES = 50"
definition WELL_KNOWN_SEGMENT :: string where "WELL_KNOWN_SEGMENT = ''/.well-known/oauth-protected-resource''"
definition RESERVED_SCOPES :: "string list" where "RESERVED_SCOPES = [''offline_access'', ''openid'']"

text \<open>\<^verbatim>\<open>/^[\x21\x23-\x5B\x5D-\x7E]+$/\<close>\<close>

definition scope_char :: "char \<Rightarrow> bool" where
  "scope_char c \<longleftrightarrow> code c = 0x21 \<or> (0x23 \<le> code c \<and> code c \<le> 0x5B) \<or> (0x5D \<le> code c \<and> code c \<le> 0x7E)"

definition is_scope_token :: "string \<Rightarrow> bool" where
  "is_scope_token s \<longleftrightarrow> s \<noteq> [] \<and> list_all scope_char s"

text \<open>The characters of \<^verbatim>\<open>/[\p{Cc}\p{Cf}\u2028\u2029]/u\<close> below 256: the two blocks of controls and the soft
  hyphen.\<close>

definition unsafe_display_char :: "char \<Rightarrow> bool" where
  "unsafe_display_char c \<longleftrightarrow> code c < 0x20 \<or> (0x7F \<le> code c \<and> code c \<le> 0x9F) \<or> code c = 0xAD"

definition displayText :: "string \<Rightarrow> metadata_error + string" where
  "displayText v = (if list_ex unsafe_display_char v then Inl Unsafe_text else Inr v)"

section \<open>Identifiers\<close>

definition metadata_loopback :: "string \<Rightarrow> bool" where
  "metadata_loopback h \<longleftrightarrow> h = ''localhost'' \<or> h = ''127.0.0.1'' \<or> h = ''[::1]'' \<or> h = ''::1''"

definition parseIdentifier :: "url_parser \<Rightarrow> string \<Rightarrow> metadata_error + url" where
  "parseIdentifier parse identifier =
     (case parse identifier of
        None \<Rightarrow> Inl Identifier_not_url
      | Some u \<Rightarrow>
          if url_protocol u \<noteq> ''https:'' \<and> \<not> (url_protocol u = ''http:'' \<and> metadata_loopback (url_hostname u))
          then Inl Identifier_not_https
          else if url_username u \<noteq> [] \<or> url_password u \<noteq> [] then Inl Identifier_credentials
          else if url_hash u \<noteq> [] \<or> CHR ''#'' \<in> set identifier then Inl Identifier_fragment
          else if url_search u \<noteq> [] \<or> CHR ''?'' \<in> set identifier then Inl Identifier_query
          else Inr u)"

text \<open>\<^verbatim>\<open>path.replace(/\/+$/, "")\<close>\<close>

definition strip_slashes :: "string \<Rightarrow> string" where
  "strip_slashes p = rev (dropWhile (\<lambda>c. c = CHR ''/'') (rev p))"

definition protectedResourceMetadataUrl :: "url_parser \<Rightarrow> string \<Rightarrow> metadata_error + string" where
  "protectedResourceMetadataUrl parse identifier =
     (case parseIdentifier parse identifier of
        Inl er \<Rightarrow> Inl er
      | Inr u \<Rightarrow> Inr (url_origin u @ WELL_KNOWN_SEGMENT @ strip_slashes (url_pathname u)))"

section \<open>Validation\<close>

definition scopeToken :: "json option \<Rightarrow> metadata_error + string" where
  "scopeToken v =
     (case v of Some (JStr s) \<Rightarrow> if is_scope_token s then Inr s else Inl Bad_scope_token
      | _ \<Rightarrow> Inl Bad_scope_token)"

definition declaredScopeName :: "json option \<Rightarrow> metadata_error + string" where
  "declaredScopeName v =
     (case scopeToken v of
        Inl er \<Rightarrow> Inl er
      | Inr n \<Rightarrow> if n \<in> set RESERVED_SCOPES then Inl (Reserved_scope n) else Inr n)"

definition optionalFlag :: "json \<Rightarrow> string \<Rightarrow> string \<Rightarrow> metadata_error + bool" where
  "optionalFlag obj key scope =
     (case member obj key of
        None \<Rightarrow> Inr False
      | Some (JBool b) \<Rightarrow> Inr b
      | Some _ \<Rightarrow> Inl (Bad_flag scope key))"

text \<open>The loop over \<^verbatim>\<open>scopes_supported\<close>: \<open>seen\<close> is the set so far, in insertion order.\<close>

fun supported_loop :: "string list \<Rightarrow> bool \<Rightarrow> json list \<Rightarrow> metadata_error + string list" where
  "supported_loop seen off [] = Inr seen"
| "supported_loop seen off (x # xs) =
     (if x = JStr ''offline_access'' then
        if off then Inl (Scope_repeated ''offline_access'') else supported_loop seen True xs
      else case declaredScopeName (Some x) of
        Inl er \<Rightarrow> Inl er
      | Inr n \<Rightarrow> if n \<in> set seen then Inl (Scope_repeated n) else supported_loop (seen @ [n]) off xs)"

definition parseScopesSupported :: "json option \<Rightarrow> metadata_error + string list" where
  "parseScopesSupported raw =
     (case raw of
        None \<Rightarrow> Inr []
      | Some (JArr xs) \<Rightarrow> if MAX_SCOPES < length xs then Inl Too_many_scopes else supported_loop [] False xs
      | Some _ \<Rightarrow> Inl Not_an_array)"

text \<open>One entry of \<^verbatim>\<open>asterism_scopes\<close>, whose name is \<open>n\<close>: the three levels nest.\<close>

definition declared_flags :: "json \<Rightarrow> string \<Rightarrow> metadata_error + (bool \<times> bool \<times> bool)" where
  "declared_flags entry n =
     (case optionalFlag entry ''fresh_sign_in'' n of
        Inl er \<Rightarrow> Inl er
      | Inr fresh \<Rightarrow>
          (case optionalFlag entry ''step_up'' n of
             Inl er \<Rightarrow> Inl er
           | Inr su \<Rightarrow>
               (case optionalFlag entry ''short_lived'' n of
                  Inl er \<Rightarrow> Inl er
                | Inr sl \<Rightarrow> Inr (fresh, su \<or> fresh, sl \<or> su \<or> fresh))))"

definition declared_entry :: "json \<Rightarrow> string \<Rightarrow> metadata_error + declared_scope" where
  "declared_entry entry n =
     (case member entry ''description'' of
        Some (JStr d) \<Rightarrow>
          if d = [] \<or> DESCRIPTION_MAX_LENGTH < length d then Inl (Bad_description n)
          else (case declared_flags entry n of
            Inl er \<Rightarrow> Inl er
          | Inr (fresh, su, sl) \<Rightarrow>
              (case displayText d of
                 Inl er \<Rightarrow> Inl er
               | Inr t \<Rightarrow> Inr \<lparr>d_name = n, d_description = t, d_stepUp = su, d_shortLived = sl,
                              d_freshSignIn = fresh\<rparr>))
      | _ \<Rightarrow> Inl (Bad_description n))"

definition is_object :: "json \<Rightarrow> bool" where
  "is_object j = (case j of JObj _ \<Rightarrow> True | _ \<Rightarrow> False)"

fun declared_loop :: "declared_scope list \<Rightarrow> json list \<Rightarrow> metadata_error + declared_scope list" where
  "declared_loop acc [] = Inr acc"
| "declared_loop acc (x # xs) =
     (if \<not> is_object x then Inl Entry_not_object
      else case declaredScopeName (member x ''name'') of
        Inl er \<Rightarrow> Inl er
      | Inr n \<Rightarrow>
          if n \<in> d_name ` set acc then Inl (Scope_repeated n)
          else (case declared_entry x n of
            Inl er \<Rightarrow> Inl er
          | Inr d \<Rightarrow> declared_loop (acc @ [d]) xs))"

definition parseDeclaredScopes :: "json \<Rightarrow> metadata_error + declared_scope list" where
  "parseDeclaredScopes raw =
     (case raw of
        JArr xs \<Rightarrow> if MAX_SCOPES < length xs then Inl Too_many_scopes else declared_loop [] xs
      | _ \<Rightarrow> Inl Not_an_array)"

definition parse_resource_name :: "json option \<Rightarrow> metadata_error + string option" where
  "parse_resource_name raw =
     (case raw of
        None \<Rightarrow> Inr None
      | Some (JStr n) \<Rightarrow>
          if n = [] \<or> RESOURCE_NAME_MAX_LENGTH < length n then Inl Bad_resource_name
          else (case displayText n of Inl er \<Rightarrow> Inl er | Inr t \<Rightarrow> Inr (Some t))
      | Some _ \<Rightarrow> Inl Bad_resource_name)"

definition plain_scope :: "string \<Rightarrow> declared_scope" where
  "plain_scope n = \<lparr>d_name = n, d_description = n, d_stepUp = False, d_shortLived = False, d_freshSignIn = False\<rparr>"

text \<open>The declared scopes against \<^verbatim>\<open>scopes_supported\<close>.\<close>

definition resolve_scopes :: "json option \<Rightarrow> string list \<Rightarrow> metadata_error + declared_scope list" where
  "resolve_scopes rawDeclared supported =
     (case rawDeclared of
        None \<Rightarrow> Inr (map plain_scope supported)
      | Some raw \<Rightarrow>
          (case parseDeclaredScopes raw of
             Inl er \<Rightarrow> Inl er
           | Inr scopes \<Rightarrow>
               (case List.find (\<lambda>n. n \<notin> d_name ` set scopes) supported of
                  Some n \<Rightarrow> Inl (Undeclared_scope n)
                | None \<Rightarrow>
                    (case List.find (\<lambda>sc. d_stepUp sc \<and> d_name sc \<in> set supported) scopes of
                       Some sc \<Rightarrow> Inl (Step_up_supported (d_name sc))
                     | None \<Rightarrow> Inr scopes))))"

definition servers_problem :: "string \<Rightarrow> json option \<Rightarrow> metadata_error option" where
  "servers_problem issuer raw =
     (case raw of
        Some (JArr xs) \<Rightarrow>
          if \<not> list_all (\<lambda>x. case x of JStr _ \<Rightarrow> True | _ \<Rightarrow> False) xs then Some Servers_not_strings
          else if JStr issuer \<notin> set xs then Some Issuer_not_listed else None
      | _ \<Rightarrow> Some Servers_not_strings)"

definition validateResourceMetadata :: "string \<Rightarrow> string \<Rightarrow> json \<Rightarrow> metadata_error + resource_metadata" where
  "validateResourceMetadata identifier issuer raw =
     (if \<not> is_object raw then Inl Not_object
      else if member raw ''resource'' \<noteq> Some (JStr identifier) then Inl Wrong_resource
      else case servers_problem issuer (member raw ''authorization_servers'') of
        Some er \<Rightarrow> Inl er
      | None \<Rightarrow>
          (case parse_resource_name (member raw ''resource_name'') of
             Inl er \<Rightarrow> Inl er
           | Inr name \<Rightarrow>
               (case parseScopesSupported (member raw ''scopes_supported'') of
                  Inl er \<Rightarrow> Inl er
                | Inr supported \<Rightarrow>
                    (case resolve_scopes (member raw ''asterism_scopes'') supported of
                       Inl er \<Rightarrow> Inl er
                     | Inr scopes \<Rightarrow>
                         if scopes = [] then Inl No_scopes
                         else Inr \<lparr>rm_resource = identifier, rm_resourceName = name, rm_scopes = scopes,
                                   rm_scopesSupported = supported,
                                   rm_hasScopeDescriptions = (member raw ''asterism_scopes'' \<noteq> None)\<rparr>))))"

definition metadata_fetch_options :: "bool \<Rightarrow> fetch_options" where
  "metadata_fetch_options internal =
     \<lparr>fo_maxBytes = MAX_METADATA_BYTES, fo_maxRedirects = 0, fo_allowPrivateNetwork = internal,
      fo_allowedPorts = None, fo_pool = Pool_resource_metadata\<rparr>"

text \<open>The document and the time it expires.\<close>

definition fetchResourceMetadata ::
    "env \<Rightarrow> time_ms \<Rightarrow> string \<Rightarrow> bool \<Rightarrow> 'a client_state_scheme \<Rightarrow>
     'a client_state_scheme \<times> (metadata_error + resource_metadata \<times> time_ms)" where
  "fetchResourceMetadata e now identifier internal s =
     (case protectedResourceMetadataUrl (new_URL e) identifier of
        Inl er \<Rightarrow> (s, Inl er)
      | Inr u \<Rightarrow>
          (case safeFetchJson (e_net e) (metadata_fetch_options internal) now u (fetcher s) of
             (f, Inl reason) \<Rightarrow> (s\<lparr>fetcher := f\<rparr>, Inl (Could_not_fetch reason))
           | (f, Inr (headers, raw)) \<Rightarrow>
               (s\<lparr>fetcher := f\<rparr>,
                (case validateResourceMetadata identifier (e_issuerUrl e) raw of
                   Inl er \<Rightarrow> Inl er
                 | Inr m \<Rightarrow>
                     Inr (m, now + max (cacheLifetimeMs (jm_get headers ''cache-control'')) METADATA_MIN_TTL_MS)))))"

section \<open>Stored snapshots\<close>

text \<open>A document as the JSON column stores it.\<close>

definition scope_json :: "declared_scope \<Rightarrow> json" where
  "scope_json d =
     JObj [(''name'', JStr (d_name d)), (''description'', JStr (d_description d)),
           (''stepUp'', JBool (d_stepUp d)), (''shortLived'', JBool (d_shortLived d)),
           (''freshSignIn'', JBool (d_freshSignIn d))]"

definition metadata_json :: "resource_metadata \<Rightarrow> json" where
  "metadata_json m =
     JObj [(''resource'', JStr (rm_resource m)),
           (''resourceName'', case rm_resourceName m of None \<Rightarrow> JNull | Some n \<Rightarrow> JStr n),
           (''scopes'', JArr (map scope_json (rm_scopes m))),
           (''scopesSupported'', JArr (map JStr (rm_scopesSupported m))),
           (''hasScopeDescriptions'', JBool (rm_hasScopeDescriptions m))]"

text \<open>Reads of a stored document.  It was validated before it was written, so the string members are
  strings; what the code would read from anything else is not modelled (it reads as empty).\<close>

definition str_member :: "json \<Rightarrow> string \<Rightarrow> string" where
  "str_member j k = (case member j k of Some (JStr s) \<Rightarrow> s | _ \<Rightarrow> [])"

definition flag_member :: "json \<Rightarrow> string \<Rightarrow> bool" where
  "flag_member j k \<longleftrightarrow> member j k = Some (JBool True)"

definition snapshot_scope :: "json \<Rightarrow> declared_scope" where
  "snapshot_scope j =
     \<lparr>d_name = str_member j ''name'', d_description = str_member j ''description'',
      d_stepUp = flag_member j ''stepUp'', d_shortLived = flag_member j ''shortLived'',
      d_freshSignIn = flag_member j ''freshSignIn''\<rparr>"

definition snapshotScopes :: "json option \<Rightarrow> declared_scope list option" where
  "snapshotScopes m =
     (case m of
        None \<Rightarrow> None
      | Some j \<Rightarrow> (case member j ''scopes'' of Some (JArr xs) \<Rightarrow> Some (map snapshot_scope xs) | _ \<Rightarrow> None))"

definition scopes_or_none :: "json option \<Rightarrow> declared_scope list" where
  "scopes_or_none m = (case snapshotScopes m of None \<Rightarrow> [] | Some ds \<Rightarrow> ds)"

record snapshot_view =
  sv_resourceName :: "string option"
  sv_scopes :: "declared_scope list"

definition snapshotView :: "json option \<Rightarrow> snapshot_view" where
  "snapshotView m =
     \<lparr>sv_resourceName = (case m of None \<Rightarrow> None | Some j \<Rightarrow> as_string (member j ''resourceName'')),
      sv_scopes = scopes_or_none m\<rparr>"

section \<open>The canonical form\<close>

text \<open>\<^verbatim>\<open>JSON.stringify\<close> of a string.\<close>

definition hex_digit :: "nat \<Rightarrow> char" where
  "hex_digit n = (if n < 10 then char_of (48 + n) else char_of (87 + n))"

definition esc_char :: "char \<Rightarrow> string" where
  "esc_char c =
     (if c = CHR 0x22 then [CHR 0x5C, CHR 0x22]
      else if c = CHR 0x5C then [CHR 0x5C, CHR 0x5C]
      else if code c = 8 then [CHR 0x5C, CHR ''b'']
      else if code c = 12 then [CHR 0x5C, CHR ''f'']
      else if code c = 10 then [CHR 0x5C, CHR ''n'']
      else if code c = 13 then [CHR 0x5C, CHR ''r'']
      else if code c = 9 then [CHR 0x5C, CHR ''t'']
      else if code c < 32 then [CHR 0x5C, CHR ''u'', CHR ''0'', CHR ''0'', hex_digit (code c div 16), hex_digit (code c mod 16)]
      else [c])"

definition json_quote :: "string \<Rightarrow> string" where
  "json_quote s = CHR 0x22 # concat (map esc_char s) @ [CHR 0x22]"

definition bool_text :: "bool \<Rightarrow> string" where
  "bool_text b = (if b then ''true'' else ''false'')"

definition scope_text :: "declared_scope \<Rightarrow> string" where
  "scope_text d =
     CHR ''['' # join '','' [json_quote (d_name d), json_quote (d_description d), bool_text (d_stepUp d),
       bool_text (d_shortLived d), bool_text (d_freshSignIn d)] @ '']''"

definition canonicalView :: "snapshot_view \<Rightarrow> string" where
  "canonicalView v =
     CHR ''{'' # json_quote ''n'' @ '':'' @
       (case sv_resourceName v of None \<Rightarrow> ''null'' | Some n \<Rightarrow> json_quote n) @ '','' @
       json_quote ''s'' @ '':['' @ join '','' (map scope_text (sort_key d_name (sv_scopes v))) @ '']}''"

definition snapshotChanged :: "snapshot_view \<Rightarrow> snapshot_view \<Rightarrow> bool" where
  "snapshotChanged a b \<longleftrightarrow> canonicalView a \<noteq> canonicalView b"

definition pendingFingerprint :: "env \<Rightarrow> json \<Rightarrow> string" where
  "pendingFingerprint e m = take 16 (e_sha256 e (canonicalView (snapshotView (Some m))))"

section \<open>What widens\<close>

datatype scope_flag = Flag_step_up | Flag_short_lived | Flag_fresh_sign_in

datatype pending_change =
    New_scope string string bool bool bool
  | Flag_removed string scope_flag
  | Description_changed string string string

text \<open>\<^verbatim>\<open>new Map(scopes.map((s) => [s.name, s]))\<close>: the last scope of a name wins.\<close>

definition scope_map :: "declared_scope list \<Rightarrow> string \<Rightarrow> declared_scope option" where
  "scope_map ds = map_of (rev (map (\<lambda>d. (d_name d, d)) ds))"

definition changes_of :: "(string \<Rightarrow> declared_scope option) \<Rightarrow> declared_scope \<Rightarrow> pending_change list" where
  "changes_of current c =
     (case current (d_name c) of
        None \<Rightarrow> [New_scope (d_name c) (d_description c) (d_stepUp c) (d_shortLived c) (d_freshSignIn c)]
      | Some a \<Rightarrow>
          (if d_stepUp a \<and> \<not> d_stepUp c then [Flag_removed (d_name c) Flag_step_up] else []) @
          (if d_shortLived a \<and> \<not> d_shortLived c then [Flag_removed (d_name c) Flag_short_lived] else []) @
          (if d_freshSignIn a \<and> \<not> d_freshSignIn c then [Flag_removed (d_name c) Flag_fresh_sign_in] else []) @
          (if d_description a \<noteq> d_description c
           then [Description_changed (d_name c) (d_description a) (d_description c)] else []))"

definition pendingChanges :: "json option \<Rightarrow> json option \<Rightarrow> pending_change list" where
  "pendingChanges inForce candidate =
     concat (map (changes_of (scope_map (scopes_or_none inForce))) (scopes_or_none candidate))"

definition widens :: "json \<Rightarrow> resource_metadata \<Rightarrow> bool" where
  "widens inForce candidate \<longleftrightarrow> pendingChanges (Some inForce) (Some (metadata_json candidate)) \<noteq> []"

definition merge_scope :: "(string \<Rightarrow> declared_scope option) \<Rightarrow> declared_scope \<Rightarrow> declared_scope option" where
  "merge_scope incoming a =
     map_option (\<lambda>c. a\<lparr>d_stepUp := d_stepUp a \<or> d_stepUp c, d_shortLived := d_shortLived a \<or> d_shortLived c,
                       d_freshSignIn := d_freshSignIn a \<or> d_freshSignIn c\<rparr>) (incoming (d_name a))"

definition string_items :: "json option \<Rightarrow> string list" where
  "string_items j = (case j of Some (JArr xs) \<Rightarrow> json_strings xs | _ \<Rightarrow> [])"

definition mergeMetadata :: "json \<Rightarrow> resource_metadata \<Rightarrow> resource_metadata" where
  "mergeMetadata inForce candidate =
     (let scopes = List.map_filter (merge_scope (scope_map (rm_scopes candidate))) (scopes_or_none (Some inForce)) in
      \<lparr>rm_resource = str_member inForce ''resource'',
       rm_resourceName = as_string (member inForce ''resourceName''),
       rm_scopes = scopes,
       rm_scopesSupported =
         filter (\<lambda>n. n \<in> d_name ` set scopes) (string_items (member inForce ''scopesSupported'')),
       rm_hasScopeDescriptions = flag_member inForce ''hasScopeDescriptions''\<rparr>)"

section \<open>Facts\<close>

lemma snapshot_scope_json [simp]: "snapshot_scope (scope_json d) = d"
  by (simp add: snapshot_scope_def scope_json_def str_member_def flag_member_def)

lemma snapshotScopes_json [simp]: "snapshotScopes (Some (metadata_json m)) = Some (rm_scopes m)"
  by (simp add: snapshotScopes_def metadata_json_def comp_def)

lemma scopes_or_none_json [simp]: "scopes_or_none (Some (metadata_json m)) = rm_scopes m"
  by (simp add: scopes_or_none_def)

text \<open>A document is within another when each of its scopes has a counterpart there with the same text and
  no flag that it lacks itself.\<close>

definition scope_within :: "declared_scope list \<Rightarrow> declared_scope \<Rightarrow> bool" where
  "scope_within ds c \<longleftrightarrow>
     (\<exists>a \<in> set ds. d_name a = d_name c \<and> d_description a = d_description c \<and>
        (d_stepUp a \<longrightarrow> d_stepUp c) \<and> (d_shortLived a \<longrightarrow> d_shortLived c) \<and> (d_freshSignIn a \<longrightarrow> d_freshSignIn c))"

definition scopes_within :: "declared_scope list \<Rightarrow> declared_scope list \<Rightarrow> bool" where
  "scopes_within cs ds \<longleftrightarrow> list_all (scope_within ds) cs"

lemma scopes_within_refl: "scopes_within ds ds"
  by (auto simp: scopes_within_def scope_within_def list_all_iff)

lemma scopes_within_trans: "scopes_within xs ys \<Longrightarrow> scopes_within ys zs \<Longrightarrow> scopes_within xs zs"
  unfolding scopes_within_def scope_within_def list_all_iff by metis

lemma scope_map_SomeD: "scope_map ds n = Some d \<Longrightarrow> d \<in> set ds \<and> d_name d = n"
  by (auto simp: scope_map_def dest: map_of_SomeD)

lemma scope_map_member: "distinct (map d_name ds) \<Longrightarrow> d \<in> set ds \<Longrightarrow> scope_map ds (d_name d) = Some d"
  by (rule map_of_is_SomeI [of "rev (map (\<lambda>d. (d_name d, d)) ds)", folded scope_map_def])
    (auto simp: rev_map [symmetric] comp_def distinct_rev)

lemma changes_of_Nil:
  "changes_of (scope_map ds) c = [] \<Longrightarrow> scope_within ds c"
  by (auto simp: changes_of_def scope_within_def split: option.splits if_splits dest!: scope_map_SomeD)

lemma pendingChanges_Nil:
  "pendingChanges m c = [] \<Longrightarrow> scopes_within (scopes_or_none c) (scopes_or_none m)"
  by (auto simp: pendingChanges_def scopes_within_def list_all_iff intro: changes_of_Nil)

lemma within_no_changes:
  assumes "scopes_within (scopes_or_none c) (scopes_or_none m)" "distinct (map d_name (scopes_or_none m))"
  shows "pendingChanges m c = []"
proof -
  have "changes_of (scope_map (scopes_or_none m)) x = []" if x: "x \<in> set (scopes_or_none c)" for x
  proof -
    from assms(1) x obtain a where a: "a \<in> set (scopes_or_none m)" "d_name a = d_name x"
      "d_description a = d_description x" "d_stepUp a \<longrightarrow> d_stepUp x" "d_shortLived a \<longrightarrow> d_shortLived x"
      "d_freshSignIn a \<longrightarrow> d_freshSignIn x"
      by (auto simp: scopes_within_def scope_within_def list_all_iff)
    from scope_map_member [OF assms(2) a(1)] a show ?thesis by (simp add: changes_of_def)
  qed
  then show ?thesis by (simp add: pendingChanges_def)
qed

lemma set_map_filter: "set (List.map_filter f xs) = {y. \<exists>x \<in> set xs. f x = Some y}"
  by (auto simp: List.map_filter_def) (force simp: image_iff)

lemma merge_within: "scopes_within (rm_scopes (mergeMetadata m c)) (scopes_or_none (Some m))"
  by (auto simp: mergeMetadata_def Let_def scopes_within_def list_all_iff set_map_filter merge_scope_def
      scope_within_def)

lemma merge_scopes_of_candidate:
  "d \<in> set (rm_scopes (mergeMetadata m c)) \<Longrightarrow> d_name d \<in> d_name ` set (rm_scopes c)"
  by (auto simp: mergeMetadata_def Let_def set_map_filter merge_scope_def image_iff dest!: scope_map_SomeD)
    (metis)

end
