(* ===== verification/Servers.thy ===== *)
theory Servers
  imports Metadata
begin

text \<open>
  \<^verbatim>\<open>resource-servers/service.ts\<close> and \<^verbatim>\<open>resource-servers/refresh-job.ts\<close>: what the operator does to the
  resource servers.  Every operation runs to its end; only \<^verbatim>\<open>refreshMetadata\<close> is split where it awaits
  the fetch, since an accept or another refresh may be committed meanwhile.  A refusal is a value of
  \<open>service_error\<close>.  Identifiers of rows are arguments.
\<close>

section \<open>What the operator sees\<close>

record scope_status =
  ss_name :: string
  ss_description :: string
  ss_declaredDescription :: string
  ss_descriptionOverride :: "string option"
  ss_stepUp :: bool
  ss_declaredShortLived :: bool
  ss_policyShortLived :: bool
  ss_shortLived :: bool
  ss_declaredFreshSignIn :: bool
  ss_policyFreshSignIn :: bool
  ss_freshSignIn :: bool
  ss_requireGroups :: "string list"

record pending_metadata =
  pm_since :: time_ms
  pm_fingerprint :: string
  pm_changes :: "pending_change list"

record server_status =
  st_id :: string
  st_identifier :: string
  st_displayName :: string
  st_enabled :: bool
  st_internal :: bool
  st_releaseClaims :: "string list"
  st_approvedAt :: time_ms
  st_approvedBy :: string
  st_hasSnapshot :: bool
  st_metadataFetchedAt :: "time_ms option"
  st_metadataExpiresAt :: "time_ms option"
  st_snapshotAgeSeconds :: "int option"
  st_lastFetchError :: "string option"
  st_lastFetchAttemptAt :: "time_ms option"
  st_scopes :: "scope_status list"
  st_undeclaredPolicies :: "scope_policy list"
  st_pending :: "pending_metadata option"

definition pendingOf :: "env \<Rightarrow> server_row \<Rightarrow> pending_metadata option" where
  "pendingOf e row =
     (case sr_pendingMetadata row of
        None \<Rightarrow> None
      | Some p \<Rightarrow>
          (let changes = pendingChanges (sr_metadata row) (Some p) in
           if changes = [] then None
           else Some \<lparr>pm_since = (case sr_pendingSince row of Some t \<Rightarrow> t | None \<Rightarrow> sr_updatedAt row),
                      pm_fingerprint = pendingFingerprint e p, pm_changes = changes\<rparr>))"

definition scope_status_of :: "(string \<Rightarrow> scope_policy option) \<Rightarrow> declared_scope \<Rightarrow> scope_status" where
  "scope_status_of policies d =
     (let p = policies (d_name d);
          policyFresh = (case p of None \<Rightarrow> False | Some q \<Rightarrow> sp_freshSignIn q);
          policyShort = (case p of None \<Rightarrow> False | Some q \<Rightarrow> sp_shortLived q);
          override = (case p of None \<Rightarrow> None | Some q \<Rightarrow> sp_descriptionOverride q);
          fresh = (d_freshSignIn d \<or> policyFresh) in
      \<lparr>ss_name = d_name d,
       ss_description = (case override of Some t \<Rightarrow> t | None \<Rightarrow> d_description d),
       ss_declaredDescription = d_description d, ss_descriptionOverride = override,
       ss_stepUp = d_stepUp d, ss_declaredShortLived = d_shortLived d, ss_policyShortLived = policyShort,
       ss_shortLived = (d_shortLived d \<or> d_stepUp d \<or> fresh \<or> policyShort),
       ss_declaredFreshSignIn = d_freshSignIn d, ss_policyFreshSignIn = policyFresh, ss_freshSignIn = fresh,
       ss_requireGroups = (case p of None \<Rightarrow> [] | Some q \<Rightarrow> sp_requireGroups q)\<rparr>)"

text \<open>\<^verbatim>\<open>Math.max(0, Math.round(ms / 1000))\<close>\<close>

definition rounded_seconds :: "int \<Rightarrow> int" where
  "rounded_seconds ms = max 0 ((ms + 500) div 1000)"

definition statusOf :: "env \<Rightarrow> time_ms \<Rightarrow> server_row \<Rightarrow> server_status" where
  "statusOf e now row =
     (let declared = snapshotScopes (sr_metadata row); ds = scopes_or_none (sr_metadata row) in
      \<lparr>st_id = sr_id row, st_identifier = sr_identifier row, st_displayName = sr_displayName row,
       st_enabled = sr_enabled row, st_internal = sr_internal row, st_releaseClaims = sr_releaseClaims row,
       st_approvedAt = sr_approvedAt row, st_approvedBy = sr_approvedBy row,
       st_hasSnapshot = (declared \<noteq> None), st_metadataFetchedAt = sr_metadataFetchedAt row,
       st_metadataExpiresAt = sr_metadataExpiresAt row,
       st_snapshotAgeSeconds = map_option (\<lambda>t. rounded_seconds (now - t)) (sr_metadataFetchedAt row),
       st_lastFetchError = sr_lastFetchError row, st_lastFetchAttemptAt = sr_lastFetchAttemptAt row,
       st_scopes = map (scope_status_of (policy_map (sr_scopePolicies row))) ds,
       st_undeclaredPolicies = filter (\<lambda>p. sp_scopeName p \<notin> d_name ` set ds) (sr_scopePolicies row),
       st_pending = pendingOf e row\<rparr>)"

section \<open>Audit rows\<close>

definition strings_json :: "string list \<Rightarrow> json" where
  "strings_json xs = JArr (map JStr xs)"

definition policy_json :: "scope_policy \<Rightarrow> (string \<times> json) list" where
  "policy_json p =
     [(''shortLived'', JBool (sp_shortLived p)), (''freshSignIn'', JBool (sp_freshSignIn p)),
      (''requireGroups'', strings_json (sp_requireGroups p)),
      (''descriptionOverride'', case sp_descriptionOverride p of None \<Rightarrow> JNull | Some t \<Rightarrow> JStr t)]"

text \<open>A stable insertion sort by \<^verbatim>\<open>localeCompare\<close>, which is a parameter.\<close>

fun insert_by :: "('a \<Rightarrow> 'a \<Rightarrow> bool) \<Rightarrow> 'a \<Rightarrow> 'a list \<Rightarrow> 'a list" where
  "insert_by le x [] = [x]"
| "insert_by le x (y # ys) = (if le x y then x # y # ys else y # insert_by le x ys)"

definition sort_by :: "('a \<Rightarrow> 'a \<Rightarrow> bool) \<Rightarrow> 'a list \<Rightarrow> 'a list" where
  "sort_by le xs = foldr (insert_by le) xs []"

definition policyOf :: "env \<Rightarrow> server_row \<Rightarrow> json" where
  "policyOf e row =
     JObj [(''displayName'', JStr (sr_displayName row)), (''enabled'', JBool (sr_enabled row)),
           (''internal'', JBool (sr_internal row)), (''releaseClaims'', strings_json (sr_releaseClaims row)),
           (''scopePolicies'',
             JArr (map (\<lambda>p. JObj ((''scopeName'', JStr (sp_scopeName p)) # policy_json p))
                    (sort_by (\<lambda>p q. e_localeLe e (sp_scopeName p) (sp_scopeName q)) (sr_scopePolicies row))))]"

definition view_json :: "snapshot_view \<Rightarrow> (string \<times> json) list" where
  "view_json v =
     [(''resourceName'', case sv_resourceName v of None \<Rightarrow> JNull | Some n \<Rightarrow> JStr n),
      (''scopes'', JArr (map scope_json (sv_scopes v)))]"

text \<open>\<^verbatim>\<open>{ ...a, ...b }\<close> of two objects.\<close>

fun spread :: "json \<Rightarrow> (string \<times> json) list \<Rightarrow> json" where
  "spread (JObj fs) gs = JObj (foldl (\<lambda>m (k, v). AList.update k v m) fs gs)"
| "spread j gs = JObj gs"

definition audit ::
    "string \<Rightarrow> string \<Rightarrow> string \<Rightarrow> json option \<Rightarrow> json option \<Rightarrow> 'a db_scheme \<Rightarrow> 'a db_scheme" where
  "audit actor action target before after s =
     s\<lparr>adminAuditLog := adminAuditLog s @
         [\<lparr>au_actor = actor, au_action = action, au_target = target, au_before = before, au_after = after\<rparr>]\<rparr>"

definition notifyRegistryChanged :: "'a registry_state_scheme \<Rightarrow> 'a registry_state_scheme" where
  "notifyRegistryChanged s = s\<lparr>notifications := Suc (notifications s)\<rparr>"

section \<open>Errors and lookups\<close>

datatype service_error =
    No_such_server | Bad_release_claims claims_problem | Empty_display_name | Already_approved
  | Cannot_approve metadata_error | Nothing_to_change | Empty_scope_name | Empty_group_name
  | Bad_override | No_pending | Pending_changed | Row_gone

definition requireServer :: "string \<Rightarrow> 'a db_scheme \<Rightarrow> service_error + server_row" where
  "requireServer identifier s =
     (case row_of sr_identifier identifier (resourceServers s) of None \<Rightarrow> Inl No_such_server | Some r \<Rightarrow> Inr r)"

definition checkReleaseClaims :: "string list \<Rightarrow> service_error + string list" where
  "checkReleaseClaims names =
     (case releaseClaimsProblem names of Some p \<Rightarrow> Inl (Bad_release_claims p) | None \<Rightarrow> Inr names)"

definition checkDisplayName :: "string \<Rightarrow> service_error + string" where
  "checkDisplayName name = (let t = trim name in if t = [] then Inl Empty_display_name else Inr t)"

definition listResourceServers :: "env \<Rightarrow> time_ms \<Rightarrow> 'a db_scheme \<Rightarrow> server_status list" where
  "listResourceServers e now s = map (statusOf e now) (sort_key sr_identifier (resourceServers s))"

definition findResourceServerById :: "env \<Rightarrow> time_ms \<Rightarrow> string \<Rightarrow> 'a db_scheme \<Rightarrow> server_status option" where
  "findResourceServerById e now i s = map_option (statusOf e now) (row_of sr_id i (resourceServers s))"

definition getResourceServer :: "env \<Rightarrow> time_ms \<Rightarrow> string \<Rightarrow> 'a db_scheme \<Rightarrow> service_error + server_status" where
  "getResourceServer e now identifier s =
     (case requireServer identifier s of Inl er \<Rightarrow> Inl er | Inr r \<Rightarrow> Inr (statusOf e now r))"

definition previewResourceServer ::
    "env \<Rightarrow> time_ms \<Rightarrow> string \<Rightarrow> bool \<Rightarrow> 'a client_state_scheme \<Rightarrow>
     'a client_state_scheme \<times> (metadata_error + resource_metadata)" where
  "previewResourceServer e now identifier internal s =
     (case fetchResourceMetadata e now (trim identifier) internal s of
        (s1, Inl er) \<Rightarrow> (s1, Inl er)
      | (s1, Inr (m, _)) \<Rightarrow> (s1, Inr m))"

section \<open>Approval\<close>

record approve_params =
  ap_identifier :: string
  ap_displayName :: "string option"
  ap_internal :: bool
  ap_releaseClaims :: "string list"

definition hostOf :: "url_parser \<Rightarrow> string \<Rightarrow> string" where
  "hostOf parse identifier = (case parse identifier of None \<Rightarrow> identifier | Some u \<Rightarrow> url_host u)"

definition approved_row ::
    "time_ms \<Rightarrow> string \<Rightarrow> string \<Rightarrow> string \<Rightarrow> approve_params \<Rightarrow> string \<Rightarrow> resource_metadata \<Rightarrow> time_ms \<Rightarrow> server_row" where
  "approved_row now newId identifier displayName p actor m expiresAt =
     \<lparr>sr_id = newId, sr_identifier = identifier, sr_displayName = displayName, sr_enabled = True,
      sr_internal = ap_internal p, sr_releaseClaims = ap_releaseClaims p,
      sr_metadata = Some (metadata_json m), sr_metadataFetchedAt = Some now,
      sr_metadataExpiresAt = Some expiresAt, sr_lastFetchError = None, sr_lastFetchAttemptAt = Some now,
      sr_pendingMetadata = None, sr_pendingSince = None, sr_approvedAt = now, sr_approvedBy = actor,
      sr_updatedAt = now, sr_scopePolicies = []\<rparr>"

text \<open>The transaction, after the document was fetched.\<close>

definition approve_commit ::
    "env \<Rightarrow> time_ms \<Rightarrow> string \<Rightarrow> approve_params \<Rightarrow> string \<Rightarrow> resource_metadata \<Rightarrow> time_ms \<Rightarrow>
     'a client_state_scheme \<Rightarrow> 'a client_state_scheme \<times> (service_error + server_status)" where
  "approve_commit e now newId p actor m expiresAt s =
     (let identifier = trim (ap_identifier p) in
      case checkDisplayName (case ap_displayName p of Some n \<Rightarrow> n | None \<Rightarrow>
             (case rm_resourceName m of Some n \<Rightarrow> n | None \<Rightarrow> hostOf (new_URL e) identifier)) of
        Inl er \<Rightarrow> (s, Inl er)
      | Inr displayName \<Rightarrow>
          (let row = approved_row now newId identifier displayName p actor m expiresAt in
           case create_row sr_identifier row (resourceServers s) of
             None \<Rightarrow> (s, Inl Already_approved)
           | Some t \<Rightarrow>
               (loadRegistry (notifyRegistryChanged
                  (audit actor ''resource-server.approve'' identifier None
                     (Some (spread (policyOf e row) (view_json (snapshotView (sr_metadata row)))))
                     (s\<lparr>resourceServers := t\<rparr>))),
                Inr (statusOf e now row))))"

definition approveResourceServer ::
    "env \<Rightarrow> time_ms \<Rightarrow> string \<Rightarrow> approve_params \<Rightarrow> string \<Rightarrow> 'a client_state_scheme \<Rightarrow>
     'a client_state_scheme \<times> (service_error + server_status)" where
  "approveResourceServer e now newId p actor s =
     (let identifier = trim (ap_identifier p) in
      case checkReleaseClaims (ap_releaseClaims p) of
        Inl er \<Rightarrow> (s, Inl er)
      | Inr _ \<Rightarrow>
          if row_of sr_identifier identifier (resourceServers s) \<noteq> None then (s, Inl Already_approved)
          else (case fetchResourceMetadata e now identifier (ap_internal p) s of
            (s1, Inl er) \<Rightarrow> (s1, Inl (Cannot_approve er))
          | (s1, Inr (m, expiresAt)) \<Rightarrow> approve_commit e now newId p actor m expiresAt s1))"

section \<open>Update and scope policy\<close>

record update_params =
  up_displayName :: "string option"
  up_releaseClaims :: "string list option"
  up_enabled :: "bool option"
  up_internal :: "bool option"

definition keep :: "'v option \<Rightarrow> 'v \<Rightarrow> 'v" where
  "keep new old = (case new of Some v \<Rightarrow> v | None \<Rightarrow> old)"

text \<open>The checked fields of an update.\<close>

definition update_data :: "update_params \<Rightarrow> service_error + update_params" where
  "update_data p =
     (case (case up_displayName p of None \<Rightarrow> Inr None | Some n \<Rightarrow> map_sum id Some (checkDisplayName n)) of
        Inl er \<Rightarrow> Inl er
      | Inr name \<Rightarrow>
          (case (case up_releaseClaims p of None \<Rightarrow> Inr None | Some c \<Rightarrow> map_sum id Some (checkReleaseClaims c)) of
             Inl er \<Rightarrow> Inl er
           | Inr claims \<Rightarrow>
               if name = None \<and> claims = None \<and> up_enabled p = None \<and> up_internal p = None
               then Inl Nothing_to_change
               else Inr (p\<lparr>up_displayName := name, up_releaseClaims := claims\<rparr>)))"

definition updated_row :: "time_ms \<Rightarrow> update_params \<Rightarrow> server_row \<Rightarrow> server_row" where
  "updated_row now d r =
     r\<lparr>sr_displayName := keep (up_displayName d) (sr_displayName r),
       sr_releaseClaims := keep (up_releaseClaims d) (sr_releaseClaims r),
       sr_enabled := keep (up_enabled d) (sr_enabled r), sr_internal := keep (up_internal d) (sr_internal r),
       sr_updatedAt := now\<rparr>"

text \<open>The write of one server row, by its unique identifier.\<close>

definition put_server :: "string \<Rightarrow> (server_row \<Rightarrow> server_row) \<Rightarrow> 'a db_scheme \<Rightarrow> 'a db_scheme" where
  "put_server identifier f s =
     s\<lparr>resourceServers := update_many (\<lambda>r. sr_identifier r = identifier) f (resourceServers s)\<rparr>"

definition updateResourceServer ::
    "env \<Rightarrow> time_ms \<Rightarrow> string \<Rightarrow> update_params \<Rightarrow> string \<Rightarrow> 'a registry_state_scheme \<Rightarrow>
     'a registry_state_scheme \<times> (service_error + server_status)" where
  "updateResourceServer e now identifier p actor s =
     (case update_data p of
        Inl er \<Rightarrow> (s, Inl er)
      | Inr d \<Rightarrow>
          (case requireServer identifier s of
             Inl er \<Rightarrow> (s, Inl er)
           | Inr before \<Rightarrow>
               (let after = updated_row now d before in
                (loadRegistry (notifyRegistryChanged
                   (audit actor ''resource-server.update'' identifier (Some (policyOf e before))
                      (Some (policyOf e after)) (put_server identifier (updated_row now d) s))),
                 Inr (statusOf e now after)))))"

record policy_params =
  pp_shortLived :: "bool option"
  pp_freshSignIn :: "bool option"
  pp_requireGroups :: "string list option"
  pp_descriptionOverride :: "string option option"

definition MAX_DESCRIPTION_LENGTH :: nat where "MAX_DESCRIPTION_LENGTH = 500"

text \<open>The checked fields; the outer \<^const>\<open>None\<close> of an override is absence, the inner one removes it.\<close>

definition policy_data :: "policy_params \<Rightarrow> service_error + policy_params" where
  "policy_data p =
     (if (case pp_requireGroups p of None \<Rightarrow> False | Some gs \<Rightarrow> [] \<in> set gs) then Inl Empty_group_name
      else if (case pp_descriptionOverride p of
                 Some (Some t) \<Rightarrow> trim t = [] \<or> MAX_DESCRIPTION_LENGTH < length (trim t) | _ \<Rightarrow> False)
      then Inl Bad_override
      else if pp_shortLived p = None \<and> pp_freshSignIn p = None \<and> pp_requireGroups p = None \<and>
              pp_descriptionOverride p = None
      then Inl Nothing_to_change
      else Inr (p\<lparr>pp_requireGroups := map_option uniq (pp_requireGroups p),
                  pp_descriptionOverride := map_option (map_option trim) (pp_descriptionOverride p)\<rparr>))"

definition new_policy :: "string \<Rightarrow> scope_policy" where
  "new_policy scope =
     \<lparr>sp_scopeName = scope, sp_shortLived = False, sp_freshSignIn = False, sp_requireGroups = [],
      sp_descriptionOverride = None\<rparr>"

definition apply_policy :: "policy_params \<Rightarrow> scope_policy \<Rightarrow> scope_policy" where
  "apply_policy d p =
     p\<lparr>sp_shortLived := keep (pp_shortLived d) (sp_shortLived p),
       sp_freshSignIn := keep (pp_freshSignIn d) (sp_freshSignIn p),
       sp_requireGroups := keep (pp_requireGroups d) (sp_requireGroups p),
       sp_descriptionOverride := keep (pp_descriptionOverride d) (sp_descriptionOverride p)\<rparr>"

definition upsert_policy :: "string \<Rightarrow> policy_params \<Rightarrow> scope_policy list \<Rightarrow> scope_policy list" where
  "upsert_policy scope d ps =
     (if scope \<in> sp_scopeName ` set ps then update_many (\<lambda>p. sp_scopeName p = scope) (apply_policy d) ps
      else ps @ [apply_policy d (new_policy scope)])"

text \<open>The status, and whether the warning is given that the scope is not declared.\<close>

definition setScopePolicy ::
    "env \<Rightarrow> time_ms \<Rightarrow> string \<Rightarrow> string \<Rightarrow> policy_params \<Rightarrow> string \<Rightarrow> 'a registry_state_scheme \<Rightarrow>
     'a registry_state_scheme \<times> (service_error + server_status \<times> bool)" where
  "setScopePolicy e now identifier scopeName p actor s =
     (if scopeName = [] then (s, Inl Empty_scope_name)
      else case policy_data p of
        Inl er \<Rightarrow> (s, Inl er)
      | Inr d \<Rightarrow>
          (case requireServer identifier s of
             Inl er \<Rightarrow> (s, Inl er)
           | Inr server \<Rightarrow>
               (let f = (\<lambda>r. r\<lparr>sr_scopePolicies := upsert_policy scopeName d (sr_scopePolicies r)\<rparr>);
                    row = f server;
                    view = (\<lambda>r. map_option (\<lambda>q. JObj (policy_json q))
                                  (row_of sp_scopeName scopeName (sr_scopePolicies r))) in
                (loadRegistry (notifyRegistryChanged
                   (audit actor ''resource-server.scope-policy'' (identifier @ ''#'' @ scopeName) (view server)
                      (view row) (put_server identifier f s))),
                 Inr (statusOf e now row,
                      scopeName \<notin> d_name ` set (scopes_or_none (sr_metadata row)))))))"

section \<open>Refresh, accept, remove\<close>

text \<open>A failed fetch: the text of the error is the parameter \<open>msg\<close>.\<close>

definition refresh_failed ::
    "time_ms \<Rightarrow> string \<Rightarrow> string \<Rightarrow> 'a db_scheme \<Rightarrow> 'a db_scheme \<times> (service_error + string option)" where
  "refresh_failed now identifier msg s =
     (if row_of sr_identifier identifier (resourceServers s) = None then (s, Inl Row_gone)
      else (put_server identifier
              (\<lambda>r. r\<lparr>sr_lastFetchError := Some msg, sr_lastFetchAttemptAt := Some now, sr_updatedAt := now\<rparr>) s,
            Inr (Some msg)))"

text \<open>What a fetched document becomes: the snapshot in force and the document that waits.\<close>

definition decide_snapshot :: "json option \<Rightarrow> resource_metadata \<Rightarrow> resource_metadata \<times> json option" where
  "decide_snapshot inForce candidate =
     (case inForce of
        None \<Rightarrow> (candidate, None)
      | Some m \<Rightarrow>
          if widens m candidate then (mergeMetadata m candidate, Some (metadata_json candidate))
          else (candidate, None))"

definition refreshed_row ::
    "env \<Rightarrow> time_ms \<Rightarrow> resource_metadata \<Rightarrow> time_ms \<Rightarrow> server_row \<Rightarrow> server_row" where
  "refreshed_row e now candidate expiresAt r =
     (case decide_snapshot (sr_metadata r) candidate of (stored, pending) \<Rightarrow>
        let pendingUnchanged =
              (case sr_pendingMetadata r of
                 None \<Rightarrow> False
               | Some p \<Rightarrow> pendingFingerprint e p = pendingFingerprint e (metadata_json candidate)) in
        r\<lparr>sr_metadata := Some (metadata_json stored), sr_pendingMetadata := pending,
          sr_pendingSince := (if pending = None then None
                              else if pendingUnchanged then sr_pendingSince r else Some now),
          sr_metadataFetchedAt := Some now, sr_metadataExpiresAt := Some expiresAt,
          sr_lastFetchError := None, sr_lastFetchAttemptAt := Some now, sr_updatedAt := now\<rparr>)"

definition refresh_view :: "server_row \<Rightarrow> json" where
  "refresh_view r =
     JObj (view_json (snapshotView (sr_metadata r)) @
           [(''pendingWidening'', JBool (sr_pendingMetadata r \<noteq> None))])"

text \<open>A background refresh is audited when it changed something the operator is shown.\<close>

definition refresh_audited :: "env \<Rightarrow> string option \<Rightarrow> server_row \<Rightarrow> server_row \<Rightarrow> bool" where
  "refresh_audited e actor before after \<longleftrightarrow>
     actor \<noteq> None \<or> snapshotChanged (snapshotView (sr_metadata before)) (snapshotView (sr_metadata after)) \<or>
     (case sr_pendingMetadata after of
        None \<Rightarrow> False
      | Some c \<Rightarrow> (case sr_pendingMetadata before of
                     None \<Rightarrow> True | Some p \<Rightarrow> pendingFingerprint e p \<noteq> pendingFingerprint e c)) \<or>
     (sr_pendingMetadata before \<noteq> None) \<noteq> (sr_pendingMetadata after \<noteq> None)"

text \<open>The transaction of a refresh, on the state it finds under the row lock.\<close>

definition refresh_commit_server ::
    "env \<Rightarrow> time_ms \<Rightarrow> string \<Rightarrow> string option \<Rightarrow> resource_metadata \<Rightarrow> time_ms \<Rightarrow>
     'a registry_state_scheme \<Rightarrow> 'a registry_state_scheme \<times> (service_error + string option)" where
  "refresh_commit_server e now identifier actor candidate expiresAt s =
     (case row_of sr_identifier identifier (resourceServers s) of
        None \<Rightarrow> (s, Inl No_such_server)
      | Some current \<Rightarrow>
          (let after = refreshed_row e now candidate expiresAt current;
               s1 = put_server identifier (refreshed_row e now candidate expiresAt) s;
               s2 = (if refresh_audited e actor current after
                     then audit (keep actor ''system:refresh'') ''resource-server.refresh'' identifier
                            (Some (refresh_view current)) (Some (refresh_view after)) s1
                     else s1) in
           (loadRegistry (notifyRegistryChanged s2), Inr None)))"

text \<open>\<open>text\<close> gives the message of an error; the result is the error to report, if any.\<close>

definition refreshMetadata ::
    "env \<Rightarrow> (metadata_error \<Rightarrow> string) \<Rightarrow> time_ms \<Rightarrow> string \<Rightarrow> string option \<Rightarrow> 'a client_state_scheme \<Rightarrow>
     'a client_state_scheme \<times> (service_error + string option)" where
  "refreshMetadata e msg now identifier actor s =
     (case requireServer identifier s of
        Inl er \<Rightarrow> (s, Inl er)
      | Inr server \<Rightarrow>
          (case fetchResourceMetadata e now identifier (sr_internal server) s of
             (s1, Inl er) \<Rightarrow> refresh_failed now identifier (msg er) s1
           | (s1, Inr (candidate, expiresAt)) \<Rightarrow>
               refresh_commit_server e now identifier actor candidate expiresAt s1))"

definition acceptPendingMetadata ::
    "env \<Rightarrow> time_ms \<Rightarrow> string \<Rightarrow> string \<Rightarrow> string \<Rightarrow> 'a registry_state_scheme \<Rightarrow>
     'a registry_state_scheme \<times> (service_error + server_status)" where
  "acceptPendingMetadata e now identifier fingerprint actor s =
     (case row_of sr_identifier identifier (resourceServers s) of
        None \<Rightarrow> (s, Inl No_such_server)
      | Some current \<Rightarrow>
          (case sr_pendingMetadata current of
             None \<Rightarrow> (s, Inl No_pending)
           | Some p \<Rightarrow>
               if pendingFingerprint e p \<noteq> fingerprint then (s, Inl Pending_changed)
               else
                 (let f = (\<lambda>r. r\<lparr>sr_metadata := Some p, sr_pendingMetadata := None, sr_pendingSince := None,
                                 sr_updatedAt := now\<rparr>) in
                  (loadRegistry (notifyRegistryChanged
                     (audit actor ''resource-server.accept-metadata'' identifier
                        (Some (JObj (view_json (snapshotView (sr_metadata current)))))
                        (Some (JObj (view_json (snapshotView (Some p))))) (put_server identifier f s))),
                   Inr (statusOf e now (f current))))))"

definition revoke_resource :: "time_ms \<Rightarrow> string \<Rightarrow> 'a db_scheme \<Rightarrow> 'a db_scheme" where
  "revoke_resource now identifier s =
     s\<lparr>resourceServers := delete_many (\<lambda>r. sr_identifier r = identifier) (resourceServers s),
       grants := update_many (\<lambda>g. gr_resource g = identifier \<and> gr_revokedAt g = None)
                   (\<lambda>g. g\<lparr>gr_revokedAt := Some now\<rparr>) (grants s),
       refreshTokens := update_many (\<lambda>t. rt_resource t = identifier \<and> rt_revokedAt t = None)
                   (\<lambda>t. t\<lparr>rt_revokedAt := Some now\<rparr>) (refreshTokens s)\<rparr>"

definition revoked_counts :: "string \<Rightarrow> 'a db_scheme \<Rightarrow> nat \<times> nat" where
  "revoked_counts identifier s =
     (count_rows (\<lambda>g. gr_resource g = identifier \<and> gr_revokedAt g = None) (grants s),
      count_rows (\<lambda>t. rt_resource t = identifier \<and> rt_revokedAt t = None) (refreshTokens s))"

definition removeResourceServer ::
    "env \<Rightarrow> time_ms \<Rightarrow> string \<Rightarrow> string \<Rightarrow> 'a registry_state_scheme \<Rightarrow>
     'a registry_state_scheme \<times> (service_error + nat \<times> nat)" where
  "removeResourceServer e now identifier actor s =
     (case requireServer identifier s of
        Inl er \<Rightarrow> (s, Inl er)
      | Inr before \<Rightarrow>
          (case revoked_counts identifier s of (ng, nt) \<Rightarrow>
             (loadRegistry (notifyRegistryChanged
                (audit actor ''resource-server.remove'' identifier (Some (policyOf e before))
                   (Some (JObj [(''grantsRevoked'', JNum (of_nat ng)), (''tokensRevoked'', JNum (of_nat nt))]))
                   (revoke_resource now identifier s))),
              Inr (ng, nt))))"

section \<open>The refresh job\<close>

definition RETRY_AFTER_MS :: int where "RETRY_AFTER_MS = 60 * 1000"

definition refresh_due :: "time_ms \<Rightarrow> server_row \<Rightarrow> bool" where
  "refresh_due now r \<longleftrightarrow>
     sr_enabled r \<and>
     (case sr_metadataExpiresAt r of None \<Rightarrow> True | Some t \<Rightarrow> t < now) \<and>
     (case sr_lastFetchAttemptAt r of None \<Rightarrow> True | Some t \<Rightarrow> t < now - RETRY_AFTER_MS)"

text \<open>The due servers, those never fetched first, then by expiry.\<close>

definition due_servers :: "time_ms \<Rightarrow> 'a db_scheme \<Rightarrow> string list" where
  "due_servers now s =
     (let due = filter (refresh_due now) (resourceServers s) in
      map sr_identifier
        (filter (\<lambda>r. sr_metadataExpiresAt r = None) due @
         sort_key (\<lambda>r. the (sr_metadataExpiresAt r)) (filter (\<lambda>r. sr_metadataExpiresAt r \<noteq> None) due)))"

text \<open>Up to four workers take the servers from the queue; here they are refreshed in its order.  A
  failure never stops the others.\<close>

definition refreshDueResourceServers ::
    "env \<Rightarrow> (metadata_error \<Rightarrow> string) \<Rightarrow> time_ms \<Rightarrow> 'a client_state_scheme \<Rightarrow> 'a client_state_scheme \<times> nat" where
  "refreshDueResourceServers e msg now s =
     (let due = due_servers now s in
      (foldl (\<lambda>s identifier. fst (refreshMetadata e msg now identifier None s)) s due, length due))"

end
