(* ===== verification/CliArgs.thy ===== *)
theory CliArgs
  imports Servers
begin

text \<open>
  \<^verbatim>\<open>cli/resource-server-args.ts\<close>: the arguments of the resource-server command.  What is thrown is an
  \<open>arg_error\<close>; \<open>Not_a_function\<close> is the \<^verbatim>\<open>TypeError\<close> of a lookup that found a member every object
  inherits.
\<close>

datatype arg_error =
    Missing_command
  | Unknown_command string
  | Does_not_apply string string
  | Unknown_option string
  | Given_twice string
  | Needs_value string
  | Wrong_count string nat
  | Contradiction string string
  | Needs_option string
  | Needs_group
  | Not_a_function

datatype rs_command =
    Rs_list
  | Rs_show string
  | Rs_refresh string
  | Rs_remove string
  | Rs_accept string string
  | Rs_approve string "string option" bool "string list"
  | Rs_set string update_params
  | Rs_policy string string policy_params

definition VALUE_FLAGS :: "string list" where
  "VALUE_FLAGS = [''--name'', ''--release-claims'', ''--require-groups'', ''--description'']"

definition BOOLEAN_FLAGS :: "string list" where
  "BOOLEAN_FLAGS =
     [''--internal'', ''--no-internal'', ''--enable'', ''--disable'', ''--short-lived'', ''--no-short-lived'',
      ''--fresh-sign-in'', ''--no-fresh-sign-in'', ''--no-require-groups'', ''--no-description'']"

definition ALLOWED :: "(string \<times> string list) list" where
  "ALLOWED =
     [(''list'', []), (''show'', []), (''refresh'', []), (''remove'', []),
      (''approve'', [''--name'', ''--internal'', ''--release-claims'']),
      (''set'', [''--name'', ''--release-claims'', ''--enable'', ''--disable'', ''--internal'', ''--no-internal'']),
      (''accept'', []),
      (''policy'', [''--short-lived'', ''--no-short-lived'', ''--fresh-sign-in'', ''--no-fresh-sign-in'',
                    ''--require-groups'', ''--no-require-groups'', ''--description'', ''--no-description''])]"

definition POSITIONALS :: "(string \<times> nat) list" where
  "POSITIONALS =
     [(''list'', 0), (''show'', 1), (''refresh'', 1), (''remove'', 1), (''approve'', 1), (''set'', 1),
      (''policy'', 2), (''accept'', 2)]"

text \<open>The names \<^verbatim>\<open>in\<close> finds on every object: the members of \<^verbatim>\<open>Object.prototype\<close>.\<close>

definition inherited_members :: "string list" where
  "inherited_members =
     [''constructor'', ''hasOwnProperty'', ''isPrototypeOf'', ''propertyIsEnumerable'', ''toLocaleString'',
      ''toString'', ''valueOf'', ''__proto__'', ''__defineGetter__'', ''__defineSetter__'',
      ''__lookupGetter__'', ''__lookupSetter__'']"

definition splitList :: "string \<Rightarrow> string list" where
  "splitList raw = filter (\<lambda>s. s \<noteq> []) (map trim (split_on CHR '','' raw))"

text \<open>The flags given, with the value of those that have one.\<close>

type_synonym flags = "(string, string option) jsmap"

fun scan_args ::
    "string \<Rightarrow> string list option \<Rightarrow> string list \<Rightarrow> string list \<Rightarrow> flags \<Rightarrow> arg_error + (string list \<times> flags)" where
  "scan_args command allowed [] positional fl = Inr (positional, fl)"
| "scan_args command allowed (arg # rest) positional fl =
     (if \<not> starts_with ''--'' arg then scan_args command allowed rest (positional @ [arg]) fl
      else case allowed of
        None \<Rightarrow> Inl Not_a_function
      | Some names \<Rightarrow>
          if arg \<notin> set names
          then Inl (if arg \<in> set VALUE_FLAGS \<or> arg \<in> set BOOLEAN_FLAGS then Does_not_apply arg command
                    else Unknown_option arg)
          else if jm_has arg fl then Inl (Given_twice arg)
          else if arg \<in> set VALUE_FLAGS
          then (case rest of
                  [] \<Rightarrow> Inl (Needs_value arg)
                | v # rest' \<Rightarrow> scan_args command allowed rest' positional (AList.update arg (Some v) fl))
          else scan_args command allowed rest positional (AList.update arg None fl))"

definition flag_value :: "flags \<Rightarrow> string \<Rightarrow> string option" where
  "flag_value fl k = (case jm_get fl k of Some (Some v) \<Rightarrow> Some v | _ \<Rightarrow> None)"

definition CONFLICTS :: "(string \<times> string) list" where
  "CONFLICTS =
     [(''--enable'', ''--disable''), (''--internal'', ''--no-internal''), (''--short-lived'', ''--no-short-lived''),
      (''--fresh-sign-in'', ''--no-fresh-sign-in''), (''--require-groups'', ''--no-require-groups''),
      (''--description'', ''--no-description'')]"

definition conflict :: "flags \<Rightarrow> arg_error option" where
  "conflict fl =
     map_option (\<lambda>(a, b). Contradiction a b) (List.find (\<lambda>(a, b). jm_has a fl \<and> jm_has b fl) CONFLICTS)"

text \<open>A pair of flags that sets an option on or off.\<close>

definition on_off :: "flags \<Rightarrow> string \<Rightarrow> string \<Rightarrow> bool option" where
  "on_off fl on off = (if jm_has off fl then Some False else if jm_has on fl then Some True else None)"

definition set_options :: "flags \<Rightarrow> update_params" where
  "set_options fl =
     \<lparr>up_displayName = flag_value fl ''--name'',
      up_releaseClaims = map_option splitList (flag_value fl ''--release-claims''),
      up_enabled = on_off fl ''--enable'' ''--disable'', up_internal = on_off fl ''--internal'' ''--no-internal''\<rparr>"

definition policy_options :: "flags \<Rightarrow> policy_params" where
  "policy_options fl =
     \<lparr>pp_shortLived = on_off fl ''--short-lived'' ''--no-short-lived'',
      pp_freshSignIn = on_off fl ''--fresh-sign-in'' ''--no-fresh-sign-in'',
      pp_requireGroups = (if jm_has ''--no-require-groups'' fl then Some []
                          else map_option splitList (flag_value fl ''--require-groups'')),
      pp_descriptionOverride = (if jm_has ''--no-description'' fl then Some None
                                else map_option Some (flag_value fl ''--description''))\<rparr>"

definition finish_set :: "string \<Rightarrow> flags \<Rightarrow> arg_error + rs_command" where
  "finish_set identifier fl =
     (if set_options fl = \<lparr>up_displayName = None, up_releaseClaims = None, up_enabled = None, up_internal = None\<rparr>
      then Inl (Needs_option ''set'') else Inr (Rs_set identifier (set_options fl)))"

definition finish_policy :: "string \<Rightarrow> string \<Rightarrow> flags \<Rightarrow> arg_error + rs_command" where
  "finish_policy identifier scope fl =
     (if map_option splitList (flag_value fl ''--require-groups'') = Some [] then Inl Needs_group
      else if policy_options fl = \<lparr>pp_shortLived = None, pp_freshSignIn = None, pp_requireGroups = None,
                                   pp_descriptionOverride = None\<rparr>
      then Inl (Needs_option ''policy'') else Inr (Rs_policy identifier scope (policy_options fl)))"

text \<open>The command, once its arguments are counted.\<close>

fun finish_args :: "string \<Rightarrow> string list \<Rightarrow> flags \<Rightarrow> arg_error + rs_command" where
  "finish_args command positional fl =
     (let identifier = (case positional of [] \<Rightarrow> [] | i # _ \<Rightarrow> i);
          second = (case positional of _ # p # _ \<Rightarrow> p | _ \<Rightarrow> []) in
      if command = ''list'' then Inr Rs_list
      else if command = ''show'' then Inr (Rs_show identifier)
      else if command = ''refresh'' then Inr (Rs_refresh identifier)
      else if command = ''remove'' then Inr (Rs_remove identifier)
      else if command = ''accept'' then Inr (Rs_accept identifier second)
      else if command = ''approve''
      then Inr (Rs_approve identifier (flag_value fl ''--name'') (jm_has ''--internal'' fl)
                  (splitList (case flag_value fl ''--release-claims'' of None \<Rightarrow> [] | Some v \<Rightarrow> v)))
      else if command = ''set'' then finish_set identifier fl
      else finish_policy identifier second fl)"

definition parseResourceServerArgs :: "string list \<Rightarrow> arg_error + rs_command" where
  "parseResourceServerArgs argv =
     (case argv of
        [] \<Rightarrow> Inl Missing_command
      | command # rest \<Rightarrow>
          if jm_get ALLOWED command = None \<and> command \<notin> set inherited_members then Inl (Unknown_command command)
          else (case scan_args command (jm_get ALLOWED command) rest [] [] of
            Inl er \<Rightarrow> Inl er
          | Inr (positional, fl) \<Rightarrow>
              if jm_get POSITIONALS command \<noteq> Some (length positional)
              then Inl (Wrong_count command (length positional))
              else (case conflict fl of Some er \<Rightarrow> Inl er | None \<Rightarrow> finish_args command positional fl)))"

end
