(* ===== verification/Denylist.thy ===== *)
theory Denylist
  imports Servers
begin

text \<open>
  \<^verbatim>\<open>clients/denylist.ts\<close>: the entries an operator adds to the client denylist, and what adding one
  revokes.  \<^verbatim>\<open>domainToASCII\<close> is a parameter; white space is ASCII white space.
\<close>

section \<open>Targets\<close>

definition MAX_REASON_LENGTH :: nat where "MAX_REASON_LENGTH = 500"

text \<open>A refusal: the reason, a single label, an https URL that is no client identifier (with the
  canonical form when that is one), or something else.\<close>

datatype denylist_error =
    Reason_too_long nat
  | Single_label string
  | Not_canonical string "string option"
  | Not_a_target string

definition checkReason :: "string option \<Rightarrow> denylist_error option" where
  "checkReason reason =
     (case reason of
        None \<Rightarrow> None
      | Some r \<Rightarrow> if MAX_REASON_LENGTH < length r then Some (Reason_too_long (length r)) else None)"

text \<open>\<^verbatim>\<open>[a-z0-9]([a-z0-9-]{0,61}[a-z0-9])?\<close>, and the labels of \<^verbatim>\<open>HOSTNAME_RE\<close>.\<close>

definition ldh_char :: "char \<Rightarrow> bool" where
  "ldh_char c \<longleftrightarrow> is_lower c \<or> is_digit c"

definition ldh_label :: "string \<Rightarrow> bool" where
  "ldh_label l \<longleftrightarrow>
     l \<noteq> [] \<and> length l \<le> 63 \<and> ldh_char (hd l) \<and> ldh_char (last l) \<and>
     list_all (\<lambda>c. ldh_char c \<or> c = CHR ''-'') l"

definition is_hostname :: "string \<Rightarrow> bool" where
  "is_hostname h \<longleftrightarrow> length h \<le> 253 \<and> list_all ldh_label (split_on CHR ''.'' h)"

definition strip_dot :: "string \<Rightarrow> string" where
  "strip_dot h = (if ends_with ''.'' h then butlast h else h)"

definition bare_origin :: "string \<Rightarrow> url \<Rightarrow> bool" where
  "bare_origin raw u \<longleftrightarrow>
     (url_pathname u = ''/'' \<or> url_pathname u = []) \<and> url_search u = [] \<and> CHR ''#'' \<notin> set raw \<and>
     CHR ''?'' \<notin> set raw \<and> url_username u = [] \<and> url_password u = []"

text \<open>The kind and the value of an entry, and the note when the input was reinterpreted.\<close>

type_synonym deny_target = "deny_kind \<times> string \<times> string option"

definition origin_note :: "string \<Rightarrow> string \<Rightarrow> string" where
  "origin_note raw host =
     [CHR 0x22] @ raw @ [CHR 0x22] @ '' is a bare origin, not a client_id; denying the domain '' @ host @
     '' (and its subdomains).''"

definition https_target :: "env \<Rightarrow> bool \<Rightarrow> string \<Rightarrow> url \<Rightarrow> denylist_error + deny_target" where
  "https_target e allowSingleLabel raw u =
     (let host = e_domainToASCII e (to_lower (strip_dot (url_hostname u))) in
      if isCanonicalClientIdUrl (new_URL e) raw then Inr (Deny_client_id, raw, None)
      else if bare_origin raw u \<and> is_hostname host \<and> CHR ''.'' \<notin> set host \<and> \<not> allowSingleLabel
      then Inl (Single_label host)
      else if bare_origin raw u \<and> is_hostname host then Inr (Deny_domain, host, Some (origin_note raw host))
      else Inl (Not_canonical raw
             (if isCanonicalClientIdUrl (new_URL e) (url_href u) then Some (url_href u) else None)))"

text \<open>\<^verbatim>\<open>/[\s/\\:?#@%]/\<close>\<close>

definition url_like :: "string \<Rightarrow> bool" where
  "url_like raw \<longleftrightarrow> (\<exists>c \<in> set raw. is_space c \<or> c \<in> set ''/:?#@%'' \<or> c = CHR 0x5C)"

definition host_target :: "env \<Rightarrow> bool \<Rightarrow> string \<Rightarrow> denylist_error + deny_target" where
  "host_target e allowSingleLabel raw =
     (let host = (if url_like raw then [] else e_domainToASCII e (to_lower raw)) in
      if \<not> is_hostname host then Inl (Not_a_target raw)
      else if CHR ''.'' \<notin> set host \<and> \<not> allowSingleLabel then Inl (Single_label raw)
      else Inr (Deny_domain, host, None))"

definition parseTarget :: "env \<Rightarrow> bool \<Rightarrow> string \<Rightarrow> denylist_error + deny_target" where
  "parseTarget e allowSingleLabel raw =
     (case new_URL e raw of
        Some u \<Rightarrow>
          if url_protocol u = ''https:'' then https_target e allowSingleLabel raw u
          else host_target e allowSingleLabel raw
      | None \<Rightarrow> host_target e allowSingleLabel raw)"

section \<open>What an entry matches\<close>

definition denial_matches :: "env \<Rightarrow> deny_kind \<Rightarrow> string \<Rightarrow> string \<Rightarrow> bool" where
  "denial_matches e kind v clientId \<longleftrightarrow>
     (case kind of
        Deny_client_id \<Rightarrow> clientId = v
      | Deny_domain \<Rightarrow>
          (case hostnameOf (new_URL e) clientId of
             None \<Rightarrow> False
           | Some h \<Rightarrow> h = v \<or> ends_with (CHR ''.'' # v) h))"

definition denied_grant :: "env \<Rightarrow> deny_kind \<Rightarrow> string \<Rightarrow> grant \<Rightarrow> bool" where
  "denied_grant e kind v g \<longleftrightarrow> gr_revokedAt g = None \<and> denial_matches e kind v (gr_clientId g)"

definition denied_grant_ids :: "env \<Rightarrow> deny_kind \<Rightarrow> string \<Rightarrow> 'a db_scheme \<Rightarrow> string list" where
  "denied_grant_ids e kind v s = map gr_id (filter (denied_grant e kind v) (grants s))"

record deny_preview =
  dp_kind :: deny_kind
  dp_value :: string
  dp_note :: "string option"
  dp_existing :: bool
  dp_grantsToRevoke :: nat
  dp_tokensToRevoke :: nat

definition previewDenial :: "env \<Rightarrow> string \<Rightarrow> 'a db_scheme \<Rightarrow> denylist_error + deny_preview" where
  "previewDenial e raw s =
     (case parseTarget e False raw of
        Inl er \<Rightarrow> Inl er
      | Inr (kind, v, note) \<Rightarrow>
          (let ids = denied_grant_ids e kind v s in
           Inr \<lparr>dp_kind = kind, dp_value = v, dp_note = note,
                dp_existing = (row_of denied_key (kind, v) (deniedClients s) \<noteq> None),
                dp_grantsToRevoke = length ids,
                dp_tokensToRevoke =
                  (if ids = [] then 0
                   else count_rows (\<lambda>t. rt_grantId t \<in> set ids \<and> rt_revokedAt t = None) (refreshTokens s))\<rparr>))"

section \<open>Adding and removing\<close>

record deny_result =
  dr_kind :: deny_kind
  dr_value :: string
  dr_note :: "string option"
  dr_grantsRevoked :: nat
  dr_tokensRevoked :: nat

definition upsert_denial :: "deny_kind \<Rightarrow> string \<Rightarrow> string option \<Rightarrow> denied_client list \<Rightarrow> denied_client list" where
  "upsert_denial kind v reason t =
     (if row_of denied_key (kind, v) t = None
      then t @ [\<lparr>dn_kind = kind, dn_value = v, dn_reason = reason\<rparr>]
      else update_many (\<lambda>d. denied_key d = (kind, v)) (\<lambda>d. d\<lparr>dn_reason := reason\<rparr>) t)"

text \<open>The two updates, which the code skips when no grant matches, and their counts.\<close>

definition revoke_grants_of :: "time_ms \<Rightarrow> string list \<Rightarrow> 'a db_scheme \<Rightarrow> 'a db_scheme \<times> nat \<times> nat" where
  "revoke_grants_of now ids s =
     (if ids = [] then (s, 0, 0)
      else
        (let g = (\<lambda>x. gr_id x \<in> set ids \<and> gr_revokedAt x = None);
             t = (\<lambda>x. rt_grantId x \<in> set ids \<and> rt_revokedAt x = None) in
         (s\<lparr>grants := update_many g (\<lambda>x. x\<lparr>gr_revokedAt := Some now\<rparr>) (grants s),
            refreshTokens := update_many t (\<lambda>x. x\<lparr>rt_revokedAt := Some now\<rparr>) (refreshTokens s)\<rparr>,
          count_rows g (grants s), count_rows t (refreshTokens s))))"

definition reason_json :: "string option \<Rightarrow> string \<times> json" where
  "reason_json r = (''reason'', case r of None \<Rightarrow> JNull | Some t \<Rightarrow> JStr t)"

fun kind_name :: "deny_kind \<Rightarrow> string" where
  "kind_name Deny_client_id = ''client_id''"
| "kind_name Deny_domain = ''domain''"

definition addDenial ::
    "env \<Rightarrow> time_ms \<Rightarrow> string \<Rightarrow> string option \<Rightarrow> string \<Rightarrow> 'a db_scheme \<Rightarrow>
     'a db_scheme \<times> (denylist_error + deny_result)" where
  "addDenial e now raw reason actor s =
     (case checkReason reason of
        Some er \<Rightarrow> (s, Inl er)
      | None \<Rightarrow>
          (case parseTarget e False raw of
             Inl er \<Rightarrow> (s, Inl er)
           | Inr (kind, v, note) \<Rightarrow>
               (let before = row_of denied_key (kind, v) (deniedClients s);
                    s1 = s\<lparr>deniedClients := upsert_denial kind v reason (deniedClients s)\<rparr> in
                case revoke_grants_of now (denied_grant_ids e kind v s1) s1 of
                  (s2, ng, nt) \<Rightarrow>
                    (audit actor ''denylist.add'' (kind_name kind @ '':'' @ v)
                       (map_option (\<lambda>b. JObj [reason_json (dn_reason b)]) before)
                       (Some (JObj [reason_json reason, (''grantsRevoked'', JNum (of_nat ng)),
                                    (''tokensRevoked'', JNum (of_nat nt))])) s2,
                     Inr \<lparr>dr_kind = kind, dr_value = v, dr_note = note, dr_grantsRevoked = ng,
                          dr_tokensRevoked = nt\<rparr>))))"

text \<open>The kind, the value, and whether there was an entry.\<close>

definition removeDenial ::
    "env \<Rightarrow> string \<Rightarrow> string \<Rightarrow> 'a db_scheme \<Rightarrow> 'a db_scheme \<times> (denylist_error + deny_kind \<times> string \<times> bool)" where
  "removeDenial e raw actor s =
     (case parseTarget e True raw of
        Inl er \<Rightarrow> (s, Inl er)
      | Inr (kind, v, _) \<Rightarrow>
          (case row_of denied_key (kind, v) (deniedClients s) of
             None \<Rightarrow> (s, Inr (kind, v, False))
           | Some before \<Rightarrow>
               (audit actor ''denylist.remove'' (kind_name kind @ '':'' @ v)
                  (Some (JObj [reason_json (dn_reason before)])) None
                  (s\<lparr>deniedClients := delete_many (\<lambda>d. denied_key d = (kind, v)) (deniedClients s)\<rparr>),
                Inr (kind, v, True))))"

text \<open>Rows are kept in the order of their creation.\<close>

definition listDenials :: "'a db_scheme \<Rightarrow> denied_client list" where
  "listDenials s = deniedClients s"

end
