(* ===== verification/AdminRouter.thy ===== *)
theory AdminRouter
  imports Denylist AdminAuth
begin

text \<open>
  \<^verbatim>\<open>admin/router.ts\<close>: the admin pages.  Every route is a function of the request; a page is the name
  of its view with the data it shows, and every error the operator is shown is a value of
  \<open>admin_error\<close>.  The state \<open>admin_state\<close> adds the two limiters of the router.
\<close>

record admin_state = proxy_state +
  writeWindows :: "(string, window) jsmap"
  rejectedWindows :: "(string, window) jsmap"

section \<open>Replies\<close>

datatype admin_error =
    Service_refused service_error
  | Fetch_failed metadata_error
  | Refresh_problem string
  | Denial_refused denylist_error
  | Field_too_long string
  | No_identifier
  | Not_declared

datatype admin_data =
    No_data
  | Servers_data "(server_status \<times> string \<times> bool \<times> string) list"
  | Form_data string bool "resource_metadata option"
  | Server_data server_status string bool string
  | Remove_data server_status
  | Audit_data "audit_row list" nat bool
  | Denied_data "denied_client list" string string
  | Confirm_data deny_preview string string

datatype admin_reply =
    Admin_message nat string "string option"
  | Admin_page string admin_data "admin_error option" "string option" nat
  | Admin_redirect string
  | Admin_login reply

type_synonym admin_result = "admin_reply \<times> cookie_op list"

definition too_many :: "string \<Rightarrow> admin_reply" where
  "too_many text = Admin_message 429 text None"

definition notFound :: admin_reply where
  "notFound = Admin_message 404 ''There is nothing at this address.'' (Some ''/admin'')"

text \<open>\<^verbatim>\<open>encodeURIComponent\<close> of an ASCII text.\<close>

definition uri_char :: "char \<Rightarrow> string" where
  "uri_char c =
     (if is_alnum c \<or> c \<in> set ''-_.!~*()'' \<or> c = CHR 0x27 then [c]
      else CHR ''%'' # [upper_char (hex_digit (code c div 16)), upper_char (hex_digit (code c mod 16))])"

definition encode_uri :: "string \<Rightarrow> string" where
  "encode_uri s = concat (map uri_char s)"

section \<open>Forms\<close>

definition PAGE_SIZE :: nat where "PAGE_SIZE = 50"
definition MAX_PAGE :: nat where "MAX_PAGE = 100000"
definition MAX_FIELD_LENGTH :: nat where "MAX_FIELD_LENGTH = 2048"

text \<open>\<^verbatim>\<open>Math.round\<close> of a quotient of numbers that are not negative.\<close>

definition round_div :: "int \<Rightarrow> int \<Rightarrow> int" where
  "round_div a b = (2 * a + b) div (2 * b)"

definition age_text :: "int \<Rightarrow> string" where
  "age_text n =
     (if n < 90 then show_nat (nat n) @ ''s''
      else if n < 90 * 60 then show_nat (nat (round_div n 60)) @ ''m''
      else if n < 36 * 3600 then show_nat (nat (round_div n 3600)) @ ''h''
      else show_nat (nat (round_div n 86400)) @ ''d'')"

definition formatAge :: "int option \<Rightarrow> string" where
  "formatAge seconds = (case seconds of None \<Rightarrow> ''never'' | Some n \<Rightarrow> age_text n @ '' ago'')"

definition parseList :: "string option \<Rightarrow> string list" where
  "parseList raw =
     filter (\<lambda>s. s \<noteq> []) (map trim (split_on CHR '','' (case raw of None \<Rightarrow> [] | Some t \<Rightarrow> t)))"

definition field :: "body \<Rightarrow> string \<Rightarrow> admin_error + string" where
  "field b k =
     (let v = trim (case stringField b k of None \<Rightarrow> [] | Some t \<Rightarrow> t) in
      if MAX_FIELD_LENGTH < length v then Inl (Field_too_long k) else Inr v)"

definition checked :: "body \<Rightarrow> string \<Rightarrow> bool" where
  "checked b k \<longleftrightarrow> stringField b k = Some ''on''"

text \<open>The path parameter \<^verbatim>\<open>id\<close>, under \<^verbatim>\<open>/^[A-Za-z0-9_-]{1,64}$/\<close>.\<close>

definition idParam :: "string \<Rightarrow> string option" where
  "idParam i =
     (if i \<noteq> [] \<and> length i \<le> 64 \<and> list_all (\<lambda>c. is_alnum c \<or> c \<in> set ''_-'') i then Some i else None)"

definition NOTICES :: "(string \<times> string) list" where
  "NOTICES =
     [(''approved'', ''Server approved.''), (''saved'', ''Changes saved.''), (''policy'', ''Scope policy saved.''),
      (''refreshed'', ''Metadata refreshed.''), (''accepted'', ''Pending changes accepted.''),
      (''removed'', ''Server removed.'')]"

definition noticeOf :: "request \<Rightarrow> string option" where
  "noticeOf rq =
     (case as_string (map_of (q_query rq) ''notice'') of None \<Rightarrow> None | Some k \<Rightarrow> map_of NOTICES k)"

section \<open>Sign-in and authorization\<close>

definition writeLimiter :: limiter_opts where
  "writeLimiter = \<lparr>l_max = 60, l_windowMs = 60000, l_maxEntries = 10000\<rparr>"

definition rejectedLimiter :: limiter_opts where
  "rejectedLimiter = \<lparr>l_max = 600, l_windowMs = 60000, l_maxEntries = 10000\<rparr>"

record admin_rand =
  ar_flow :: flow_rand
  ar_nonce :: string
  ar_rowId :: string

definition startLogin ::
    "env \<Rightarrow> provider \<Rightarrow> time_ms \<Rightarrow> flow_rand \<Rightarrow> request \<Rightarrow> string \<Rightarrow> bool \<Rightarrow> string option \<Rightarrow>
     'a proxy_state_scheme \<Rightarrow> 'a proxy_state_scheme \<times> admin_result" where
  "startLogin e pv now fr rq returnTo fresh userId s =
     (case rowCreationRetryAfter now rq s of (s1, wait) \<Rightarrow>
        if 0 < wait
        then (s1, too_many ''Too many sign-in requests from this address. Please wait a minute and try again.'', [])
        else (case createSelfLoginRequest e now (fr_handle fr) (adminReturnPath (Some returnTo)) fresh rq s1 of
          None \<Rightarrow> (s1, Admin_login Fault, [])
        | Some (s2, ck) \<Rightarrow>
            (let isLocal = (case userId of None \<Rightarrow> False
                            | Some u \<Rightarrow> e_enableLocalAccounts e \<and> row_of lu_userId u (localUsers s2) \<noteq> None) in
             if isLocal \<or> (e_enableLocalAccounts e \<and> \<not> e_enableOidc e)
             then (s2, Admin_login (Redirect_path (''/auth/login?flow='' @ fr_handle fr)), [ck])
             else (case startUpstreamAuth e pv now (fr_handle fr) fr fresh s2 of
                     (s3, None) \<Rightarrow> (s3, Admin_login Fault, [ck])
                   | (s3, Some params) \<Rightarrow> (s3, Admin_login (Redirect_with ''upstream'' params), [ck])))))"

definition forbidden_page :: admin_reply where
  "forbidden_page = Admin_message 403 ''Your account is not allowed to use the admin pages.'' (Some ''/grants'')"

text \<open>The signed-in admin, or the reply instead; \<open>path\<close> is the original URL.\<close>

definition requireAdminPage ::
    "env \<Rightarrow> provider \<Rightarrow> time_ms \<Rightarrow> admin_rand \<Rightarrow> request \<Rightarrow> string \<Rightarrow> 'a proxy_state_scheme \<Rightarrow>
     'a proxy_state_scheme \<times> (admin_result + string)" where
  "requireAdminPage e pv now rnd rq path s =
     (case getSession e now rq s of
        None \<Rightarrow> (case startLogin e pv now (ar_flow rnd) rq path False None s of (s1, r) \<Rightarrow> (s1, Inl r))
      | Some (userId, _) \<Rightarrow>
          (case isAdmin e pv now userId s of
             (s1, False) \<Rightarrow> (s1, Inl (forbidden_page, []))
           | (s1, True) \<Rightarrow> (s1, Inr userId)))"

definition reauthHref :: "string \<Rightarrow> string" where
  "reauthHref back = ''/admin/reauth?return='' @ encode_uri (adminReturnPath (Some back))"

text \<open>A refusal counts against the address; over the limit it is answered with 429.\<close>

definition reject :: "time_ms \<Rightarrow> request \<Rightarrow> admin_reply \<Rightarrow> 'a admin_state_scheme \<Rightarrow> 'a admin_state_scheme \<times> admin_reply" where
  "reject now rq rep s =
     (case ip_hit rejectedLimiter now (q_ip rq) (rejectedWindows s) of (ws, wait) \<Rightarrow>
        (s\<lparr>rejectedWindows := ws\<rparr>,
         if wait = 0 then rep
         else too_many ''Too many refused requests from this address. Please wait a minute and try again.''))"

definition requireAdminWrite ::
    "env \<Rightarrow> provider \<Rightarrow> time_ms \<Rightarrow> request \<Rightarrow> string \<Rightarrow> 'a admin_state_scheme \<Rightarrow>
     'a admin_state_scheme \<times> (admin_reply + string)" where
  "requireAdminWrite e pv now rq back s =
     (case getSession e now rq s of
        None \<Rightarrow>
          (case reject now rq (Admin_message 401 ''You are not signed in.'' (Some (reauthHref back))) s of
             (s1, rep) \<Rightarrow> (s1, Inl rep))
      | Some (userId, _) \<Rightarrow>
          (case isAdmin e pv now userId s of
             (s1, False) \<Rightarrow> (case reject now rq forbidden_page s1 of (s2, rep) \<Rightarrow> (s2, Inl rep))
           | (s1, True) \<Rightarrow>
               (case ip_hit writeLimiter now (Some userId) (writeWindows s1) of (ws, wait) \<Rightarrow>
                  let s2 = s1\<lparr>writeWindows := ws\<rparr> in
                  if 0 < wait
                  then (s2, Inl (too_many ''Too many changes from your account. Please wait a minute and try again.''))
                  else if \<not> verifyBoundCsrfToken e rq ''csrf_admin'' ''admin'' userId
                  then (s2, Inl (Admin_message 403 ''Invalid or missing CSRF token. Please reload the page and try again.'' (Some back)))
                  else if \<not> isRecentReauth now (reauthenticatedAt e now rq userId)
                  then (s2, Inl (Admin_message 401 ''Changes need a sign-in within the last 10 minutes. Sign in again, then repeat the change; nothing was saved.'' (Some (reauthHref back))))
                  else (s2, Inr userId))))"

text \<open>A page carries a CSRF token bound to the admin.\<close>

definition render_page ::
    "env \<Rightarrow> admin_rand \<Rightarrow> request \<Rightarrow> string \<Rightarrow> string \<Rightarrow> admin_data \<Rightarrow> admin_error option \<Rightarrow> string option \<Rightarrow> nat \<Rightarrow>
     admin_result" where
  "render_page e rnd rq userId view d er notice status =
     (Admin_page view d er notice status,
      [snd (issueBoundCsrfToken e rq ''csrf_admin'' ''admin'' userId (ar_nonce rnd))])"

definition actor_of :: "string \<Rightarrow> string" where "actor_of userId = ''user:'' @ userId"

definition reauth_get ::
    "env \<Rightarrow> provider \<Rightarrow> time_ms \<Rightarrow> flow_rand \<Rightarrow> request \<Rightarrow> 'a proxy_state_scheme \<Rightarrow>
     'a proxy_state_scheme \<times> admin_result" where
  "reauth_get e pv now fr rq s =
     startLogin e pv now fr rq
       (case as_string (map_of (q_query rq) ''return'') of None \<Rightarrow> ''/admin'' | Some r \<Rightarrow> r)
       True (map_option fst (getSession e now rq s)) s"

section \<open>Pages\<close>

text \<open>The display fields: the age of the snapshot, whether it is past its expiry and for how long.\<close>

definition withAge :: "time_ms \<Rightarrow> server_status \<Rightarrow> server_status \<times> string \<times> bool \<times> string" where
  "withAge now st =
     (let age = formatAge (st_snapshotAgeSeconds st) in
      case st_metadataExpiresAt st of
        None \<Rightarrow> (st, age, False, [])
      | Some t \<Rightarrow>
          if t < now then (st, age, True, age_text (rounded_seconds (now - t))) else (st, age, False, []))"

definition server_data :: "time_ms \<Rightarrow> server_status \<Rightarrow> admin_data" where
  "server_data now st = (case withAge now st of (s, age, stale, staleFor) \<Rightarrow> Server_data s age stale staleFor)"

definition serverOr404 :: "env \<Rightarrow> time_ms \<Rightarrow> string \<Rightarrow> 'a db_scheme \<Rightarrow> server_status option" where
  "serverOr404 e now i s =
     (case idParam i of None \<Rightarrow> None | Some k \<Rightarrow> findResourceServerById e now k s)"

definition audit_page :: "request \<Rightarrow> nat" where
  "audit_page rq =
     (case as_string (map_of (q_query rq) ''page'') of
        None \<Rightarrow> 1
      | Some r \<Rightarrow>
          if r \<noteq> [] \<and> length r \<le> 6 \<and> all_digits r then min (max (number_of r) 1) MAX_PAGE else 1)"

definition audit_data :: "nat \<Rightarrow> 'a db_scheme \<Rightarrow> admin_data" where
  "audit_data page s =
     (let rows = take (PAGE_SIZE + 1) (drop ((page - 1) * PAGE_SIZE) (rev (adminAuditLog s))) in
      Audit_data (take PAGE_SIZE rows) page (PAGE_SIZE < length rows))"

datatype admin_get =
    Get_index | Get_servers | Get_new | Get_server string | Get_remove string | Get_audit | Get_clients

definition page_of ::
    "env \<Rightarrow> time_ms \<Rightarrow> admin_rand \<Rightarrow> request \<Rightarrow> string \<Rightarrow> admin_get \<Rightarrow> 'a db_scheme \<Rightarrow> admin_result" where
  "page_of e now rnd rq userId g s =
     (let page = (\<lambda>view d notice. render_page e rnd rq userId view d None notice 200) in
      case g of
        Get_index \<Rightarrow> page ''index'' No_data None
      | Get_servers \<Rightarrow> page ''servers'' (Servers_data (map (withAge now) (listResourceServers e now s))) (noticeOf rq)
      | Get_new \<Rightarrow> page ''new'' (Form_data [] False None) None
      | Get_server i \<Rightarrow>
          (case serverOr404 e now i s of
             None \<Rightarrow> (notFound, [])
           | Some st \<Rightarrow> page ''server'' (server_data now st) (noticeOf rq))
      | Get_remove i \<Rightarrow>
          (case serverOr404 e now i s of
             None \<Rightarrow> (notFound, [])
           | Some st \<Rightarrow> page ''remove'' (Remove_data st) None)
      | Get_audit \<Rightarrow> page ''audit'' (audit_data (audit_page rq) s) None
      | Get_clients \<Rightarrow> page ''clients'' (Denied_data (listDenials s) [] []) None)"

definition admin_page ::
    "env \<Rightarrow> provider \<Rightarrow> time_ms \<Rightarrow> admin_rand \<Rightarrow> request \<Rightarrow> string \<Rightarrow> admin_get \<Rightarrow> 'a proxy_state_scheme \<Rightarrow>
     'a proxy_state_scheme \<times> admin_result" where
  "admin_page e pv now rnd rq path g s =
     (case requireAdminPage e pv now rnd rq path s of
        (s1, Inl r) \<Rightarrow> (s1, r)
      | (s1, Inr userId) \<Rightarrow> (s1, page_of e now rnd rq userId g s1))"

section \<open>Changes\<close>

text \<open>The reply to a field that is too long, where the route does not show it itself.\<close>

definition input_too_long :: "string \<Rightarrow> admin_result" where
  "input_too_long k =
     (Admin_message 400 (''The '' @ map (\<lambda>c. if c = CHR ''_'' then CHR '' '' else c) k @ '' field is too long (the limit is 2048 characters).'') (Some ''/admin''), [])"

definition form_page ::
    "env \<Rightarrow> admin_rand \<Rightarrow> request \<Rightarrow> string \<Rightarrow> string \<Rightarrow> bool \<Rightarrow> resource_metadata option \<Rightarrow> admin_error option \<Rightarrow> nat \<Rightarrow>
     admin_result" where
  "form_page e rnd rq userId identifier internal preview er status =
     render_page e rnd rq userId ''new'' (Form_data identifier internal preview) er None status"

definition preview_post ::
    "env \<Rightarrow> time_ms \<Rightarrow> admin_rand \<Rightarrow> request \<Rightarrow> string \<Rightarrow> 'a client_state_scheme \<Rightarrow>
     'a client_state_scheme \<times> admin_result" where
  "preview_post e now rnd rq userId s =
     (let b = bodyOf (q_body rq); internal = checked b ''internal'' in
      case field b ''identifier'' of
        Inl _ \<Rightarrow> (s, input_too_long ''identifier'')
      | Inr identifier \<Rightarrow>
          if identifier = [] then (s, form_page e rnd rq userId identifier internal None (Some No_identifier) 400)
          else (case previewResourceServer e now identifier internal s of
            (s1, Inl er) \<Rightarrow> (s1, form_page e rnd rq userId identifier internal None (Some (Fetch_failed er)) 400)
          | (s1, Inr m) \<Rightarrow> (s1, form_page e rnd rq userId identifier internal (Some m) None 200)))"

definition approve_post ::
    "env \<Rightarrow> time_ms \<Rightarrow> admin_rand \<Rightarrow> request \<Rightarrow> string \<Rightarrow> 'a client_state_scheme \<Rightarrow>
     'a client_state_scheme \<times> admin_result" where
  "approve_post e now rnd rq userId s =
     (let b = bodyOf (q_body rq); internal = checked b ''internal'' in
      case field b ''identifier'' of
        Inl _ \<Rightarrow> (s, input_too_long ''identifier'')
      | Inr identifier \<Rightarrow>
          (case field b ''display_name'' of
             Inl _ \<Rightarrow> (s, input_too_long ''display_name'')
           | Inr name \<Rightarrow>
               (case approveResourceServer e now (ar_rowId rnd)
                       \<lparr>ap_identifier = identifier, ap_displayName = (if name = [] then None else Some name),
                        ap_internal = internal, ap_releaseClaims = parseList (stringField b ''release_claims'')\<rparr>
                       (actor_of userId) s of
                  (s1, Inr st) \<Rightarrow>
                    (s1, Admin_redirect (''/admin/resource-servers/'' @ encode_uri (st_id st) @ ''?notice=approved''), [])
                | (s1, Inl er) \<Rightarrow>
                    (s1, form_page e rnd rq userId identifier internal None (Some (Service_refused er)) 400))))"

text \<open>A service call for the server in the URL; \<open>run\<close> gives its error, if any.\<close>

definition serverWrite ::
    "env \<Rightarrow> time_ms \<Rightarrow> admin_rand \<Rightarrow> request \<Rightarrow> string \<Rightarrow> string \<Rightarrow> string \<Rightarrow>
     (server_status \<Rightarrow> body \<Rightarrow> string \<Rightarrow> 'a registry_state_scheme \<Rightarrow> 'a registry_state_scheme \<times> admin_error option) \<Rightarrow>
     'a registry_state_scheme \<Rightarrow> 'a registry_state_scheme \<times> admin_result" where
  "serverWrite e now rnd rq userId i notice run s =
     (case serverOr404 e now i s of
        None \<Rightarrow> (s, notFound, [])
      | Some st \<Rightarrow>
          (case run st (bodyOf (q_body rq)) (actor_of userId) s of
             (s1, None) \<Rightarrow> (s1, Admin_redirect (''/admin/resource-servers/'' @ i @ ''?notice='' @ notice), [])
           | (s1, Some (Field_too_long k)) \<Rightarrow> (s1, input_too_long k)
           | (s1, Some er) \<Rightarrow> (s1, render_page e rnd rq userId ''server'' (server_data now st) (Some er) None 400)))"

definition service_result :: "'s \<times> (service_error + 'r) \<Rightarrow> 's \<times> admin_error option" where
  "service_result out = (fst out, case snd out of Inl er \<Rightarrow> Some (Service_refused er) | Inr _ \<Rightarrow> None)"

definition run_update ::
    "env \<Rightarrow> time_ms \<Rightarrow> server_status \<Rightarrow> body \<Rightarrow> string \<Rightarrow> 'a registry_state_scheme \<Rightarrow>
     'a registry_state_scheme \<times> admin_error option" where
  "run_update e now st b actor s =
     (case field b ''display_name'' of
        Inl er \<Rightarrow> (s, Some er)
      | Inr name \<Rightarrow>
          service_result (updateResourceServer e now (st_identifier st)
            \<lparr>up_displayName = Some name, up_releaseClaims = Some (parseList (stringField b ''release_claims'')),
             up_enabled = Some (checked b ''enabled''), up_internal = Some (checked b ''internal'')\<rparr> actor s))"

definition run_policy ::
    "env \<Rightarrow> time_ms \<Rightarrow> server_status \<Rightarrow> body \<Rightarrow> string \<Rightarrow> 'a registry_state_scheme \<Rightarrow>
     'a registry_state_scheme \<times> admin_error option" where
  "run_policy e now st b actor s =
     (case List.find (\<lambda>sc. Some (ss_name sc) = stringField b ''scope'') (st_scopes st) of
        None \<Rightarrow> (s, Some Not_declared)
      | Some sc \<Rightarrow>
          (case field b ''description'' of
             Inl er \<Rightarrow> (s, Some er)
           | Inr description \<Rightarrow>
               service_result (setScopePolicy e now (st_identifier st) (ss_name sc)
                 \<lparr>pp_shortLived = Some (checked b ''short_lived''), pp_freshSignIn = Some (checked b ''fresh_sign_in''),
                  pp_requireGroups = Some (parseList (stringField b ''require_groups'')),
                  pp_descriptionOverride = Some (if description = [] then None else Some description)\<rparr> actor s)))"

definition run_accept ::
    "env \<Rightarrow> time_ms \<Rightarrow> server_status \<Rightarrow> body \<Rightarrow> string \<Rightarrow> 'a registry_state_scheme \<Rightarrow>
     'a registry_state_scheme \<times> admin_error option" where
  "run_accept e now st b actor s =
     (case field b ''fingerprint'' of
        Inl er \<Rightarrow> (s, Some er)
      | Inr fp \<Rightarrow> service_result (acceptPendingMetadata e now (st_identifier st) fp actor s))"

text \<open>\<open>msg\<close> is the text of a metadata error; a \<^verbatim>\<open>ResourceServerError\<close> is not caught here.\<close>

definition refresh_post ::
    "env \<Rightarrow> (metadata_error \<Rightarrow> string) \<Rightarrow> time_ms \<Rightarrow> admin_rand \<Rightarrow> request \<Rightarrow> string \<Rightarrow> string \<Rightarrow>
     'a client_state_scheme \<Rightarrow> 'a client_state_scheme \<times> admin_result" where
  "refresh_post e msg now rnd rq userId i s =
     (case serverOr404 e now i s of
        None \<Rightarrow> (s, notFound, [])
      | Some st \<Rightarrow>
          (case refreshMetadata e msg now (st_identifier st) (Some (actor_of userId)) s of
             (s1, Inl _) \<Rightarrow> (s1, Admin_login Fault, [])
           | (s1, Inr None) \<Rightarrow> (s1, Admin_redirect (''/admin/resource-servers/'' @ i @ ''?notice=refreshed''), [])
           | (s1, Inr (Some problem)) \<Rightarrow>
               (let latest = (case findResourceServerById e now (st_id st) s1 of Some l \<Rightarrow> l | None \<Rightarrow> st) in
                (s1, render_page e rnd rq userId ''server'' (server_data now latest)
                       (Some (Refresh_problem problem)) None 200))))"

definition remove_post ::
    "env \<Rightarrow> time_ms \<Rightarrow> admin_rand \<Rightarrow> request \<Rightarrow> string \<Rightarrow> string \<Rightarrow> 'a registry_state_scheme \<Rightarrow>
     'a registry_state_scheme \<times> admin_result" where
  "remove_post e now rnd rq userId i s =
     (case serverOr404 e now i s of
        None \<Rightarrow> (s, notFound, [])
      | Some st \<Rightarrow>
          (case removeResourceServer e now (st_identifier st) (actor_of userId) s of
             (s1, Inl er) \<Rightarrow>
               (s1, render_page e rnd rq userId ''remove'' (Remove_data st) (Some (Service_refused er)) None 400)
           | (s1, Inr _) \<Rightarrow> (s1, Admin_redirect ''/admin/resource-servers?notice=removed'', [])))"

section \<open>The denylist\<close>

definition clients_page ::
    "env \<Rightarrow> admin_rand \<Rightarrow> request \<Rightarrow> string \<Rightarrow> string \<Rightarrow> string \<Rightarrow> admin_error option \<Rightarrow> string option \<Rightarrow> nat \<Rightarrow>
     'a db_scheme \<Rightarrow> admin_result" where
  "clients_page e rnd rq userId v reason er notice status s =
     render_page e rnd rq userId ''clients'' (Denied_data (listDenials s) v reason) er notice status"

text \<open>The two fields of a denial: what was read before an error, and the error.\<close>

definition denial_fields :: "body \<Rightarrow> (string \<times> string \<times> admin_error) + (string \<times> string)" where
  "denial_fields b =
     (case field b ''value'' of
        Inl er \<Rightarrow> Inl ([], [], er)
      | Inr v \<Rightarrow>
          (case field b ''reason'' of
             Inl er \<Rightarrow> Inl (v, [], er)
           | Inr r \<Rightarrow>
               (case checkReason (Some r) of
                  Some er \<Rightarrow> Inl (v, r, Denial_refused er)
                | None \<Rightarrow> Inr (v, r))))"

definition confirm_post ::
    "env \<Rightarrow> admin_rand \<Rightarrow> request \<Rightarrow> string \<Rightarrow> 'a db_scheme \<Rightarrow> 'a db_scheme \<times> admin_result" where
  "confirm_post e rnd rq userId s =
     (s, case denial_fields (bodyOf (q_body rq)) of
           Inl (v, r, er) \<Rightarrow> clients_page e rnd rq userId v r (Some er) None 400 s
         | Inr (v, r) \<Rightarrow>
             (case previewDenial e v s of
                Inl er \<Rightarrow> clients_page e rnd rq userId v r (Some (Denial_refused er)) None 400 s
              | Inr p \<Rightarrow> render_page e rnd rq userId ''clients-confirm'' (Confirm_data p (dp_value p) r) None None 200))"

definition denied_notice :: "deny_result \<Rightarrow> string" where
  "denied_notice r =
     (case dr_note r of None \<Rightarrow> [] | Some n \<Rightarrow> n @ '' '') @ ''Denied '' @ kind_name (dr_kind r) @ '' '' @ dr_value r @ ''. Revoked '' @ show_nat (dr_grantsRevoked r) @
     '' grant(s) and '' @ show_nat (dr_tokensRevoked r) @
     '' refresh token(s); access tokens already issued stay valid until they expire (at most 15 minutes).''"

definition add_post ::
    "env \<Rightarrow> time_ms \<Rightarrow> admin_rand \<Rightarrow> request \<Rightarrow> string \<Rightarrow> 'a db_scheme \<Rightarrow> 'a db_scheme \<times> admin_result" where
  "add_post e now rnd rq userId s =
     (case denial_fields (bodyOf (q_body rq)) of
        Inl (v, r, er) \<Rightarrow> (s, clients_page e rnd rq userId v r (Some er) None 400 s)
      | Inr (v, r) \<Rightarrow>
          (case addDenial e now v (if r = [] then None else Some r) (actor_of userId) s of
             (s1, Inl er) \<Rightarrow> (s1, clients_page e rnd rq userId v r (Some (Denial_refused er)) None 400 s1)
           | (s1, Inr d) \<Rightarrow> (s1, clients_page e rnd rq userId [] [] None (Some (denied_notice d)) 200 s1)))"

definition denial_remove_post ::
    "env \<Rightarrow> admin_rand \<Rightarrow> request \<Rightarrow> string \<Rightarrow> 'a db_scheme \<Rightarrow> 'a db_scheme \<times> admin_result" where
  "denial_remove_post e rnd rq userId s =
     (case field (bodyOf (q_body rq)) ''value'' of
        Inl er \<Rightarrow> (s, clients_page e rnd rq userId [] [] (Some er) None 400 s)
      | Inr v \<Rightarrow>
          (case removeDenial e v (actor_of userId) s of
             (s1, Inl er) \<Rightarrow> (s1, clients_page e rnd rq userId [] [] (Some (Denial_refused er)) None 400 s1)
           | (s1, Inr (kind, value, removed)) \<Rightarrow>
               (s1, clients_page e rnd rq userId [] [] None
                  (Some (if removed
                         then ''Removed '' @ kind_name kind @ '' '' @ value @ ''. Revoked grants are not restored; clients must be re-authorized.''
                         else ''No '' @ kind_name kind @ '' entry for '' @ value @ ''.'')) 200 s1)))"

section \<open>The routes that change something\<close>

datatype admin_post =
    Post_preview | Post_approve | Post_update string | Post_policy string | Post_accept string
  | Post_refresh string | Post_remove string | Post_confirm | Post_add | Post_remove_denial

definition server_back :: "string \<Rightarrow> string \<Rightarrow> string" where
  "server_back i tail =
     (case idParam i of None \<Rightarrow> ''/admin/resource-servers'' | Some k \<Rightarrow> ''/admin/resource-servers/'' @ k @ tail)"

fun back_of :: "admin_post \<Rightarrow> string" where
  "back_of Post_preview = ''/admin/resource-servers/new''"
| "back_of Post_approve = ''/admin/resource-servers/new''"
| "back_of (Post_update i) = server_back i []"
| "back_of (Post_policy i) = server_back i []"
| "back_of (Post_accept i) = server_back i []"
| "back_of (Post_refresh i) = server_back i []"
| "back_of (Post_remove i) = server_back i ''/remove''"
| "back_of Post_confirm = ''/admin/clients''"
| "back_of Post_add = ''/admin/clients''"
| "back_of Post_remove_denial = ''/admin/clients''"

text \<open>What a route does for the admin \<open>userId\<close>.\<close>

fun perform_post ::
    "env \<Rightarrow> (metadata_error \<Rightarrow> string) \<Rightarrow> time_ms \<Rightarrow> admin_rand \<Rightarrow> request \<Rightarrow> string \<Rightarrow> admin_post \<Rightarrow>
     'a client_state_scheme \<Rightarrow> 'a client_state_scheme \<times> admin_result" where
  "perform_post e msg now rnd rq u Post_preview s = preview_post e now rnd rq u s"
| "perform_post e msg now rnd rq u Post_approve s = approve_post e now rnd rq u s"
| "perform_post e msg now rnd rq u (Post_update i) s = serverWrite e now rnd rq u i ''saved'' (run_update e now) s"
| "perform_post e msg now rnd rq u (Post_policy i) s = serverWrite e now rnd rq u i ''policy'' (run_policy e now) s"
| "perform_post e msg now rnd rq u (Post_accept i) s = serverWrite e now rnd rq u i ''accepted'' (run_accept e now) s"
| "perform_post e msg now rnd rq u (Post_refresh i) s = refresh_post e msg now rnd rq u i s"
| "perform_post e msg now rnd rq u (Post_remove i) s = remove_post e now rnd rq u i s"
| "perform_post e msg now rnd rq u Post_confirm s = confirm_post e rnd rq u s"
| "perform_post e msg now rnd rq u Post_add s = add_post e now rnd rq u s"
| "perform_post e msg now rnd rq u Post_remove_denial s = denial_remove_post e rnd rq u s"

definition admin_post_route ::
    "env \<Rightarrow> provider \<Rightarrow> (metadata_error \<Rightarrow> string) \<Rightarrow> time_ms \<Rightarrow> admin_rand \<Rightarrow> request \<Rightarrow> admin_post \<Rightarrow>
     'a admin_state_scheme \<Rightarrow> 'a admin_state_scheme \<times> admin_result" where
  "admin_post_route e pv msg now rnd rq p s =
     (case requireAdminWrite e pv now rq (back_of p) s of
        (s1, Inl rep) \<Rightarrow> (s1, rep, [])
      | (s1, Inr userId) \<Rightarrow> perform_post e msg now rnd rq userId p s1)"

end
