(* ===== verification/Cli.thy ===== *)
theory Cli
  imports CliArgs AdminRouter LocalRouter
begin

text \<open>
  The operator commands: \<^verbatim>\<open>cli/resource-server.ts\<close>, \<^verbatim>\<open>cli/local-user.ts\<close>, \<^verbatim>\<open>cli/deny-client.ts\<close> and
  \<^verbatim>\<open>cli/rotate-signing-key.ts\<close>.  A command is a function of its arguments, of the lines on its standard
  input where it reads any, and of the state of its process: the database, and the registry and
  fetcher of this process.  What it prints is a list of lines; the ISO form of a time is a
  parameter, and the texts of errors are left as the errors.
\<close>

section \<open>Results\<close>

datatype cli_error =
    Cli_service service_error
  | Cli_denylist denylist_error
  | Cli_account account_error
  | Cli_password password_issue
  | Cli_args arg_error
  | Username_empty | Username_exists string | No_local_user string | Bad_admin_flag
  | No_password_given | Passwords_differ | Cli_fault

text \<open>The exit code and the lines printed; an error is printed with exit code 1.\<close>

datatype cli_result = Printed nat "string list" | Usage | Failed_with cli_error

definition exit_code :: "cli_result \<Rightarrow> nat" where
  "exit_code r = (case r of Printed n _ \<Rightarrow> n | Usage \<Rightarrow> 1 | Failed_with _ \<Rightarrow> 1)"

definition CLI_ACTOR :: string where "CLI_ACTOR = ''cli''"

section \<open>Printing a resource server\<close>

type_synonym iso_time = "time_ms \<Rightarrow> string"

definition iso :: "iso_time \<Rightarrow> time_ms option \<Rightarrow> string" where
  "iso f d = (case d of None \<Rightarrow> ''never'' | Some t \<Rightarrow> f t)"

definition age :: "int option \<Rightarrow> string" where
  "age seconds =
     (case seconds of
        None \<Rightarrow> ''never fetched''
      | Some n \<Rightarrow>
          if n < 90 then show_nat (nat n) @ ''s ago''
          else if n < 90 * 60 then show_nat (nat (round_div n 60)) @ ''m ago''
          else show_nat (nat (round_div n 3600)) @ ''h ago'')"

fun FLAG_NAMES :: "scope_flag \<Rightarrow> string" where
  "FLAG_NAMES Flag_step_up = ''step-up''"
| "FLAG_NAMES Flag_short_lived = ''short-lived''"
| "FLAG_NAMES Flag_fresh_sign_in = ''fresh sign-in''"

text \<open>The arguments of \<open>New_scope\<close> are the name, the description, and the flags step-up, short-lived and
  fresh sign-in.\<close>

fun describeChange :: "pending_change \<Rightarrow> string" where
  "describeChange (New_scope n d su sl fs) =
     ''new scope '' @ n @
       (if fs then '' [fresh sign-in]'' else if su then '' [step-up]'' else if sl then '' [short-lived]'' else []) @
       '': '' @ d"
| "describeChange (Flag_removed n f) = ''scope '' @ n @ '' is no longer '' @ FLAG_NAMES f"
| "describeChange (Description_changed n a b) =
     ''scope '' @ n @ '' has a new description: '' @ json_quote a @ '' -> '' @ json_quote b"

definition scope_flags :: "scope_status \<Rightarrow> string list" where
  "scope_flags sc =
     (if ss_stepUp sc then [''step-up''] else []) @
     (if ss_freshSignIn sc
      then [''fresh sign-in'' @ (if ss_declaredFreshSignIn sc then [] else '' (policy)'')] else []) @
     (if ss_shortLived sc
      then [''short-lived'' @ (if ss_declaredShortLived sc \<or> ss_stepUp sc \<or> ss_declaredFreshSignIn sc then []
                               else '' (policy)'')] else []) @
     (if ss_requireGroups sc \<noteq> [] then [''groups: '' @ join ''|'' (ss_requireGroups sc)] else [])"

definition scope_lines :: "scope_status \<Rightarrow> string list" where
  "scope_lines sc =
     [''    '' @ ss_name sc @
        (if scope_flags sc = [] then [] else ''  ['' @ join ''; '' (scope_flags sc) @ '']''),
      ''      '' @ ss_description sc @
        (if ss_descriptionOverride sc = None then [] else ''  (description overridden)'')]"

definition pending_lines :: "iso_time \<Rightarrow> string \<Rightarrow> pending_metadata option \<Rightarrow> string list" where
  "pending_lines f identifier p =
     (case p of
        None \<Rightarrow> []
      | Some q \<Rightarrow>
          [''  PENDING CHANGES since '' @ f (pm_since q) @
             '' (the approved version above stays in force until accepted):''] @
          map (\<lambda>c. ''    '' @ describeChange c) (pm_changes q) @
          [''  Review them, then: resource-server accept '' @ identifier @ '' '' @ pm_fingerprint q])"

definition printStatus :: "iso_time \<Rightarrow> server_status \<Rightarrow> string list" where
  "printStatus f s =
     [st_identifier s @ ''  ('' @ st_displayName s @ '')  '' @ (if st_enabled s then ''enabled'' else ''DISABLED'') @
        (if st_internal s then ''  internal'' else []),
      ''  approved:       '' @ f (st_approvedAt s) @ '' by '' @ st_approvedBy s,
      ''  release claims: '' @ (if st_releaseClaims s = [] then ''(none)'' else join '', '' (st_releaseClaims s)),
      ''  metadata:       '' @
        (if st_hasSnapshot s
         then ''fetched '' @ age (st_snapshotAgeSeconds s) @ '', expires '' @ iso f (st_metadataExpiresAt s)
         else ''no snapshot (not registered)'')] @
     (case truthy (st_lastFetchError s) of
        None \<Rightarrow> []
      | Some er \<Rightarrow> [''  LAST FETCH FAILED ('' @ iso f (st_lastFetchAttemptAt s) @ ''): '' @ er]) @
     [''  scopes ('' @ show_nat (length (st_scopes s)) @ ''):''] @
     concat (map scope_lines (st_scopes s)) @
     pending_lines f (st_identifier s) (st_pending s) @
     map (\<lambda>p. ''  WARNING: policy for scope '' @ json_quote (sp_scopeName p) @
                '', which the server does not declare (no effect)'') (st_undeclaredPolicies s)"

text \<open>\<^verbatim>\<open>padEnd(n)\<close>\<close>

definition padEnd :: "nat \<Rightarrow> string \<Rightarrow> string" where
  "padEnd n s = s @ replicate (n - length s) CHR '' ''"

definition server_line :: "server_status \<Rightarrow> string" where
  "server_line s =
     (let state = (if \<not> st_enabled s then ''disabled'' else if \<not> st_hasSnapshot s then ''no snapshot''
                   else if truthy (st_lastFetchError s) \<noteq> None then ''STALE'' else ''ok'') in
      padEnd 11 state @ ''  '' @ st_identifier s @ ''  ('' @ st_displayName s @ '')  '' @
      show_nat (length (st_scopes s)) @ '' scope(s), metadata '' @ age (st_snapshotAgeSeconds s) @
      (if st_pending s = None then [] else ''  CHANGES PENDING''))"

section \<open>resource-server\<close>

definition printed_status ::
    "iso_time \<Rightarrow> (server_status \<Rightarrow> string list) \<Rightarrow> 's \<times> (service_error + server_status) \<Rightarrow> 's \<times> cli_result" where
  "printed_status f head r =
     (case r of
        (s, Inl er) \<Rightarrow> (s, Failed_with (Cli_service er))
      | (s, Inr st) \<Rightarrow> (s, Printed 0 (head st @ printStatus f st)))"

text \<open>\<open>msg\<close> is the text of a metadata error, \<open>newId\<close> the identifier of a new row.\<close>

fun run_resource_server ::
    "env \<Rightarrow> (metadata_error \<Rightarrow> string) \<Rightarrow> iso_time \<Rightarrow> time_ms \<Rightarrow> string \<Rightarrow> rs_command \<Rightarrow> 'a client_state_scheme \<Rightarrow>
     'a client_state_scheme \<times> cli_result" where
  "run_resource_server e msg f now newId Rs_list s =
     (s, if listResourceServers e now s = []
         then Printed 0 [''No resource servers. Approve one with: resource-server approve <identifier>'']
         else Printed 0 (map server_line (listResourceServers e now s)))"
| "run_resource_server e msg f now newId (Rs_show i) s =
     printed_status f (\<lambda>_. []) (s, getResourceServer e now i s)"
| "run_resource_server e msg f now newId (Rs_approve i n b cs) s =
     printed_status f (\<lambda>st. [''Approved '' @ st_identifier st])
       (approveResourceServer e now newId
          \<lparr>ap_identifier = i, ap_displayName = n, ap_internal = b, ap_releaseClaims = cs\<rparr> CLI_ACTOR s)"
| "run_resource_server e msg f now newId (Rs_set i p) s =
     printed_status f (\<lambda>st. [''Updated '' @ st_identifier st]) (updateResourceServer e now i p CLI_ACTOR s)"
| "run_resource_server e msg f now newId (Rs_policy i sc p) s =
     (case setScopePolicy e now i sc p CLI_ACTOR s of
        (s1, Inl er) \<Rightarrow> (s1, Failed_with (Cli_service er))
      | (s1, Inr (st, warning)) \<Rightarrow>
          (s1, Printed 0 ([''Updated policy for scope '' @ sc @ '' of '' @ st_identifier st] @
                          (if warning
                           then [''Warning: '' @ i @ '' does not currently declare the scope '' @ json_quote sc @
                                 ''; the policy is stored but has no effect until it does'']
                           else []) @
                          printStatus f st)))"
| "run_resource_server e msg f now newId (Rs_refresh i) s =
     (case refreshMetadata e msg now i (Some CLI_ACTOR) s of
        (s1, Inl er) \<Rightarrow> (s1, Failed_with (Cli_service er))
      | (s1, Inr (Some problem)) \<Rightarrow>
          (s1, Printed 1 [''Refresh failed: '' @ problem, ''The previous snapshot (if any) stays in use.''])
      | (s1, Inr None) \<Rightarrow>
          printed_status f (\<lambda>_. [''Refreshed '' @ i]) (s1, getResourceServer e now i s1))"
| "run_resource_server e msg f now newId (Rs_accept i fp) s =
     printed_status f (\<lambda>st. [''Accepted the pending changes for '' @ st_identifier st])
       (acceptPendingMetadata e now i fp CLI_ACTOR s)"
| "run_resource_server e msg f now newId (Rs_remove i) s =
     (case removeResourceServer e now i CLI_ACTOR s of
        (s1, Inl er) \<Rightarrow> (s1, Failed_with (Cli_service er))
      | (s1, Inr (ng, nt)) \<Rightarrow>
          (s1, Printed 0
             [''Removed '' @ i @ '' and its scope policy.'',
              ''Revoked '' @ show_nat ng @ '' grant(s) and '' @ show_nat nt @ '' refresh token(s) for it.'',
              ''Disable is reversible; remove revokes every grant. Approving it again starts from no grants.'']))"

definition resource_server_main ::
    "env \<Rightarrow> (metadata_error \<Rightarrow> string) \<Rightarrow> iso_time \<Rightarrow> time_ms \<Rightarrow> string \<Rightarrow> string list \<Rightarrow> 'a client_state_scheme \<Rightarrow>
     'a client_state_scheme \<times> cli_result" where
  "resource_server_main e msg f now newId argv s =
     (case parseResourceServerArgs argv of
        Inl Not_a_function \<Rightarrow> (s, Failed_with Cli_fault)
      | Inl er \<Rightarrow> (s, Usage)
      | Inr c \<Rightarrow> run_resource_server e msg f now newId c s)"

section \<open>local-user\<close>

text \<open>What is read from standard input: on a terminal the password is asked twice.\<close>

definition readPassword :: "bool \<Rightarrow> string list \<Rightarrow> cli_error + string" where
  "readPassword tty lines =
     (case lines of
        [] \<Rightarrow> Inl No_password_given
      | first # rest \<Rightarrow>
          if \<not> tty then Inr first
          else (case rest of
            [] \<Rightarrow> Inl No_password_given
          | second # _ \<Rightarrow> if first \<noteq> second then Inl Passwords_differ else Inr first))"

definition add_user ::
    "env \<Rightarrow> account_rand \<Rightarrow> bool \<Rightarrow> string list \<Rightarrow> string \<Rightarrow> 'a db_scheme \<Rightarrow> 'a db_scheme \<times> cli_result" where
  "add_user e rnd tty lines rawUsername s =
     (let username = normalizeUsername rawUsername in
      if username = [] then (s, Failed_with Username_empty)
      else case readPassword tty lines of
        Inl er \<Rightarrow> (s, Failed_with er)
      | Inr password \<Rightarrow>
          (case passwordProblem password of
             Some p \<Rightarrow> (s, Failed_with (Cli_password p))
           | None \<Rightarrow>
               if row_of lu_username username (localUsers s) \<noteq> None
               then (s, Failed_with (Username_exists username))
               else (case createLocalUser e rnd username password s of
                 (s1, Inl er) \<Rightarrow> (s1, Failed_with (Cli_account er))
               | (s1, Inr _) \<Rightarrow> (s1, Printed 0 [''Created local user '' @ username]))))"

text \<open>The transaction of \<open>deactivate\<close>; the counts, or nothing when there is no such user.  (The user row a
  local account refers to exists.)\<close>

definition end_grants_of_user :: "time_ms \<Rightarrow> string \<Rightarrow> 'a db_scheme \<Rightarrow> 'a db_scheme" where
  "end_grants_of_user now userId s =
     s\<lparr>grants := update_many (\<lambda>g. gr_userId g = userId \<and> gr_revokedAt g = None)
                   (\<lambda>g. g\<lparr>gr_revokedAt := Some now\<rparr>) (grants s),
       refreshTokens := update_many (\<lambda>t. rt_userId t = userId \<and> rt_revokedAt t = None)
                          (\<lambda>t. t\<lparr>rt_revokedAt := Some now\<rparr>) (refreshTokens s)\<rparr>"

definition close_account :: "string \<Rightarrow> string \<Rightarrow> 'a db_scheme \<Rightarrow> 'a db_scheme" where
  "close_account username userId s =
     s\<lparr>localUsers := update_many (\<lambda>l. lu_username l = username) (\<lambda>l. l\<lparr>lu_isActive := False\<rparr>) (localUsers s),
       users := update_many (\<lambda>u. u_id u = userId)
         (\<lambda>u. u\<lparr>u_sessionEpoch := Suc (u_sessionEpoch u), u_deviceEpoch := Suc (u_deviceEpoch u)\<rparr>) (users s)\<rparr>"

definition deactivate_tx ::
    "time_ms \<Rightarrow> string \<Rightarrow> 'a db_scheme \<Rightarrow> 'a db_scheme \<times> (nat \<times> nat) option" where
  "deactivate_tx now username s =
     (case row_of lu_username username (localUsers s) of
        None \<Rightarrow> (s, None)
      | Some row \<Rightarrow>
          (let ng = count_rows (\<lambda>g. gr_userId g = lu_userId row \<and> gr_revokedAt g = None) (grants s);
               nt = count_rows (\<lambda>t. rt_userId t = lu_userId row \<and> rt_revokedAt t = None) (refreshTokens s) in
           (audit ''cli'' ''local-user.deactivate'' username
              (Some (JObj [(''isActive'', JBool (lu_isActive row))]))
              (Some (JObj [(''isActive'', JBool False), (''grantsRevoked'', JNum (of_nat ng)),
                           (''refreshTokensRevoked'', JNum (of_nat nt))]))
              (end_grants_of_user now (lu_userId row) (close_account username (lu_userId row) s)),
            Some (ng, nt))))"

definition deactivate :: "time_ms \<Rightarrow> string \<Rightarrow> 'a db_scheme \<Rightarrow> 'a db_scheme \<times> cli_result" where
  "deactivate now rawUsername s =
     (let username = normalizeUsername rawUsername in
      case deactivate_tx now username s of
        (s1, None) \<Rightarrow> (s1, Failed_with (No_local_user username))
      | (s1, Some (ng, nt)) \<Rightarrow>
          (s1, Printed 0
             [''Deactivated '' @ username @ ''; existing sessions are rejected immediately.'',
              ''Revoked '' @ show_nat ng @ '' grant(s) and '' @ show_nat nt @ '' refresh token(s).'',
              ''Outstanding access tokens remain valid until they expire (at most 15 minutes).'']))"

definition setAdmin :: "string \<Rightarrow> string \<Rightarrow> 'a db_scheme \<Rightarrow> 'a db_scheme \<times> cli_result" where
  "setAdmin rawUsername flag s =
     (if flag \<noteq> ''on'' \<and> flag \<noteq> ''off'' then (s, Failed_with Bad_admin_flag)
      else
        (let username = normalizeUsername rawUsername; admin = (flag = ''on'') in
         case row_of lu_username username (localUsers s) of
           None \<Rightarrow> (s, Failed_with (No_local_user username))
         | Some row \<Rightarrow>
             (audit ''cli'' ''local-user.set-admin'' username
                (Some (JObj [(''isAdmin'', JBool (lu_isAdmin row))])) (Some (JObj [(''isAdmin'', JBool admin)]))
                (s\<lparr>localUsers := update_many (\<lambda>l. lu_username l = username) (\<lambda>l. l\<lparr>lu_isAdmin := admin\<rparr>)
                     (localUsers s)\<rparr>),
              Printed 0 [username @ '' is '' @ (if admin then ''now'' else ''no longer'') @ '' an administrator.''])))"

text \<open>Rows are kept in the order of their creation; \<open>created\<close> is the column the model leaves out.\<close>

definition user_line :: "iso_time \<Rightarrow> (local_user \<Rightarrow> time_ms) \<Rightarrow> local_user \<Rightarrow> string" where
  "user_line f created l =
     f (created l) @ ''  '' @ (if lu_isActive l then ''active  '' else ''inactive'') @ ''  '' @ lu_username l @
     (if lu_isAdmin l then ''  [admin]'' else []) @ ''  (last login '' @ iso f (lu_lastLoginAt l) @ '')''"

definition list_users :: "iso_time \<Rightarrow> (local_user \<Rightarrow> time_ms) \<Rightarrow> 'a db_scheme \<Rightarrow> string list" where
  "list_users f created s =
     (if localUsers s = [] then [''No local users.''] else map (user_line f created) (localUsers s))"

definition argument :: "string list \<Rightarrow> nat \<Rightarrow> string" where
  "argument argv n = (if n < length argv then argv ! n else [])"

definition local_user_main ::
    "env \<Rightarrow> account_rand \<Rightarrow> iso_time \<Rightarrow> (local_user \<Rightarrow> time_ms) \<Rightarrow> bool \<Rightarrow> string list \<Rightarrow> time_ms \<Rightarrow> string list \<Rightarrow>
     'a db_scheme \<Rightarrow> 'a db_scheme \<times> cli_result" where
  "local_user_main e rnd f created tty lines now argv s =
     (let command = argument argv 0; username = argument argv 1; flag = argument argv 2 in
      if command = ''add'' \<and> username \<noteq> [] then add_user e rnd tty lines username s
      else if command = ''deactivate'' \<and> username \<noteq> [] then deactivate now username s
      else if command = ''set-admin'' \<and> username \<noteq> [] \<and> flag \<noteq> [] then setAdmin username flag s
      else if command = ''list'' then (s, Printed 0 (list_users f created s))
      else (s, Usage))"

section \<open>deny-client\<close>

definition deny_lines :: "env \<Rightarrow> deny_result \<Rightarrow> string list" where
  "deny_lines e r =
     (case truthy (dr_note r) of None \<Rightarrow> [] | Some n \<Rightarrow> [n]) @
     [''Denied '' @ kind_name (dr_kind r) @ '' '' @ dr_value r] @
     (if dr_kind r = Deny_client_id
      then [''Note: this blocks only this exact client_id URL; the same host can publish others. To block the whole host, run: deny-client add '' @
            (case hostnameOf (new_URL e) (dr_value r) of None \<Rightarrow> [] | Some h \<Rightarrow> h)]
      else []) @
     [''Revoked '' @ show_nat (dr_grantsRevoked r) @ '' grant(s) and '' @ show_nat (dr_tokensRevoked r) @ '' refresh token(s).'',
      ''Outstanding access tokens remain valid until they expire (at most 15 minutes).'']"

definition deny_add ::
    "env \<Rightarrow> time_ms \<Rightarrow> string \<Rightarrow> string option \<Rightarrow> 'a db_scheme \<Rightarrow> 'a db_scheme \<times> cli_result" where
  "deny_add e now v reason s =
     (case addDenial e now v reason CLI_ACTOR s of
        (s1, Inl er) \<Rightarrow> (s1, Failed_with (Cli_denylist er))
      | (s1, Inr r) \<Rightarrow> (s1, Printed 0 (deny_lines e r)))"

definition deny_remove :: "env \<Rightarrow> string \<Rightarrow> 'a db_scheme \<Rightarrow> 'a db_scheme \<times> cli_result" where
  "deny_remove e v s =
     (case removeDenial e v CLI_ACTOR s of
        (s1, Inl er) \<Rightarrow> (s1, Failed_with (Cli_denylist er))
      | (s1, Inr (kind, x, removed)) \<Rightarrow>
          (s1, Printed 0
             (if removed
              then [''Removed '' @ kind_name kind @ '' '' @ x,
                    ''Revoked grants are not restored; clients must be re-authorized.'']
              else [''No '' @ kind_name kind @ '' entry for '' @ x])))"

definition denial_line :: "iso_time \<Rightarrow> (denied_client \<Rightarrow> time_ms) \<Rightarrow> denied_client \<Rightarrow> string" where
  "denial_line f created d =
     f (created d) @ ''  '' @ padEnd 9 (kind_name (dn_kind d)) @ ''  '' @ dn_value d @
     (case truthy (dn_reason d) of None \<Rightarrow> [] | Some r \<Rightarrow> ''  ('' @ r @ '')'')"

definition list_denied :: "iso_time \<Rightarrow> (denied_client \<Rightarrow> time_ms) \<Rightarrow> 'a db_scheme \<Rightarrow> string list" where
  "list_denied f created s =
     (if listDenials s = [] then [''No denied clients.''] else map (denial_line f created) (listDenials s))"

text \<open>The arguments before \<^verbatim>\<open>--reason\<close>, and the one after it.\<close>

definition split_reason :: "string list \<Rightarrow> string list \<times> string option option" where
  "split_reason rest =
     (case dropWhile (\<lambda>a. a \<noteq> ''--reason'') rest of
        [] \<Rightarrow> (rest, None)
      | _ # after \<Rightarrow>
          (takeWhile (\<lambda>a. a \<noteq> ''--reason'') rest, Some (case after of [] \<Rightarrow> None | r # _ \<Rightarrow> Some r)))"

definition deny_client_main ::
    "env \<Rightarrow> iso_time \<Rightarrow> (denied_client \<Rightarrow> time_ms) \<Rightarrow> time_ms \<Rightarrow> string list \<Rightarrow> 'a db_scheme \<Rightarrow>
     'a db_scheme \<times> cli_result" where
  "deny_client_main e f created now argv s =
     (let command = argument argv 0 in
      case split_reason (drop 1 argv) of
        (_, Some None) \<Rightarrow> (s, Usage)
      | (positional, reason) \<Rightarrow>
          (let v = argument positional 0; r = (case reason of Some (Some x) \<Rightarrow> Some x | _ \<Rightarrow> None) in
           if command = ''add'' \<and> v \<noteq> [] then deny_add e now v r s
           else if command = ''remove'' \<and> v \<noteq> [] then deny_remove e v s
           else if command = ''list'' then (s, Printed 0 (list_denied f created s))
           else (s, Usage)))"

section \<open>rotate-signing-key\<close>

definition rotate_lines :: "bool \<Rightarrow> signing_key option \<Rightarrow> string \<Rightarrow> string list \<Rightarrow> string list" where
  "rotate_lines compromised before kid removed =
     [''New active signing key: '' @ kid] @
     (if compromised
      then map (\<lambda>k. ''Deleted signing key:    '' @ k) removed @
           [''JWKS now publishes only the new key. All previously issued access tokens are rejected;'',
            ''restart resource servers to flush any cached JWKS.'']
      else case before of
        Some k \<Rightarrow> [''Retired signing key:    '' @ sk_kid k,
                   ''The retired key remains in JWKS until it ages out (about 2 hours).'']
      | None \<Rightarrow> [''No previous active key to retire.''])"

definition rotate_main ::
    "time_ms \<Rightarrow> key_pair \<Rightarrow> string list \<Rightarrow> 'a db_scheme \<Rightarrow> 'a db_scheme \<times> cli_result" where
  "rotate_main now g argv s =
     (if 1 < length argv \<or> (length argv = 1 \<and> argument argv 0 \<noteq> ''--compromised'') then (s, Usage)
      else
        (let compromised = (argument argv 0 = ''--compromised'') in
         case rotateSigningKey compromised now g s of
           None \<Rightarrow> (s, Failed_with Cli_fault)
         | Some (s1, kid, removed) \<Rightarrow>
             (s1, Printed 0 (rotate_lines compromised (active_key (signingKeys s)) kid removed))))"

end
