(* ===== verification/AdminFlow.thy ===== *)
theory AdminFlow
  imports World Cli
begin

text \<open>
  What the admin pages, the operator's commands and the refresh job do to credentials: a sign-in started
  from an admin page draws a request and an upstream state, a denial, a removed server and a deactivated
  account revoke tokens, and everything else leaves the flow tables alone.
\<close>

section \<open>Writes that leave the flow tables alone\<close>

named_theorems quiet

lemma quiet_writes [quiet]:
  "flow_tables (loadRegistry r) = flow_tables r"
  "flow_tables (notifyRegistryChanged r) = flow_tables r"
  "flow_tables (put_server i f d) = flow_tables d"
  "flow_tables (audit a ac tg b c d) = flow_tables d"
  "flow_tables (d\<lparr>resourceServers := t\<rparr>) = flow_tables d"
  "flow_tables (d\<lparr>deniedClients := n\<rparr>) = flow_tables d"
  "flow_tables (d\<lparr>localUsers := l\<rparr>) = flow_tables d"
  "flow_tables (d\<lparr>users := u\<rparr>) = flow_tables d"
  "flow_tables (d\<lparr>grants := g\<rparr>) = flow_tables d"
  "flow_tables (d\<lparr>signingKeys := k\<rparr>) = flow_tables d"
  by (simp_all add: flow_tables_def loadRegistry_def load_start_def load_end_def notifyRegistryChanged_def
      put_server_def audit_def Let_def)

lemma quiet_windows [quiet]:
  "flow_tables (s\<lparr>rejectedWindows := w\<rparr>) = flow_tables s" "flow_tables (s\<lparr>writeWindows := w\<rparr>) = flow_tables s"
  by (simp_all add: flow_tables_def)

lemma fetchResourceMetadata_quiet:
  "fetchResourceMetadata e now i internal s = (s', r) \<Longrightarrow> flow_tables s' = flow_tables s"
  by (auto simp: fetchResourceMetadata_def flow_tables_def split: sum.splits prod.splits)

lemma server_operations_quiet:
  "flow_tables (fst (updateResourceServer e now i p actor s)) = flow_tables s"
  "flow_tables (fst (setScopePolicy e now i scope q actor s)) = flow_tables s"
  "flow_tables (fst (acceptPendingMetadata e now i fp actor s)) = flow_tables s"
  "flow_tables (fst (refresh_failed now i m s)) = flow_tables s"
  "flow_tables (fst (refresh_commit_server e now i who candidate expiresAt s)) = flow_tables s"
  "flow_tables (fst (approve_commit e now newId a actor candidate expiresAt c)) = flow_tables c"
  by (simp_all add: updateResourceServer_def setScopePolicy_def acceptPendingMetadata_def refresh_failed_def
      refresh_commit_server_def approve_commit_def Let_def quiet split: sum.split option.split)

lemma refreshMetadata_quiet: "flow_tables (fst (refreshMetadata e msg now i who s)) = flow_tables s"
proof (cases "requireServer i s")
  case (Inr row)
  obtain s1 r where f: "fetchResourceMetadata e now i (sr_internal row) s = (s1, r)" by fastforce
  with Inr fetchResourceMetadata_quiet [OF f] show ?thesis
    by (cases r) (simp_all add: refreshMetadata_def server_operations_quiet split: prod.split)
qed (simp add: refreshMetadata_def)

lemma approve_quiet: "flow_tables (fst (approveResourceServer e now newId p actor s)) = flow_tables s"
proof -
  obtain s1 r where f: "fetchResourceMetadata e now (trim (ap_identifier p)) (ap_internal p) s = (s1, r)"
    by fastforce
  with fetchResourceMetadata_quiet [OF f] show ?thesis
    by (cases r) (simp_all add: approveResourceServer_def Let_def server_operations_quiet
        split: sum.split prod.split)
qed

lemma refreshDue_quiet: "flow_tables (fst (refreshDueResourceServers e msg now s)) = flow_tables s"
proof -
  have "flow_tables (foldl (\<lambda>s i. fst (refreshMetadata e msg now i None s)) s is) = flow_tables s" for "is"
    by (induction "is" arbitrary: s) (simp_all add: refreshMetadata_quiet)
  then show ?thesis by (simp add: refreshDueResourceServers_def Let_def)
qed

lemma refreshDue_revives: "refreshDueResourceServers e msg now s = (s', n) \<Longrightarrow> revives_only N s s'"
  using refreshDue_quiet [of e msg now s] by auto

section \<open>Revocations\<close>

lemma revives_revocation:
  assumes "refreshTokens s' = update_many P (\<lambda>t. t\<lparr>rt_revokedAt := Some now\<rparr>) (refreshTokens s)"
    and "authCodes s' = authCodes s" "deviceCodes s' = deviceCodes s" "authRequests s' = authRequests s"
  shows "revives_only N s s'"
  by (rule revives_tables) (auto simp: assms set_update_many rotatable_def split: if_splits)

lemma addDenial_revives:
  assumes "addDenial e now raw reason actor s = (s', r)" shows "revives_only N s s'"
proof -
  have g: "revives_only N s (fst (revoke_grants_of now ids s))" for ids and s :: "'a db_scheme"
    by (cases "ids = []") (auto simp: revoke_grants_of_def Let_def intro: revives_revocation)
  from assms consider "s' = s"
    | k v s1 out d where "s1 = s\<lparr>deniedClients := d\<rparr>" "revoke_grants_of now (denied_grant_ids e k v s1) s1 = out"
        "flow_tables s' = flow_tables (fst out)"
    by (auto simp: addDenial_def Let_def quiet split: option.splits sum.splits prod.splits)
  then show ?thesis
  proof cases
    case (2 k v s1 out d)
    have "revives_only N s1 s'"
      using g [of s1 "denied_grant_ids e k v s1"] 2(2,3) by (blast intro: revives_to_rows)
    then show ?thesis by (rule revives_from_rows [rotated]) (simp add: 2(1) quiet)
  qed simp
qed

lemma removeDenial_quiet: "removeDenial e raw actor s = (s', r) \<Longrightarrow> flow_tables s' = flow_tables s"
  by (auto simp: removeDenial_def quiet split: option.splits sum.splits prod.splits)

lemma removeResourceServer_revives:
  assumes "removeResourceServer e now i actor s = (s', r)" shows "revives_only N s s'"
proof -
  have "revives_only N s (revoke_resource now i s)"
    by (rule revives_revocation [where P = "\<lambda>t. rt_resource t = i \<and> rt_revokedAt t = None" and now = now])
      (simp_all add: revoke_resource_def)
  moreover from assms have "s' = s \<or> flow_tables s' = flow_tables (revoke_resource now i s)"
    by (auto simp: removeResourceServer_def quiet split: sum.splits prod.splits)
  ultimately show ?thesis by (auto intro: revives_to_rows)
qed

section \<open>The admin pages\<close>

lemma startUpstreamAuth_revives:
  assumes "startUpstreamAuth e pv now h fr fresh s = (s', r)"
  shows "revives_only {Signin h (fr_state fr)} s s'"
proof -
  let ?f = "\<lambda>r. r\<lparr>ar_upstreamState := Some (fr_state fr), ar_upstreamNonce := Some (fr_nonce fr),
                  ar_upstreamVerifier := Some (fr_verifier fr)\<rparr>"
  obtain s1 q where g: "getOidcConfig e pv now s = (s1, q)" by fastforce
  note f = getOidcConfig_flow_tables [OF g]
  have up: "revives_only {Signin h (fr_state fr)} s1
      (s1\<lparr>authRequests := update_many (\<lambda>r. ar_handle r = h) ?f (authRequests s1)\<rparr>)"
    by (rule revives_requests) (auto simp: set_update_many with_upstream_state_def split: if_splits)
  have "s' = s1 \<or> s' = s1\<lparr>authRequests := update_many (\<lambda>r. ar_handle r = h) ?f (authRequests s1)\<rparr>"
    using assms unfolding startUpstreamAuth_def g by (simp split: if_splits option.splits)
  with f up show ?thesis by (auto intro: revives_from_rows)
qed

lemma startLogin_revives:
  assumes "startLogin e pv now fr rq to fresh uid s = (s', out)"
  shows "revives_only (new_request fr) s s'"
proof -
  obtain s1 w where l: "rowCreationRetryAfter now rq s = (s1, w)" by fastforce
  let ?row = "self_login_row now (fr_handle fr) (adminReturnPath (Some to)) fresh"
  have "revives_only (new_request fr) s1 s'"
  proof (cases "create_row ar_handle ?row (authRequests s1)")
    case None
    with assms l show ?thesis
      by (auto simp: startLogin_def createSelfLoginRequest_def Let_def split: if_splits)
  next
    case (Some rows)
    let ?s2 = "s1\<lparr>authRequests := rows\<rparr>"
    obtain s3 q where u: "startUpstreamAuth e pv now (fr_handle fr) fr fresh ?s2 = (s3, q)" by fastforce
    have c: "revives_only (new_request fr) s1 ?s2"
      by (rule revives_create_request [OF Some]) (simp_all add: self_login_row_def new_request_def)
    have d: "revives_only (new_request fr) ?s2 s3"
      by (rule revives_mono [OF startUpstreamAuth_revives [OF u]]) (simp add: new_request_def)
    from assms l Some u have "s' = s1 \<or> s' = ?s2 \<or> s' = s3"
      by (auto simp: startLogin_def createSelfLoginRequest_def Let_def split: if_splits option.splits)
    with c revives_trans [OF c d] show ?thesis by auto
  qed
  with limiter_flow_tables(1) [OF l] show ?thesis by (rule revives_from_rows)
qed

lemma admin_page_revives:
  assumes "admin_page e pv now rnd rq path g s = (s', out)"
  shows "revives_only (new_request (ar_flow rnd)) s s'"
proof -
  have "(\<exists>r. startLogin e pv now (ar_flow rnd) rq path False None s = (s', r)) \<or>
      (\<exists>u b. isAdmin e pv now u s = (s', b))"
    using assms unfolding admin_page_def requireAdminPage_def
    by (auto split: option.splits prod.splits bool.splits)
  then show ?thesis by (auto intro: startLogin_revives isAdmin_flow_tables)
qed

lemma reauth_get_revives:
  "reauth_get e pv now fr rq s = (s', out) \<Longrightarrow> revives_only (new_request fr) s s'"
  unfolding reauth_get_def by (rule startLogin_revives)

lemma requireAdminWrite_quiet:
  "requireAdminWrite e pv now rq back s = (s', r) \<Longrightarrow> flow_tables s' = flow_tables s"
  by (auto simp: requireAdminWrite_def reject_def Let_def quiet dest!: isAdmin_flow_tables
      split: option.splits prod.splits if_splits bool.splits)

lemma serverWrite_quiet:
  assumes "\<And>st. flow_tables (fst (run st (bodyOf (q_body rq)) (actor_of u) s)) = flow_tables s"
  shows "flow_tables (fst (serverWrite e now rnd rq u i notice run s)) = flow_tables s"
proof (cases "serverOr404 e now i s")
  case (Some st)
  obtain s1 er where run: "run st (bodyOf (q_body rq)) (actor_of u) s = (s1, er)" by fastforce
  with assms [of st] Some show ?thesis
    by (auto simp: serverWrite_def split: option.split admin_error.split)
qed (simp add: serverWrite_def)

lemma runs_quiet:
  "flow_tables (fst (run_update e now st b actor s)) = flow_tables s"
  "flow_tables (fst (run_policy e now st b actor s)) = flow_tables s"
  "flow_tables (fst (run_accept e now st b actor s)) = flow_tables s"
  by (simp_all add: run_update_def run_policy_def run_accept_def service_result_def server_operations_quiet
      split: sum.split option.split)

lemma perform_post_revives: "revives_only N s (fst (perform_post e msg now rnd rq u p s))"
proof (cases p)
  case Post_preview
  have "flow_tables (fst (preview_post e now rnd rq u s)) = flow_tables s"
    by (auto simp: preview_post_def previewResourceServer_def Let_def split: sum.split prod.split
        dest: fetchResourceMetadata_quiet)
  with Post_preview show ?thesis by auto
next
  case Post_approve
  have "flow_tables (fst (approve_post e now rnd rq u s)) = flow_tables s"
    using approve_quiet [of e now "ar_rowId rnd" _ "actor_of u" s]
    by (auto simp: approve_post_def Let_def split: sum.split prod.split) (metis fst_conv)+
  with Post_approve show ?thesis by auto
next
  case (Post_refresh i)
  have "flow_tables (fst (refresh_post e msg now rnd rq u i s)) = flow_tables s"
    using refreshMetadata_quiet [of e msg now _ "Some (actor_of u)" s]
    by (auto simp: refresh_post_def Let_def split: option.split sum.split prod.split) (metis fst_conv)+
  with Post_refresh show ?thesis by auto
next
  case (Post_remove i)
  show ?thesis
  proof (cases "serverOr404 e now i s")
    case (Some st)
    obtain s1 r where rm: "removeResourceServer e now (st_identifier st) (actor_of u) s = (s1, r)" by fastforce
    with Some Post_remove removeResourceServer_revives [OF rm] show ?thesis
      by (cases r) (simp_all add: remove_post_def)
  qed (simp add: Post_remove remove_post_def)
next
  case Post_add
  show ?thesis
    unfolding Post_add perform_post.simps add_post_def
    by (auto split: sum.split prod.split intro: addDenial_revives)
next
  case Post_remove_denial
  show ?thesis
    unfolding Post_remove_denial perform_post.simps denial_remove_post_def
    by (auto split: sum.split prod.split dest: removeDenial_quiet)
qed (auto simp: confirm_post_def serverWrite_quiet runs_quiet)

lemma admin_post_revives:
  assumes "admin_post_route e pv msg now rnd rq p s = (s', out)" shows "revives_only N s s'"
proof -
  obtain s1 r where a: "requireAdminWrite e pv now rq (back_of p) s = (s1, r)" by fastforce
  with assms have "s' = s1 \<or> (\<exists>u. perform_post e msg now rnd rq u p s1 = (s', out))"
    by (cases r) (auto simp: admin_post_route_def)
  moreover have "revives_only N s1 s'" if "perform_post e msg now rnd rq u p s1 = (s', out)" for u
    using perform_post_revives [of N s1 e msg now rnd rq u p] that by simp
  ultimately show ?thesis using requireAdminWrite_quiet [OF a] by (auto intro: revives_from_rows)
qed

section \<open>The operator's commands\<close>

lemma resource_server_main_revives:
  assumes "resource_server_main e msg f now newId argv s = (s', out)" shows "revives_only N s s'"
proof -
  have p: "fst (printed_status f head r) = fst r" for head and r :: "'a client_state_scheme \<times> (service_error + server_status)"
    by (auto simp: printed_status_def split: prod.split sum.split)
  have "revives_only N s (fst (run_resource_server e msg f now newId c s))" for c
  proof (cases c)
    case (Rs_policy i sc q)
    then show ?thesis
      using server_operations_quiet(2) [of e now i sc q CLI_ACTOR s] by (auto split: prod.split sum.split)
  next
    case (Rs_refresh i)
    then show ?thesis
      using refreshMetadata_quiet [of e msg now i "Some CLI_ACTOR" s]
      by (auto simp: p split: prod.split sum.split option.split)
  next
    case (Rs_remove i)
    then show ?thesis
      by (auto split: prod.split sum.split intro: removeResourceServer_revives)
  qed (auto simp: p server_operations_quiet approve_quiet)
  with assms show ?thesis
    by (auto simp: resource_server_main_def split: sum.splits arg_error.splits) (metis fst_conv)+
qed

lemma deactivate_revives:
  assumes "deactivate now u s = (s', out)" shows "revives_only N s s'"
proof -
  have "revives_only N s (end_grants_of_user now i (close_account n i s))" for n i
    by (rule revives_revocation [where P = "\<lambda>t. rt_userId t = i \<and> rt_revokedAt t = None" and now = now])
      (simp_all add: end_grants_of_user_def close_account_def)
  moreover have "s' = s \<or>
      (\<exists>n i. flow_tables s' = flow_tables (end_grants_of_user now i (close_account n i s)))"
  proof (cases "row_of lu_username (normalizeUsername u) (localUsers s)")
    case (Some row)
    with assms have "flow_tables s' = flow_tables (end_grants_of_user now (lu_userId row)
        (close_account (normalizeUsername u) (lu_userId row) s))"
      by (auto simp: deactivate_def deactivate_tx_def Let_def quiet)
    then show ?thesis by blast
  qed (use assms in \<open>simp add: deactivate_def deactivate_tx_def Let_def\<close>)
  ultimately show ?thesis by (auto intro: revives_to_rows)
qed

lemma local_user_main_revives:
  assumes "local_user_main e rnd f created tty lines now argv s = (s', out)" shows "revives_only N s s'"
proof -
  have a: "add_user e rnd tty lines x s = (s', out) \<Longrightarrow> flow_tables s' = flow_tables s" for x
    by (auto simp: add_user_def createLocalUser_def Let_def flow_tables_def
        split: if_splits sum.splits option.splits prod.splits)
  have b: "setAdmin x y s = (s', out) \<Longrightarrow> flow_tables s' = flow_tables s" for x y
    by (auto simp: setAdmin_def Let_def quiet split: if_splits option.splits)
  from assms show ?thesis
    by (auto simp: local_user_main_def Let_def split: if_splits dest: a b intro: deactivate_revives)
qed

lemma deny_client_main_revives:
  assumes "deny_client_main e f created now argv s = (s', out)" shows "revives_only N s s'"
proof -
  have a: "deny_add e now v r s = (s', out) \<Longrightarrow> revives_only N s s'" for v r
    by (auto simp: deny_add_def split: prod.splits sum.splits intro: addDenial_revives)
  have b: "deny_remove e v s = (s', out) \<Longrightarrow> revives_only N s s'" for v
    by (auto simp: deny_remove_def split: prod.splits sum.splits dest: removeDenial_quiet)
  from assms show ?thesis
    by (auto simp: deny_client_main_def Let_def split: prod.splits option.splits if_splits dest: a b)
qed

lemma rotate_main_quiet: "rotate_main now g argv s = (s', out) \<Longrightarrow> flow_tables s' = flow_tables s"
  by (auto simp: rotate_main_def rotateSigningKey_def Let_def quiet split: if_splits option.splits)

end
