(* ===== verification/Runs.thy ===== *)
theory Runs
  imports AdminFlow Sample
begin

text \<open>
  The proxy as a transition system.  An event is one atomic stretch of a handler: the checks before
  its transaction, the transaction, or a whole handler where nothing in between matters.  Events of
  any number of requests interleave; a commit may carry any claim, also one whose checks were made in
  a much older state.  The pages and changes of the administrators, the operator's commands and the
  refresh job are events too; the routes left out (discovery, key set, readiness, metrics, the account
  page, and the empty forms of the login and device pages) change no credential.  The label of a step is the credential it redeemed.
\<close>

section \<open>Events\<close>

datatype event =
    Code_checks time_ms rand body
  | Code_commit time_ms rand code_claim
  | Refresh_checks provider time_ms rand body
  | Refresh_commit time_ms rand refresh_claim
  | Device_checks time_ms rand body
  | Device_commit time_ms rand device_claim
  | Consent_page time_ms string request
  | Consent_checks time_ms request
  | Consent_commit time_ms rand auth_request string decision
  | Authorize_request provider time_ms flow_rand request
  | Device_start time_ms rand "nat list" request
  | Device_entry provider time_ms flow_rand request string
  | Login time_ms login_rand request
  | Callback_claim time_ms request "string option"
  | Callback_finish time_ms string auth_request code_answer
  | Grants_list_page provider time_ms flow_rand string request
  | Grant_revoke time_ms request string
  | Token_revoke time_ms "json option"
  | Logout time_ms request
  | Setup time_ms login_rand account_rand request
  | Password time_ms login_rand string request
  | Cleanup time_ms
  | Admin_view provider time_ms admin_rand request string admin_get
  | Admin_reauth provider time_ms flow_rand request
  | Admin_change provider "metadata_error \<Rightarrow> string" time_ms admin_rand request admin_post
  | Refresh_job "metadata_error \<Rightarrow> string" time_ms
  | Reload_registry
  | Server_command "metadata_error \<Rightarrow> string" iso_time time_ms string "string list"
  | User_command account_rand iso_time "local_user \<Rightarrow> time_ms" bool "string list" time_ms "string list"
  | Deny_command iso_time "denied_client \<Rightarrow> time_ms" time_ms "string list"
  | Rotate_command time_ms key_pair "string list"

text \<open>The credentials an event draws at random.\<close>

fun news :: "env \<Rightarrow> event \<Rightarrow> credential set" where
  "news e (Code_commit now rnd c) = {Refresh (e_sha256 e (r_token rnd))}"
| "news e (Refresh_commit now rnd c) = {Refresh (e_sha256 e (r_token rnd))}"
| "news e (Device_commit now rnd c) = {Refresh (e_sha256 e (r_token rnd))}"
| "news e (Consent_commit now rnd r subject d) = {Code (e_sha256 e (r_token rnd))}"
| "news e (Authorize_request pv now fr rq) = new_request fr"
| "news e (Device_start now rnd bytes rq) = {Device (e_sha256 e (r_token rnd))}"
| "news e (Device_entry pv now fr rq raw) = new_request fr"
| "news e (Grants_list_page pv now fr nonce rq) = new_request fr"
| "news e (Admin_view pv now rnd rq path g) = new_request (ar_flow rnd)"
| "news e (Admin_reauth pv now fr rq) = new_request fr"
| "news e _ = {}"

definition won :: "credential \<Rightarrow> 's \<times> token_response \<Rightarrow> 's \<times> credential option" where
  "won k p = (fst p, if granted (snd p) then Some k else None)"

text \<open>The state after an event and what it redeemed: tokens for a code, a refresh token or a device
  code, the effect of a consent submission, the exchange of a sign-in.\<close>

fun perform :: "env \<Rightarrow> event \<Rightarrow> admin_state \<Rightarrow> admin_state \<times> credential option" where
  "perform e (Code_checks now rnd b) s = (fst (code_checks e now rnd b s), None)"
| "perform e (Code_commit now rnd c) s = won (Code (ac_codeHash (cc_entry c))) (code_commit e now rnd c s)"
| "perform e (Refresh_checks pv now rnd b) s = (fst (refresh_checks e pv now rnd b s), None)"
| "perform e (Refresh_commit now rnd c) s =
     won (Refresh (rt_tokenHash (rc_entry c))) (refresh_commit e now rnd c s)"
| "perform e (Device_checks now rnd b) s = (fst (device_checks e now rnd b s), None)"
| "perform e (Device_commit now rnd c) s =
     won (Device (dv_deviceCodeHash (dc_entry c))) (device_commit e now rnd c s)"
| "perform e (Consent_page now nonce rq) s = (fst (consent_get e now nonce rq s), None)"
| "perform e (Consent_checks now rq) s = (fst (consent_checks e now rq s), None)"
| "perform e (Consent_commit now rnd r subject d) s =
     (let s' = fst (consent_commit e now rnd r subject d s) in
      (s', if consent_rows s' = consent_rows s then None else Some (Request (ar_handle r))))"
| "perform e (Authorize_request pv now fr rq) s = (fst (authorize e pv now fr rq s), None)"
| "perform e (Device_start now rnd bytes rq) s = (fst (device_code_endpoint e now rnd bytes rq s), None)"
| "perform e (Device_entry pv now fr rq raw) s = (fst (startDeviceConsent e pv now fr rq raw s), None)"
| "perform e (Login now lr rq) s = (fst (login_post e now lr rq s), None)"
| "perform e (Callback_claim now rq st) s =
     (case callback_claim e now rq st s of
        (s', out) \<Rightarrow> (s', map_option (\<lambda>(r, x). Signin (ar_handle r) (ce_state x)) out))"
| "perform e (Callback_finish now i r ans) s = (fst (callback_finish e now i r ans s), None)"
| "perform e (Grants_list_page pv now fr nonce rq) s = (fst (grants_get e pv now fr nonce rq s), None)"
| "perform e (Grant_revoke now rq g) s = (fst (revoke_post e now rq g s), None)"
| "perform e (Token_revoke now req) s = (fst (oauth_revoke e now req s), None)"
| "perform e (Logout now rq) s = (fst (logout_post e now rq s), None)"
| "perform e (Setup now lr rnd rq) s = (fst (setup_post e now lr rnd rq s), None)"
| "perform e (Password now lr salt rq) s = (fst (password_post e now lr salt rq s), None)"
| "perform e (Cleanup now) s = (pruneExpiredRows now s, None)"
| "perform e (Admin_view pv now rnd rq path g) s = (fst (admin_page e pv now rnd rq path g s), None)"
| "perform e (Admin_reauth pv now fr rq) s = (fst (reauth_get e pv now fr rq s), None)"
| "perform e (Admin_change pv msg now rnd rq p) s = (fst (admin_post_route e pv msg now rnd rq p s), None)"
| "perform e (Refresh_job msg now) s = (fst (refreshDueResourceServers e msg now s), None)"
| "perform e Reload_registry s = (loadRegistry s, None)"
| "perform e (Server_command msg f now i argv) s = (fst (resource_server_main e msg f now i argv s), None)"
| "perform e (User_command rnd f created tty lines now argv) s =
     (fst (local_user_main e rnd f created tty lines now argv s), None)"
| "perform e (Deny_command f created now argv) s = (fst (deny_client_main e f created now argv s), None)"
| "perform e (Rotate_command now g argv) s = (fst (rotate_main now g argv s), None)"

lemma fst_eq_iff_ex: "fst p = s' \<longleftrightarrow> (\<exists>r. p = (s', r))"
  by (cases p) auto

lemma won_iff: "won k p = (s', l) \<longleftrightarrow> (\<exists>r. p = (s', r) \<and> l = (if granted r then Some k else None))"
  by (cases p) (auto simp: won_def)

lemma perform_revives:
  assumes "perform e ev s = (s', l)" shows "revives_only (news e ev) s s'"
  using assms
  by (cases ev)
    (auto simp: won_iff fst_eq_iff_ex Let_def split: prod.splits
      intro: code_checks_revives code_commit_revives refresh_checks_revives refresh_commit_revives
        device_checks_revives device_commit_revives consent_get_revives revives_same
        consent_checks_flow_tables consent_commit_revives authorize_revives device_code_endpoint_revives
        device_entry_revives login_post_revives callback_claim_revives callback_finish_revives
        grants_get_revives revoke_post_revives oauth_revoke_revives logout_flow_tables
        setup_post_flow_tables password_post_flow_tables prune_revives admin_page_revives
        reauth_get_revives admin_post_revives refreshDue_revives quiet_writes resource_server_main_revives
        local_user_main_revives deny_client_main_revives rotate_main_quiet)

lemma perform_wins:
  assumes "perform e ev s = (s', Some k)" and "device_keys s"
  shows "live s k \<and> \<not> live s' k"
proof (cases ev)
  case (Consent_commit now rnd r subject d)
  obtain rep where c: "consent_commit e now rnd r subject d s = (fst (consent_commit e now rnd r subject d s), rep)"
    by (metis prod.collapse)
  from Consent_commit assms have k: "k = Request (ar_handle r)"
    and s': "s' = fst (consent_commit e now rnd r subject d s)" and "consent_rows s' \<noteq> consent_rows s"
    by (auto simp: Let_def split: if_splits)
  with consent_commit_consumed [OF c] have "consumed_by (ar_handle r) (e_sha256 e (r_token rnd)) s s'" by auto
  then show ?thesis unfolding k by (blast dest: consumed_by_spends)
next
  case (Code_commit now rnd c)
  with assms show ?thesis by (auto simp: won_iff split: if_splits dest: code_commit_wins)
next
  case (Refresh_commit now rnd c)
  with assms show ?thesis by (auto simp: won_iff split: if_splits dest: refresh_commit_wins)
next
  case (Device_commit now rnd c)
  with assms show ?thesis by (auto simp: won_iff split: if_splits dest: device_commit_wins)
next
  case (Callback_claim now rq st)
  with assms show ?thesis by (auto split: prod.splits dest: callback_claim_wins)
qed (use assms in simp_all)

section \<open>Runs\<close>

text \<open>The state of the proxy and the credentials drawn so far.  Random values do not repeat: an event
  draws only what was not drawn before.  The operations that are no events (the caches, the limiters, the
  counters, the notification listener) do not touch the four tables; the rule \<open>other\<close> allows any change
  of the rest of the state between two events.\<close>

type_synonym world = "admin_state \<times> credential set"

inductive world_step :: "env \<Rightarrow> world \<Rightarrow> credential option \<Rightarrow> world \<Rightarrow> bool" for e :: env where
  event: "perform e ev s = (s', l) \<Longrightarrow> news e ev \<inter> drawn = {} \<Longrightarrow>
            world_step e (s, drawn) l (s', drawn \<union> news e ev)"
| other: "flow_tables s' = flow_tables s \<Longrightarrow> world_step e (s, drawn) None (s', drawn)"

inductive_cases world_stepE: "world_step e w l w'"

definition world_ok :: "world \<Rightarrow> bool" where
  "world_ok w \<longleftrightarrow> device_keys (fst w) \<and> (\<forall>k. live (fst w) k \<longrightarrow> k \<in> snd w)"

definition spent :: "credential \<Rightarrow> world \<Rightarrow> bool" where
  "spent k w \<longleftrightarrow> k \<in> snd w \<and> \<not> live (fst w) k"

lemma world_ok_step: "world_ok w \<Longrightarrow> world_step e w l w' \<Longrightarrow> world_ok w'"
proof (erule world_stepE)
  fix ev s s' l' drawn
  assume ok: "world_ok w" and w: "w = (s, drawn)" "w' = (s', drawn \<union> news e ev)"
    and p: "perform e ev s = (s', l')"
  from perform_revives [OF p] ok w show "world_ok w'"
    by (auto simp: world_ok_def revives_only_def)
next
  fix s s' :: admin_state and drawn :: "credential set"
  assume "world_ok w" "w = (s, drawn)" "w' = (s', drawn)" and f: "flow_tables s' = flow_tables s"
  then show "world_ok w'"
    using live_flow_tables [OF f] device_keys_flow_tables [OF f] by (simp add: world_ok_def)
qed

lemma world_spent_step:
  assumes "world_step e w l w'" and "spent k w" shows "spent k w'"
  using assms(1)
proof cases
  case (event ev s s' drawn)
  with assms(2) have "k \<in> drawn" "\<not> live s k" by (simp_all add: spent_def)
  with event(4) revives_onlyD [OF perform_revives [OF event(3)], of k] event(2) show ?thesis
    by (auto simp: spent_def)
next
  case (other s' s drawn)
  with assms(2) show ?thesis by (simp add: spent_def live_flow_tables [OF other(4)])
qed

lemma world_win:
  assumes "world_step e w (Some k) w'" and "world_ok w" shows "\<not> spent k w \<and> spent k w'"
  using assms(1)
proof cases
  case (event ev s s' drawn)
  with assms(2) perform_wins [OF event(3)] show ?thesis by (auto simp: world_ok_def spent_def)
qed

interpretation flow: single_use "world_step e" spent world_ok for e
  by unfold_locales (auto intro: world_ok_step world_spent_step dest: world_win)

definition fresh_world :: "world \<Rightarrow> bool" where
  "fresh_world w \<longleftrightarrow> flow_tables (fst w) = ([], [], [], [])"

lemma fresh_world_ok: "fresh_world w \<Longrightarrow> world_ok w"
proof -
  assume "fresh_world w"
  then have "\<not> live (fst w) k" for k by (cases k) (simp_all add: fresh_world_def flow_tables_def)
  with \<open>fresh_world w\<close> show ?thesis by (simp add: world_ok_def fresh_world_def flow_tables_def)
qed

interpretation reach: transition_system fresh_world "\<lambda>w w'. \<exists>l. world_step e w l w'" world_ok for e
  by unfold_locales (auto intro: world_ok_step fresh_world_ok)

text \<open>The run of a list of labels.\<close>

inductive world_run :: "env \<Rightarrow> world \<Rightarrow> credential option list \<Rightarrow> world \<Rightarrow> bool" for e :: env where
  run_start: "world_run e w [] w"
| run_event: "world_run e w ls w' \<Longrightarrow> world_step e w' l w'' \<Longrightarrow> world_run e w (ls @ [l]) w''"

lemma world_run_flow: "world_run e w ls w' \<Longrightarrow> flow.run e w ls w'"
  by (induction rule: world_run.induct) (auto intro: flow.run.intros)

lemma world_run_spent: "world_run e w ls w' \<Longrightarrow> spent k w \<Longrightarrow> spent k w'"
  by (induction rule: world_run.induct) (auto intro: world_spent_step)

section \<open>Properties\<close>

definition sample_proxy :: admin_state where
  "sample_proxy = proxy_state.extend (upstream_state.extend sample_state (proxy_state.fields [] [] [] []))
     (admin_state.fields [] [])"

definition sample_drawn :: "credential set" where
  "sample_drawn = {k. live sample_proxy k}"

text \<open>The claim the checks of the sample code leave behind.\<close>

definition sample_claim :: code_claim where
  "sample_claim = (case code_checks sample_env 1000 sample_rand code_body sample_proxy of
     (_, Inr c) \<Rightarrow> c | _ \<Rightarrow> undefined)"

lemma sample_world_ok: "world_ok (sample_proxy, sample_drawn)"
proof -
  have "device_keys sample_proxy" by code_simp
  then show ?thesis by (simp add: world_ok_def sample_drawn_def)
qed

text \<open>C8: However the handlers interleave, those of the administrators, the operator's commands and the
  refresh job included, every authorization code, refresh token, device code,
  authorization request and upstream sign-in is redeemed at most once.  A redemption is a token
  response for the first three, a change of codes, grants or device codes by a consent submission, and
  a code exchange for a sign-in.  Commits may be based on checks made in any earlier state, and any
  number of them may carry the same credential; the only assumption is that random values do not
  repeat.\<close>

theorem redeemed_at_most_once:
  assumes "world_ok w" and "world_run e w ls w'"
  shows "length (filter (\<lambda>l. l = Some k) ls) \<le> 1"
  using flow.at_most_one_win [OF world_run_flow [OF assms(2)] assms(1)] .

text \<open>Two commits race on one code: the first gets tokens, the second does not.\<close>

lemma redeemed_at_most_once_sample:
  "let k = Some (Code ''hcode'') in
   \<exists>w'. world_run sample_env (sample_proxy, sample_drawn) [k, None] w' \<and>
        length (filter (\<lambda>l. l = k) [k, None]) \<le> 1"
proof -
  let ?e1 = "Code_commit 1000 sample_rand sample_claim"
  let ?e2 = "Code_commit 1000 (sample_rand\<lparr>r_token := ''other''\<rparr>) sample_claim"
  let ?s1 = "fst (perform sample_env ?e1 sample_proxy)"
  let ?s2 = "fst (perform sample_env ?e2 ?s1)"
  have p1: "perform sample_env ?e1 sample_proxy = (?s1, Some (Code ''hcode''))"
    by (rule prod_eqI) (simp only: fst_conv, code_simp)
  have p2: "perform sample_env ?e2 ?s1 = (?s2, None)"
    by (rule prod_eqI) (simp only: fst_conv, code_simp)
  have n1: "\<not> live sample_proxy (Refresh (e_sha256 sample_env (r_token sample_rand)))" by code_simp
  have n2: "\<not> live sample_proxy (Refresh (e_sha256 sample_env ''other''))" by code_simp
  have ne: "e_sha256 sample_env ''other'' \<noteq> e_sha256 sample_env (r_token sample_rand)" by code_simp
  have w1: "world_step sample_env (sample_proxy, sample_drawn) (Some (Code ''hcode''))
      (?s1, sample_drawn \<union> news sample_env ?e1)"
    by (rule world_step.event [OF p1]) (use n1 in \<open>simp add: sample_drawn_def\<close>)
  have w2: "world_step sample_env (?s1, sample_drawn \<union> news sample_env ?e1) None
      (?s2, sample_drawn \<union> news sample_env ?e1 \<union> news sample_env ?e2)"
    by (rule world_step.event [OF p2]) (use n2 ne in \<open>simp add: sample_drawn_def\<close>)
  from run_event [OF run_event [OF run_start w1] w2]
  have r: "world_run sample_env (sample_proxy, sample_drawn) [Some (Code ''hcode''), None]
      (?s2, sample_drawn \<union> news sample_env ?e1 \<union> news sample_env ?e2)" by simp
  from r redeemed_at_most_once [OF sample_world_ok r, of "Code ''hcode''"]
  show ?thesis by (auto simp: Let_def)
qed

text \<open>C9: The proxy accepts only what it drew: starting from empty flow tables, in every state reached by
  any sequence of the events (of clients, browsers, administrators, the operator and the jobs),
  each live credential is one that some event drew at random, and the hashes of device codes are
  pairwise distinct.\<close>

theorem live_credentials_were_drawn:
  assumes "fresh_world w" and "(\<lambda>a b. \<exists>l. world_step e a l b)\<^sup>*\<^sup>* w w'"
  shows "(live (fst w') k \<longrightarrow> k \<in> snd w') \<and> device_keys (fst w')"
  using reach.inv_reachable [OF assms] by (simp add: world_ok_def)

text \<open>A visit to /grants without a session, in an empty world.\<close>

definition empty_proxy :: admin_state where
  "empty_proxy = sample_proxy\<lparr>authCodes := [], refreshTokens := [], deviceCodes := [], authRequests := []\<rparr>"

definition visit :: request where
  "visit = \<lparr>q_body = None, q_query = [], q_signed = [], q_ip = Some ''192.0.2.7''\<rparr>"

definition visit_rand :: flow_rand where
  "visit_rand = \<lparr>fr_handle = ''handle'', fr_state = ''st'', fr_nonce = ''n'', fr_verifier = ''v''\<rparr>"

lemma visit_creates:
  "perform sample_env (Grants_list_page sample_provider 1000 visit_rand ''csrf'' visit) empty_proxy =
     (empty_proxy
        \<lparr>rowWindows := [(ipRateLimitKey (q_ip visit), \<lparr>w_count = 1, w_start = 1000\<rparr>)],
         authRequests := [self_login_row 1000 ''handle'' ''/grants'' False]\<rparr>, None)"
proof -
  have e: "rowWindows empty_proxy = []" "authRequests empty_proxy = []"
    by (simp_all add: empty_proxy_def sample_proxy_def sample_state_def admin_state.defs proxy_state.defs upstream_state.defs)
  have n: "truthy (getSessionUserId sample_env 1000 visit empty_proxy) = None" by code_simp
  have w: "rowCreationRetryAfter 1000 visit empty_proxy =
      (empty_proxy\<lparr>rowWindows := [(ipRateLimitKey (q_ip visit), \<lparr>w_count = 1, w_start = 1000\<rparr>)]\<rparr>, 0)"
    by (simp add: rowCreationRetryAfter_def ip_hit_def limiter_hit_def open_window_def evict_one_def
        rowCreationLimiter_def jm_reinsert_def jm_has_def e)
  have l: "e_enableLocalAccounts sample_env" "\<not> e_enableOidc sample_env" by (simp_all add: sample_env_def)
  have c: "createSelfLoginRequest sample_env 1000 ''handle'' ''/grants'' False visit
      (empty_proxy\<lparr>rowWindows := ws\<rparr>) =
    Some (empty_proxy\<lparr>rowWindows := ws, authRequests := [self_login_row 1000 ''handle'' ''/grants'' False]\<rparr>,
          bindFlow sample_env visit ''handle'')" for ws
    by (simp add: createSelfLoginRequest_def create_row_def e)
  show ?thesis
    by (simp add: grants_get_def grants_session_def n w c dispatch_sign_in_def l visit_rand_def)
qed

lemma live_credentials_were_drawn_sample:
  "\<exists>w'. (\<lambda>a b. \<exists>l. world_step sample_env a l b)\<^sup>*\<^sup>* (empty_proxy, {}) w' \<and>
        live (fst w') (Request ''handle'') \<and> Request ''handle'' \<in> snd w'"
proof -
  let ?e = "Grants_list_page sample_provider 1000 visit_rand ''csrf'' visit"
  obtain s l where p: "perform sample_env ?e empty_proxy = (s, l)" by fastforce
  then have live: "live (fst (s, {} \<union> news sample_env ?e)) (Request ''handle'')"
    unfolding visit_creates by (auto simp: self_login_row_def)
  have f: "fresh_world (empty_proxy, {})" by (simp add: fresh_world_def empty_proxy_def flow_tables_def)
  have "\<exists>l. world_step sample_env (empty_proxy, {}) l (s, {} \<union> news sample_env ?e)"
    by (rule exI, rule world_step.event [OF p]) (rule Int_empty_right)
  then have r: "(\<lambda>a b. \<exists>l. world_step sample_env a l b)\<^sup>*\<^sup>* (empty_proxy, {}) (s, {} \<union> news sample_env ?e)"
    by (rule r_into_rtranclp)
  with live live_credentials_were_drawn [OF f r, of "Request ''handle''"] show ?thesis by blast
qed

end
