(* ===== verification/NetProps.thy ===== *)
theory NetProps
  imports TokenFacts Sample
begin

text \<open>
  Properties of the network side: the outbound fetcher and its block list, the limiters, the clients
  and their assertions.
\<close>

section \<open>The fetcher\<close>

text \<open>C10: Whatever DNS answers on each hop, whatever the peers send and however often they redirect,
  every request the fetcher sends goes to an https address outside the special-use ranges (unless the
  caller allows private networks) on an allowed port, or, when insecure http is enabled, to a loopback
  address; the address checked is the one the socket is pinned to.  There is at most one request per
  allowed redirect and one more, and the slot taken in the pool is given back on every outcome.\<close>

theorem fetch_stays_outside:
  assumes "safeFetchJson n opts now u s = (s', r)"
  shows "(\<exists>reqs. sent s' = sent s @ reqs \<and> length reqs \<le> Suc (fo_maxRedirects opts) \<and>
    (\<forall>(v, a) \<in> set reqs.
       url_protocol v = ''https:'' \<and> (fo_allowPrivateNetwork opts \<or> \<not> isBlockedAddress a) \<and>
         checkPort v (fo_allowedPorts opts) \<or>
       url_protocol v = ''http:'' \<and> net_allowInsecure n \<and> isLoopbackAddress a)) \<and>
    inFlight s' = inFlight s"
  using safeFetchJson_sent [OF assms] safeFetchJson_inFlight [OF assms] unfolding hop_ok_def by blast

text \<open>A public host that redirects to a name that resolves to 127.0.0.1: one request leaves, the second
  is blocked.\<close>

definition rebind_net :: net where
  "rebind_net = sample_net
     \<lparr>net_dns := (\<lambda>hop h. Dns_records [V4 (if hop = 0 then 0x08080808 else 0x7F000001)]),
      net_http := (\<lambda>_ _ _. Wire \<lparr>wr_status = 302, wr_headers = [(''location'', ''/cb'')], wr_contentLength = None,
                                 wr_chunks = [], wr_broken = False\<rparr>),
      net_resolve_url := (\<lambda>_ _. Some ''https://a.example/cb'')\<rparr>"

definition two_hops :: fetch_options where
  "two_hops = \<lparr>fo_maxBytes = 10, fo_maxRedirects = 2, fo_allowPrivateNetwork = False,
               fo_allowedPorts = Some [443], fo_pool = Pool_cimd\<rparr>"

lemma fetch_stays_outside_sample:
  "snd (safeFetchJson rebind_net two_hops 0 ''https://a.example/c'' sample_fetcher) = Inl Blocked_address \<and>
   map snd (sent (fst (safeFetchJson rebind_net two_hops 0 ''https://a.example/c'' sample_fetcher))) = [V4 0x08080808] \<and>
   inFlight (fst (safeFetchJson rebind_net two_hops 0 ''https://a.example/c'' sample_fetcher)) = inFlight sample_fetcher"
proof (intro conjI)
  show "snd (safeFetchJson rebind_net two_hops 0 ''https://a.example/c'' sample_fetcher) = Inl Blocked_address"
    by code_simp
  show "map snd (sent (fst (safeFetchJson rebind_net two_hops 0 ''https://a.example/c'' sample_fetcher))) = [V4 0x08080808]"
    by code_simp
  show "inFlight (fst (safeFetchJson rebind_net two_hops 0 ''https://a.example/c'' sample_fetcher)) = inFlight sample_fetcher"
    by (rule fetch_stays_outside [OF prod.collapse [symmetric], THEN conjunct2])
qed

text \<open>A peer that redirects every request it gets.\<close>

definition always_redirects :: "net \<Rightarrow> fetch_options \<Rightarrow> bool" where
  "always_redirects n opts \<longleftrightarrow>
     (\<forall>hop v a. \<exists>st h b loc. performRequest (fo_maxBytes opts) (net_http n hop v a) = Inr (st, h, b) \<and>
        redirect_location st h = Some loc)"

lemma validate_hop_not_too_many: "validate_hop n opts now hop u s \<noteq> (s1, Inl Too_many_redirects)"
  by (auto simp: validate_hop_def parseAndValidateScheme_def resolveAndValidate_def
      split: option.splits sum.splits dns_result.splits list.splits if_splits prod.splits bool.splits)

lemma fetch_loop_ends:
  assumes "fetch_loop n opts now hop cu s = (s', r)" and "always_redirects n opts" and "hop \<le> fo_maxRedirects opts"
  shows "\<exists>reqs er. sent s' = sent s @ reqs \<and> r = Inl er \<and> length reqs + hop \<le> Suc (fo_maxRedirects opts) \<and>
    (er = Too_many_redirects \<longleftrightarrow> length reqs + hop = Suc (fo_maxRedirects opts))"
  using assms
proof (induction n opts now hop cu s arbitrary: s' r rule: fetch_loop.induct)
  case (1 n opts now hop cu s)
  note step = fetch_loop.simps [of n opts now hop cu s]
  obtain s1 v where v: "validate_hop n opts now hop cu s = (s1, v)" by fastforce
  show ?case
  proof (cases v)
    case (Inl er)
    with v validate_hop_not_too_many have "er \<noteq> Too_many_redirects" by fastforce
    moreover have "sent s' = sent s @ []" "r = Inl er"
      using "1.prems"(1) v Inl validate_hop_InlD [of n opts now hop cu s s1 er] by (auto simp: step)
    ultimately show ?thesis using "1.prems"(3) by (intro exI [of _ "[]"] exI [of _ er]) auto
  next
    case (Inr ua)
    then obtain w a where v': "validate_hop n opts now hop cu s = (s1, Inr (w, a))"
      using v by (cases ua) auto
    let ?s2 = "s1\<lparr>sent := sent s1 @ [(w, a)]\<rparr>"
    from v' have sent1: "sent s1 = sent s" by (rule validate_hop_InrD)
    obtain st h b loc where p: "performRequest (fo_maxBytes opts) (net_http n hop w a) = Inr (st, h, b)"
      and l: "redirect_location st h = Some loc"
      using "1.prems"(2) unfolding always_redirects_def by blast
    consider (last) "fo_maxRedirects opts \<le> hop" | (lost) "\<not> fo_maxRedirects opts \<le> hop" "net_resolve_url n loc w = None"
      | (on) nx where "\<not> fo_maxRedirects opts \<le> hop" "net_resolve_url n loc w = Some nx"
      by fastforce
    then show ?thesis
    proof cases
      case last
      with "1.prems" v' p l sent1 show ?thesis by (intro exI [of _ "[(w, a)]"]) (auto simp: step)
    next
      case lost
      with "1.prems" v' p l sent1 show ?thesis by (intro exI [of _ "[(w, a)]"]) (auto simp: step)
    next
      case on
      from "1.prems"(1) v' p l on have rec: "fetch_loop n opts now (Suc hop) nx ?s2 = (s', r)" by (simp add: step)
      from on have "Suc hop \<le> fo_maxRedirects opts" by simp
      from "1.IH" [OF v' [symmetric] refl refl refl p refl refl l on rec "1.prems"(2) this]
      obtain reqs er where "sent s' = sent ?s2 @ reqs" "r = Inl er"
        "length reqs + Suc hop \<le> Suc (fo_maxRedirects opts)"
        "er = Too_many_redirects \<longleftrightarrow> length reqs + Suc hop = Suc (fo_maxRedirects opts)" by blast
      with sent1 show ?thesis by (intro exI [of _ "(w, a) # reqs"] exI [of _ er]) auto
    qed
  qed
qed

text \<open>C39: The fetcher ends even on an endless chain of redirects.  When the peer answers every request with
  another redirect, a fetch still returns, with a rejection and never with a document, after at most one request
  more than the redirects allowed; it gives up as \<^verbatim>\<open>too_many_redirects\<close> exactly when it has sent them
  all, and otherwise stopped earlier at a check.\<close>

theorem endless_redirects_end:
  assumes "always_redirects n opts" and "safeFetchJson n opts now u s = (s', r)"
  shows "\<exists>reqs er. sent s' = sent s @ reqs \<and> r = Inl er \<and> length reqs \<le> Suc (fo_maxRedirects opts) \<and>
    (er = Too_many_redirects \<longleftrightarrow> length reqs = Suc (fo_maxRedirects opts))"
proof (cases "fetch_enter (fo_pool opts) s")
  case None
  with assms(2) show ?thesis by (auto simp: safeFetchJson_def)
next
  case (Some s1)
  obtain s2 r2 where l: "fetch_loop n opts now 0 u s1 = (s2, r2)" by fastforce
  from Some have "sent s1 = sent s" by (auto simp: fetch_enter_def split: if_splits)
  moreover have "sent s' = sent s2" "r = r2" using assms(2) Some l by (auto simp: safeFetchJson_def fetch_leave_def)
  ultimately show ?thesis using fetch_loop_ends [OF l assms(1)] by simp
qed

text \<open>A public host that redirects to itself for ever.\<close>

definition circle_net :: net where
  "circle_net = rebind_net\<lparr>net_dns := (\<lambda>_ _. Dns_records [V4 0x08080808])\<rparr>"

lemma endless_redirects_end_sample:
  "always_redirects circle_net two_hops \<and>
   (\<exists>reqs er. sent (fst (safeFetchJson circle_net two_hops 0 ''https://a.example/c'' sample_fetcher)) =
        sent sample_fetcher @ reqs \<and> length reqs \<le> Suc (fo_maxRedirects two_hops) \<and> er = Too_many_redirects \<and>
      snd (safeFetchJson circle_net two_hops 0 ''https://a.example/c'' sample_fetcher) = Inl er)"
proof
  show r: "always_redirects circle_net two_hops"
    by (simp add: always_redirects_def circle_net_def rebind_net_def two_hops_def performRequest_def
        redirect_location_def)
  have "snd (safeFetchJson circle_net two_hops 0 ''https://a.example/c'' sample_fetcher) = Inl Too_many_redirects"
    by code_simp
  with endless_redirects_end [OF r prod.collapse [symmetric], of 0 "''https://a.example/c''" sample_fetcher]
  show "\<exists>reqs er. sent (fst (safeFetchJson circle_net two_hops 0 ''https://a.example/c'' sample_fetcher)) =
        sent sample_fetcher @ reqs \<and> length reqs \<le> Suc (fo_maxRedirects two_hops) \<and> er = Too_many_redirects \<and>
      snd (safeFetchJson circle_net two_hops 0 ''https://a.example/c'' sample_fetcher) = Inl er"
    by auto
qed

section \<open>The block list\<close>

text \<open>The reference: dotted quads and the ranges of the special-purpose registry, first and last address.\<close>

definition quad :: "int \<Rightarrow> int \<Rightarrow> int \<Rightarrow> int \<Rightarrow> int" where
  "quad a b c d = ((a * 256 + b) * 256 + c) * 256 + d"

definition special_ranges :: "(int \<times> int) list" where
  "special_ranges =
     [(quad 0 0 0 0, quad 0 255 255 255), (quad 10 0 0 0, quad 10 255 255 255),
      (quad 100 64 0 0, quad 100 127 255 255), (quad 127 0 0 0, quad 127 255 255 255),
      (quad 169 254 0 0, quad 169 254 255 255), (quad 172 16 0 0, quad 172 31 255 255),
      (quad 192 0 0 0, quad 192 0 0 255), (quad 192 0 2 0, quad 192 0 2 255),
      (quad 192 88 99 0, quad 192 88 99 255), (quad 192 168 0 0, quad 192 168 255 255),
      (quad 198 18 0 0, quad 198 19 255 255), (quad 198 51 100 0, quad 198 51 100 255),
      (quad 203 0 113 0, quad 203 0 113 255), (quad 224 0 0 0, quad 239 255 255 255),
      (quad 240 0 0 0, quad 255 255 255 255)]"

definition subnet_range :: "subnet4 \<Rightarrow> int \<times> int" where
  "subnet_range n =
     (let d = 2 ^ (32 - snd n); lo = d * (uint (fst n) div d) in (lo, lo + d - 1))"

lemma in_subnet4_closed: "in_subnet4 a n \<longleftrightarrow> (case subnet_range n of (lo, hi) \<Rightarrow> lo \<le> uint a \<and> uint a \<le> hi)"
  by (cases n) (auto simp: in_subnet4_range div_eq_interval subnet_range_def Let_def)

text \<open>C11: An IPv4 address is blocked exactly when it lies in one of the special-purpose ranges
  (this network, private use, shared, loopback, link-local with the cloud metadata address,
  documentation, benchmarking, multicast and reserved), and an IPv4 address written as a mapped IPv6
  address is always blocked.\<close>

theorem blocked_iff_special:
  "(isBlockedAddress (V4 a) \<longleftrightarrow> list_ex (\<lambda>(lo, hi). lo \<le> uint a \<and> uint a \<le> hi) special_ranges) \<and>
   isBlockedAddress (V6 (map_to_v6 a))"
proof -
  have "map subnet_range SPECIAL_USE_IPV4 = special_ranges"
    by (simp add: SPECIAL_USE_IPV4_def special_ranges_def quad_def subnet_range_def)
  then have "list_ex (\<lambda>(lo, hi). lo \<le> uint a \<and> uint a \<le> hi) special_ranges \<longleftrightarrow>
      list_ex (\<lambda>(lo, hi). lo \<le> uint a \<and> uint a \<le> hi) (map subnet_range SPECIAL_USE_IPV4)" by simp
  also have "\<dots> \<longleftrightarrow> list_ex (in_subnet4 a) SPECIAL_USE_IPV4"
    by (simp add: list_ex_iff in_subnet4_closed)
  finally have "list_ex (in_subnet4 a) SPECIAL_USE_IPV4 \<longleftrightarrow>
      list_ex (\<lambda>(lo, hi). lo \<le> uint a \<and> uint a \<le> hi) special_ranges" ..
  then show ?thesis by (simp only: isBlocked_V4 isBlocked_V6_mapped simp_thms)
qed

section \<open>Limiters\<close>

text \<open>From an empty table, however an address spreads its requests and whatever other addresses do,
  at most 60 row-creating requests of one rate-limit key are let through in any interval of one minute
  (twice the limit of 30: a window may end and the next begin inside it), as long as no more than
  50000 keys are tracked.\<close>

theorem row_creation_rate:
  fixes k :: string
  assumes "finite K" and "card K \<le> 50000" and "k \<in> K" and "\<Union> (event_keys ` set es) \<subseteq> K"
    and "sorted (map event_time es)"
  shows "row_limiter.counted k a (row_limiter.allowed es []) \<le> 60"
proof -
  have "limiter_room rowCreationLimiter K []" "limiter_win [] k = None"
    using assms(1,2) by (simp_all add: limiter_room_def rowCreationLimiter_def limiter_win_def)
  from row_limiter.at_most_twice_the_limit [OF this assms(3,4,5), of a] show ?thesis
    by (simp add: rowCreationLimiter_def)
qed

lemma row_limits: "l_max rowCreationLimiter = 30" "l_windowMs rowCreationLimiter = 60000"
  "l_maxEntries rowCreationLimiter = 50000"
  by (simp_all add: rowCreationLimiter_def)

lemma row_creation_rate_sample:
  "row_limiter.allowed [Hit ''a'' 0, Hit ''b'' 1, Hit ''a'' 2] [] = [(''a'', 0), (''b'', 1), (''a'', 2)] \<and>
   row_limiter.counted ''a'' 0 (row_limiter.allowed [Hit ''a'' 0, Hit ''b'' 1, Hit ''a'' 2] []) \<le> 60"
proof
  show "row_limiter.allowed [Hit ''a'' 0, Hit ''b'' 1, Hit ''a'' 2] [] = [(''a'', 0), (''b'', 1), (''a'', 2)]"
    by (simp add: limiter_allows_def limiter_hit_def open_window_def evict_one_def row_limits
        jm_reinsert_def jm_has_def)
  show "row_limiter.counted ''a'' 0 (row_limiter.allowed [Hit ''a'' 0, Hit ''b'' 1, Hit ''a'' 2] []) \<le> 60"
    by (rule row_creation_rate [of "{''a'', ''b''}"]) auto
qed

section \<open>Client assertions\<close>

text \<open>What jose documents of \<^verbatim>\<open>jwtVerify\<close>: the payload it returns is the one of the token, and a token is
  accepted only while its \<^verbatim>\<open>exp\<close>, a number when it is present, lies after the clock in whole seconds less
  the tolerance.\<close>

definition jose_documented :: "env \<Rightarrow> (string \<Rightarrow> json) \<Rightarrow> bool" where
  "jose_documented e payload \<longleftrightarrow>
     (\<forall>ex keys t a p. e_jwt_verify e ex keys t a = Inr p \<longrightarrow>
        p = payload a \<and>
        (\<forall>xp. member p ''exp'' = Some (JNum xp) \<longrightarrow> of_int (epoch_s t - je_clockTolerance ex) < xp))"

lemma jose_documentedD:
  assumes "jose_documented e payload" and "e_jwt_verify e ex keys t a = Inr p"
  shows "p = payload a"
    and "member p ''exp'' = Some (JNum xp) \<Longrightarrow> of_int (epoch_s t - je_clockTolerance ex) < xp"
  using assms unfolding jose_documented_def by blast+

text \<open>For an \<^verbatim>\<open>exp\<close> in whole seconds, the entry outlives the token.\<close>

lemma whole_seconds:
  fixes t n :: int
  shows "t div 1000 - 60 < n \<longleftrightarrow> t < n * 1000 + 60 * 1000"
proof -
  have "t = t div 1000 * 1000 + t mod 1000" "0 \<le> t mod 1000" "t mod 1000 < 1000" by simp_all
  then show ?thesis by linarith
qed

lemma check_payload_InrD:
  "check_payload now p = Inr (jti, xp) \<Longrightarrow> member p ''jti'' = Some (JStr jti) \<and> member p ''exp'' = Some (JNum xp)"
  by (auto simp: check_payload_def split: option.splits json.splits if_splits)

lemma verify_accepted:
  assumes "verifyClientAssertion e t cid u a s = (s', None)"
  obtains keys p jti xp where "e_jwt_verify e (assertion_expect e cid) keys t a = Inr p"
    "check_payload t p = Inr (jti, xp)"
    "record_jti t (jtiKey e cid jti) xp (seenJti s) = (seenJti s', None)"
  using verify_seenJti(2) [OF assms] by auto

text \<open>C12: A client assertion works once.  After \<^verbatim>\<open>private_key_jwt\<close> authentication with an assertion whose
  \<^verbatim>\<open>exp\<close> is a whole number of seconds, no later verification for that client of that assertion, or of
  any other with the same \<^verbatim>\<open>jti\<close> and \<^verbatim>\<open>exp\<close>, succeeds, whatever verifications and sweeps happen in
  between and however full the store is; the store never holds more than 50000 entries.\<close>

theorem assertion_works_once:
  assumes "jose_documented e payload" and "jti_store_ok s"
    and "verifyClientAssertion e t cid u a s = (s1, None)"
    and "member (payload a) ''exp'' = Some (JNum (of_int n))"
    and "member (payload b) ''jti'' = member (payload a) ''jti''"
    and "member (payload b) ''exp'' = member (payload a) ''exp''"
    and "\<forall>ev \<in> set es. jti_event_time ev \<le> t'"
  shows "snd (verifyClientAssertion e t' cid u' b (jti_run e es s1)) \<noteq> None \<and>
    length (seenJti (jti_run e es s1)) \<le> 50000"
proof -
  obtain keys p jti xp where v: "e_jwt_verify e (assertion_expect e cid) keys t a = Inr p"
    "check_payload t p = Inr (jti, xp)"
    "record_jti t (jtiKey e cid jti) xp (seenJti s) = (seenJti s1, None)"
    using verify_accepted [OF assms(3)] .
  from v(1) assms(1) have p: "p = payload a" by (auto simp: jose_documented_def)
  with check_payload_InrD [OF v(2)] assms(4) have xp: "xp = of_int n"
    and jti: "member (payload a) ''jti'' = Some (JStr jti)" by auto
  have ok: "jti_store_ok s1"
    using jti_step_ok [OF assms(2), of e "Jti_verify t cid u a"] assms(3) by simp
  from jti_run_ok [OF ok, of e es] have bound: "length (seenJti (jti_run e es s1)) \<le> 50000"
    by (simp add: jti_store_ok_def MAX_SEEN_JTI_def)
  have held: "jm_get (seenJti s1) (jtiKey e cid jti) = Some (of_int (n * 1000 + 60 * 1000))"
    using record_jti_ok [OF v(3)] xp by (simp add: CLOCK_SKEW_S_def)
  have "snd (verifyClientAssertion e t' cid u' b (jti_run e es s1)) \<noteq> None"
  proof
    assume "snd (verifyClientAssertion e t' cid u' b (jti_run e es s1)) = None"
    then obtain s2 where r: "verifyClientAssertion e t' cid u' b (jti_run e es s1) = (s2, None)"
      by (metis prod.collapse)
    obtain keys' p' jti' xp' where v': "e_jwt_verify e (assertion_expect e cid) keys' t' b = Inr p'"
      "check_payload t' p' = Inr (jti', xp')"
      "record_jti t' (jtiKey e cid jti') xp' (seenJti (jti_run e es s1)) = (seenJti s2, None)"
      using verify_accepted [OF r] .
    note p' = jose_documentedD(1) [OF assms(1) v'(1)]
    have tol: "je_clockTolerance (assertion_expect e cid) = 60"
      by (simp add: assertion_expect_def CLOCK_SKEW_S_def)
    note fresh = jose_documentedD(2) [OF assms(1) v'(1), unfolded tol]
    from check_payload_InrD [OF v'(2)] p' assms(5) jti have j: "jti' = jti" by auto
    from fresh [of "of_int n"] p' assms(4,6) have "(of_int (epoch_s t' - 60) :: rat) < of_int n" by simp
    then have "t' < n * 1000 + 60 * 1000"
      unfolding of_int_less_iff epoch_s_def whole_seconds .
    with assms(7) have "\<forall>ev \<in> set es. of_int (jti_event_time ev) < (of_int (n * 1000 + 60 * 1000) :: rat)"
      unfolding of_int_less_iff by fastforce
    from jti_run_keeps [OF ok held this, of e] have "jm_has (jtiKey e cid jti) (seenJti (jti_run e es s1))"
      by (simp add: jm_has_get)
    with v'(3) j show False by (simp add: record_jti_def)
  qed
  with bound show ?thesis by simp
qed

text \<open>A verifier that does what jose documents, for tokens that expire at second 100, or 100.5.\<close>

definition token_exp :: "string \<Rightarrow> rat" where
  "token_exp a = (if a = ''frac'' then 201 / 2 else 100)"

definition token_payload_of :: "string \<Rightarrow> json" where
  "token_payload_of a = JObj [(''jti'', JStr ''j''), (''exp'', JNum (token_exp a))]"

definition assertion_env :: env where
  "assertion_env = sample_env
     \<lparr>e_jwt_verify := (\<lambda>ex keys t a. if of_int (epoch_s t - je_clockTolerance ex) < token_exp a
                                    then Inr (token_payload_of a) else Inl ''exp'')\<rparr>"

definition assertion_sample :: assertion_state where
  "assertion_sample = assertion_state.truncate
     (sample_state\<lparr>jwksCache := [(''https://a.example/jwks'', \<lparr>cj_keys = [], cj_expiresAt = 1000000\<rparr>)]\<rparr>)"

lemma assertion_env_documented: "jose_documented assertion_env token_payload_of"
  by (auto simp: jose_documented_def assertion_env_def token_payload_of_def split: if_splits)

lemma assertion_keys_sample:
  assumes "jwksCache s = jwksCache assertion_sample" and "t < 1000000"
  shows "assertion_keys assertion_env t ''https://a.example/jwks'' a s = (s, Inr [])"
  using assms
  by (simp add: assertion_keys_def getClientJwks_def assertion_sample_def assertion_state.defs
      assertion_env_def sample_env_def)

lemma verify_sample:
  assumes "jwksCache s = jwksCache assertion_sample" and "t < 1000000"
    and "of_int (epoch_s t) - 60 < token_exp a" and "token_exp a - of_int (epoch_s t) \<le> 360"
    and "seenJti s = []"
  shows "verifyClientAssertion assertion_env t cid ''https://a.example/jwks'' a s =
    (s\<lparr>seenJti := [(jtiKey assertion_env cid ''j'', token_exp a * 1000 + 60000)]\<rparr>, None)"
  using assms
  by (simp add: verifyClientAssertion_def assertion_keys_sample check_payload_def record_jti_def
      jm_has_def assertion_expect_def CLOCK_SKEW_S_def MAX_ASSERTION_LIFETIME_S_def MAX_JTI_LENGTH_def
      MAX_SEEN_JTI_def token_payload_of_def assertion_env_def [THEN arg_cong, of e_jwt_verify])

lemma assertion_works_once_sample:
  "let s1 = fst (verifyClientAssertion assertion_env 0 ''c'' ''https://a.example/jwks'' ''a'' assertion_sample) in
   snd (verifyClientAssertion assertion_env 0 ''c'' ''https://a.example/jwks'' ''a'' assertion_sample) = None \<and>
   snd (verifyClientAssertion assertion_env 159000 ''c'' ''https://a.example/jwks'' ''a''
          (jti_run assertion_env [Jti_sweep 5000, Jti_sweep 159000] s1)) \<noteq> None"
proof -
  have j: "seenJti assertion_sample = []"
    by (simp add: assertion_sample_def assertion_state.defs sample_state_def)
  have v: "verifyClientAssertion assertion_env 0 ''c'' ''https://a.example/jwks'' ''a'' assertion_sample =
    (assertion_sample\<lparr>seenJti := [(jtiKey assertion_env ''c'' ''j'', 160000)]\<rparr>, None)"
    using verify_sample [of assertion_sample 0 "''a''" "''c''"] j by (simp add: token_exp_def epoch_s_def)
  have ok: "jti_store_ok assertion_sample" by (simp add: jti_store_ok_def j)
  have n: "member (token_payload_of ''a'') ''exp'' = Some (JNum (of_int 100))"
    by (simp add: token_payload_of_def token_exp_def)
  have t: "\<forall>ev \<in> set [Jti_sweep 5000, Jti_sweep 159000]. jti_event_time ev \<le> 159000" by simp
  from assertion_works_once [OF assertion_env_documented ok v n refl refl t, of "''https://a.example/jwks''"] v
  show ?thesis by (simp add: Let_def)
qed

text \<open>An \<^verbatim>\<open>exp\<close> with a fraction outlives its entry by up to a second: the assertion works twice.\<close>

lemma fractional_exp_replayed:
  "let s1 = fst (verifyClientAssertion assertion_env 0 ''c'' ''https://a.example/jwks'' ''frac'' assertion_sample);
       s2 = jti_run assertion_env [Jti_sweep 160900] s1 in
   snd (verifyClientAssertion assertion_env 0 ''c'' ''https://a.example/jwks'' ''frac'' assertion_sample) = None \<and>
   snd (verifyClientAssertion assertion_env 160900 ''c'' ''https://a.example/jwks'' ''frac'' s2) = None"
proof -
  have j: "seenJti assertion_sample = []"
    by (simp add: assertion_sample_def assertion_state.defs sample_state_def)
  have v: "verifyClientAssertion assertion_env 0 ''c'' ''https://a.example/jwks'' ''frac'' assertion_sample =
    (assertion_sample\<lparr>seenJti := [(jtiKey assertion_env ''c'' ''j'', 160500)]\<rparr>, None)"
    using verify_sample [of assertion_sample 0 "''frac''" "''c''"] j by (simp add: token_exp_def epoch_s_def)
  have w: "jti_run assertion_env [Jti_sweep 160900] (assertion_sample\<lparr>seenJti := [(k, 160500)]\<rparr>) =
      assertion_sample\<lparr>seenJti := []\<rparr>" for k
    by (simp add: jti_run_def sweep_jti_state_def sweepSeenJti_def)
  have x: "snd (verifyClientAssertion assertion_env 160900 ''c'' ''https://a.example/jwks'' ''frac''
      (assertion_sample\<lparr>seenJti := []\<rparr>)) = None"
    using verify_sample [of "assertion_sample\<lparr>seenJti := []\<rparr>" 160900 "''frac''" "''c''"]
    by (simp add: token_exp_def epoch_s_def)
  show ?thesis using v w x by (simp add: Let_def)
qed

section \<open>Clients\<close>

text \<open>The indexed denylist lookup and the static policy together block exactly the client
  identifiers that a rule names, or whose host is the rule's domain or a subdomain of it; the walk over
  the parents of the host misses none and adds none.\<close>

theorem denylist_blocks_subdomains:
  "isDenylisted e s cid \<longleftrightarrow>
     cid \<in> set (pl_clientIds (po_denylist (e_policy e))) \<union>
           {dn_value d | d. d \<in> set (deniedClients s) \<and> dn_kind d = Deny_client_id} \<or>
     (\<exists>h domain. hostnameOf (new_URL e) cid = Some h \<and> (h = domain \<or> (\<exists>p. h = p @ CHR ''.'' # domain)) \<and>
        domain \<in> set (pl_domains (po_denylist (e_policy e))) \<union>
           {dn_value d | d. d \<in> set (deniedClients s) \<and> dn_kind d = Deny_domain})"
proof -
  have m: "hostnameMatchesDomain h d \<longleftrightarrow> h = d \<or> (\<exists>p. h = p @ CHR ''.'' # d)" for h d
    unfolding hostnameMatchesDomain_def ends_with_def
    by (metis append_take_drop_id length_append le_add2 append_eq_conv_conj add_diff_cancel_right')
  show ?thesis
    unfolding isDenylisted_def matchesList_def hostAndParents_iff m
    by (auto split: option.splits)
qed

text \<open>A client that resolves is not denied and carries the identifier asked for.  Either it was
  stored and its cache entry is valid; or its entry expired at most 24 hours ago and the refetch was
  refused by the proxy's own limits (never because the client's server failed); or its document was
  fetched now from the identifier, a canonical https URL, passed validation, and is stored with an
  expiry that is now, or between 5 minutes and 24 hours ahead.\<close>

theorem resolved_client_sound:
  assumes "resolveClient e now cid s = (s', Some c)"
  shows "\<not> isDenylisted e s cid \<and> oc_clientId c = cid \<and>
        ((\<exists>r. row_of oc_clientId cid (oauthClients s) = Some r \<and> oc_metadata c = oc_metadata r \<and>
             oc_trustLevel c = assignTrustLevel e cid (oc_source r) \<and>
             (cache_valid now r \<or>
              (\<exists>ex f reason. oc_expiresAt r = Some ex \<and> ex \<le> now \<and> now - ex \<le> 24 * 60 * 60 * 1000 \<and>
                 safeFetchJson (e_net e) cimd_fetch_options now cid (fetcher s) = (f, Inl reason) \<and>
                 reason \<in> {Rate_limited, Busy}))) \<or>
         (isCanonicalClientIdUrl (new_URL e) cid \<and>
          (\<exists>f headers raw d ttl.
             safeFetchJson (e_net e) cimd_fetch_options now cid (fetcher s) = (f, Inr (headers, raw)) \<and>
             validateDocument (new_URL e) cid raw = Inr d \<and> oc_metadata c = document_json d \<and>
             oc_trustLevel c = assignTrustLevel e cid Cimd \<and> oc_expiresAt c = Some (now + ttl) \<and>
             (ttl = 0 \<or> 5 * 60 * 1000 \<le> ttl \<and> ttl \<le> 24 * 60 * 60 * 1000) \<and>
             row_of oc_clientId cid (oauthClients s') = Some c)))"
      (is "_ \<and> _ \<and> (?cached \<or> ?fetched)")
proof -
  note id = resolveClient_SomeD [OF assms]
  have fetched: "?cached \<or> ?fetched"
    if f: "fetchAndStore e now cid cached s = (s', Some c)" and can: "isCanonicalClientIdUrl (new_URL e) cid"
      and row: "\<And>r. cached = Some r \<Longrightarrow> row_of oc_clientId cid (oauthClients s) = Some r \<and> \<not> cache_valid now r"
    for cached
  proof (cases "safeFetchJson (e_net e) cimd_fetch_options now cid (fetcher s)")
    case (Pair fs out)
    show ?thesis
    proof (cases out)
      case (Inl reason)
      with f Pair obtain r ex where r: "cached = Some r" "oc_expiresAt r = Some ex"
        "reason = Rate_limited \<or> reason = Busy" "now - ex \<le> STALE_MAX_AGE_MS"
        "c = r\<lparr>oc_trustLevel := assignTrustLevel e cid (oc_source r)\<rparr>"
        by (auto simp: fetchAndStore_def Let_def split: option.splits if_splits)
      from row [OF r(1)] r(2) have row_r: "row_of oc_clientId cid (oauthClients s) = Some r" and "ex \<le> now"
        by (simp_all add: cache_valid_def)
      with r Pair Inl have "?cached"
        by (intro exI [of _ r] conjI disjI2 exI [of _ ex] exI [of _ fs] exI [of _ reason])
          (auto simp: STALE_MAX_AGE_MS_def)
      then show ?thesis ..
    next
      case (Inr hr)
      obtain headers raw where hr: "hr = (headers, raw)" by (cases hr)
      with f Pair Inr obtain d rows where d: "validateDocument (new_URL e) cid raw = Inr d"
        "upsert_client e now cid d (computeExpiresAt now headers) (oauthClients s) = (rows, c)"
        "oauthClients s' = rows"
        by (auto simp: fetchAndStore_def Let_def split: sum.splits prod.splits)
      have "oc_metadata c = document_json d" "oc_trustLevel c = assignTrustLevel e cid Cimd"
        "oc_expiresAt c = Some (computeExpiresAt now headers)" "row_of oc_clientId cid rows = Some c"
        using d(2) by (auto simp: upsert_client_def Let_def row_of_append row_of_update_many
            split: option.splits dest: row_of_SomeD)
      moreover have "computeExpiresAt now headers = now + cacheLifetimeMs (jm_get headers ''cache-control'')"
        by (simp add: computeExpiresAt_def)
      moreover have "cacheLifetimeMs (jm_get headers ''cache-control'') = 0 \<or>
          5 * 60 * 1000 \<le> cacheLifetimeMs (jm_get headers ''cache-control'') \<and>
          cacheLifetimeMs (jm_get headers ''cache-control'') \<le> 24 * 60 * 60 * 1000"
        using cacheLifetimeMs_bounds by (simp add: MIN_TTL_MS_def DEFAULT_TTL_MS_def)
      ultimately have "?fetched" using can Pair Inr hr d(1,3) by auto
      then show ?thesis ..
    qed
  qed
  have "?cached \<or> ?fetched"
  proof (cases "\<exists>r. row_of oc_clientId cid (oauthClients s) = Some r \<and> cache_valid now r")
    case True
    then obtain r where r: "row_of oc_clientId cid (oauthClients s) = Some r" "cache_valid now r" by blast
    with assms id(2) have "c = touch_client e now r" by (simp add: resolveClient_def)
    with r row_of_SomeD(2) [OF r(1)] have "?cached" by (auto simp: touch_client_def)
    then show ?thesis ..
  next
    case False
    have "\<exists>cached. fetchAndStore e now cid cached s = (s', Some c) \<and> isCanonicalClientIdUrl (new_URL e) cid \<and>
        cached = row_of oc_clientId cid (oauthClients s)"
      using assms id(2) False
      by (simp add: resolveClient_def Let_def split: option.splits if_splits)
    with False show ?thesis by (elim exE conjE) (rule fetched, auto)
  qed
  with id show ?thesis by blast
qed

text \<open>The stored client resolves from the cache; a fetched document is stored.\<close>

lemma resolved_client_sound_sample:
  "snd (resolveClient sample_env 1000 ''https://a.example/c'' sample_state) =
     Some (sample_client\<lparr>oc_lastSeenAt := 1000\<rparr>) \<and>
   \<not> isDenylisted sample_env sample_state ''https://a.example/c''"
proof
  show r: "snd (resolveClient sample_env 1000 ''https://a.example/c'' sample_state) =
     Some (sample_client\<lparr>oc_lastSeenAt := 1000\<rparr>)" by code_simp
  then have "resolveClient sample_env 1000 ''https://a.example/c'' sample_state =
      (fst (resolveClient sample_env 1000 ''https://a.example/c'' sample_state),
       Some (sample_client\<lparr>oc_lastSeenAt := 1000\<rparr>))" by (metis prod.collapse)
  then show "\<not> isDenylisted sample_env sample_state ''https://a.example/c''"
    by (rule resolved_client_sound [THEN conjunct1])
qed

text \<open>A metadata document is accepted only when it names the address it was fetched from, has a short
  name without control or format characters, holds no client secret, lists a redirect URI (each one kept
  has no fragment, no scriptable scheme, and plain http only for loopback), asks for supported grants
  with authorization_code among them, and is a public client or uses private_key_jwt with an https key
  set.\<close>

theorem document_sound:
  assumes "validateDocument parse url raw = Inr d"
  shows "member raw ''client_id'' = Some (JStr url) \<and> cd_client_id d = url \<and>
    member raw ''client_secret'' = None \<and> member raw ''client_secret_expires_at'' = None \<and>
    cd_client_name d \<noteq> [] \<and> length (cd_client_name d) \<le> 200 \<and> \<not> list_ex unsafe_char (cd_client_name d) \<and>
    cd_redirect_uris d \<noteq> [] \<and>
      (\<forall>u \<in> set (cd_redirect_uris d). \<exists>p. parse u = Some p \<and> url_hash p = [] \<and> CHR ''#'' \<notin> set u \<and>
         url_protocol p \<notin> {''javascript:'', ''vbscript:'', ''data:'', ''blob:'', ''file:''} \<and>
         (url_protocol p = ''http:'' \<longrightarrow> isLoopbackHost (url_hostname p))) \<and>
    ''authorization_code'' \<in> set (cd_grant_types d) \<and> set (cd_grant_types d) \<subseteq> set SUPPORTED_GRANT_TYPES \<and>
    (cd_auth_method d = ''none'' \<and> cd_jwks_uri d = None \<or>
      cd_auth_method d = ''private_key_jwt'' \<and>
        (\<exists>u p. cd_jwks_uri d = Some u \<and> parse u = Some p \<and> url_protocol p = ''https:''))"
proof -
  obtain doc name where doc: "raw = JObj doc" "map_of doc ''client_id'' = Some (JStr url)"
    "map_of doc ''client_secret'' = None" "map_of doc ''client_secret_expires_at'' = None"
    "cd_client_id d = url" "cd_client_name d = trim name" "trim name \<noteq> []"
    "length (trim name) \<le> CLIENT_NAME_MAX_LENGTH" "\<forall>c \<in> set name. \<not> unsafe_char c"
    and uris: "doc_redirect_uris parse doc = Inr (cd_redirect_uris d)"
    and gts: "doc_grant_types doc = Inr (cd_grant_types d)"
    and auth: "doc_auth parse doc = Inr (cd_auth_method d, cd_jwks_uri d)"
    using validateDocument_InrD [OF assms] by metis
  have r1: "member raw ''client_id'' = Some (JStr url) \<and> cd_client_id d = url"
    "member raw ''client_secret'' = None \<and> member raw ''client_secret_expires_at'' = None"
    using doc by simp_all
  have "set (trim name) \<subseteq> set name"
    by (auto simp: trim_def dest!: set_dropWhileD)
  with doc have r2: "cd_client_name d \<noteq> [] \<and> length (cd_client_name d) \<le> 200 \<and> \<not> list_ex unsafe_char (cd_client_name d)"
    by (auto simp: CLIENT_NAME_MAX_LENGTH_def list_ex_iff)
  have r3: "cd_redirect_uris d \<noteq> [] \<and>
      (\<forall>u \<in> set (cd_redirect_uris d). \<exists>p. parse u = Some p \<and> url_hash p = [] \<and> CHR ''#'' \<notin> set u \<and>
         url_protocol p \<notin> {''javascript:'', ''vbscript:'', ''data:'', ''blob:'', ''file:''} \<and>
         (url_protocol p = ''http:'' \<longrightarrow> isLoopbackHost (url_hostname p)))"
    using doc_redirect_uris_ok [OF uris]
    by (fastforce simp: isAllowedRedirectUri_def FORBIDDEN_REDIRECT_SCHEMES_def split: option.splits if_splits)
  have r4: "''authorization_code'' \<in> set (cd_grant_types d) \<and> set (cd_grant_types d) \<subseteq> set SUPPORTED_GRANT_TYPES"
    using doc_grant_types_ok [OF gts] .
  have r5: "cd_auth_method d = ''none'' \<and> cd_jwks_uri d = None \<or>
      cd_auth_method d = ''private_key_jwt'' \<and>
        (\<exists>u p. cd_jwks_uri d = Some u \<and> parse u = Some p \<and> url_protocol p = ''https:'')"
    using doc_auth_ok [OF auth] .
  from r1 r2 r3 r4 r5 show ?thesis by blast
qed

definition sample_document :: json where
  "sample_document = JObj
     [(''client_id'', JStr ''https://a.example/c''), (''client_name'', JStr '' An app ''),
      (''redirect_uris'', JArr [JStr ''https://a.example/cb'', JNull, JStr ''nonsense'']),
      (''grant_types'', JArr [JStr ''authorization_code'', JStr ''password''])]"

definition validated_sample :: client_document where
  "validated_sample =
     \<lparr>cd_client_id = ''https://a.example/c'', cd_client_name = ''An app'', cd_logo_uri = None,
      cd_redirect_uris = [''https://a.example/cb''], cd_grant_types = [''authorization_code''],
      cd_response_types = [JStr ''code''], cd_auth_method = ''none'', cd_jwks_uri = None\<rparr>"

lemma document_sound_sample:
  "validateDocument sample_parse ''https://a.example/c'' sample_document = Inr validated_sample \<and>
   set (cd_grant_types validated_sample) \<subseteq> set SUPPORTED_GRANT_TYPES"
proof
  show v: "validateDocument sample_parse ''https://a.example/c'' sample_document = Inr validated_sample"
    by (simp add: validateDocument_def sample_document_def validated_sample_def doc_redirect_uris_def
        doc_response_types_def doc_grant_types_def doc_auth_def DEFAULT_GRANT_TYPES_def SUPPORTED_GRANT_TYPES_def
        CLIENT_NAME_MAX_LENGTH_def) code_simp
  show "set (cd_grant_types validated_sample) \<subseteq> set SUPPORTED_GRANT_TYPES"
    using document_sound [OF v] by simp
qed

end
