(* ===== verification/SessionProps.thy ===== *)
theory SessionProps
  imports LocalRouter OidcCallback Grants Sample
begin

text \<open>
  Properties of sessions, cookies, CSRF tokens, flow binding, and of what ends a session.
\<close>

section \<open>Sessions\<close>

text \<open>A session cookie says who signed in and when: for seven days a request that carries it is that
  user's, as long as the user and the local account are active and the session epoch has not moved;
  otherwise, earlier or later, it is nobody's.\<close>

theorem session_round_trip:
  assumes "userId \<noteq> []" and "epoch < 10 ^ 9" and "0 \<le> t" and "t < 10 ^ 15"
    and "q_signed rq = apply_cookie (setSession e t userId epoch) jar"
  shows "getSession e now rq s =
    (if t \<le> now \<and> now - t \<le> 7 * 24 * 60 * 60 * 1000 \<and> session_user_ok s userId epoch
     then Some (userId, t) else None)"
proof -
  have "readSignedCookie e rq ''session'' = Some (session_value userId epoch t)"
    using assms(5) by (simp add: readSignedCookie_def setSession_def setSignedCookie_def)
  then show ?thesis
    using parse_session_value [OF assms(1-4)] by (auto simp: getSession_def SESSION_TTL_MS_def)
qed

definition signed_in :: request where
  "signed_in = \<lparr>q_body = None, q_query = [],
     q_signed = apply_cookie (setSession sample_env 1000 ''u1'' 0) [], q_ip = None\<rparr>"

lemma session_round_trip_sample:
  "getSession sample_env 2000 signed_in sample_state = Some (''u1'', 1000) \<and>
   getSession sample_env (1001 + 7 * 24 * 60 * 60 * 1000) signed_in sample_state = None"
proof -
  have ok: "session_user_ok sample_state ''u1'' 0" by code_simp
  have q: "q_signed signed_in = apply_cookie (setSession sample_env 1000 ''u1'' 0) []" by (simp add: signed_in_def)
  note rt = session_round_trip [OF _ _ _ _ q, of _ sample_state]
  show ?thesis using ok by (simp add: rt)
qed

text \<open>A session is read against the epoch of the user's row.\<close>

lemma getSessionUserId_iff:
  "getSessionUserId e now rq s = Some w \<longleftrightarrow>
     (\<exists>v ep t. readSignedCookie e rq ''session'' = Some v \<and> parse_session v = Some (w, ep, t) \<and>
        t \<le> now \<and> now - t \<le> SESSION_TTL_MS \<and> session_user_ok s w ep)"
  by (auto simp: getSessionUserId_def getSession_def split: option.splits)

lemma session_user_ok_row:
  assumes "distinct (map u_id (users s))"
  shows "session_user_ok s u ep \<longleftrightarrow>
    (\<exists>r. row_of u_id u (users s) = Some r \<and> u_sessionEpoch r = ep \<and> u_deactivatedAt r = None \<and>
       (case row_of lu_userId u (localUsers s) of None \<Rightarrow> True | Some l \<Rightarrow> lu_isActive l))"
    (is "?L = ?R")
proof
  assume ?L
  then obtain r where r: "r \<in> set (users s)" "u_id r = u" "u_sessionEpoch r = ep" "u_deactivatedAt r = None"
    "case row_of lu_userId u (localUsers s) of None \<Rightarrow> True | Some l \<Rightarrow> lu_isActive l"
    by (auto simp: session_user_ok_def)
  from row_of_member [OF assms r(1)] r show ?R by (intro exI [of _ r]) simp
next
  assume ?R
  then obtain r where r: "row_of u_id u (users s) = Some r" "u_sessionEpoch r = ep" "u_deactivatedAt r = None"
    "case row_of lu_userId u (localUsers s) of None \<Rightarrow> True | Some l \<Rightarrow> lu_isActive l" by blast
  from r row_of_SomeD [OF r(1)] show ?L unfolding session_user_ok_def by (intro bexI [of _ r]) simp_all
qed

text \<open>An operation that bumps the epoch of one user and leaves the others alone.\<close>

lemma epoch_bump_ends_sessions:
  assumes "distinct (map u_id (users s))" and "users s' = update_many (\<lambda>r. u_id r = u) f (users s)"
    and "\<And>r. u_id (f r) = u_id r" and "\<And>r. u_sessionEpoch (f r) = Suc (u_sessionEpoch r)"
    and "session_user_ok s u ep"
  shows "\<not> session_user_ok s' u ep"
proof
  assume ok: "session_user_ok s' u ep"
  have d: "distinct (map u_id (users s'))" using assms(1,3) by (simp add: assms(2) map_key_update_many)
  from assms(5) obtain r where r: "row_of u_id u (users s) = Some r" "u_sessionEpoch r = ep"
    by (auto simp: session_user_ok_row [OF assms(1)])
  with row_of_SomeD(2) [OF r(1)] have "row_of u_id u (users s') = Some (f r)"
    by (simp add: assms(2,3) row_of_update_many)
  with ok have "u_sessionEpoch (f r) = ep" by (simp add: session_user_ok_row [OF d])
  with r(2) assms(4) show False by simp
qed

lemma session_other_users:
  assumes "v \<noteq> u" and "localUsers s' = localUsers s"
    and "users s' = update_many (\<lambda>r. u_id r = u) f (users s)" and "\<And>r. u_id (f r) = u_id r"
  shows "session_user_ok s' v ep = session_user_ok s v ep"
proof -
  have "r \<in> set (users s') \<and> u_id r = v \<longleftrightarrow> r \<in> set (users s) \<and> u_id r = v" for r
    using assms(1,4) by (auto simp: assms(3) set_update_many)
  then show ?thesis unfolding session_user_ok_def assms(2) by blast
qed

lemma session_ended:
  assumes "\<And>ep. session_user_ok s u ep \<Longrightarrow> \<not> session_user_ok s' u ep"
    and "getSessionUserId e t rq s = Some u"
  shows "getSessionUserId e t' rq s' = None"
proof (rule ccontr)
  assume "getSessionUserId e t' rq s' \<noteq> None"
  then obtain w where "getSessionUserId e t' rq s' = Some w" by blast
  with assms(2) have "\<exists>ep. session_user_ok s u ep \<and> session_user_ok s' u ep"
    by (auto simp: getSessionUserId_iff)
  with assms(1) show False by blast
qed

lemma session_unchanged:
  assumes "\<And>ep. session_user_ok s' w ep = session_user_ok s w ep"
  shows "getSessionUserId e now rq s' = Some w \<longleftrightarrow> getSessionUserId e now rq s = Some w"
  by (simp add: getSessionUserId_iff assms)

text \<open>C13: Signing out takes a token bound to the signed-in user and then ends every session of that
  user, on whatever browser its cookie is, a stolen copy included; sessions of other users go on.  Any
  other outcome changes nothing.\<close>

theorem logout_ends_every_session:
  assumes "distinct (map u_id (users s))" and "logout_post e now rq s = (s', rep, cks)"
  shows "(s' = s \<and> cks = []) \<or>
    (\<exists>u. getSessionUserId e now rq s = Some u \<and> verifyBoundCsrfToken e rq ''csrf_logout'' ''logout'' u \<and>
       (\<forall>rq' t t'. getSessionUserId e t rq' s = Some u \<longrightarrow> getSessionUserId e t' rq' s' = None) \<and>
       (\<forall>rq' t w. w \<noteq> u \<longrightarrow>
          (getSessionUserId e t rq' s' = Some w \<longleftrightarrow> getSessionUserId e t rq' s = Some w)))"
proof -
  have "s' = s \<and> cks = [] \<or> (\<exists>u. getSessionUserId e now rq s = Some u \<and>
      verifyBoundCsrfToken e rq ''csrf_logout'' ''logout'' u \<and> s' = revokeSessions u s)"
    using assms(2) unfolding logout_post_def by (simp split: option.splits if_splits)
  then consider "s' = s" "cks = []"
    | u where "getSessionUserId e now rq s = Some u" "verifyBoundCsrfToken e rq ''csrf_logout'' ''logout'' u"
        "s' = revokeSessions u s" by blast
  then show ?thesis
  proof cases
    case (2 u)
    let ?f = "\<lambda>r. r\<lparr>u_sessionEpoch := Suc (u_sessionEpoch r)\<rparr>"
    have us: "users s' = update_many (\<lambda>r. u_id r = u) ?f (users s)" and l: "localUsers s' = localUsers s"
      by (simp_all add: 2(3) revokeSessions_def)
    have ended: "session_user_ok s u ep \<Longrightarrow> \<not> session_user_ok s' u ep" for ep
      by (rule epoch_bump_ends_sessions [OF assms(1) us]) simp_all
    have other: "w \<noteq> u \<Longrightarrow> session_user_ok s' w ep = session_user_ok s w ep" for w ep
      by (rule session_other_users [OF _ l us]) simp_all
    show ?thesis
    proof (intro disjI2 exI [of _ u] conjI allI impI)
      show "getSessionUserId e now rq s = Some u" "verifyBoundCsrfToken e rq ''csrf_logout'' ''logout'' u"
        by (fact 2)+
      fix rq' t t' assume "getSessionUserId e t rq' s = Some u"
      then show "getSessionUserId e t' rq' s' = None" by (rule session_ended [rotated]) (rule ended)
    next
      fix rq' t w assume "w \<noteq> u"
      from other [OF this] show "getSessionUserId e t rq' s' = Some w \<longleftrightarrow> getSessionUserId e t rq' s = Some w"
        by (rule session_unchanged)
    qed
  qed simp
qed

text \<open>The browser that signs out.\<close>

definition logout_nonce :: string where
  "logout_nonce = replicate 64 CHR ''0''"

definition logout_request :: request where
  "logout_request = signed_in
     \<lparr>q_signed := apply_cookie (snd (issueBoundCsrfToken sample_env signed_in ''csrf_logout'' ''logout'' ''u1'' logout_nonce))
                   (q_signed signed_in),
      q_body := Some (JObj [(''csrf_token'', JStr (boundToken sample_env ''logout'' ''u1'' logout_nonce))])\<rparr>"

lemma logout_ends_every_session_sample:
  "getSessionUserId sample_env 2000 signed_in sample_state = Some ''u1'' \<and>
   getSessionUserId sample_env 2000 signed_in (fst (logout_post sample_env 2000 logout_request sample_state)) = None"
proof
  show s: "getSessionUserId sample_env 2000 signed_in sample_state = Some ''u1''" by code_simp
  have u: "getSessionUserId sample_env 2000 logout_request sample_state = Some ''u1''" by code_simp
  have d: "distinct (map u_id (users sample_state))" by code_simp
  have c: "snd (snd (logout_post sample_env 2000 logout_request sample_state)) \<noteq> []" by code_simp
  obtain s' rep cks where l: "logout_post sample_env 2000 logout_request sample_state = (s', rep, cks)"
    by (cases "logout_post sample_env 2000 logout_request sample_state")
  from logout_ends_every_session [OF d l] u c l s
  show "getSessionUserId sample_env 2000 signed_in (fst (logout_post sample_env 2000 logout_request sample_state)) = None"
    by auto
qed

section \<open>Changing the password\<close>

lemma row_of_same_key: "row_of k x t = Some r \<Longrightarrow> k r = x"
  by (rule row_of_SomeD(2))

text \<open>A password change that succeeds has checked the current password and stores a hash of the new
  one.  It ends every session of the user and voids every device cookie of the account; the epoch it
  returns is the one new sessions of the user carry, so the cookie the handler sets next is valid.\<close>

theorem password_change_ends_sessions:
  assumes "distinct (map u_id (users s))" and "distinct (map lu_username (localUsers s))"
    and "changePassword e salt u current new s = (s', Inr epoch)"
  shows "\<exists>l h. row_of lu_userId u (localUsers s) = Some l \<and> e_bcrypt_compare e current (lu_passwordHash l) \<and>
      length new \<le> 72 \<and> h = e_bcrypt_hash e salt new \<and>
      (\<exists>l'. row_of lu_userId u (localUsers s') = Some l' \<and> lu_passwordHash l' = h) \<and>
      (\<forall>rq t t'. getSessionUserId e t rq s = Some u \<longrightarrow> getSessionUserId e t' rq s' = None) \<and>
      (\<forall>rq t t'. validDeviceCookieNonce e t rq (lu_username l) s \<noteq> None \<longrightarrow>
           validDeviceCookieNonce e t' rq (lu_username l) s' = None) \<and>
      (\<forall>ep. session_user_ok s' u ep \<longrightarrow> ep = epoch)"
proof -
  let ?f = "\<lambda>x. x\<lparr>u_sessionEpoch := Suc (u_sessionEpoch x), u_deviceEpoch := Suc (u_deviceEpoch x)\<rparr>"
  obtain l r where l: "row_of lu_userId u (localUsers s) = Some l"
    and cmp: "e_bcrypt_compare e current (lu_passwordHash l)" and len: "length new \<le> 72"
    and r: "row_of u_id u (users s) = Some r" and ep: "epoch = Suc (u_sessionEpoch r)"
    and s': "s' = s\<lparr>localUsers := update_many (\<lambda>x. lu_id x = lu_id l)
                    (\<lambda>x. x\<lparr>lu_passwordHash := e_bcrypt_hash e salt new\<rparr>) (localUsers s),
                 users := update_many (\<lambda>x. u_id x = u) ?f (users s)\<rparr>"
    using assms(3)
    by (auto simp: changePassword_def hashPassword_def MAX_PASSWORD_BYTES_def split: option.splits if_splits)
  have us: "users s' = update_many (\<lambda>x. u_id x = u) ?f (users s)" by (simp add: s')
  have ls: "localUsers s' = update_many (\<lambda>x. lu_id x = lu_id l)
      (\<lambda>x. x\<lparr>lu_passwordHash := e_bcrypt_hash e salt new\<rparr>) (localUsers s)" by (simp add: s')
  have du: "distinct (map u_id (users s'))" using assms(1) by (simp add: us map_key_update_many)
  have r': "row_of u_id u (users s') = Some (?f r)"
    using r row_of_same_key [OF r] by (simp add: us row_of_update_many)
  have "row_of lu_userId u (localUsers s') = Some (l\<lparr>lu_passwordHash := e_bcrypt_hash e salt new\<rparr>)"
    using l by (simp add: ls row_of_update_many)
  then have hash: "\<exists>l'. row_of lu_userId u (localUsers s') = Some l' \<and> lu_passwordHash l' = e_bcrypt_hash e salt new"
    by simp
  have sessions: "getSessionUserId e t rq s = Some u \<Longrightarrow> getSessionUserId e t' rq s' = None" for rq t t'
    by (erule session_ended [rotated]) (rule epoch_bump_ends_sessions [OF assms(1) us], simp_all)
  have only: "session_user_ok s' u ep' \<Longrightarrow> ep' = epoch" for ep'
    using r' ep by (auto simp: session_user_ok_row [OF du])
  have who: "row_of lu_username (lu_username l) (localUsers s) = Some l"
    using row_of_member [OF assms(2)] row_of_SomeD(1) [OF l] by simp
  have who': "row_of lu_username (lu_username l) (localUsers s') = Some (l\<lparr>lu_passwordHash := e_bcrypt_hash e salt new\<rparr>)"
    using who by (simp add: ls row_of_update_many)
  have lu: "lu_userId l = u" by (rule row_of_same_key [OF l])
  have devices: "validDeviceCookieNonce e t' rq (lu_username l) s' = None"
    if "validDeviceCookieNonce e t rq (lu_username l) s \<noteq> None" for rq t t'
    using that
    by (auto simp: validDeviceCookieNonce_def Let_def who who' lu r r' split: option.splits if_splits)
  show ?thesis
    by (rule exI [of _ l], rule exI [of _ "e_bcrypt_hash e salt new"], intro conjI allI impI)
      (fact l | fact cmp | fact len | rule refl | fact hash | erule sessions | erule devices | erule only)+
qed

definition local_state :: upstream_state where
  "local_state = sample_state\<lparr>localUsers :=
     [\<lparr>lu_id = ''l1'', lu_username = ''ann'', lu_passwordHash = ''kold'', lu_lastLoginAt = None,
       lu_isActive = True, lu_isAdmin = False, lu_userId = ''u1''\<rparr>]\<rparr>"

lemma password_change_ends_sessions_sample:
  "getSessionUserId sample_env 2000 signed_in local_state = Some ''u1'' \<and>
   snd (changePassword sample_env ''salt'' ''u1'' ''old'' ''new'' local_state) = Inr 1 \<and>
   getSessionUserId sample_env 2000 signed_in
     (fst (changePassword sample_env ''salt'' ''u1'' ''old'' ''new'' local_state)) = None"
proof -
  let ?c = "changePassword sample_env ''salt'' ''u1'' ''old'' ''new'' local_state"
  have a: "getSessionUserId sample_env 2000 signed_in local_state = Some ''u1''" by code_simp
  have b: "snd ?c = Inr 1"
    by (simp add: changePassword_def local_state_def sample_state_def sample_user_def sample_env_def
        hashPassword_def MAX_PASSWORD_BYTES_def)
  have d: "distinct (map u_id (users local_state))" "distinct (map lu_username (localUsers local_state))"
    by code_simp+
  from b have c: "?c = (fst ?c, Inr 1)" by (metis prod.collapse)
  from password_change_ends_sessions [OF d c] a b show ?thesis by blast
qed

section \<open>CSRF tokens\<close>

text \<open>A bound CSRF token is worth something only for the form and the user it was made for: if the
  keyed hash has no collisions, a token issued for one purpose and user verifies, in the browser that
  holds its nonce, for that purpose and user and for no other; a form without the cookie never does.\<close>

theorem csrf_token_is_bound:
  assumes "inj (e_hmac e)" and "is_nonce fresh"
    and "issueBoundCsrfToken e rq name purpose user fresh = (token, ck)"
    and "q_signed rq' = apply_cookie ck jar" and "stringField (bodyOf (q_body rq')) ''csrf_token'' = Some token"
  shows "(verifyBoundCsrfToken e rq' name purpose' user' \<longleftrightarrow> purpose' = purpose \<and> user' = user) \<and>
    \<not> verifyBoundCsrfToken e (rq'\<lparr>q_signed := []\<rparr>) name purpose user"
proof -
  from assms(2,3) obtain n where n: "is_nonce n" "token = boundToken e purpose user n"
    "ck = setSignedCookie e name n Strict CSRF_COOKIE_TTL_MS"
    by (auto simp: issueBoundCsrfToken_def Let_def split: option.splits if_splits)
  have "readSignedCookie e rq' name = Some n"
    using assms(4) n(3) by (simp add: readSignedCookie_def setSignedCookie_def)
  then have "verifyBoundCsrfToken e rq' name purpose' user' \<longleftrightarrow> boundToken e purpose' user' n = token"
    using assms(5) n(1) by (simp add: verifyBoundCsrfToken_def csrf_field_def)
  also have "\<dots> \<longleftrightarrow> csrf_data [purpose', user', n] = csrf_data [purpose, user, n]"
    using assms(1) by (auto simp: n(2) boundToken_def inj_eq)
  also have "\<dots> \<longleftrightarrow> purpose' = purpose \<and> user' = user"
    using csrf_data_inject [of "[purpose', user', n]" "[purpose, user, n]"] by auto
  finally show ?thesis by (simp add: verifyBoundCsrfToken_def readSignedCookie_def)
qed

lemma csrf_token_is_bound_sample:
  "verifyBoundCsrfToken sample_env logout_request ''csrf_logout'' ''logout'' ''u1'' \<and>
   \<not> verifyBoundCsrfToken sample_env logout_request ''csrf_logout'' ''grants-revoke'' ''u1'' \<and>
   \<not> verifyBoundCsrfToken sample_env logout_request ''csrf_logout'' ''logout'' ''u2''"
proof -
  have i: "inj (e_hmac sample_env)" by (simp add: sample_env_def inj_def)
  have n: "is_nonce logout_nonce" by code_simp
  have t: "issueBoundCsrfToken sample_env signed_in ''csrf_logout'' ''logout'' ''u1'' logout_nonce =
      (boundToken sample_env ''logout'' ''u1'' logout_nonce,
       snd (issueBoundCsrfToken sample_env signed_in ''csrf_logout'' ''logout'' ''u1'' logout_nonce))"
  proof -
    have "fst (issueBoundCsrfToken sample_env signed_in ''csrf_logout'' ''logout'' ''u1'' logout_nonce) =
      boundToken sample_env ''logout'' ''u1'' logout_nonce" by code_simp
    then show ?thesis by (metis prod.collapse)
  qed
  have q: "q_signed logout_request =
      apply_cookie (snd (issueBoundCsrfToken sample_env signed_in ''csrf_logout'' ''logout'' ''u1'' logout_nonce))
        (q_signed signed_in)"
    "stringField (bodyOf (q_body logout_request)) ''csrf_token'' = Some (boundToken sample_env ''logout'' ''u1'' logout_nonce)"
    by (simp_all add: logout_request_def stringField_def)
  note b = csrf_token_is_bound [OF i n t q]
  show ?thesis by (simp add: b [THEN conjunct1])
qed

section \<open>Flow binding and return paths\<close>

text \<open>Starting a flow binds it to the browser: the flow is bound afterwards, no other flow becomes
  bound by it, the cookie names at most eight flows, and as long as fewer than eight are bound none of
  them is lost.\<close>

theorem flow_binding:
  assumes "is_flow_hash (hashHandle e h)" and "q_signed rq' = apply_cookie (bindFlow e rq h) jar"
  shows "isFlowBound e rq' h \<and> length (boundHashes e rq') \<le> 8 \<and>
    (isFlowBound e rq' g \<longrightarrow> isFlowBound e rq g \<or> hashHandle e g = hashHandle e h) \<and>
    (isFlowBound e rq g \<and> length (boundHashes e rq) < 8 \<longrightarrow> isFlowBound e rq' g)"
proof -
  have rq': "rq' = rq'\<lparr>q_signed := apply_cookie (bindFlow e rq h) jar\<rparr>" using assms(2) by simp
  have b: "boundHashes e rq' = bound_after e h (boundHashes e rq)"
    by (subst rq') (rule boundHashes_bind [OF assms(1)])
  let ?o = "filter (\<lambda>x. x \<noteq> hashHandle e h) (boundHashes e rq)"
  have in_: "hashHandle e h \<in> set (bound_after e h (boundHashes e rq))"
    by (simp add: bound_after_def Let_def MAX_BOUND_FLOWS_def)
  have len: "length (bound_after e h (boundHashes e rq)) \<le> 8"
    by (simp add: bound_after_def Let_def MAX_BOUND_FLOWS_def)
  have sub: "set (bound_after e h (boundHashes e rq)) \<subseteq> insert (hashHandle e h) (set (boundHashes e rq))"
    by (auto simp: bound_after_def Let_def dest: in_set_dropD)
  have all: "bound_after e h (boundHashes e rq) = ?o @ [hashHandle e h]" if "length (boundHashes e rq) < 8"
  proof -
    from that length_filter_le [of "\<lambda>x. x \<noteq> hashHandle e h" "boundHashes e rq"]
    have "length ?o \<le> 7" by linarith
    then show ?thesis by (simp add: bound_after_def Let_def MAX_BOUND_FLOWS_def)
  qed
  show ?thesis using in_ len sub all by (auto simp: isFlowBound_def b)
qed

definition hex_env :: env where
  "hex_env = sample_env\<lparr>e_sha256 := (\<lambda>x. replicate 64 (if x = ''one'' then CHR ''a'' else CHR ''b''))\<rparr>"

definition one_flow :: request where
  "one_flow = signed_in\<lparr>q_signed := apply_cookie (bindFlow hex_env signed_in ''one'') []\<rparr>"

definition two_flows :: request where
  "two_flows = signed_in\<lparr>q_signed := apply_cookie (bindFlow hex_env one_flow ''two'') []\<rparr>"

lemma flow_binding_sample:
  "isFlowBound hex_env two_flows ''one'' \<and> isFlowBound hex_env two_flows ''two'' \<and>
   \<not> isFlowBound hex_env one_flow ''two''"
proof -
  have h: "is_flow_hash (hashHandle hex_env ''two'')" by code_simp
  have q: "q_signed two_flows = apply_cookie (bindFlow hex_env one_flow ''two'') []" by (simp add: two_flows_def)
  have o: "isFlowBound hex_env one_flow ''one''" "length (boundHashes hex_env one_flow) < 8"
    "\<not> isFlowBound hex_env one_flow ''two''" by code_simp+
  from flow_binding [OF h q, of "''one''"] o show ?thesis by blast
qed

text \<open>A return path can only be a path of this site: whatever a request carried, the redirect after
  a sign-in starts with one slash, not two nor a slash and a backslash, and has no control character,
  backslash or scheme in it; after an admin sign-in it lies under /admin.\<close>

theorem return_path_is_local:
  "let p = selfLoginReturnPath raw; q = adminReturnPath raw in
   hd p = CHR ''/'' \<and> \<not> starts_with ''//'' p \<and> \<not> includes_str ''://'' p \<and>
   \<not> list_ex (\<lambda>c. code c \<le> 0x1F \<or> code c = 0x7F \<or> c = CHR 0x5C) p \<and>
   (q = ''/admin'' \<or> starts_with ''/admin/'' q \<or> starts_with ''/admin?'' q)"
proof -
  let ?ok = "\<lambda>p. hd p = CHR ''/'' \<and> \<not> starts_with ''//'' p \<and> \<not> includes_str ''://'' p \<and>
   \<not> list_ex (\<lambda>c. code c \<le> 0x1F \<or> code c = 0x7F \<or> c = CHR 0x5C) p"
  have g: "?ok ''/grants''" by code_simp
  have h: "hd p = CHR ''/''" if "starts_with ''/'' p" for p
    using that by (cases p) (auto simp: starts_with_def)
  have "?ok (selfLoginReturnPath raw)"
  proof (cases "selfLoginReturnPath raw = ''/grants''")
    case False
    then obtain q where q: "truthy raw = Some q"
      by (cases "truthy raw") (simp_all only: selfLoginReturnPath_def option.case)
    from False q have n: "\<not> (\<not> starts_with ''/'' q \<or> starts_with ''//'' q \<or> starts_with [CHR ''/'', CHR 0x5C] q)"
      "\<not> (\<exists>c \<in> set q. code c \<le> 0x1F \<or> code c = 0x7F \<or> c = CHR 0x5C)" "\<not> includes_str ''://'' q"
      by (simp_all only: selfLoginReturnPath_def option.case simp_thms split: if_split_asm)
    then have "selfLoginReturnPath raw = q"
      by (simp only: selfLoginReturnPath_def q option.case if_False)
    with n h [of q] show ?thesis by (simp add: list_ex_iff)
  qed (use g in simp)
  moreover have "adminReturnPath raw = ''/admin'' \<or> starts_with ''/admin/'' (adminReturnPath raw) \<or>
      starts_with ''/admin?'' (adminReturnPath raw)"
    by (auto simp: adminReturnPath_def Let_def)
  ultimately show ?thesis by (simp add: Let_def)
qed

end
