(* ===== verification/AccountProps.thy ===== *)
theory AccountProps
  imports LocalRouter OidcCallback Grants Sample
begin

text \<open>
  Properties of the local accounts: the bounds of the login throttle over any interleaving of attempts.
\<close>

section \<open>The throttle\<close>

text \<open>
  Attempts begin (by any of the four kinds) and end in any order, and expired rows are pruned in
  between.  The row a begun attempt wrote is returned.
\<close>

datatype throttle_event =
    Login_attempt time_ms nat string string
  | Device_attempt time_ms nat string string
  | Setup_attempt time_ms nat string
  | Password_attempt time_ms nat string
  | Attempt_ended time_ms attempt_slot bool
  | Pruned time_ms

fun attempt_of :: "throttle_event \<Rightarrow> (nat \<times> attempt_limits) option" where
  "attempt_of (Login_attempt t i ip u) = Some (i, login_limits ip u)"
| "attempt_of (Device_attempt t i ip n) = Some (i, device_limits ip n)"
| "attempt_of (Setup_attempt t i ip) = Some (i, ip_limits ip)"
| "attempt_of (Password_attempt t i u) = Some (i, password_change_limits u)"
| "attempt_of _ = None"

fun throttle_time :: "throttle_event \<Rightarrow> time_ms" where
  "throttle_time (Login_attempt t i ip u) = t"
| "throttle_time (Device_attempt t i ip n) = t"
| "throttle_time (Setup_attempt t i ip) = t"
| "throttle_time (Password_attempt t i u) = t"
| "throttle_time (Attempt_ended t slot ok) = t"
| "throttle_time (Pruned t) = t"

definition attempt_row :: "time_ms \<Rightarrow> nat \<Rightarrow> attempt_limits \<Rightarrow> login_failure" where
  "attempt_row now i l =
     \<lparr>lf_id = i, lf_kind = al_kind l, lf_ip = throttle_ip l, lf_username = throttle_key l,
      lf_failedAt = now\<rparr>"

fun throttle_step :: "throttle_event \<Rightarrow> 'a metrics_state_scheme \<Rightarrow> 'a metrics_state_scheme \<times> login_failure list" where
  "throttle_step (Attempt_ended t slot ok) s = (endAttempt slot ok s, [])"
| "throttle_step (Pruned t) s = (pruneLoginFailures t s, [])"
| "throttle_step ev s =
     (case attempt_of ev of
        None \<Rightarrow> (s, [])
      | Some (i, l) \<Rightarrow>
          (case reserveAttempt (throttle_time ev) i l s of
             (s', None) \<Rightarrow> (s', [])
           | (s', Some _) \<Rightarrow> (s', [attempt_row (throttle_time ev) i l])))"

fun begun :: "throttle_event list \<Rightarrow> 'a metrics_state_scheme \<Rightarrow> login_failure list" where
  "begun [] s = []"
| "begun (ev # evs) s = (case throttle_step ev s of (s', rows) \<Rightarrow> rows @ begun evs s')"

definition in_window :: "time_ms \<Rightarrow> login_failure \<Rightarrow> bool" where
  "in_window a f \<longleftrightarrow> a \<le> lf_failedAt f \<and> lf_failedAt f \<le> a + FAILURE_WINDOW_MS"

definition recent :: "(login_failure \<Rightarrow> bool) \<Rightarrow> time_ms \<Rightarrow> login_failure list \<Rightarrow> nat" where
  "recent Q a t = count_rows (\<lambda>f. Q f \<and> a \<le> lf_failedAt f) t"

definition throttled :: "time_ms \<Rightarrow> attempt_limits \<Rightarrow> login_failure list \<Rightarrow> bool" where
  "throttled now l t \<longleftrightarrow>
     (\<exists>m. al_maxPerIp l = Some m \<and>
        m \<le> recent (\<lambda>f. lf_kind f \<in> set IP_LIMITED_KINDS \<and> lf_ip f = throttle_ip l) (now - FAILURE_WINDOW_MS) t) \<or>
     (\<exists>k m. throttle_key l = Some k \<and> al_maxPerKey l = Some m \<and>
        m \<le> recent (\<lambda>f. lf_kind f = al_kind l \<and> lf_username f = Some k) (now - FAILURE_WINDOW_MS) t)"

lemma reserveAttempt_eq:
  "reserveAttempt now i l s =
     (if throttled now l (loginFailures s) then (s, None)
      else (s\<lparr>loginFailures := loginFailures s @ [attempt_row now i l]\<rparr>,
            Some \<lparr>at_id = i, at_kind = al_kind l, at_key = throttle_key l\<rparr>))"
  by (simp add: reserveAttempt_def throttled_def Let_def attempt_row_def recent_def
      counts_for_ip_def [abs_def] counts_for_key_def [abs_def] conj_assoc split: option.split)

lemma recent_append: "recent Q a (t @ u) = recent Q a t + recent Q a u"
  by (simp add: recent_def count_rows_def)

text \<open>
  \<open>Q\<close> is the set of rows one limit counts and \<open>m\<close> the limit.
\<close>

definition limits_rows :: "(login_failure \<Rightarrow> bool) \<Rightarrow> nat \<Rightarrow> attempt_limits \<Rightarrow> bool" where
  "limits_rows Q m l \<longleftrightarrow>
     (\<forall>now i t. Q (attempt_row now i l) \<and> \<not> throttled now l t \<longrightarrow> recent Q (now - FAILURE_WINDOW_MS) t < m)"

definition for_username :: "string \<Rightarrow> login_failure \<Rightarrow> bool" where
  "for_username u f \<longleftrightarrow> lf_kind f = LF_login \<and> lf_username f = Some (take MAX_THROTTLE_KEY_LENGTH u)"

definition from_ip :: "string \<Rightarrow> login_failure \<Rightarrow> bool" where
  "from_ip k f \<longleftrightarrow> lf_kind f \<in> set IP_LIMITED_KINDS \<and> lf_ip f = k"

lemmas limit_defs = login_limits_def device_limits_def password_change_limits_def ip_limits_def
  attempt_row_def throttle_ip_def throttle_key_def throttled_def IP_LIMITED_KINDS_def

lemma username_limits_rows:
  "attempt_of ev = Some (i, l) \<Longrightarrow> limits_rows (for_username u) MAX_USERNAME_FAILURES l"
  by (cases ev) (auto simp: limits_rows_def limit_defs for_username_def [abs_def] not_le)

lemma ip_limits_rows:
  "attempt_of ev = Some (i, l) \<Longrightarrow> limits_rows (from_ip k) MAX_IP_FAILURES l"
  by (cases ev) (auto simp: limits_rows_def limit_defs from_ip_def [abs_def] not_le)

lemma limits_rows_subset:
  assumes "limits_rows Q m l" shows "limits_rows (\<lambda>f. Q f \<and> f \<in> R) m l"
proof -
  have "recent (\<lambda>f. Q f \<and> f \<in> R) a t \<le> recent Q a t" for a t
    unfolding recent_def count_rows_def by (induction t) auto
  with assms show ?thesis unfolding limits_rows_def by (meson le_less_trans)
qed

text \<open>The rows the attempts of a run may write, and: a successful end deletes none of them in \<open>Q\<close>.\<close>

definition attempt_rows :: "throttle_event list \<Rightarrow> login_failure list" where
  "attempt_rows evs =
     concat (map (\<lambda>ev. case attempt_of ev of None \<Rightarrow> []
                       | Some (i, l) \<Rightarrow> [attempt_row (throttle_time ev) i l]) evs)"

definition spares_rows :: "(login_failure \<Rightarrow> bool) \<Rightarrow> login_failure list \<Rightarrow> throttle_event \<Rightarrow> bool" where
  "spares_rows Q R ev \<longleftrightarrow>
     (case ev of Attempt_ended t slot ok \<Rightarrow> ok \<longrightarrow> list_all (\<lambda>f. Q f \<longrightarrow> \<not> settled slot f) R | _ \<Rightarrow> True)"

definition keeps_rows :: "(login_failure \<Rightarrow> bool) \<Rightarrow> throttle_event \<Rightarrow> bool" where
  "keeps_rows Q ev \<longleftrightarrow>
     (case ev of Attempt_ended t slot ok \<Rightarrow> ok \<longrightarrow> (\<forall>f. Q f \<longrightarrow> \<not> settled slot f) | _ \<Rightarrow> True)"

lemma spares_keeps: "spares_rows Q R ev \<Longrightarrow> keeps_rows (\<lambda>f. Q f \<and> f \<in> set R) ev"
  by (cases ev) (auto simp: spares_rows_def keeps_rows_def list_all_iff)

definition begun_in :: "(login_failure \<Rightarrow> bool) \<Rightarrow> time_ms \<Rightarrow> login_failure list \<Rightarrow> nat" where
  "begun_in Q a fs = count_rows (\<lambda>f. Q f \<and> in_window a f) fs"

lemma begun_in_append: "begun_in Q a (fs @ gs) = begun_in Q a fs + begun_in Q a gs"
  by (simp add: begun_in_def count_rows_def)

lemma count_rows_mono: "(\<And>f. f \<in> set t \<Longrightarrow> P f \<Longrightarrow> P' f) \<Longrightarrow> count_rows P t \<le> count_rows P' t"
  unfolding count_rows_def by (induction t) fastforce+

lemma recent_mono: "a \<le> b \<Longrightarrow> recent Q b t \<le> recent Q a t"
  unfolding recent_def by (rule count_rows_mono) auto

lemma recent_delete_many:
  "\<forall>f. Q f \<and> a \<le> lf_failedAt f \<longrightarrow> \<not> P f \<Longrightarrow> recent Q a (delete_many P t) = recent Q a t"
  unfolding recent_def count_rows_def delete_many_def filter_filter
  by (rule arg_cong [where f = length], rule filter_cong) auto

text \<open>
  What is known of the rows \<open>G\<close> begun so far when the clock shows \<open>now\<close>: the table still counts those
  of the last window, and no window holds more than \<open>m\<close>.
\<close>

definition throttle_inv ::
    "(login_failure \<Rightarrow> bool) \<Rightarrow> nat \<Rightarrow> time_ms \<Rightarrow> login_failure list \<Rightarrow> login_failure list \<Rightarrow> bool" where
  "throttle_inv Q m now G t \<longleftrightarrow>
     (\<forall>a. now - FAILURE_WINDOW_MS \<le> a \<longrightarrow> recent Q a G \<le> recent Q a t) \<and>
     (\<forall>a. begun_in Q a G \<le> m)"

lemma throttle_inv_later: "throttle_inv Q m now G t \<Longrightarrow> now \<le> now' \<Longrightarrow> throttle_inv Q m now' G t"
  by (auto simp: throttle_inv_def)

lemma throttle_inv_delete:
  assumes "throttle_inv Q m now G t" "\<forall>f. Q f \<and> now - FAILURE_WINDOW_MS \<le> lf_failedAt f \<longrightarrow> \<not> P f"
  shows "throttle_inv Q m now G (delete_many P t)"
  unfolding throttle_inv_def
proof (intro conjI allI impI)
  fix a assume "now - FAILURE_WINDOW_MS \<le> a"
  with assms show "recent Q a G \<le> recent Q a (delete_many P t)"
    by (subst recent_delete_many) (auto simp: throttle_inv_def)
qed (use assms in \<open>simp add: throttle_inv_def\<close>)

lemma throttle_inv_begin:
  assumes inv: "throttle_inv Q m now G t" and lim: "limits_rows Q m l" and free: "\<not> throttled now l t"
  shows "throttle_inv Q m now (G @ [attempt_row now i l]) (t @ [attempt_row now i l])"
  unfolding throttle_inv_def
proof (intro conjI allI impI)
  fix a
  show "now - FAILURE_WINDOW_MS \<le> a \<Longrightarrow>
      recent Q a (G @ [attempt_row now i l]) \<le> recent Q a (t @ [attempt_row now i l])"
    using inv by (simp add: recent_append throttle_inv_def)
  show "begun_in Q a (G @ [attempt_row now i l]) \<le> m"
  proof (cases "Q (attempt_row now i l) \<and> in_window a (attempt_row now i l)")
    case False
    then have "begun_in Q a [attempt_row now i l] = 0"
      by (auto simp: begun_in_def)
    with inv show ?thesis by (simp add: begun_in_append throttle_inv_def)
  next
    case True
    then have a: "now - FAILURE_WINDOW_MS \<le> a" by (simp add: in_window_def attempt_row_def)
    have "begun_in Q a G \<le> recent Q a G"
      unfolding begun_in_def recent_def by (rule count_rows_mono) (simp add: in_window_def)
    also have "\<dots> \<le> recent Q a t" using inv a by (simp add: throttle_inv_def)
    also have "\<dots> \<le> recent Q (now - FAILURE_WINDOW_MS) t" using a by (rule recent_mono)
    also have "\<dots> < m" using lim free True unfolding limits_rows_def by blast
    finally show ?thesis by (simp add: begun_in_append) (simp add: begun_in_def count_rows_def)
  qed
qed

lemma throttle_step_attempt:
  "attempt_of ev = Some (i, l) \<Longrightarrow>
     throttle_step ev s =
       (if throttled (throttle_time ev) l (loginFailures s) then (s, [])
        else (s\<lparr>loginFailures := loginFailures s @ [attempt_row (throttle_time ev) i l]\<rparr>,
              [attempt_row (throttle_time ev) i l]))"
  by (cases ev) (auto simp: reserveAttempt_eq)

lemma throttle_step_inv:
  assumes inv: "throttle_inv Q m now G (loginFailures s)" and now: "now \<le> throttle_time ev"
    and lim: "\<And>i l. attempt_of ev = Some (i, l) \<Longrightarrow> limits_rows Q m l" and keep: "keeps_rows Q ev"
    and step: "throttle_step ev s = (s', rows)"
  shows "throttle_inv Q m (throttle_time ev) (G @ rows) (loginFailures s')"
proof (cases "attempt_of ev")
  case None
  have inv': "throttle_inv Q m (throttle_time ev) G (loginFailures s)"
    using inv now by (rule throttle_inv_later)
  from None step keep show ?thesis
  proof (cases ev)
    case (Attempt_ended t slot ok)
    with step keep inv' show ?thesis
      by (cases ok) (auto simp: endAttempt_def incrementCounter_def Let_def keeps_rows_def intro!: throttle_inv_delete)
  next
    case (Pruned t)
    with step inv' show ?thesis
      by (auto simp: pruneLoginFailures_def intro!: throttle_inv_delete)
  qed auto
next
  case (Some il)
  then obtain i l where ev: "attempt_of ev = Some (i, l)" by (cases il) simp
  from inv now have "throttle_inv Q m (throttle_time ev) G (loginFailures s)" by (rule throttle_inv_later)
  with step lim [OF ev] show ?thesis
    by (auto simp: throttle_step_attempt [OF ev] intro: throttle_inv_begin split: if_splits)
qed

lemma begun_bound:
  assumes "throttle_inv Q m now G (loginFailures s)" "sorted (now # map throttle_time evs)"
    and "\<And>ev i l. ev \<in> set evs \<Longrightarrow> attempt_of ev = Some (i, l) \<Longrightarrow> limits_rows Q m l"
    and "\<forall>ev \<in> set evs. keeps_rows Q ev"
  shows "begun_in Q a (G @ begun evs s) \<le> m"
  using assms
proof (induction evs arbitrary: now G s)
  case Nil
  then show ?case by (simp add: throttle_inv_def)
next
  case (Cons ev evs)
  obtain s' rows where step: "throttle_step ev s = (s', rows)" by fastforce
  have "throttle_inv Q m (throttle_time ev) (G @ rows) (loginFailures s')"
    using Cons.prems step by (intro throttle_step_inv [OF Cons.prems(1)]) auto
  from Cons.IH [OF this] Cons.prems(2,4) Cons.prems(3) [OF list.set_intros(2)] step
  show ?case by simp
qed

lemma begun_bound_init:
  assumes "sorted (map throttle_time evs)"
    and "\<And>ev i l. ev \<in> set evs \<Longrightarrow> attempt_of ev = Some (i, l) \<Longrightarrow> limits_rows Q m l"
    and "list_all (keeps_rows Q) evs"
  shows "begun_in Q a (begun evs s) \<le> m"
proof (cases evs)
  case Nil
  then show ?thesis by (simp add: begun_in_def count_rows_def)
next
  case (Cons ev evs')
  have "throttle_inv Q m (throttle_time ev) [] (loginFailures s)"
    by (simp add: throttle_inv_def begun_in_def recent_def count_rows_def)
  from begun_bound [OF this, of evs a] assms Cons show ?thesis by (simp add: list_all_iff)
qed

lemma begun_subset: "set (begun evs s) \<subseteq> set (attempt_rows evs)"
proof (induction evs arbitrary: s)
  case (Cons ev evs)
  obtain s' rows where step: "throttle_step ev s = (s', rows)" by fastforce
  then have "set rows \<subseteq> set (attempt_rows [ev])"
    by (cases "attempt_of ev"; cases ev) (auto simp: attempt_rows_def reserveAttempt_eq split: if_splits)
  with Cons.IH [of s'] step show ?case by (auto simp: attempt_rows_def)
qed simp

lemma throttle_bound:
  assumes "sorted (map throttle_time evs)" "list_all (spares_rows Q (attempt_rows evs)) evs"
    and "\<And>ev i l. attempt_of ev = Some (i, l) \<Longrightarrow> limits_rows Q m l"
  shows "begun_in Q a (begun evs s) \<le> m"
proof -
  let ?Q = "\<lambda>f. Q f \<and> f \<in> set (attempt_rows evs)"
  have "begun_in Q a (begun evs s) = begun_in ?Q a (begun evs s)"
    unfolding begun_in_def count_rows_def
    using begun_subset [of evs s] by (intro arg_cong [where f = length] filter_cong) auto
  also have "\<dots> \<le> m"
    using assms by (intro begun_bound_init)
      (auto simp: list_all_iff intro: limits_rows_subset spares_keeps)
  finally show ?thesis .
qed












text \<open>From one address key (an IPv4 address, or the /64 prefix of an IPv6 address) every closed
  interval of fifteen minutes lets through at most five attempts of the kinds login, device cookie and
  setup token together, as long as no successful end settles one of their rows.\<close>

theorem ip_attempts_bounded:
  assumes "sorted (map throttle_time evs)"
    and "list_all (spares_rows (from_ip (ipRateLimitKey (Some ip))) (attempt_rows evs)) evs"
  shows "begun_in (from_ip (ipRateLimitKey (Some ip))) a (begun evs s) \<le> 5"
  using throttle_bound [OF assms ip_limits_rows] by (simp add: MAX_IP_FAILURES_def)



definition sample_ip_evs :: "throttle_event list" where
  "sample_ip_evs =
     map (\<lambda>i. Login_attempt (int i) i ''10.0.0.1'' (''user'' @ show_nat i)) [1..<5] @
     [Device_attempt 5 5 ''10.0.0.1'' ''n'', Setup_attempt 6 6 ''10.0.0.1'', Pruned 7,
      Login_attempt 8 8 ''10.0.0.1'' ''eve'']"

theorem ip_attempts_bounded_sample:
  "begun_in (from_ip (ipRateLimitKey (Some ''10.0.0.1''))) 0 (begun sample_ip_evs sample_state) \<le> 5 \<and>
   begun_in (from_ip (ipRateLimitKey (Some ''10.0.0.1''))) 0 (begun sample_ip_evs sample_state) = 5"
proof
  show "begun_in (from_ip (ipRateLimitKey (Some ''10.0.0.1''))) 0 (begun sample_ip_evs sample_state) \<le> 5"
    by (rule ip_attempts_bounded) code_simp+
  show "begun_in (from_ip (ipRateLimitKey (Some ''10.0.0.1''))) 0 (begun sample_ip_evs sample_state) = 5"
    by code_simp
qed

end
