(* ===== verification/SignInProps.thy ===== *)
theory SignInProps
  imports AccountProps TokenProps Runs
begin

text \<open>
  Properties of signing in: the first account, the local login, the callback of the identity
  provider, who is an admin; and of revoking grants and tokens and of the cleanup.
\<close>

section \<open>Setup and login\<close>

text \<open>The response starts a session.\<close>

definition starts_session :: "env \<Rightarrow> cookie_op list \<Rightarrow> bool" where
  "starts_session e cks \<longleftrightarrow>
     list_ex (\<lambda>c. case c of Set_cookie k \<Rightarrow> ck_name k = cookieName e ''session'' | Clear_cookie _ _ _ \<Rightarrow> False) cks"

lemma starts_session_simps [simp]:
  "starts_session e [] = False"
  "starts_session e (setSignedCookie e b v site ttl # cks) \<longleftrightarrow> b = ''session'' \<or> starts_session e cks"
  "starts_session e (clearSignedCookie e b # cks) = starts_session e cks"
  "starts_session e (setSession e now u ep # cks)"
  by (auto simp: starts_session_def setSignedCookie_def clearSignedCookie_def setSession_def)

lemma starts_session_csrf [simp]:
  "b \<noteq> ''session'' \<Longrightarrow> starts_session e (snd (issueCsrfToken e b n) # cks) = starts_session e cks"
  "b \<noteq> ''session'' \<Longrightarrow> starts_session e (snd (issueBoundCsrfToken e rq b p u n) # cks) = starts_session e cks"
  by (simp_all add: issueCsrfToken_def issueBoundCsrfToken_def Let_def)

lemma starts_session_Nil_forms [simp]:
  "\<not> starts_session e (snd (setup_form e lr st))"
  "\<not> starts_session e (snd (login_form e lr st))"
  by (simp_all add: setup_form_def login_form_def)

lemma endAttempt_rows [simp]:
  "localUsers (endAttempt slot ok s) = localUsers s" "users (endAttempt slot ok s) = users s"
  "authRequests (endAttempt slot ok s) = authRequests s"
  by (simp_all add: endAttempt_def incrementCounter_def Let_def)

lemma reserveAttempt_rows:
  assumes "reserveAttempt now i l s = (s', r)"
  shows "localUsers s' = localUsers s" "users s' = users s" "authRequests s' = authRequests s"
  using assms by (auto simp: reserveAttempt_def Let_def split: if_splits)

lemma setup_token_stage_rows:
  assumes "setup_token_stage e now lr rq s = (s1, r)"
  shows "localUsers s1 = localUsers s \<and> users s1 = users s"
  using assms reserveAttempt_rows
  by (auto simp: setup_token_stage_def Let_def split: option.splits prod.splits)

lemma setup_token_stage_ok:
  "setup_token_stage e now lr rq s = (s1, None) \<Longrightarrow>
     (\<forall>t. e_setupToken e = Some t \<longrightarrow> setupTokenMatches e (field_or_empty (bodyOf (q_body rq)) ''setup_token'') t)"
  by (auto simp: setup_token_stage_def Let_def split: option.splits prod.splits if_splits)

definition first_account :: "env \<Rightarrow> account_rand \<Rightarrow> body \<Rightarrow> local_user" where
  "first_account e rnd b =
     \<lparr>lu_id = acr_localId rnd, lu_username = normalizeUsername (normalizeUsername (field_or_empty b ''username'')),
      lu_passwordHash = e_bcrypt_hash e (acr_salt rnd) (field_or_empty b ''password''),
      lu_lastLoginAt = None, lu_isActive = True, lu_isAdmin = False, lu_userId = acr_userId rnd\<rparr>"

lemma createFirstLocalUser_cases:
  assumes "createFirstLocalUser e rnd un pw s = (s', r)"
  shows "s' = s \<and> (r = None \<or> (\<exists>x. r = Some (Inl x))) \<or>
     localUsers s = [] \<and> r = Some (Inr (acr_userId rnd)) \<and> length pw \<le> 72 \<and>
     users s' = users s @ [new_user (acr_userId rnd) (normalizeUsername un)] \<and>
     localUsers s' = [\<lparr>lu_id = acr_localId rnd, lu_username = normalizeUsername un,
        lu_passwordHash = e_bcrypt_hash e (acr_salt rnd) pw, lu_lastLoginAt = None, lu_isActive = True,
        lu_isAdmin = False, lu_userId = acr_userId rnd\<rparr>]"
  using assms
  by (auto simp: createFirstLocalUser_def createLocalUser_def hashPassword_def localAccountsExist_def
      MAX_PASSWORD_BYTES_def create_row_def Let_def split: if_splits option.splits prod.splits)

text \<open>C15: The setup page works once.  When an account exists it answers 404 and changes nothing.  When it
  creates an account, there was none, the CSRF token was right, the configured setup token (if any) was
  presented, the password has 12 to 72 bytes; the account is the only one, active and no admin, and the
  session that starts is its session.  In every other case no account is made and no session starts.\<close>

theorem setup_creates_only_the_first_account:
  assumes "setup_post e now lr rnd rq s = (s', rep, cks)"
  shows "(localUsers s \<noteq> [] \<longrightarrow> s' = s \<and> rep = NOT_FOUND \<and> cks = []) \<and>
    (localUsers s' = localUsers s \<and> users s' = users s \<and> \<not> starts_session e cks \<or>
     localUsers s = [] \<and> verifyCsrfToken e rq ''csrf_setup'' \<and>
     (\<forall>t. e_setupToken e = Some t \<longrightarrow>
        e_sha256 e (field_or_empty (bodyOf (q_body rq)) ''setup_token'') = e_sha256 e t) \<and>
     12 \<le> length (field_or_empty (bodyOf (q_body rq)) ''password'') \<and>
     length (field_or_empty (bodyOf (q_body rq)) ''password'') \<le> 72 \<and>
     localUsers s' = [first_account e rnd (bodyOf (q_body rq))] \<and>
     users s' = users s @ [new_user (acr_userId rnd) (lu_username (first_account e rnd (bodyOf (q_body rq))))])"
    (is "?once \<and> (?same \<or> ?made)")
proof
  have "localUsers s \<noteq> [] \<Longrightarrow> (s', rep, cks) = (s, NOT_FOUND, [])"
    using assms by (simp add: setup_post_def localAccountsExist_def)
  then show ?once by blast
  show "?same \<or> ?made"
  proof (cases "localAccountsExist s \<or> \<not> verifyCsrfToken e rq ''csrf_setup''")
    case True
    with assms show ?thesis by (auto simp: setup_post_def split: if_splits)
  next
    case False
    obtain s1 st where stage: "setup_token_stage e now lr rq s = (s1, st)" by fastforce
    note rows = setup_token_stage_rows [OF stage]
    show ?thesis
    proof (cases "st = None \<and> setup_fields_ok (bodyOf (q_body rq))")
      case fields: False
      with assms False stage rows show ?thesis
        by (auto simp: setup_post_def Let_def setup_form_def split: option.splits)
    next
      case True
      let ?un = "normalizeUsername (field_or_empty (bodyOf (q_body rq)) ''username'')"
      let ?pw = "field_or_empty (bodyOf (q_body rq)) ''password''"
      obtain s2 r where mk: "createFirstLocalUser e rnd ?un ?pw s1 = (s2, r)" by fastforce
      have s': "s' = s2" and cks: "starts_session e cks \<Longrightarrow> r = Some (Inr (acr_userId rnd)) \<or> (\<exists>u. r = Some (Inr u))"
        using assms False stage True mk
        by (auto simp: setup_post_def Let_def setup_form_def split: option.splits sum.splits)
      have pw: "12 \<le> length ?pw"
        using True by (auto simp: setup_fields_ok_def passwordProblem_def MIN_PASSWORD_LENGTH_def split: if_splits)
      from createFirstLocalUser_cases [OF mk] show ?thesis
      proof
        assume "s2 = s1 \<and> (r = None \<or> (\<exists>x. r = Some (Inl x)))"
        with s' cks rows show ?thesis by auto
      next
        assume "localUsers s1 = [] \<and> r = Some (Inr (acr_userId rnd)) \<and> length ?pw \<le> 72 \<and>
          users s2 = users s1 @ [new_user (acr_userId rnd) (normalizeUsername ?un)] \<and>
          localUsers s2 = [\<lparr>lu_id = acr_localId rnd, lu_username = normalizeUsername ?un,
            lu_passwordHash = e_bcrypt_hash e (acr_salt rnd) ?pw, lu_lastLoginAt = None, lu_isActive = True,
            lu_isAdmin = False, lu_userId = acr_userId rnd\<rparr>]"
        with s' rows False pw setup_token_stage_ok [of e now lr rq s s1] stage True show ?thesis
          by (simp add: first_account_def setupTokenMatches_def)
      qed
    qed
  qed
qed

lemma validateLocalUser_cases:
  assumes "validateLocalUser e now un pw s = (s', r)"
  shows "s' = s \<and> (\<exists>x. r = Inl x) \<or>
     (\<exists>l. row_of lu_username (normalizeUsername un) (localUsers s) = Some l \<and> lu_isActive l \<and>
        \<not> user_deactivated s (lu_userId l) \<and> e_bcrypt_compare e pw (lu_passwordHash l) \<and>
        r = Inr (lu_userId l) \<and> users s' = users s \<and> authRequests s' = authRequests s)"
  using assms by (auto simp: validateLocalUser_def split: option.splits if_splits)

lemma login_attempt_cases:
  assumes "login_attempt e now lr rq un s = (s1, r)"
  shows "r = None \<and> s1 = s \<or>
     (\<exists>l. r \<noteq> None \<and>
        s1 = s\<lparr>loginFailures := loginFailures s @ [attempt_row now (lr_attemptId lr) l]\<rparr>)"
  using assms by (auto simp: login_attempt_def reserveAttempt_eq split: option.splits if_splits)

text \<open>The requests a successful login leaves: the subject is written to the flow it names.\<close>

definition subject_written :: "time_ms \<Rightarrow> string option \<Rightarrow> string \<Rightarrow> auth_request list \<Rightarrow> auth_request list \<Rightarrow> bool" where
  "subject_written now flow userId t t' \<longleftrightarrow>
     t' = t \<or>
     (\<exists>h r. flow = Some h \<and> row_of ar_handle h t = Some r \<and> now < ar_expiresAt r \<and>
        t' = update_many (\<lambda>x. ar_handle x = h) (\<lambda>x. x\<lparr>ar_subject := Some userId\<rparr>) t)"

lemma login_success_cases:
  assumes "login_success e now lr flow un uid s = (s', rep, cks)"
  shows "s' = s \<and> \<not> starts_session e cks \<and> row_of u_id uid (users s) = None \<or>
     (\<exists>u. row_of u_id uid (users s) = Some u \<and> users s' = users s \<and>
        subject_written now flow uid (authRequests s) (authRequests s') \<and>
        cks = [clearSignedCookie e ''csrf_login'', setSession e now uid (u_sessionEpoch u),
               markReauthenticated e now uid, issueDeviceCookie e now (lr_nonce lr) un (u_deviceEpoch u)])"
  using assms
  by (auto simp: login_success_def continue_flow_def subject_written_def not_le
      split: option.splits prod.splits if_splits)

definition login_name :: "request \<Rightarrow> string" where
  "login_name rq = normalizeUsername (field_or_empty (bodyOf (q_body rq)) ''username'')"

text \<open>A login either stops, with nothing but its attempt recorded, or goes on to \<open>login_success\<close>.\<close>

lemma login_post_cases:
  assumes "login_post e now lr rq s = (s', rep, cks)"
  obtains (stopped) "\<not> starts_session e cks" "users s' = users s" "authRequests s' = authRequests s"
  | (proven) l sl s2 where "verifyCsrfToken e rq ''csrf_login''"
      "\<forall>h. stringField (bodyOf (q_body rq)) ''flow'' = Some h \<and> h \<noteq> [] \<longrightarrow> isFlowBound e rq h"
      "snd (login_attempt e now lr rq (login_name rq) s) \<noteq> None"
      "row_of lu_username (normalizeUsername (login_name rq)) (localUsers s) = Some l" "lu_isActive l"
      "\<not> user_deactivated s (lu_userId l)"
      "e_bcrypt_compare e (field_or_empty (bodyOf (q_body rq)) ''password'') (lu_passwordHash l)"
      "users s2 = users s" "authRequests s2 = authRequests s"
      "login_success e now lr (stringField (bodyOf (q_body rq)) ''flow'') (login_name rq) (lu_userId l)
         (endAttempt sl True s2) = (s', rep, cks)"
proof -
  let ?b = "bodyOf (q_body rq)"
  let ?flow = "stringField ?b ''flow''"
  let ?unbound = "case truthy ?flow of None \<Rightarrow> False | Some h \<Rightarrow> \<not> isFlowBound e rq h"
  obtain s1 slot where att: "login_attempt e now lr rq (login_name rq) s = (s1, slot)" by fastforce
  show thesis
  proof (cases "\<not> verifyCsrfToken e rq ''csrf_login'' \<or> ?unbound \<or> slot = None")
    case True
    with assms att login_attempt_cases [OF att] have "s' = s \<and> \<not> starts_session e cks"
      by (auto simp: login_post_def Let_def login_name_def login_form_def split: if_splits)
    then show thesis using stopped by simp
  next
    case False
    then obtain sl where sl: "slot = Some sl" by auto
    obtain s2 r where val: "validateLocalUser e now (login_name rq) (field_or_empty ?b ''password'') s1 = (s2, r)"
      by fastforce
    from login_attempt_cases [OF att] sl obtain lm where
      s1: "s1 = s\<lparr>loginFailures := loginFailures s @ [attempt_row now (lr_attemptId lr) lm]\<rparr>" by blast
    show thesis
    proof (cases r)
      case (Inl x)
      with validateLocalUser_cases [OF val] assms False att sl val s1
      have "\<not> starts_session e cks \<and> users s' = users s \<and> authRequests s' = authRequests s"
        by (auto simp: login_post_def Let_def login_name_def login_form_def)
      then show thesis using stopped by simp
    next
      case (Inr uid)
      with validateLocalUser_cases [OF val] obtain l where
        l: "row_of lu_username (normalizeUsername (login_name rq)) (localUsers s) = Some l"
        "lu_isActive l" "\<not> user_deactivated s (lu_userId l)"
        "e_bcrypt_compare e (field_or_empty ?b ''password'') (lu_passwordHash l)" "r = Inr (lu_userId l)"
        "users s2 = users s" "authRequests s2 = authRequests s"
        using s1 by (auto simp: user_deactivated_def)
      from assms False att sl val l(5)
      have "login_success e now lr ?flow (login_name rq) (lu_userId l) (endAttempt sl True s2) = (s', rep, cks)"
        by (simp add: login_post_def Let_def login_name_def)
      moreover have "\<forall>h. ?flow = Some h \<and> h \<noteq> [] \<longrightarrow> isFlowBound e rq h" using False by auto
      ultimately show thesis using proven l False att sl by simp
    qed
  qed
qed

text \<open>C16: What a local login establishes.  A session starts only for a request with the right CSRF token,
  whose flow (if it names one) is bound to this browser, whose attempt the throttle let through, and
  whose password is that of an active local account of a user who is not deactivated; the session and the
  device cookie carry that user and the current epochs, and of the authorization requests only the named,
  unexpired one gets a subject.  Otherwise nothing changes but the failure an evaluated attempt leaves.\<close>

theorem login_starts_only_a_proven_session:
  assumes "login_post e now lr rq s = (s', rep, cks)"
  shows "(\<not> starts_session e cks \<and> users s' = users s \<and> authRequests s' = authRequests s) \<or>
    (\<exists>l u. verifyCsrfToken e rq ''csrf_login'' \<and>
       (\<forall>h. stringField (bodyOf (q_body rq)) ''flow'' = Some h \<and> h \<noteq> [] \<longrightarrow> isFlowBound e rq h) \<and>
       snd (login_attempt e now lr rq (login_name rq) s) \<noteq> None \<and>
       row_of lu_username (normalizeUsername (login_name rq)) (localUsers s) = Some l \<and> lu_isActive l \<and>
       e_bcrypt_compare e (field_or_empty (bodyOf (q_body rq)) ''password'') (lu_passwordHash l) \<and>
       row_of u_id (lu_userId l) (users s) = Some u \<and> u_deactivatedAt u = None \<and> users s' = users s \<and>
       subject_written now (stringField (bodyOf (q_body rq)) ''flow'') (lu_userId l)
         (authRequests s) (authRequests s') \<and>
       cks = [clearSignedCookie e ''csrf_login'', setSession e now (lu_userId l) (u_sessionEpoch u),
              markReauthenticated e now (lu_userId l),
              issueDeviceCookie e now (lr_nonce lr) (login_name rq) (u_deviceEpoch u)])"
proof (rule login_post_cases [OF assms])
  assume "\<not> starts_session e cks" "users s' = users s" "authRequests s' = authRequests s"
  then show ?thesis by simp
next
  fix l sl s2
  assume l: "verifyCsrfToken e rq ''csrf_login''"
    "\<forall>h. stringField (bodyOf (q_body rq)) ''flow'' = Some h \<and> h \<noteq> [] \<longrightarrow> isFlowBound e rq h"
    "snd (login_attempt e now lr rq (login_name rq) s) \<noteq> None"
    "row_of lu_username (normalizeUsername (login_name rq)) (localUsers s) = Some l" "lu_isActive l"
    "\<not> user_deactivated s (lu_userId l)"
    "e_bcrypt_compare e (field_or_empty (bodyOf (q_body rq)) ''password'') (lu_passwordHash l)"
    and rows: "users s2 = users s" "authRequests s2 = authRequests s"
    and ok: "login_success e now lr (stringField (bodyOf (q_body rq)) ''flow'') (login_name rq) (lu_userId l)
      (endAttempt sl True s2) = (s', rep, cks)"
  from login_success_cases [OF ok] rows show ?thesis
  proof (elim disjE exE)
    assume "s' = endAttempt sl True s2 \<and> \<not> starts_session e cks \<and>
      row_of u_id (lu_userId l) (users (endAttempt sl True s2)) = None"
    with rows show ?thesis by simp
  next
    fix u
    assume u: "row_of u_id (lu_userId l) (users (endAttempt sl True s2)) = Some u \<and>
      users s' = users (endAttempt sl True s2) \<and>
      subject_written now (stringField (bodyOf (q_body rq)) ''flow'') (lu_userId l)
        (authRequests (endAttempt sl True s2)) (authRequests s') \<and>
      cks = [clearSignedCookie e ''csrf_login'', setSession e now (lu_userId l) (u_sessionEpoch u),
        markReauthenticated e now (lu_userId l),
        issueDeviceCookie e now (lr_nonce lr) (login_name rq) (u_deviceEpoch u)]"
    with l(6) rows have "u_deactivatedAt u = None" by (simp add: user_deactivated_def)
    with u l rows show ?thesis by (intro disjI2 exI [of _ l] exI [of _ u]) simp
  qed
qed

section \<open>The identity provider\<close>

lemma getOidcConfig_rows:
  assumes "getOidcConfig e pv now s = (s', r)"
  shows "authRequests s' = authRequests s" "users s' = users s"
  using assms by (auto simp: getOidcConfig_def split: option.splits if_splits prod.splits)

lemma upsert_oidc_user_cases:
  assumes "upsert_oidc_user now i sub iss claims rt s = Some (s', u)"
  shows "u \<in> set (users s') \<and> u_oidcSub u = Some sub \<and> u_oidcIssuer u = Some iss \<and>
    u_upstreamCheckedAt u = Some now \<and> u_lastKnownClaims u = Some (claimsToStore claims) \<and>
    (u_id u = i \<and> i \<notin> u_id ` set (users s) \<or> u_id u \<in> u_id ` set (users s)) \<and>
    authRequests s' = authRequests s"
proof (cases "row_of oidc_key (Some sub, Some iss) (users s)")
  case None
  with assms show ?thesis by (auto simp: upsert_oidc_user_def Let_def create_row_Some)
next
  case (Some v)
  note v = row_of_SomeD [OF this]
  from assms Some show ?thesis
    using v by (fastforce simp: upsert_oidc_user_def Let_def set_update_many oidc_key_def)
qed

definition answered_request :: "string \<Rightarrow> string \<Rightarrow> auth_request \<Rightarrow> auth_request" where
  "answered_request h userId r =
     (if ar_handle r = h then r\<lparr>ar_upstreamState := None, ar_subject := Some userId\<rparr> else r)"

lemma answered_request_updates:
  assumes "distinct (map ar_handle t)" and "r \<in> set t" and "ar_upstreamState r = Some st"
  shows "update_many (\<lambda>x. ar_handle x = ar_handle r) (\<lambda>x. x\<lparr>ar_subject := Some i\<rparr>)
      (update_many (with_upstream_state (ar_handle r) st) (\<lambda>x. x\<lparr>ar_upstreamState := None\<rparr>) t) =
    map (answered_request (ar_handle r) i) t"
proof -
  have "x \<in> set t \<Longrightarrow> ar_handle x = ar_handle r \<Longrightarrow> x = r" for x
    using assms(1,2) by (auto simp: distinct_map dest: inj_onD)
  then show ?thesis
    using assms(3) by (auto simp: update_many_def answered_request_def with_upstream_state_def)
qed

definition expected_of :: "auth_request \<Rightarrow> string \<Rightarrow> string \<Rightarrow> string \<Rightarrow> code_expect" where
  "expected_of r st nonce verifier =
     \<lparr>ce_state = st, ce_nonce = nonce, ce_verifier = verifier,
      ce_maxAge = (if ar_requireFreshLogin r then Some 600 else None)\<rparr>"

lemma callback_claim_Some:
  assumes "callback_claim e now rq rs s = (s', Some (r, ex))"
  obtains st nonce verifier where "rs = Some st" "st \<noteq> []" "r \<in> set (authRequests s)"
    "ar_upstreamState r = Some st" "now \<le> ar_expiresAt r" "ar_upstreamNonce r = Some nonce"
    "ar_upstreamVerifier r = Some verifier" "isFlowBound e rq (ar_handle r)" "ex = expected_of r st nonce verifier"
    "s' = s\<lparr>authRequests := update_many (with_upstream_state (ar_handle r) st)
              (\<lambda>x. x\<lparr>ar_upstreamState := None\<rparr>) (authRequests s)\<rparr>"
proof -
  from assms obtain st where st: "rs = Some st" "st \<noteq> []" "truthy rs = Some st"
    by (auto simp: callback_claim_def split: option.splits)
  with assms obtain r0 where r0: "List.find (\<lambda>r. ar_upstreamState r = Some st) (authRequests s) = Some r0"
    by (auto simp: callback_claim_def split: option.splits)
  with st assms have "r0 = r" by (auto simp: callback_claim_def split: option.splits if_splits)
  moreover from r0 have "r0 \<in> set (authRequests s)" "ar_upstreamState r0 = Some st"
    by (auto simp: find_Some_iff)
  ultimately show thesis
    using that [of st] assms st r0
    by (auto simp: callback_claim_def expected_of_def FRESH_LOGIN_MAX_AGE_S_def split: option.splits if_splits)
qed

lemma callback_finish_Some:
  assumes "callback_finish e now i r ans s = (s', Some uid)"
  obtains claims issuer sub s1 u where "ca_claims ans = Some claims" "e_oidcIssuer e = Some issuer"
    "subjectFromClaims e claims = Some sub"
    "upsert_oidc_user now i sub issuer claims (ca_refreshToken ans) s = Some (s1, u)"
    "u_deactivatedAt u = None" "uid = u_id u"
    "s' = s1\<lparr>authRequests := update_many (\<lambda>x. ar_handle x = ar_handle r)
              (\<lambda>x. x\<lparr>ar_subject := Some (u_id u)\<rparr>) (authRequests s1)\<rparr>"
  using assms by (auto simp: callback_finish_def split: option.splits if_splits prod.splits)

text \<open>C17: What a finished upstream sign-in proves.  It answers a stored, unexpired request of this
  browser whose one-time state it consumed; the provider was asked to check exactly that request's state,
  nonce, verifier and (for a forced sign-in) age; the subject of the claims it returned is the stored
  subject, at the configured issuer, of the user who is signed in and is not deactivated; and of all the
  requests only this one changed: its state is spent and it carries the user.\<close>

theorem callback_signs_in_the_subject:
  assumes "handleUpstreamCallback e pv ex now newId rq rs s = (s', Some (h, uid))"
    and "distinct (map ar_handle (authRequests s))"
  shows "\<exists>st r nonce verifier ans claims sub u.
    rs = Some st \<and> st \<noteq> [] \<and> r \<in> set (authRequests s) \<and> ar_handle r = h \<and> ar_upstreamState r = Some st \<and>
    now \<le> ar_expiresAt r \<and> isFlowBound e rq h \<and>
    ar_upstreamNonce r = Some nonce \<and> ar_upstreamVerifier r = Some verifier \<and>
    ex (expected_of r st nonce verifier) = Some ans \<and> ca_claims ans = Some claims \<and>
    subjectFromClaims e claims = Some sub \<and>
    u \<in> set (users s') \<and> u_id u = uid \<and> u_oidcSub u = Some sub \<and> e_oidcIssuer e \<noteq> None \<and>
    u_oidcIssuer u = e_oidcIssuer e \<and> u_deactivatedAt u = None \<and>
    authRequests s' = map (answered_request h uid) (authRequests s)"
proof -
  obtain s1 q where cfg: "getOidcConfig e pv now s = (s1, q)" by fastforce
  note rows = getOidcConfig_rows [OF cfg]
  from assms(1) cfg obtain s2 r x ans where claim: "callback_claim e now rq rs s1 = (s2, Some (r, x))"
    and ans: "ex x = Some ans" and fin: "callback_finish e now newId r ans s2 = (s', Some uid)"
    and h: "h = ar_handle r"
    by (auto simp: handleUpstreamCallback_def split: option.splits prod.splits)
  obtain st nonce verifier where c: "rs = Some st" "st \<noteq> []" "r \<in> set (authRequests s)"
    "ar_upstreamState r = Some st" "now \<le> ar_expiresAt r" "ar_upstreamNonce r = Some nonce"
    "ar_upstreamVerifier r = Some verifier" "isFlowBound e rq (ar_handle r)" "x = expected_of r st nonce verifier"
    "s2 = s1\<lparr>authRequests := update_many (with_upstream_state (ar_handle r) st)
              (\<lambda>x. x\<lparr>ar_upstreamState := None\<rparr>) (authRequests s)\<rparr>"
    by (rule callback_claim_Some [OF claim]) (simp add: rows)
  obtain claims issuer sub s3 u where f: "ca_claims ans = Some claims" "e_oidcIssuer e = Some issuer"
    "subjectFromClaims e claims = Some sub"
    "upsert_oidc_user now newId sub issuer claims (ca_refreshToken ans) s2 = Some (s3, u)"
    "u_deactivatedAt u = None" "uid = u_id u"
    "s' = s3\<lparr>authRequests := update_many (\<lambda>x. ar_handle x = ar_handle r)
              (\<lambda>x. x\<lparr>ar_subject := Some (u_id u)\<rparr>) (authRequests s3)\<rparr>"
    by (rule callback_finish_Some [OF fin])
  note up = upsert_oidc_user_cases [OF f(4)]
  have "authRequests s' = map (answered_request h uid) (authRequests s)"
    using up f(6,7) c(10) h answered_request_updates [OF assms(2) c(3,4), of uid] by simp
  with c f up h ans show ?thesis
    by (intro exI [of _ st] exI [of _ r] exI [of _ nonce] exI [of _ verifier] exI [of _ ans]
        exI [of _ claims] exI [of _ sub] exI [of _ u]) simp
qed

text \<open>C18: A re-check of an old sign-in never overwrites a newer one.  A re-check reads a user's upstream
  token and check time and then calls the provider; if the user signs in again in the meantime (the
  callback stores the new check time), the late answer, whatever it is, leaves the user rows as the
  sign-in stored them.\<close>

theorem newer_sign_in_survives_recheck:
  assumes "upsert_oidc_user now i sub iss claims rt s = Some (s1, v)" and "db_keys_ok s1"
    and "checkedAt \<noteq> Some now"
    and "recheck_call e pv later (u_id v) token checkedAt sub' s1 = (s2, r)"
  shows "users s2 = users s1"
proof (rule recheck_call_newer_wins [OF assms(4)], intro ballI impI disjI2)
  fix u assume u: "u \<in> set (users s1)" "u_id u = u_id v"
  note v = upsert_oidc_user_cases [OF assms(1)]
  from assms(2) u v have "u = v" by (auto simp: db_keys_ok_def distinct_map dest: inj_onD)
  with v assms(3) show "u_upstreamCheckedAt u \<noteq> checkedAt" by simp
qed

text \<open>Who is an admin: an active local account marked as admin of a user who is not deactivated; or,
  with OIDC, a user the provider still vouches for whose stored groups meet the configured admin groups.
  A failed re-check of the upstream user is always a no.\<close>

theorem isAdmin_sound:
  assumes "isAdmin e pv now userId s = (s', True)"
  shows "(e_enableLocalAccounts e \<and>
      (\<exists>l u. row_of lu_userId userId (localUsers s) = Some l \<and> lu_isAdmin l \<and> lu_isActive l \<and>
         row_of u_id userId (users s) = Some u \<and> u_deactivatedAt u = None)) \<or>
    (e_enableOidc e \<and> e_adminGroups e \<noteq> [] \<and> recheckUpstream e pv now userId s = (s', None) \<and>
     (\<exists>u. row_of u_id userId (users s) = Some u \<and>
        (\<forall>sub. u_oidcSub u = Some sub \<longrightarrow> u_oidcIssuer u = e_oidcIssuer e)) \<and>
     groupsSatisfy (loadUserGroups (e_claimMap e) s' userId) (Some (e_adminGroups e)))"
proof (cases "e_enableLocalAccounts e \<and> local_admin s userId")
  case True
  then show ?thesis by (auto simp: local_admin_def split: option.splits)
next
  case False
  with assms have oidc: "e_enableOidc e" "e_adminGroups e \<noteq> []" "recheckUpstream e pv now userId s = (s', None)"
    "groupsSatisfy (loadUserGroups (e_claimMap e) s' userId) (Some (e_adminGroups e))"
    by (auto simp: isAdmin_def split: if_splits option.splits prod.splits)
  obtain u where "row_of u_id userId (users s) = Some u"
    "\<forall>sub. u_oidcSub u = Some sub \<longrightarrow> u_oidcIssuer u = e_oidcIssuer e"
    by (rule recheck_ok [OF oidc(3)]) auto
  with oidc show ?thesis by blast
qed

section \<open>Revocation and cleanup\<close>



text \<open>In a state whose grant is revoked, or gone, neither its codes nor its tokens yield anything.\<close>

definition grant_dead :: "string \<Rightarrow> 'a db_scheme \<Rightarrow> bool" where
  "grant_dead gid s \<longleftrightarrow> (\<forall>g. row_of gr_id gid (grants s) = Some g \<longrightarrow> gr_revokedAt g \<noteq> None)"






text \<open>The redemption a revocation does not stop: the code passes its checks, the user revokes the grant,
  the claim commits; the client has tokens, and the new refresh token is live under a revoked grant.\<close>

lemma revoked_while_redeeming:
  "let s1 = fst (code_checks sample_env 1000 sample_rand code_body sample_state);
       s2 = revoke_grant 1000 ''g1'' s1;
       out = code_commit sample_env 1000 sample_rand
         (projr (snd (code_checks sample_env 1000 sample_rand code_body sample_state))) s2 in
   granted (snd out) \<and> grant_dead ''g1'' (fst out) \<and> live (fst out) (Refresh ''hnew'')"
proof -
  let ?s2 = "revoke_grant 1000 ''g1'' (fst (code_checks sample_env 1000 sample_rand code_body sample_state))"
  let ?p = "code_commit sample_env 1000 sample_rand
         (projr (snd (code_checks sample_env 1000 sample_rand code_body sample_state))) ?s2"
  have g: "granted (snd ?p)" by code_simp
  have l: "live (fst ?p) (Refresh ''hnew'')" by code_simp
  have d: "map_option gr_revokedAt (row_of gr_id ''g1'' (grants (fst ?p))) = Some (Some 1000)" by code_simp
  then have "grant_dead ''g1'' (fst ?p)" by (auto simp: grant_dead_def)
  with g l show ?thesis unfolding Let_def by blast
qed

text \<open>C20: The revocation endpoint revokes a refresh token's whole family, and nothing else, only for the
  client the token was issued to, once that client is authenticated, and a failure to authenticate that
  client is refused with nothing of the flow changed.  For every other token, unknown, another client's
  or an access token, the answer is the same success and nothing at all changes, so a caller that does
  not hold the client's own token learns nothing about it.\<close>

theorem revocation_needs_the_client:
  assumes "oauth_revoke e now req s = (s', r)" and "body = bodyOf req"
    and "own = (\<lambda>token cid row. truthy (stringField body ''token'') = Some token \<and>
       truthy (stringField body ''client_id'') = Some cid \<and>
       row_of rt_tokenHash (e_sha256 e token) (refreshTokens s) = Some row \<and> rt_clientId row = cid)"
  shows "(truthy (stringField body ''token'') = None \<or> truthy (stringField body ''client_id'') = None \<longrightarrow>
      s' = s \<and> r = Revocation_error 400 ''invalid_request'' (Text ''token and client_id are required'')) \<and>
    (truthy (stringField body ''token'') \<noteq> None \<and> truthy (stringField body ''client_id'') \<noteq> None \<and>
       (\<nexists>token cid row. own token cid row) \<longrightarrow> s' = s \<and> r = Revocation_done) \<and>
    (\<forall>token cid row. own token cid row \<longrightarrow>
       r = Revocation_done \<and> client_proven e now cid body s \<and> family_revoked now (rt_grantId row) s s' \<or>
       snd (check_client e now cid body s) \<noteq> None \<and>
       (\<exists>d. r = Revocation_error 400 ''invalid_client'' d) \<and> flow_rows s' = flow_rows s)"
proof -
  have other: "s' = s \<and> r = Revocation_done"
    if "truthy (stringField body ''token'') = Some token" "truthy (stringField body ''client_id'') = Some cid"
      "\<nexists>token cid row. own token cid row" for token cid
    using assms(1) that unfolding assms(2,3)
    by (auto simp: oauth_revoke_def Let_def split: option.splits if_splits)
  have mine: "r = Revocation_done \<and> client_proven e now cid body s \<and> family_revoked now (rt_grantId row) s s' \<or>
       snd (check_client e now cid body s) \<noteq> None \<and>
       (\<exists>d. r = Revocation_error 400 ''invalid_client'' d) \<and> flow_rows s' = flow_rows s"
    if own: "own token cid row" for token cid row
  proof -
    obtain s1 er where chk: "check_client e now cid body s = (s1, er)" by fastforce
    note f = check_client_flow_rows [OF chk]
    show ?thesis
    proof (cases er)
      case None
      with own chk assms(1,2) have "s' = s1\<lparr>refreshTokens := update_many (live_token (rt_grantId row))
          (revoke_token now) (refreshTokens s1)\<rparr>" "r = Revocation_done"
        by (simp_all add: assms(3) oauth_revoke_def)
      with flow_rows_eqD [OF f] check_client_proven [OF chk [unfolded None]] show ?thesis
        by (simp add: family_revoked_def)
    next
      case (Some x)
      with chk obtain d where "er = Some (Token_error 400 ''invalid_client'' d)"
        by (auto simp: check_client_def split: prod.splits option.splits)
      with own chk assms(1,2) f show ?thesis by (auto simp: assms(3) oauth_revoke_def)
    qed
  qed
  have missing: "s' = s \<and> r = Revocation_error 400 ''invalid_request'' (Text ''token and client_id are required'')"
    if "truthy (stringField body ''token'') = None \<or> truthy (stringField body ''client_id'') = None"
    using assms(1) that unfolding assms(2) by (auto simp: oauth_revoke_def Let_def split: option.splits)
  show ?thesis using other mine missing by blast
qed

text \<open>The cleanup is invisible to the flows.  What it removes had expired and would be refused from
  now on by the handler that reads it; a row that has not expired is found as before; and the users,
  grants, keys, accounts and servers are not touched.\<close>

theorem cleanup_removes_only_expired:
  assumes "db_keys_ok s"
  shows "(\<forall>h. row_of ac_codeHash h (authCodes (pruneExpiredRows now s)) =
       (case row_of ac_codeHash h (authCodes s) of
          None \<Rightarrow> None | Some c \<Rightarrow> if ac_expiresAt c < now then None else Some c)) \<and>
    (\<forall>h. row_of dv_deviceCodeHash h (deviceCodes (pruneExpiredRows now s)) =
       (case row_of dv_deviceCodeHash h (deviceCodes s) of
          None \<Rightarrow> None | Some d \<Rightarrow> if dv_expiresAt d < now then None else Some d)) \<and>
    (\<forall>h. row_of rt_tokenHash h (refreshTokens (pruneExpiredRows now s)) =
       (case row_of rt_tokenHash h (refreshTokens s) of
          None \<Rightarrow> None | Some t \<Rightarrow> if rt_expiresAt t < now then None else Some t)) \<and>
    (\<forall>h. row_of ar_handle h (authRequests (pruneExpiredRows now s)) =
       (case row_of ar_handle h (authRequests s) of
          None \<Rightarrow> None | Some r \<Rightarrow> if ar_expiresAt r < now then None else Some r)) \<and>
    set (loginFailures (pruneExpiredRows now s)) =
      {f \<in> set (loginFailures s). now - 15 * 60 * 1000 \<le> lf_failedAt f} \<and>
    users (pruneExpiredRows now s) = users s \<and> localUsers (pruneExpiredRows now s) = localUsers s \<and>
    grants (pruneExpiredRows now s) = grants s \<and> signingKeys (pruneExpiredRows now s) = signingKeys s \<and>
    resourceServers (pruneExpiredRows now s) = resourceServers s \<and>
    deniedClients (pruneExpiredRows now s) = deniedClients s"
  using assms
  by (simp add: pruneExpiredRows_def pruneLoginFailures_def db_keys_ok_def row_of_delete_many
      FAILURE_WINDOW_MS_def not_less)

section \<open>Samples\<close>

text \<open>The properties above applied at concrete inputs.\<close>

definition form :: "(string \<times> string) list \<Rightarrow> (string \<times> string) list \<Rightarrow> request" where
  "form fs cookies =
     \<lparr>q_body = Some (JObj (map (\<lambda>(k, v). (k, JStr v)) fs)), q_query = [],
      q_signed = map (\<lambda>(k, v). (''__Host-'' @ k, v)) cookies, q_ip = Some ''10.0.0.1''\<rparr>"

definition setup_request :: request where
  "setup_request = form [(''csrf_token'', ''t''), (''username'', '' Alice''), (''password'', ''correct horse''),
     (''confirm_password'', ''correct horse'')] [(''csrf_setup'', ''t'')]"

definition sample_login_rand :: login_rand where
  "sample_login_rand = \<lparr>lr_attemptId = 1, lr_csrf = ''c'', lr_nonce = ''n''\<rparr>"

definition sample_account_rand :: account_rand where
  "sample_account_rand = \<lparr>acr_userId = ''u2'', acr_localId = ''l2'', acr_salt = ''s''\<rparr>"

theorem setup_creates_only_the_first_account_sample:
  "localUsers (fst (setup_post sample_env 1000 sample_login_rand sample_account_rand setup_request sample_state)) =
     [first_account sample_env sample_account_rand (bodyOf (q_body setup_request))]"
proof -
  obtain s' rep cks where run:
    "setup_post sample_env 1000 sample_login_rand sample_account_rand setup_request sample_state = (s', rep, cks)"
    by (rule prod_cases3)
  have "localUsers (fst (setup_post sample_env 1000 sample_login_rand sample_account_rand setup_request
      sample_state)) \<noteq> localUsers sample_state"
    by code_simp
  with setup_creates_only_the_first_account [OF run] run show ?thesis by auto
qed

definition account_state :: upstream_state where
  "account_state = sample_state\<lparr>localUsers := [\<lparr>lu_id = ''l1'', lu_username = ''alice'',
     lu_passwordHash = ''kcorrect horse'', lu_lastLoginAt = None, lu_isActive = True, lu_isAdmin = True,
     lu_userId = ''u1''\<rparr>]\<rparr>"

definition login_request :: request where
  "login_request = form [(''csrf_token'', ''t''), (''username'', ''Alice ''), (''password'', ''correct horse'')]
     [(''csrf_login'', ''t'')]"

theorem login_starts_only_a_proven_session_sample:
  "starts_session sample_env (snd (snd (login_post sample_env 1000 sample_login_rand login_request account_state))) \<and>
   snd (login_attempt sample_env 1000 sample_login_rand login_request (login_name login_request) account_state) \<noteq> None"
proof -
  obtain s' rep cks where run:
    "login_post sample_env 1000 sample_login_rand login_request account_state = (s', rep, cks)"
    by (rule prod_cases3)
  have "starts_session sample_env (snd (snd (login_post sample_env 1000 sample_login_rand login_request account_state)))"
    by code_simp
  with login_starts_only_a_proven_session [OF run] run show ?thesis by auto
qed

theorem isAdmin_sound_sample:
  "snd (isAdmin sample_env sample_provider 1000 ''u1'' account_state) \<and>
   (\<exists>l. row_of lu_userId ''u1'' (localUsers account_state) = Some l \<and> lu_isAdmin l \<and> lu_isActive l)"
proof
  show yes: "snd (isAdmin sample_env sample_provider 1000 ''u1'' account_state)" by code_simp
  have run: "isAdmin sample_env sample_provider 1000 ''u1'' account_state =
      (fst (isAdmin sample_env sample_provider 1000 ''u1'' account_state), True)"
    by (rule prod_eqI) (simp, simp add: yes)
  have "e_adminGroups sample_env = []" by (simp add: sample_env_def)
  with isAdmin_sound [OF run]
  show "\<exists>l. row_of lu_userId ''u1'' (localUsers account_state) = Some l \<and> lu_isAdmin l \<and> lu_isActive l"
    by blast
qed

theorem cleanup_removes_only_expired_sample:
  "row_of ac_codeHash ''hcode'' (authCodes (pruneExpiredRows 600000 sample_state)) = Some sample_code \<and>
   row_of ac_codeHash ''hcode'' (authCodes (pruneExpiredRows 600001 sample_state)) = None"
proof -
  have ok: "db_keys_ok sample_state" by code_simp
  have "row_of ac_codeHash ''hcode'' (authCodes sample_state) = Some sample_code" by code_simp
  moreover have "ac_expiresAt sample_code = 600000" by code_simp
  ultimately show ?thesis
    using cleanup_removes_only_expired [OF ok, of 600000] cleanup_removes_only_expired [OF ok, of 600001]
    by (simp del: pruneExpiredRows_def)
qed

definition revoke_request :: request where
  "revoke_request = form [(''token'', ''rt''), (''client_id'', ''https://a.example/c'')] []"

definition foreign_request :: request where
  "foreign_request = form [(''token'', ''rt''), (''client_id'', ''x'')] []"

theorem revocation_needs_the_client_sample:
  "snd (oauth_revoke sample_env 1000 (q_body revoke_request) sample_state) = Revocation_done \<and>
   \<not> live_token ''g1'' (hd (refreshTokens (fst (oauth_revoke sample_env 1000 (q_body revoke_request) sample_state)))) \<and>
   oauth_revoke sample_env 1000 (q_body foreign_request) sample_state = (sample_state, Revocation_done)"
proof -
  note m = revocation_needs_the_client [OF prod.collapse [symmetric] refl refl]
  let ?b = "bodyOf (q_body revoke_request)" and ?f = "bodyOf (q_body foreign_request)"
  have b: "truthy (stringField ?b ''token'') = Some ''rt''"
    "truthy (stringField ?b ''client_id'') = Some (rt_clientId sample_refresh)"
    "row_of rt_tokenHash (e_sha256 sample_env ''rt'') (refreshTokens sample_state) = Some sample_refresh"
    "snd (check_client sample_env 1000 (rt_clientId sample_refresh) ?b sample_state) = None" by code_simp+
  have f: "truthy (stringField ?f ''token'') = Some ''rt''" "truthy (stringField ?f ''client_id'') = Some ''x''"
    "rt_clientId sample_refresh \<noteq> ''x''" by code_simp+
  have g: "rt_grantId sample_refresh = ''g1''" "refreshTokens sample_state \<noteq> []"
    by (simp_all add: sample_refresh_def sample_state_def)
  have rev: "snd (oauth_revoke sample_env 1000 (q_body revoke_request) sample_state) = Revocation_done"
    "family_revoked 1000 ''g1'' sample_state (fst (oauth_revoke sample_env 1000 (q_body revoke_request) sample_state))"
    using m [where e = sample_env and now = 1000 and req = "q_body revoke_request" and s = sample_state] b g(1) by auto
  then have u: "refreshTokens (fst (oauth_revoke sample_env 1000 (q_body revoke_request) sample_state)) =
      update_many (live_token ''g1'') (revoke_token 1000) (refreshTokens sample_state)"
    by (simp add: family_revoked_def)
  have "\<not> live_token ''g1'' (hd (refreshTokens (fst (oauth_revoke sample_env 1000 (q_body revoke_request) sample_state))))"
    unfolding u by (rule revoked_family, rule hd_in_set) (use g(2) in \<open>simp add: update_many_def\<close>)
  moreover have "fst (oauth_revoke sample_env 1000 (q_body foreign_request) sample_state) = sample_state \<and>
      snd (oauth_revoke sample_env 1000 (q_body foreign_request) sample_state) = Revocation_done"
    using m [where e = sample_env and now = 1000 and req = "q_body foreign_request" and s = sample_state] b(3) f by auto
  ultimately show ?thesis using rev(1) by (auto simp: prod_eq_iff)
qed



definition idp_env :: env where
  "idp_env = sample_env\<lparr>e_enableOidc := True, e_oidcIssuer := Some ''https://idp'',
     e_sha256 := (\<lambda>x. replicate 32 CHR ''a'' @ x)\<rparr>"

definition idp_row :: auth_request where
  "idp_row = (self_login_row 0 ''handle'' ''/grants'' False)
     \<lparr>ar_upstreamState := Some ''st'', ar_upstreamNonce := Some ''no'', ar_upstreamVerifier := Some ''ve''\<rparr>"

definition idp_state :: upstream_state where
  "idp_state = sample_state\<lparr>authRequests := [idp_row], oidcConfig := Some (\<lparr>co_authorization_endpoint = None\<rparr>, 0)\<rparr>"

definition idp_exchange :: exchange where
  "idp_exchange x =
     (if ce_nonce x = ''no'' \<and> ce_verifier x = ''ve''
      then Some \<lparr>ca_claims = Some (JObj [(''sub'', JStr ''alice'')]), ca_refreshToken = Some ''up''\<rparr> else None)"

definition idp_request :: request where
  "idp_request = form [] [(''flow_binding'', replicate 32 CHR ''a'')]"

abbreviation idp_callback :: "upstream_state \<times> (string \<times> string) option" where
  "idp_callback \<equiv>
     handleUpstreamCallback idp_env sample_provider idp_exchange 1000 ''u7'' idp_request (Some ''st'') idp_state"

theorem callback_signs_in_the_subject_sample:
  "snd idp_callback = Some (''handle'', ''u7'') \<and>
   authRequests (fst idp_callback) = [answered_request ''handle'' ''u7'' idp_row]"
proof
  show r: "snd idp_callback = Some (''handle'', ''u7'')" by code_simp
  have run: "idp_callback = (fst idp_callback, Some (''handle'', ''u7''))"
    by (rule prod_eqI) (simp, simp add: r)
  have rows: "authRequests idp_state = [idp_row]" by (simp add: idp_state_def)
  with callback_signs_in_the_subject [OF run]
  show "authRequests (fst idp_callback) = [answered_request ''handle'' ''u7'' idp_row]" by simp blast
qed

definition alice :: user where
  "alice = sample_user\<lparr>u_oidcSub := Some ''alice'', u_oidcIssuer := Some ''https://idp'',
     u_upstreamRefreshToken := Some ''old'', u_upstreamCheckedAt := Some 5\<rparr>"

definition alice_state :: upstream_state where
  "alice_state = idp_state\<lparr>users := [alice]\<rparr>"

text \<open>The re-check started at 5 and the sign-in stored the check time 1000.\<close>

abbreviation alice_again :: "(upstream_state \<times> user) option" where
  "alice_again \<equiv> upsert_oidc_user 1000 ''u9'' ''alice'' ''https://idp'' (JObj [(''sub'', JStr ''alice'')]) (Some ''new'') alice_state"

abbreviation late_recheck :: "upstream_state \<times> recheck" where
  "late_recheck \<equiv> recheck_call idp_env sample_provider 400000 (u_id (snd (the alice_again))) ''old'' (Some 5) ''alice''
     (fst (the alice_again))"

theorem newer_sign_in_survives_recheck_sample:
  "users (fst late_recheck) = users (fst (the alice_again)) \<and> map u_upstreamRefreshToken (users (fst late_recheck)) = [Some ''new'']"
proof -
  have "alice_again \<noteq> None" by code_simp
  then have up: "alice_again = Some (fst (the alice_again), snd (the alice_again))" by simp
  have ok: "db_keys_ok (fst (the alice_again))" by code_simp
  have late: "late_recheck = (fst late_recheck, snd late_recheck)" by simp
  have same: "users (fst late_recheck) = users (fst (the alice_again))"
    by (rule newer_sign_in_survives_recheck [OF up ok _ late]) simp
  have "map u_upstreamRefreshToken (users (fst (the alice_again))) = [Some ''new'']" by code_simp
  with same show ?thesis by (simp only: simp_thms)
qed

end
