(* ===== verification/FlowProps.thy ===== *)
theory FlowProps
  imports World Sample
begin

text \<open>
  Properties of the two steps between a client and its authorization code: the authorization
  request and the consent.
\<close>

section \<open>Consent\<close>

text \<open>What a live grant held before.\<close>

definition granted_before :: "(grant \<Rightarrow> string list) \<Rightarrow> string \<times> string \<times> string \<Rightarrow> 'a db_scheme \<Rightarrow> string list" where
  "granted_before f key s =
     (case row_of grant_key key (grants s) of
        None \<Rightarrow> [] | Some g \<Rightarrow> if gr_revokedAt g = None then f g else [])"

text \<open>The grant an approval of \<open>r\<close> leaves: the new scopes and claims added to those that were live, no
  short-lived scope among them.\<close>

definition approved_grant ::
    "auth_request \<Rightarrow> string \<Rightarrow> resource_server \<Rightarrow> 'a registry_state_scheme \<Rightarrow> 'a registry_state_scheme \<Rightarrow> string \<Rightarrow> bool" where
  "approved_grant r subject rs s s' gid \<longleftrightarrow>
     (let key = (subject, ar_clientId r, ar_resource r) in
      \<exists>g \<in> set (grants s'). gr_id g = gid \<and> grant_key g = key \<and> gr_revokedAt g = None \<and>
        set (gr_scopes g) = {sc \<in> set (granted_before gr_scopes key s) \<union> set (ar_scopes r).
                               \<not> isShortLivedScope s (ar_resource r) sc} \<and>
        set (gr_releasedClaims g) = set (granted_before gr_releasedClaims key s) \<union>
          (set (ar_shownClaims r) \<inter> set (rs_releaseClaims rs)) \<and>
        filter (\<lambda>x. grant_key x \<noteq> key) (grants s') = filter (\<lambda>x. grant_key x \<noteq> key) (grants s))"

lemma upsertGrant_approved:
  assumes "upsertGrant now i r subject rs s = Some (s', gid)"
  shows "approved_grant r subject rs s s' gid \<and> authRequests s' = authRequests s \<and>
    authCodes s' = authCodes s \<and> deviceCodes s' = deviceCodes s \<and> refreshTokens s' = refreshTokens s \<and>
    registry s' = registry s"
proof (cases "row_of grant_key (subject, ar_clientId r, ar_resource r) (grants s)")
  case None
  with assms show ?thesis
    by (auto simp: upsertGrant_def Let_def create_row_Some approved_grant_def granted_before_def
        merged_scopes_def merged_claims_def grant_key_def)
next
  case (Some g)
  note g = row_of_SomeD [OF this]
  let ?f = "\<lambda>x. x\<lparr>gr_scopes := merged_scopes s (ar_resource r) (granted_before gr_scopes (grant_key g) s) (ar_scopes r),
      gr_releasedClaims := merged_claims rs (granted_before gr_releasedClaims (grant_key g) s) (ar_shownClaims r),
      gr_revokedAt := None\<rparr>"
  have b: "granted_before f (grant_key g) s = (if gr_revokedAt g = None then f g else [])" for f :: "grant \<Rightarrow> string list"
    using Some g by (simp add: granted_before_def)
  from assms Some g b have s': "s' = s\<lparr>grants := update_many (\<lambda>x. grant_key x = grant_key g) ?f (grants s)\<rparr>"
    and gid: "gid = gr_id g"
    by (auto simp: upsertGrant_def Let_def)
  have key: "grant_key (?f x) = grant_key x" for x by (simp add: grant_key_def)
  have "?f g \<in> set (grants s')" using g by (force simp: s' set_update_many)
  moreover have "filter (\<lambda>x. grant_key x \<noteq> grant_key g) (grants s') = filter (\<lambda>x. grant_key x \<noteq> grant_key g) (grants s)"
    unfolding s' by simp (rule filter_update_many_other, simp add: key)
  moreover have "gr_id (?f g) = gid" "grant_key (?f g) = grant_key g" using gid key by simp_all
  ultimately have "approved_grant r subject rs s s' gid"
    unfolding approved_grant_def Let_def g(2) [symmetric]
    by (intro bexI [of _ "?f g"]) (auto simp: merged_scopes_def merged_claims_def)
  then show ?thesis by (simp add: s')
qed

text \<open>What an approval rests on.\<close>

definition approval_checked ::
    "env \<Rightarrow> time_ms \<Rightarrow> request \<Rightarrow> auth_request \<Rightarrow> string \<Rightarrow> resource_server \<Rightarrow>
     'a client_state_scheme \<Rightarrow> 'a client_state_scheme \<Rightarrow> bool" where
  "approval_checked e now rq r subject rs s s1 \<longleftrightarrow>
     row_of ar_handle (ar_handle r) (authRequests s) = Some r \<and> ar_subject r = Some subject \<and>
     now \<le> ar_expiresAt r \<and> \<not> isSelfLogin r \<and>
     isFlowBound e rq (ar_handle r) \<and> getSessionUserId e now rq s = Some subject \<and>
     verifyBoundCsrfToken e rq ''csrf_consent'' (consentCsrfPurpose (ar_handle r)) subject \<and>
     stringField (bodyOf (q_body rq)) ''action'' = Some ''approve'' \<and>
     (\<exists>client. resolveClient e now (ar_clientId r) s = (s1, Some client)) \<and>
     lookupResourceServer s1 (ar_resource r) = Some rs \<and>
     (\<forall>n \<in> set (ar_scopes r). groupsSatisfy (loadUserGroups (e_claimMap e) s1 subject) (required_groups rs n)) \<and>
     (requestsFreshSignIn (Some rs) (ar_scopes r) \<longrightarrow> ar_requireFreshLogin r)"

lemma findForbiddenScope_None:
  assumes "findForbiddenScope e r subject rs s = None" and "n \<in> set (ar_scopes r)"
  shows "groupsSatisfy (loadUserGroups (e_claimMap e) s subject) (required_groups rs n)"
proof (cases "required_groups rs n")
  case None
  then show ?thesis by (simp add: groupsSatisfy_def)
next
  case (Some gs)
  with assms show ?thesis
    by (auto simp: findForbiddenScope_def Let_def find_None_iff filter_empty_conv split: if_splits)
qed

lemma loadFlow_SomeD:
  assumes "loadFlow now h s = Some (r, subject)"
  shows "row_of ar_handle (ar_handle r) (authRequests s) = Some r \<and> ar_subject r = Some subject \<and>
    now \<le> ar_expiresAt r \<and> \<not> isSelfLogin r"
proof -
  from assms obtain k where "h = Some k" "row_of ar_handle k (authRequests s) = Some r"
    "ar_subject r = Some subject" "now \<le> ar_expiresAt r" "\<not> isSelfLogin r"
    by (auto simp: loadFlow_def split: option.splits if_splits)
  with row_of_SomeD(2) [OF this(2)] show ?thesis by simp
qed

lemma revalidate_Approve:
  assumes "revalidate e now r subject s = (s1, Inr (client, Approve rs))"
  shows "resolveClient e now (ar_clientId r) s = (s1, Some client) \<and>
    lookupResourceServer s1 (ar_resource r) = Some rs \<and> findForbiddenScope e r subject rs s1 = None \<and>
    \<not> lacksRequiredFreshSignIn r rs"
  using assms by (auto simp: revalidate_def split: prod.splits option.splits if_splits)

lemma consent_checks_Approve:
  assumes "consent_checks e now rq s = (s1, Inr (r, subject, Approve rs))"
  shows "approval_checked e now rq r subject rs s s1"
proof -
  from assms obtain client where c:
    "loadFlow now (stringField (bodyOf (q_body rq)) ''flow'') s = Some (r, subject)"
    "requireFlowBrowser e now rq r subject s"
    "verifyBoundCsrfToken e rq ''csrf_consent'' (consentCsrfPurpose (ar_handle r)) subject"
    "stringField (bodyOf (q_body rq)) ''action'' = Some ''approve''"
    "revalidate e now r subject s = (s1, Inr (client, Approve rs))"
    by (auto simp: consent_checks_def split: option.splits if_splits prod.splits sum.splits)
  from loadFlow_SomeD [OF c(1)] c(2-4) revalidate_Approve [OF c(5)] findForbiddenScope_None
  show ?thesis
    unfolding approval_checked_def requireFlowBrowser_def lacksRequiredFreshSignIn_def by blast
qed

lemma consent_counter_fields [simp]:
  "authRequests (consent_counter oc s) = authRequests s" "authCodes (consent_counter oc s) = authCodes s"
  "deviceCodes (consent_counter oc s) = deviceCodes s" "grants (consent_counter oc s) = grants s"
  "registry (consent_counter oc s) = registry s"
  by (simp_all add: consent_counter_def incrementCounter_def Let_def)

lemma approved_grant_cong:
  assumes "grants s = grants t" and "registry s = registry t" and "grants s' = grants t'"
  shows "approved_grant r subject rs s s' gid = approved_grant r subject rs t t' gid"
  using assms
  by (simp add: approved_grant_def granted_before_def isShortLivedScope_def lookupResourceServer_def cong: conj_cong)

text \<open>What the two completions leave, from a state with the request.\<close>

definition consumed_request :: "auth_request \<Rightarrow> 'a db_scheme \<Rightarrow> 'a db_scheme \<Rightarrow> bool" where
  "consumed_request r s s' \<longleftrightarrow>
     authRequests s' = delete_many (\<lambda>x. ar_handle x = ar_handle r) (authRequests s)"

lemma issue_cases:
  assumes "issueAuthCodeAndRedirect e now rnd r subject rs s = (s', rep)"
  shows "authCodes s' = authCodes s \<and> grants s' = grants s \<or>
    (\<exists>gid. consumed_request r s s' \<and> approved_grant r subject rs s s' gid \<and> deviceCodes s' = deviceCodes s \<and>
       authCodes s' = authCodes s @ [new_code e now (r_token rnd) r subject gid])"
proof (cases "issue_transaction e now rnd r subject rs s")
  case None
  with assms show ?thesis by (simp add: issueAuthCodeAndRedirect_def)
next
  case (Some out)
  obtain s1 b where out: "out = (s1, b)" by (cases out)
  with assms Some have s': "s' = s1" by (cases b) (auto simp: issueAuthCodeAndRedirect_def)
  show ?thesis
  proof (cases "consumeRequest (ar_handle r) s")
    case None
    with Some out s' show ?thesis by (simp add: issue_transaction_def)
  next
    case c: (Some t)
    then have t: "t = s\<lparr>authRequests := delete_many (\<lambda>x. ar_handle x = ar_handle r) (authRequests s)\<rparr>"
      by (auto simp: consumeRequest_def split: if_splits)
    from Some out c obtain t2 gid cs where up: "upsertGrant now (r_id rnd) r subject rs t = Some (t2, gid)"
      and cs: "create_row ac_codeHash (new_code e now (r_token rnd) r subject gid) (authCodes t2) = Some cs"
      and s1: "s1 = t2\<lparr>authCodes := cs\<rparr>"
      by (auto simp: issue_transaction_def split: option.splits)
    note u = upsertGrant_approved [OF up]
    have "approved_grant r subject rs s s' gid = approved_grant r subject rs t t2 gid"
      by (rule approved_grant_cong) (simp_all add: t s' s1)
    with u cs show ?thesis
      by (intro disjI2 exI [of _ gid]) (simp add: consumed_request_def t s' s1 create_row_Some)
  qed
qed

definition device_approved_rows :: "time_ms \<Rightarrow> string \<Rightarrow> auth_request \<Rightarrow> string \<Rightarrow> device_code list \<Rightarrow> device_code list" where
  "device_approved_rows now userCode r subject t =
     update_many (approvable_device now userCode r)
       (\<lambda>d. d\<lparr>dv_status := DS_approved, dv_userId := Some subject\<rparr>) t"

lemma device_completion_cases:
  assumes "completeDeviceFlow now r subject (Some (i, rs)) msg s = (s', rep)"
  shows "authCodes s' = authCodes s \<and> grants s' = grants s \<or>
    (\<exists>userCode gid. ar_state r = Some userCode \<and> consumed_request r s s' \<and>
       approved_grant r subject rs s s' gid \<and> authCodes s' = authCodes s \<and>
       (\<exists>d \<in> set (deviceCodes s). approvable_device now userCode r d) \<and>
       deviceCodes s' = device_approved_rows now userCode r subject (deviceCodes s))"
proof (cases "truthy (ar_state r)")
  case None
  with assms show ?thesis by (simp add: completeDeviceFlow_def)
next
  case uc: (Some userCode)
  show ?thesis
  proof (cases "device_transaction now userCode r subject (Some (i, rs)) s")
    case None
    with assms uc show ?thesis by (simp add: completeDeviceFlow_def)
  next
    case (Some out)
    obtain s1 d where out: "out = (s1, d)" by (cases out)
    with assms uc Some have s': "s' = s1" by (cases d) (auto simp: completeDeviceFlow_def)
    show ?thesis
    proof (cases "consumeRequest (ar_handle r) s")
      case None
      with Some out s' show ?thesis by (simp add: device_transaction_def)
    next
      case c: (Some t)
      then have t: "t = s\<lparr>authRequests := delete_many (\<lambda>x. ar_handle x = ar_handle r) (authRequests s)\<rparr>"
        by (auto simp: consumeRequest_def split: if_splits)
      show ?thesis
      proof (cases "count_rows (approvable_device now userCode r) (deviceCodes t) = 0")
        case True
        with Some out c s' show ?thesis by (auto simp: device_transaction_def t)
      next
        case False
        let ?t2 = "t\<lparr>deviceCodes := device_approved_rows now userCode r subject (deviceCodes t)\<rparr>"
        from Some out c False obtain gid where up: "upsertGrant now i r subject rs ?t2 = Some (s1, gid)"
          by (auto simp: device_transaction_def Let_def device_approved_rows_def split: if_splits)
        note u = upsertGrant_approved [OF up]
        have "approved_grant r subject rs s s' gid = approved_grant r subject rs ?t2 s1 gid"
          by (rule approved_grant_cong) (simp_all add: t s')
        with u False uc show ?thesis
          by (intro disjI2 exI [of _ userCode] exI [of _ gid]) (auto simp: consumed_request_def t s')
      qed
    qed
  qed
qed

lemma completion_without_approval:
  "completeDeviceFlow now r subject None msg s = (s', rep) \<Longrightarrow> authCodes s' = authCodes s \<and> grants s' = grants s"
  by (auto simp: completeDeviceFlow_def device_transaction_def consumeRequest_def Let_def
      split: option.splits if_splits prod.splits device_result.splits)

lemma refusals_issue_nothing:
  "refuse_flow now r subject oc m1 m2 s = (s', rep) \<Longrightarrow> authCodes s' = authCodes s \<and> grants s' = grants s"
  by (auto simp: refuse_flow_def consumeRequest_def Let_def
      split: option.splits if_splits dest!: completion_without_approval)

lemma denial_issues_nothing:
  "denyAndRedirect e r s = (s', rep) \<Longrightarrow> authCodes s' = authCodes s \<and> grants s' = grants s"
  by (auto simp: denyAndRedirect_def consumeRequest_def split: option.splits if_splits)

text \<open>What an approval leaves.\<close>

definition approval_outcome ::
    "env \<Rightarrow> time_ms \<Rightarrow> rand \<Rightarrow> auth_request \<Rightarrow> string \<Rightarrow> resource_server \<Rightarrow>
     'a registry_state_scheme \<Rightarrow> 'a registry_state_scheme \<Rightarrow> bool" where
  "approval_outcome e now rnd r subject rs s s' \<longleftrightarrow>
     consumed_request r s s' \<and>
     (\<exists>gid. approved_grant r subject rs s s' gid \<and>
        (if isDeviceFlow r
         then authCodes s' = authCodes s \<and>
           (\<exists>userCode. ar_state r = Some userCode \<and> (\<exists>d \<in> set (deviceCodes s). approvable_device now userCode r d) \<and>
              deviceCodes s' = device_approved_rows now userCode r subject (deviceCodes s))
         else deviceCodes s' = deviceCodes s \<and>
           authCodes s' = authCodes s @ [new_code e now (r_token rnd) r subject gid]))"

lemma approval_outcome_cong:
  assumes "flow_rows s = flow_rows t"
  shows "approval_outcome e now rnd r subject rs s s' = approval_outcome e now rnd r subject rs t s'"
  using flow_rows_eqD [OF assms] approved_grant_cong [of s t s' s']
  by (simp add: approval_outcome_def consumed_request_def)

lemma consent_commit_cases:
  assumes "consent_commit e now rnd r subject d s = (s', rep)"
    and "authCodes s' \<noteq> authCodes s \<or> grants s' \<noteq> grants s"
  shows "\<exists>rs. d = Approve rs \<and> approval_outcome e now rnd r subject rs s s'"
proof (cases d)
  case (Approve rs)
  have eq: "approved_grant r subject rs (consent_counter ''approved'' s) s' gid = approved_grant r subject rs s s' gid" for gid
    by (rule approved_grant_cong) simp_all
  show ?thesis
  proof (cases "isDeviceFlow r")
    case True
    with assms(1) Approve have "completeDeviceFlow now r subject (Some (r_id rnd, rs)) [] (consent_counter ''approved'' s) = (s', rep)"
      by (simp add: consent_commit_def Let_def)
    from device_completion_cases [OF this] assms(2) Approve True show ?thesis
      by (auto simp: approval_outcome_def consumed_request_def eq)
  next
    case False
    with assms(1) Approve have "issueAuthCodeAndRedirect e now rnd r subject rs (consent_counter ''approved'' s) = (s', rep)"
      by (simp add: consent_commit_def Let_def)
    from issue_cases [OF this] assms(2) Approve False show ?thesis
      by (auto simp: approval_outcome_def consumed_request_def eq)
  qed
next
  case Deny
  then have "authCodes s' = authCodes s \<and> grants s' = grants s"
    using assms(1) completion_without_approval [of now r subject _ "consent_counter ''denied'' s" s' rep]
      denial_issues_nothing [of e r "consent_counter ''denied'' s" s' rep]
    by (auto simp: consent_commit_def Let_def split: if_splits)
  with assms(2) show ?thesis by blast
next
  case (Forbidden x)
  with assms show ?thesis
    by (auto simp: consent_commit_def refuseForbiddenScope_def dest!: refusals_issue_nothing)
next
  case Missing_fresh_sign_in
  with assms show ?thesis
    by (auto simp: consent_commit_def refuseMissingFreshSignIn_def dest!: refusals_issue_nothing)
qed

lemma consent_checks_flow_rows:
  assumes "consent_checks e now rq s = (s1, out)"
  shows "flow_rows s1 = flow_rows s"
proof -
  have *: "revalidate e now r subject s = (t, x) \<Longrightarrow> flow_rows t = flow_rows s" for r subject t x
    using resolveClient_flow_rows [of e now "ar_clientId r" s]
    by (auto simp: revalidate_def split: prod.splits option.splits if_splits)
  show ?thesis
    using assms by (auto simp: consent_checks_def dest: * split: option.splits if_splits prod.splits sum.splits)
qed

text \<open>C25: consent issues nothing without an approval.  When a submission of the consent form adds
  an authorization code or changes a grant, then the request was stored and not expired; the browser holds its flow cookie
  and a session of the subject who signed in for it; the CSRF token was issued to that browser for
  this request; the action was approve; the client still resolved and the resource server is still
  registered, the subject's groups satisfy every requested scope, and a scope that needs a fresh
  sign-in was asked for with one.  The request is consumed, the grant of the subject, client and
  resource gets the requested scopes (never a short-lived one) and the claims shown, and either one
  code with exactly the values of the request is added, or the pending device that the user code
  names is approved for the subject.\<close>

theorem consent_sound:
  assumes "consent_post e now rnd rq s = (s', rep)"
    and "authCodes s' \<noteq> authCodes s \<or> grants s' \<noteq> grants s"
  shows "\<exists>r subject rs s1. approval_checked e now rq r subject rs s s1 \<and> approval_outcome e now rnd r subject rs s s'"
proof -
  obtain s1 out where c: "consent_checks e now rq s = (s1, out)" by (cases "consent_checks e now rq s")
  note rows = consent_checks_flow_rows [OF c]
  with assms c flow_rows_eqD [OF rows] obtain r subject d where out: "out = Inr (r, subject, d)"
    by (cases out) (auto simp: consent_post_def)
  with assms c have "consent_commit e now rnd r subject d s1 = (s', rep)" by (simp add: consent_post_def)
  from consent_commit_cases [OF this] assms(2) flow_rows_eqD [OF rows] obtain rs
    where "d = Approve rs" "approval_outcome e now rnd r subject rs s1 s'" by auto
  with consent_checks_Approve [of e now rq s s1 r subject rs] c out approval_outcome_cong [OF rows]
  show ?thesis by blast
qed

definition asked :: auth_request where
  "asked = (self_login_row 0 ''handle'' [] False)
     \<lparr>ar_flowType := FT_oauth, ar_clientId := ''https://a.example/c'', ar_resource := ''https://rs'',
      ar_scopes := [''read'', ''admin''], ar_redirectUri := ''https://a.example/cb'', ar_state := Some ''st'',
      ar_subject := Some ''u1'', ar_shownClaims := [''email'']\<rparr>"

definition asked_state :: upstream_state where
  "asked_state = sample_state\<lparr>authRequests := [asked]\<rparr>"

definition consent_env :: env where
  "consent_env = sample_env\<lparr>e_sha256 := (\<lambda>x. replicate 64 CHR ''a'')\<rparr>"

definition consent_form :: request where
  "consent_form =
     \<lparr>q_body = Some (JObj [(''csrf_token'', JStr (boundToken consent_env (consentCsrfPurpose ''handle'') ''u1'' (replicate 64 CHR ''0''))),
        (''flow'', JStr ''handle''), (''action'', JStr ''approve'')]), q_query = [],
      q_signed = apply_cookie (setSession consent_env 1000 ''u1'' 0)
        [(cookieName consent_env ''flow_binding'', replicate 32 CHR ''a''),
         (cookieName consent_env ''csrf_consent'', replicate 64 CHR ''0'')], q_ip = None\<rparr>"

theorem consent_sound_sample:
  "map (\<lambda>c. (ac_scopes c, ac_userId c)) (authCodes (fst (consent_post consent_env 1000 sample_rand consent_form asked_state))) =
     [([''read'', ''offline_access''], ''u1''), ([''read'', ''admin''], ''u1'')] \<and>
   (\<exists>r subject rs s1. approval_checked consent_env 1000 consent_form r subject rs asked_state s1 \<and>
      approval_outcome consent_env 1000 sample_rand r subject rs asked_state
        (fst (consent_post consent_env 1000 sample_rand consent_form asked_state)))"
proof
  let ?run = "consent_post consent_env 1000 sample_rand consent_form asked_state"
  show l: "map (\<lambda>c. (ac_scopes c, ac_userId c)) (authCodes (fst ?run)) =
     [([''read'', ''offline_access''], ''u1''), ([''read'', ''admin''], ''u1'')]" by code_simp
  have "length (authCodes asked_state) = 1" by code_simp
  moreover from l have "length (authCodes (fst ?run)) = 2" by (auto dest!: arg_cong [of _ _ length])
  ultimately have "authCodes (fst ?run) \<noteq> authCodes asked_state" by auto
  with consent_sound [of consent_env 1000 sample_rand consent_form asked_state "fst ?run" "snd ?run"]
  show "\<exists>r subject rs s1. approval_checked consent_env 1000 consent_form r subject rs asked_state s1 \<and>
      approval_outcome consent_env 1000 sample_rand r subject rs asked_state (fst ?run)" by simp
qed

section \<open>The authorization request\<close>

lemma getOidcConfig_request_rows:
  "getOidcConfig e pv now s = (s', r) \<Longrightarrow> authRequests s' = authRequests s"
  by (auto simp: getOidcConfig_def split: option.splits if_splits prod.splits)

text \<open>Where the browser is sent, and what the row holds of the sign-in: the drawn state, nonce and
  verifier when it is sent to the provider, nothing otherwise.\<close>

definition pinned :: "flow_rand \<Rightarrow> auth_request \<Rightarrow> auth_request" where
  "pinned fr r = r\<lparr>ar_upstreamState := Some (fr_state fr), ar_upstreamNonce := Some (fr_nonce fr),
                   ar_upstreamVerifier := Some (fr_verifier fr)\<rparr>"

definition sent_to :: "env \<Rightarrow> flow_rand \<Rightarrow> auth_request \<Rightarrow> auth_request \<Rightarrow> reply \<Rightarrow> bool" where
  "sent_to e fr r r' rep \<longleftrightarrow>
     r' = pinned fr r \<and> rep = Redirect_with ''upstream'' (upstream_auth_params e fr (ar_requireFreshLogin r)) \<or>
     r' = r \<and> (rep = Fault \<or> e_enableLocalAccounts e \<and> \<not> e_enableOidc e \<and>
                  rep = Redirect_path (''/auth/login?flow='' @ ar_handle r))"

lemma dispatch_keeps_request:
  assumes "dispatch_sign_in e pv now h fr (ar_requireFreshLogin r) s = (s', rep)"
    and "authRequests s = rows @ [r]" and "h \<notin> ar_handle ` set rows" and "ar_handle r = h"
  shows "\<exists>r'. authRequests s' = rows @ [r'] \<and> sent_to e fr r r' rep"
proof -
  have keep: "update_many (\<lambda>r. ar_handle r = h) f rows = rows" for f
    unfolding update_many_def by (rule map_idI) (use assms(3) in auto)
  obtain s1 q where g: "getOidcConfig e pv now s = (s1, q)" by fastforce
  note rows = getOidcConfig_request_rows [OF g]
  have "authRequests s' = authRequests s \<and> (rep = Fault \<or> e_enableLocalAccounts e \<and> \<not> e_enableOidc e \<and>
        rep = Redirect_path (''/auth/login?flow='' @ h)) \<or>
      authRequests s' = update_many (\<lambda>r. ar_handle r = h) (pinned fr) (authRequests s) \<and>
        rep = Redirect_with ''upstream'' (upstream_auth_params e fr (ar_requireFreshLogin r))"
    using assms(1) rows unfolding dispatch_sign_in_def startUpstreamAuth_def g pinned_def [abs_def]
    by (auto split: if_splits option.splits)
  with assms(4) show ?thesis
    unfolding assms(2) update_many_append keep by (auto simp: sent_to_def)
qed

lemma requested_scopes_declared:
  assumes "requested_scopes rs raw = Inr scs"
  shows "set scs \<subseteq> insert ''offline_access'' (set (declared_names rs))"
  using assms by (auto simp: requested_scopes_def Let_def find_None_iff split: option.splits json.splits)

text \<open>The scopes the query names: the words of one text, or none.\<close>

definition asked_scopes :: "request \<Rightarrow> string list \<Rightarrow> bool" where
  "asked_scopes rq scs \<longleftrightarrow>
     map_of (q_query rq) ''scope'' = None \<and> scs = [] \<or>
     (\<exists>t. map_of (q_query rq) ''scope'' = Some (JStr t) \<and> scs = filter (\<lambda>w. w \<noteq> []) (split_on CHR '' '' t))"

lemma requested_scopes_asked: "requested_scopes rs (map_of (q_query rq) ''scope'') = Inr scs \<Longrightarrow> asked_scopes rq scs"
  by (auto simp: requested_scopes_def asked_scopes_def split_scopes_def Let_def split: option.splits json.splits)

lemma requested_scopes_facts:
  "requested_scopes rs (map_of (q_query rq) ''scope'') = Inr scs \<Longrightarrow>
     set scs \<subseteq> insert ''offline_access'' (set (declared_names rs)) \<and> asked_scopes rq scs"
  using requested_scopes_declared requested_scopes_asked by blast

lemma validate_authorize_InrD:
  assumes "validate_authorize rq s = Inr p"
  shows "lookupResourceServer s (ap_resource p) = Some (ap_server p) \<and>
    set (ap_scopes p) \<subseteq> insert ''offline_access'' (set (declared_names (ap_server p))) \<and>
    valid_code_challenge (ap_codeChallenge p) \<and>
    singleQueryValue rq ''code_challenge'' = Some (ap_codeChallenge p) \<and>
    singleQueryValue rq ''code_challenge_method'' = Some ''S256'' \<and>
    singleQueryValue rq ''response_type'' = Some ''code'' \<and>
    singleQueryValue rq ''resource'' = Some (ap_resource p) \<and> asked_scopes rq (ap_scopes p) \<and>
    (\<forall>st. singleQueryValue rq ''state'' = Some st \<longrightarrow> length st \<le> MAX_STATE_LENGTH)"
  using assms
  by (auto simp: validate_authorize_def dest!: requested_scopes_facts
      split: if_splits option.splits sum.splits)

lemma trusted_redirect_SomeD:
  assumes "trusted_redirect e client uri = Some u"
  shows "uri = Some u \<and> CHR ''#'' \<notin> set u \<and> \<not> starts_with ''urn:mcp-auth:'' u \<and> \<not> hasAmbiguousRedirectForm u \<and>
    isRegisteredRedirectUri (new_URL e) (registered_uris client) u"
  using assms by (auto simp: trusted_redirect_def split: option.splits if_splits)

text \<open>What the row of an authorization request promises to the steps after it.\<close>

definition well_asked ::
    "env \<Rightarrow> time_ms \<Rightarrow> flow_rand \<Rightarrow> request \<Rightarrow> oauth_client \<Rightarrow> 'a registry_state_scheme \<Rightarrow> auth_request \<Rightarrow> bool" where
  "well_asked e now fr rq client s r \<longleftrightarrow>
     ar_handle r = fr_handle fr \<and> ar_flowType r = FT_oauth \<and> ar_subject r = None \<and> ar_shownClaims r = [] \<and>
     ar_expiresAt r = now + 10 * 60 * 1000 \<and>
     singleQueryValue rq ''client_id'' = Some (ar_clientId r) \<and> oc_clientId client = ar_clientId r \<and>
     singleQueryValue rq ''redirect_uri'' = Some (ar_redirectUri r) \<and>
     isRegisteredRedirectUri (new_URL e) (registered_uris client) (ar_redirectUri r) \<and>
     CHR ''#'' \<notin> set (ar_redirectUri r) \<and> \<not> hasAmbiguousRedirectForm (ar_redirectUri r) \<and>
     singleQueryValue rq ''code_challenge'' = Some (ar_codeChallenge r) \<and> valid_code_challenge (ar_codeChallenge r) \<and>
     ar_codeChallengeMethod r = ''S256'' \<and> singleQueryValue rq ''code_challenge_method'' = Some ''S256'' \<and>
     singleQueryValue rq ''response_type'' = Some ''code'' \<and>
     singleQueryValue rq ''resource'' = Some (ar_resource r) \<and> asked_scopes rq (ar_scopes r) \<and>
     ar_state r = singleQueryValue rq ''state'' \<and> (\<forall>st. ar_state r = Some st \<longrightarrow> length st \<le> 512) \<and>
     (\<exists>rs. lookupResourceServer s (ar_resource r) = Some rs \<and>
        set (ar_scopes r) \<subseteq> insert ''offline_access'' (set (declared_names rs)) \<and>
        ar_requireFreshLogin r = requestsFreshSignIn (Some rs) (ar_scopes r))"

lemma authorize_trusted_row:
  assumes "authorize_trusted e pv now fr rq clientId uri s = (s', rep, cks)"
    and "authRequests s' \<noteq> authRequests s"
  shows "\<exists>p r. validate_authorize rq s = Inr p \<and> authRequests s' = authRequests s @ [r] \<and>
    sent_to e fr (request_row now (fr_handle fr) clientId uri (singleQueryValue rq ''state'') p) r rep \<and>
    cks = [bindFlow e rq (fr_handle fr)]"
proof -
  obtain s1 wait where w: "rowCreationRetryAfter now rq s = (s1, wait)" by fastforce
  then have rows: "authRequests s1 = authRequests s"
    by (auto simp: rowCreationRetryAfter_def split: prod.splits)
  from assms(2) assms(1) [unfolded authorize_trusted_def w] rows obtain p where p: "validate_authorize rq s = Inr p"
    by (auto split: sum.splits)
  let ?row = "request_row now (fr_handle fr) clientId uri (singleQueryValue rq ''state'') p"
  from assms(2) assms(1) [unfolded authorize_trusted_def w] rows p obtain t
    where t: "create_row ar_handle ?row (authRequests s) = Some t"
      and d: "dispatch_sign_in e pv now (fr_handle fr) fr (ar_requireFreshLogin ?row) (s1\<lparr>authRequests := t\<rparr>) = (s', rep)"
      and c: "cks = [bindFlow e rq (fr_handle fr)]"
    by (auto simp: Let_def split: if_splits option.splits prod.splits)
  from t have new: "fr_handle fr \<notin> ar_handle ` set (authRequests s)" and t': "t = authRequests s @ [?row]"
    by (auto simp: create_row_Some request_row_def)
  have h: "ar_handle ?row = fr_handle fr" by (simp add: request_row_def)
  from dispatch_keeps_request [OF d _ new h] t' p c show ?thesis by auto
qed

text \<open>C26: an authorization request is stored only when everything the later steps rely on was
  checked, and it holds exactly what was asked.  When the endpoint changes the stored requests, it adds one
  row, bound to this browser by the flow cookie, for the client that the client identifier resolved to; its
  redirect URI is the one asked for, one the client registered
  (or a loopback variant), with no fragment and no dot segment or user part; the resource is the one asked
  for and is registered; the scopes are exactly the words of the scope parameter, and every one
  is declared by the resource, or is offline_access; the code challenge asked for is 43 to 128 base64url characters with
  method S256; the row demands a fresh sign-in exactly when a requested scope does; it expires after
  ten minutes and names no subject yet.  Its upstream state, nonce and verifier are the drawn ones when
  the browser is sent to the provider, with that state and nonce, and are empty otherwise.\<close>

theorem authorize_sound:
  assumes "authorize e pv now fr rq s = (s', rep, cks)" and "authRequests s' \<noteq> authRequests s"
  shows "\<exists>r client s2. authRequests s' = authRequests s @ [r] \<and> cks = [bindFlow e rq (ar_handle r)] \<and>
    resolveClient e now (ar_clientId r) (fst (clientResolutionRetryAfter now rq s)) = (s2, Some client) \<and>
    well_asked e now fr rq client s r \<and>
    (rep = Redirect_with ''upstream'' (upstream_auth_params e fr (ar_requireFreshLogin r)) \<and>
       ar_upstreamState r = Some (fr_state fr) \<and> ar_upstreamNonce r = Some (fr_nonce fr) \<and>
       ar_upstreamVerifier r = Some (fr_verifier fr) \<or>
     (rep = Fault \<or> e_enableLocalAccounts e \<and> \<not> e_enableOidc e \<and>
        rep = Redirect_path (''/auth/login?flow='' @ ar_handle r)) \<and>
       ar_upstreamState r = None \<and> ar_upstreamNonce r = None \<and> ar_upstreamVerifier r = None)"
proof -
  obtain s1 wait where w: "clientResolutionRetryAfter now rq s = (s1, wait)" by fastforce
  then have w1: "authRequests s1 = authRequests s" "registry s1 = registry s"
    by (auto simp: clientResolutionRetryAfter_def split: prod.splits)
  from assms w1 obtain clientId where cid: "truthy (singleQueryValue rq ''client_id'') = Some clientId"
    by (auto simp: authorize_def split: option.splits)
  obtain s2 c where res: "resolveClient e now clientId s1 = (s2, c)" by fastforce
  note f = flow_rows_eqD [OF resolveClient_flow_rows [OF res]]
  from assms(1) have run: "(if 0 < wait then (s1, Message 429 ''Too many authorization requests from this address. Please wait a minute and try again.'', [])
      else case c of None \<Rightarrow> (s2, Message 400 ''This client could not be verified.'', [])
      | Some client \<Rightarrow> (case trusted_redirect e client (singleQueryValue rq ''redirect_uri'') of
           None \<Rightarrow> (s2, Message 400 ''redirect_uri is missing or not registered for this client.'', [])
         | Some uri \<Rightarrow> authorize_trusted e pv now fr rq clientId uri s2)) = (s', rep, cks)"
    by (simp add: authorize_def cid w res cong: if_cong split del: if_split)
  from run assms(2) w1 f(3) obtain client uri where c: "c = Some client"
    and uri: "trusted_redirect e client (singleQueryValue rq ''redirect_uri'') = Some uri"
    and a: "authorize_trusted e pv now fr rq clientId uri s2 = (s', rep, cks)"
    by (auto split: if_splits option.splits)
  from authorize_trusted_row [OF a] assms(2) w1 f(3) obtain p r where p: "validate_authorize rq s2 = Inr p"
    and rows: "authRequests s' = authRequests s @ [r]" "cks = [bindFlow e rq (fr_handle fr)]"
    and same: "sent_to e fr (request_row now (fr_handle fr) clientId uri (singleQueryValue rq ''state'') p) r rep"
    by auto
  have look: "lookupResourceServer s2 x = lookupResourceServer s x" for x
    using w1 f(8) by (simp add: lookupResourceServer_def)
  have fields: "ar_handle r = fr_handle fr" "ar_flowType r = FT_oauth" "ar_subject r = None" "ar_shownClaims r = []"
    "ar_expiresAt r = now + 10 * 60 * 1000" "ar_clientId r = clientId" "ar_redirectUri r = uri"
    "ar_codeChallenge r = ap_codeChallenge p" "ar_codeChallengeMethod r = ''S256''" "ar_state r = singleQueryValue rq ''state''"
    "ar_resource r = ap_resource p" "ar_scopes r = ap_scopes p"
    "ar_requireFreshLogin r = requestsFreshSignIn (Some (ap_server p)) (ap_scopes p)"
    using same by (auto simp: sent_to_def pinned_def request_row_def AUTHORIZATION_REQUEST_TTL_MS_def)
  have sent: "rep = Redirect_with ''upstream'' (upstream_auth_params e fr (ar_requireFreshLogin r)) \<and>
       ar_upstreamState r = Some (fr_state fr) \<and> ar_upstreamNonce r = Some (fr_nonce fr) \<and>
       ar_upstreamVerifier r = Some (fr_verifier fr) \<or>
     (rep = Fault \<or> e_enableLocalAccounts e \<and> \<not> e_enableOidc e \<and>
        rep = Redirect_path (''/auth/login?flow='' @ ar_handle r)) \<and>
       ar_upstreamState r = None \<and> ar_upstreamNonce r = None \<and> ar_upstreamVerifier r = None"
    using same by (auto simp: sent_to_def pinned_def request_row_def)
  have "well_asked e now fr rq client s r"
    using validate_authorize_InrD [OF p] trusted_redirect_SomeD [OF uri] cid
      resolveClient_SomeD(1) [OF res [unfolded c]]
    by (simp add: well_asked_def fields look MAX_STATE_LENGTH_def)
  with rows fields(1,6) res c w sent show ?thesis
    by (intro exI [of _ r] exI [of _ client] exI [of _ s2]) simp
qed

definition asking_client :: oauth_client where
  "asking_client = sample_client\<lparr>oc_metadata := JObj [(''redirect_uris'', JArr [JStr ''https://a.example/cb''])],
     oc_expiresAt := Some 9000000\<rparr>"

definition asking_state :: proxy_state where
  "asking_state = upstream_state.extend (sample_state\<lparr>oauthClients := [asking_client]\<rparr>) (proxy_state.fields [] [] [] [])"

definition asking :: request where
  "asking =
     \<lparr>q_body = None, q_query = [(''response_type'', JStr ''code''), (''client_id'', JStr ''https://a.example/c''),
        (''redirect_uri'', JStr ''https://a.example/cb''), (''code_challenge'', JStr (replicate 43 CHR ''x'')),
        (''code_challenge_method'', JStr ''S256''), (''resource'', JStr ''https://rs''),
        (''scope'', JStr ''read offline_access'')], q_signed = [], q_ip = None\<rparr>"

definition asking_rand :: flow_rand where
  "asking_rand = \<lparr>fr_handle = ''h1'', fr_state = ''s1'', fr_nonce = ''n1'', fr_verifier = ''v1''\<rparr>"

lemma validate_authorize_cong: "registry s = registry t \<Longrightarrow> validate_authorize rq s = validate_authorize rq t"
  by (simp only: validate_authorize_def lookupResourceServer_def)

definition asking_params :: authorize_params where
  "asking_params = \<lparr>ap_resource = ''https://rs'', ap_scopes = [''read'', ''offline_access''],
     ap_codeChallenge = replicate 43 CHR ''x'', ap_server = sample_server\<rparr>"

lemma asking_facts:
  "truthy (singleQueryValue asking ''client_id'') = Some ''https://a.example/c''"
  "\<not> isDenylisted sample_env asking_state ''https://a.example/c''"
  "cache_valid 1000 asking_client"
  "trusted_redirect sample_env (touch_client sample_env 1000 asking_client) (singleQueryValue asking ''redirect_uri'') =
     Some ''https://a.example/cb''"
  "validate_authorize asking asking_state = Inr asking_params"
  by code_simp+

lemma asking_rows:
  "authRequests asking_state = []" "resolutionWindows asking_state = []" "rowWindows asking_state = []"
  "oauthClients asking_state = [asking_client]" "oc_clientId asking_client = ''https://a.example/c''"
  by code_simp+

lemma asking_stored: "length (authRequests (fst (authorize sample_env sample_provider 1000 asking_rand asking asking_state))) = 1"
proof -
  let ?w = "[(ipRateLimitKey (q_ip asking), \<lparr>w_count = 1, w_start = 1000\<rparr>)]"
  let ?client = "touch_client sample_env 1000 asking_client"
  have c: "clientResolutionRetryAfter 1000 asking asking_state = (asking_state\<lparr>resolutionWindows := ?w\<rparr>, 0)"
    by (simp add: clientResolutionRetryAfter_def first_hit clientResolutionLimiter_def asking_rows)
  have "isDenylisted sample_env (asking_state\<lparr>resolutionWindows := w\<rparr>) x = isDenylisted sample_env asking_state x" for w x
    by (simp add: isDenylisted_def)
  then have r: "resolveClient sample_env 1000 ''https://a.example/c'' (asking_state\<lparr>resolutionWindows := w\<rparr>) =
      (asking_state\<lparr>resolutionWindows := w, oauthClients := [?client]\<rparr>, Some ?client)" for w
    using asking_facts(2,3) by (simp add: resolveClient_def asking_rows update_many_def)
  have v: "validate_authorize asking (asking_state\<lparr>resolutionWindows := w, oauthClients := [?client]\<rparr>) = Inr asking_params" for w
    by (subst validate_authorize_cong [of _ asking_state]) (simp_all add: asking_facts(5))
  have w: "rowCreationRetryAfter 1000 asking (asking_state\<lparr>resolutionWindows := w, oauthClients := [?client]\<rparr>) =
      (asking_state\<lparr>resolutionWindows := w, oauthClients := [?client], rowWindows := ?w\<rparr>, 0)" for w
    by (simp add: rowCreationRetryAfter_def first_hit rowCreationLimiter_def asking_rows)
  have l: "e_enableLocalAccounts sample_env" "\<not> e_enableOidc sample_env" by (simp_all add: sample_env_def)
  show ?thesis
    by (simp add: authorize_def asking_facts(1,4) c r authorize_trusted_def v w create_row_def asking_rows
        dispatch_sign_in_def l)
qed

theorem authorize_sound_sample:
  "\<exists>r client s2. authRequests (fst (authorize sample_env sample_provider 1000 asking_rand asking asking_state)) = [r] \<and>
     resolveClient sample_env 1000 (ar_clientId r) (fst (clientResolutionRetryAfter 1000 asking asking_state)) = (s2, Some client) \<and>
     well_asked sample_env 1000 asking_rand asking client asking_state r"
proof -
  let ?run = "authorize sample_env sample_provider 1000 asking_rand asking asking_state"
  have "authRequests (fst ?run) \<noteq> authRequests asking_state" using asking_stored asking_rows(1) by auto
  moreover obtain s' rep cks where run: "?run = (s', rep, cks)" by (cases ?run)
  ultimately have "authRequests s' \<noteq> authRequests asking_state" by simp
  from authorize_sound [OF run this] asking_rows(1) run show ?thesis by auto
qed

end
