(* ===== verification/Listener.thy ===== *)
theory Listener
  imports Registry
begin

text \<open>
  \<^verbatim>\<open>resource-servers/registry-listener.ts\<close>: how the running proxy learns of a change another
  process made.  The state adds to the registry what the module keeps: the connection, the timers,
  the back-off and the reload in progress.  Each function is one turn of the event loop, from one
  \<^verbatim>\<open>await\<close> to the next; the step relation interleaves the turns with commits of other
  processes, with loads that other parts of the proxy started, and with failures.
\<close>

section \<open>State\<close>

definition INITIAL_BACKOFF_MS :: int where "INITIAL_BACKOFF_MS = 1000"
definition MAX_BACKOFF_MS :: int where "MAX_BACKOFF_MS = 60 * 1000"

text \<open>The client: none, connecting, subscribed at the server, or set up in the proxy too.\<close>

datatype connection = Off | Connecting | Listened | Up

text \<open>The reload: none, a load with its generation (and the rows once read), or the wait before a
  retry.  Both carry the current delay.\<close>

datatype reload =
    Idle
  | Loading int nat "server_row list option"
  | Waiting int

record listener_state = registry_state +
  ls_running :: bool
  ls_conn :: connection
  ls_inbox :: nat
  ls_backoff :: int
  ls_timer :: "int option"
  ls_stable :: bool
  ls_reload :: reload
  ls_queued :: bool
  ls_others :: "(nat \<times> server_row list option) list"

section \<open>The reload loop\<close>

text \<open>One pass of the inner loop up to the query: the flag is cleared, the load takes its generation.\<close>

definition begin_load :: "int \<Rightarrow> listener_state \<Rightarrow> listener_state" where
  "begin_load delay s =
     (let g = Suc (nextGeneration s) in
      s\<lparr>nextGeneration := g, ls_queued := False, ls_reload := Loading delay g None\<rparr>)"

definition requestReload :: "listener_state \<Rightarrow> listener_state" where
  "requestReload s =
     (if ls_reload s \<noteq> Idle then s\<lparr>ls_queued := True\<rparr> else begin_load INITIAL_BACKOFF_MS s)"

text \<open>The query has read the rows (the enabled ones).\<close>

definition enabled_rows :: "'a db_scheme \<Rightarrow> server_row list" where
  "enabled_rows s = filter sr_enabled (resourceServers s)"

definition query_read :: "listener_state \<Rightarrow> listener_state option" where
  "query_read s =
     (case ls_reload s of
        Loading d g None \<Rightarrow> Some (s\<lparr>ls_reload := Loading d g (Some (enabled_rows s))\<rparr>)
      | _ \<Rightarrow> None)"

text \<open>The load returned: the loop ends unless another reload was asked for meanwhile.\<close>

definition load_returned :: "listener_state \<Rightarrow> listener_state option" where
  "load_returned s =
     (case ls_reload s of
        Loading d g (Some rows) \<Rightarrow>
          (let s1 = load_end g rows s in
           Some (if ls_queued s1 then begin_load INITIAL_BACKOFF_MS s1 else s1\<lparr>ls_reload := Idle\<rparr>))
      | _ \<Rightarrow> None)"

text \<open>The load threw.\<close>

definition load_failed :: "listener_state \<Rightarrow> listener_state option" where
  "load_failed s =
     (case ls_reload s of
        Loading d g None \<Rightarrow> Some (s\<lparr>ls_reload := if ls_running s then Waiting d else Idle\<rparr>)
      | _ \<Rightarrow> None)"

text \<open>The wait is over, by its timer or because the listener was stopped.\<close>

definition retry_woken :: "listener_state \<Rightarrow> listener_state option" where
  "retry_woken s =
     (case ls_reload s of
        Waiting d \<Rightarrow>
          Some (if ls_running s then begin_load (min (d * 2) MAX_BACKOFF_MS) s else s\<lparr>ls_reload := Idle\<rparr>)
      | _ \<Rightarrow> None)"

section \<open>The connection\<close>

definition connect :: "listener_state \<Rightarrow> listener_state" where
  "connect s = s\<lparr>ls_conn := Connecting, ls_inbox := 0\<rparr>"

definition scheduleReconnect :: "listener_state \<Rightarrow> listener_state" where
  "scheduleReconnect s =
     s\<lparr>ls_timer := Some (ls_backoff s), ls_backoff := min (ls_backoff s * 2) MAX_BACKOFF_MS\<rparr>"

text \<open>An error or the end of the current connection.\<close>

definition lost :: "listener_state \<Rightarrow> listener_state option" where
  "lost s =
     (if ls_conn s = Off then None
      else (let s1 = s\<lparr>ls_conn := Off, ls_inbox := 0, ls_stable := False\<rparr> in
            Some (if ls_running s1 then scheduleReconnect s1 else s1)))"

definition reconnect_due :: "listener_state \<Rightarrow> listener_state option" where
  "reconnect_due s =
     (if ls_timer s = None then None
      else (let s1 = s\<lparr>ls_timer := None\<rparr> in Some (if ls_running s1 then connect s1 else s1)))"

text \<open>The server has executed LISTEN; then the proxy sees its answer.\<close>

definition listen_executed :: "listener_state \<Rightarrow> listener_state option" where
  "listen_executed s = (if ls_conn s = Connecting then Some (s\<lparr>ls_conn := Listened\<rparr>) else None)"

definition listen_answered :: "listener_state \<Rightarrow> listener_state option" where
  "listen_answered s =
     (if ls_conn s = Listened then Some (requestReload (s\<lparr>ls_conn := Up, ls_stable := True\<rparr>)) else None)"

definition stable_elapsed :: "listener_state \<Rightarrow> listener_state option" where
  "stable_elapsed s =
     (if ls_stable s then Some (s\<lparr>ls_stable := False, ls_backoff := INITIAL_BACKOFF_MS\<rparr>) else None)"

definition subscribed :: "listener_state \<Rightarrow> bool" where
  "subscribed s \<longleftrightarrow> ls_conn s = Listened \<or> ls_conn s = Up"

definition notified :: "listener_state \<Rightarrow> listener_state option" where
  "notified s =
     (if subscribed s \<and> 0 < ls_inbox s then Some (requestReload (s\<lparr>ls_inbox := ls_inbox s - 1\<rparr>)) else None)"

section \<open>Start and stop\<close>

definition startRegistryListener :: "listener_state \<Rightarrow> listener_state" where
  "startRegistryListener s =
     (if ls_running s then s else connect (s\<lparr>ls_running := True, ls_backoff := INITIAL_BACKOFF_MS\<rparr>))"

definition stopRegistryListener :: "listener_state \<Rightarrow> listener_state" where
  "stopRegistryListener s =
     s\<lparr>ls_running := False, ls_timer := None, ls_stable := False, ls_conn := Off, ls_inbox := 0\<rparr>"

section \<open>The rest of the system\<close>

text \<open>What the registry should be.\<close>

definition current_view :: "'a db_scheme \<Rightarrow> registry" where
  "current_view s = build_registry (enabled_rows s) []"

text \<open>A transaction commits: the rows become \<open>rows\<close>, and its notification is delivered to a session
  that listens.\<close>

definition committed :: "server_row list \<Rightarrow> nat \<Rightarrow> listener_state \<Rightarrow> listener_state" where
  "committed rows n s =
     s\<lparr>resourceServers := rows, notifications := notifications s + n,
       ls_inbox := (if subscribed s then ls_inbox s + n else ls_inbox s)\<rparr>"

text \<open>Loads of the other callers of \<^verbatim>\<open>loadRegistry\<close>, one list entry each.\<close>

definition other_start :: "listener_state \<Rightarrow> listener_state" where
  "other_start s =
     (let g = Suc (nextGeneration s) in s\<lparr>nextGeneration := g, ls_others := (g, None) # ls_others s\<rparr>)"

definition other_read :: "nat \<Rightarrow> listener_state \<Rightarrow> listener_state option" where
  "other_read i s =
     (if i < length (ls_others s) \<and> snd (ls_others s ! i) = None
      then Some (s\<lparr>ls_others := (ls_others s)[i := (fst (ls_others s ! i), Some (enabled_rows s))]\<rparr>)
      else None)"

definition other_end :: "nat \<Rightarrow> listener_state \<Rightarrow> listener_state option" where
  "other_end i s =
     (if i < length (ls_others s)
      then (let s1 = s\<lparr>ls_others := take i (ls_others s) @ drop (Suc i) (ls_others s)\<rparr> in
            case ls_others s ! i of
              (g, None) \<Rightarrow> Some s1
            | (g, Some rows) \<Rightarrow> Some (load_end g rows s1))
      else None)"

text \<open>The turns that move the listener forward, and all others.\<close>

inductive advance :: "listener_state \<Rightarrow> listener_state \<Rightarrow> bool" where
  adv_read: "query_read s = Some t \<Longrightarrow> advance s t"
| adv_returned: "load_returned s = Some t \<Longrightarrow> advance s t"
| adv_woken: "retry_woken s = Some t \<Longrightarrow> advance s t"
| adv_reconnect: "reconnect_due s = Some t \<Longrightarrow> advance s t"
| adv_listen: "listen_executed s = Some t \<Longrightarrow> advance s t"
| adv_answer: "listen_answered s = Some t \<Longrightarrow> advance s t"
| adv_notified: "notified s = Some t \<Longrightarrow> advance s t"

inductive listener_step :: "listener_state \<Rightarrow> listener_state \<Rightarrow> bool" where
  forward: "advance s t \<Longrightarrow> listener_step s t"
| failed: "load_failed s = Some t \<Longrightarrow> listener_step s t"
| dropped: "lost s = Some t \<Longrightarrow> listener_step s t"
| stable: "stable_elapsed s = Some t \<Longrightarrow> listener_step s t"
| start: "listener_step s (startRegistryListener s)"
| stop: "listener_step s (stopRegistryListener s)"
| commit: "current_view (committed rows n s) = current_view s \<or> 0 < n \<Longrightarrow> listener_step s (committed rows n s)"
| other1: "listener_step s (other_start s)"
| other2: "other_read i s = Some t \<Longrightarrow> listener_step s t"
| other3: "other_end i s = Some t \<Longrightarrow> listener_step s t"

inductive_cases advanceE: "advance s t"
inductive_cases listener_stepE: "listener_step s t"

definition listener_start :: "listener_state \<Rightarrow> bool" where
  "listener_start s \<longleftrightarrow>
     \<not> ls_running s \<and> ls_conn s = Off \<and> ls_inbox s = 0 \<and> ls_backoff s = INITIAL_BACKOFF_MS \<and>
     ls_timer s = None \<and> \<not> ls_stable s \<and> ls_reload s = Idle \<and> \<not> ls_queued s \<and> ls_others s = [] \<and>
     appliedGeneration s \<le> nextGeneration s"

section \<open>No change is missed\<close>

text \<open>Generations never run ahead, the timers agree with the connection, the delays stay in bounds.\<close>

definition delay_ok :: "int \<Rightarrow> bool" where
  "delay_ok d \<longleftrightarrow> INITIAL_BACKOFF_MS \<le> d \<and> d \<le> MAX_BACKOFF_MS"

fun reload_ok :: "nat \<Rightarrow> reload \<Rightarrow> bool" where
  "reload_ok n Idle = True"
| "reload_ok n (Loading d g r) = (g \<le> n \<and> delay_ok d)"
| "reload_ok n (Waiting d) = delay_ok d"

definition generations_ok :: "nat \<Rightarrow> (nat \<times> server_row list option) list \<Rightarrow> bool" where
  "generations_ok n loads \<longleftrightarrow> (\<forall>h r. (h, r) \<in> set loads \<longrightarrow> h \<le> n)"

definition listener_wf :: "listener_state \<Rightarrow> bool" where
  "listener_wf s \<longleftrightarrow>
     appliedGeneration s \<le> nextGeneration s \<and> generations_ok (nextGeneration s) (ls_others s) \<and>
     reload_ok (nextGeneration s) (ls_reload s) \<and>
     (ls_running s \<longrightarrow> (ls_conn s = Off \<longleftrightarrow> ls_timer s \<noteq> None)) \<and>
     (\<not> ls_running s \<longrightarrow> ls_conn s = Off \<and> ls_timer s = None) \<and>
     (\<forall>d. ls_timer s = Some d \<longrightarrow> delay_ok d) \<and> delay_ok (ls_backoff s)"

text \<open>Nothing is pending that would still start a load.\<close>

definition nothing_pending :: "listener_state \<Rightarrow> bool" where
  "nothing_pending s \<longleftrightarrow> ls_conn s = Up \<and> ls_inbox s = 0 \<and> \<not> (ls_queued s \<and> ls_reload s \<noteq> Idle) \<and>
     (\<forall>d. ls_reload s \<noteq> Waiting d)"

text \<open>Every load of generation \<open>g\<close> or later reads what is current, and one of them is applied or runs.\<close>

fun reload_current :: "registry \<Rightarrow> nat \<Rightarrow> nat \<Rightarrow> reload \<Rightarrow> bool" where
  "reload_current v g applied Idle = (g \<le> applied)"
| "reload_current v g applied (Loading d h r) = (g \<le> h \<and> (\<forall>rows. r = Some rows \<longrightarrow> build_registry rows [] = v))"
| "reload_current v g applied (Waiting d) = True"

definition current_from :: "nat \<Rightarrow> listener_state \<Rightarrow> bool" where
  "current_from g s \<longleftrightarrow>
     (\<forall>h rows. (h, Some rows) \<in> set (ls_others s) \<and> g \<le> h \<longrightarrow> build_registry rows [] = current_view s) \<and>
     (g \<le> appliedGeneration s \<longrightarrow> registry s = current_view s) \<and>
     reload_current (current_view s) g (appliedGeneration s) (ls_reload s)"

definition listener_inv :: "listener_state \<Rightarrow> bool" where
  "listener_inv s \<longleftrightarrow> listener_wf s \<and> (nothing_pending s \<longrightarrow> (\<exists>g. current_from g s))"

named_theorems listener_defs

lemmas [listener_defs] = listener_inv_def listener_wf_def nothing_pending_def current_from_def current_view_def enabled_rows_def

lemma delay_ok_simps [simp]:
  "delay_ok INITIAL_BACKOFF_MS" "delay_ok d \<Longrightarrow> delay_ok (min (d * 2) MAX_BACKOFF_MS)"
  by (auto simp: delay_ok_def INITIAL_BACKOFF_MS_def MAX_BACKOFF_MS_def)

lemma generations_okD: "generations_ok n loads \<Longrightarrow> (h, r) \<in> set loads \<Longrightarrow> h \<le> n"
  by (auto simp: generations_ok_def)

lemma generations_ok_mono: "generations_ok n loads \<Longrightarrow> n \<le> m \<Longrightarrow> set xs \<subseteq> set loads \<Longrightarrow> generations_ok m xs"
  unfolding generations_ok_def by (meson le_trans subsetD)

lemma generations_ok_Nil [simp]: "generations_ok n []"
  by (simp add: generations_ok_def)

lemma generations_ok_Cons [simp]: "generations_ok n ((h, r) # xs) \<longleftrightarrow> h \<le> n \<and> generations_ok n xs"
  by (auto simp: generations_ok_def)

lemma generations_ok_Suc [simp]: "generations_ok n loads \<Longrightarrow> generations_ok (Suc n) loads"
  by (erule generations_ok_mono) simp_all

lemma reload_ok_Suc [simp]: "reload_ok n r \<Longrightarrow> reload_ok (Suc n) r"
  by (cases r) auto

text \<open>A load that starts now is later than every load in flight, so it decides the registry.\<close>

lemma begin_load_inv:
  assumes "listener_wf s" and "delay_ok d"
  shows "listener_inv (begin_load d s)"
proof -
  have "current_from (Suc (nextGeneration s)) (begin_load d s)"
    using assms(1) by (auto simp: current_from_def listener_wf_def begin_load_def Let_def dest: generations_okD)
  moreover have "listener_wf (begin_load d s)"
    using assms by (auto simp: listener_wf_def begin_load_def Let_def)
  ultimately show ?thesis by (auto simp: listener_inv_def)
qed

lemma requestReload_inv: "listener_wf s \<Longrightarrow> listener_inv (requestReload s)"
  by (auto simp: requestReload_def begin_load_inv) (auto simp: listener_defs)

lemma load_end_wf: "listener_wf s \<Longrightarrow> g \<le> nextGeneration s \<Longrightarrow> listener_wf (load_end g rows s)"
  by (auto simp: listener_wf_def load_end_def)

lemma load_end_simps [simp]:
  "ls_queued (load_end g rows s) = ls_queued s" "ls_conn (load_end g rows s) = ls_conn s"
  "ls_inbox (load_end g rows s) = ls_inbox s" "ls_reload (load_end g rows s) = ls_reload s"
  "ls_others (load_end g rows s) = ls_others s" "ls_running (load_end g rows s) = ls_running s"
  "ls_timer (load_end g rows s) = ls_timer s" "ls_backoff (load_end g rows s) = ls_backoff s"
  "nextGeneration (load_end g rows s) = nextGeneration s"
  by (simp_all add: load_end_def)

lemma load_end_rows [simp]: "resourceServers (load_end g rows s) = resourceServers s"
  by (simp add: load_end_def)

lemma load_end_view [simp]: "current_view (load_end g rows s) = current_view s"
  by (simp add: listener_defs)

text \<open>Applying a load of generation \<open>h\<close> keeps the registry current, whoever started it.\<close>

lemma load_end_current:
  assumes "current_from g s" and "g \<le> h \<Longrightarrow> build_registry rows [] = current_view s"
  shows "current_from g (load_end h rows s)"
proof -
  have "reload_current v g a r \<Longrightarrow> a \<le> b \<Longrightarrow> reload_current v g b r" for v a b r
    by (cases r) auto
  moreover have "appliedGeneration s \<le> appliedGeneration (load_end h rows s)" by (simp add: load_end_def)
  moreover have "g \<le> appliedGeneration (load_end h rows s) \<longrightarrow> registry (load_end h rows s) = current_view s"
    using assms by (auto simp: current_from_def load_end_def)
  ultimately show ?thesis using assms(1) by (auto simp: current_from_def)
qed

lemma loaded_current:
  assumes "current_from g s" and "ls_reload s = Loading d h (Some rows)"
  shows "current_from g (load_end h rows s\<lparr>ls_reload := Idle\<rparr>)"
proof -
  have "current_from g (load_end h rows s)"
    by (rule load_end_current [OF assms(1)]) (use assms in \<open>simp add: current_from_def\<close>)
  moreover have "g \<le> appliedGeneration (load_end h rows s)"
    using assms by (auto simp: current_from_def load_end_def)
  moreover have "current_view (load_end h rows s\<lparr>ls_reload := Idle\<rparr>) = current_view s" by (simp add: listener_defs load_end_def)
  ultimately show ?thesis by (auto simp: current_from_def)
qed

lemma advance_inv:
  assumes "advance s t" and inv: "listener_inv s"
  shows "listener_inv t"
  using assms(1)
proof (cases rule: advance.cases)
  case adv_read
  then obtain d g where "ls_reload s = Loading d g None"
    and "t = s\<lparr>ls_reload := Loading d g (Some (enabled_rows s))\<rparr>"
    by (auto simp: query_read_def split: reload.splits option.splits)
  with inv show ?thesis by (auto simp: listener_defs)
next
  case adv_returned
  then obtain d g rows where r: "ls_reload s = Loading d g (Some rows)"
    and t: "t = (if ls_queued s then begin_load INITIAL_BACKOFF_MS (load_end g rows s)
                 else load_end g rows s\<lparr>ls_reload := Idle\<rparr>)"
    by (auto simp: load_returned_def Let_def split: reload.splits option.splits)
  from inv r have wf: "listener_wf (load_end g rows s)" by (intro load_end_wf) (auto simp: listener_inv_def listener_wf_def)
  show ?thesis
  proof (cases "ls_queued s")
    case True
    with t begin_load_inv [OF wf] show ?thesis by simp
  next
    case False
    with t have t: "t = load_end g rows s\<lparr>ls_reload := Idle\<rparr>" by simp
    with wf have "listener_wf t" by (simp add: listener_wf_def)
    moreover have "nothing_pending t \<Longrightarrow> nothing_pending s" using r False by (simp add: t nothing_pending_def)
    ultimately show ?thesis
      using inv loaded_current [OF _ r] unfolding t listener_inv_def by blast
  qed
next
  case adv_woken
  then obtain d where r: "ls_reload s = Waiting d"
    and t: "t = (if ls_running s then begin_load (min (d * 2) MAX_BACKOFF_MS) s else s\<lparr>ls_reload := Idle\<rparr>)"
    by (auto simp: retry_woken_def split: reload.splits)
  from inv r have "listener_wf s" "delay_ok d" by (auto simp: listener_inv_def listener_wf_def)
  moreover from r inv have "\<not> ls_running s \<Longrightarrow> listener_inv (s\<lparr>ls_reload := Idle\<rparr>)"
    by (simp add: listener_inv_def listener_wf_def nothing_pending_def)
  ultimately show ?thesis
    using begin_load_inv [of s "min (d * 2) MAX_BACKOFF_MS"] by (simp add: t)
next
  case adv_reconnect
  with inv show ?thesis
    by (auto simp: reconnect_due_def connect_def listener_defs Let_def split: if_splits)
next
  case adv_listen
  with inv show ?thesis by (auto simp: listen_executed_def listener_defs split: if_splits)
next
  case adv_answer
  with inv have "t = requestReload (s\<lparr>ls_conn := Up, ls_stable := True\<rparr>)"
    and "listener_wf (s\<lparr>ls_conn := Up, ls_stable := True\<rparr>)"
    by (auto simp: listen_answered_def listener_inv_def listener_wf_def split: if_splits)
  with requestReload_inv show ?thesis by simp
next
  case adv_notified
  with inv have "t = requestReload (s\<lparr>ls_inbox := ls_inbox s - 1\<rparr>)" and "listener_wf (s\<lparr>ls_inbox := ls_inbox s - 1\<rparr>)"
    by (auto simp: notified_def listener_inv_def listener_wf_def split: if_splits)
  with requestReload_inv show ?thesis by simp
qed

lemma inv_by_settled:
  assumes "listener_inv s" and "listener_wf t" and "nothing_pending t \<Longrightarrow> nothing_pending s"
    and "\<And>g. listener_wf s \<Longrightarrow> current_from g s \<Longrightarrow> current_from g t"
  shows "listener_inv t"
  using assms by (auto simp: listener_inv_def)

lemma other_end_inv:
  assumes inv: "listener_inv s" and e: "other_end i s = Some t"
  shows "listener_inv t"
proof -
  let ?s1 = "s\<lparr>ls_others := take i (ls_others s) @ drop (Suc i) (ls_others s)\<rparr>"
  obtain h r where x: "ls_others s ! i = (h, r)" by fastforce
  from e have i: "(h, r) \<in> set (ls_others s)" unfolding x [symmetric] by (auto simp: other_end_def split: if_splits)
  from e x have t: "t = (case r of None \<Rightarrow> ?s1 | Some rows \<Rightarrow> load_end h rows ?s1)"
    by (auto simp: other_end_def Let_def split: if_splits option.splits)
  have sub: "set (ls_others ?s1) \<subseteq> set (ls_others s)"
    by (auto dest: in_set_takeD in_set_dropD)
  have v: "current_view ?s1 = current_view s" by (simp add: listener_defs)
  have wf1: "listener_wf ?s1" and hn: "h \<le> nextGeneration s"
    using inv i sub generations_ok_mono [OF _ le_refl sub]
    by (auto simp: listener_inv_def listener_wf_def dest: generations_okD)
  have c1: "current_from g ?s1" if "current_from g s" for g
    using that sub v by (auto simp: current_from_def)
  show ?thesis
  proof (rule inv_by_settled [OF inv])
    show "listener_wf t" using wf1 hn by (auto simp: t load_end_wf split: option.splits)
    show "nothing_pending t \<Longrightarrow> nothing_pending s" by (auto simp: t nothing_pending_def split: option.splits)
    show "current_from g t" if c: "current_from g s" for g
    proof (cases r)
      case None
      with c1 [OF c] show ?thesis by (simp add: t)
    next
      case (Some rows)
      have "current_from g (load_end h rows ?s1)"
        by (rule load_end_current [OF c1 [OF c]]) (use c i Some v in \<open>auto simp: current_from_def\<close>)
      with Some show ?thesis by (simp add: t)
    qed
  qed
qed

lemma listener_step_inv:
  assumes "listener_inv s" and "listener_step s t"
  shows "listener_inv t"
  using assms(2)
proof (cases rule: listener_step.cases)
  case forward
  with assms(1) show ?thesis by (blast intro: advance_inv)
next
  case failed
  then obtain d g where "ls_reload s = Loading d g None" and "t = s\<lparr>ls_reload := if ls_running s then Waiting d else Idle\<rparr>"
    by (auto simp: load_failed_def split: reload.splits option.splits)
  with assms(1) show ?thesis
    by (cases "ls_running s") (simp_all add: listener_inv_def listener_wf_def nothing_pending_def)
next
  case dropped
  let ?s1 = "s\<lparr>ls_conn := Off, ls_inbox := 0, ls_stable := False\<rparr>"
  from dropped have t: "t = (if ls_running s then scheduleReconnect ?s1 else ?s1)"
    by (auto simp: lost_def Let_def split: if_splits)
  with assms(1) have "listener_wf t"
    by (simp add: scheduleReconnect_def listener_inv_def listener_wf_def)
  moreover have "\<not> nothing_pending t" by (simp add: t scheduleReconnect_def nothing_pending_def)
  ultimately show ?thesis by (simp add: listener_inv_def)
next
  case stable
  then have t: "t = s\<lparr>ls_stable := False, ls_backoff := INITIAL_BACKOFF_MS\<rparr>"
    by (auto simp: stable_elapsed_def split: if_splits)
  show ?thesis
    by (rule inv_by_settled [OF assms(1)]) (use assms(1) in \<open>auto simp: t listener_defs\<close>)
next
  case start
  with assms(1) show ?thesis
    by (auto simp: startRegistryListener_def connect_def listener_inv_def listener_wf_def nothing_pending_def)
next
  case stop
  with assms(1) show ?thesis
    by (auto simp: stopRegistryListener_def listener_inv_def listener_wf_def nothing_pending_def)
next
  case (commit rows n)
  have v: "nothing_pending t \<Longrightarrow> nothing_pending s \<and> current_view t = current_view s"
    using commit by (auto simp: nothing_pending_def committed_def subscribed_def split: if_splits)
  have "listener_wf t" using assms(1) commit(1) by (simp add: committed_def listener_inv_def listener_wf_def)
  moreover have "current_from g s \<Longrightarrow> current_view t = current_view s \<Longrightarrow> current_from g t" for g
    by (simp add: commit(1) current_from_def committed_def)
  ultimately show ?thesis using assms(1) v unfolding listener_inv_def by blast
next
  case other1
  show ?thesis
    by (rule inv_by_settled [OF assms(1)])
      (use assms(1) in \<open>auto simp: other1 other_start_def Let_def nothing_pending_def current_from_def listener_wf_def
        listener_inv_def current_view_def enabled_rows_def\<close>)
next
  case (other2 i)
  then obtain h where i: "i < length (ls_others s)" "ls_others s ! i = (h, None)"
    and t: "t = s\<lparr>ls_others := (ls_others s)[i := (h, Some (enabled_rows s))]\<rparr>"
    by (cases "ls_others s ! i") (auto simp: other_read_def split: if_splits)
  have h: "(h, None) \<in> set (ls_others s)" using i by (metis nth_mem)
  have mem: "x \<in> set (ls_others t) \<Longrightarrow> x \<in> set (ls_others s) \<or> x = (h, Some (enabled_rows s))" for x
    using set_update_subset_insert [of "ls_others s" i] by (auto simp: t)
  have v: "current_view t = current_view s" by (simp add: t listener_defs)
  show ?thesis
  proof (rule inv_by_settled [OF assms(1)])
    from assms(1) have g: "generations_ok (nextGeneration s) (ls_others s)" by (simp add: listener_inv_def listener_wf_def)
    have "generations_ok (nextGeneration s) (ls_others t)"
      unfolding generations_ok_def using mem generations_okD [OF g] h by blast
    with assms(1) show "listener_wf t" by (simp add: listener_inv_def listener_wf_def t)
    show "nothing_pending t \<Longrightarrow> nothing_pending s" by (simp add: t nothing_pending_def)
    show "current_from g t" if "current_from g s" for g
      using that mem v by (fastforce simp: current_from_def t current_view_def)
  qed
next
  case (other3 i)
  with assms(1) show ?thesis by (rule other_end_inv)
qed

interpretation listener: transition_system listener_start listener_step listener_inv
proof
  show "listener_inv s" if "listener_start s" for s
    using that by (auto simp: listener_start_def listener_inv_def listener_wf_def nothing_pending_def)
qed (rule listener_step_inv)

text \<open>The listener rests: connected, nothing to process, no reload.\<close>

definition at_rest :: "listener_state \<Rightarrow> bool" where
  "at_rest s \<longleftrightarrow> ls_running s \<and> ls_conn s = Up \<and> ls_inbox s = 0 \<and> ls_reload s = Idle"

lemma at_rest_current: "listener_inv s \<Longrightarrow> at_rest s \<Longrightarrow> registry s = current_view s"
  by (auto simp: listener_inv_def at_rest_def nothing_pending_def current_from_def)

section \<open>Progress\<close>

text \<open>What is still to do: each part weighs more than what it turns into.\<close>

fun reload_work :: "reload \<Rightarrow> nat" where
  "reload_work Idle = 0"
| "reload_work (Loading d g None) = 2"
| "reload_work (Loading d g (Some rows)) = 1"
| "reload_work (Waiting d) = 3"

fun connection_work :: "connection \<Rightarrow> nat" where
  "connection_work Up = 0"
| "connection_work Listened = 5"
| "connection_work Connecting = 6"
| "connection_work Off = 0"

definition work :: "listener_state \<Rightarrow> nat" where
  "work s = 4 * ls_inbox s + connection_work (ls_conn s) + (if ls_timer s = None then 0 else 7) +
     (if ls_queued s then 3 else 0) + reload_work (ls_reload s)"

lemma begin_load_work: "work (begin_load d s) =
    4 * ls_inbox s + connection_work (ls_conn s) + (if ls_timer s = None then 0 else 7) + 2"
  by (simp add: work_def begin_load_def Let_def)

lemma requestReload_work: "work (requestReload s) < work s + 4"
  by (auto simp: requestReload_def begin_load_work) (auto simp: work_def)

lemma advance_decreases:
  assumes "advance s t" and "ls_timer s \<noteq> None \<Longrightarrow> ls_conn s = Off"
  shows "work t < work s"
  using assms(1)
proof (cases rule: advance.cases)
  case adv_read
  then show ?thesis by (auto simp: query_read_def work_def split: reload.splits option.splits)
next
  case adv_returned
  then obtain d g rows where "ls_reload s = Loading d g (Some rows)"
    and "t = (if ls_queued s then begin_load INITIAL_BACKOFF_MS (load_end g rows s)
                 else load_end g rows s\<lparr>ls_reload := Idle\<rparr>)"
    by (auto simp: load_returned_def Let_def split: reload.splits option.splits)
  then show ?thesis by (simp add: begin_load_work) (simp add: work_def)
next
  case adv_woken
  then obtain d where "ls_reload s = Waiting d"
    and "t = (if ls_running s then begin_load (min (d * 2) MAX_BACKOFF_MS) s else s\<lparr>ls_reload := Idle\<rparr>)"
    by (auto simp: retry_woken_def split: reload.splits)
  then show ?thesis by (simp add: begin_load_work) (simp add: work_def)
next
  case adv_reconnect
  with assms(2) show ?thesis
    by (auto simp: reconnect_due_def connect_def work_def Let_def split: if_splits)
next
  case adv_listen
  then show ?thesis by (auto simp: listen_executed_def work_def split: if_splits)
next
  case adv_answer
  let ?s1 = "s\<lparr>ls_conn := Up, ls_stable := True\<rparr>"
  from adv_answer have "t = requestReload ?s1" "work ?s1 + 5 = work s"
    by (auto simp: listen_answered_def work_def split: if_splits)
  with requestReload_work [of ?s1] show ?thesis by simp
next
  case adv_notified
  let ?s1 = "s\<lparr>ls_inbox := ls_inbox s - 1\<rparr>"
  from adv_notified have "t = requestReload ?s1" "0 < ls_inbox s"
    by (auto simp: notified_def split: if_splits)
  moreover from this have "work ?s1 + 4 = work s" by (simp add: work_def)
  ultimately show ?thesis using requestReload_work [of ?s1] by simp
qed

lemma stuck_at_rest:
  assumes "listener_wf s" and "ls_running s" and "\<nexists>t. advance s t"
  shows "at_rest s"
proof -
  have r: "ls_reload s = Idle"
  proof (cases "ls_reload s")
    case (Loading d g r)
    with assms(3) adv_read [of s] adv_returned [of s] show ?thesis
      by (cases r) (auto simp: query_read_def load_returned_def Let_def)
  next
    case (Waiting d)
    with assms(3) adv_woken [of s] show ?thesis by (auto simp: retry_woken_def)
  qed simp
  have "ls_timer s = None"
    using assms(3) adv_reconnect [of s] by (cases "ls_timer s") (auto simp: reconnect_due_def Let_def)
  with assms(1,2) have off: "ls_conn s \<noteq> Off" by (simp add: listener_wf_def)
  have "ls_conn s \<noteq> Connecting" using assms(3) adv_listen [of s] by (auto simp: listen_executed_def)
  moreover have "ls_conn s \<noteq> Listened" using assms(3) adv_answer [of s] by (auto simp: listen_answered_def)
  ultimately have up: "ls_conn s = Up" using off by (cases "ls_conn s") auto
  moreover have "ls_inbox s = 0"
    using assms(3) adv_notified [of s] up by (cases "ls_inbox s") (auto simp: notified_def subscribed_def)
  ultimately show ?thesis using r assms(2) by (simp add: at_rest_def)
qed

lemma advance_running: "advance s t \<Longrightarrow> ls_running t = ls_running s"
  by (erule advance.cases)
    (auto simp: query_read_def load_returned_def retry_woken_def reconnect_due_def listen_executed_def
      listen_answered_def notified_def requestReload_def begin_load_def connect_def Let_def
      split: reload.splits option.splits if_splits)

lemma advance_star:
  assumes "advance\<^sup>*\<^sup>* s t" and "listener_inv s"
  shows "listener_inv t \<and> ls_running t = ls_running s"
  using assms by (induction rule: rtranclp_induct) (auto dest: advance_inv advance_running)

lemma no_infinite_advance:
  assumes "listener_inv (f 0)"
  shows "\<exists>i. \<not> advance (f i) (f (Suc i))"
proof (rule ccontr)
  assume "\<nexists>i. \<not> advance (f i) (f (Suc i))"
  then have a: "advance (f i) (f (Suc i))" for i by blast
  have inv: "listener_inv (f i)" for i
    by (induction i) (use assms a advance_inv in auto)
  have less: "work (f (Suc i)) < work (f i)" for i
    using inv [of i] by (intro advance_decreases [OF a]) (auto simp: listener_inv_def listener_wf_def)
  have "work (f i) + i \<le> work (f 0)" for i
  proof (induction i)
    case (Suc i)
    with less [of i] show ?case by simp
  qed simp
  from this [of "Suc (work (f 0))"] show False by simp
qed

end
