(* ===== verification/Canonical.thy ===== *)
theory Canonical
  imports Servers
begin

text \<open>
  The canonical form of a snapshot determines it up to the order of its scopes: every piece of the
  text can be read back.
\<close>

section \<open>Quoted strings\<close>

definition un_hex :: "char \<Rightarrow> nat" where
  "un_hex c = (if code c < 58 then code c - 48 else code c - 87)"

fun unesc :: "string \<Rightarrow> char \<times> string" where
  "unesc (a # b # s) =
     (if a \<noteq> CHR 0x5C then (a, b # s)
      else if b = CHR ''b'' then (char_of (8 :: nat), s)
      else if b = CHR ''f'' then (char_of (12 :: nat), s)
      else if b = CHR ''n'' then (char_of (10 :: nat), s)
      else if b = CHR ''r'' then (char_of (13 :: nat), s)
      else if b = CHR ''t'' then (char_of (9 :: nat), s)
      else if b = CHR ''u''
      then (char_of (16 * un_hex (s ! 2) + un_hex (s ! 3)), drop 4 s)
      else (b, s))"
| "unesc [a] = (a, [])"
| "unesc [] = (CHR '' '', [])"

lemma un_hex_digit: "n < 16 \<Longrightarrow> un_hex (hex_digit n) = n"
  by (auto simp: un_hex_def hex_digit_def code_def of_char_of)

lemma char_of_code [simp]: "char_of (code c) = c"
  by (simp add: code_def)

lemma control_char:
  assumes "code c = n" and "n < 32"
  shows "c \<noteq> CHR 0x22" "c \<noteq> CHR 0x5C" "char_of n = c"
  using assms by (auto simp: code_def)

lemma unesc_control:
  assumes "code c = n" and "(n, k) \<in> {(8, CHR ''b''), (12, CHR ''f''), (10, CHR ''n''), (13, CHR ''r''), (9, CHR ''t'')}"
  shows "unesc (esc_char c @ x) = (c, x)"
proof -
  from assms(2) have "n < 32" by auto
  note c = control_char [OF assms(1) this]
  from assms(2) c(3) show ?thesis
    by (elim insertE) (simp_all add: esc_char_def c(1,2) assms(1))
qed

lemma unesc_u:
  assumes "code c < 32" and "code c \<notin> {8, 9, 10, 12, 13}"
  shows "unesc (esc_char c @ x) = (c, x)"
proof -
  have "16 * (code c div 16) + code c mod 16 = code c" by simp
  with control_char(1,2) [OF refl assms(1)] assms show ?thesis
    by (simp add: esc_char_def un_hex_digit)
qed

lemma unesc_esc: "unesc (esc_char c @ x) = (c, x)"
proof (cases "code c < 32")
  case True
  show ?thesis
  proof (cases "code c \<in> {8, 9, 10, 12, 13}")
    case True
    then have "code c = 8 \<or> code c = 9 \<or> code c = 10 \<or> code c = 12 \<or> code c = 13" by simp
    then show ?thesis by (elim disjE) (erule unesc_control, simp)+
  next
    case False
    with \<open>code c < 32\<close> show ?thesis by (intro unesc_u) simp_all
  qed
next
  case False
  then have "code c \<notin> {8, 9, 10, 12, 13}" by auto
  with False show ?thesis by (cases x) (simp_all add: esc_char_def)
qed

lemma esc_inject:
  assumes "esc_char c @ x = esc_char d @ y" shows "c = d \<and> x = y"
proof -
  have "(c, x) = unesc (esc_char c @ x)" by (rule unesc_esc [symmetric])
  also have "\<dots> = unesc (esc_char d @ y)" by (rule arg_cong [OF assms])
  also have "\<dots> = (d, y)" by (rule unesc_esc)
  finally show ?thesis by simp
qed

lemma esc_head: "\<exists>h t. esc_char c = h # t \<and> h \<noteq> CHR 0x22"
  by (auto simp: esc_char_def)

lemma quoted_inject:
  "concat (map esc_char a) @ CHR 0x22 # r = concat (map esc_char b) @ CHR 0x22 # q \<Longrightarrow> a = b \<and> r = q"
proof (induction a arbitrary: b)
  case Nil
  show ?case
  proof (cases b)
    case (Cons d b')
    with Nil esc_head [of d] show ?thesis by auto
  qed (use Nil in simp)
next
  case (Cons c a)
  show ?case
  proof (cases b)
    case Nil
    with Cons.prems esc_head [of c] show ?thesis by auto
  next
    case b: (Cons d b')
    with Cons.prems esc_inject [of c "concat (map esc_char a) @ CHR 0x22 # r" d
        "concat (map esc_char b') @ CHR 0x22 # q"] Cons.IH [of b']
    show ?thesis by simp
  qed
qed

lemma json_quote_inject: "json_quote a @ r = json_quote b @ q \<Longrightarrow> a = b \<and> r = q"
  unfolding json_quote_def using quoted_inject [of a r b q] by simp

section \<open>Scopes\<close>

lemma bool_text_inject: "bool_text a @ r = bool_text b @ q \<Longrightarrow> a = b \<and> r = q"
  by (auto simp: bool_text_def split: if_splits)

lemma scope_text_eq:
  "scope_text d @ r =
     CHR ''['' # json_quote (d_name d) @ CHR '','' # json_quote (d_description d) @ CHR '','' #
       bool_text (d_stepUp d) @ CHR '','' # bool_text (d_shortLived d) @ CHR '','' #
       bool_text (d_freshSignIn d) @ CHR '']'' # r"
  by (simp add: scope_text_def)

lemma scope_text_inject:
  assumes "scope_text (c :: declared_scope) @ r = scope_text d @ q" shows "c = d \<and> r = q"
proof -
  from assms have t: "json_quote (d_name c) @ CHR '','' # json_quote (d_description c) @ CHR '','' #
       bool_text (d_stepUp c) @ CHR '','' # bool_text (d_shortLived c) @ CHR '','' #
       bool_text (d_freshSignIn c) @ CHR '']'' # r =
     json_quote (d_name d) @ CHR '','' # json_quote (d_description d) @ CHR '','' #
       bool_text (d_stepUp d) @ CHR '','' # bool_text (d_shortLived d) @ CHR '','' #
       bool_text (d_freshSignIn d) @ CHR '']'' # q"
    unfolding scope_text_eq by simp
  note n = json_quote_inject [OF t]
  from n have t2: "json_quote (d_description c) @ CHR '','' #
       bool_text (d_stepUp c) @ CHR '','' # bool_text (d_shortLived c) @ CHR '','' #
       bool_text (d_freshSignIn c) @ CHR '']'' # r =
     json_quote (d_description d) @ CHR '','' #
       bool_text (d_stepUp d) @ CHR '','' # bool_text (d_shortLived d) @ CHR '','' #
       bool_text (d_freshSignIn d) @ CHR '']'' # q" by simp
  note e = json_quote_inject [OF t2]
  from e have t3: "bool_text (d_stepUp c) @ CHR '','' # bool_text (d_shortLived c) @ CHR '','' #
       bool_text (d_freshSignIn c) @ CHR '']'' # r =
     bool_text (d_stepUp d) @ CHR '','' # bool_text (d_shortLived d) @ CHR '','' #
       bool_text (d_freshSignIn d) @ CHR '']'' # q" by simp
  note s = bool_text_inject [OF t3]
  from s have t4: "bool_text (d_shortLived c) @ CHR '','' # bool_text (d_freshSignIn c) @ CHR '']'' # r =
     bool_text (d_shortLived d) @ CHR '','' # bool_text (d_freshSignIn d) @ CHR '']'' # q" by simp
  note l = bool_text_inject [OF t4]
  from l have "bool_text (d_freshSignIn c) @ CHR '']'' # r = bool_text (d_freshSignIn d) @ CHR '']'' # q"
    by simp
  from bool_text_inject [OF this] n e s l show ?thesis by (cases c; cases d) simp
qed

lemma scope_text_head: "scope_text d @ r = CHR ''['' # tl (scope_text d @ r)"
  by (simp add: scope_text_def)

lemma scope_texts_inject:
  "join '','' (map scope_text (xs :: declared_scope list)) @ '']}'' = join '','' (map scope_text ys) @ '']}'' \<Longrightarrow> xs = ys"
proof (induction xs arbitrary: ys)
  case Nil
  show ?case
  proof (cases ys)
    case (Cons y ys')
    with Nil scope_text_head [of y "(if ys' = [] then [] else '','' @ join '','' (map scope_text ys')) @ '']}''"]
    show ?thesis by (simp add: join_Cons)
  qed simp
next
  case (Cons x xs)
  show ?case
  proof (cases ys)
    case Nil
    with Cons.prems scope_text_head [of x "(if xs = [] then [] else '','' @ join '','' (map scope_text xs)) @ '']}''"]
    show ?thesis by (simp add: join_Cons)
  next
    case ys: (Cons y ys')
    from Cons.prems have "scope_text x @ (if xs = [] then '']}'' else CHR '','' # join '','' (map scope_text xs) @ '']}'') =
        scope_text y @ (if ys' = [] then '']}'' else CHR '','' # join '','' (map scope_text ys') @ '']}'')"
      by (simp add: ys join_Cons split: if_splits)
    from scope_text_inject [OF this] Cons.IH [of ys'] ys show ?thesis by (auto split: if_splits)
  qed
qed

section \<open>Views\<close>

definition same_view :: "snapshot_view \<Rightarrow> snapshot_view \<Rightarrow> bool" where
  "same_view a b \<longleftrightarrow>
     sv_resourceName a = sv_resourceName b \<and> sort_key d_name (sv_scopes a) = sort_key d_name (sv_scopes b)"

lemma null_not_quote: "''null'' @ r \<noteq> json_quote n @ q"
  by (simp add: json_quote_def)

lemma canonicalView_iff: "canonicalView a = canonicalView b \<longleftrightarrow> same_view a b"
proof
  assume "canonicalView a = canonicalView b"
  then have t: "(case sv_resourceName a of None \<Rightarrow> ''null'' | Some n \<Rightarrow> json_quote n) @ CHR '','' #
       json_quote ''s'' @ '':['' @ join '','' (map scope_text (sort_key d_name (sv_scopes a))) @ '']}'' =
     (case sv_resourceName b of None \<Rightarrow> ''null'' | Some n \<Rightarrow> json_quote n) @ CHR '','' #
       json_quote ''s'' @ '':['' @ join '','' (map scope_text (sort_key d_name (sv_scopes b))) @ '']}''"
    unfolding canonicalView_def by simp
  have "sv_resourceName a = sv_resourceName b \<and>
      join '','' (map scope_text (sort_key d_name (sv_scopes a))) @ '']}'' =
      join '','' (map scope_text (sort_key d_name (sv_scopes b))) @ '']}''"
  proof (cases "sv_resourceName a"; cases "sv_resourceName b")
    fix n m assume nm: "sv_resourceName a = Some n" "sv_resourceName b = Some m"
    from t have "json_quote n @ CHR '','' # json_quote ''s'' @ '':['' @ join '','' (map scope_text (sort_key d_name (sv_scopes a))) @ '']}'' =
      json_quote m @ CHR '','' # json_quote ''s'' @ '':['' @ join '','' (map scope_text (sort_key d_name (sv_scopes b))) @ '']}''"
      by (simp only: nm option.case)
    from json_quote_inject [OF this] nm show ?thesis by simp
  qed (use t in \<open>simp_all add: json_quote_def\<close>)
  then show "same_view a b" unfolding same_view_def using scope_texts_inject by blast
next
  assume "same_view a b"
  then show "canonicalView a = canonicalView b" by (simp add: same_view_def canonicalView_def)
qed

end
