(* ===== verification/ServerProps.thy ===== *)
theory ServerProps
  imports Canonical TokenProps
begin

text \<open>
  Properties of the resource servers: what a valid metadata document is, that only the operator
  widens what is in force, that the admin view shows what the registry enforces, and that a removed
  server is dead.
\<close>

section \<open>Valid documents\<close>

definition scope_name_ok :: "string \<Rightarrow> bool" where
  "scope_name_ok n \<longleftrightarrow> is_scope_token n \<and> n \<noteq> ''offline_access'' \<and> n \<noteq> ''openid''"

definition flags_nested :: "declared_scope \<Rightarrow> bool" where
  "flags_nested d \<longleftrightarrow> (d_freshSignIn d \<longrightarrow> d_stepUp d) \<and> (d_stepUp d \<longrightarrow> d_shortLived d)"

definition description_ok :: "declared_scope \<Rightarrow> bool" where
  "description_ok d \<longleftrightarrow>
     d_description d \<noteq> [] \<and> length (d_description d) \<le> 300 \<and> list_all (\<lambda>c. \<not> unsafe_display_char c) (d_description d)"

lemma declaredScopeName_InrD: "declaredScopeName v = Inr n \<Longrightarrow> v = Some (JStr n) \<and> scope_name_ok n"
  by (auto simp: declaredScopeName_def scopeToken_def RESERVED_SCOPES_def scope_name_ok_def
      split: sum.splits option.splits json.splits if_splits)

lemma supported_loop_ok:
  "supported_loop seen off xs = Inr r \<Longrightarrow> distinct seen \<Longrightarrow> list_all scope_name_ok seen \<Longrightarrow>
     distinct r \<and> list_all scope_name_ok r"
  by (induction seen off xs rule: supported_loop.induct)
    (auto split: if_splits sum.splits dest: declaredScopeName_InrD)

lemma displayText_Inr: "displayText v = Inr t \<longleftrightarrow> t = v \<and> list_all (\<lambda>c. \<not> unsafe_display_char c) v"
  by (auto simp: displayText_def list_all_iff list_ex_iff)

lemma declared_entry_InrD:
  assumes "declared_entry x n = Inr d"
  shows "d_name d = n \<and> description_ok d \<and> flags_nested d"
proof -
  from assms obtain t where t: "member x ''description'' = Some (JStr t)"
    by (auto simp: declared_entry_def split: option.splits json.splits)
  with assms show ?thesis
    by (auto simp: declared_entry_def declared_flags_def displayText_Inr DESCRIPTION_MAX_LENGTH_def
        description_ok_def flags_nested_def split: if_splits sum.splits)
qed

lemma declared_loop_ok:
  "declared_loop acc xs = Inr r \<Longrightarrow> distinct (map d_name acc) \<Longrightarrow>
     list_all (\<lambda>d. scope_name_ok (d_name d) \<and> description_ok d \<and> flags_nested d) acc \<Longrightarrow>
     distinct (map d_name r) \<and> length r = length acc + length xs \<and>
     list_all (\<lambda>d. scope_name_ok (d_name d) \<and> description_ok d \<and> flags_nested d) r"
proof (induction acc xs rule: declared_loop.induct)
  case (2 acc x xs)
  from 2(2) obtain n d where n: "declaredScopeName (member x ''name'') = Inr n" "n \<notin> d_name ` set acc"
    "declared_entry x n = Inr d" "declared_loop (acc @ [d]) xs = Inr r" "is_object x"
    by (auto split: if_splits sum.splits)
  note d = declared_entry_InrD [OF n(3)] declaredScopeName_InrD [OF n(1)]
  from 2(1) [OF _ n(1) n(2) n(3)] n d 2(3,4) show ?case by auto
qed simp

lemma resolve_scopes_ok:
  assumes "resolve_scopes raw supported = Inr ds" and "distinct supported" and "list_all scope_name_ok supported"
  shows "distinct (map d_name ds) \<and> list_all (\<lambda>d. scope_name_ok (d_name d) \<and> flags_nested d) ds \<and>
    set supported \<subseteq> d_name ` set ds \<and>
    list_all (\<lambda>d. d_stepUp d \<longrightarrow> d_name d \<notin> set supported) ds \<and>
    (raw \<noteq> None \<longrightarrow> list_all description_ok ds \<and> length ds \<le> 50)"
proof (cases raw)
  case None
  with assms show ?thesis
    by (auto simp: resolve_scopes_def plain_scope_def flags_nested_def list_all_iff comp_def image_iff)
next
  case (Some j)
  with assms(1) obtain xs where xs: "j = JArr xs" "length xs \<le> 50" "declared_loop [] xs = Inr ds"
    and sup: "\<forall>n \<in> set supported. n \<in> d_name ` set ds"
    and step: "\<forall>d \<in> set ds. \<not> (d_stepUp d \<and> d_name d \<in> set supported)"
    by (auto simp: resolve_scopes_def parseDeclaredScopes_def MAX_SCOPES_def find_None_iff
        split: sum.splits json.splits if_splits option.splits)
  from declared_loop_ok [OF xs(3)] xs sup step Some show ?thesis
    by (auto simp: list_all_iff)
qed

lemma parseScopesSupported_ok:
  assumes "parseScopesSupported raw = Inr r"
  shows "distinct r \<and> list_all scope_name_ok r"
proof (cases raw)
  case None
  with assms show ?thesis by (simp add: parseScopesSupported_def)
next
  case (Some j)
  with assms obtain xs where "supported_loop [] False xs = Inr r"
    by (auto simp: parseScopesSupported_def split: json.splits if_splits)
  from supported_loop_ok [OF this] show ?thesis by simp
qed

lemma validate_cases:
  assumes "validateResourceMetadata identifier issuer raw = Inr m"
  obtains name supported ds where
    "is_object raw" "member raw ''resource'' = Some (JStr identifier)"
    "servers_problem issuer (member raw ''authorization_servers'') = None"
    "parse_resource_name (member raw ''resource_name'') = Inr name"
    "parseScopesSupported (member raw ''scopes_supported'') = Inr supported"
    "resolve_scopes (member raw ''asterism_scopes'') supported = Inr ds" "ds \<noteq> []"
    "m = \<lparr>rm_resource = identifier, rm_resourceName = name, rm_scopes = ds, rm_scopesSupported = supported,
          rm_hasScopeDescriptions = (member raw ''asterism_scopes'' \<noteq> None)\<rparr>"
  using assms
  by (auto simp: validateResourceMetadata_def split: if_splits option.splits sum.splits)

text \<open>What a metadata document must be before it is used: it names itself with the identifier it was
  fetched for and lists this issuer; its scope names are distinct, valid tokens and never the issuer's own
  scopes; a fresh sign-in implies step-up and step-up implies short-lived; no step-up scope is advertised,
  and every advertised scope is declared; there is at least one scope, and declared ones are at most fifty,
  with descriptions of at most 300 characters and no control or format character.\<close>

theorem metadata_document_sound:
  assumes "validateResourceMetadata identifier issuer raw = Inr m"
  shows "rm_resource m = identifier \<and> member raw ''resource'' = Some (JStr identifier) \<and>
    (\<exists>xs. member raw ''authorization_servers'' = Some (JArr xs) \<and> JStr issuer \<in> set xs) \<and>
    rm_scopes m \<noteq> [] \<and> distinct (map d_name (rm_scopes m)) \<and>
    list_all (\<lambda>d. scope_name_ok (d_name d) \<and> flags_nested d \<and>
                  (d_stepUp d \<longrightarrow> d_name d \<notin> set (rm_scopesSupported m))) (rm_scopes m) \<and>
    set (rm_scopesSupported m) \<subseteq> d_name ` set (rm_scopes m) \<and>
    (rm_hasScopeDescriptions m \<longrightarrow> list_all description_ok (rm_scopes m) \<and> length (rm_scopes m) \<le> 50) \<and>
    (\<forall>n. rm_resourceName m = Some n \<longrightarrow> n \<noteq> [] \<and> length n \<le> 200 \<and> list_all (\<lambda>c. \<not> unsafe_display_char c) n)"
proof -
  from assms obtain name supported ds where v: "member raw ''resource'' = Some (JStr identifier)"
    "servers_problem issuer (member raw ''authorization_servers'') = None"
    "parse_resource_name (member raw ''resource_name'') = Inr name"
    "parseScopesSupported (member raw ''scopes_supported'') = Inr supported"
    "resolve_scopes (member raw ''asterism_scopes'') supported = Inr ds" "ds \<noteq> []"
    "m = \<lparr>rm_resource = identifier, rm_resourceName = name, rm_scopes = ds, rm_scopesSupported = supported,
          rm_hasScopeDescriptions = (member raw ''asterism_scopes'' \<noteq> None)\<rparr>"
    by (rule validate_cases)
  note sup = parseScopesSupported_ok [OF v(4)]
  note ds = resolve_scopes_ok [OF v(5) conjunct1 [OF sup] conjunct2 [OF sup]]
  have iss: "\<exists>xs. member raw ''authorization_servers'' = Some (JArr xs) \<and> JStr issuer \<in> set xs"
    using v(2) by (auto simp: servers_problem_def split: option.splits json.splits if_splits)
  have nm: "n \<noteq> [] \<and> length n \<le> 200 \<and> list_all (\<lambda>c. \<not> unsafe_display_char c) n" if "name = Some n" for n
    using v(3) that
    by (auto simp: parse_resource_name_def displayText_Inr RESOURCE_NAME_MAX_LENGTH_def
        split: option.splits json.splits if_splits sum.splits)
  show ?thesis using v(1,6,7) ds iss nm by (simp add: list_all_iff)
qed

section \<open>Only the operator widens\<close>

text \<open>
  Everything that happens to the table except an approval and the acceptance of a pending document of
  the server \<open>k\<close>: refreshes that end with any valid document or fail, changes of the row and the
  scope policies, acceptances for other servers, approvals of others, removals.
\<close>

inductive server_step ::
    "env \<Rightarrow> string \<Rightarrow> 'a client_state_scheme \<Rightarrow> 'a client_state_scheme \<Rightarrow> bool" for e k where
  Refreshed: "validateResourceMetadata i (e_issuerUrl e) raw = Inr c \<Longrightarrow>
     server_step e k s (fst (refresh_commit_server e now i actor c expiresAt s))"
| Refresh_failed: "server_step e k s (fst (refresh_failed now i msg s))"
| Updated: "server_step e k s (fst (updateResourceServer e now i p actor s))"
| Policy_set: "server_step e k s (fst (setScopePolicy e now i scope q actor s))"
| Accepted: "i \<noteq> k \<Longrightarrow> server_step e k s (fst (acceptPendingMetadata e now i fp actor s))"
| Approved: "trim (ap_identifier a) \<noteq> k \<Longrightarrow> server_step e k s (fst (approve_commit e now newId a actor c expiresAt s))"
| Removed: "server_step e k s (fst (removeResourceServer e now i actor s))"

text \<open>What every state keeps of the scopes \<open>D\<close> that were in force.\<close>

definition row_in_force :: "declared_scope list \<Rightarrow> server_row \<Rightarrow> bool" where
  "row_in_force D r \<longleftrightarrow>
     sr_metadata r \<noteq> None \<and> scopes_within (scopes_or_none (sr_metadata r)) D"

definition in_force :: "string \<Rightarrow> declared_scope list \<Rightarrow> 'a db_scheme \<Rightarrow> bool" where
  "in_force k D s \<longleftrightarrow>
     (case row_of sr_identifier k (resourceServers s) of None \<Rightarrow> True | Some r \<Rightarrow> row_in_force D r)"

lemma servers_frame [simp]:
  "resourceServers (loadRegistry s) = resourceServers s"
  "resourceServers (notifyRegistryChanged s) = resourceServers s"
  "resourceServers (audit a b c d f s') = resourceServers s'"
  by (simp_all add: loadRegistry_def load_start_def load_end_def notifyRegistryChanged_def audit_def)

lemma in_force_cong: "resourceServers s' = resourceServers s \<Longrightarrow> in_force k D s' = in_force k D s"
  by (simp add: in_force_def)

lemma in_force_put:
  assumes "in_force k D s" and "resourceServers s' = resourceServers (put_server i f s)"
    and "\<And>r. sr_identifier (f r) = sr_identifier r"
    and "\<And>r. i = k \<Longrightarrow> row_in_force D r \<Longrightarrow> row_in_force D (f r)"
  shows "in_force k D s'"
proof -
  have "row_of sr_identifier k (resourceServers s') =
      map_option (\<lambda>r. if sr_identifier r = i then f r else r) (row_of sr_identifier k (resourceServers s))"
    unfolding assms(2) put_server_def by (simp add: row_of_update_many assms(3))
  with assms(1,4) show ?thesis
    by (auto simp: in_force_def split: option.splits dest: row_of_SomeD)
qed

lemma decide_within:
  assumes "decide_snapshot (Some m) c = (stored, pending)"
  shows "scopes_within (rm_scopes stored) (scopes_or_none (Some m))"
proof (cases "widens m c")
  case True
  with assms show ?thesis by (auto simp: decide_snapshot_def merge_within)
next
  case False
  then have "pendingChanges (Some m) (Some (metadata_json c)) = []" by (simp add: widens_def)
  from pendingChanges_Nil [OF this] False assms show ?thesis by (auto simp: decide_snapshot_def)
qed

lemma refreshed_row_in_force:
  assumes "row_in_force D r"
  shows "row_in_force D (refreshed_row e now c expiresAt r)"
proof -
  from assms obtain m where m: "sr_metadata r = Some m" by (auto simp: row_in_force_def)
  obtain stored pending where d: "decide_snapshot (Some m) c = (stored, pending)" by fastforce
  from decide_within [OF d] assms m scopes_within_trans show ?thesis
    by (auto simp: refreshed_row_def d row_in_force_def Let_def)
qed

lemma refreshed_row_identifier [simp]: "sr_identifier (refreshed_row e now c x r) = sr_identifier r"
  by (simp add: refreshed_row_def Let_def split: prod.splits)

lemma server_step_in_force:
  assumes "server_step e k s s'" and "in_force k D s"
  shows "in_force k D s'"
  using assms(1)
proof cases
  case (Refreshed i raw c now actor expiresAt)
  then show ?thesis
  proof (cases "row_of sr_identifier i (resourceServers s)")
    case None
    with Refreshed assms(2) show ?thesis by (simp add: refresh_commit_server_def)
  next
    case (Some r)
    with Refreshed have "resourceServers s' = resourceServers (put_server i (refreshed_row e now c expiresAt) s)"
      by (simp add: refresh_commit_server_def Let_def)
    with assms(2) show ?thesis
      by (rule in_force_put) (simp_all add: refreshed_row_in_force)
  qed
next
  case (Refresh_failed now i msg)
  show ?thesis
  proof (cases "row_of sr_identifier i (resourceServers s)")
    case None
    with Refresh_failed assms(2) show ?thesis by (simp add: refresh_failed_def)
  next
    case (Some r)
    with Refresh_failed have "resourceServers s' = resourceServers (put_server i (\<lambda>r. r\<lparr>sr_lastFetchError := Some msg,
        sr_lastFetchAttemptAt := Some now, sr_updatedAt := now\<rparr>) s)" by (simp add: refresh_failed_def)
    with assms(2) show ?thesis
      by (rule in_force_put) (simp_all add: row_in_force_def)
  qed
next
  case (Updated now i p actor)
  then consider "resourceServers s' = resourceServers s"
    | d where "resourceServers s' = resourceServers (put_server i (updated_row now d) s)"
    by (auto simp: updateResourceServer_def Let_def split: sum.splits)
  then show ?thesis
  proof cases
    case 1
    with assms(2) show ?thesis by (simp add: in_force_def)
  next
    case 2
    with assms(2) show ?thesis
      by (rule in_force_put) (simp_all add: updated_row_def row_in_force_def)
  qed
next
  case (Policy_set now i scope q actor)
  then consider "resourceServers s' = resourceServers s"
    | d where "resourceServers s' = resourceServers (put_server i
        (\<lambda>r. r\<lparr>sr_scopePolicies := upsert_policy scope d (sr_scopePolicies r)\<rparr>) s)"
    by (auto simp: setScopePolicy_def Let_def split: sum.splits if_splits)
  then show ?thesis
  proof cases
    case 1
    with assms(2) show ?thesis by (simp add: in_force_def)
  next
    case 2
    with assms(2) show ?thesis
      by (rule in_force_put) (simp_all add: row_in_force_def)
  qed
next
  case (Accepted i now fp actor)
  then consider "resourceServers s' = resourceServers s"
    | p where "resourceServers s' = resourceServers (put_server i (\<lambda>r. r\<lparr>sr_metadata := Some p,
        sr_pendingMetadata := None, sr_pendingSince := None, sr_updatedAt := now\<rparr>) s)"
    by (auto simp: acceptPendingMetadata_def Let_def split: option.splits if_splits)
  then show ?thesis
  proof cases
    case 1
    with assms(2) show ?thesis by (simp add: in_force_def)
  next
    case 2
    with assms(2) show ?thesis by (rule in_force_put) (simp_all add: Accepted)
  qed
next
  case (Approved a now newId actor c expiresAt)
  then consider "resourceServers s' = resourceServers s"
    | dn where "resourceServers s' = resourceServers s @
        [approved_row now newId (trim (ap_identifier a)) dn a actor c expiresAt]"
    by (auto simp: approve_commit_def Let_def create_row_Some split: sum.splits option.splits)
  then show ?thesis
    using assms(2) Approved
    by cases (auto simp: in_force_def row_of_append approved_row_def split: option.splits)
next
  case (Removed now i actor)
  then consider "resourceServers s' = resourceServers s"
    | "resourceServers s' = delete_many (\<lambda>r. sr_identifier r = i) (resourceServers s)"
    by (auto simp: removeResourceServer_def revoke_resource_def split: sum.splits prod.splits)
  then show ?thesis
  proof cases
    case 2
    have "row_of sr_identifier k (delete_many (\<lambda>r. sr_identifier r = i) t) =
        (if i = k then None else row_of sr_identifier k t)" for t
      by (induction t) (auto simp: delete_many_def)
    from this [of "resourceServers s"] 2 assms(2) show ?thesis
      by (cases "i = k") (simp_all add: in_force_def)
  qed (use assms(2) in \<open>simp add: in_force_def\<close>)
qed

interpretation approved: transition_system "in_force k D" "server_step e k" "in_force k D"
  for k :: string and D :: "declared_scope list" and e :: env
  by unfold_locales (auto intro: server_step_in_force)

text \<open>C21: Only the operator widens access.  Whatever a resource server serves over any number of
  refreshes, mixed with failed refreshes and any operator action other than approving it or accepting its
  pending document, each scope in force still has a counterpart in the version that was in force at the
  start, with the same consent text, and it has lost none of the step-up, short-lived and fresh-sign-in
  flags.  (A new scope, a dropped flag or a new text waits.)\<close>

theorem only_the_operator_widens:
  assumes "(server_step e k)\<^sup>*\<^sup>* s s'"
    and "row_of sr_identifier k (resourceServers s) = Some r" and "sr_metadata r \<noteq> None"
    and "row_of sr_identifier k (resourceServers s') = Some r'"
  shows "sr_metadata r' \<noteq> None \<and>
    (\<forall>c \<in> set (scopes_or_none (sr_metadata r')). \<exists>a \<in> set (scopes_or_none (sr_metadata r)).
       d_name a = d_name c \<and> d_description a = d_description c \<and> (d_stepUp a \<longrightarrow> d_stepUp c) \<and>
       (d_shortLived a \<longrightarrow> d_shortLived c) \<and> (d_freshSignIn a \<longrightarrow> d_freshSignIn c))"
proof -
  let ?D = "scopes_or_none (sr_metadata r)"
  have "in_force k ?D s" using assms(2,3) scopes_within_refl by (simp add: in_force_def row_in_force_def)
  from approved.inv_star [OF assms(1) this] assms(4) have "row_in_force ?D r'" by (simp add: in_force_def)
  then show ?thesis by (auto simp: row_in_force_def scopes_within_def scope_within_def list_all_iff)
qed

section \<open>Accepting\<close>

lemma snapshotChanged_iff: "snapshotChanged a b \<longleftrightarrow> \<not> same_view a b"
  by (simp add: snapshotChanged_def canonicalView_iff)

lemma row_of_put_other:
  assumes "\<And>r. sr_identifier (f r) = sr_identifier r" and "i \<noteq> k"
  shows "row_of sr_identifier i (resourceServers (put_server k f s)) = row_of sr_identifier i (resourceServers s)"
  unfolding put_server_def using assms
  by (cases "row_of sr_identifier i (resourceServers s)") (auto simp: row_of_update_many dest: row_of_SomeD(2))

lemma row_of_put_same:
  assumes "\<And>r. sr_identifier (f r) = sr_identifier r" and "row_of sr_identifier k (resourceServers s) = Some r"
  shows "row_of sr_identifier k (resourceServers (put_server k f s)) = Some (f r)"
  unfolding put_server_def using assms by (simp add: row_of_update_many row_of_SomeD(2) [OF assms(2)])

text \<open>Two texts on which the fingerprint, half of the SHA-256 in hexadecimal, collides.\<close>

definition fingerprint_collision :: "env \<Rightarrow> json \<Rightarrow> json \<Rightarrow> bool" where
  "fingerprint_collision e p q \<longleftrightarrow>
     canonicalView (snapshotView (Some p)) \<noteq> canonicalView (snapshotView (Some q)) \<and>
     take 16 (e_sha256 e (canonicalView (snapshotView (Some p)))) =
       take 16 (e_sha256 e (canonicalView (snapshotView (Some q))))"

lemma fingerprint_eq:
  "pendingFingerprint e p = pendingFingerprint e q \<longleftrightarrow>
     same_view (snapshotView (Some p)) (snapshotView (Some q)) \<or> fingerprint_collision e p q"
  by (auto simp: pendingFingerprint_def fingerprint_collision_def canonicalView_iff [symmetric])

text \<open>C22: Accepting puts in force what the operator reviewed.  The operator quotes the fingerprint of the
  status page.  When the acceptance succeeds, the document that waits then, whatever refreshes came in
  between, has the quoted fingerprint: it has the name and the scopes (texts and flags, up to their order)
  of the one reviewed, or the two texts are a collision of the truncated SHA-256, which the theorem
  exhibits.  That document is in force, nothing waits any more, and the other servers are as they were.
  Otherwise nothing changes; and while a document with the reviewed name and scopes waits, the acceptance
  does succeed.\<close>

theorem accepted_is_what_was_reviewed:
  assumes "acceptPendingMetadata e now k fp actor s = (s', res)"
    and "pendingOf e reviewed = Some shown" and "fp = pm_fingerprint shown"
    and "sr_pendingMetadata reviewed = Some p0"
  shows "((isl res \<and> s' = s) \<or>
    (\<not> isl res \<and> (\<exists>r p r'. row_of sr_identifier k (resourceServers s) = Some r \<and> sr_pendingMetadata r = Some p \<and>
       (same_view (snapshotView (Some p)) (snapshotView (Some p0)) \<or> fingerprint_collision e p p0) \<and>
       row_of sr_identifier k (resourceServers s') = Some r' \<and>
       sr_metadata r' = Some p \<and> sr_pendingMetadata r' = None \<and>
       (\<forall>i. i \<noteq> k \<longrightarrow> row_of sr_identifier i (resourceServers s') = row_of sr_identifier i (resourceServers s))))) \<and>
    (\<forall>r p. row_of sr_identifier k (resourceServers s) = Some r \<and> sr_pendingMetadata r = Some p \<and>
       same_view (snapshotView (Some p)) (snapshotView (Some p0)) \<longrightarrow> \<not> isl res)"
proof (cases "row_of sr_identifier k (resourceServers s)")
  case None
  with assms(1) show ?thesis by (auto simp: acceptPendingMetadata_def)
next
  case r: (Some r)
  show ?thesis
  proof (cases "sr_pendingMetadata r")
    case None
    with assms(1) r show ?thesis by (auto simp: acceptPendingMetadata_def)
  next
    case p: (Some p)
    have fp: "fp = pendingFingerprint e p0"
      using assms(2,3,4) by (auto simp: pendingOf_def Let_def split: if_splits)
    show ?thesis
    proof (cases "pendingFingerprint e p = fp")
      case False
      with fp have "\<not> same_view (snapshotView (Some p)) (snapshotView (Some p0))" by (simp add: fingerprint_eq)
      with False assms(1) r p show ?thesis by (auto simp: acceptPendingMetadata_def)
    next
      case True
      let ?f = "\<lambda>r. r\<lparr>sr_metadata := Some p, sr_pendingMetadata := None, sr_pendingSince := None, sr_updatedAt := now\<rparr>"
      from assms(1) r p True have s': "resourceServers s' = resourceServers (put_server k ?f s)"
        and res: "\<not> isl res"
        by (auto simp: acceptPendingMetadata_def Let_def)
      from True fp have "same_view (snapshotView (Some p)) (snapshotView (Some p0)) \<or> fingerprint_collision e p p0"
        by (simp add: fingerprint_eq)
      moreover have "row_of sr_identifier k (resourceServers s') = Some (?f r)"
        unfolding s' by (rule row_of_put_same) (simp_all add: r)
      moreover have "\<forall>i. i \<noteq> k \<longrightarrow>
          row_of sr_identifier i (resourceServers s') = row_of sr_identifier i (resourceServers s)"
        unfolding s' by (intro allI impI row_of_put_other) simp_all
      ultimately have "\<exists>r'. (same_view (snapshotView (Some p)) (snapshotView (Some p0)) \<or> fingerprint_collision e p p0) \<and>
          row_of sr_identifier k (resourceServers s') = Some r' \<and>
          sr_metadata r' = Some p \<and> sr_pendingMetadata r' = None \<and>
          (\<forall>i. i \<noteq> k \<longrightarrow> row_of sr_identifier i (resourceServers s') = row_of sr_identifier i (resourceServers s))"
        by (intro exI [of _ "?f r"]) simp
      with r p res show ?thesis by blast
    qed
  qed
qed

section \<open>What the admin view shows\<close>

lemma parse_snapshot_scope_trusted: "parse_snapshot_scope j = Some d \<Longrightarrow> snapshot_scope j = d"
proof (induction j rule: parse_snapshot_scope.induct)
  case (1 fs)
  have flag: "flag_default x = Some b \<Longrightarrow> (x = Some (JBool True)) = b" for x b
    by (induction x rule: flag_default.induct) auto
  from 1 show ?case
    by (auto simp: snapshot_scope_def str_member_def flag_member_def
        split: option.splits json.splits if_splits dest!: flag)
qed simp_all

lemma all_some_map: "all_some (map f xs) = Some ys \<Longrightarrow> (\<And>x y. f x = Some y \<Longrightarrow> g x = y) \<Longrightarrow> map g xs = ys"
proof (induction xs arbitrary: ys)
  case (Cons x xs)
  then show ?case by (cases "f x") auto
qed simp

lemma parse_snapshot_trusted: "parse_snapshot j = Some ds \<Longrightarrow> scopes_or_none (Some j) = ds"
  by (auto simp: parse_snapshot_def scopes_or_none_def snapshotScopes_def
      split: option.splits json.splits dest!: all_some_map intro: parse_snapshot_scope_trusted)

lemma join_scopes_map:
  "distinct (map d_name ds) \<Longrightarrow> set seen \<inter> d_name ` set ds = {} \<Longrightarrow>
     join_scopes ps seen ds = map (join_scope ps) ds"
  by (induction ds arbitrary: seen) auto

text \<open>A line of the admin view as the scope it describes.\<close>

definition shown_scope :: "scope_status \<Rightarrow> scope" where
  "shown_scope t =
     \<lparr>s_name = ss_name t, s_description = ss_description t, s_shortLived = ss_shortLived t,
      s_freshSignIn = ss_freshSignIn t,
      s_requireGroups = (if ss_requireGroups t = [] then None else Some (ss_requireGroups t))\<rparr>"

lemma shown_join: "shown_scope (scope_status_of ps d) = join_scope ps d"
proof (cases "ps (d_name d)")
  case None
  then show ?thesis by (simp add: shown_scope_def scope_status_of_def join_scope_def Let_def)
next
  case (Some p)
  then show ?thesis
    by (cases "sp_descriptionOverride p") (simp_all add: shown_scope_def scope_status_of_def join_scope_def Let_def)
qed

definition tightened :: "scope_status \<Rightarrow> bool" where
  "tightened t \<longleftrightarrow>
     (ss_declaredShortLived t \<or> ss_stepUp t \<or> ss_freshSignIn t \<longrightarrow> ss_shortLived t) \<and>
     (ss_declaredFreshSignIn t \<or> ss_policyFreshSignIn t \<longrightarrow> ss_freshSignIn t)"

lemma tightened_status: "tightened (scope_status_of ps d)"
  by (simp add: tightened_def scope_status_of_def Let_def)

text \<open>C23: The admin view shows what is enforced.  For a server the registry holds, the lines of the status
  page (text at consent, short-lived, fresh sign-in, required groups) are exactly the scopes the registry
  enforces, in order; and policy only tightens: a line is short-lived or forces a sign-in whenever the
  server declares it.\<close>

theorem status_is_what_is_enforced:
  assumes "joinResourceServer row = Some rs"
    and "distinct (map d_name (scopes_or_none (sr_metadata row)))"
  shows "map shown_scope (st_scopes (statusOf e now row)) = rs_scopes rs \<and>
    st_enabled (statusOf e now row) \<and> st_displayName (statusOf e now row) = rs_name rs \<and>
    st_releaseClaims (statusOf e now row) = rs_releaseClaims rs \<and>
    list_all tightened (st_scopes (statusOf e now row))"
proof -
  from assms(1) obtain m ds where m: "sr_enabled row" "sr_metadata row = Some m" "parse_snapshot m = Some ds"
    "rs = \<lparr>rs_identifier = sr_identifier row, rs_name = sr_displayName row,
           rs_scopes = join_scopes (policy_map (sr_scopePolicies row)) [] ds,
           rs_releaseClaims = sr_releaseClaims row\<rparr>"
    by (rule joinResourceServer_SomeD)
  have ds: "scopes_or_none (sr_metadata row) = ds" using m parse_snapshot_trusted by simp
  with assms(2) have "rs_scopes rs = map (join_scope (policy_map (sr_scopePolicies row))) ds"
    by (simp add: m(4) join_scopes_map)
  then show ?thesis
    using m ds by (simp add: statusOf_def Let_def comp_def shown_join list_all_iff tightened_status)
qed

section \<open>Removal\<close>

text \<open>The registry after a reload is the join of the table.\<close>

lemma build_registry_lookup:
  assumes "distinct (map sr_identifier rows)"
  shows "jm_get (build_registry rows acc) k =
    (case row_of sr_identifier k rows of
       None \<Rightarrow> jm_get acc k
     | Some r \<Rightarrow> (case joinResourceServer r of None \<Rightarrow> jm_get acc k | Some rs \<Rightarrow> Some rs))"
  using assms
proof (induction rows arbitrary: acc)
  case (Cons r rows)
  have fresh: "row_of sr_identifier (sr_identifier r) rows = None"
    using Cons.prems by (simp add: row_of_None_iff)
  show ?case
  proof (cases "joinResourceServer r")
    case None
    with Cons fresh show ?thesis by auto
  next
    case (Some rs)
    then have "rs_identifier rs = sr_identifier r" by (auto elim: joinResourceServer_SomeD)
    then show ?thesis using Cons Some fresh by (auto split: option.splits)
  qed
qed simp

lemma row_of_filter:
  "distinct (map sr_identifier rows) \<Longrightarrow>
     row_of sr_identifier k (filter P rows) =
       (case row_of sr_identifier k rows of None \<Rightarrow> None | Some r \<Rightarrow> if P r then Some r else None)"
  using row_of_delete_many [of sr_identifier rows k "\<lambda>r. \<not> P r"] by (auto simp: delete_many_def split: option.splits)

lemma lookup_after_load:
  assumes "distinct (map sr_identifier (resourceServers s))" and "appliedGeneration s \<le> Suc (nextGeneration s)"
  shows "lookupResourceServer (loadRegistry s) k =
    Option.bind (row_of sr_identifier k (resourceServers s)) joinResourceServer"
  using assms
  by (auto simp: loadRegistry_def load_start_def load_end_def lookupResourceServer_def build_registry_lookup
      distinct_map_filter row_of_filter joinResourceServer_def split: option.splits)

text \<open>The token endpoint and a resource that is not registered.\<close>

lemma unregistered_refused:
  assumes "\<not> isRegisteredResource s k"
  shows "stringField body ''code'' = Some p \<Longrightarrow>
      row_of ac_codeHash (e_sha256 e p) (authCodes s) = Some c \<Longrightarrow> ac_resource c = k \<Longrightarrow>
      \<not> granted (snd (handleAuthorizationCodeGrant e now rnd body s))"
    and "stringField body ''refresh_token'' = Some p \<Longrightarrow>
      row_of rt_tokenHash (e_sha256 e p) (refreshTokens s) = Some t \<Longrightarrow> rt_resource t = k \<Longrightarrow>
      \<not> granted (snd (handleRefreshTokenGrant e pv now rnd body s))"
    and "stringField body ''device_code'' = Some p \<Longrightarrow>
      row_of dv_deviceCodeHash (e_sha256 e p) (deviceCodes s) = Some d \<Longrightarrow> dv_resource d = k \<Longrightarrow>
      \<not> granted (snd (handleDeviceCodeGrant e now rnd body s))"
proof -
  have no: "lookupResourceServer s k = None" using assms by (simp add: isRegistered_lookup)
  show "\<not> granted (snd (handleAuthorizationCodeGrant e now rnd body s))"
    if "stringField body ''code'' = Some p"
      "row_of ac_codeHash (e_sha256 e p) (authCodes s) = Some c" "ac_resource c = k"
  proof (cases "code_checks e now rnd body s")
    case (Pair s1 v)
    with that no code_checks_Inl [of e now rnd body s s1] show ?thesis
      by (cases v) (auto simp: handleAuthorizationCodeGrant_def granted_iff code_accepted_def elim!: code_checks_Inr)
  qed
  show "\<not> granted (snd (handleRefreshTokenGrant e pv now rnd body s))"
    if "stringField body ''refresh_token'' = Some p"
      "row_of rt_tokenHash (e_sha256 e p) (refreshTokens s) = Some t" "rt_resource t = k"
  proof (cases "refresh_checks e pv now rnd body s")
    case (Pair s1 v)
    with that no refresh_checks_not_ok [of e pv now rnd body s s1] show ?thesis
      by (cases v) (auto simp: handleRefreshTokenGrant_def granted_iff refresh_accepted_def elim!: refresh_checks_Inr)
  qed
  show "\<not> granted (snd (handleDeviceCodeGrant e now rnd body s))"
    if "stringField body ''device_code'' = Some p"
      "row_of dv_deviceCodeHash (e_sha256 e p) (deviceCodes s) = Some d" "dv_resource d = k"
  proof (cases "device_checks e now rnd body s")
    case (Pair s1 v)
    with that no device_checks_not_ok [of e now rnd body s s1] show ?thesis
      by (cases v) (auto simp: handleDeviceCodeGrant_def granted_iff device_accepted_def elim!: device_checks_Inr)
  qed
qed

text \<open>C24: A removed server is dead.  After a removal the identifier is not registered and the other
  servers are as the table says; the live grants and refresh tokens of that resource are revoked at that
  moment, every other grant and token row and every code and user is untouched, and the counts are
  exact.  One row joins the audit log: the removal of that server by that actor.  As long as the resource
  is not registered, the token endpoint exchanges no authorization code, refresh token or device code for
  it, whoever presents it.\<close>

theorem removed_server_is_dead:
  fixes s :: "'a upstream_state_scheme"
  assumes "removeResourceServer e now k actor s = (s', Inr (ng, nt))"
    and "distinct (map sr_identifier (resourceServers s))" and "appliedGeneration s \<le> Suc (nextGeneration s)"
  shows "\<not> isRegisteredResource s' k \<and>
    resourceServers s' = delete_many (\<lambda>r. sr_identifier r = k) (resourceServers s) \<and>
    (\<forall>i. i \<noteq> k \<longrightarrow> lookupResourceServer s' i =
       Option.bind (row_of sr_identifier i (resourceServers s)) joinResourceServer) \<and>
    grants s' = map (\<lambda>g. if gr_resource g = k \<and> gr_revokedAt g = None
                         then g\<lparr>gr_revokedAt := Some now\<rparr> else g) (grants s) \<and>
    refreshTokens s' = map (\<lambda>t. if rt_resource t = k \<and> rt_revokedAt t = None
                                then t\<lparr>rt_revokedAt := Some now\<rparr> else t) (refreshTokens s) \<and>
    authCodes s' = authCodes s \<and> deviceCodes s' = deviceCodes s \<and> authRequests s' = authRequests s \<and>
    users s' = users s \<and> localUsers s' = localUsers s \<and>
    ng = count_rows (\<lambda>g. gr_resource g = k \<and> gr_revokedAt g = None) (grants s) \<and>
    nt = count_rows (\<lambda>t. rt_resource t = k \<and> rt_revokedAt t = None) (refreshTokens s) \<and>
    (\<exists>a. adminAuditLog s' = adminAuditLog s @ [a] \<and> au_actor a = actor \<and>
       au_action a = ''resource-server.remove'' \<and> au_target a = k) \<and>
    (\<forall>(s2 :: 'a upstream_state_scheme) pv later rnd body p. \<not> isRegisteredResource s2 k \<longrightarrow>
       (\<forall>c. stringField body ''code'' = Some p \<and>
          row_of ac_codeHash (e_sha256 e p) (authCodes s2) = Some c \<and> ac_resource c = k \<longrightarrow>
          \<not> granted (snd (handleAuthorizationCodeGrant e later rnd body s2))) \<and>
       (\<forall>t. stringField body ''refresh_token'' = Some p \<and>
          row_of rt_tokenHash (e_sha256 e p) (refreshTokens s2) = Some t \<and> rt_resource t = k \<longrightarrow>
          \<not> granted (snd (handleRefreshTokenGrant e pv later rnd body s2))) \<and>
       (\<forall>d. stringField body ''device_code'' = Some p \<and>
          row_of dv_deviceCodeHash (e_sha256 e p) (deviceCodes s2) = Some d \<and> dv_resource d = k \<longrightarrow>
          \<not> granted (snd (handleDeviceCodeGrant e later rnd body s2))))"
proof -
  let ?s2 = "\<lambda>b. notifyRegistryChanged (audit actor ''resource-server.remove'' k (Some (policyOf e b))
      (Some (JObj [(''grantsRevoked'', JNum (of_nat ng)), (''tokensRevoked'', JNum (of_nat nt))]))
      (revoke_resource now k s))"
  from assms(1) obtain b where counts: "revoked_counts k s = (ng, nt)" and s': "s' = loadRegistry (?s2 b)"
    by (auto simp: removeResourceServer_def split: sum.splits prod.splits)
  define t where "t = ?s2 b"
  have t: "resourceServers t = delete_many (\<lambda>r. sr_identifier r = k) (resourceServers s)"
    "appliedGeneration t \<le> Suc (nextGeneration t)"
    using assms(3) by (simp_all add: t_def notifyRegistryChanged_def audit_def revoke_resource_def)
  have s't: "s' = loadRegistry t" by (simp add: s' t_def)
  have look: "lookupResourceServer s' i =
      Option.bind (row_of sr_identifier i (delete_many (\<lambda>r. sr_identifier r = k) (resourceServers s))) joinResourceServer"
    for i
    unfolding s't using assms(2) t by (subst lookup_after_load) (simp_all add: distinct_key_delete_many)
  have rows: "row_of sr_identifier i (delete_many (\<lambda>r. sr_identifier r = k) (resourceServers s)) =
      (if i = k then None else row_of sr_identifier i (resourceServers s))" for i
    by (auto simp: row_of_delete_many [OF assms(2)] split: option.splits dest: row_of_SomeD(2))
  have fr: "grants s' = grants (revoke_resource now k s)" "refreshTokens s' = refreshTokens (revoke_resource now k s)"
    "authCodes s' = authCodes s" "deviceCodes s' = deviceCodes s" "authRequests s' = authRequests s"
    "users s' = users s" "localUsers s' = localUsers s"
    "resourceServers s' = delete_many (\<lambda>r. sr_identifier r = k) (resourceServers s)"
    "\<exists>a. adminAuditLog s' = adminAuditLog s @ [a] \<and> au_actor a = actor \<and>
       au_action a = ''resource-server.remove'' \<and> au_target a = k"
    by (simp_all add: s' loadRegistry_def load_start_def load_end_def notifyRegistryChanged_def audit_def
        revoke_resource_def)
  have reg: "\<not> isRegisteredResource s' k" "\<forall>i. i \<noteq> k \<longrightarrow> lookupResourceServer s' i =
       Option.bind (row_of sr_identifier i (resourceServers s)) joinResourceServer"
    by (simp_all add: isRegistered_lookup look rows)
  have upd: "grants s' = map (\<lambda>g. if gr_resource g = k \<and> gr_revokedAt g = None
                         then g\<lparr>gr_revokedAt := Some now\<rparr> else g) (grants s)"
    "refreshTokens s' = map (\<lambda>t. if rt_resource t = k \<and> rt_revokedAt t = None
                                then t\<lparr>rt_revokedAt := Some now\<rparr> else t) (refreshTokens s)"
    by (simp_all add: fr(1,2) revoke_resource_def update_many_def)
  have n: "ng = count_rows (\<lambda>g. gr_resource g = k \<and> gr_revokedAt g = None) (grants s)"
    "nt = count_rows (\<lambda>t. rt_resource t = k \<and> rt_revokedAt t = None) (refreshTokens s)"
    using counts by (simp_all add: revoked_counts_def)
  show ?thesis
    by (intro conjI reg upd n fr(3-9) allI impI; elim conjE; rule unregistered_refused; assumption)
qed

section \<open>Samples\<close>

definition sample_raw :: "json \<Rightarrow> json" where
  "sample_raw scopes =
     JObj [(''resource'', JStr ''https://rs''), (''authorization_servers'', JArr [JStr ''https://as.example'']),
           (''scopes_supported'', JArr [JStr ''read'', JStr ''offline_access'']), (''asterism_scopes'', scopes)]"

definition read_entry :: json where
  "read_entry = JObj [(''name'', JStr ''read''), (''description'', JStr ''Read'')]"

definition admin_entry :: json where
  "admin_entry = JObj [(''name'', JStr ''admin''), (''description'', JStr ''Administer''), (''step_up'', JBool True)]"

definition read_document :: resource_metadata where
  "read_document =
     \<lparr>rm_resource = ''https://rs'', rm_resourceName = None,
      rm_scopes = [\<lparr>d_name = ''read'', d_description = ''Read'', d_stepUp = False, d_shortLived = False,
                    d_freshSignIn = False\<rparr>],
      rm_scopesSupported = [''read''], rm_hasScopeDescriptions = True\<rparr>"

definition wide_document :: resource_metadata where
  "wide_document = read_document\<lparr>rm_scopes := rm_scopes read_document @
     [\<lparr>d_name = ''admin'', d_description = ''Administer'', d_stepUp = True, d_shortLived = True,
       d_freshSignIn = False\<rparr>]\<rparr>"

lemma wide_valid:
  "validateResourceMetadata ''https://rs'' ''https://as.example'' (sample_raw (JArr [read_entry, admin_entry])) =
     Inr wide_document"
  by code_simp

theorem metadata_document_sound_sample:
  "set (rm_scopesSupported wide_document) \<subseteq> d_name ` set (rm_scopes wide_document) \<and>
   distinct (map d_name (rm_scopes wide_document))"
  using metadata_document_sound [OF wide_valid] by blast

definition sample_row :: server_row where
  "sample_row =
     approved_row 0 ''s1'' ''https://rs'' ''RS''
       \<lparr>ap_identifier = ''https://rs'', ap_displayName = None, ap_internal = False, ap_releaseClaims = [''email'']\<rparr>
       ''cli'' read_document 1000"

definition served_state :: upstream_state where
  "served_state = sample_state\<lparr>resourceServers := [sample_row]\<rparr>"

abbreviation widened_state :: upstream_state where
  "widened_state \<equiv>
     fst (refresh_commit_server sample_env 2000 ''https://rs'' None wide_document 900000 served_state)"

definition widened_row :: server_row where
  "widened_row = refreshed_row sample_env 2000 wide_document 900000 sample_row"

lemma widened_rows:
  "resourceServers served_state = [sample_row]" "resourceServers widened_state = [widened_row]"
  "sr_identifier sample_row = ''https://rs''" "sr_identifier widened_row = ''https://rs''"
  by code_simp+

theorem only_the_operator_widens_sample:
  "map d_name (scopes_or_none (sr_metadata widened_row)) = [''read''] \<and>
   (\<exists>a \<in> set (scopes_or_none (sr_metadata sample_row)). d_description a = ''Read'')"
proof -
  have "server_step sample_env ''https://rs'' served_state widened_state"
    using wide_valid by (intro Refreshed [where raw = "sample_raw (JArr [read_entry, admin_entry])"])
      (simp add: sample_env_def)
  then have steps: "(server_step sample_env ''https://rs'')\<^sup>*\<^sup>* served_state widened_state" by blast
  have rows: "row_of sr_identifier ''https://rs'' (resourceServers served_state) = Some sample_row"
    "row_of sr_identifier ''https://rs'' (resourceServers widened_state) = Some widened_row"
    by (simp_all add: widened_rows)
  have meta: "sr_metadata sample_row \<noteq> None" by code_simp
  have names: "map d_name (scopes_or_none (sr_metadata widened_row)) = [''read'']"
    "map d_description (scopes_or_none (sr_metadata widened_row)) = [''Read'']"
    by code_simp+
  from only_the_operator_widens [OF steps rows(1) meta rows(2)] names show ?thesis by auto
qed

definition review_env :: env where
  "review_env = sample_env\<lparr>e_sha256 :=
     (\<lambda>x. if x = canonicalView (snapshotView (Some (metadata_json wide_document)))
          then replicate 16 CHR ''a'' else ''b'')\<rparr>"

abbreviation accepted :: "upstream_state \<times> (service_error + server_status)" where
  "accepted \<equiv> acceptPendingMetadata review_env 3000 ''https://rs'' (replicate 16 CHR ''a'') ''cli''
     (served_state\<lparr>resourceServers := [widened_row]\<rparr>)"

theorem accepted_is_what_was_reviewed_sample:
  "\<exists>r'. row_of sr_identifier ''https://rs'' (resourceServers (fst accepted)) = Some r' \<and>
     sr_metadata r' = Some (metadata_json wide_document) \<and> sr_pendingMetadata r' = None"
proof -
  have run: "accepted = (fst accepted, snd accepted)" by simp
  have shown: "pendingOf review_env widened_row = Some (the (pendingOf review_env widened_row))"
    "replicate 16 CHR ''a'' = pm_fingerprint (the (pendingOf review_env widened_row))"
    "sr_pendingMetadata widened_row = Some (metadata_json wide_document)"
    by code_simp+
  have ok: "\<not> isl (snd accepted)" by code_simp
  have row: "row_of sr_identifier ''https://rs'' (resourceServers (served_state\<lparr>resourceServers := [widened_row]\<rparr>)) =
      Some widened_row"
    by (simp add: widened_rows)
  from accepted_is_what_was_reviewed [OF run shown(1,2,3), THEN conjunct1] ok
  obtain r p r' where r: "Some widened_row = Some r" "sr_pendingMetadata r = Some p"
    and r': "row_of sr_identifier ''https://rs'' (resourceServers (fst accepted)) = Some r'"
      "sr_metadata r' = Some p" "sr_pendingMetadata r' = None"
    unfolding row by blast
  from r shown(3) have "p = metadata_json wide_document" by simp
  with r' show ?thesis by blast
qed

lemma sample_join: "joinResourceServer sample_row =
    Some \<lparr>rs_identifier = ''https://rs'', rs_name = ''RS'',
          rs_scopes = [\<lparr>s_name = ''read'', s_description = ''Read'', s_shortLived = False, s_freshSignIn = False,
                        s_requireGroups = None\<rparr>], rs_releaseClaims = [''email'']\<rparr>"
  by code_simp

theorem status_is_what_is_enforced_sample:
  "map shown_scope (st_scopes (statusOf sample_env 5000 sample_row)) =
     [\<lparr>s_name = ''read'', s_description = ''Read'', s_shortLived = False, s_freshSignIn = False,
       s_requireGroups = None\<rparr>]"
proof -
  have "distinct (map d_name (scopes_or_none (sr_metadata sample_row)))" by code_simp
  from status_is_what_is_enforced [OF sample_join this, of sample_env 5000] show ?thesis by simp
qed

abbreviation removed :: "upstream_state \<times> (service_error + nat \<times> nat)" where
  "removed \<equiv> removeResourceServer sample_env 5000 ''https://rs'' ''cli'' served_state"

theorem removed_server_is_dead_sample:
  "snd removed = Inr (1, 1) \<and>
   \<not> granted (snd (handleAuthorizationCodeGrant sample_env 6000 sample_rand code_body (fst removed))) \<and>
   \<not> granted (snd (handleRefreshTokenGrant sample_env sample_provider 6000 sample_rand refresh_body (fst removed)))"
proof -
  have n: "snd removed = Inr (1, 1)" by code_simp
  have run: "removed = (fst removed, Inr (1, 1))" by (rule prod_eqI) (simp, simp add: n)
  have d: "distinct (map sr_identifier (resourceServers served_state))" by (simp add: widened_rows)
  have g: "appliedGeneration served_state \<le> Suc (nextGeneration served_state)" by code_simp
  have c: "stringField code_body ''code'' = Some ''code''"
    "row_of ac_codeHash (e_sha256 sample_env ''code'') (authCodes (fst removed)) = Some sample_code"
    "stringField refresh_body ''refresh_token'' = Some ''rt''"
    "map_option rt_resource (row_of rt_tokenHash (e_sha256 sample_env ''rt'') (refreshTokens (fst removed))) =
       Some ''https://rs''"
    by code_simp+
  have r: "ac_resource sample_code = ''https://rs''" by (simp add: sample_code_def)
  from c(4) obtain t where t: "row_of rt_tokenHash (e_sha256 sample_env ''rt'') (refreshTokens (fst removed)) = Some t"
    "rt_resource t = ''https://rs''" by auto
  note m = removed_server_is_dead [OF run d g]
  note dead = conjunct1 [OF m]
  note last = m [THEN conjunct2, THEN conjunct2, THEN conjunct2, THEN conjunct2, THEN conjunct2,
      THEN conjunct2, THEN conjunct2, THEN conjunct2, THEN conjunct2, THEN conjunct2, THEN conjunct2,
      THEN conjunct2, THEN conjunct2, rule_format, OF dead]
  have "\<not> granted (snd (handleAuthorizationCodeGrant sample_env 6000 sample_rand code_body (fst removed)))"
    using last [where later = 6000 and rnd = sample_rand and body = code_body, THEN conjunct1] c(1,2) r by blast
  moreover have "\<not> granted (snd (handleRefreshTokenGrant sample_env sample_provider 6000 sample_rand refresh_body (fst removed)))"
    using last [where later = 6000 and rnd = sample_rand and body = refresh_body and pv = sample_provider,
        THEN conjunct2, THEN conjunct1] c(3) t by blast
  ultimately show ?thesis using n by blast
qed

end
