(* ===== verification/ListenerProps.thy ===== *)
theory ListenerProps
  imports Listener ServerProps
begin

text \<open>
  How a change of the resource servers reaches the registry: at once in the process that makes it,
  and through the listener in the proxy.
\<close>

section \<open>Changes are announced\<close>

lemma current_view_frame [simp]:
  "current_view (loadRegistry s) = current_view s" "current_view (notifyRegistryChanged s) = current_view s"
  "current_view (audit a b c d f s') = current_view s'"
  by (simp_all add: current_view_def enabled_rows_def)

lemma notifications_frame [simp]:
  "notifications (loadRegistry s) = notifications s" "notifications (notifyRegistryChanged s) = Suc (notifications s)"
  "notifications (audit a b c d f s) = notifications s" "notifications (put_server i g s) = notifications s"
  "notifications (revoke_resource now i s) = notifications s"
  by (simp_all add: loadRegistry_def load_start_def load_end_def notifyRegistryChanged_def audit_def
      put_server_def revoke_resource_def Let_def)

lemma loadRegistry_current:
  assumes "appliedGeneration s \<le> nextGeneration s"
  shows "registry (loadRegistry s) = current_view s"
  using assms by (simp add: loadRegistry_def load_start_def load_end_def current_view_def enabled_rows_def Let_def)

lemma generations_frame [simp]:
  "appliedGeneration (notifyRegistryChanged s) = appliedGeneration s" "nextGeneration (notifyRegistryChanged s) = nextGeneration s"
  "appliedGeneration (audit a b c d f s) = appliedGeneration s" "nextGeneration (audit a b c d f s) = nextGeneration s"
  "appliedGeneration (put_server i g s) = appliedGeneration s" "nextGeneration (put_server i g s) = nextGeneration s"
  "appliedGeneration (revoke_resource now i s) = appliedGeneration s" "nextGeneration (revoke_resource now i s) = nextGeneration s"
  by (simp_all add: notifyRegistryChanged_def audit_def put_server_def revoke_resource_def)

text \<open>The notes of a failed fetch are not part of the view.\<close>

lemma build_registry_map:
  assumes "\<And>r. r \<in> set rows \<Longrightarrow> joinResourceServer (f r) = joinResourceServer r"
  shows "build_registry (map f rows) acc = build_registry rows acc"
  using assms by (induction rows acc rule: build_registry.induct) (auto split: option.splits)

lemma failure_note_view:
  "current_view (put_server i (\<lambda>r. r\<lparr>sr_lastFetchError := m, sr_lastFetchAttemptAt := a, sr_updatedAt := u\<rparr>) s) =
   current_view s"
proof -
  let ?f = "\<lambda>r. if sr_identifier r = i then r\<lparr>sr_lastFetchError := m, sr_lastFetchAttemptAt := a, sr_updatedAt := u\<rparr> else r"
  have "filter sr_enabled (map ?f rows) = map ?f (filter sr_enabled rows)" for rows
    by (induction rows) auto
  then have "enabled_rows (put_server i (\<lambda>r. r\<lparr>sr_lastFetchError := m, sr_lastFetchAttemptAt := a, sr_updatedAt := u\<rparr>) s) =
      map ?f (enabled_rows s)"
    unfolding enabled_rows_def put_server_def update_many_def by simp
  moreover have "joinResourceServer (?f r) = joinResourceServer r" for r
    by (simp add: joinResourceServer_def cong: option.case_cong)
  ultimately show ?thesis
    unfolding current_view_def using build_registry_map [of "enabled_rows s" ?f "[]"] by simp
qed

text \<open>a change of what is registered is announced and in force at once.  Whatever an operator
  action or a refresh does to the resource servers, if the registry built from them is a different
  one, then the transaction notified the other processes, and the process that made the change
  already uses the new registry.\<close>

theorem change_is_announced:
  assumes "server_step e k s s'" and "appliedGeneration s \<le> nextGeneration s"
    and "current_view s' \<noteq> current_view s"
  shows "notifications s < notifications s' \<and> registry s' = current_view s'"
  using assms(1)
proof cases
  case (Refreshed i raw c now actor expiresAt)
  with assms(2,3) show ?thesis
    by (auto simp: refresh_commit_server_def Let_def loadRegistry_current split: option.splits)
next
  case (Refresh_failed now i msg)
  with assms(3) show ?thesis by (auto simp: refresh_failed_def failure_note_view split: if_splits)
next
  case (Updated now i p actor)
  with assms(2,3) show ?thesis
    by (auto simp: updateResourceServer_def Let_def loadRegistry_current split: sum.splits)
next
  case (Policy_set now i scope q actor)
  with assms(2,3) show ?thesis
    by (auto simp: setScopePolicy_def Let_def loadRegistry_current split: sum.splits if_splits)
next
  case (Accepted i now fp actor)
  with assms(2,3) show ?thesis
    by (auto simp: acceptPendingMetadata_def Let_def loadRegistry_current split: option.splits if_splits)
next
  case (Approved a now newId actor c expiresAt)
  with assms(2,3) show ?thesis
    by (auto simp: approve_commit_def Let_def loadRegistry_current split: option.splits sum.splits if_splits)
next
  case (Removed now i actor)
  with assms(2,3) show ?thesis
    by (auto simp: removeResourceServer_def Let_def loadRegistry_current split: sum.splits prod.splits)
qed

section \<open>The listener\<close>

text \<open>C27: the running proxy misses no change.  In every interleaving of the listener with commits of
  other processes, loads started elsewhere in the proxy, failing loads and lost connections: when the
  listener rests (connected, no notification to process, no reload), the registry is the one built
  from the committed rows, although other loads may still be on their way; and from every state of a
  started listener, as long as no load fails, no connection is lost and nothing new is committed,
  its own turns come to an end, and they end at rest with the current registry.\<close>

theorem no_change_missed:
  assumes "listener_start s0" and "listener_step\<^sup>*\<^sup>* s0 s"
  shows "(at_rest s \<longrightarrow> registry s = current_view s) \<and>
    (ls_running s \<longrightarrow>
       (\<forall>f. f 0 = s \<longrightarrow> (\<exists>i. \<not> advance (f i) (f (Suc i)))) \<and>
       (\<forall>t. advance\<^sup>*\<^sup>* s t \<and> (\<nexists>u. advance t u) \<longrightarrow> at_rest t \<and> registry t = current_view t))"
proof (intro conjI impI allI)
  have inv: "listener_inv s" by (rule listener.inv_reachable [OF assms])
  show "registry s = current_view s" if "at_rest s" using at_rest_current [OF inv that] .
  show "\<exists>i. \<not> advance (f i) (f (Suc i))" if "f 0 = s" for f
    using no_infinite_advance [of f] inv that by simp
  fix t
  assume run: "ls_running s" and t: "advance\<^sup>*\<^sup>* s t \<and> (\<nexists>u. advance t u)"
  with advance_star [of s t] inv have "listener_inv t" "ls_running t" by auto
  with stuck_at_rest [of t] t at_rest_current [of t] have "at_rest t" "registry t = current_view t"
    by (auto simp: listener_inv_def)
  then show "at_rest t" "registry t = current_view t" .
qed

section \<open>A run\<close>

theorem change_is_announced_sample:
  "registry (fst (removeResourceServer sample_env 2000 ''https://rs'' ''cli'' served_state)) = [] \<and>
   notifications (fst (removeResourceServer sample_env 2000 ''https://rs'' ''cli'' served_state)) \<noteq> 0"
proof -
  let ?s = "fst (removeResourceServer sample_env 2000 ''https://rs'' ''cli'' served_state)"
  have step: "server_step sample_env ''other'' served_state ?s" by (rule Removed)
  have gen: "appliedGeneration served_state \<le> nextGeneration served_state" by code_simp
  have "length (current_view served_state) = 1" "length (current_view ?s) = 0" by code_simp+
  then have v: "current_view ?s \<noteq> current_view served_state" "current_view ?s = []" by auto
  from change_is_announced [OF step gen v(1)] v(2) show ?thesis by simp
qed

text \<open>The proxy starts with an empty registry while a server is approved already.\<close>

definition behind :: listener_state where
  "behind = registry_state.extend ((registry_state.truncate served_state)\<lparr>registry := []\<rparr>)
     \<lparr>ls_running = False, ls_conn = Off, ls_inbox = 0, ls_backoff = INITIAL_BACKOFF_MS, ls_timer = None,
      ls_stable = False, ls_reload = Idle, ls_queued = False, ls_others = []\<rparr>"

definition catching_up :: "listener_state list" where
  "catching_up =
     (let s1 = startRegistryListener behind; s2 = the (listen_executed s1); s3 = the (listen_answered s2);
          s4 = the (query_read s3); s5 = the (load_returned s4) in [s1, s2, s3, s4, s5])"

lemma catching_up_steps: "listener_step\<^sup>*\<^sup>* behind (last catching_up)"
proof -
  define s1 where "s1 = startRegistryListener behind"
  define s2 where "s2 = the (listen_executed s1)"
  define s3 where "s3 = the (listen_answered s2)"
  define s4 where "s4 = the (query_read s3)"
  define s5 where "s5 = the (load_returned s4)"
  note defs = s1_def s2_def s3_def s4_def s5_def
  have "\<not> Option.is_none (listen_executed s1)" "\<not> Option.is_none (listen_answered s2)"
    "\<not> Option.is_none (query_read s3)" "\<not> Option.is_none (load_returned s4)"
    unfolding defs by code_simp+
  then have "advance s1 s2" "advance s2 s3" "advance s3 s4" "advance s4 s5"
    unfolding s2_def s3_def s4_def s5_def
    by (auto intro: adv_listen adv_answer adv_read adv_returned simp: Option.is_none_def)
  moreover have "listener_step behind s1" unfolding s1_def by (rule listener_step.start)
  ultimately have "listener_step\<^sup>*\<^sup>* behind s5"
    by (meson forward converse_rtranclp_into_rtranclp rtranclp.rtrancl_refl)
  then show ?thesis by (simp add: catching_up_def defs Let_def)
qed

theorem no_change_missed_sample:
  "registry behind = [] \<and> registry (last catching_up) = current_view behind \<and> current_view behind \<noteq> []"
proof (intro conjI)
  have start: "listener_start behind" by code_simp
  have rest: "at_rest (last catching_up)" by code_simp
  have "registry (last catching_up) = current_view (last catching_up)"
    using no_change_missed [OF start catching_up_steps] rest by blast
  moreover have "current_view (last catching_up) = current_view behind" by code_simp
  ultimately show "registry (last catching_up) = current_view behind" by simp
  have "length (current_view behind) = 1" by code_simp
  then show "current_view behind \<noteq> []" by auto
qed code_simp

end
