(* ===== verification/AdminProps.thy ===== *)
theory AdminProps
  imports AdminRouter ListenerProps
begin

text \<open>
  Properties of the admin pages and of the denylist: who can change anything, that every change is
  audited, and that a denial is complete.
\<close>

section \<open>What the checks of a request leave alone\<close>

definition policy_rows :: "'a registry_state_scheme \<Rightarrow>
    (server_row list \<times> denied_client list \<times> audit_row list \<times> grant list \<times> refresh_token list) \<times> registry \<times> nat \<times> nat" where
  "policy_rows s =
     ((resourceServers s, deniedClients s, adminAuditLog s, grants s, refreshTokens s),
      registry s, nextGeneration s, appliedGeneration s)"

lemma policy_rows_eqD:
  assumes "policy_rows s' = policy_rows s"
  shows "resourceServers s' = resourceServers s" "deniedClients s' = deniedClients s"
    "adminAuditLog s' = adminAuditLog s" "grants s' = grants s" "refreshTokens s' = refreshTokens s"
    "registry s' = registry s" "nextGeneration s' = nextGeneration s" "appliedGeneration s' = appliedGeneration s"
  using assms by (simp_all add: policy_rows_def)

named_theorems policy_frame

lemma policy_rows_user_writes [policy_frame]:
  "policy_rows (clearUpstreamToken i t c s) = policy_rows s"
  "policy_rows (store_recheck i t c a cl n s) = policy_rows s"
  "policy_rows (forget_failure i u) = policy_rows u"
  by (simp_all add: clearUpstreamToken_def store_recheck_def forget_failure_def policy_rows_def)

lemma getOidcConfig_policy: "getOidcConfig e pv now s = (s', r) \<Longrightarrow> policy_rows s' = policy_rows s"
  by (auto simp: getOidcConfig_def policy_rows_def split: option.splits if_splits prod.splits)

lemma after_failure_policy: "after_failure now i t c v s = (s', r) \<Longrightarrow> policy_rows s' = policy_rows s"
  by (cases v) (auto simp: after_failure_def policy_rows_def clearUpstreamToken_def forget_failure_def)

lemma accept_claims_policy: "accept_claims e now i t c o' cl n s = (s', r) \<Longrightarrow> policy_rows s' = policy_rows s"
  by (auto simp: accept_claims_def Let_def policy_frame split: option.splits if_splits)

lemma recheck_policy:
  assumes "recheckUpstream e pv now i s = (s', r)"
  shows "policy_rows s' = policy_rows s"
proof -
  have call: "recheck_call e pv now i t c o' s = (s', r) \<Longrightarrow> policy_rows s' = policy_rows s" for t c o'
    using getOidcConfig_policy [of e pv now s]
    by (auto simp: recheck_call_def split: prod.splits option.splits sum.splits
        dest!: after_failure_policy accept_claims_policy)
  with assms show ?thesis by (auto simp: recheckUpstream_def split: option.splits if_splits)
qed

lemma isAdmin_policy: "isAdmin e pv now u s = (s', b) \<Longrightarrow> policy_rows s' = policy_rows s"
  by (auto simp: isAdmin_def split: if_splits prod.splits option.splits dest: recheck_policy)

lemma policy_rows_windows [policy_frame]:
  "policy_rows (s\<lparr>rejectedWindows := w\<rparr>) = policy_rows s" "policy_rows (s\<lparr>writeWindows := w\<rparr>) = policy_rows s"
  by (simp_all add: policy_rows_def)

lemma requireAdminWrite_policy:
  "requireAdminWrite e pv now rq back s = (s', r) \<Longrightarrow> policy_rows s' = policy_rows s"
  by (auto simp: requireAdminWrite_def reject_def Let_def policy_frame dest!: isAdmin_policy
      split: option.splits prod.splits if_splits bool.splits)

lemma fetchResourceMetadata_policy:
  "fetchResourceMetadata e now i internal s = (s', r) \<Longrightarrow> policy_rows s' = policy_rows s"
  by (auto simp: fetchResourceMetadata_def policy_rows_def split: sum.splits prod.splits)

text \<open>The admin a route acts for.\<close>

definition proven_admin :: "env \<Rightarrow> provider \<Rightarrow> time_ms \<Rightarrow> request \<Rightarrow> 'a admin_state_scheme \<Rightarrow> string \<Rightarrow> bool" where
  "proven_admin e pv now rq s userId \<longleftrightarrow>
     getSessionUserId e now rq s = Some userId \<and> snd (isAdmin e pv now userId s) \<and>
     verifyBoundCsrfToken e rq ''csrf_admin'' ''admin'' userId \<and>
     (\<exists>t. reauthenticatedAt e now rq userId = Some t \<and> now - t \<le> 10 * 60 * 1000)"

lemma requireAdminWrite_InrD:
  "requireAdminWrite e pv now rq back s = (s', Inr userId) \<Longrightarrow> proven_admin e pv now rq s userId"
  by (auto simp: requireAdminWrite_def proven_admin_def getSessionUserId_def isRecentReauth_def
      FRESH_LOGIN_MAX_AGE_S_def Let_def split: option.splits prod.splits if_splits bool.splits)

section \<open>Every change is audited\<close>

text \<open>What an operation may have done: nothing the operator decides on, or one audited change.\<close>

definition audited_change :: "string \<Rightarrow> 'a registry_state_scheme \<Rightarrow> 'a registry_state_scheme \<Rightarrow> bool" where
  "audited_change actor s s' \<longleftrightarrow>
     (\<exists>row. adminAuditLog s' = adminAuditLog s @ [row] \<and> au_actor row = actor)"

definition nothing_decided :: "'a registry_state_scheme \<Rightarrow> 'a registry_state_scheme \<Rightarrow> bool" where
  "nothing_decided s s' \<longleftrightarrow>
     adminAuditLog s' = adminAuditLog s \<and> deniedClients s' = deniedClients s \<and> grants s' = grants s \<and>
     refreshTokens s' = refreshTokens s \<and> current_view s' = current_view s"

lemma nothing_decided_policy: "policy_rows s' = policy_rows s \<Longrightarrow> nothing_decided s s'"
  by (simp add: nothing_decided_def policy_rows_def current_view_def enabled_rows_def)

lemma nothing_decided_refl [simp]: "nothing_decided s s"
  by (simp add: nothing_decided_def)

lemma nothing_decided_trans:
  "nothing_decided s t \<Longrightarrow> nothing_decided t u \<Longrightarrow> nothing_decided s u"
  "nothing_decided s t \<Longrightarrow> audited_change a t u \<Longrightarrow> audited_change a s u"
  by (simp_all add: nothing_decided_def audited_change_def)

lemma audit_log_frame [simp]:
  "adminAuditLog (loadRegistry s) = adminAuditLog s" "adminAuditLog (notifyRegistryChanged s) = adminAuditLog s"
  "adminAuditLog (put_server i f d) = adminAuditLog d" "adminAuditLog (revoke_resource now i d) = adminAuditLog d"
  by (simp_all add: loadRegistry_def load_start_def load_end_def notifyRegistryChanged_def put_server_def
      revoke_resource_def Let_def)

lemma audit_log [simp]:
  "adminAuditLog (audit actor action target b a s) =
     adminAuditLog s @ [\<lparr>au_actor = actor, au_action = action, au_target = target, au_before = b, au_after = a\<rparr>]"
  by (simp add: audit_def)

lemma server_operations_audited:
  "s' = fst (updateResourceServer e now i p actor s) \<Longrightarrow> s' = s \<or> audited_change actor s s'"
  "s' = fst (setScopePolicy e now i scope q actor s) \<Longrightarrow> s' = s \<or> audited_change actor s s'"
  "s' = fst (acceptPendingMetadata e now i fp actor s) \<Longrightarrow> s' = s \<or> audited_change actor s s'"
  "s' = fst (removeResourceServer e now i actor s) \<Longrightarrow> s' = s \<or> audited_change actor s s'"
  "c' = fst (approve_commit e now newId a actor m expiresAt c) \<Longrightarrow> c' = c \<or> audited_change actor c c'"
  by (auto simp: updateResourceServer_def setScopePolicy_def acceptPendingMetadata_def removeResourceServer_def
      approve_commit_def audited_change_def Let_def split: sum.splits option.splits prod.splits if_splits)

lemma approve_audited:
  assumes "approveResourceServer e now newId p actor s = (s', r)"
  shows "nothing_decided s s' \<or> audited_change actor s s'"
proof -
  let ?f = "fetchResourceMetadata e now (trim (ap_identifier p)) (ap_internal p) s"
  obtain s1 m where f: "?f = (s1, m)" by fastforce
  note n = nothing_decided_policy [OF fetchResourceMetadata_policy [OF f]]
  from assms f consider "s' = s" | "s' = s1" | c ex where "approve_commit e now newId p actor c ex s1 = (s', r)"
    by (auto simp: approveResourceServer_def Let_def split: sum.splits if_splits prod.splits)
  then show ?thesis
  proof cases
    case 3
    with server_operations_audited(5) [OF refl, of e now newId p actor c ex s1] n show ?thesis
      by (auto intro: nothing_decided_trans)
  qed (use n in simp_all)
qed

lemma refresh_audited_change:
  assumes "refreshMetadata e msg now i (Some actor) s = (s', r)"
  shows "nothing_decided s s' \<or> audited_change actor s s'"
proof (cases "requireServer i s")
  case (Inl er)
  with assms show ?thesis by (simp add: refreshMetadata_def)
next
  case (Inr server)
  obtain s1 m where f: "fetchResourceMetadata e now i (sr_internal server) s = (s1, m)" by fastforce
  note n = nothing_decided_policy [OF fetchResourceMetadata_policy [OF f]]
  show ?thesis
  proof (cases m)
    case (Inl er)
    with assms Inr f have "s' = fst (refresh_failed now i (msg er) s1)" by (simp add: refreshMetadata_def)
    then have "nothing_decided s1 s'"
      by (auto simp: refresh_failed_def nothing_decided_def failure_note_view) (simp_all add: put_server_def)
    with n show ?thesis by (blast intro: nothing_decided_trans)
  next
    case m: (Inr c)
    obtain cand ex where c: "c = (cand, ex)" by fastforce
    with assms Inr f m have "s' = fst (refresh_commit_server e now i (Some actor) cand ex s1)"
      by (simp add: refreshMetadata_def)
    then have "s' = s1 \<or> audited_change actor s1 s'"
      by (auto simp: refresh_commit_server_def audited_change_def refresh_audited_def keep_def Let_def split: option.splits)
    with n show ?thesis by (auto intro: nothing_decided_trans)
  qed
qed

lemma denials_audited:
  "addDenial e now raw reason actor s = (s', r) \<Longrightarrow> s' = s \<or> audited_change actor s s'"
  "removeDenial e raw actor s = (s', q) \<Longrightarrow> s' = s \<or> audited_change actor s s'"
  by (auto simp: addDenial_def removeDenial_def revoke_grants_of_def audited_change_def Let_def
      split: option.splits sum.splits prod.splits if_splits)

lemma serverWrite_cases:
  assumes "serverWrite e now rnd rq u i notice run s = (s', r)"
    and "\<And>st. fst (run st (bodyOf (q_body rq)) (actor_of u) s) = s \<or>
           audited_change (actor_of u) s (fst (run st (bodyOf (q_body rq)) (actor_of u) s))"
  shows "s' = s \<or> audited_change (actor_of u) s s'"
proof (cases "serverOr404 e now i s")
  case None
  with assms(1) show ?thesis by (simp add: serverWrite_def)
next
  case (Some st)
  obtain s1 er where run: "run st (bodyOf (q_body rq)) (actor_of u) s = (s1, er)" by fastforce
  with assms(1) Some have "s' = s1"
    by (auto simp: serverWrite_def split: option.splits admin_error.splits)
  with assms(2) [of st] run show ?thesis by simp
qed

lemma runs_audited:
  "fst (run_update e now st b actor s) = s \<or> audited_change actor s (fst (run_update e now st b actor s))"
  "fst (run_policy e now st b actor s) = s \<or> audited_change actor s (fst (run_policy e now st b actor s))"
  "fst (run_accept e now st b actor s) = s \<or> audited_change actor s (fst (run_accept e now st b actor s))"
  by (simp_all add: run_update_def run_policy_def run_accept_def service_result_def
      server_operations_audited(1-3) [OF refl] split: sum.split option.split)

lemma perform_post_audited:
  assumes "perform_post e msg now rnd rq u p s = (s', r)"
  shows "nothing_decided s s' \<or> audited_change (actor_of u) s s'"
proof (cases p)
  case Post_preview
  have "policy_rows s' = policy_rows s"
    using assms unfolding Post_preview
    by (auto simp: preview_post_def previewResourceServer_def Let_def split: sum.splits if_splits prod.splits
        dest: fetchResourceMetadata_policy)
  then show ?thesis by (simp add: nothing_decided_policy)
next
  case Post_approve
  with assms show ?thesis
    by (auto simp: approve_post_def Let_def split: sum.splits prod.splits dest!: approve_audited)
next
  case (Post_update i)
  with assms have "serverWrite e now rnd rq u i ''saved'' (run_update e now) s = (s', r)" by simp
  from serverWrite_cases [OF this runs_audited(1)] show ?thesis by auto
next
  case (Post_policy i)
  with assms have "serverWrite e now rnd rq u i ''policy'' (run_policy e now) s = (s', r)" by simp
  from serverWrite_cases [OF this runs_audited(2)] show ?thesis by auto
next
  case (Post_accept i)
  with assms have "serverWrite e now rnd rq u i ''accepted'' (run_accept e now) s = (s', r)" by simp
  from serverWrite_cases [OF this runs_audited(3)] show ?thesis by auto
next
  case (Post_refresh i)
  with assms show ?thesis
    by (auto simp: refresh_post_def Let_def split: option.splits sum.splits prod.splits dest!: refresh_audited_change)
next
  case (Post_remove i)
  show ?thesis
  proof (cases "serverOr404 e now i s")
    case None
    with assms Post_remove show ?thesis by (simp add: remove_post_def)
  next
    case (Some st)
    with assms Post_remove have "s' = fst (removeResourceServer e now (st_identifier st) (actor_of u) s)"
      by (auto simp: remove_post_def split: prod.splits sum.splits)
    from server_operations_audited(4) [OF this] show ?thesis by auto
  qed
next
  case Post_confirm
  with assms show ?thesis by (simp add: confirm_post_def)
next
  case Post_add
  with assms show ?thesis
    by (auto simp: add_post_def split: sum.splits prod.splits dest!: denials_audited(1))
next
  case Post_remove_denial
  with assms show ?thesis
    by (auto simp: denial_remove_post_def split: sum.splits prod.splits dest!: denials_audited(2))
qed

text \<open>C28: only a proven admin changes anything, and every change names them.  Whatever the request,
  an admin route that adds to the audit log, changes the denylist, a grant or a refresh token, or what
  the registry is built from, was called with a session of the user it acts for, who is an admin at
  that moment, with a CSRF token issued to that user for the admin pages, within ten minutes of a
  re-authentication; and the change is one audit row that names that user as the actor.\<close>

theorem admin_change_is_proven:
  assumes "admin_post_route e pv msg now rnd rq p s = (s', rep, cks)"
    and "\<not> nothing_decided s s'"
  shows "\<exists>userId row. proven_admin e pv now rq s userId \<and>
    adminAuditLog s' = adminAuditLog s @ [row] \<and> au_actor row = ''user:'' @ userId"
proof -
  obtain s1 r where w: "requireAdminWrite e pv now rq (back_of p) s = (s1, r)" by fastforce
  note n = nothing_decided_policy [OF requireAdminWrite_policy [OF w]]
  from assms n w obtain userId where r: "r = Inr userId"
    by (cases r) (auto simp: admin_post_route_def)
  with assms(1) w have "perform_post e msg now rnd rq userId p s1 = (s', rep, cks)"
    by (simp add: admin_post_route_def)
  from perform_post_audited [OF this] assms(2) n have "audited_change (actor_of userId) s s'"
    by (blast intro: nothing_decided_trans)
  with requireAdminWrite_InrD [OF w [unfolded r]] show ?thesis
    by (auto simp: audited_change_def actor_of_def)
qed

section \<open>Denials\<close>













section \<open>A change by an admin\<close>

definition admin_sample :: admin_state where
  "admin_sample = proxy_state.extend (upstream_state.extend
     (served_state\<lparr>localUsers := [\<lparr>lu_id = ''l1'', lu_username = ''alice'', lu_passwordHash = ''k'',
        lu_lastLoginAt = None, lu_isActive = True, lu_isAdmin = True, lu_userId = ''u1''\<rparr>]\<rparr>)
     (proxy_state.fields [] [] [] [])) (admin_state.fields [] [])"

definition admin_request :: request where
  "admin_request =
     \<lparr>q_body = Some (JObj [(''csrf_token'', JStr (boundToken sample_env ''admin'' ''u1'' (replicate 64 CHR ''0'')))]),
      q_query = [],
      q_signed = apply_cookie (setSession sample_env 1000 ''u1'' 0)
        (apply_cookie (markReauthenticated sample_env 1000 ''u1'')
          [(cookieName sample_env ''csrf_admin'', replicate 64 CHR ''0'')]), q_ip = None\<rparr>"

definition admin_rand_sample :: admin_rand where
  "admin_rand_sample =
     \<lparr>ar_flow = \<lparr>fr_handle = ''h'', fr_state = ''s'', fr_nonce = ''n'', fr_verifier = ''v''\<rparr>,
      ar_nonce = ''n'', ar_rowId = ''r1''\<rparr>"

lemma admin_passes:
  "requireAdminWrite sample_env pv 2000 admin_request back admin_sample =
     (admin_sample\<lparr>writeWindows := [(ipRateLimitKey (Some ''u1''), \<lparr>w_count = 1, w_start = 2000\<rparr>)]\<rparr>, Inr ''u1'')"
proof -
  have s: "getSession sample_env 2000 admin_request admin_sample = Some (''u1'', 1000)" by code_simp
  have "local_admin admin_sample ''u1''" "e_enableLocalAccounts sample_env" by code_simp+
  then have a: "isAdmin sample_env pv 2000 ''u1'' admin_sample = (admin_sample, True)" by (simp add: isAdmin_def)
  have c: "verifyBoundCsrfToken sample_env admin_request ''csrf_admin'' ''admin'' ''u1''" by code_simp
  have r: "isRecentReauth 2000 (reauthenticatedAt sample_env 2000 admin_request ''u1'')" by code_simp
  have w: "writeWindows admin_sample = []" by code_simp
  show ?thesis by (simp add: requireAdminWrite_def s a c r w first_hit writeLimiter_def)
qed

theorem admin_change_is_proven_sample:
  "\<exists>row. adminAuditLog (fst (admin_post_route sample_env sample_provider (\<lambda>_. []) 2000 admin_rand_sample admin_request
       (Post_remove ''s1'') admin_sample)) = [row] \<and> au_actor row = ''user:u1''"
proof -
  let ?run = "admin_post_route sample_env sample_provider (\<lambda>_. []) 2000 admin_rand_sample admin_request
       (Post_remove ''s1'') admin_sample"
  obtain s' rep cks where run: "?run = (s', rep, cks)" by (cases ?run)
  define s1 where "s1 = admin_sample\<lparr>writeWindows := [(ipRateLimitKey (Some ''u1''), \<lparr>w_count = 1, w_start = 2000\<rparr>)]\<rparr>"
  have "?run = perform_post sample_env (\<lambda>_. []) 2000 admin_rand_sample admin_request ''u1'' (Post_remove ''s1'') s1"
    unfolding admin_post_route_def admin_passes s1_def by simp
  moreover have "length (adminAuditLog (fst (perform_post sample_env (\<lambda>_. []) 2000 admin_rand_sample admin_request ''u1''
      (Post_remove ''s1'') s1))) = 1"
    unfolding s1_def by code_simp
  ultimately have "length (adminAuditLog (fst ?run)) = 1" by (simp only:)
  then have "adminAuditLog s' \<noteq> []" unfolding run by auto
  moreover have log: "adminAuditLog admin_sample = []" by code_simp
  ultimately have "\<not> nothing_decided admin_sample s'" by (simp add: nothing_decided_def)
  from admin_change_is_proven [OF run this] obtain userId row
    where u: "proven_admin sample_env sample_provider 2000 admin_request admin_sample userId"
      and row: "adminAuditLog s' = adminAuditLog admin_sample @ [row]" "au_actor row = ''user:'' @ userId"
    by blast
  have "getSessionUserId sample_env 2000 admin_request admin_sample = Some ''u1''" by code_simp
  with u have "userId = ''u1''" by (simp add: proven_admin_def)
  with row log run show ?thesis by simp
qed

end
