(* ===== verification/Jwks.thy ===== *)
theory Jwks
  imports Metadata
begin

text \<open>
  \<^verbatim>\<open>asterism-verify/src/jwks-cache.ts\<close>: the key set cache of a resource server.  \<open>getKey\<close> is cut at
  its one \<^verbatim>\<open>await\<close>: \<open>getKey_start\<close> runs up to it, \<open>refresh_settled\<close> is the end of the refresh that is
  in flight, and \<open>getKey_resume\<close> runs from there on, for each caller that waited.  A refresh changes
  nothing anyone else reads before it ends, so it is one step.  What the network answers is an
  argument of that step; error texts are constructors.  A key identifier is any JSON value, as
  neither the token header nor the key set is checked.
\<close>

section \<open>Constants\<close>

definition MIN_REFRESH_INTERVAL_MS :: int where "MIN_REFRESH_INTERVAL_MS = 1000"
definition FAILURE_BACKOFF_MS :: int where "FAILURE_BACKOFF_MS = 5000"
definition MISSED_KID_TTL_MS :: int where "MISSED_KID_TTL_MS = 5000"
definition MAX_MISSED_KIDS :: nat where "MAX_MISSED_KIDS = 1000"
definition DEFAULT_MAX_STALE_MS :: int where "DEFAULT_MAX_STALE_MS = 24 * 60 * 60 * 1000"
definition MAX_KEY_SET_BYTES :: nat where "MAX_KEY_SET_BYTES = 256 * 1024"
definition MAX_DISCOVERY_BYTES :: nat where "MAX_DISCOVERY_BYTES = 64 * 1024"
definition KEY_SET_TTL_MS :: int where "KEY_SET_TTL_MS = 60 * 60 * 1000"

section \<open>Fetching\<close>

datatype jwks_error =
    Bad_url | Insecure_url | Fetch_failed | Http_status | Body_too_large | Not_json
  | Other_issuer | No_jwks_uri | Not_a_key_set | Unavailable | Stale_keys | Null_key

text \<open>The leftmost match of \<^verbatim>\<open>/(?:^|[\s,])max-age=(\d+)/i\<close> in a lower-case text; the flag says that
  the previous character allows a match here.\<close>

fun find_max_age :: "bool \<Rightarrow> string \<Rightarrow> string option" where
  "find_max_age b [] = None"
| "find_max_age b (c # cs) =
     (let digits = takeWhile is_digit (drop 8 (c # cs)) in
      if b \<and> starts_with ''max-age='' (c # cs) \<and> digits \<noteq> [] then Some digits
      else find_max_age (is_space c \<or> c = CHR '','') cs)"

definition parseMaxAgeMs :: "string option \<Rightarrow> int" where
  "parseMaxAgeMs cacheControl =
     (case cacheControl of
        None \<Rightarrow> KEY_SET_TTL_MS
      | Some v \<Rightarrow>
          (case find_max_age True (to_lower v) of
             None \<Rightarrow> KEY_SET_TTL_MS
           | Some digits \<Rightarrow> max (int (number_of digits) * 1000) FAILURE_BACKOFF_MS))"

definition discoveryUrl :: "url_parser \<Rightarrow> string \<Rightarrow> jwks_error + string" where
  "discoveryUrl parse issuer =
     (case parse issuer of
        None \<Rightarrow> Inl Bad_url
      | Some u \<Rightarrow>
          Inr (url_origin u @ ''/.well-known/oauth-authorization-server'' @ strip_slashes (url_pathname u)))"

text \<open>\<^const>\<open>None\<close> when the URL is accepted.\<close>

definition assertSecureUrl :: "url_parser \<Rightarrow> string \<Rightarrow> jwks_error option" where
  "assertSecureUrl parse raw =
     (case parse raw of
        None \<Rightarrow> Some Bad_url
      | Some u \<Rightarrow>
          if url_protocol u \<noteq> ''https:'' \<and> \<not> (url_protocol u = ''http:'' \<and> isLoopbackHost (url_hostname u))
          then Some Insecure_url else None)"

text \<open>The platform: the URL parser, \<^verbatim>\<open>JSON.parse\<close>, and what a request (with its timeout, and without
  following redirects) gets.\<close>

record platform =
  pf_parse_url :: url_parser
  pf_parse_json :: "string \<Rightarrow> json option"

type_synonym answers = "string \<Rightarrow> wire"

definition fetchJson ::
    "platform \<Rightarrow> answers \<Rightarrow> string \<Rightarrow> nat \<Rightarrow> jwks_error + (json \<times> (string, string) jsmap)" where
  "fetchJson pf net u maxBytes =
     (case net u of
        Wire_timeout \<Rightarrow> Inl Fetch_failed
      | Wire_error \<Rightarrow> Inl Fetch_failed
      | Wire r \<Rightarrow>
          if wr_status r < 200 \<or> 300 \<le> wr_status r then Inl Http_status
          else if (case wr_contentLength r of None \<Rightarrow> False | Some n \<Rightarrow> maxBytes < n) then Inl Body_too_large
          else (case read_chunks maxBytes [] (wr_chunks r) of
            None \<Rightarrow> Inl Body_too_large
          | Some text \<Rightarrow>
              if wr_broken r then Inl Fetch_failed
              else (case pf_parse_json pf text of
                None \<Rightarrow> Inl Not_json
              | Some j \<Rightarrow> Inr (j, wr_headers r))))"

definition discoverJwksUri :: "platform \<Rightarrow> answers \<Rightarrow> string \<Rightarrow> jwks_error + string" where
  "discoverJwksUri pf net issuer =
     (case discoveryUrl (pf_parse_url pf) issuer of
        Inl er \<Rightarrow> Inl er
      | Inr u \<Rightarrow>
          (case assertSecureUrl (pf_parse_url pf) u of
             Some er \<Rightarrow> Inl er
           | None \<Rightarrow>
               (case fetchJson pf net u MAX_DISCOVERY_BYTES of
                  Inl er \<Rightarrow> Inl er
                | Inr (doc, _) \<Rightarrow>
                    if member doc ''issuer'' \<noteq> Some (JStr issuer) then Inl Other_issuer
                    else (case member doc ''jwks_uri'' of
                      Some (JStr uri) \<Rightarrow>
                        (case assertSecureUrl (pf_parse_url pf) uri of Some er \<Rightarrow> Inl er | None \<Rightarrow> Inr uri)
                    | _ \<Rightarrow> Inl No_jwks_uri))))"

section \<open>The cache\<close>

record key_set =
  ks_keys :: "json list"
  ks_fetchedAt :: time_ms
  ks_expiresAt :: time_ms

record jwks_cache =
  jc_issuer :: string
  jc_maxStale :: int
  jc_uri :: "string option"
  jc_cache :: "key_set option"
  jc_nextAttemptAt :: time_ms
  jc_lastError :: "jwks_error option"
  jc_missed :: "(json, time_ms) jsmap"
  jc_inflight :: "time_ms option"

definition new_cache :: "string \<Rightarrow> string option \<Rightarrow> int option \<Rightarrow> jwks_cache" where
  "new_cache issuer uri maxStale =
     \<lparr>jc_issuer = issuer,
      jc_maxStale = (case maxStale of None \<Rightarrow> DEFAULT_MAX_STALE_MS | Some n \<Rightarrow> n),
      jc_uri = uri, jc_cache = None, jc_nextAttemptAt = 0, jc_lastError = None, jc_missed = [],
      jc_inflight = None\<rparr>"

text \<open>The address of the key set, stored once discovered.\<close>

definition resolveJwksUri ::
    "platform \<Rightarrow> answers \<Rightarrow> jwks_cache \<Rightarrow> string option \<times> (jwks_error + string)" where
  "resolveJwksUri pf net s =
     (let secure = (\<lambda>u. (Some u, case assertSecureUrl (pf_parse_url pf) u of Some er \<Rightarrow> Inl er | None \<Rightarrow> Inr u)) in
      case truthy (jc_uri s) of
        Some u \<Rightarrow> secure u
      | None \<Rightarrow> (case discoverJwksUri pf net (jc_issuer s) of Inl er \<Rightarrow> (jc_uri s, Inl er) | Inr u \<Rightarrow> secure u))"

definition fetchKeys ::
    "platform \<Rightarrow> answers \<Rightarrow> jwks_cache \<Rightarrow> string option \<times> (jwks_error + (json list \<times> int))" where
  "fetchKeys pf net s =
     (case resolveJwksUri pf net s of
        (uri, Inl er) \<Rightarrow> (uri, Inl er)
      | (uri, Inr u) \<Rightarrow>
          (uri, case fetchJson pf net u MAX_KEY_SET_BYTES of
             Inl er \<Rightarrow> Inl er
           | Inr (doc, headers) \<Rightarrow>
               (case member doc ''keys'' of
                  Some (JArr keys) \<Rightarrow> Inr (keys, parseMaxAgeMs (jm_get headers ''cache-control''))
                | _ \<Rightarrow> Inl Not_a_key_set)))"

text \<open>\<^verbatim>\<open>===\<close> on parsed values: two objects or arrays are never the same one.\<close>

fun strict_eq :: "json \<Rightarrow> json \<Rightarrow> bool" where
  "strict_eq (JArr _) _ \<longleftrightarrow> False"
| "strict_eq (JObj _) _ \<longleftrightarrow> False"
| "strict_eq a b \<longleftrightarrow> a = b"

text \<open>\<^verbatim>\<open>keys.find((k) => k.kid === kid)\<close>, which throws at a \<^verbatim>\<open>null\<close> entry it reaches.\<close>

fun find_kid :: "json \<Rightarrow> json list \<Rightarrow> jwks_error + json option" where
  "find_kid kid [] = Inr None"
| "find_kid kid (k # ks) =
     (if k = JNull then Inl Null_key
      else if (case member k ''kid'' of None \<Rightarrow> False | Some v \<Rightarrow> strict_eq v kid) then Inr (Some k)
      else find_kid kid ks)"

definition cached_key :: "json \<Rightarrow> jwks_cache \<Rightarrow> jwks_error + json option" where
  "cached_key kid s = (case jc_cache s of None \<Rightarrow> Inr None | Some c \<Rightarrow> find_kid kid (ks_keys c))"

definition cache_fresh :: "time_ms \<Rightarrow> jwks_cache \<Rightarrow> bool" where
  "cache_fresh now s = (case jc_cache s of None \<Rightarrow> False | Some c \<Rightarrow> now < ks_expiresAt c)"

text \<open>\<open>assertNotTooStale\<close> throws.\<close>

definition too_stale :: "time_ms \<Rightarrow> jwks_cache \<Rightarrow> bool" where
  "too_stale now s = (case jc_cache s of None \<Rightarrow> False | Some c \<Rightarrow> jc_maxStale s < now - ks_fetchedAt c)"

fun missed_at :: "json \<Rightarrow> (json, time_ms) jsmap \<Rightarrow> time_ms option" where
  "missed_at kid [] = None"
| "missed_at kid ((k, t) # m) = (if strict_eq k kid then Some t else missed_at kid m)"

fun set_missed :: "json \<Rightarrow> time_ms \<Rightarrow> (json, time_ms) jsmap \<Rightarrow> (json, time_ms) jsmap" where
  "set_missed kid now [] = [(kid, now)]"
| "set_missed kid now ((k, t) # m) =
     (if strict_eq k kid then (k, now) # m else (k, t) # set_missed kid now m)"

definition noteMiss :: "json \<Rightarrow> time_ms \<Rightarrow> (json, time_ms) jsmap \<Rightarrow> (json, time_ms) jsmap" where
  "noteMiss kid now m =
     (let m1 = (if MAX_MISSED_KIDS \<le> length m then filter (\<lambda>(_, t). \<not> MISSED_KID_TTL_MS \<le> now - t) m else m);
          m2 = (if MAX_MISSED_KIDS \<le> length m1 then [] else m1) in
      set_missed kid now m2)"

type_synonym key_answer = "jwks_error + json option"

definition last_error :: "jwks_cache \<Rightarrow> jwks_error" where
  "last_error s = (case jc_lastError s of None \<Rightarrow> Unavailable | Some er \<Rightarrow> er)"

text \<open>What a rate-limited caller gets.\<close>

definition serve_limited :: "time_ms \<Rightarrow> json option \<Rightarrow> jwks_cache \<Rightarrow> key_answer" where
  "serve_limited now cached s =
     (if jc_cache s = None then Inl (last_error s)
      else if too_stale now s then Inl Stale_keys else Inr cached)"

definition recently_missed :: "time_ms \<Rightarrow> json \<Rightarrow> jwks_cache \<Rightarrow> bool" where
  "recently_missed now kid s =
     (case missed_at kid (jc_missed s) of None \<Rightarrow> False | Some t \<Rightarrow> now - t < MISSED_KID_TTL_MS)"

text \<open>\<open>getKey\<close> up to its \<^verbatim>\<open>await\<close>; no answer means that the caller waits for the refresh in flight.\<close>

definition getKey_start :: "time_ms \<Rightarrow> json \<Rightarrow> jwks_cache \<Rightarrow> jwks_cache \<times> key_answer option" where
  "getKey_start now kid s =
     (case cached_key kid s of
        Inl er \<Rightarrow> (s, Some (Inl er))
      | Inr cached \<Rightarrow>
          if cached \<noteq> None \<and> cache_fresh now s then (s, Some (Inr cached))
          else if jc_inflight s \<noteq> None then (s, None)
          else if (cached = None \<and> cache_fresh now s \<and> recently_missed now kid s) \<or> now < jc_nextAttemptAt s
          then (s, Some (serve_limited now cached s))
          else (s\<lparr>jc_nextAttemptAt := now + MIN_REFRESH_INTERVAL_MS, jc_inflight := Some now\<rparr>, None))"

text \<open>The end of the refresh that began at \<open>started\<close>.\<close>

definition refresh_settled ::
    "platform \<Rightarrow> answers \<Rightarrow> time_ms \<Rightarrow> time_ms \<Rightarrow> jwks_cache \<Rightarrow> jwks_cache \<times> bool" where
  "refresh_settled pf net started fetchedAt s =
     (case fetchKeys pf net s of
        (uri, Inr (keys, ttl)) \<Rightarrow>
          (s\<lparr>jc_uri := uri,
             jc_cache := Some \<lparr>ks_keys = keys, ks_fetchedAt = fetchedAt,
                               ks_expiresAt = fetchedAt + min ttl (jc_maxStale s)\<rparr>,
             jc_missed := [], jc_inflight := None\<rparr>, True)
      | (uri, Inl er) \<Rightarrow>
          (s\<lparr>jc_uri := uri, jc_lastError := Some er,
             jc_nextAttemptAt := max (jc_nextAttemptAt s) (started + FAILURE_BACKOFF_MS),
             jc_inflight := None\<rparr>, False))"

text \<open>\<open>getKey\<close> after its \<^verbatim>\<open>await\<close>, which gave \<open>ok\<close>.\<close>

definition getKey_resume :: "time_ms \<Rightarrow> bool \<Rightarrow> json \<Rightarrow> jwks_cache \<Rightarrow> jwks_cache \<times> key_answer" where
  "getKey_resume now ok kid s =
     (if \<not> ok \<and> jc_cache s = None then (s, Inl (last_error s))
      else if \<not> ok \<and> too_stale now s then (s, Inl Stale_keys)
      else (case cached_key kid s of
        Inl er \<Rightarrow> (s, Inl er)
      | Inr None \<Rightarrow> (if ok then s\<lparr>jc_missed := noteMiss kid now (jc_missed s)\<rparr> else s, Inr None)
      | Inr (Some k) \<Rightarrow> (s, Inr (Some k))))"

text \<open>A call whose refresh, if it starts one, is the only thing that happens meanwhile.\<close>

definition getKey ::
    "platform \<Rightarrow> answers \<Rightarrow> time_ms \<Rightarrow> time_ms \<Rightarrow> json \<Rightarrow> jwks_cache \<Rightarrow> jwks_cache \<times> key_answer" where
  "getKey pf net now fin kid s =
     (case getKey_start now kid s of
        (s1, Some ans) \<Rightarrow> (s1, ans)
      | (s1, None) \<Rightarrow>
          (case refresh_settled pf net now fin s1 of (s2, ok) \<Rightarrow> getKey_resume fin ok kid s2))"

section \<open>Interleaved callers\<close>

text \<open>Calls come at any time; a call that waits is resumed some time after the refresh ended, in any
  order with the other events.\<close>

datatype jwks_event =
    Ask nat json time_ms
  | Settle answers time_ms
  | Resume nat time_ms

datatype jwks_out =
    Started time_ms
  | Failed time_ms
  | Fetched "json list" time_ms
  | Answered json time_ms bool key_answer

record jwks_run =
  jr_cache :: jwks_cache
  jr_waiting :: "(nat \<times> json) list"
  jr_ready :: "(nat \<times> json \<times> bool) list"

fun take_ready :: "nat \<Rightarrow> (nat \<times> json \<times> bool) list \<Rightarrow> ((json \<times> bool) \<times> (nat \<times> json \<times> bool) list) option" where
  "take_ready i [] = None"
| "take_ready i ((j, q) # rs) =
     (if i = j then Some (q, rs) else map_option (\<lambda>(q', rs'). (q', (j, q) # rs')) (take_ready i rs))"

fun jwks_step :: "platform \<Rightarrow> jwks_event \<Rightarrow> jwks_run \<Rightarrow> jwks_run \<times> jwks_out list" where
  "jwks_step pf (Ask i kid now) r =
     (case getKey_start now kid (jr_cache r) of
        (c, Some ans) \<Rightarrow> (r\<lparr>jr_cache := c\<rparr>, [Answered kid now False ans])
      | (c, None) \<Rightarrow>
          (r\<lparr>jr_cache := c, jr_waiting := jr_waiting r @ [(i, kid)]\<rparr>,
           if jc_inflight (jr_cache r) = None then [Started now] else []))"
| "jwks_step pf (Settle net fin) r =
     (case jc_inflight (jr_cache r) of
        None \<Rightarrow> (r, [])
      | Some started \<Rightarrow>
          (case refresh_settled pf net started fin (jr_cache r) of
             (c, ok) \<Rightarrow>
               (r\<lparr>jr_cache := c, jr_waiting := [],
                  jr_ready := jr_ready r @ map (\<lambda>(i, kid). (i, kid, ok)) (jr_waiting r)\<rparr>,
                [case (ok, jc_cache c) of (True, Some ks) \<Rightarrow> Fetched (ks_keys ks) fin | _ \<Rightarrow> Failed started])))"
| "jwks_step pf (Resume i now) r =
     (case take_ready i (jr_ready r) of
        None \<Rightarrow> (r, [])
      | Some ((kid, ok), rs) \<Rightarrow>
          (case getKey_resume now ok kid (jr_cache r) of
             (c, ans) \<Rightarrow> (r\<lparr>jr_cache := c, jr_ready := rs\<rparr>, [Answered kid now ok ans])))"

fun jwks_runs :: "platform \<Rightarrow> jwks_event list \<Rightarrow> jwks_run \<Rightarrow> jwks_run \<times> jwks_out list" where
  "jwks_runs pf [] r = (r, [])"
| "jwks_runs pf (ev # evs) r =
     (case jwks_step pf ev r of
        (r1, o1) \<Rightarrow> (case jwks_runs pf evs r1 of (r2, o2) \<Rightarrow> (r2, o1 @ o2)))"

definition start_run :: "string \<Rightarrow> string option \<Rightarrow> int option \<Rightarrow> jwks_run" where
  "start_run issuer uri maxStale =
     \<lparr>jr_cache = new_cache issuer uri maxStale, jr_waiting = [], jr_ready = []\<rparr>"

end
