(* ===== verification/Verify.thy ===== *)
theory Verify
  imports Jwks
begin

text \<open>
  \<^verbatim>\<open>asterism-verify/src/verify.ts\<close>: the check of an access token by a resource server.  \<open>token_header\<close>
  runs up to the lookup of the key, \<open>check_token\<close> from its answer on.  The jose calls are a parameter:
  decoding the header, importing a key, and \<^verbatim>\<open>jwtVerify\<close> at a given time.
\<close>

record verifier_config =
  vc_issuer :: string
  vc_audience :: string
  vc_jwksUri :: "string option"
  vc_maxStaleMs :: "int option"

record principal =
  pr_subject :: string
  pr_clientId :: string
  pr_scopes :: "string list"
  pr_expiresAt :: rat
  pr_claims :: "(string, json) jsmap"

datatype token_problem =
    Malformed | Unknown_kid | Jwks_unavailable | Invalid_signature | Invalid_token_type | Invalid_issuer
  | Array_audience | Invalid_audience | Expired | Not_yet_valid | Missing_claims

text \<open>How \<^verbatim>\<open>jwtVerify\<close> ends: expired, a claim that fails, any other error, or the payload.\<close>

datatype jose_result = Jose_expired | Jose_claim string | Jose_failed | Jose_payload "(string, json) jsmap"

record 'k jose =
  jo_header :: "string \<Rightarrow> (string, json) jsmap option"
  jo_import :: "json \<Rightarrow> json option \<Rightarrow> 'k option"
  jo_verify :: "string \<Rightarrow> 'k \<Rightarrow> string \<Rightarrow> json option \<Rightarrow> time_ms \<Rightarrow> jose_result"

definition MAX_IAT_SKEW_S :: rat where "MAX_IAT_SKEW_S = 60"

definition PROTOCOL_CLAIMS :: "string list" where
  "PROTOCOL_CLAIMS =
     [''iss'', ''sub'', ''aud'', ''exp'', ''nbf'', ''iat'', ''jti'', ''client_id'', ''scope'']"

definition UNSAFE_KEYS :: "string list" where
  "UNSAFE_KEYS = [''__proto__'', ''constructor'', ''prototype'']"

definition extraClaims :: "(string, json) jsmap \<Rightarrow> (string, json) jsmap" where
  "extraClaims payload = filter (\<lambda>(n, _). \<not> (n \<in> set PROTOCOL_CLAIMS \<or> n \<in> set UNSAFE_KEYS)) payload"

text \<open>\<^verbatim>\<open>!kid\<close> is false.\<close>

fun json_truthy :: "json \<Rightarrow> bool" where
  "json_truthy JNull \<longleftrightarrow> False"
| "json_truthy (JBool b) \<longleftrightarrow> b"
| "json_truthy (JNum n) \<longleftrightarrow> n \<noteq> 0"
| "json_truthy (JStr s) \<longleftrightarrow> s \<noteq> []"
| "json_truthy (JArr _) \<longleftrightarrow> True"
| "json_truthy (JObj _) \<longleftrightarrow> True"

text \<open>\<^verbatim>\<open>/^(?:application\/)?at\+jwt$/i.test(typ)\<close>; \<^verbatim>\<open>test\<close> makes its argument a string, and a list of
  one element reads as that element.\<close>

fun is_access_token_typ :: "json \<Rightarrow> bool" where
  "is_access_token_typ (JStr s) \<longleftrightarrow> to_lower s = ''at+jwt'' \<or> to_lower s = ''application/at+jwt''"
| "is_access_token_typ (JArr [x]) \<longleftrightarrow> is_access_token_typ x"
| "is_access_token_typ _ \<longleftrightarrow> False"

text \<open>The identifier of the key to look up, and the type the header names.\<close>

definition token_header :: "'k jose \<Rightarrow> string \<Rightarrow> token_problem + (json \<times> json option)" where
  "token_header j token =
     (case jo_header j token of
        None \<Rightarrow> Inl Malformed
      | Some h \<Rightarrow>
          (case jm_get h ''kid'' of
             None \<Rightarrow> Inl Malformed
           | Some kid \<Rightarrow> if json_truthy kid then Inr (kid, jm_get h ''typ'') else Inl Malformed))"

text \<open>The checks of the payload that jose is not asked for.\<close>

definition check_iat :: "time_ms \<Rightarrow> (string, json) jsmap \<Rightarrow> token_problem option" where
  "check_iat now p =
     (case jm_get p ''iat'' of
        None \<Rightarrow> None
      | Some (JNum n) \<Rightarrow> if of_int now / 1000 + MAX_IAT_SKEW_S < n then Some Not_yet_valid else None
      | Some _ \<Rightarrow> Some Missing_claims)"

definition scope_claim :: "(string, json) jsmap \<Rightarrow> string" where
  "scope_claim p = (case as_string (jm_get p ''scope'') of None \<Rightarrow> [] | Some s \<Rightarrow> s)"

definition check_access_claims ::
    "verifier_config \<Rightarrow> time_ms \<Rightarrow> (string, json) jsmap \<Rightarrow> token_problem + principal" where
  "check_access_claims cfg now p =
     (case jm_get p ''aud'' of
        Some (JArr _) \<Rightarrow> Inl Array_audience
      | aud \<Rightarrow>
          if aud \<noteq> Some (JStr (vc_audience cfg)) then Inl Invalid_audience
          else (case (jm_get p ''sub'', jm_get p ''client_id'', jm_get p ''exp'') of
            (Some (JStr sub), Some (JStr client), Some (JNum expiry)) \<Rightarrow>
              if sub = [] then Inl Missing_claims
              else (case check_iat now p of
                Some er \<Rightarrow> Inl er
              | None \<Rightarrow>
                  Inr \<lparr>pr_subject = sub, pr_clientId = client, pr_scopes = split_scopes (scope_claim p),
                       pr_expiresAt = expiry * 1000, pr_claims = extraClaims p\<rparr>)
          | _ \<Rightarrow> Inl Missing_claims))"

definition jose_problem :: "jose_result \<Rightarrow> token_problem + (string, json) jsmap" where
  "jose_problem r =
     (case r of
        Jose_expired \<Rightarrow> Inl Expired
      | Jose_claim c \<Rightarrow>
          Inl (if c = ''iss'' then Invalid_issuer else if c = ''nbf'' then Not_yet_valid else Missing_claims)
      | Jose_failed \<Rightarrow> Inl Invalid_signature
      | Jose_payload p \<Rightarrow> Inr p)"

definition check_token ::
    "verifier_config \<Rightarrow> 'k jose \<Rightarrow> time_ms \<Rightarrow> string \<Rightarrow> json option \<Rightarrow> key_answer \<Rightarrow> token_problem + principal" where
  "check_token cfg j now token typ ans =
     (case ans of
        Inl _ \<Rightarrow> Inl Jwks_unavailable
      | Inr None \<Rightarrow> Inl Unknown_kid
      | Inr (Some jwk) \<Rightarrow>
          (case jo_import j jwk (member jwk ''alg'') of
             None \<Rightarrow> Inl Invalid_signature
           | Some key \<Rightarrow>
               if (case typ of None \<Rightarrow> False | Some t \<Rightarrow> \<not> is_access_token_typ t) then Inl Invalid_token_type
               else (case jose_problem (jo_verify j token key (vc_issuer cfg) (member jwk ''alg'') now) of
                 Inl er \<Rightarrow> Inl er
               | Inr p \<Rightarrow> check_access_claims cfg now p)))"

text \<open>\<^verbatim>\<open>createVerifier\<close> makes the cache of its issuer; a call that is not interleaved with others looks the
  key up in it and checks the token at the time the lookup ends.\<close>

definition createVerifier :: "verifier_config \<Rightarrow> jwks_cache" where
  "createVerifier cfg = new_cache (vc_issuer cfg) (vc_jwksUri cfg) (vc_maxStaleMs cfg)"

definition verify ::
    "verifier_config \<Rightarrow> 'k jose \<Rightarrow> platform \<Rightarrow> answers \<Rightarrow> time_ms \<Rightarrow> time_ms \<Rightarrow> string \<Rightarrow> jwks_cache \<Rightarrow>
     jwks_cache \<times> (token_problem + principal)" where
  "verify cfg j pf net now fin token s =
     (case token_header j token of
        Inl er \<Rightarrow> (s, Inl er)
      | Inr (kid, typ) \<Rightarrow>
          (case getKey pf net now fin kid s of (s', ans) \<Rightarrow> (s', check_token cfg j fin token typ ans)))"

end
