(* ===== verification/Protected.thy ===== *)
theory Protected
  imports Verify
begin

text \<open>
  \<^verbatim>\<open>asterism-verify/src/express.ts\<close>: the Express middleware of a resource server and the protected
  resource metadata document it publishes.  A middleware either calls \<^verbatim>\<open>next\<close> or answers; what throws
  when it is made is \<^const>\<open>None\<close>.  Options have their declared types, so the \<^verbatim>\<open>typeof\<close> checks hold.
\<close>

section \<open>Addresses and challenges\<close>

definition protectedResourceMetadataPath :: "url_parser \<Rightarrow> string \<Rightarrow> string option" where
  "protectedResourceMetadataPath parse audience =
     map_option (\<lambda>u. if url_pathname u = ''/'' then WELL_KNOWN_SEGMENT
                     else WELL_KNOWN_SEGMENT @ strip_slashes (url_pathname u)) (parse audience)"

definition metadata_address :: "url_parser \<Rightarrow> string \<Rightarrow> string option" where
  "metadata_address parse audience =
     (case (parse audience, protectedResourceMetadataPath parse audience) of
        (Some u, Some p) \<Rightarrow> Some (url_origin u @ p)
      | _ \<Rightarrow> None)"

text \<open>A double quote.\<close>

definition dq :: string where "dq = [char_of (34 :: nat)]"

definition bearerChallenge :: "url_parser \<Rightarrow> string \<Rightarrow> string option" where
  "bearerChallenge parse audience =
     map_option (\<lambda>a. ''Bearer realm='' @ dq @ audience @ dq @ '', resource_metadata='' @ dq @ a @ dq)
       (metadata_address parse audience)"

section \<open>Middleware\<close>

record rs_reply =
  re_status :: nat
  re_headers :: "(string, string) jsmap"
  re_error :: string
  re_description :: string

datatype middleware = Next "principal option" | Answer rs_reply

definition unauthorized :: "string \<Rightarrow> rs_reply" where
  "unauthorized challenge =
     \<lparr>re_status = 401, re_headers = [(''WWW-Authenticate'', challenge)], re_error = ''unauthorized'',
      re_description = ''Bearer token required''\<rparr>"

text \<open>\<^verbatim>\<open>/^bearer /i\<close>, and what follows it.\<close>

definition bearer_token :: "string option \<Rightarrow> string option" where
  "bearer_token authorization =
     (case truthy authorization of
        None \<Rightarrow> None
      | Some h \<Rightarrow> if to_lower (take 7 h) = ''bearer '' then Some (drop 7 h) else None)"

definition verified_reply :: "string \<Rightarrow> token_problem + principal \<Rightarrow> middleware" where
  "verified_reply challenge r =
     (case r of
        Inr p \<Rightarrow> Next (Some p)
      | Inl Jwks_unavailable \<Rightarrow>
          Answer \<lparr>re_status = 503, re_headers = [(''Retry-After'', ''30'')], re_error = ''temporarily_unavailable'',
                  re_description = ''Token verification is temporarily unavailable''\<rparr>
      | Inl _ \<Rightarrow>
          Answer \<lparr>re_status = 401,
                  re_headers = [(''WWW-Authenticate'', challenge @ '', error='' @ dq @ ''invalid_token'' @ dq)],
                  re_error = ''invalid_token'', re_description = ''Bearer token is invalid or expired''\<rparr>)"

text \<open>One request through the middleware of \<^verbatim>\<open>createBearerAuthMiddleware\<close>.\<close>

definition bearer_auth ::
    "verifier_config \<Rightarrow> 'k jose \<Rightarrow> platform \<Rightarrow> answers \<Rightarrow> time_ms \<Rightarrow> time_ms \<Rightarrow> string \<Rightarrow> string option \<Rightarrow>
     jwks_cache \<Rightarrow> jwks_cache \<times> middleware" where
  "bearer_auth cfg j pf net now fin challenge authorization s =
     (case bearer_token authorization of
        None \<Rightarrow> (s, Answer (unauthorized challenge))
      | Some token \<Rightarrow>
          (case verify cfg j pf net now fin token s of (s', r) \<Rightarrow> (s', verified_reply challenge r)))"

definition createBearerAuthMiddleware ::
    "verifier_config \<Rightarrow> 'k jose \<Rightarrow> platform \<Rightarrow>
     (answers \<Rightarrow> time_ms \<Rightarrow> time_ms \<Rightarrow> string option \<Rightarrow> jwks_cache \<Rightarrow> jwks_cache \<times> middleware) option" where
  "createBearerAuthMiddleware cfg j pf =
     map_option (\<lambda>challenge net now fin. bearer_auth cfg j pf net now fin challenge)
       (bearerChallenge (pf_parse_url pf) (vc_audience cfg))"

definition insufficient_description :: string where
  "insufficient_description = ''The access token does not have the required scope''"

text \<open>\<^const>\<open>None\<close> when a scope is not a scope token.\<close>

definition sendInsufficientScope :: "string \<Rightarrow> string list \<Rightarrow> string \<Rightarrow> rs_reply option" where
  "sendInsufficientScope challenge requiredScopes description =
     (if list_all is_scope_token requiredScopes
      then Some \<lparr>re_status = 403,
                 re_headers = [(''WWW-Authenticate'', challenge @ '', error='' @ dq @ ''insufficient_scope'' @ dq @
                                '', scope='' @ dq @ join '' '' requiredScopes @ dq)],
                 re_error = ''insufficient_scope'', re_description = description\<rparr>
      else None)"

definition scope_guard :: "string \<Rightarrow> string list \<Rightarrow> principal option \<Rightarrow> middleware option" where
  "scope_guard challenge scopes pr =
     (case pr of
        None \<Rightarrow> Some (Answer (unauthorized challenge))
      | Some p \<Rightarrow>
          if list_ex (\<lambda>s. s \<notin> set (pr_scopes p)) scopes
          then map_option Answer (sendInsufficientScope challenge scopes insufficient_description)
          else Some (Next (Some p)))"

definition requireScopes ::
    "url_parser \<Rightarrow> verifier_config \<Rightarrow> string list \<Rightarrow> (principal option \<Rightarrow> middleware option) option" where
  "requireScopes parse cfg scopes =
     (if list_all is_scope_token scopes
      then map_option (\<lambda>challenge. scope_guard challenge scopes) (bearerChallenge parse (vc_audience cfg))
      else None)"

section \<open>The metadata document\<close>

record resource_scope =
  sc_name :: string
  sc_description :: string
  sc_stepUp :: bool
  sc_shortLived :: bool
  sc_freshSignIn :: bool

record metadata_options =
  mo_resourceName :: "string option"
  mo_scopes :: "resource_scope list option"
  mo_scopesSupported :: "string list option"
  mo_offlineAccess :: bool

datatype option_error =
    Resource_name_length | Resource_name_unsafe | Both_scope_lists | Scope_not_token
  | Too_many_supported | Openid_listed | Supported_repeated | Too_many_declared | Reserved_name string
  | Name_repeated string | Description_length string | Description_unsafe string

definition VERIFY_MAX_SCOPES :: nat where "VERIFY_MAX_SCOPES = 50"
definition MAX_DESCRIPTION :: nat where "MAX_DESCRIPTION = 300"
definition MAX_RESOURCE_NAME :: nat where "MAX_RESOURCE_NAME = 200"

definition name_problem :: "string option \<Rightarrow> option_error option" where
  "name_problem resourceName =
     (case resourceName of
        None \<Rightarrow> None
      | Some n \<Rightarrow>
          if n = [] \<or> MAX_RESOURCE_NAME < length n then Some Resource_name_length
          else if list_ex unsafe_display_char n then Some Resource_name_unsafe else None)"

definition supported_problem :: "string list \<Rightarrow> option_error option" where
  "supported_problem names =
     (if \<not> list_all is_scope_token names then Some Scope_not_token
      else if VERIFY_MAX_SCOPES < length names then Some Too_many_supported
      else if ''openid'' \<in> set names then Some Openid_listed
      else if \<not> distinct names then Some Supported_repeated else None)"

fun declared_problem :: "string list \<Rightarrow> resource_scope list \<Rightarrow> option_error option" where
  "declared_problem seen [] = None"
| "declared_problem seen (sc # scs) =
     (let n = sc_name sc; d = sc_description sc in
      if n \<in> set RESERVED_SCOPES then Some (Reserved_name n)
      else if n \<in> set seen then Some (Name_repeated n)
      else if trim d = [] \<or> MAX_DESCRIPTION < length d then Some (Description_length n)
      else if list_ex unsafe_display_char d then Some (Description_unsafe n)
      else declared_problem (n # seen) scs)"

definition scopes_problem :: "resource_scope list \<Rightarrow> option_error option" where
  "scopes_problem scs =
     (if VERIFY_MAX_SCOPES < length scs then Some Too_many_declared
      else if \<not> list_all is_scope_token (map sc_name scs) then Some Scope_not_token
      else declared_problem [] scs)"

definition options_problem :: "metadata_options \<Rightarrow> option_error option" where
  "options_problem opts =
     (case name_problem (mo_resourceName opts) of
        Some er \<Rightarrow> Some er
      | None \<Rightarrow>
          (case (mo_scopes opts, mo_scopesSupported opts) of
             (Some _, Some _) \<Rightarrow> Some Both_scope_lists
           | (None, Some names) \<Rightarrow> supported_problem names
           | (Some scs, None) \<Rightarrow> scopes_problem scs
           | (None, None) \<Rightarrow> None))"

text \<open>The scopes listed in \<^verbatim>\<open>scopes_supported\<close>, when it is there.\<close>

definition listed :: "metadata_options \<Rightarrow> string list option" where
  "listed opts =
     (case mo_scopes opts of
        Some scs \<Rightarrow> Some (map sc_name (filter (\<lambda>sc. \<not> sc_stepUp sc \<and> \<not> sc_freshSignIn sc) scs))
      | None \<Rightarrow> mo_scopesSupported opts)"

definition advertised :: "metadata_options \<Rightarrow> string list option" where
  "advertised opts =
     (if mo_offlineAccess opts
      then Some (filter (\<lambda>s. s \<noteq> ''offline_access'') (case listed opts of None \<Rightarrow> [] | Some l \<Rightarrow> l) @ [''offline_access''])
      else listed opts)"

definition flag_members :: "resource_scope \<Rightarrow> (string \<times> json) list" where
  "flag_members sc =
     (if sc_stepUp sc then [(''step_up'', JBool True)] else []) @
     (if sc_shortLived sc then [(''short_lived'', JBool True)] else []) @
     (if sc_freshSignIn sc then [(''fresh_sign_in'', JBool True)] else [])"

definition scope_entry :: "resource_scope \<Rightarrow> json" where
  "scope_entry sc =
     JObj ([(''name'', JStr (sc_name sc)), (''description'', JStr (sc_description sc))] @ flag_members sc)"

definition metadata_document :: "verifier_config \<Rightarrow> metadata_options \<Rightarrow> json" where
  "metadata_document cfg opts =
     JObj ([(''resource'', JStr (vc_audience cfg))] @
           (case mo_resourceName opts of None \<Rightarrow> [] | Some n \<Rightarrow> [(''resource_name'', JStr n)]) @
           [(''authorization_servers'', JArr [JStr (vc_issuer cfg)]),
            (''bearer_methods_supported'', JArr [JStr ''header''])] @
           (case advertised opts of None \<Rightarrow> [] | Some l \<Rightarrow> [(''scopes_supported'', JArr (map JStr l))]) @
           (case mo_scopes opts of None \<Rightarrow> [] | Some scs \<Rightarrow> [(''asterism_scopes'', JArr (map scope_entry scs))]))"

definition buildProtectedResourceMetadata :: "verifier_config \<Rightarrow> metadata_options \<Rightarrow> option_error + json" where
  "buildProtectedResourceMetadata cfg opts =
     (case options_problem opts of Some er \<Rightarrow> Inl er | None \<Rightarrow> Inr (metadata_document cfg opts))"

text \<open>The handler is made once; it serves the document unchanged.\<close>

definition protectedResourceMetadataHandler ::
    "verifier_config \<Rightarrow> metadata_options \<Rightarrow> option_error + (unit \<Rightarrow> json)" where
  "protectedResourceMetadataHandler cfg opts =
     (case buildProtectedResourceMetadata cfg opts of Inl er \<Rightarrow> Inl er | Inr doc \<Rightarrow> Inr (\<lambda>_. doc))"

end
