(* ===== verification/JwksProps.thy ===== *)
theory JwksProps
  imports Jwks
begin

text \<open>
  Properties of the key set cache over any interleaving of callers: it refines a store of the last
  key set the issuer was seen to publish, its requests are spaced, and its memory of missed
  identifiers is bounded.
\<close>

section \<open>The abstract store\<close>

text \<open>All that matters of the cache is the last key set fetched and when.  An answer is read off it.\<close>

type_synonym key_store = "(json list \<times> time_ms) option"

definition store_of :: "jwks_cache \<Rightarrow> key_store" where
  "store_of s = map_option (\<lambda>c. (ks_keys c, ks_fetchedAt c)) (jc_cache s)"

text \<open>What may be answered at \<open>now\<close> to a caller that has (\<open>joined\<close>) just waited for a fetch.\<close>

definition may_answer :: "int \<Rightarrow> key_store \<Rightarrow> json \<Rightarrow> time_ms \<Rightarrow> bool \<Rightarrow> key_answer \<Rightarrow> bool" where
  "may_answer maxStale st kid now joined ans \<longleftrightarrow>
     (case st of
        None \<Rightarrow> (\<exists>er. ans = Inl er)
      | Some (keys, at_time) \<Rightarrow>
          if maxStale < now - at_time \<and> \<not> joined
          then ans = Inl Stale_keys \<or> (JNull \<in> set keys \<and> ans = Inl Null_key)
          else ans = find_kid kid keys)"

inductive store_trace :: "int \<Rightarrow> key_store \<Rightarrow> jwks_out list \<Rightarrow> bool" for maxStale where
  trace_end: "store_trace maxStale st []"
| trace_started: "store_trace maxStale st outs \<Longrightarrow> store_trace maxStale st (Started t # outs)"
| trace_failed: "store_trace maxStale st outs \<Longrightarrow> store_trace maxStale st (Failed t # outs)"
| trace_fetched: "store_trace maxStale (Some (keys, t)) outs \<Longrightarrow> store_trace maxStale st (Fetched keys t # outs)"
| trace_answered:
    "may_answer maxStale st kid now joined ans \<Longrightarrow> store_trace maxStale st outs \<Longrightarrow>
     store_trace maxStale st (Answered kid now joined ans # outs)"

text \<open>A caller told that the fetch succeeded finds a key set, and whoever holds a fresh one may use it.\<close>

definition run_wf :: "jwks_run \<Rightarrow> bool" where
  "run_wf r \<longleftrightarrow>
     (\<forall>i kid. (i, kid, True) \<in> set (jr_ready r) \<longrightarrow> jc_cache (jr_cache r) \<noteq> None) \<and>
     (\<forall>c. jc_cache (jr_cache r) = Some c \<longrightarrow> ks_expiresAt c \<le> ks_fetchedAt c + jc_maxStale (jr_cache r))"

lemma find_kid_null: "find_kid kid ks = Inl er \<Longrightarrow> er = Null_key \<and> JNull \<in> set ks"
  by (induction kid ks rule: find_kid.induct) (auto split: if_splits)

lemma find_kid_Some:
  "find_kid kid ks = Inr (Some k) \<Longrightarrow> k \<in> set ks \<and> member k ''kid'' = Some kid"
proof (induction kid ks rule: find_kid.induct)
  case (2 kid k' ks)
  have "strict_eq v kid \<Longrightarrow> v = kid" for v by (cases v) auto
  with 2 show ?case by (auto split: if_splits option.splits)
qed simp

lemma getKey_start_frame:
  assumes "getKey_start now kid s = (s', a)"
  shows "jc_cache s' = jc_cache s" "jc_maxStale s' = jc_maxStale s" "jc_missed s' = jc_missed s"
    "jc_lastError s' = jc_lastError s" "jc_uri s' = jc_uri s" "jc_issuer s' = jc_issuer s"
  using assms by (auto simp: getKey_start_def split: sum.splits if_splits)

lemma getKey_start_answer:
  assumes "getKey_start now kid s = (s', Some ans)"
    and "\<forall>c. jc_cache s = Some c \<longrightarrow> ks_expiresAt c \<le> ks_fetchedAt c + jc_maxStale s"
  shows "s' = s" "may_answer (jc_maxStale s) (store_of s) kid now False ans"
proof -
  show "s' = s" using assms by (auto simp: getKey_start_def split: sum.splits if_splits)
  show "may_answer (jc_maxStale s) (store_of s) kid now False ans"
  proof (cases "jc_cache s")
    case None
    with assms show ?thesis
      by (auto simp: getKey_start_def may_answer_def store_of_def cached_key_def cache_fresh_def
          serve_limited_def split: if_splits)
  next
    case (Some c)
    have fresh: "now - ks_fetchedAt c \<le> jc_maxStale s" if "cache_fresh now s"
      using that Some assms(2) by (auto simp: cache_fresh_def)
    show ?thesis
    proof (cases "find_kid kid (ks_keys c)")
      case (Inl er)
      then have "cached_key kid s = Inl er" using Some by (simp add: cached_key_def)
      then have "ans = Inl er" using assms(1) by (simp add: getKey_start_def)
      with Inl Some find_kid_null [OF Inl] show ?thesis by (simp add: may_answer_def store_of_def)
    next
      case (Inr q)
      then have ck: "cached_key kid s = Inr q" using Some by (simp add: cached_key_def)
      have "ans = Inr q \<and> now - ks_fetchedAt c \<le> jc_maxStale s \<or>
            ans = Inl Stale_keys \<and> jc_maxStale s < now - ks_fetchedAt c"
        using assms(1) ck Some fresh
        by (auto simp: getKey_start_def serve_limited_def too_stale_def split: if_splits)
      with Inr Some show ?thesis by (auto simp: may_answer_def store_of_def)
    qed
  qed
qed

lemma getKey_resume_frame:
  assumes "getKey_resume now ok kid s = (s', ans)"
  shows "jc_cache s' = jc_cache s" "jc_maxStale s' = jc_maxStale s" "jc_nextAttemptAt s' = jc_nextAttemptAt s"
    "jc_inflight s' = jc_inflight s"
  using assms by (auto simp: getKey_resume_def split: sum.splits option.splits if_splits)

lemma getKey_resume_answer:
  assumes "getKey_resume now ok kid s = (s', ans)" and "ok \<longrightarrow> jc_cache s \<noteq> None"
  shows "may_answer (jc_maxStale s) (store_of s) kid now ok ans"
proof (cases "jc_cache s")
  case None
  with assms show ?thesis
    by (auto simp: getKey_resume_def may_answer_def store_of_def)
next
  case (Some c)
  with assms show ?thesis
    by (auto simp: getKey_resume_def may_answer_def store_of_def cached_key_def too_stale_def
        split: if_splits sum.splits option.splits)
qed

lemma refresh_settled_cases:
  assumes "refresh_settled pf net started fin s = (s', ok)"
  obtains (success) keys ttl where "ok" "jc_cache s' = Some \<lparr>ks_keys = keys, ks_fetchedAt = fin,
      ks_expiresAt = fin + min ttl (jc_maxStale s)\<rparr>" "jc_nextAttemptAt s' = jc_nextAttemptAt s"
      "jc_missed s' = []" "jc_inflight s' = None" "jc_maxStale s' = jc_maxStale s"
  | (failure) "\<not> ok" "jc_cache s' = jc_cache s" "jc_missed s' = jc_missed s"
      "jc_nextAttemptAt s' = max (jc_nextAttemptAt s) (started + FAILURE_BACKOFF_MS)"
      "jc_inflight s' = None" "jc_maxStale s' = jc_maxStale s"
proof -
  obtain uri q where f: "fetchKeys pf net s = (uri, q)" by fastforce
  show thesis
  proof (cases q)
    case (Inl er)
    with f assms show thesis by (intro failure) (auto simp: refresh_settled_def)
  next
    case (Inr kt)
    obtain keys ttl where "kt = (keys, ttl)" by fastforce
    with Inr f assms show thesis by (intro success [of keys ttl]) (auto simp: refresh_settled_def)
  qed
qed

lemma take_ready_SomeD:
  "take_ready i rs = Some ((kid, ok), rs') \<Longrightarrow> (i, kid, ok) \<in> set rs \<and> set rs' \<subseteq> set rs"
  by (induction i rs arbitrary: rs' rule: take_ready.induct) (fastforce split: if_splits)+

lemma run_wf_step:
  assumes "jwks_step pf ev r = (r', outs)" and "run_wf r"
  shows "run_wf r'" and "jc_maxStale (jr_cache r') = jc_maxStale (jr_cache r)"
    and "store_trace (jc_maxStale (jr_cache r)) (store_of (jr_cache r')) rest \<Longrightarrow>
         store_trace (jc_maxStale (jr_cache r)) (store_of (jr_cache r)) (outs @ rest)"
proof -
  let ?M = "jc_maxStale (jr_cache r)"
  have exp: "\<forall>c. jc_cache (jr_cache r) = Some c \<longrightarrow> ks_expiresAt c \<le> ks_fetchedAt c + ?M"
    using assms(2) by (simp add: run_wf_def)
  have "run_wf r' \<and> jc_maxStale (jr_cache r') = ?M \<and>
        (store_trace ?M (store_of (jr_cache r')) rest \<longrightarrow> store_trace ?M (store_of (jr_cache r)) (outs @ rest))"
  proof (cases ev)
    case (Ask i kid now)
    obtain c a where g: "getKey_start now kid (jr_cache r) = (c, a)" by fastforce
    note fr = getKey_start_frame [OF g]
    show ?thesis
    proof (cases a)
      case None
      with Ask g assms fr show ?thesis
        by (auto simp: run_wf_def store_of_def intro: trace_started)
    next
      case (Some ans)
      with Ask g assms fr getKey_start_answer [OF g [unfolded Some] exp] show ?thesis
        by (auto simp: run_wf_def intro: trace_answered)
    qed
  next
    case (Settle net fin)
    show ?thesis
    proof (cases "jc_inflight (jr_cache r)")
      case None
      with Settle assms show ?thesis by auto
    next
      case (Some started)
      obtain c ok where g: "refresh_settled pf net started fin (jr_cache r) = (c, ok)" by fastforce
      from g show ?thesis
      proof (cases rule: refresh_settled_cases)
        case (success keys ttl)
        with Settle Some g assms show ?thesis
          by (auto simp: run_wf_def store_of_def intro: trace_fetched)
      next
        case failure
        with Settle Some g assms show ?thesis
          by (auto simp: run_wf_def store_of_def intro: trace_failed)
      qed
    qed
  next
    case (Resume i now)
    show ?thesis
    proof (cases "take_ready i (jr_ready r)")
      case None
      with Resume assms show ?thesis by auto
    next
      case (Some q)
      obtain kid ok rs where q: "q = ((kid, ok), rs)" by (metis surj_pair)
      obtain c ans where g: "getKey_resume now ok kid (jr_cache r) = (c, ans)" by fastforce
      note t = take_ready_SomeD [OF Some [unfolded q]]
      have "ok \<longrightarrow> jc_cache (jr_cache r) \<noteq> None" using t assms(2) by (auto simp: run_wf_def)
      note a = getKey_resume_answer [OF g this]
      show ?thesis using Resume Some q g assms t a getKey_resume_frame [OF g]
        by (auto simp: run_wf_def store_of_def intro!: trace_answered)
    qed
  qed
  then show "run_wf r'" and "jc_maxStale (jr_cache r') = ?M"
    and "store_trace ?M (store_of (jr_cache r')) rest \<Longrightarrow> store_trace ?M (store_of (jr_cache r)) (outs @ rest)"
    by auto
qed

lemma jwks_runs_trace:
  "run_wf r \<Longrightarrow> store_trace (jc_maxStale (jr_cache r)) (store_of (jr_cache r)) (snd (jwks_runs pf evs r))"
proof (induction evs arbitrary: r)
  case (Cons ev evs)
  obtain r1 o1 where s: "jwks_step pf ev r = (r1, o1)" by fastforce
  note step = run_wf_step [OF s Cons.prems]
  from Cons.IH [OF step(1)] step(2,3) s show ?case
    by (auto split: prod.splits)
qed (simp add: trace_end)

lemma start_run_wf: "run_wf (start_run issuer uri ms)"
  by (simp add: run_wf_def start_run_def new_cache_def)

text \<open>C32: The key set cache of a resource server refines a store of the last key set fetched.  Whatever
  calls are made, whenever the refreshes end and whatever they bring, and in whatever order the
  waiting calls resume, each answer is the one read off the key set of the last successful fetch: the first key
  with that identifier, or none.  Once that fetch is more than the staleness limit ago, only a caller that
  has just waited for a successful fetch still gets an answer from it; the others get an error.  So
  a key the issuer has withdrawn is no longer answered after the next successful fetch, nor, if
  none succeeds, after the limit.\<close>

theorem cache_refines_key_store:
  "store_trace (case maxStale of None \<Rightarrow> DEFAULT_MAX_STALE_MS | Some n \<Rightarrow> n) None
     (snd (jwks_runs pf evs (start_run issuer uri maxStale)))"
  using jwks_runs_trace [where r = "start_run issuer uri maxStale", OF start_run_wf, where pf = pf and evs = evs]
  by (simp add: start_run_def new_cache_def store_of_def)

section \<open>Spacing of the requests\<close>

text \<open>What must hold between an output and a later one.\<close>

fun spaced_after :: "jwks_out \<Rightarrow> jwks_out \<Rightarrow> bool" where
  "spaced_after (Started a) (Started b) \<longleftrightarrow> a + 1000 \<le> b"
| "spaced_after (Failed a) (Started b) \<longleftrightarrow> a + 5000 \<le> b"
| "spaced_after _ _ \<longleftrightarrow> True"

fun started_from :: "time_ms \<Rightarrow> jwks_out \<Rightarrow> bool" where
  "started_from n (Started b) \<longleftrightarrow> n \<le> b"
| "started_from n _ \<longleftrightarrow> True"

lemma started_from_mono: "started_from n q \<Longrightarrow> m \<le> n \<Longrightarrow> started_from m q"
  by (cases q) auto

lemma jwks_step_next:
  assumes "jwks_step pf ev r = (r', outs)"
  shows "jc_nextAttemptAt (jr_cache r) \<le> jc_nextAttemptAt (jr_cache r')"
    "sorted_wrt spaced_after outs" "q \<in> set outs \<Longrightarrow> started_from (jc_nextAttemptAt (jr_cache r)) q"
    "q \<in> set outs \<Longrightarrow> started_from (jc_nextAttemptAt (jr_cache r')) p \<Longrightarrow> spaced_after q p"
proof -
  have "jc_nextAttemptAt (jr_cache r) \<le> jc_nextAttemptAt (jr_cache r') \<and> sorted_wrt spaced_after outs \<and>
        (\<forall>q \<in> set outs. started_from (jc_nextAttemptAt (jr_cache r)) q \<and>
           (started_from (jc_nextAttemptAt (jr_cache r')) p \<longrightarrow> spaced_after q p))"
  proof (cases ev)
    case (Ask i kid now)
    show ?thesis using assms unfolding Ask
      by (cases p) (auto simp: getKey_start_def MIN_REFRESH_INTERVAL_MS_def split: sum.splits if_splits)
  next
    case (Settle net fin)
    show ?thesis
    proof (cases "jc_inflight (jr_cache r)")
      case None
      with Settle assms show ?thesis by auto
    next
      case (Some started)
      obtain c ok where g: "refresh_settled pf net started fin (jr_cache r) = (c, ok)" by fastforce
      from g show ?thesis
        by (cases rule: refresh_settled_cases; cases p)
          (use Settle Some g assms in \<open>auto simp: FAILURE_BACKOFF_MS_def\<close>)
    qed
  next
    case (Resume i now)
    with assms show ?thesis
      by (cases p) (auto split: option.splits prod.splits dest: getKey_resume_frame(3))
  qed
  then show "jc_nextAttemptAt (jr_cache r) \<le> jc_nextAttemptAt (jr_cache r')"
    "sorted_wrt spaced_after outs" "q \<in> set outs \<Longrightarrow> started_from (jc_nextAttemptAt (jr_cache r)) q"
    "q \<in> set outs \<Longrightarrow> started_from (jc_nextAttemptAt (jr_cache r')) p \<Longrightarrow> spaced_after q p"
    by auto
qed

lemma jwks_runs_spaced:
  "sorted_wrt spaced_after (snd (jwks_runs pf evs r)) \<and>
   (\<forall>q \<in> set (snd (jwks_runs pf evs r)). started_from (jc_nextAttemptAt (jr_cache r)) q)"
proof (induction evs arbitrary: r)
  case (Cons ev evs)
  obtain r1 o1 where s: "jwks_step pf ev r = (r1, o1)" by fastforce
  obtain r2 o2 where t: "jwks_runs pf evs r1 = (r2, o2)" by fastforce
  note step = jwks_step_next [OF s]
  from Cons.IH [of r1] t have ih: "sorted_wrt spaced_after o2"
    "\<forall>q \<in> set o2. started_from (jc_nextAttemptAt (jr_cache r1)) q" by auto
  from ih step s t show ?case
    by (auto simp: sorted_wrt_append intro: started_from_mono)
qed simp

text \<open>C33: However many tokens with unknown keys arrive, in any interleaving, any two requests for the key
  set begin at least a second apart, and after one that failed the next begins at least five seconds
  after the failed one did.  The wait is counted from the start of the failed request, so one that fails slowly,
  by a timeout for instance, leaves less of it or none; nothing is assumed of the clock readings.\<close>

theorem key_set_requests_are_spaced:
  "sorted_wrt spaced_after (snd (jwks_runs pf evs (start_run issuer uri maxStale)))"
  using jwks_runs_spaced by blast

section \<open>Memory\<close>

lemma set_missed_length: "length (set_missed kid now m) \<le> Suc (length m)"
  by (induction kid now m rule: set_missed.induct) auto

lemma noteMiss_bounded:
  assumes "length m \<le> MAX_MISSED_KIDS" shows "length (noteMiss kid now m) \<le> MAX_MISSED_KIDS"
proof -
  have pos: "0 < MAX_MISSED_KIDS" by (simp add: MAX_MISSED_KIDS_def)
  show ?thesis
    using set_missed_length [of kid now m] set_missed_length [of kid now "[]"]
      set_missed_length [of kid now "filter (\<lambda>(_, t). \<not> MISSED_KID_TTL_MS \<le> now - t) m"] assms pos
    by (auto simp: noteMiss_def Let_def intro: order_trans)
qed

end
