(* ===== verification/VerifyProps.thy ===== *)
theory VerifyProps
  imports Verify JwksProps Sample
begin

text \<open>
  Properties of the resource server's verifier: what an accepted token is, and that it accepts the
  tokens the proxy mints.
\<close>

section \<open>Answers of a run\<close>

text \<open>The store after some outputs.\<close>

fun store_after :: "key_store \<Rightarrow> jwks_out list \<Rightarrow> key_store" where
  "store_after st [] = st"
| "store_after st (Fetched keys t # outs) = store_after (Some (keys, t)) outs"
| "store_after st (_ # outs) = store_after st outs"

inductive_simps store_trace_simps:
  "store_trace M st (Started t # outs)" "store_trace M st (Failed t # outs)"
  "store_trace M st (Fetched keys t # outs)" "store_trace M st (Answered kid now joined ans # outs)"

lemma store_trace_answer:
  "store_trace M st (pre @ Answered kid now joined ans # post) \<Longrightarrow>
   may_answer M (store_after st pre) kid now joined ans"
  by (induction st pre rule: store_after.induct) (auto simp: store_trace_simps)

lemma may_answer_key:
  assumes "may_answer M st kid now joined (Inr (Some jwk))"
  obtains keys t where "st = Some (keys, t)" "find_kid kid keys = Inr (Some jwk)" "joined \<or> now - t \<le> M"
  using assms by (cases st) (auto simp: may_answer_def split: if_splits prod.splits)

section \<open>What an accepted token is\<close>

lemma check_access_claims_InrD:
  assumes "check_access_claims cfg now p = Inr pr"
  obtains expiry where "jm_get p ''aud'' = Some (JStr (vc_audience cfg))"
    "jm_get p ''sub'' = Some (JStr (pr_subject pr))" "pr_subject pr \<noteq> []"
    "jm_get p ''client_id'' = Some (JStr (pr_clientId pr))" "jm_get p ''exp'' = Some (JNum expiry)"
    "check_iat now p = None" "pr_scopes pr = split_scopes (scope_claim p)"
    "pr_expiresAt pr = expiry * 1000" "pr_claims pr = extraClaims p"
proof -
  have aud: "jm_get p ''aud'' = Some (JStr (vc_audience cfg))"
    using assms by (simp add: check_access_claims_def split: option.splits json.splits if_splits)
  show thesis
    using assms that unfolding check_access_claims_def aud
    by (auto split: option.splits json.splits if_splits)
qed

lemma check_token_InrD:
  assumes "check_token cfg j now token typ ans = Inr pr"
  obtains jwk key p where "ans = Inr (Some jwk)" "jo_import j jwk (member jwk ''alg'') = Some key"
    "\<forall>t. typ = Some t \<longrightarrow> is_access_token_typ t"
    "jo_verify j token key (vc_issuer cfg) (member jwk ''alg'') now = Jose_payload p"
    "check_access_claims cfg now p = Inr pr"
  using assms
  by (simp add: check_token_def jose_problem_def
      split: sum.splits option.splits if_splits jose_result.splits)

lemma check_iat_NoneD:
  "check_iat now p = None \<Longrightarrow> jm_get p ''iat'' = Some v \<Longrightarrow>
     \<exists>n. v = JNum n \<and> n \<le> of_int now / 1000 + MAX_IAT_SKEW_S"
  by (auto simp: check_iat_def split: json.splits if_splits)

text \<open>C31: Whatever other verifications run at the same time, a resource server that accepts a token has looked
  its key identifier up in the key set it last fetched from the issuer, and that fetch succeeded no
  longer ago than the staleness limit or the call had just waited for it.  The key was
  imported with the algorithm its entry names and the signature, issuer and times were
  checked against exactly that algorithm and the configured issuer.  The audience is the one string of this
  server, the subject is a string that is not empty, the type says access token if it says anything,
  the issue time is at most a minute ahead, and the principal carries exactly what the payload
  says, without protocol claims and without \<open>__proto__\<close>, \<open>constructor\<close> and \<open>prototype\<close>.\<close>

theorem accepted_token_sound:
  assumes "snd (jwks_runs pf evs (start_run (vc_issuer cfg) (vc_jwksUri cfg) (vc_maxStaleMs cfg))) =
             pre @ Answered kid asked joined ans # post"
    and "token_header j token = Inr (kid, typ)"
    and "check_token cfg j now token typ ans = Inr pr"
  shows "\<exists>keys fetched jwk key p expiry.
     store_after None pre = Some (keys, fetched) \<and> find_kid kid keys = Inr (Some jwk) \<and>
     jwk \<in> set keys \<and> member jwk ''kid'' = Some kid \<and>
     (joined \<or> asked - fetched \<le> (case vc_maxStaleMs cfg of None \<Rightarrow> DEFAULT_MAX_STALE_MS | Some n \<Rightarrow> n)) \<and>
     jo_import j jwk (member jwk ''alg'') = Some key \<and>
     jo_verify j token key (vc_issuer cfg) (member jwk ''alg'') now = Jose_payload p \<and>
     jm_get p ''aud'' = Some (JStr (vc_audience cfg)) \<and>
     jm_get p ''sub'' = Some (JStr (pr_subject pr)) \<and> pr_subject pr \<noteq> [] \<and>
     jm_get p ''client_id'' = Some (JStr (pr_clientId pr)) \<and>
     jm_get p ''exp'' = Some (JNum expiry) \<and> pr_expiresAt pr = expiry * 1000 \<and>
     pr_scopes pr = split_scopes (scope_claim p) \<and> pr_claims pr = extraClaims p \<and>
     (\<forall>t. typ = Some t \<longrightarrow> is_access_token_typ t) \<and>
     (\<forall>v. jm_get p ''iat'' = Some v \<longrightarrow> (\<exists>n. v = JNum n \<and> n \<le> of_int now / 1000 + 60)) \<and>
     fst ` set (pr_claims pr) \<inter> set (PROTOCOL_CLAIMS @ UNSAFE_KEYS) = {}"
proof -
  let ?M = "case vc_maxStaleMs cfg of None \<Rightarrow> DEFAULT_MAX_STALE_MS | Some n \<Rightarrow> n"
  from assms(3) obtain jwk key p where c: "ans = Inr (Some jwk)"
    "jo_import j jwk (member jwk ''alg'') = Some key" "\<forall>t. typ = Some t \<longrightarrow> is_access_token_typ t"
    "jo_verify j token key (vc_issuer cfg) (member jwk ''alg'') now = Jose_payload p"
    "check_access_claims cfg now p = Inr pr"
    by (rule check_token_InrD)
  have "store_trace ?M None (pre @ Answered kid asked joined ans # post)"
    using jwks_runs_trace [where r = "start_run (vc_issuer cfg) (vc_jwksUri cfg) (vc_maxStaleMs cfg)", OF start_run_wf,
        where pf = pf and evs = evs] assms(1)
    by (simp add: start_run_def new_cache_def store_of_def)
  from store_trace_answer [OF this] c(1)
  have "may_answer ?M (store_after None pre) kid asked joined (Inr (Some jwk))" by simp
  then obtain keys t where k: "store_after None pre = Some (keys, t)" "find_kid kid keys = Inr (Some jwk)"
    "joined \<or> asked - t \<le> ?M" by (rule may_answer_key)
  from c(5) obtain expiry where p: "jm_get p ''aud'' = Some (JStr (vc_audience cfg))"
    "jm_get p ''sub'' = Some (JStr (pr_subject pr))" "pr_subject pr \<noteq> []"
    "jm_get p ''client_id'' = Some (JStr (pr_clientId pr))" "jm_get p ''exp'' = Some (JNum expiry)"
    "check_iat now p = None" "pr_scopes pr = split_scopes (scope_claim p)"
    "pr_expiresAt pr = expiry * 1000" "pr_claims pr = extraClaims p"
    by (rule check_access_claims_InrD)
  have iat: "\<forall>v. jm_get p ''iat'' = Some v \<longrightarrow> (\<exists>n. v = JNum n \<and> n \<le> of_int now / 1000 + 60)"
    using check_iat_NoneD [OF p(6)] by (simp add: MAX_IAT_SKEW_S_def)
  have clean: "fst ` set (pr_claims pr) \<inter> set (PROTOCOL_CLAIMS @ UNSAFE_KEYS) = {}"
    unfolding p(9) by (auto simp: extraClaims_def)
  show ?thesis
    using c(2-4) k p(1-5,7-9) iat clean find_kid_Some [OF k(2)] by blast
qed

section \<open>The proxy's own tokens\<close>

text \<open>
  What jose does with the compact form of a token signed with the private half of a key: the header reads back, the public
  half imports, and \<^verbatim>\<open>jwtVerify\<close> returns the claims with the issue and expiry times, unless the
  issuer is another one or the token has expired.  (A token of the proxy has no \<^verbatim>\<open>nbf\<close>.)
\<close>

definition signed_claims :: "jwt \<Rightarrow> (string, json) jsmap" where
  "signed_claims t =
     AList.update ''exp'' (JNum (of_int (jwt_exp t))) (AList.update ''iat'' (JNum (of_int (jwt_iat t))) (jwt_claims t))"

definition jose_reads :: "'k jose \<Rightarrow> string \<Rightarrow> jwt \<Rightarrow> json \<Rightarrow> bool" where
  "jose_reads j wire_form t jwk \<longleftrightarrow>
     (\<exists>h. jo_header j wire_form = Some h \<and> jm_get h ''kid'' = Some (JStr (jwt_kid t)) \<and>
          jm_get h ''typ'' = Some (JStr (jwt_typ t))) \<and>
     (\<exists>key. jo_import j jwk (member jwk ''alg'') = Some key \<and>
        (\<forall>issuer now. jo_verify j wire_form key issuer (member jwk ''alg'') now =
           (if jm_get (jwt_claims t) ''iss'' \<noteq> Some (JStr issuer) then Jose_claim ''iss''
            else if jwt_exp t \<le> epoch_s now then Jose_expired
            else Jose_payload (signed_claims t))))"

text \<open>Every stored key carries its identifier, as \<^verbatim>\<open>generateSigningKey\<close> sets it.\<close>

definition keys_labelled :: "'a db_scheme \<Rightarrow> bool" where
  "keys_labelled s \<longleftrightarrow>
     list_all (\<lambda>k. member (sk_publicJwk k) ''kid'' = Some (JStr (sk_kid k))) (signingKeys s)"

lemma find_kid_map:
  assumes "list_all (\<lambda>k. member (sk_publicJwk k) ''kid'' = Some (JStr (sk_kid k))) ks"
    and "distinct (map sk_kid ks)" and "k \<in> set ks"
  shows "find_kid (JStr (sk_kid k)) (map sk_publicJwk ks) = Inr (Some (sk_publicJwk k))"
  using assms by (induction ks) (auto split: option.splits)

lemma find_kid_published:
  assumes "signing_keys_ok s" and "keys_labelled s" and "k \<in> set (signingKeys s)" and "active k"
  shows "find_kid (JStr (sk_kid k)) (getJwks t s) = Inr (Some (sk_publicJwk k))"
proof -
  have "k \<in> set (filter (published t) (signingKeys s))"
    using assms(3,4) by (simp add: published_def active_def)
  moreover have "distinct (map sk_kid (filter (published t) (signingKeys s)))"
    using assms(1) by (auto simp: signing_keys_ok_def distinct_map intro: inj_on_subset)
  moreover have "list_all (\<lambda>k. member (sk_publicJwk k) ''kid'' = Some (JStr (sk_kid k)))
                   (filter (published t) (signingKeys s))"
    using assms(2) by (auto simp: keys_labelled_def list_all_iff)
  ultimately show ?thesis unfolding getJwks_def by (intro find_kid_map)
qed

lemma released_claims_survive:
  assumes "loadReleasedClaims len cm s u names = Inr released"
    and "jwt_claims t = token_payload e p jti scopes released"
  shows "extraClaims (signed_claims t) = released"
proof -
  have "fst ` set released \<inter> set RESERVED_CLAIMS = {}"
    using loadReleasedClaims_names [OF assms(1)] by blast
  then have r: "n \<in> set RESERVED_CLAIMS \<Longrightarrow> n \<notin> fst ` set released" for n by blast
  have f: "filter (\<lambda>(n, _). \<not> (n \<in> set PROTOCOL_CLAIMS \<or> n \<in> set UNSAFE_KEYS)) released = released"
  proof (intro filter_True)
    have "set PROTOCOL_CLAIMS \<union> set UNSAFE_KEYS \<subseteq> set RESERVED_CLAIMS"
      unfolding PROTOCOL_CLAIMS_def UNSAFE_KEYS_def RESERVED_CLAIMS_def by simp
    with r show "\<forall>(n, _) \<in> set released. \<not> (n \<in> set PROTOCOL_CLAIMS \<or> n \<in> set UNSAFE_KEYS)" by force
  qed
  have nin: "''iss'' \<notin> fst ` set released" "''sub'' \<notin> fst ` set released" "''aud'' \<notin> fst ` set released"
    "''client_id'' \<notin> fst ` set released" "''scope'' \<notin> fst ` set released" "''jti'' \<notin> fst ` set released"
    "''iat'' \<notin> fst ` set released" "''exp'' \<notin> fst ` set released"
    by (rule r; simp add: RESERVED_CLAIMS_def)+
  have "signed_claims t = released @
      [(''iss'', JStr (e_issuerUrl e)), (''sub'', JStr (mp_userId p)), (''aud'', JStr (mp_resource p)),
       (''client_id'', JStr (mp_clientId p)), (''scope'', JStr (join '' '' scopes)), (''jti'', JStr jti),
       (''iat'', JNum (of_int (jwt_iat t))), (''exp'', JNum (of_int (jwt_exp t)))]"
    using nin by (simp add: signed_claims_def assms(2) token_payload_def update_fresh)
  then show ?thesis using f by (simp add: extraClaims_def PROTOCOL_CLAIMS_def)
qed

text \<open>C30: A token the proxy mints is accepted by the resource server it is for, as soon as that server has fetched the
  published key set and until the token expires: the principal has the user, the client, the scopes
  the token was minted with and exactly the released claims.  Any other audience refuses
  it, and after the expiry every server does.  The clocks may differ by up to a minute.\<close>

theorem minted_token_verifies:
  assumes "mintAccessToken e now rnd p s = (s', Inr m)"
    and "lookupResourceServer s (mp_resource p) = Some rs"
    and "loadReleasedClaims (e_json_len e) (e_claimMap e) s (mp_userId p) (mp_releaseClaims p) = Inr released"
    and "signing_keys_ok s" and "keys_labelled s'"
    and "\<forall>n \<in> set (declared_names rs). n \<noteq> [] \<and> CHR '' '' \<notin> set n"
    and "mp_userId p \<noteq> []" and "jwt_kid (mi_token m) \<noteq> []"
    and "\<forall>k \<in> set (signingKeys s'). sk_kid k = jwt_kid (mi_token m) \<longrightarrow>
           jose_reads j wire_form (mi_token m) (sk_publicJwk k)"
    and "jc_cache c = Some ks" and "ks_keys ks = getJwks published_at s'"
    and "asked < ks_expiresAt ks" and "now \<le> later + 60000" and "vc_issuer cfg = e_issuerUrl e"
  shows "verify cfg j pf net asked later wire_form c =
     (c, if jwt_exp (mi_token m) \<le> epoch_s later then Inl Expired
         else if vc_audience cfg \<noteq> mp_resource p then Inl Invalid_audience
         else Inr \<lparr>pr_subject = mp_userId p, pr_clientId = mp_clientId p,
                   pr_scopes = mintable_scopes rs (mp_scopes p),
                   pr_expiresAt = of_int (jwt_exp (mi_token m)) * 1000, pr_claims = released\<rparr>)"
proof -
  let ?t = "mi_token m" and ?scopes = "mintable_scopes rs (mp_scopes p)"
  from assms(1) obtain k where k: "getSigningKeyForSigning now (r_keys rnd) s = (s', Some k)"
    "m = \<lparr>mi_token = \<lparr>jwt_kid = sk_kid k, jwt_typ = ''at+jwt'',
            jwt_claims = token_payload e p (r_jti rnd) ?scopes released, jwt_iat = epoch_s now,
            jwt_exp = epoch_s now + token_ttl rs ?scopes\<rparr>, mi_expiresIn = token_ttl rs ?scopes\<rparr>"
    using assms(2,3) by (elim mint_InrD) simp
  note ka = getSigningKey_active [OF k(1)]
  have found: "find_kid (JStr (jwt_kid ?t)) (getJwks published_at s') = Inr (Some (sk_publicJwk k))"
    using find_kid_published [OF getSigningKey_ok [OF k(1) assms(4)] assms(5) ka] k(2) by simp
  have reads: "jose_reads j wire_form ?t (sk_publicJwk k)" using assms(9) ka(1) k(2) by simp
  then obtain h key where h: "jo_header j wire_form = Some h" "jm_get h ''kid'' = Some (JStr (jwt_kid ?t))"
    "jm_get h ''typ'' = Some (JStr ''at+jwt'')" "jo_import j (sk_publicJwk k) (member (sk_publicJwk k) ''alg'') = Some key"
    "\<And>now. jo_verify j wire_form key (e_issuerUrl e) (member (sk_publicJwk k) ''alg'') now =
       (if jwt_exp ?t \<le> epoch_s now then Jose_expired else Jose_payload (signed_claims ?t))"
    using k(2) by (auto simp: jose_reads_def token_payload_get)
  have key: "getKey pf net asked later (JStr (jwt_kid ?t)) c = (c, Inr (Some (sk_publicJwk k)))"
    using assms(10-12) found
    by (simp add: getKey_def getKey_start_def cached_key_def cache_fresh_def)
  have jwt_typed: "is_access_token_typ (JStr ''at+jwt'')" by code_simp
  have iat: "check_iat later (signed_claims ?t) = None"
  proof -
    have "epoch_s now * 1000 \<le> now" by (simp add: epoch_s_def)
    with assms(13) have "epoch_s now * 1000 \<le> later + 60000" by simp
    then have "rat_of_int (epoch_s now * 1000) \<le> rat_of_int (later + 60000)" by (simp only: of_int_le_iff)
    then have "rat_of_int (epoch_s now) \<le> rat_of_int later / 1000 + 60" by simp
    then show ?thesis using k(2) by (simp add: check_iat_def signed_claims_def MAX_IAT_SKEW_S_def)
  qed
  have extra: "extraClaims (signed_claims ?t) = released"
    using released_claims_survive [OF assms(3), of ?t] k(2) by simp
  have scopes: "split_scopes (scope_claim (signed_claims ?t)) = ?scopes"
    using split_scopes_join [of ?scopes] assms(6) k(2)
    by (simp add: scope_claim_def signed_claims_def token_payload_get mintable_scopes_def)
  have payload: "check_access_claims cfg later (signed_claims ?t) =
     (if vc_audience cfg \<noteq> mp_resource p then Inl Invalid_audience
      else Inr \<lparr>pr_subject = mp_userId p, pr_clientId = mp_clientId p, pr_scopes = ?scopes,
                pr_expiresAt = of_int (jwt_exp ?t) * 1000, pr_claims = released\<rparr>)"
    using k(2) iat extra scopes assms(7)
    by (simp add: check_access_claims_def signed_claims_def token_payload_get)
  have "token_header j wire_form = Inr (JStr (jwt_kid ?t), Some (JStr ''at+jwt''))"
    using h(1-3) assms(8) by (simp add: token_header_def)
  then show ?thesis
    using key jwt_typed h(4,5) payload assms(14)
    by (simp add: verify_def check_token_def jose_problem_def)
qed

section \<open>A concrete server\<close>

definition vf_jwk :: json where
  "vf_jwk = JObj [(''kid'', JStr ''k1''), (''alg'', JStr ''ES256'')]"

definition vf_state :: upstream_state where
  "vf_state = sample_state\<lparr>signingKeys := [sample_key\<lparr>sk_publicJwk := vf_jwk\<rparr>]\<rparr>"

definition vf_params :: mint_params where
  "vf_params = \<lparr>mp_userId = ''u1'', mp_clientId = ''https://a.example/c'', mp_resource = ''https://rs'',
                mp_scopes = [''read'', ''gone''], mp_releaseClaims = [''email'']\<rparr>"

definition vf_claims :: "(string, json) jsmap" where
  "vf_claims = token_payload sample_env vf_params ''j1'' [''read''] [(''email'', JStr ''m'')]"

definition vf_token :: jwt where
  "vf_token = \<lparr>jwt_kid = ''k1'', jwt_typ = ''at+jwt'', jwt_claims = vf_claims, jwt_iat = 1, jwt_exp = 901\<rparr>"

text \<open>A jose that knows one token.\<close>

definition vf_jose :: "unit jose" where
  "vf_jose =
     \<lparr>jo_header = (\<lambda>x. if x = ''tok'' then Some [(''kid'', JStr ''k1''), (''typ'', JStr ''at+jwt'')] else None),
      jo_import = (\<lambda>_ _. Some ()),
      jo_verify = (\<lambda>x _ issuer _ now.
        if x \<noteq> ''tok'' then Jose_failed
        else if jm_get vf_claims ''iss'' \<noteq> Some (JStr issuer) then Jose_claim ''iss''
        else if 901 \<le> epoch_s now then Jose_expired else Jose_payload (signed_claims vf_token))\<rparr>"

definition vf_keys_url :: string where "vf_keys_url = ''https://as.example/jwks''"

definition vf_config :: verifier_config where
  "vf_config = \<lparr>vc_issuer = ''https://as.example'', vc_audience = ''https://rs'', vc_jwksUri = Some vf_keys_url,
                vc_maxStaleMs = None\<rparr>"

definition vf_platform :: platform where
  "vf_platform =
     \<lparr>pf_parse_url = (\<lambda>x. if x = vf_keys_url then Some (sample_url ''https:'' ''as.example'' ''/jwks'') else None),
      pf_parse_json = (\<lambda>x. if x = ''doc'' then Some (JObj [(''keys'', JArr [vf_jwk])]) else None)\<rparr>"

definition vf_answers :: answers where
  "vf_answers _ =
     Wire \<lparr>wr_status = 200, wr_headers = [(''cache-control'', ''max-age=3600'')], wr_contentLength = None,
           wr_chunks = [''do'', ''c''], wr_broken = False\<rparr>"

definition vf_cache :: jwks_cache where
  "vf_cache = (createVerifier vf_config)
     \<lparr>jc_cache := Some \<lparr>ks_keys = getJwks 2000 vf_state, ks_fetchedAt = 2000, ks_expiresAt = 3602000\<rparr>\<rparr>"

definition vf_principal :: principal where
  "vf_principal = \<lparr>pr_subject = ''u1'', pr_clientId = ''https://a.example/c'', pr_scopes = [''read''],
                   pr_expiresAt = 901000, pr_claims = [(''email'', JStr ''m'')]\<rparr>"

lemma vf_signed: "signed_claims vf_token =
    [(''email'', JStr ''m''), (''iss'', JStr ''https://as.example''), (''sub'', JStr ''u1''),
     (''aud'', JStr ''https://rs''), (''client_id'', JStr ''https://a.example/c''), (''scope'', JStr ''read''),
     (''jti'', JStr ''j1''), (''iat'', JNum 1), (''exp'', JNum 901)]"
  by (simp add: signed_claims_def vf_token_def vf_claims_def token_payload_def sample_env_def vf_params_def)

lemma vf_fetch: "fetchKeys vf_platform vf_answers (c\<lparr>jc_uri := Some vf_keys_url\<rparr>) =
    (Some vf_keys_url, Inr ([vf_jwk], parseMaxAgeMs (Some ''max-age=3600'')))"
  by (simp add: fetchKeys_def resolveJwksUri_def Let_def assertSecureUrl_def vf_platform_def sample_url_def
      fetchJson_def vf_answers_def MAX_KEY_SET_BYTES_def vf_keys_url_def)

lemma vf_start: "start_run ''https://as.example'' (Some vf_keys_url) None =
    \<lparr>jr_cache = (new_cache ''https://as.example'' None None)\<lparr>jc_uri := Some vf_keys_url\<rparr>, jr_waiting = [], jr_ready = []\<rparr>"
  by (simp add: start_run_def new_cache_def)

lemma vf_run:
  "snd (jwks_runs vf_platform [Ask 0 (JStr ''k1'') 1000, Settle vf_answers 2000, Resume 0 2000]
          (start_run ''https://as.example'' (Some vf_keys_url) None)) =
     [Started 1000, Fetched [vf_jwk] 2000] @ Answered (JStr ''k1'') 2000 True (Inr (Some vf_jwk)) # []"
  using vf_fetch [of "(new_cache ''https://as.example'' None None)
      \<lparr>jc_nextAttemptAt := 2000, jc_inflight := Some 1000\<rparr>"]
  by (simp add: vf_start getKey_start_def cached_key_def cache_fresh_def new_cache_def refresh_settled_def
      getKey_resume_def MIN_REFRESH_INTERVAL_MS_def vf_jwk_def)

lemma vf_typ: "is_access_token_typ (JStr ''at+jwt'')" by code_simp

lemma vf_scopes: "split_scopes ''read'' = [''read'']" by code_simp

lemma vf_iss: "jm_get vf_claims ''iss'' = Some (JStr ''https://as.example'')"
  by (simp add: vf_claims_def token_payload_get sample_env_def)

lemma vf_check: "check_token vf_config vf_jose 2000 ''tok'' (Some (JStr ''at+jwt'')) (Inr (Some vf_jwk)) =
    Inr vf_principal"
  using vf_typ
  by (simp add: check_token_def vf_jose_def vf_config_def vf_iss jose_problem_def epoch_s_def vf_signed
      check_access_claims_def check_iat_def MAX_IAT_SKEW_S_def vf_principal_def scope_claim_def vf_scopes
      extraClaims_def PROTOCOL_CLAIMS_def UNSAFE_KEYS_def)

lemma vf_header: "token_header vf_jose ''tok'' = Inr (JStr ''k1'', Some (JStr ''at+jwt''))"
  by (simp add: token_header_def vf_jose_def)

lemma accepted_token_sound_sample:
  "\<exists>keys fetched. store_after None [Started 1000, Fetched [vf_jwk] 2000] = Some (keys, fetched) \<and>
     vf_jwk \<in> set keys"
  using accepted_token_sound [of vf_platform "[Ask 0 (JStr ''k1'') 1000, Settle vf_answers 2000, Resume 0 2000]"
      vf_config "[Started 1000, Fetched [vf_jwk] 2000]" "JStr ''k1''" 2000 True
      "Inr (Some vf_jwk)" "[]" vf_jose "''tok''" "Some (JStr ''at+jwt'')" 2000 vf_principal,
      OF _ vf_header vf_check] vf_run
  by (auto simp: vf_config_def)

lemma vf_lookup: "lookupResourceServer vf_state ''https://rs'' = Some sample_server"
  by code_simp

lemma vf_released: "loadReleasedClaims (e_json_len sample_env) (e_claimMap sample_env) vf_state ''u1'' [''email''] =
    Inr [(''email'', JStr ''m'')]"
  by code_simp

lemma vf_mintable: "mintable_scopes sample_server [''read'', ''gone''] = [''read'']"
  by code_simp

lemma vf_ttl: "token_ttl sample_server [''read''] = 900"
  by code_simp

lemma vf_mint: "mintAccessToken sample_env 1000 sample_rand vf_params vf_state =
    (vf_state, Inr \<lparr>mi_token = vf_token, mi_expiresIn = 900\<rparr>)"
  using vf_lookup vf_released vf_mintable vf_ttl
  by (simp add: mintAccessToken_def vf_params_def signJwt_def getSigningKeyForSigning_def vf_state_def
      active_key_def active_def sample_key_def vf_token_def vf_claims_def sample_rand_def epoch_s_def)

lemma vf_reads: "jose_reads vf_jose ''tok'' vf_token vf_jwk"
  by (auto simp: jose_reads_def vf_jose_def vf_token_def)

lemma minted_token_verifies_sample:
  "snd (verify vf_config vf_jose vf_platform vf_answers 3000 3000 ''tok'' vf_cache) = Inr vf_principal"
proof -
  have "verify vf_config vf_jose vf_platform vf_answers 3000 3000 ''tok'' vf_cache =
     (vf_cache, if jwt_exp vf_token \<le> epoch_s 3000 then Inl Expired
         else if vc_audience vf_config \<noteq> mp_resource vf_params then Inl Invalid_audience
         else Inr \<lparr>pr_subject = mp_userId vf_params, pr_clientId = mp_clientId vf_params,
                   pr_scopes = mintable_scopes sample_server (mp_scopes vf_params),
                   pr_expiresAt = of_int (jwt_exp vf_token) * 1000, pr_claims = [(''email'', JStr ''m'')]\<rparr>)"
  proof (rule minted_token_verifies [OF vf_mint, simplified minted.simps])
    show "lookupResourceServer vf_state (mp_resource vf_params) = Some sample_server"
      by (simp add: vf_params_def vf_lookup)
    show "loadReleasedClaims (e_json_len sample_env) (e_claimMap sample_env) vf_state (mp_userId vf_params)
            (mp_releaseClaims vf_params) = Inr [(''email'', JStr ''m'')]"
      by (simp add: vf_params_def vf_released)
    show "signing_keys_ok vf_state" "keys_labelled vf_state"
      by (simp_all add: signing_keys_ok_def keys_labelled_def vf_state_def sample_key_def active_def vf_jwk_def)
    show "\<forall>n \<in> set (declared_names sample_server). n \<noteq> [] \<and> CHR '' '' \<notin> set n"
      by (simp add: declared_names_def sample_server_def)
    show "mp_userId vf_params \<noteq> []" by (simp add: vf_params_def)
    show "jwt_kid vf_token \<noteq> []" by (simp add: vf_token_def)
    show "\<forall>k \<in> set (signingKeys vf_state). sk_kid k = jwt_kid vf_token \<longrightarrow>
            jose_reads vf_jose ''tok'' vf_token (sk_publicJwk k)"
      using vf_reads by (simp add: vf_state_def)
    show "jc_cache vf_cache = Some \<lparr>ks_keys = getJwks 2000 vf_state, ks_fetchedAt = 2000, ks_expiresAt = 3602000\<rparr>"
      by (simp add: vf_cache_def)
  qed (simp_all add: vf_config_def sample_env_def)
  then show ?thesis
    by (simp add: vf_token_def epoch_s_def vf_config_def vf_params_def vf_mintable vf_principal_def)
qed

end
