(* ===== verification/ProtectedProps.thy ===== *)
theory ProtectedProps
  imports Protected VerifyProps
begin

text \<open>
  Properties of the Express layer of a resource server: who gets through a protected route, and that
  the proxy accepts the metadata document the server publishes, at the address it publishes it.
\<close>

section \<open>A protected route\<close>

text \<open>The bearer middleware followed by the scope guard.\<close>

fun route :: "(principal option \<Rightarrow> middleware option) \<Rightarrow> middleware \<Rightarrow> middleware option" where
  "route guard (Answer a) = Some (Answer a)"
| "route guard (Next pr) = guard pr"

lemma createBearer_SomeD:
  assumes "createBearerAuthMiddleware cfg j pf = Some mw"
  obtains challenge where "bearerChallenge (pf_parse_url pf) (vc_audience cfg) = Some challenge"
    "\<And>net now fin auth s. mw net now fin auth s = bearer_auth cfg j pf net now fin challenge auth s"
  using assms by (auto simp: createBearerAuthMiddleware_def)

lemma requireScopes_SomeD:
  assumes "requireScopes parse cfg scopes = Some guard"
  obtains challenge where "bearerChallenge parse (vc_audience cfg) = Some challenge"
    "list_all is_scope_token scopes" "guard = scope_guard challenge scopes"
  using assms by (auto simp: requireScopes_def split: if_splits)

text \<open>C34: On a route behind the bearer middleware and the scope guard, the handler is reached exactly for a
  bearer token that verifies and whose principal has every required scope.  Without a bearer token and for a bad one the answer is
  401, for a missing scope 403, and only when the keys could not be fetched 503; the answers 401 and 403 start with
  the server's challenge and 503 has none.\<close>

theorem protected_route:
  assumes "createBearerAuthMiddleware cfg j pf = Some mw"
    and "requireScopes (pf_parse_url pf) cfg scopes = Some guard"
    and "mw net now fin authorization s = (s', r)" and "route guard r = Some out"
  shows "\<exists>challenge. bearerChallenge (pf_parse_url pf) (vc_audience cfg) = Some challenge \<and>
     (case bearer_token authorization of
        None \<Rightarrow> s' = s \<and> (\<exists>a. out = Answer a \<and> re_status a = 401 \<and> re_headers a = [(''WWW-Authenticate'', challenge)])
      | Some token \<Rightarrow> s' = fst (verify cfg j pf net now fin token s) \<and>
          (case snd (verify cfg j pf net now fin token s) of
             Inr p \<Rightarrow>
               if set scopes \<subseteq> set (pr_scopes p) then out = Next (Some p)
               else (\<exists>a rest. out = Answer a \<and> re_status a = 403 \<and>
                              re_headers a = [(''WWW-Authenticate'', challenge @ rest)])
           | Inl er \<Rightarrow>
               if er = Jwks_unavailable
               then (\<exists>a. out = Answer a \<and> re_status a = 503 \<and> re_headers a = [(''Retry-After'', ''30'')])
               else (\<exists>a rest. out = Answer a \<and> re_status a = 401 \<and>
                              re_headers a = [(''WWW-Authenticate'', challenge @ rest)])))"
proof -
  from assms(1) obtain challenge where c: "bearerChallenge (pf_parse_url pf) (vc_audience cfg) = Some challenge"
    "\<And>net now fin auth s. mw net now fin auth s = bearer_auth cfg j pf net now fin challenge auth s"
    by (rule createBearer_SomeD) blast
  from assms(2) c(1) have g: "guard = scope_guard challenge scopes" "list_all is_scope_token scopes"
    by (auto elim: requireScopes_SomeD)
  have run: "bearer_auth cfg j pf net now fin challenge authorization s = (s', r)"
    using assms(3) c(2) by simp
  show ?thesis
  proof (cases "bearer_token authorization")
    case None
    with run assms(4) c(1) show ?thesis by (auto simp: bearer_auth_def unauthorized_def)
  next
    case (Some token)
    obtain s1 v where v: "verify cfg j pf net now fin token s = (s1, v)" by fastforce
    with Some run have r: "s' = s1" "r = verified_reply challenge v" by (auto simp: bearer_auth_def)
    show ?thesis
    proof (cases v)
      case (Inl er)
      with Some v r assms(4) c(1) show ?thesis by (cases er) (auto simp: verified_reply_def)
    next
      case (Inr p)
      with Some v r assms(4) c(1) g show ?thesis
        by (auto simp: verified_reply_def scope_guard_def sendInsufficientScope_def list_ex_iff split: if_splits)
    qed
  qed
qed

section \<open>The published metadata\<close>

definition declared_of :: "resource_scope \<Rightarrow> declared_scope" where
  "declared_of sc =
     \<lparr>d_name = sc_name sc, d_description = sc_description sc, d_stepUp = sc_stepUp sc \<or> sc_freshSignIn sc,
      d_shortLived = sc_shortLived sc \<or> sc_stepUp sc \<or> sc_freshSignIn sc, d_freshSignIn = sc_freshSignIn sc\<rparr>"

text \<open>What the proxy makes of the options.\<close>

definition intended_scopes :: "metadata_options \<Rightarrow> declared_scope list" where
  "intended_scopes opts =
     (case mo_scopes opts of
        Some scs \<Rightarrow> map declared_of scs
      | None \<Rightarrow> map plain_scope (filter (\<lambda>n. n \<noteq> ''offline_access'')
                  (case mo_scopesSupported opts of None \<Rightarrow> [] | Some l \<Rightarrow> l)))"

definition advertised_list :: "metadata_options \<Rightarrow> string list" where
  "advertised_list opts = (case advertised opts of None \<Rightarrow> [] | Some l \<Rightarrow> l)"

lemma supported_loop_accepts:
  assumes "list_all is_scope_token names" and "''openid'' \<notin> set names" and "distinct names"
    and "set names \<inter> set seen = {}" and "off \<longrightarrow> ''offline_access'' \<notin> set names"
  shows "supported_loop seen off (map JStr names) = Inr (seen @ filter (\<lambda>n. n \<noteq> ''offline_access'') names)"
  using assms
proof (induction names arbitrary: seen off)
  case (Cons n ns)
  then show ?case
    by (cases "n = ''offline_access''") (auto simp: declaredScopeName_def scopeToken_def RESERVED_SCOPES_def)
qed simp

lemma trim_Nil: "trim [] = []" by (simp add: trim_def)

lemma declared_entry_accepts:
  assumes "trim d \<noteq> []" and "length d \<le> MAX_DESCRIPTION" and "\<not> list_ex unsafe_display_char d"
    and "sc_description sc = d" and "sc_name sc = n"
  shows "declared_entry (scope_entry sc) n = Inr (declared_of sc)"
proof -
  have "d \<noteq> []" using assms(1) trim_Nil by auto
  with assms show ?thesis
    by (auto simp: declared_entry_def scope_entry_def flag_members_def declared_flags_def optionalFlag_def
        displayText_def declared_of_def MAX_DESCRIPTION_def DESCRIPTION_MAX_LENGTH_def)
qed

lemma declared_loop_accepts:
  assumes "declared_problem seen scs = None" and "list_all is_scope_token (map sc_name scs)"
    and "d_name ` set acc \<subseteq> set seen"
  shows "declared_loop acc (map scope_entry scs) = Inr (acc @ map declared_of scs)"
  using assms
proof (induction seen scs arbitrary: acc rule: declared_problem.induct)
  case (2 seen sc scs)
  let ?n = "sc_name sc" and ?d = "sc_description sc"
  from 2(2) have ok: "?n \<notin> set RESERVED_SCOPES" "?n \<notin> set seen" "trim ?d \<noteq> []" "length ?d \<le> MAX_DESCRIPTION"
    "\<not> list_ex unsafe_display_char ?d" "declared_problem (?n # seen) scs = None"
    by (auto simp: Let_def split: if_splits)
  have name: "declaredScopeName (member (scope_entry sc) ''name'') = Inr ?n"
    using 2(3) ok(1) by (simp add: declaredScopeName_def scopeToken_def scope_entry_def)
  have entry: "declared_entry (scope_entry sc) ?n = Inr (declared_of sc)"
    using ok by (intro declared_entry_accepts) auto
  have "?n \<notin> d_name ` set acc" using ok(2) 2(4) by blast
  moreover have "d_name ` set (acc @ [declared_of sc]) \<subseteq> set (?n # seen)"
    using 2(4) by (auto simp: declared_of_def)
  then have "declared_loop (acc @ [declared_of sc]) (map scope_entry scs) =
      Inr ((acc @ [declared_of sc]) @ map declared_of scs)"
    using 2(1) [of ?n ?d "acc @ [declared_of sc]"] ok 2(3) by simp
  moreover have "is_object (scope_entry sc)" by (simp add: is_object_def scope_entry_def)
  ultimately show ?case using name entry by simp
qed simp

lemma declared_problem_distinct:
  "declared_problem seen scs = None \<Longrightarrow>
     distinct (map sc_name scs) \<and> set (map sc_name scs) \<inter> (set seen \<union> set RESERVED_SCOPES) = {}"
  by (induction seen scs rule: declared_problem.induct) (auto simp: Let_def split: if_splits)

text \<open>The members of the document.\<close>

lemma document_members:
  "member (metadata_document cfg opts) ''resource'' = Some (JStr (vc_audience cfg))"
  "member (metadata_document cfg opts) ''resource_name'' = map_option JStr (mo_resourceName opts)"
  "member (metadata_document cfg opts) ''authorization_servers'' = Some (JArr [JStr (vc_issuer cfg)])"
  "member (metadata_document cfg opts) ''scopes_supported'' = map_option (\<lambda>l. JArr (map JStr l)) (advertised opts)"
  "member (metadata_document cfg opts) ''asterism_scopes'' = map_option (\<lambda>l. JArr (map scope_entry l)) (mo_scopes opts)"
  by (simp_all add: metadata_document_def map_of_append split: option.splits)

lemma name_accepted:
  "name_problem n = None \<Longrightarrow> parse_resource_name (map_option JStr n) = Inr n"
  by (auto simp: name_problem_def parse_resource_name_def displayText_def MAX_RESOURCE_NAME_def
      RESOURCE_NAME_MAX_LENGTH_def split: option.splits if_splits)

lemma options_cases:
  assumes "options_problem opts = None"
  obtains (declared) scs where "mo_scopes opts = Some scs" "mo_scopesSupported opts = None"
      "scopes_problem scs = None" "name_problem (mo_resourceName opts) = None"
  | (supported) names where "mo_scopes opts = None" "mo_scopesSupported opts = Some names"
      "supported_problem names = None" "name_problem (mo_resourceName opts) = None"
  | (neither) "mo_scopes opts = None" "mo_scopesSupported opts = None"
      "name_problem (mo_resourceName opts) = None"
  using assms
  by (cases "mo_scopes opts"; cases "mo_scopesSupported opts")
    (auto simp: options_problem_def split: option.splits)

lemma is_scope_token_offline: "is_scope_token ''offline_access''"
  by code_simp

text \<open>The advertised names pass the proxy's loop.\<close>

lemma listed_accepted:
  assumes "options_problem opts = None" and "listed opts = Some l"
  shows "list_all is_scope_token l" "''openid'' \<notin> set l" "distinct l"
proof -
  from assms(1) have "list_all is_scope_token l \<and> ''openid'' \<notin> set l \<and> distinct l"
  proof (cases rule: options_cases)
    case (declared scs)
    then have d: "declared_problem [] scs = None" "list_all is_scope_token (map sc_name scs)"
      by (auto simp: scopes_problem_def split: if_splits)
    from declared_problem_distinct [OF d(1)] d(2) declared assms(2) show ?thesis
      by (auto simp: listed_def list_all_iff RESERVED_SCOPES_def distinct_map intro: inj_on_subset)
  next
    case (supported names)
    with assms(2) show ?thesis by (auto simp: listed_def supported_problem_def split: if_splits)
  next
    case neither
    with assms(2) show ?thesis by (simp add: listed_def)
  qed
  then show "list_all is_scope_token l" "''openid'' \<notin> set l" "distinct l" by auto
qed

lemma advertised_accepted:
  assumes "options_problem opts = None"
  shows "parseScopesSupported (map_option (\<lambda>l. JArr (map JStr l)) (advertised opts)) =
     (if MAX_SCOPES < length (advertised_list opts) then Inl Too_many_scopes
      else Inr (filter (\<lambda>n. n \<noteq> ''offline_access'') (advertised_list opts)))"
proof (cases "advertised opts")
  case None
  then show ?thesis by (simp add: parseScopesSupported_def advertised_list_def)
next
  case (Some a)
  have "list_all is_scope_token a \<and> ''openid'' \<notin> set a \<and> distinct a"
  proof (cases "listed opts")
    case None
    with Some show ?thesis by (auto simp: advertised_def is_scope_token_offline split: if_splits)
  next
    case (Some l)
    from listed_accepted [OF assms Some] \<open>advertised opts = Some a\<close> Some show ?thesis
      by (auto simp: advertised_def is_scope_token_offline list_all_iff split: if_splits)
  qed
  with Some supported_loop_accepts [of a "[]" False] show ?thesis
    by (simp add: parseScopesSupported_def advertised_list_def)
qed

lemma scopes_accepted:
  assumes "options_problem opts = None"
  shows "resolve_scopes (map_option (\<lambda>l. JArr (map scope_entry l)) (mo_scopes opts))
           (filter (\<lambda>n. n \<noteq> ''offline_access'') (advertised_list opts)) = Inr (intended_scopes opts)"
  using assms
proof (cases rule: options_cases)
  case (declared scs)
  then have d: "declared_problem [] scs = None" "list_all is_scope_token (map sc_name scs)"
    "length scs \<le> MAX_SCOPES"
    by (auto simp: scopes_problem_def VERIFY_MAX_SCOPES_def MAX_SCOPES_def split: if_splits)
  let ?sup = "filter (\<lambda>n. n \<noteq> ''offline_access'') (advertised_list opts)"
  have parse: "parseDeclaredScopes (JArr (map scope_entry scs)) = Inr (map declared_of scs)"
    using declared_loop_accepts [OF d(1,2), of "[]"] d(3) by (simp add: parseDeclaredScopes_def)
  have sup: "set ?sup \<subseteq> sc_name ` {sc \<in> set scs. \<not> sc_stepUp sc \<and> \<not> sc_freshSignIn sc}"
    using declared by (auto simp: advertised_list_def advertised_def listed_def)
  then have known: "List.find (\<lambda>n. n \<notin> d_name ` set (map declared_of scs)) ?sup = None"
    by (auto simp: find_None_iff declared_of_def image_iff)
  have inj: "inj_on sc_name (set scs)"
    using declared_problem_distinct [OF d(1)] by (simp add: distinct_map)
  have "List.find (\<lambda>sc. d_stepUp sc \<and> d_name sc \<in> set ?sup) (map declared_of scs) = None"
    using sup inj unfolding find_None_iff by (fastforce simp: declared_of_def dest: inj_onD)
  with parse known declared show ?thesis by (simp add: resolve_scopes_def intended_scopes_def)
next
  case (supported names)
  then show ?thesis
    by (auto simp: resolve_scopes_def intended_scopes_def advertised_list_def advertised_def listed_def)
next
  case neither
  then show ?thesis
    by (auto simp: resolve_scopes_def intended_scopes_def advertised_list_def advertised_def listed_def)
qed

text \<open>What the proxy gets when it asks for an address: the document, whole, as an Express server sends JSON.\<close>

definition publishes :: "net \<Rightarrow> string \<Rightarrow> json \<Rightarrow> wire_response \<Rightarrow> bool" where
  "publishes n a doc w \<longleftrightarrow>
     wr_status w = 200 \<and> jm_get (wr_headers w) ''content-type'' = Some ''application/json; charset=utf-8'' \<and>
     (case wr_contentLength w of None \<Rightarrow> True | Some l \<Rightarrow> l = length (concat (wr_chunks w))) \<and> \<not> wr_broken w \<and>
     net_parse_json n (concat (wr_chunks w)) = Some doc \<and>
     (case net_parse_url n a of None \<Rightarrow> True | Some u \<Rightarrow> \<forall>ip. net_http n 0 u ip = Wire w)"

lemma read_chunks_cap:
  "read_chunks m acc cs =
     (if cs \<noteq> [] \<and> m < length acc + length (concat cs) then None else Some (acc @ concat cs))"
  by (induction m acc cs rule: read_chunks.induct) auto

lemma performRequest_published:
  assumes "publishes n a doc w"
  shows "performRequest cap (Wire w) =
    (if cap < length (concat (wr_chunks w)) then Inl Response_too_large
     else Inr (200, wr_headers w, concat (wr_chunks w)))"
  using assms by (auto simp: publishes_def performRequest_def read_chunks_cap split: option.splits)

lemma finish_published:
  assumes "publishes n a doc w"
  shows "finish_response n 200 (wr_headers w) (concat (wr_chunks w)) = Inr (wr_headers w, doc)"
proof -
  have "is_json_content_type ''application/json; charset=utf-8''" by code_simp
  then show ?thesis using assms by (simp add: publishes_def finish_response_def)
qed

lemma validate_hop_url:
  "validate_hop n opts now hop a f = (f', Inr (u, ip)) \<Longrightarrow> net_parse_url n a = Some u"
  by (auto simp: validate_hop_def parseAndValidateScheme_def split: sum.splits prod.splits option.splits if_splits bool.splits)

text \<open>The fetch of a published document, with everything that can stop it.\<close>

lemma fetch_published:
  assumes "publishes n a doc w"
  shows "snd (safeFetchJson n opts now a f) =
    (case fetch_enter (fo_pool opts) f of
       None \<Rightarrow> Inl Busy
     | Some f1 \<Rightarrow>
         (case snd (validate_hop n opts now 0 a f1) of
            Inl r \<Rightarrow> Inl r
          | Inr _ \<Rightarrow>
              if fo_maxBytes opts < length (concat (wr_chunks w)) then Inl Response_too_large
              else Inr (wr_headers w, doc)))"
proof (cases "fetch_enter (fo_pool opts) f")
  case None
  then show ?thesis by (simp add: safeFetchJson_def)
next
  case (Some f1)
  obtain f2 r where hop: "validate_hop n opts now 0 a f1 = (f2, r)" by fastforce
  show ?thesis
  proof (cases r)
    case (Inl x)
    then show ?thesis by (simp add: safeFetchJson_def Some hop fetch_loop.simps)
  next
    case (Inr ua)
    obtain u ip where ua: "ua = (u, ip)" by fastforce
    have "net_parse_url n a = Some u" by (rule validate_hop_url) (use hop Inr ua in simp)
    then have "net_http n 0 u ip = Wire w" using assms by (simp add: publishes_def)
    then show ?thesis
      by (simp add: safeFetchJson_def Some hop Inr ua fetch_loop.simps Let_def performRequest_published [OF assms]
          finish_published [OF assms] redirect_location_def split: prod.splits)
  qed
qed

lemma same_metadata_address:
  "protectedResourceMetadataUrl parse audience = Inr a \<Longrightarrow> metadata_address parse audience = Some a"
proof -
  have "strip_slashes ''/'' = []" by (simp add: strip_slashes_def)
  then show "protectedResourceMetadataUrl parse audience = Inr a \<Longrightarrow> metadata_address parse audience = Some a"
    by (auto simp: protectedResourceMetadataUrl_def parseIdentifier_def metadata_address_def
        protectedResourceMetadataPath_def split: option.splits sum.splits if_splits)
qed

lemma fetchResourceMetadata_published:
  assumes "e_issuerUrl e = issuer \<and> metadata_address (new_URL e) audience = Some a \<and> publishes (e_net e) a doc w"
  shows "map_sum id fst (snd (fetchResourceMetadata e now audience internal s)) =
        (case protectedResourceMetadataUrl (new_URL e) audience of
           Inl er \<Rightarrow> Inl er
         | Inr _ \<Rightarrow>
             (case fetch_enter Pool_resource_metadata (fetcher s) of
                None \<Rightarrow> Inl (Could_not_fetch Busy)
              | Some f \<Rightarrow>
                  (case snd (validate_hop (e_net e) (metadata_fetch_options internal) now 0 a f) of
                     Inl r \<Rightarrow> Inl (Could_not_fetch r)
                   | Inr _ \<Rightarrow>
                       if 64 * 1024 < length (concat (wr_chunks w)) then Inl (Could_not_fetch Response_too_large)
                       else validateResourceMetadata audience issuer doc)))"
proof (cases "protectedResourceMetadataUrl (new_URL e) audience")
  case (Inl er)
  then show ?thesis by (simp add: fetchResourceMetadata_def)
next
  case (Inr a')
  with assms same_metadata_address have a: "a' = a" by fastforce
  obtain f r where run: "safeFetchJson (e_net e) (metadata_fetch_options internal) now a (fetcher s) = (f, r)"
    by fastforce
  from assms have "publishes (e_net e) a doc w" by blast
  from fetch_published [OF this, of "metadata_fetch_options internal" now "fetcher s"] run
  show ?thesis using assms
    by (auto simp: fetchResourceMetadata_def Inr a metadata_fetch_options_def MAX_METADATA_BYTES_def
        split: option.splits sum.splits if_splits)
qed

text \<open>C35: The proxy reads back the metadata a resource server publishes, where it publishes it.  A document
  that \<open>buildProtectedResourceMetadata\<close> makes passes the proxy's validation with exactly the scopes, descriptions and
  flags of the options; the two exceptions are options that name no scope of the server, and options that advertise
  more than fifty names, which fifty scopes with \<open>offlineAccess\<close> do.  The address in the server's challenges is the
  one the proxy fetches from, and where the network answers there with the document, \<open>fetchResourceMetadata\<close> returns
  what the validation says of it; the exceptions are an identifier the proxy does not accept, a fetcher that is busy,
  an address its checks refuse (rate limit, name resolution, private network), and a text longer than 64 KiB.\<close>

theorem built_metadata_is_read:
  assumes "buildProtectedResourceMetadata cfg opts = Inr doc"
  shows "validateResourceMetadata (vc_audience cfg) (vc_issuer cfg) doc =
     (if MAX_SCOPES < length (advertised_list opts) then Inl Too_many_scopes
      else if intended_scopes opts = [] then Inl No_scopes
      else Inr \<lparr>rm_resource = vc_audience cfg, rm_resourceName = mo_resourceName opts,
                rm_scopes = intended_scopes opts,
                rm_scopesSupported = filter (\<lambda>n. n \<noteq> ''offline_access'') (advertised_list opts),
                rm_hasScopeDescriptions = (mo_scopes opts \<noteq> None)\<rparr>) \<and>
     (\<forall>a. protectedResourceMetadataUrl parse (vc_audience cfg) = Inr a \<longrightarrow>
          metadata_address parse (vc_audience cfg) = Some a) \<and>
     (\<forall>e now internal (s :: 'a client_state_scheme) a w.
        e_issuerUrl e = vc_issuer cfg \<and> metadata_address (new_URL e) (vc_audience cfg) = Some a \<and>
        publishes (e_net e) a doc w \<longrightarrow>
        map_sum id fst (snd (fetchResourceMetadata e now (vc_audience cfg) internal s)) =
        (case protectedResourceMetadataUrl (new_URL e) (vc_audience cfg) of
           Inl er \<Rightarrow> Inl er
         | Inr _ \<Rightarrow>
             (case fetch_enter Pool_resource_metadata (fetcher s) of
                None \<Rightarrow> Inl (Could_not_fetch Busy)
              | Some f \<Rightarrow>
                  (case snd (validate_hop (e_net e) (metadata_fetch_options internal) now 0 a f) of
                     Inl r \<Rightarrow> Inl (Could_not_fetch r)
                   | Inr _ \<Rightarrow>
                       if 64 * 1024 < length (concat (wr_chunks w)) then Inl (Could_not_fetch Response_too_large)
                       else validateResourceMetadata (vc_audience cfg) (vc_issuer cfg) doc))))"
proof -
  from assms have ok: "options_problem opts = None" and doc: "doc = metadata_document cfg opts"
    by (auto simp: buildProtectedResourceMetadata_def split: option.splits)
  from ok have name: "name_problem (mo_resourceName opts) = None"
    by (cases rule: options_cases)
  have "is_object doc" by (simp add: doc is_object_def metadata_document_def)
  then have "validateResourceMetadata (vc_audience cfg) (vc_issuer cfg) doc =
     (if MAX_SCOPES < length (advertised_list opts) then Inl Too_many_scopes
      else if intended_scopes opts = [] then Inl No_scopes
      else Inr \<lparr>rm_resource = vc_audience cfg, rm_resourceName = mo_resourceName opts,
                rm_scopes = intended_scopes opts,
                rm_scopesSupported = filter (\<lambda>n. n \<noteq> ''offline_access'') (advertised_list opts),
                rm_hasScopeDescriptions = (mo_scopes opts \<noteq> None)\<rparr>)"
    using advertised_accepted [OF ok] scopes_accepted [OF ok] name_accepted [OF name]
    by (simp add: validateResourceMetadata_def doc document_members servers_problem_def)
  moreover note same_metadata_address
  moreover note fetchResourceMetadata_published
  ultimately show ?thesis by blast
qed

section \<open>At concrete inputs\<close>

definition pr_options :: metadata_options where
  "pr_options =
     \<lparr>mo_resourceName = Some ''RS'',
      mo_scopes = Some [\<lparr>sc_name = ''read'', sc_description = ''r'', sc_stepUp = False, sc_shortLived = False,
                         sc_freshSignIn = False\<rparr>,
                        \<lparr>sc_name = ''admin'', sc_description = ''a'', sc_stepUp = False, sc_shortLived = False,
                         sc_freshSignIn = True\<rparr>],
      mo_scopesSupported = None, mo_offlineAccess = True\<rparr>"

definition pr_page :: wire_response where
  "pr_page =
     \<lparr>wr_status = 200, wr_headers = [(''content-type'', ''application/json; charset=utf-8'')],
      wr_contentLength = Some 1, wr_chunks = [''d''], wr_broken = False\<rparr>"

definition pr_env :: env where
  "pr_env = sample_env\<lparr>e_net := sample_net\<lparr>
     net_http := (\<lambda>_ _ _. Wire pr_page),
     net_parse_url := (\<lambda>x. if x = ''https://rs'' \<or> x = ''https://rs/.well-known/oauth-protected-resource''
                            then Some (sample_url ''https:'' ''rs'' ''/'') else None),
     net_parse_json := (\<lambda>t. if t = ''d'' then Some (metadata_document vf_config pr_options) else None)\<rparr>\<rparr>"

lemma pr_env_facts:
  "e_issuerUrl pr_env = vc_issuer vf_config"
  "protectedResourceMetadataUrl (new_URL pr_env) (vc_audience vf_config) =
     Inr ''https://rs/.well-known/oauth-protected-resource''"
  "publishes (e_net pr_env) ''https://rs/.well-known/oauth-protected-resource'' (metadata_document vf_config pr_options) pr_page"
  by (simp_all add: pr_env_def sample_env_def vf_config_def protectedResourceMetadataUrl_def parseIdentifier_def
      sample_url_def strip_slashes_def WELL_KNOWN_SEGMENT_def publishes_def pr_page_def sample_net_def)

lemma built_metadata_is_read_sample:
  "map_sum id fst (snd (fetchResourceMetadata pr_env 0 ''https://rs'' False sample_state)) =
     Inr \<lparr>rm_resource = ''https://rs'', rm_resourceName = Some ''RS'', rm_scopes = intended_scopes pr_options,
          rm_scopesSupported = [''read''], rm_hasScopeDescriptions = True\<rparr>"
proof -
  let ?doc = "metadata_document vf_config pr_options"
  have "options_problem pr_options = None" by code_simp
  then have built: "buildProtectedResourceMetadata vf_config pr_options = Inr ?doc"
    by (simp add: buildProtectedResourceMetadata_def)
  have names: "advertised_list pr_options = [''read'', ''offline_access'']" "intended_scopes pr_options \<noteq> []"
    by (simp_all add: advertised_list_def advertised_def listed_def pr_options_def intended_scopes_def)
  obtain f where enter: "fetch_enter Pool_resource_metadata (fetcher sample_state) = Some f"
    and windows: "hostWindows f = []"
    by (simp add: fetch_enter_def sample_state_def sample_fetcher_def MAX_CONCURRENT_FETCHES_def)
  have public: "\<not> isBlockedAddress (V4 0x08080808)"
    unfolding isBlocked_V4 by (simp add: SPECIAL_USE_IPV4_def in_subnet4_range)
  have hop: "\<exists>x. snd (validate_hop (e_net pr_env) (metadata_fetch_options False) 0 0
      ''https://rs/.well-known/oauth-protected-resource'' f) = Inr x"
    by (simp add: validate_hop_def parseAndValidateScheme_def pr_env_def sample_url_def sample_net_def checkPort_def
        metadata_fetch_options_def checkRateLimit_def check_window_def windows resolveAndValidate_def public
        del: isBlockedAddress.simps)
  note read = built_metadata_is_read [OF built, of "new_URL pr_env"]
  note fetched = read [THEN conjunct2, THEN conjunct2, rule_format,
      OF conjI [OF pr_env_facts(1) conjI [OF same_metadata_address [OF pr_env_facts(2)] pr_env_facts(3)]],
      of 0 False sample_state]
  have audience: "vc_audience vf_config = ''https://rs''" by (simp add: vf_config_def)
  from hop show ?thesis
    using fetched read [THEN conjunct1] names unfolding audience
    by (auto simp: pr_env_facts(2) [unfolded audience] enter pr_page_def MAX_SCOPES_def pr_options_def)
qed

definition pr_platform :: platform where
  "pr_platform =
     \<lparr>pf_parse_url = (\<lambda>x. if x = ''https://rs'' then Some (sample_url ''https:'' ''rs'' ''/'') else None),
      pf_parse_json = (\<lambda>_. None)\<rparr>"

lemma vf_verified:
  "verify vf_config vf_jose pf net 3000 3000 ''tok'' vf_cache = (vf_cache, Inr vf_principal)"
proof -
  have "find_kid (JStr ''k1'') (getJwks 2000 vf_state) = Inr (Some vf_jwk)"
    by (simp add: getJwks_def vf_state_def published_def sample_key_def vf_jwk_def)
  then have "getKey pf net 3000 3000 (JStr ''k1'') vf_cache = (vf_cache, Inr (Some vf_jwk))"
    by (simp add: getKey_def getKey_start_def cached_key_def cache_fresh_def vf_cache_def)
  moreover have "check_token vf_config vf_jose 3000 ''tok'' (Some (JStr ''at+jwt'')) (Inr (Some vf_jwk)) = Inr vf_principal"
    using vf_typ
    by (simp add: check_token_def vf_jose_def vf_config_def vf_iss jose_problem_def epoch_s_def vf_signed
        check_access_claims_def check_iat_def MAX_IAT_SKEW_S_def vf_principal_def scope_claim_def vf_scopes
        extraClaims_def PROTOCOL_CLAIMS_def UNSAFE_KEYS_def)
  ultimately show ?thesis by (simp add: verify_def vf_header)
qed

lemma protected_route_sample:
  "\<exists>mw guard r. createBearerAuthMiddleware vf_config vf_jose pr_platform = Some mw \<and>
     requireScopes (pf_parse_url pr_platform) vf_config [''read''] = Some guard \<and>
     mw vf_answers 3000 3000 (Some ''bearer tok'') vf_cache = (vf_cache, r) \<and>
     route guard r = Some (Next (Some vf_principal))"
proof -
  obtain challenge where c: "bearerChallenge (pf_parse_url pr_platform) (vc_audience vf_config) = Some challenge"
    by (simp add: bearerChallenge_def metadata_address_def protectedResourceMetadataPath_def pr_platform_def
        vf_config_def)
  have tok: "list_all is_scope_token [''read'']" by code_simp
  have bearer: "bearer_token (Some ''bearer tok'') = Some ''tok''" by code_simp
  let ?mw = "\<lambda>net now fin. bearer_auth vf_config vf_jose pr_platform net now fin challenge"
  let ?g = "scope_guard challenge [''read'']"
  have mw: "createBearerAuthMiddleware vf_config vf_jose pr_platform = Some ?mw"
    using c by (simp add: createBearerAuthMiddleware_def)
  have guard: "requireScopes (pf_parse_url pr_platform) vf_config [''read''] = Some ?g"
    using c tok by (simp add: requireScopes_def)
  have run: "?mw vf_answers 3000 3000 (Some ''bearer tok'') vf_cache = (vf_cache, Next (Some vf_principal))"
    by (simp add: bearer_auth_def bearer vf_verified verified_reply_def)
  obtain out where out: "route ?g (Next (Some vf_principal)) = Some out"
    using tok by (auto simp: scope_guard_def sendInsufficientScope_def vf_principal_def)
  from protected_route [OF mw guard run out] have "out = Next (Some vf_principal)"
    by (simp add: bearer vf_verified, simp add: vf_principal_def)
  with mw guard run out show ?thesis by blast
qed

end
