(* ===== verification/CliProps.thy ===== *)
theory CliProps
  imports Cli SessionProps TokenFacts
begin

text \<open>
  Properties of the operator commands.
\<close>

section \<open>Arguments\<close>

text \<open>How a command is written.\<close>

definition opt_flag :: "string \<Rightarrow> string option \<Rightarrow> flags" where
  "opt_flag k v = (case v of None \<Rightarrow> [] | Some x \<Rightarrow> [(k, Some x)])"

definition on_off_flag :: "string \<Rightarrow> string \<Rightarrow> bool option \<Rightarrow> flags" where
  "on_off_flag on off v = (case v of None \<Rightarrow> [] | Some b \<Rightarrow> [(if b then on else off, None)])"

definition set_flags :: "update_params \<Rightarrow> flags" where
  "set_flags p =
     opt_flag ''--name'' (up_displayName p) @
     opt_flag ''--release-claims'' (map_option (join '','') (up_releaseClaims p)) @
     on_off_flag ''--enable'' ''--disable'' (up_enabled p) @
     on_off_flag ''--internal'' ''--no-internal'' (up_internal p)"

definition groups_flag :: "string list option \<Rightarrow> flags" where
  "groups_flag g =
     (case g of None \<Rightarrow> []
      | Some gs \<Rightarrow> if gs = [] then [(''--no-require-groups'', None)] else [(''--require-groups'', Some (join '','' gs))])"

definition description_flag :: "string option option \<Rightarrow> flags" where
  "description_flag d =
     (case d of None \<Rightarrow> []
      | Some None \<Rightarrow> [(''--no-description'', None)]
      | Some (Some t) \<Rightarrow> [(''--description'', Some t)])"

definition policy_flags :: "policy_params \<Rightarrow> flags" where
  "policy_flags p =
     on_off_flag ''--short-lived'' ''--no-short-lived'' (pp_shortLived p) @
     on_off_flag ''--fresh-sign-in'' ''--no-fresh-sign-in'' (pp_freshSignIn p) @
     groups_flag (pp_requireGroups p) @ description_flag (pp_descriptionOverride p)"

definition written :: "flags \<Rightarrow> string list" where
  "written fl = concat (map (\<lambda>(k, v). case v of None \<Rightarrow> [k] | Some x \<Rightarrow> [k, x]) fl)"

fun render_command :: "rs_command \<Rightarrow> string list" where
  "render_command Rs_list = [''list'']"
| "render_command (Rs_show i) = [''show'', i]"
| "render_command (Rs_refresh i) = [''refresh'', i]"
| "render_command (Rs_remove i) = [''remove'', i]"
| "render_command (Rs_accept i f) = [''accept'', i, f]"
| "render_command (Rs_approve i n b cs) =
     [''approve'', i] @ written (opt_flag ''--name'' n @ (if b then [(''--internal'', None)] else []) @
       [(''--release-claims'', Some (join '','' cs))])"
| "render_command (Rs_set i p) = [''set'', i] @ written (set_flags p)"
| "render_command (Rs_policy i sc p) = [''policy'', i, sc] @ written (policy_flags p)"

text \<open>What can be written: positional arguments are not options, list entries survive splitting and
  trimming, and \<open>set\<close> and \<open>policy\<close> change something.\<close>

definition plain_arg :: "string \<Rightarrow> bool" where
  "plain_arg a \<longleftrightarrow> \<not> starts_with ''--'' a"

definition list_entry :: "string \<Rightarrow> bool" where
  "list_entry x \<longleftrightarrow> x \<noteq> [] \<and> trim x = x \<and> CHR '','' \<notin> set x"

fun writable :: "rs_command \<Rightarrow> bool" where
  "writable Rs_list \<longleftrightarrow> True"
| "writable (Rs_show i) \<longleftrightarrow> plain_arg i"
| "writable (Rs_refresh i) \<longleftrightarrow> plain_arg i"
| "writable (Rs_remove i) \<longleftrightarrow> plain_arg i"
| "writable (Rs_accept i f) \<longleftrightarrow> plain_arg i \<and> plain_arg f"
| "writable (Rs_approve i n b cs) \<longleftrightarrow> plain_arg i \<and> list_all list_entry cs"
| "writable (Rs_set i p) \<longleftrightarrow> plain_arg i \<and> set_flags p \<noteq> [] \<and>
     list_all list_entry (case up_releaseClaims p of None \<Rightarrow> [] | Some cs \<Rightarrow> cs)"
| "writable (Rs_policy i sc p) \<longleftrightarrow> plain_arg i \<and> plain_arg sc \<and> policy_flags p \<noteq> [] \<and>
     list_all list_entry (case pp_requireGroups p of None \<Rightarrow> [] | Some gs \<Rightarrow> gs)"

lemma splitList_join:
  assumes "list_all list_entry xs" shows "splitList (join '','' xs) = xs"
proof (cases "xs = []")
  case True
  then show ?thesis by (simp add: splitList_def trim_def)
next
  case False
  have "split_on CHR '','' (join '','' xs) = xs"
    using assms False by (intro split_join) (auto simp: list_all_iff list_entry_def)
  moreover have "map trim xs = xs" "filter (\<lambda>s. s \<noteq> []) xs = xs"
    using assms by (auto simp: list_all_iff list_entry_def map_idI filter_id_conv)
  ultimately show ?thesis by (simp add: splitList_def)
qed

text \<open>A flag as the scan expects it.\<close>

definition flag_fits :: "string list \<Rightarrow> string \<times> string option \<Rightarrow> bool" where
  "flag_fits names q \<longleftrightarrow> starts_with ''--'' (fst q) \<and> fst q \<in> set names \<and> (snd q \<noteq> None \<longleftrightarrow> fst q \<in> set VALUE_FLAGS)"

lemma scan_written:
  assumes "list_all (flag_fits names) fs" and "distinct (map fst (fl @ fs))"
  shows "scan_args command (Some names) (written fs) positional fl = Inr (positional, fl @ fs)"
  using assms
proof (induction fs arbitrary: fl)
  case Nil
  then show ?case by (simp add: written_def)
next
  case (Cons q fs)
  obtain k v where q: "q = (k, v)" by fastforce
  have new: "k \<notin> fst ` set fl" using Cons.prems(2) by (auto simp: q)
  have rest: "scan_args command (Some names) (written fs) positional (fl @ [(k, v)]) = Inr (positional, fl @ q # fs)"
    using Cons.IH [of "fl @ [(k, v)]"] Cons.prems by (simp add: q)
  show ?case
    using Cons.prems(1) new rest
    by (cases v) (auto simp: q written_def flag_fits_def jm_has_def update_fresh)
qed

lemmas flag_defs = opt_flag_def on_off_flag_def groups_flag_def description_flag_def

lemma fits_opt_flag: "flag_fits names (k, Some []) \<Longrightarrow> list_all (flag_fits names) (opt_flag k v)"
  by (cases v) (simp_all add: opt_flag_def flag_fits_def)

lemma fits_on_off_flag:
  "flag_fits names (on, None) \<Longrightarrow> flag_fits names (off, None) \<Longrightarrow>
   list_all (flag_fits names) (on_off_flag on off v)"
  by (cases v) (simp_all add: on_off_flag_def)

lemma fits_groups_flag:
  "flag_fits names (''--no-require-groups'', None) \<Longrightarrow> flag_fits names (''--require-groups'', Some []) \<Longrightarrow>
   list_all (flag_fits names) (groups_flag g)"
  by (cases g) (simp_all add: groups_flag_def flag_fits_def)

lemma fits_description_flag:
  "flag_fits names (''--no-description'', None) \<Longrightarrow> flag_fits names (''--description'', Some []) \<Longrightarrow>
   list_all (flag_fits names) (description_flag d)"
  by (cases d) (simp_all add: description_flag_def flag_fits_def split: option.splits)

lemmas fits_pieces = fits_opt_flag fits_on_off_flag fits_groups_flag fits_description_flag

lemma has_pieces:
  "jm_has k (fl1 @ fl2) \<longleftrightarrow> jm_has k fl1 \<or> jm_has k fl2" "\<not> jm_has k ([] :: flags)"
  "jm_has k (opt_flag k' v) \<longleftrightarrow> k = k' \<and> v \<noteq> None"
  "jm_has k (on_off_flag on off w) \<longleftrightarrow> (w = Some True \<and> k = on) \<or> (w = Some False \<and> k = off)"
  "jm_has k (groups_flag g) \<longleftrightarrow> (g = Some [] \<and> k = ''--no-require-groups'') \<or>
     (g \<noteq> None \<and> g \<noteq> Some [] \<and> k = ''--require-groups'')"
  "jm_has k (description_flag d) \<longleftrightarrow> (d = Some None \<and> k = ''--no-description'') \<or>
     (d \<noteq> None \<and> d \<noteq> Some None \<and> k = ''--description'')"
proof -
  show "jm_has k (fl1 @ fl2) \<longleftrightarrow> jm_has k fl1 \<or> jm_has k fl2" by (auto simp: jm_has_def)
  show "\<not> jm_has k ([] :: flags)" by (simp add: jm_has_def)
  show "jm_has k (opt_flag k' v) \<longleftrightarrow> k = k' \<and> v \<noteq> None" by (cases v) (simp_all add: jm_has_def opt_flag_def)
  show "jm_has k (on_off_flag on off w) \<longleftrightarrow> (w = Some True \<and> k = on) \<or> (w = Some False \<and> k = off)"
    by (cases w) (simp_all add: jm_has_def on_off_flag_def)
  show "jm_has k (groups_flag g) \<longleftrightarrow> (g = Some [] \<and> k = ''--no-require-groups'') \<or>
     (g \<noteq> None \<and> g \<noteq> Some [] \<and> k = ''--require-groups'')"
    by (cases g) (simp_all add: jm_has_def groups_flag_def)
  show "jm_has k (description_flag d) \<longleftrightarrow> (d = Some None \<and> k = ''--no-description'') \<or>
     (d \<noteq> None \<and> d \<noteq> Some None \<and> k = ''--description'')"
    by (cases d) (simp_all add: jm_has_def description_flag_def split: option.splits)
qed

lemma value_pieces:
  "flag_value (opt_flag k v @ fl) k = (if v = None then flag_value fl k else v)"
  "k \<noteq> k' \<Longrightarrow> flag_value (opt_flag k' v @ fl) k = flag_value fl k"
  "k \<noteq> on \<Longrightarrow> k \<noteq> off \<Longrightarrow> flag_value (on_off_flag on off w @ fl) k = flag_value fl k"
  "k \<noteq> on \<Longrightarrow> k \<noteq> off \<Longrightarrow> flag_value (on_off_flag on off w) k = None"
  "k \<noteq> ''--require-groups'' \<Longrightarrow> k \<noteq> ''--no-require-groups'' \<Longrightarrow> flag_value (groups_flag g @ fl) k = flag_value fl k"
  "flag_value (groups_flag g @ description_flag d) ''--require-groups'' =
     (case g of Some gs \<Rightarrow> if gs = [] then None else Some (join '','' gs) | None \<Rightarrow> None)"
  "flag_value (description_flag d) ''--description'' = (case d of Some x \<Rightarrow> x | None \<Rightarrow> None)"
proof -
  show "flag_value (opt_flag k v @ fl) k = (if v = None then flag_value fl k else v)"
    "k \<noteq> k' \<Longrightarrow> flag_value (opt_flag k' v @ fl) k = flag_value fl k"
    by (cases v; simp add: opt_flag_def flag_value_def)+
  show "k \<noteq> on \<Longrightarrow> k \<noteq> off \<Longrightarrow> flag_value (on_off_flag on off w @ fl) k = flag_value fl k"
    "k \<noteq> on \<Longrightarrow> k \<noteq> off \<Longrightarrow> flag_value (on_off_flag on off w) k = None"
    by (cases w; simp add: on_off_flag_def flag_value_def)+
  show "flag_value (description_flag d) ''--description'' = (case d of Some x \<Rightarrow> x | None \<Rightarrow> None)"
    by (simp add: description_flag_def flag_value_def split: option.splits)
  have none: "flag_value (description_flag d) ''--require-groups'' = None"
    by (simp add: description_flag_def flag_value_def split: option.splits)
  show "flag_value (groups_flag g @ description_flag d) ''--require-groups'' =
     (case g of Some gs \<Rightarrow> if gs = [] then None else Some (join '','' gs) | None \<Rightarrow> None)"
    using none by (cases g) (simp_all add: groups_flag_def flag_value_def)
  show "k \<noteq> ''--require-groups'' \<Longrightarrow> k \<noteq> ''--no-require-groups'' \<Longrightarrow> flag_value (groups_flag g @ fl) k = flag_value fl k"
    by (cases g) (simp_all add: groups_flag_def flag_value_def)
qed

lemma allowed_flags:
  "the (jm_get ALLOWED ''set'') =
     [''--name'', ''--release-claims'', ''--enable'', ''--disable'', ''--internal'', ''--no-internal'']"
  "the (jm_get ALLOWED ''policy'') =
     [''--short-lived'', ''--no-short-lived'', ''--fresh-sign-in'', ''--no-fresh-sign-in'',
      ''--require-groups'', ''--no-require-groups'', ''--description'', ''--no-description'']"
  "the (jm_get ALLOWED ''approve'') = [''--name'', ''--internal'', ''--release-claims'']"
  by (simp_all add: ALLOWED_def)

lemma set_flags_fit:
  "list_all (flag_fits (the (jm_get ALLOWED ''set''))) (set_flags p)" "distinct (map fst (set_flags p))"
  "conflict (set_flags p) = None"
proof -
  obtain n r en i where p: "p = \<lparr>up_displayName = n, up_releaseClaims = r, up_enabled = en, up_internal = i\<rparr>"
    by (cases p)
  show "list_all (flag_fits (the (jm_get ALLOWED ''set''))) (set_flags p)"
    unfolding set_flags_def list_all_append allowed_flags
    by (intro conjI fits_pieces) (simp_all add: flag_fits_def VALUE_FLAGS_def starts_with_def)
  show "distinct (map fst (set_flags p))"
    unfolding p set_flags_def flag_defs by (cases n; cases r; cases en; cases i; simp split: if_splits)
  show "conflict (set_flags p) = None"
    by (simp add: conflict_def CONFLICTS_def set_flags_def has_pieces)
qed

lemma policy_flags_fit:
  "list_all (flag_fits (the (jm_get ALLOWED ''policy''))) (policy_flags p)" "distinct (map fst (policy_flags p))"
  "conflict (policy_flags p) = None"
proof -
  obtain sl fs g d where p: "p = \<lparr>pp_shortLived = sl, pp_freshSignIn = fs, pp_requireGroups = g,
      pp_descriptionOverride = d\<rparr>" by (cases p)
  show "list_all (flag_fits (the (jm_get ALLOWED ''policy''))) (policy_flags p)"
    unfolding policy_flags_def list_all_append allowed_flags
    by (intro conjI fits_pieces) (simp_all add: flag_fits_def VALUE_FLAGS_def starts_with_def)
  show "distinct (map fst (policy_flags p))"
    unfolding p policy_flags_def flag_defs
    by (cases sl; cases fs; cases g; cases d; simp split: if_splits option.splits)
  show "conflict (policy_flags p) = None"
    by (auto simp: conflict_def CONFLICTS_def policy_flags_def has_pieces)
qed

lemma set_options_flags:
  assumes "list_all list_entry (case up_releaseClaims p of None \<Rightarrow> [] | Some cs \<Rightarrow> cs)"
  shows "set_options (set_flags p) = p"
proof -
  obtain n r en i where p: "p = \<lparr>up_displayName = n, up_releaseClaims = r, up_enabled = en, up_internal = i\<rparr>"
    by (cases p)
  have "flag_value (set_flags p) ''--name'' = n"
    "flag_value (set_flags p) ''--release-claims'' = map_option (join '','') r"
    "on_off (set_flags p) ''--enable'' ''--disable'' = en"
    "on_off (set_flags p) ''--internal'' ''--no-internal'' = i"
    by (simp_all add: p set_flags_def value_pieces on_off_def has_pieces) (cases n; cases en; cases i; simp)+
  then show ?thesis
    using assms splitList_join by (auto simp: set_options_def p option.map_comp o_def split: option.splits)
qed

lemma policy_options_flags:
  assumes "list_all list_entry (case pp_requireGroups p of None \<Rightarrow> [] | Some gs \<Rightarrow> gs)"
  shows "policy_options (policy_flags p) = p" "flag_value (policy_flags p) ''--require-groups'' =
    (case pp_requireGroups p of Some gs \<Rightarrow> if gs = [] then None else Some (join '','' gs) | None \<Rightarrow> None)"
proof -
  obtain sl fs g d where p: "p = \<lparr>pp_shortLived = sl, pp_freshSignIn = fs, pp_requireGroups = g,
      pp_descriptionOverride = d\<rparr>" by (cases p)
  have v: "flag_value (policy_flags p) ''--require-groups'' =
      (case g of Some gs \<Rightarrow> if gs = [] then None else Some (join '','' gs) | None \<Rightarrow> None)"
    "jm_has ''--no-require-groups'' (policy_flags p) \<longleftrightarrow> g = Some []"
    "flag_value (policy_flags p) ''--description'' = (case d of Some x \<Rightarrow> x | None \<Rightarrow> None)"
    "jm_has ''--no-description'' (policy_flags p) \<longleftrightarrow> d = Some None"
    "on_off (policy_flags p) ''--short-lived'' ''--no-short-lived'' = sl"
    "on_off (policy_flags p) ''--fresh-sign-in'' ''--no-fresh-sign-in'' = fs"
    by (simp_all add: p policy_flags_def value_pieces on_off_def has_pieces) (cases sl; cases fs; simp)+
  then show "policy_options (policy_flags p) = p"
    using assms splitList_join by (auto simp: policy_options_def p split: option.splits)
  show "flag_value (policy_flags p) ''--require-groups'' =
    (case pp_requireGroups p of Some gs \<Rightarrow> if gs = [] then None else Some (join '','' gs) | None \<Rightarrow> None)"
    by (simp add: v(1)) (simp add: p)
qed

text \<open>C37: Every command that can be written is read back: printing a command and parsing the arguments gives the
  command again, with every option and no other.\<close>

theorem command_round_trip:
  assumes "writable c"
  shows "parseResourceServerArgs (render_command c) = Inr c"
proof (cases c)
  case (Rs_approve i n b cs)
  let ?fl = "opt_flag ''--name'' n @ (if b then [(''--internal'', None)] else []) @
       [(''--release-claims'', Some (join '','' cs))]"
  have fit: "list_all (flag_fits (the (jm_get ALLOWED ''approve''))) ?fl"
    unfolding list_all_append allowed_flags
    by (intro conjI fits_pieces) (simp_all add: flag_fits_def VALUE_FLAGS_def starts_with_def)
  have dist: "distinct (map fst ([] @ ?fl))" by (cases n) (simp_all add: opt_flag_def)
  have vals: "flag_value ?fl ''--name'' = n" "jm_has ''--internal'' ?fl \<longleftrightarrow> b" "conflict ?fl = None"
    "flag_value ?fl ''--release-claims'' = Some (join '','' cs)"
    by (cases n; cases b; simp add: opt_flag_def flag_value_def jm_has_def conflict_def CONFLICTS_def)+
  show ?thesis
    using assms scan_written [OF fit dist, of "''approve''" "[i]"] vals splitList_join
    by (simp add: Rs_approve parseResourceServerArgs_def ALLOWED_def POSITIONALS_def plain_arg_def Let_def)
next
  case (Rs_set i p)
  have "p \<noteq> \<lparr>up_displayName = None, up_releaseClaims = None, up_enabled = None, up_internal = None\<rparr>"
    using assms by (auto simp: Rs_set set_flags_def flag_defs)
  with Rs_set assms set_options_flags [of p] show ?thesis
    using scan_written [OF set_flags_fit(1) [of p], of "[]" "''set''" "[i]"] set_flags_fit(2,3) [of p]
    by (simp add: parseResourceServerArgs_def ALLOWED_def POSITIONALS_def plain_arg_def Let_def finish_set_def)
next
  case (Rs_policy i sc p)
  have "p \<noteq> \<lparr>pp_shortLived = None, pp_freshSignIn = None, pp_requireGroups = None, pp_descriptionOverride = None\<rparr>"
    using assms by (auto simp: Rs_policy policy_flags_def flag_defs)
  moreover have "map_option splitList (flag_value (policy_flags p) ''--require-groups'') \<noteq> Some []"
    using assms splitList_join policy_options_flags(2) [of p] by (auto simp: Rs_policy split: option.splits if_splits)
  ultimately show ?thesis
    using assms policy_options_flags(1) [of p] scan_written [OF policy_flags_fit(1) [of p], of "[]" "''policy''" "[i, sc]"]
      policy_flags_fit(2,3) [of p]
    by (simp add: Rs_policy parseResourceServerArgs_def ALLOWED_def POSITIONALS_def plain_arg_def Let_def
        finish_policy_def)
qed (use assms in \<open>simp_all add: parseResourceServerArgs_def ALLOWED_def POSITIONALS_def plain_arg_def Let_def
      conflict_def CONFLICTS_def jm_has_def\<close>)

lemma command_round_trip_sample:
  "parseResourceServerArgs [''set'', ''https://rs'', ''--name'', ''RS'', ''--disable''] =
     Inr (Rs_set ''https://rs'' \<lparr>up_displayName = Some ''RS'', up_releaseClaims = None, up_enabled = Some False,
       up_internal = None\<rparr>)"
  using command_round_trip [of "Rs_set ''https://rs'' \<lparr>up_displayName = Some ''RS'', up_releaseClaims = None,
      up_enabled = Some False, up_internal = None\<rparr>"]
  by (simp add: set_flags_def flag_defs written_def plain_arg_def starts_with_def)

text \<open>The one refusal that is not a usage error: an option after a name every object inherits.\<close>

lemma type_error_only_inherited:
  assumes "parseResourceServerArgs argv = Inl Not_a_function"
  obtains command rest where "argv = command # rest" "command \<in> set inherited_members"
proof -
  have scan: "scan_args command (Some names) args positional fl \<noteq> Inl Not_a_function"
    for command names args positional fl
    by (induction command "Some names" args positional fl rule: scan_args.induct) (auto split: list.splits)
  from assms obtain command rest where argv: "argv = command # rest" by (cases argv) (auto simp: parseResourceServerArgs_def)
  have "finish_args command positional fl \<noteq> Inl Not_a_function" for positional fl
    unfolding finish_args.simps
    by (auto simp: Let_def finish_set_def finish_policy_def)
  then have "jm_get ALLOWED command = None \<and> command \<in> set inherited_members"
    using assms scan [of command] by (cases "jm_get ALLOWED command")
      (auto simp: argv parseResourceServerArgs_def conflict_def simp del: finish_args.simps
        split: if_splits sum.splits option.splits)
  then show thesis using argv that by blast
qed

lemma type_error_example: "parseResourceServerArgs [''toString'', ''--name''] = Inl Not_a_function"
  by code_simp

section \<open>Deactivating a local user\<close>

lemma deactivate_SomeD:
  assumes "deactivate now raw s = (s', Printed 0 out)"
  obtains l ng nt where "row_of lu_username (normalizeUsername raw) (localUsers s) = Some l"
    "ng = count_rows (\<lambda>g. gr_userId g = lu_userId l \<and> gr_revokedAt g = None) (grants s)"
    "nt = count_rows (\<lambda>t. rt_userId t = lu_userId l \<and> rt_revokedAt t = None) (refreshTokens s)"
    "localUsers s' = update_many (\<lambda>x. lu_username x = normalizeUsername raw) (\<lambda>x. x\<lparr>lu_isActive := False\<rparr>) (localUsers s)"
    "users s' = update_many (\<lambda>x. u_id x = lu_userId l)
         (\<lambda>x. x\<lparr>u_sessionEpoch := Suc (u_sessionEpoch x), u_deviceEpoch := Suc (u_deviceEpoch x)\<rparr>) (users s)"
    "grants s' = update_many (\<lambda>g. gr_userId g = lu_userId l \<and> gr_revokedAt g = None)
         (\<lambda>g. g\<lparr>gr_revokedAt := Some now\<rparr>) (grants s)"
    "refreshTokens s' = update_many (\<lambda>t. rt_userId t = lu_userId l \<and> rt_revokedAt t = None)
         (\<lambda>t. t\<lparr>rt_revokedAt := Some now\<rparr>) (refreshTokens s)"
    "adminAuditLog s' = adminAuditLog s @
       [\<lparr>au_actor = ''cli'', au_action = ''local-user.deactivate'', au_target = normalizeUsername raw,
         au_before = Some (JObj [(''isActive'', JBool (lu_isActive l))]),
         au_after = Some (JObj [(''isActive'', JBool False), (''grantsRevoked'', JNum (of_nat ng)),
                                (''refreshTokensRevoked'', JNum (of_nat nt))])\<rparr>]"
  using assms
  by (cases "row_of lu_username (normalizeUsername raw) (localUsers s)")
    (auto simp: deactivate_def deactivate_tx_def Let_def audit_def end_grants_of_user_def close_account_def)

lemma deactivate_frame:
  assumes "deactivate now raw s = (s', Printed 0 out)"
  shows "authCodes s' = authCodes s \<and> deviceCodes s' = deviceCodes s \<and> authRequests s' = authRequests s \<and>
    resourceServers s' = resourceServers s \<and> deniedClients s' = deniedClients s"
  using assms
  by (cases "row_of lu_username (normalizeUsername raw) (localUsers s)")
    (auto simp: deactivate_def deactivate_tx_def Let_def audit_def end_grants_of_user_def close_account_def)

text \<open>What an inactive local account can do: nothing, whatever cookie, password, token or code is presented.\<close>

lemma inactive_account:
  assumes "row_of lu_userId u (localUsers s) = Some l" and "\<not> lu_isActive l"
  shows "\<not> is_user_active s u" and "\<not> local_admin s u" and "getSessionUserId e t rq s \<noteq> Some u"
    and "rt_userId token = u \<Longrightarrow> \<exists>er. snd (refresh_authenticated e pv t rnd body token s) = Inl er"
    and "ac_userId c = u \<Longrightarrow> \<exists>er. snd (code_authenticated e t rnd c s) = Inl er"
    and "dv_userId d = Some u \<Longrightarrow> \<exists>er. snd (device_approved e t rnd client body d s) = Inl er"
proof -
  show inactive: "\<not> is_user_active s u" using assms by (simp add: is_user_active_def)
  show "\<not> local_admin s u" using assms by (simp add: local_admin_def)
  show "getSessionUserId e t rq s \<noteq> Some u" using assms by (auto simp: getSessionUserId_iff session_user_ok_def)
  show "\<exists>er. snd (refresh_authenticated e pv t rnd body token s) = Inl er" if "rt_userId token = u"
    using inactive that by (auto simp: refresh_authenticated_def split: option.splits)
  show "\<exists>er. snd (code_authenticated e t rnd c s) = Inl er" if "ac_userId c = u"
    using inactive that by (auto simp: code_authenticated_def split: option.splits)
  have still: "\<not> is_user_active s1 u" if "check_client e t client body s = (s1, r)" for s1 r
    using inactive check_client_flow_rows [OF that] by (simp add: flow_rows_def is_user_active_def)
  show "\<exists>er. snd (device_approved e t rnd client body d s) = Inl er" if "dv_userId d = Some u"
    using still that
    by (cases "check_client e t client body s") (auto simp: device_approved_def truthy_def split: option.splits)
qed

lemma inactive_login:
  assumes "row_of lu_username (normalizeUsername raw) (localUsers s) = Some l" and "\<not> lu_isActive l"
  shows "validateLocalUser e t raw password s = (s, Inl Account_deactivated)"
    and "validDeviceCookieNonce e t rq (normalizeUsername raw) s = None"
  using assms by (simp_all add: validateLocalUser_def validDeviceCookieNonce_def Let_def split: option.splits)

text \<open>A device cookie of an earlier epoch.\<close>

lemma device_epoch_bump:
  assumes "row_of u_id (lu_userId l) us' = map_option f (row_of u_id (lu_userId l) (users s))"
    and "\<And>x. u_deviceEpoch x \<noteq> u_deviceEpoch (f x)" and "row_of lu_username n (localUsers s) = Some l"
    and "users s' = us'" and "localUsers s' = localUsers s" and "validDeviceCookieNonce e t rq n s \<noteq> None"
  shows "validDeviceCookieNonce e t' rq n s' = None"
  using assms by (auto simp: validDeviceCookieNonce_def Let_def split: option.splits if_splits)

text \<open>C36: Deactivating a local user is complete and final.  From then on the user has no session and no device
  cookie works; the password does not sign in; the user is no administrator; every grant
  and refresh token of the user is revoked, and the token endpoint refuses the user's refresh tokens, codes and
  device codes.  Reactivating the account later, whatever else happens to the account rows, revives
  no cookie issued before.  Of the accounts exactly this one is marked inactive; nobody else's grants, tokens or user rows
  change, no pending code, request, server or denial does, and one audit row names the account with the exact counts.\<close>

theorem deactivation_is_final:
  fixes s s' :: "'a upstream_state_scheme"
  assumes "distinct (map u_id (users s))" and "distinct (map lu_username (localUsers s))"
    and "distinct (map lu_userId (localUsers s))" and "deactivate now raw s = (s', Printed 0 out)"
  shows "\<exists>l. row_of lu_username (normalizeUsername raw) (localUsers s) = Some l \<and>
     (\<forall>e t rq. getSessionUserId e t rq s' \<noteq> Some (lu_userId l)) \<and>
     (\<forall>e t rq. validDeviceCookieNonce e t rq (lu_username l) s' = None) \<and>
     (\<forall>e t rq t' ls. getSessionUserId e t rq s = Some (lu_userId l) \<longrightarrow>
        getSessionUserId e t' rq (s'\<lparr>localUsers := ls\<rparr>) = None) \<and>
     (\<forall>e t rq t'. validDeviceCookieNonce e t rq (lu_username l) s \<noteq> None \<longrightarrow>
        validDeviceCookieNonce e t' rq (lu_username l) (s'\<lparr>localUsers := localUsers s\<rparr>) = None) \<and>
     (\<forall>e t password. validateLocalUser e t raw password s' = (s', Inl Account_deactivated)) \<and>
     \<not> local_admin s' (lu_userId l) \<and> \<not> is_user_active s' (lu_userId l) \<and>
     (\<forall>e pv t rnd body entry. rt_userId entry = lu_userId l \<longrightarrow>
        (\<exists>er. snd (refresh_authenticated e pv t rnd body entry s') = Inl er)) \<and>
     (\<forall>e t rnd entry. ac_userId entry = lu_userId l \<longrightarrow> (\<exists>er. snd (code_authenticated e t rnd entry s') = Inl er)) \<and>
     (\<forall>e t rnd client body entry. dv_userId entry = Some (lu_userId l) \<longrightarrow>
        (\<exists>er. snd (device_approved e t rnd client body entry s') = Inl er)) \<and>
     (\<forall>g \<in> set (grants s'). gr_userId g = lu_userId l \<longrightarrow> gr_revokedAt g \<noteq> None) \<and>
     (\<forall>r \<in> set (refreshTokens s'). rt_userId r = lu_userId l \<longrightarrow> rt_revokedAt r \<noteq> None) \<and>
     filter (\<lambda>g. gr_userId g \<noteq> lu_userId l) (grants s') = filter (\<lambda>g. gr_userId g \<noteq> lu_userId l) (grants s) \<and>
     filter (\<lambda>r. rt_userId r \<noteq> lu_userId l) (refreshTokens s') =
       filter (\<lambda>r. rt_userId r \<noteq> lu_userId l) (refreshTokens s) \<and>
     filter (\<lambda>u. u_id u \<noteq> lu_userId l) (users s') = filter (\<lambda>u. u_id u \<noteq> lu_userId l) (users s) \<and>
     localUsers s' = map (\<lambda>x. if lu_username x = normalizeUsername raw then x\<lparr>lu_isActive := False\<rparr> else x) (localUsers s) \<and>
     filter (\<lambda>x. lu_username x \<noteq> normalizeUsername raw) (localUsers s') =
       filter (\<lambda>x. lu_username x \<noteq> normalizeUsername raw) (localUsers s) \<and>
     (authCodes s' = authCodes s \<and> deviceCodes s' = deviceCodes s \<and> authRequests s' = authRequests s \<and>
       resourceServers s' = resourceServers s \<and> deniedClients s' = deniedClients s) \<and>
     (\<exists>a. adminAuditLog s' = adminAuditLog s @ [a] \<and> au_target a = lu_username l \<and> au_actor a = ''cli'' \<and>
        au_after a = Some (JObj [(''isActive'', JBool False),
          (''grantsRevoked'', JNum (of_nat (length (filter (\<lambda>g. gr_userId g = lu_userId l \<and> gr_revokedAt g = None) (grants s))))),
          (''refreshTokensRevoked'',
             JNum (of_nat (length (filter (\<lambda>r. rt_userId r = lu_userId l \<and> rt_revokedAt r = None) (refreshTokens s)))))]))"
proof -
  let ?n = "normalizeUsername raw"
  let ?f = "\<lambda>x. x\<lparr>u_sessionEpoch := Suc (u_sessionEpoch x), u_deviceEpoch := Suc (u_deviceEpoch x)\<rparr>"
  from assms(4) obtain l ng nt where l: "row_of lu_username ?n (localUsers s) = Some l"
    and ng: "ng = count_rows (\<lambda>g. gr_userId g = lu_userId l \<and> gr_revokedAt g = None) (grants s)"
    and nt: "nt = count_rows (\<lambda>t. rt_userId t = lu_userId l \<and> rt_revokedAt t = None) (refreshTokens s)"
    and ls: "localUsers s' = update_many (\<lambda>x. lu_username x = ?n) (\<lambda>x. x\<lparr>lu_isActive := False\<rparr>) (localUsers s)"
    and us: "users s' = update_many (\<lambda>x. u_id x = lu_userId l) ?f (users s)"
    and gs: "grants s' = update_many (\<lambda>g. gr_userId g = lu_userId l \<and> gr_revokedAt g = None)
         (\<lambda>g. g\<lparr>gr_revokedAt := Some now\<rparr>) (grants s)"
    and rs: "refreshTokens s' = update_many (\<lambda>t. rt_userId t = lu_userId l \<and> rt_revokedAt t = None)
         (\<lambda>t. t\<lparr>rt_revokedAt := Some now\<rparr>) (refreshTokens s)"
    and au: "adminAuditLog s' = adminAuditLog s @
       [\<lparr>au_actor = ''cli'', au_action = ''local-user.deactivate'', au_target = ?n,
         au_before = Some (JObj [(''isActive'', JBool (lu_isActive l))]),
         au_after = Some (JObj [(''isActive'', JBool False), (''grantsRevoked'', JNum (of_nat ng)),
                                (''refreshTokensRevoked'', JNum (of_nat nt))])\<rparr>]"
    by (rule deactivate_SomeD)
  let ?u = "lu_userId l"
  have name: "lu_username l = ?n" by (rule row_of_same_key [OF l])
  have mem: "l \<in> set (localUsers s)" by (rule row_of_SomeD(1) [OF l])
  have byid: "row_of lu_userId ?u (localUsers s) = Some l" by (rule row_of_member [OF assms(3) mem])
  have byid': "row_of lu_userId ?u (localUsers s') = Some (l\<lparr>lu_isActive := False\<rparr>)"
    using byid name by (simp add: ls row_of_update_many)
  have byname': "row_of lu_username ?n (localUsers s') = Some (l\<lparr>lu_isActive := False\<rparr>)"
    using l name by (simp add: ls row_of_update_many)
  note ended = inactive_account [OF byid'] and ended_name = inactive_login [OF byname']
  have later: "getSessionUserId e t' rq (s'\<lparr>localUsers := ls'\<rparr>) = None"
    if "getSessionUserId e t rq s = Some ?u" for e t rq t' ls'
    by (rule session_ended [OF _ that], rule epoch_bump_ends_sessions [OF assms(1), where f = ?f]) (simp_all add: us)
  have bump: "row_of u_id ?u (users s') = map_option ?f (row_of u_id ?u (users s))"
    by (cases "row_of u_id ?u (users s)") (auto simp: us row_of_update_many dest: row_of_same_key)
  have later_devices: "validDeviceCookieNonce e t' rq ?n (s'\<lparr>localUsers := localUsers s\<rparr>) = None"
    if "validDeviceCookieNonce e t rq ?n s \<noteq> None" for e t rq t'
    by (rule device_epoch_bump [OF bump _ l _ _ that]) simp_all
  have grants: "\<forall>g \<in> set (grants s'). gr_userId g = ?u \<longrightarrow> gr_revokedAt g \<noteq> None"
    unfolding gs by (rule update_many_allI) simp
  have tokens: "\<forall>r \<in> set (refreshTokens s'). rt_userId r = ?u \<longrightarrow> rt_revokedAt r \<noteq> None"
    unfolding rs by (rule update_many_allI) simp
  have others: "filter (\<lambda>g. gr_userId g \<noteq> ?u) (grants s') = filter (\<lambda>g. gr_userId g \<noteq> ?u) (grants s)"
    "filter (\<lambda>r. rt_userId r \<noteq> ?u) (refreshTokens s') = filter (\<lambda>r. rt_userId r \<noteq> ?u) (refreshTokens s)"
    "filter (\<lambda>u. u_id u \<noteq> ?u) (users s') = filter (\<lambda>u. u_id u \<noteq> ?u) (users s)"
    unfolding gs rs us by (rule filter_update_many_other; simp)+
  have accounts: "localUsers s' = map (\<lambda>x. if lu_username x = ?n then x\<lparr>lu_isActive := False\<rparr> else x) (localUsers s)"
    "filter (\<lambda>x. lu_username x \<noteq> ?n) (localUsers s') = filter (\<lambda>x. lu_username x \<noteq> ?n) (localUsers s)"
    unfolding ls by (simp add: update_many_def) (rule filter_update_many_other; simp)
  note frame = deactivate_frame [OF assms(4)]
  show ?thesis
    by (rule exI [of _ l], unfold name, intro conjI allI impI)
      (fact l | rule ended ended_name; simp | erule later | erule later_devices |
       fact grants | fact tokens | fact others | fact accounts | fact frame | rule frame [THEN conjunct1] frame [THEN conjunct2, THEN conjunct1]
         frame [THEN conjunct2, THEN conjunct2, THEN conjunct1] frame [THEN conjunct2, THEN conjunct2, THEN conjunct2, THEN conjunct1]
         frame [THEN conjunct2, THEN conjunct2, THEN conjunct2, THEN conjunct2] | simp add: au ng nt count_rows_def)+
qed

lemma deactivation_is_final_sample:
  "exit_code (snd (deactivate 5000 '' Ann'' local_state)) = 0 \<and>
   getSessionUserId sample_env 2000 signed_in local_state = Some ''u1'' \<and>
   getSessionUserId sample_env 6000 signed_in (fst (deactivate 5000 '' Ann'' local_state)) \<noteq> Some ''u1'' \<and>
   list_all (\<lambda>r. rt_revokedAt r \<noteq> None) (refreshTokens (fst (deactivate 5000 '' Ann'' local_state)))"
proof -
  let ?d = "deactivate 5000 '' Ann'' local_state"
  have d: "distinct (map u_id (users local_state))" "distinct (map lu_username (localUsers local_state))"
    "distinct (map lu_userId (localUsers local_state))"
    by (simp_all add: local_state_def sample_state_def)
  have a: "getSessionUserId sample_env 2000 signed_in local_state = Some ''u1''" by code_simp
  have n: "normalizeUsername '' Ann'' = ''ann''" by code_simp
  have l: "row_of lu_username ''ann'' (localUsers local_state) =
      Some \<lparr>lu_id = ''l1'', lu_username = ''ann'', lu_passwordHash = ''kold'', lu_lastLoginAt = None,
            lu_isActive = True, lu_isAdmin = False, lu_userId = ''u1''\<rparr>"
    by (simp add: local_state_def)
  then obtain out where out: "?d = (fst ?d, Printed 0 out)"
    by (cases "?d") (auto simp: deactivate_def deactivate_tx_def n Let_def)
  from deactivation_is_final [OF d out] obtain l' where l': "row_of lu_username ''ann'' (localUsers local_state) = Some l'"
    "\<forall>e t rq. getSessionUserId e t rq (fst ?d) \<noteq> Some (lu_userId l')"
    "\<forall>r \<in> set (refreshTokens (fst ?d)). rt_userId r = lu_userId l' \<longrightarrow> rt_revokedAt r \<noteq> None"
    unfolding n by (elim exE conjE) (rule that; assumption)
  have u: "lu_userId l' = ''u1''" using l l'(1) by simp
  have "rt_userId sample_refresh = ''u1''" by (simp add: sample_refresh_def)
  then have "list_all (\<lambda>r. rt_userId r = ''u1'') (refreshTokens (fst ?d))"
    using l by (simp add: deactivate_def deactivate_tx_def n Let_def audit_def end_grants_of_user_def
        close_account_def local_state_def sample_state_def)
  then have "list_all (\<lambda>r. rt_revokedAt r \<noteq> None) (refreshTokens (fst ?d))"
    using l'(3) u by (simp add: list_all_iff)
  moreover have "exit_code (snd ?d) = 0" by (subst out) (simp add: exit_code_def)
  ultimately show ?thesis using a l'(2) u by simp
qed

end
