(* ===== verification/Config.thy ===== *)
theory Config
  imports Env
begin

text \<open>
  \<^verbatim>\<open>config.ts\<close>: how the environment variables become the configuration of the proxy.  zod's own URL
  check, the conversion \<^verbatim>\<open>Number(s)\<close> and the working directory are parameters; the texts of issues are
  left out, an issue is the variable it is about.
\<close>

section \<open>Single variables\<close>

datatype issue = Required string | Bad_value string | Not_supported string | No_provider

type_synonym 'v parsed = "issue + 'v"

definition boolFromEnv :: "string \<Rightarrow> bool \<Rightarrow> string option \<Rightarrow> bool parsed" where
  "boolFromEnv k defaultValue v =
     (case v of
        None \<Rightarrow> Inr defaultValue
      | Some raw \<Rightarrow>
          (let normalized = to_lower (trim raw) in
           if normalized = ''true'' then Inr True
           else if normalized = ''false'' then Inr False else Inl (Bad_value k)))"

definition required_min :: "string \<Rightarrow> nat \<Rightarrow> string option \<Rightarrow> string parsed" where
  "required_min k n v =
     (case v of None \<Rightarrow> Inl (Required k) | Some s \<Rightarrow> if length s < n then Inl (Bad_value k) else Inr s)"

definition optional_min :: "string \<Rightarrow> nat \<Rightarrow> string option \<Rightarrow> string option parsed" where
  "optional_min k n v =
     (case v of None \<Rightarrow> Inr None | Some s \<Rightarrow> if length s < n then Inl (Bad_value k) else Inr (Some s))"

text \<open>zod's URL check: the accepted value, or nothing.\<close>

type_synonym url_check = "string \<Rightarrow> string option"

definition bare_origin_url :: "url_parser \<Rightarrow> string \<Rightarrow> bool" where
  "bare_origin_url parse v =
     (case parse v of
        None \<Rightarrow> True
      | Some u \<Rightarrow> (url_protocol u = ''https:'' \<or> url_protocol u = ''http:'') \<and> url_origin u = v)"

definition issuerUrl :: "url_check \<Rightarrow> url_parser \<Rightarrow> string option \<Rightarrow> string parsed" where
  "issuerUrl zurl parse v =
     (case v of
        None \<Rightarrow> Inl (Required ''ISSUER_URL'')
      | Some raw \<Rightarrow>
          (case zurl raw of
             None \<Rightarrow> Inl (Bad_value ''ISSUER_URL'')
           | Some s \<Rightarrow> if bare_origin_url parse s then Inr s else Inl (Bad_value ''ISSUER_URL'')))"

definition optional_url :: "url_check \<Rightarrow> string \<Rightarrow> string option \<Rightarrow> string option parsed" where
  "optional_url zurl k v =
     (case v of
        None \<Rightarrow> Inr None
      | Some raw \<Rightarrow> (case zurl raw of None \<Rightarrow> Inl (Bad_value k) | Some s \<Rightarrow> Inr (Some s)))"

section \<open>TRUST_PROXY\<close>

definition TRUST_PROXY_KEYWORDS :: "string list" where
  "TRUST_PROXY_KEYWORDS = [''loopback'', ''linklocal'', ''uniquelocal'']"

definition isIP :: "string \<Rightarrow> nat" where
  "isIP s = (if isIPv4 s then 4 else if isIPv6 s then 6 else 0)"

definition isTrustProxyEntry :: "string \<Rightarrow> bool" where
  "isTrustProxyEntry entry =
     (if entry \<in> set TRUST_PROXY_KEYWORDS then True
      else if CHR ''/'' \<notin> set entry then isIP entry \<noteq> 0
      else
        (let version = isIP (takeWhile (\<lambda>c. c \<noteq> CHR ''/'') entry);
             prefix = drop 1 (dropWhile (\<lambda>c. c \<noteq> CHR ''/'') entry) in
         if version = 0 \<or> \<not> (all_digits prefix \<and> length prefix \<le> 3) then False
         else number_of prefix \<le> (if version = 4 then 32 else 128)))"

text \<open>A hop count, or a list for Express to read.\<close>

datatype trust_proxy = Hops nat | Trust_list string

definition MAX_SAFE_INTEGER :: nat where "MAX_SAFE_INTEGER = 9007199254740991"

definition trustProxy :: "string option \<Rightarrow> trust_proxy option parsed" where
  "trustProxy v =
     (case v of
        None \<Rightarrow> Inr None
      | Some raw \<Rightarrow>
          (let t = trim raw in
           if all_digits t
           then (if number_of t \<le> MAX_SAFE_INTEGER then Inr (Some (Hops (number_of t)))
                 else Inl (Bad_value ''TRUST_PROXY''))
           else if t \<noteq> [] \<and> list_all (\<lambda>part. isTrustProxyEntry (trim part)) (split_on CHR '','' t)
           then Inr (Some (Trust_list t)) else Inl (Bad_value ''TRUST_PROXY'')))"

section \<open>OIDC settings\<close>

definition MUTABLE_SUBJECT_CLAIMS :: "string list" where
  "MUTABLE_SUBJECT_CLAIMS =
     [''email'', ''preferred_username'', ''name'', ''given_name'', ''family_name'', ''nickname'', ''upn'',
      ''unique_name'']"

text \<open>One \<^verbatim>\<open>released=upstream\<close> pair, cut at the first equals sign.\<close>

definition claim_pair :: "string \<Rightarrow> (string \<times> string) option" where
  "claim_pair part =
     (let pair = trim part;
          hasEq = CHR ''='' \<in> set pair;
          released = (if hasEq then trim (takeWhile (\<lambda>c. c \<noteq> CHR ''='') pair) else []);
          upstream = (if hasEq then trim (drop 1 (dropWhile (\<lambda>c. c \<noteq> CHR ''='') pair)) else []) in
      if released = [] \<or> upstream = [] \<or> CHR ''='' \<in> set upstream then None else Some (released, upstream))"

fun claim_pairs :: "(string, string) jsmap \<Rightarrow> string list \<Rightarrow> (string, string) jsmap parsed" where
  "claim_pairs m [] = Inr m"
| "claim_pairs m (part # parts) =
     (case claim_pair part of
        None \<Rightarrow> Inl (Bad_value ''OIDC_CLAIM_MAP'')
      | Some (released, upstream) \<Rightarrow>
          if jm_has released m then Inl (Bad_value ''OIDC_CLAIM_MAP'')
          else claim_pairs (AList.update released upstream m) parts)"

definition claimMap :: "string option \<Rightarrow> (string, string) jsmap parsed" where
  "claimMap v =
     (case v of
        None \<Rightarrow> Inr []
      | Some raw \<Rightarrow> if trim raw = [] then Inr [] else claim_pairs [] (split_on CHR '','' raw))"

definition adminGroups :: "string option \<Rightarrow> string list" where
  "adminGroups v =
     filter (\<lambda>g. g \<noteq> []) (map trim (split_on CHR '','' (case v of None \<Rightarrow> [] | Some raw \<Rightarrow> raw)))"

definition subjectClaim :: "string option \<Rightarrow> string parsed" where
  "subjectClaim v =
     (case v of
        None \<Rightarrow> Inr ''sub''
      | Some raw \<Rightarrow>
          (let claim = trim raw in
           if claim = [] \<or> to_lower claim \<in> set MUTABLE_SUBJECT_CLAIMS then Inl (Bad_value ''OIDC_SUBJECT_CLAIM'')
           else Inr claim))"

text \<open>\<^verbatim>\<open>z.coerce.number().int().positive().default(3000)\<close>; a safe integer is meant.\<close>

definition port :: "(string \<Rightarrow> rat option) \<Rightarrow> string option \<Rightarrow> nat parsed" where
  "port toNumber v =
     (case v of
        None \<Rightarrow> Inr 3000
      | Some raw \<Rightarrow>
          (case toNumber raw of
             None \<Rightarrow> Inl (Bad_value ''PORT'')
           | Some q \<Rightarrow>
               if q = of_nat (nat \<lfloor>q\<rfloor>) \<and> 0 < q \<and> nat \<lfloor>q\<rfloor> \<le> MAX_SAFE_INTEGER then Inr (nat \<lfloor>q\<rfloor>)
               else Inl (Bad_value ''PORT'')))"

section \<open>The configuration\<close>

record env_values =
  ev_databaseUrl :: string
  ev_issuerUrl :: string
  ev_port :: nat
  ev_logLevel :: string
  ev_cookieSecret :: string
  ev_trustProxy :: "trust_proxy option"
  ev_metricsToken :: "string option"
  ev_setupToken :: "string option"
  ev_enableOidc :: bool
  ev_oidcIssuer :: "string option"
  ev_oidcClientId :: "string option"
  ev_oidcClientSecret :: "string option"
  ev_claimMap :: "(string, string) jsmap"
  ev_subjectClaim :: string
  ev_adminGroups :: "string list"
  ev_enableLocalAccounts :: bool
  ev_enableDcr :: bool
  ev_allowInsecure :: bool
  ev_resourceServersPath :: "string option"
  ev_trustPolicyPath :: "string option"

record oidc_settings =
  os_issuer :: string
  os_clientId :: string
  os_clientSecret :: string
  os_subjectClaim :: string

record config =
  cf_databaseUrl :: string
  cf_issuerUrl :: string
  cf_port :: nat
  cf_logLevel :: string
  cf_cookieSecret :: string
  cf_trustProxy :: "trust_proxy option"
  cf_metricsToken :: "string option"
  cf_setupToken :: "string option"
  cf_enableOidc :: bool
  cf_oidc :: "oidc_settings option"
  cf_claimMap :: "(string, string) jsmap"
  cf_adminGroups :: "string list"
  cf_enableLocalAccounts :: bool
  cf_enableDcr :: bool
  cf_allowInsecureClientMetadata :: bool
  cf_trustPolicyPath :: string

text \<open>The host: the variables, zod's URL check, \<^verbatim>\<open>new URL\<close>, \<^verbatim>\<open>Number\<close>, and the default policy path.\<close>

record host =
  ho_env :: "string \<Rightarrow> string option"
  ho_zurl :: url_check
  ho_parse :: url_parser
  ho_number :: "string \<Rightarrow> rat option"
  ho_policyPath :: string

fun bind_parsed :: "'v parsed \<Rightarrow> ('v \<Rightarrow> 'w parsed) \<Rightarrow> 'w parsed" where
  "bind_parsed (Inl i) f = Inl i"
| "bind_parsed (Inr v) f = f v"

text \<open>The object schema; of several issues the first is kept.\<close>

definition parse_env :: "host \<Rightarrow> env_values parsed" where
  "parse_env h =
     (let v = ho_env h in
      bind_parsed (required_min ''DATABASE_URL'' 1 (v ''DATABASE_URL'')) (\<lambda>database.
      bind_parsed (issuerUrl (ho_zurl h) (ho_parse h) (v ''ISSUER_URL'')) (\<lambda>issuer.
      bind_parsed (port (ho_number h) (v ''PORT'')) (\<lambda>p.
      bind_parsed (required_min ''COOKIE_SECRET'' 32 (v ''COOKIE_SECRET'')) (\<lambda>secret.
      bind_parsed (trustProxy (v ''TRUST_PROXY'')) (\<lambda>trust.
      bind_parsed (optional_min ''METRICS_TOKEN'' 32 (v ''METRICS_TOKEN'')) (\<lambda>metrics.
      bind_parsed (optional_min ''SETUP_TOKEN'' 32 (v ''SETUP_TOKEN'')) (\<lambda>setup.
      bind_parsed (boolFromEnv ''ENABLE_OIDC'' True (v ''ENABLE_OIDC'')) (\<lambda>oidc.
      bind_parsed (optional_url (ho_zurl h) ''OIDC_ISSUER'' (v ''OIDC_ISSUER'')) (\<lambda>oidcIssuer.
      bind_parsed (optional_min ''OIDC_CLIENT_ID'' 1 (v ''OIDC_CLIENT_ID'')) (\<lambda>clientId.
      bind_parsed (optional_min ''OIDC_CLIENT_SECRET'' 1 (v ''OIDC_CLIENT_SECRET'')) (\<lambda>clientSecret.
      bind_parsed (claimMap (v ''OIDC_CLAIM_MAP'')) (\<lambda>claims.
      bind_parsed (subjectClaim (v ''OIDC_SUBJECT_CLAIM'')) (\<lambda>subject.
      bind_parsed (boolFromEnv ''ENABLE_LOCAL_ACCOUNTS'' False (v ''ENABLE_LOCAL_ACCOUNTS'')) (\<lambda>accounts.
      bind_parsed (boolFromEnv ''ENABLE_DCR'' False (v ''ENABLE_DCR'')) (\<lambda>dcr.
      bind_parsed (boolFromEnv ''ALLOW_INSECURE_CLIENT_METADATA'' False (v ''ALLOW_INSECURE_CLIENT_METADATA''))
        (\<lambda>insecure.
      Inr \<lparr>ev_databaseUrl = database, ev_issuerUrl = issuer, ev_port = p,
           ev_logLevel = (case v ''LOG_LEVEL'' of None \<Rightarrow> ''warn'' | Some l \<Rightarrow> l),
           ev_cookieSecret = secret, ev_trustProxy = trust, ev_metricsToken = metrics, ev_setupToken = setup,
           ev_enableOidc = oidc, ev_oidcIssuer = oidcIssuer, ev_oidcClientId = clientId,
           ev_oidcClientSecret = clientSecret, ev_claimMap = claims, ev_subjectClaim = subject,
           ev_adminGroups = adminGroups (v ''ADMIN_GROUPS''), ev_enableLocalAccounts = accounts,
           ev_enableDcr = dcr, ev_allowInsecure = insecure,
           ev_resourceServersPath = v ''RESOURCE_SERVERS_PATH'',
           ev_trustPolicyPath = v ''TRUST_POLICY_PATH''\<rparr>)))))))))))))))))"

text \<open>The issues of \<^verbatim>\<open>superRefine\<close>, all of them.\<close>

definition missing_oidc :: "env_values \<Rightarrow> issue list" where
  "missing_oidc v =
     map (\<lambda>(k, _). Required k)
       (filter (\<lambda>(_, x). truthy x = None)
          [(''OIDC_ISSUER'', ev_oidcIssuer v), (''OIDC_CLIENT_ID'', ev_oidcClientId v),
           (''OIDC_CLIENT_SECRET'', ev_oidcClientSecret v)])"

definition refine_env :: "env_values \<Rightarrow> issue list" where
  "refine_env v =
     (if \<not> ev_enableOidc v \<and> \<not> ev_enableLocalAccounts v then [No_provider] else []) @
     (if ev_enableDcr v then [Not_supported ''ENABLE_DCR''] else []) @
     (if truthy (ev_resourceServersPath v) \<noteq> None then [Not_supported ''RESOURCE_SERVERS_PATH''] else []) @
     (if ev_enableOidc v then missing_oidc v else [])"

definition loadEnv :: "host \<Rightarrow> issue list + env_values" where
  "loadEnv h =
     (case parse_env h of
        Inl i \<Rightarrow> Inl [i]
      | Inr v \<Rightarrow> if refine_env v = [] then Inr v else Inl (refine_env v))"

definition some_or_empty :: "string option \<Rightarrow> string" where
  "some_or_empty v = (case v of None \<Rightarrow> [] | Some s \<Rightarrow> s)"

definition config_of :: "host \<Rightarrow> env_values \<Rightarrow> config" where
  "config_of h v =
     \<lparr>cf_databaseUrl = ev_databaseUrl v, cf_issuerUrl = ev_issuerUrl v, cf_port = ev_port v,
      cf_logLevel = ev_logLevel v, cf_cookieSecret = ev_cookieSecret v, cf_trustProxy = ev_trustProxy v,
      cf_metricsToken = ev_metricsToken v, cf_setupToken = ev_setupToken v, cf_enableOidc = ev_enableOidc v,
      cf_oidc = (if ev_enableOidc v
                 then Some \<lparr>os_issuer = some_or_empty (ev_oidcIssuer v), os_clientId = some_or_empty (ev_oidcClientId v),
                            os_clientSecret = some_or_empty (ev_oidcClientSecret v),
                            os_subjectClaim = ev_subjectClaim v\<rparr>
                 else None),
      cf_claimMap = ev_claimMap v, cf_adminGroups = ev_adminGroups v,
      cf_enableLocalAccounts = ev_enableLocalAccounts v, cf_enableDcr = ev_enableDcr v,
      cf_allowInsecureClientMetadata = ev_allowInsecure v,
      cf_trustPolicyPath = (case ev_trustPolicyPath v of None \<Rightarrow> ho_policyPath h | Some p \<Rightarrow> p)\<rparr>"

definition load_config :: "host \<Rightarrow> issue list + config" where
  "load_config h = (case loadEnv h of Inl is \<Rightarrow> Inl is | Inr v \<Rightarrow> Inr (config_of h v))"

end
