(* ===== verification/ConfigProps.thy ===== *)
theory ConfigProps
  imports Config
begin

text \<open>
  What the proxy may rely on once its configuration is loaded.
\<close>

lemma bind_parsed_Inr [simp]: "bind_parsed p f = Inr v \<longleftrightarrow> (\<exists>x. p = Inr x \<and> f x = Inr v)"
  by (cases p) auto

lemma required_min_InrD: "required_min k n v = Inr s \<Longrightarrow> n \<le> length s"
  by (auto simp: required_min_def split: option.splits if_splits)

lemma optional_min_InrD: "optional_min k n v = Inr (Some s) \<Longrightarrow> n \<le> length s"
  by (auto simp: optional_min_def split: option.splits if_splits)

lemma issuerUrl_InrD:
  "issuerUrl zurl parse v = Inr s \<Longrightarrow> bare_origin_url parse s \<and> (\<exists>raw. v = Some raw \<and> zurl raw = Some s)"
  by (auto simp: issuerUrl_def split: option.splits if_splits)

lemma port_InrD: "port toNumber v = Inr p \<Longrightarrow> 0 < p"
  by (auto simp: port_def split: option.splits if_splits)

text \<open>What a stored \<^verbatim>\<open>TRUST_PROXY\<close> is.\<close>

fun trust_ok :: "trust_proxy \<Rightarrow> bool" where
  "trust_ok (Hops n) \<longleftrightarrow> n \<le> MAX_SAFE_INTEGER"
| "trust_ok (Trust_list l) \<longleftrightarrow> \<not> all_digits l \<and> list_all (\<lambda>part. isTrustProxyEntry (trim part)) (split_on CHR '','' l)"

lemma trustProxy_InrD: "trustProxy v = Inr (Some t) \<Longrightarrow> trust_ok t"
  by (auto simp: trustProxy_def Let_def split: option.splits if_splits)

text \<open>No word for a boolean is an entry.\<close>

lemma no_boolean_entry:
  "\<not> isTrustProxyEntry ''true''" "\<not> isTrustProxyEntry ''false''" "\<not> isTrustProxyEntry ''yes''"
  "\<not> isTrustProxyEntry ''no''" "\<not> isTrustProxyEntry ''on''" "\<not> isTrustProxyEntry ''off''"
  by code_simp+

lemma no_boolean_list: "\<not> trust_ok (Trust_list l)" if "l \<in> {''true'', ''false'', ''yes'', ''no'', ''on'', ''off''}"
proof -
  have "list_ex (\<lambda>part. \<not> isTrustProxyEntry (trim part)) (split_on CHR '','' x)"
    if "x \<in> {''true'', ''false'', ''yes'', ''no'', ''on'', ''off''}" for x
  proof -
    have "split_on CHR '','' x = [x]" "trim x = x" using that by (auto simp: trim_def is_space_def code_def)
    then show ?thesis using that no_boolean_entry by auto
  qed
  from this [OF that] show ?thesis by (auto simp: list_ex_iff list_all_iff)
qed

definition claim_name_ok :: "string \<Rightarrow> bool" where
  "claim_name_ok n \<longleftrightarrow> n \<noteq> [] \<and> CHR ''='' \<notin> set n"

lemma set_trim: "set (trim s) \<subseteq> set s"
proof -
  have d: "set (dropWhile P xs) \<subseteq> set xs" for P and xs :: string by (auto dest: set_dropWhileD)
  show ?thesis
    using d [of is_space "rev (dropWhile is_space s)"] d [of is_space s] by (simp add: trim_def)
qed

lemma claim_pair_SomeD:
  assumes "claim_pair part = Some (a, b)" shows "claim_name_ok a" "claim_name_ok b"
proof -
  from assms have a: "a = trim (takeWhile (\<lambda>c. c \<noteq> CHR ''='') (trim part))" "a \<noteq> []" and b: "b \<noteq> []" "CHR ''='' \<notin> set b"
    by (auto simp: claim_pair_def Let_def split: if_splits)
  have "CHR ''='' \<notin> set a" unfolding a(1) using set_trim set_takeWhileD by fastforce
  with a b show "claim_name_ok a" "claim_name_ok b" by (auto simp: claim_name_ok_def)
qed

definition claims_ok :: "(string, string) jsmap \<Rightarrow> bool" where
  "claims_ok m \<longleftrightarrow> distinct (map fst m) \<and> list_all (\<lambda>(a, b). claim_name_ok a \<and> claim_name_ok b) m"

lemma claim_pairs_ok: "claim_pairs m parts = Inr m' \<Longrightarrow> claims_ok m \<Longrightarrow> claims_ok m'"
proof (induction m parts rule: claim_pairs.induct)
  case (2 m part parts)
  from "2.prems"(1) obtain a b where p: "claim_pair part = Some (a, b)" "\<not> jm_has a m"
    "claim_pairs (AList.update a b m) parts = Inr m'"
    by (auto split: option.splits if_splits)
  have "claims_ok (AList.update a b m)"
    using "2.prems"(2) p(2) claim_pair_SomeD [OF p(1)]
    by (auto simp: claims_ok_def jm_has_def update_fresh image_iff)
  then show ?case using "2.IH" p by auto
qed simp

lemma claimMap_ok: "claimMap v = Inr m \<Longrightarrow> claims_ok m"
  using claim_pairs_ok [of "[]"]
  by (auto simp: claimMap_def claims_ok_def split: option.splits if_splits)

lemma load_config_InrD:
  assumes "load_config h = Inr c"
  obtains v where "parse_env h = Inr v" "refine_env v = []" "c = config_of h v"
  using assms by (auto simp: load_config_def loadEnv_def split: sum.splits if_splits)

lemma parse_env_InrD:
  assumes "parse_env h = Inr v"
  shows "issuerUrl (ho_zurl h) (ho_parse h) (ho_env h ''ISSUER_URL'') = Inr (ev_issuerUrl v)"
    and "port (ho_number h) (ho_env h ''PORT'') = Inr (ev_port v)"
    and "required_min ''COOKIE_SECRET'' 32 (ho_env h ''COOKIE_SECRET'') = Inr (ev_cookieSecret v)"
    and "trustProxy (ho_env h ''TRUST_PROXY'') = Inr (ev_trustProxy v)"
    and "optional_min ''METRICS_TOKEN'' 32 (ho_env h ''METRICS_TOKEN'') = Inr (ev_metricsToken v)"
    and "optional_min ''SETUP_TOKEN'' 32 (ho_env h ''SETUP_TOKEN'') = Inr (ev_setupToken v)"
    and "claimMap (ho_env h ''OIDC_CLAIM_MAP'') = Inr (ev_claimMap v)"
    and "subjectClaim (ho_env h ''OIDC_SUBJECT_CLAIM'') = Inr (ev_subjectClaim v)"
    and "ev_resourceServersPath v = ho_env h ''RESOURCE_SERVERS_PATH''"
  using assms unfolding parse_env_def Let_def by auto

lemma refine_env_NilD:
  assumes "refine_env v = []"
  shows "ev_enableOidc v \<or> ev_enableLocalAccounts v" and "\<not> ev_enableDcr v"
    and "truthy (ev_resourceServersPath v) = None"
    and "ev_enableOidc v \<Longrightarrow>
      truthy (ev_oidcIssuer v) \<noteq> None \<and> truthy (ev_oidcClientId v) \<noteq> None \<and> truthy (ev_oidcClientSecret v) \<noteq> None"
  using assms by (auto simp: refine_env_def truthy_def missing_oidc_def split: if_splits option.splits)

definition subject_ok :: "string \<Rightarrow> bool" where
  "subject_ok c \<longleftrightarrow> c \<noteq> [] \<and> to_lower c \<notin> set MUTABLE_SUBJECT_CLAIMS"

lemma subjectClaim_InrD: "subjectClaim v = Inr c \<Longrightarrow> subject_ok c"
proof -
  have "subject_ok ''sub''" by code_simp
  then show "subjectClaim v = Inr c \<Longrightarrow> subject_ok c"
    by (auto simp: subjectClaim_def subject_ok_def Let_def split: option.splits if_splits)
qed

definition settings_ok :: "oidc_settings \<Rightarrow> bool" where
  "settings_ok o' \<longleftrightarrow>
     os_issuer o' \<noteq> [] \<and> os_clientId o' \<noteq> [] \<and> os_clientSecret o' \<noteq> [] \<and> subject_ok (os_subjectClaim o')"

lemma some_or_empty_truthy: "truthy x \<noteq> None \<Longrightarrow> some_or_empty x \<noteq> []"
  by (auto simp: some_or_empty_def truthy_def split: option.splits if_splits)

lemma config_settings_ok:
  assumes "refine_env v = []" and "subject_ok (ev_subjectClaim v)" and "cf_oidc (config_of h v) = Some o'"
  shows "settings_ok o'"
proof -
  have on: "ev_enableOidc v" and o': "o' = \<lparr>os_issuer = some_or_empty (ev_oidcIssuer v),
      os_clientId = some_or_empty (ev_oidcClientId v), os_clientSecret = some_or_empty (ev_oidcClientSecret v),
      os_subjectClaim = ev_subjectClaim v\<rparr>"
    using assms(3) by (simp_all add: config_of_def split: if_splits)
  from refine_env_NilD(4) [OF assms(1) on] assms(2) show ?thesis
    unfolding o' settings_ok_def by (simp add: some_or_empty_truthy)
qed

text \<open>C38: A proxy that starts has a well-formed configuration.  The issuer is what the URL check accepted and, where
  it parses, a bare http(s) origin; some way to sign in is enabled, and with OIDC on its issuer, client and
  secret are all there, and the subject claim is not one a user can change; the cookie secret and the
  optional tokens have at least 32 characters; trust proxy is a hop count that is an exact integer, or a list each of
  whose entries is a keyword, an address or a block with a prefix in range, and never a boolean word; the
  claim map has distinct names that are not empty and hold no equals sign; DCR is off, and the retired
  setting is unset.\<close>

theorem config_sound:
  assumes "load_config h = Inr c"
  shows "(\<exists>raw. ho_env h ''ISSUER_URL'' = Some raw \<and> ho_zurl h raw = Some (cf_issuerUrl c)) \<and>
     (\<forall>u. ho_parse h (cf_issuerUrl c) = Some u \<longrightarrow>
        url_origin u = cf_issuerUrl c \<and> (url_protocol u = ''https:'' \<or> url_protocol u = ''http:'')) \<and>
     (cf_enableOidc c \<or> cf_enableLocalAccounts c) \<and> (cf_oidc c = None \<longleftrightarrow> \<not> cf_enableOidc c) \<and>
     (\<forall>o'. cf_oidc c = Some o' \<longrightarrow> settings_ok o') \<and>
     32 \<le> length (cf_cookieSecret c) \<and> (\<forall>t. cf_metricsToken c = Some t \<longrightarrow> 32 \<le> length t) \<and>
     (\<forall>t. cf_setupToken c = Some t \<longrightarrow> 32 \<le> length t) \<and> 0 < cf_port c \<and>
     (\<forall>t. cf_trustProxy c = Some t \<longrightarrow> trust_ok t \<and>
        (\<forall>l. t = Trust_list l \<longrightarrow> l \<notin> {''true'', ''false'', ''yes'', ''no'', ''on'', ''off''})) \<and>
     claims_ok (cf_claimMap c) \<and> \<not> cf_enableDcr c \<and>
     truthy (ho_env h ''RESOURCE_SERVERS_PATH'') = None"
proof -
  from assms obtain v where v: "parse_env h = Inr v" "refine_env v = []" "c = config_of h v"
    by (rule load_config_InrD)
  note f = parse_env_InrD [OF v(1)] and r = refine_env_NilD [OF v(2)]
  have cf: "cf_issuerUrl c = ev_issuerUrl v" "cf_enableOidc c = ev_enableOidc v"
    "cf_enableLocalAccounts c = ev_enableLocalAccounts v" "cf_cookieSecret c = ev_cookieSecret v"
    "cf_metricsToken c = ev_metricsToken v" "cf_setupToken c = ev_setupToken v" "cf_port c = ev_port v"
    "cf_trustProxy c = ev_trustProxy v" "cf_claimMap c = ev_claimMap v" "cf_enableDcr c = ev_enableDcr v"
    "cf_oidc c = None \<longleftrightarrow> \<not> ev_enableOidc v"
    by (simp_all add: v(3) config_of_def)
  have issuer: "\<exists>raw. ho_env h ''ISSUER_URL'' = Some raw \<and> ho_zurl h raw = Some (ev_issuerUrl v)"
    "\<forall>u. ho_parse h (ev_issuerUrl v) = Some u \<longrightarrow>
      url_origin u = ev_issuerUrl v \<and> (url_protocol u = ''https:'' \<or> url_protocol u = ''http:'')"
    using issuerUrl_InrD [OF f(1)] by (auto simp: bare_origin_url_def)
  have settings: "\<forall>o'. cf_oidc c = Some o' \<longrightarrow> settings_ok o'"
    using config_settings_ok [OF v(2) subjectClaim_InrD [OF f(8)]] v(3) by blast
  have tokens: "\<forall>t. ev_metricsToken v = Some t \<longrightarrow> 32 \<le> length t" "\<forall>t. ev_setupToken v = Some t \<longrightarrow> 32 \<le> length t"
    using optional_min_InrD f(5,6) by metis+
  have lists: "\<forall>t. ev_trustProxy v = Some t \<longrightarrow> trust_ok t \<and>
      (\<forall>l. t = Trust_list l \<longrightarrow> l \<notin> {''true'', ''false'', ''yes'', ''no'', ''on'', ''off''})"
  proof (intro allI impI)
    fix t assume "ev_trustProxy v = Some t"
    then have "trust_ok t" using trustProxy_InrD f(4) by simp
    then show "trust_ok t \<and> (\<forall>l. t = Trust_list l \<longrightarrow> l \<notin> {''true'', ''false'', ''yes'', ''no'', ''on'', ''off''})"
      using no_boolean_list by blast
  qed
  have gone: "truthy (ho_env h ''RESOURCE_SERVERS_PATH'') = None" using r(3) f(9) by simp
  show ?thesis
    unfolding cf
    by (intro conjI)
      (fact issuer | fact r(1) | fact r(2) | rule refl | fact settings | fact tokens | fact gone | fact lists |
       fact required_min_InrD [OF f(3)] | fact port_InrD [OF f(2)] | fact claimMap_ok [OF f(7)])+
qed

definition sample_host :: host where
  "sample_host =
     \<lparr>ho_env = map_of
        [(''DATABASE_URL'', ''postgres://db''), (''ISSUER_URL'', ''https://as.example''),
         (''COOKIE_SECRET'', replicate 32 CHR ''s''), (''TRUST_PROXY'', '' loopback, 10.0.0.0/8''),
         (''ENABLE_OIDC'', ''FALSE''), (''ENABLE_LOCAL_ACCOUNTS'', '' true''), (''OIDC_CLAIM_MAP'', ''groups=roles'')],
      ho_zurl = (\<lambda>x. Some x), ho_parse = (\<lambda>_. None), ho_number = (\<lambda>_. None), ho_policyPath = ''policy.yaml''\<rparr>"

lemma sample_values:
  "trustProxy (Some '' loopback, 10.0.0.0/8'') = Inr (Some (Trust_list ''loopback, 10.0.0.0/8''))"
  "claimMap (Some ''groups=roles'') = Inr [(''groups'', ''roles'')]"
  "boolFromEnv ''ENABLE_OIDC'' True (Some ''FALSE'') = Inr False"
  "boolFromEnv ''ENABLE_LOCAL_ACCOUNTS'' False (Some '' true'') = Inr True"
  by code_simp+

lemma sample_loaded:
  "\<exists>c. load_config sample_host = Inr c \<and> cf_trustProxy c = Some (Trust_list ''loopback, 10.0.0.0/8'') \<and>
     cf_issuerUrl c = ''https://as.example'' \<and> \<not> cf_enableOidc c \<and> cf_enableLocalAccounts c"
proof -
  have "required_min ''DATABASE_URL'' 1 (Some ''postgres://db'') = Inr ''postgres://db''"
    "required_min ''COOKIE_SECRET'' 32 (Some (replicate 32 CHR ''s'')) = Inr (replicate 32 CHR ''s'')"
    by (simp_all add: required_min_def)
  then show ?thesis
    by (simp add: load_config_def loadEnv_def parse_env_def sample_host_def sample_values issuerUrl_def port_def
        bare_origin_url_def optional_min_def optional_url_def subjectClaim_def refine_env_def config_of_def
        boolFromEnv_def [of _ _ None] missing_oidc_def)
qed

lemma config_sound_sample:
  "\<exists>c. load_config sample_host = Inr c \<and> cf_enableOidc c \<noteq> cf_enableLocalAccounts c \<and>
     trust_ok (Trust_list ''loopback, 10.0.0.0/8'')"
proof -
  from sample_loaded obtain c where c: "load_config sample_host = Inr c"
    "cf_trustProxy c = Some (Trust_list ''loopback, 10.0.0.0/8'')" "\<not> cf_enableOidc c" "cf_enableLocalAccounts c"
    by blast
  have "trust_ok (Trust_list ''loopback, 10.0.0.0/8'')" using config_sound [OF c(1)] c(2) by simp
  with c show ?thesis by blast
qed

end
