(* ===== verification/Http.thy ===== *)
theory Http
  imports Config Upstream SigningKeys
begin

text \<open>
  The HTTP surface that is not a flow: \<^verbatim>\<open>oauth/discovery.ts\<close>, \<^verbatim>\<open>crypto/jwks-router.ts\<close>,
  \<^verbatim>\<open>security-headers.ts\<close>, \<^verbatim>\<open>ops.ts\<close>, and of \<^verbatim>\<open>server.ts\<close> the request identifier, the headers of every
  response, the order of the routers and the error boundary.  Express matches paths and parses
  bodies; the hash of the one inline script is a parameter.
\<close>

section \<open>Responses\<close>

record http_reply =
  hr_status :: nat
  hr_headers :: "(string, string) jsmap"
  hr_body :: "json option"

section \<open>Discovery and the key set\<close>

definition strings :: "string list \<Rightarrow> json" where
  "strings xs = JArr (map JStr xs)"

definition buildMetadata :: "config \<Rightarrow> json" where
  "buildMetadata c =
     (let issuer = cf_issuerUrl c in
      JObj ([(''issuer'', JStr issuer),
             (''authorization_endpoint'', JStr (issuer @ ''/oauth/authorize'')),
             (''token_endpoint'', JStr (issuer @ ''/oauth/token'')),
             (''response_types_supported'', strings [''code'']),
             (''authorization_response_iss_parameter_supported'', JBool True),
             (''jwks_uri'', JStr (issuer @ ''/.well-known/jwks.json'')),
             (''device_authorization_endpoint'', JStr (issuer @ ''/oauth/device/code'')),
             (''grant_types_supported'',
              strings [''authorization_code'', ''refresh_token'', ''urn:ietf:params:oauth:grant-type:device_code'']),
             (''code_challenge_methods_supported'', strings [''S256'']),
             (''token_endpoint_auth_methods_supported'', strings [''none'', ''private_key_jwt'']),
             (''revocation_endpoint'', JStr (issuer @ ''/oauth/revoke'')),
             (''revocation_endpoint_auth_methods_supported'', strings [''none'', ''private_key_jwt'']),
             (''client_id_metadata_document_supported'', JBool True)] @
            (if cf_enableDcr c then [(''registration_endpoint'', JStr (issuer @ ''/oauth/register''))] else [])))"

definition discovery_reply :: "config \<Rightarrow> http_reply" where
  "discovery_reply c = \<lparr>hr_status = 200, hr_headers = [], hr_body = Some (buildMetadata c)\<rparr>"

definition jwks_reply :: "time_ms \<Rightarrow> 'a db_scheme \<Rightarrow> http_reply" where
  "jwks_reply now s =
     \<lparr>hr_status = 200, hr_headers = [(''cache-control'', ''public, max-age=3600'')],
      hr_body = Some (JObj [(''keys'', JArr (getJwks now s))])\<rparr>"

section \<open>Content security policy\<close>

text \<open>A word in single quotes.\<close>

definition quoted :: "string \<Rightarrow> string" where
  "quoted w = char_of (39 :: nat) # w @ [char_of (39 :: nat)]"

definition POLICY_PREFIX :: "string \<Rightarrow> string" where
  "POLICY_PREFIX script_hash =
     ''default-src '' @ quoted ''none'' @ ''; script-src '' @ quoted (''sha256-'' @ script_hash) @
     ''; style-src '' @ quoted ''self'' @ ''; img-src '' @ quoted ''self'' @ '' https:; font-src '' @ quoted ''self'' @
     ''; form-action''"

definition POLICY_SUFFIX :: string where
  "POLICY_SUFFIX = ''frame-ancestors '' @ quoted ''none'' @ ''; base-uri '' @ quoted ''none''"

definition CONTENT_SECURITY_POLICY :: "string \<Rightarrow> string" where
  "CONTENT_SECURITY_POLICY script_hash = POLICY_PREFIX script_hash @ '' '' @ quoted ''self'' @ ''; '' @ POLICY_SUFFIX"

text \<open>\<^verbatim>\<open>/^https?:\/\/[A-Za-z0-9.\-[\]:]+$/\<close>\<close>

definition origin_char :: "char \<Rightarrow> bool" where
  "origin_char c \<longleftrightarrow> is_alnum c \<or> c \<in> set ''.-[]:''"

definition is_origin_source :: "string \<Rightarrow> bool" where
  "is_origin_source s \<longleftrightarrow>
     (let rest = (if starts_with ''http://'' s then drop 7 s else drop 8 s) in
      (starts_with ''http://'' s \<or> starts_with ''https://'' s) \<and> rest \<noteq> [] \<and> list_all origin_char rest)"

definition FORBIDDEN_SCHEMES :: "string list" where
  "FORBIDDEN_SCHEMES = [''javascript:'', ''data:'', ''blob:'', ''file:'', ''about:'', ''filesystem:'', ''urn:'']"

text \<open>\<^verbatim>\<open>/^[a-z][a-z0-9+.-]*:$/\<close>, and none of the schemes above.\<close>

definition is_scheme_source :: "string \<Rightarrow> bool" where
  "is_scheme_source s \<longleftrightarrow>
     s \<noteq> [] \<and> last s = CHR '':'' \<and>
     (case butlast s of [] \<Rightarrow> False
      | c # cs \<Rightarrow> is_lower c \<and> list_all (\<lambda>x. is_lower x \<or> is_digit x \<or> x \<in> set ''+.-'') cs) \<and>
     s \<notin> set FORBIDDEN_SCHEMES"

definition formActionSource :: "url_parser \<Rightarrow> string \<Rightarrow> string option" where
  "formActionSource parse target =
     (case parse target of
        None \<Rightarrow> None
      | Some u \<Rightarrow>
          (let source = (if url_protocol u = ''http:'' \<or> url_protocol u = ''https:'' then url_origin u
                         else url_protocol u) in
           if is_origin_source source then Some source
           else if is_scheme_source source then Some source else None))"

definition contentSecurityPolicyAllowingFormTarget :: "string \<Rightarrow> url_parser \<Rightarrow> string \<Rightarrow> string" where
  "contentSecurityPolicyAllowingFormTarget script_hash parse target =
     (case formActionSource parse target of
        None \<Rightarrow> CONTENT_SECURITY_POLICY script_hash
      | Some source \<Rightarrow>
          POLICY_PREFIX script_hash @ '' '' @ quoted ''self'' @ '' '' @ source @ ''; '' @ POLICY_SUFFIX)"

definition allowFormSubmissionTo :: "string \<Rightarrow> url_parser \<Rightarrow> string \<Rightarrow> http_reply \<Rightarrow> http_reply" where
  "allowFormSubmissionTo script_hash parse target r =
     r\<lparr>hr_headers := AList.update ''Content-Security-Policy''
         (contentSecurityPolicyAllowingFormTarget script_hash parse target) (hr_headers r)\<rparr>"

section \<open>Readiness and metrics\<close>

definition READY_CACHE_MS :: int where "READY_CACHE_MS = 5000"

record readiness =
  rd_ready :: bool
  rd_checks :: "(string, bool) jsmap"

text \<open>\<open>db_up\<close> says whether the query succeeds.\<close>

definition computeReadiness ::
    "env \<Rightarrow> provider \<Rightarrow> time_ms \<Rightarrow> bool \<Rightarrow> 'a upstream_state_scheme \<Rightarrow> 'a upstream_state_scheme \<times> readiness" where
  "computeReadiness e pv now db_up s =
     (if \<not> e_enableOidc e
      then (s, \<lparr>rd_ready = db_up, rd_checks = [(''database'', db_up)]\<rparr>)
      else (case getOidcConfig e pv now s of
        (s1, c) \<Rightarrow> (s1, \<lparr>rd_ready = (db_up \<and> c \<noteq> None), rd_checks = [(''database'', db_up), (''oidc'', c \<noteq> None)]\<rparr>)))"

definition ready_reply :: "readiness \<Rightarrow> http_reply" where
  "ready_reply r =
     \<lparr>hr_status = (if rd_ready r then 200 else 503), hr_headers = [],
      hr_body = Some (JObj [(''status'', JStr (if rd_ready r then ''ready'' else ''not_ready'')),
                            (''checks'', JObj (map (\<lambda>(k, b). (k, JBool b)) (rd_checks r)))])\<rparr>"

definition ready_get ::
    "env \<Rightarrow> provider \<Rightarrow> time_ms \<Rightarrow> bool \<Rightarrow> 'a upstream_state_scheme \<Rightarrow> (time_ms \<times> readiness) option \<Rightarrow>
     'a upstream_state_scheme \<times> (time_ms \<times> readiness) option \<times> http_reply" where
  "ready_get e pv now db_up s cache =
     (case cache of
        Some (at_time, r) \<Rightarrow>
          if now - at_time < READY_CACHE_MS then (s, cache, ready_reply r)
          else (case computeReadiness e pv now db_up s of (s1, r') \<Rightarrow> (s1, Some (now, r'), ready_reply r'))
      | None \<Rightarrow> (case computeReadiness e pv now db_up s of (s1, r') \<Rightarrow> (s1, Some (now, r'), ready_reply r')))"

text \<open>The name of a rejection reason, as it is written in the source.\<close>

fun reason_name :: "reject_reason \<Rightarrow> string" where
  "reason_name Invalid_url = ''invalid_url''"
| "reason_name Invalid_scheme = ''invalid_scheme''"
| "reason_name Insecure_http_not_loopback = ''insecure_http_not_loopback''"
| "reason_name Port_not_allowed = ''port_not_allowed''"
| "reason_name Dns_resolution_failed = ''dns_resolution_failed''"
| "reason_name Blocked_address = ''blocked_address''"
| "reason_name Rate_limited = ''rate_limited''"
| "reason_name Busy = ''busy''"
| "reason_name Timeout = ''timeout''"
| "reason_name Response_too_large = ''response_too_large''"
| "reason_name Too_many_redirects = ''too_many_redirects''"
| "reason_name Invalid_redirect = ''invalid_redirect''"
| "reason_name Http_error = ''http_error''"
| "reason_name Invalid_content_type = ''invalid_content_type''"
| "reason_name Invalid_json = ''invalid_json''"
| "reason_name Connection_error = ''connection_error''"

definition ssrf_counters :: "fetch_state \<Rightarrow> external_counters" where
  "ssrf_counters f =
     [(''ssrf_rejections_total'', map (\<lambda>(r, n). ([(''reason'', reason_name r)], int n)) (rejections f))]"

text \<open>\<^verbatim>\<open>/^Bearer (.+)$/i\<close>: the rest of a header that holds no line break.\<close>

definition presented_token :: "string option \<Rightarrow> string" where
  "presented_token authorization =
     (let h = some_or_empty authorization; rest = drop 7 h in
      if to_lower (take 7 h) = ''bearer '' \<and> rest \<noteq> [] \<and> list_all (\<lambda>c. code c \<noteq> 10 \<and> code c \<noteq> 13) rest
      then rest else [])"

text \<open>The text of the counters, when it is shown.\<close>

definition metrics_get ::
    "config \<Rightarrow> string option \<Rightarrow> 'a client_state_scheme \<Rightarrow> http_reply \<times> string option" where
  "metrics_get c authorization s =
     (case truthy (cf_metricsToken c) of
        None \<Rightarrow> (\<lparr>hr_status = 404, hr_headers = [], hr_body = None\<rparr>, None)
      | Some expected \<Rightarrow>
          if presented_token authorization \<noteq> expected
          then (\<lparr>hr_status = 401, hr_headers = [(''WWW-Authenticate'', ''Bearer'')], hr_body = None\<rparr>, None)
          else (\<lparr>hr_status = 200, hr_headers = [(''Content-Type'', ''text/plain; version=0.0.4; charset=utf-8'')],
                 hr_body = None\<rparr>, Some (renderPrometheus s (ssrf_counters (fetcher s)))))"

section \<open>Every request\<close>

definition printable :: "char \<Rightarrow> bool" where
  "printable c \<longleftrightarrow> 0x20 \<le> code c \<and> code c \<le> 0x7E"

definition request_id :: "string \<Rightarrow> string option \<Rightarrow> string" where
  "request_id fresh raw =
     (case truthy raw of
        None \<Rightarrow> fresh
      | Some r \<Rightarrow> (let i = take 64 (filter printable r) in if i = [] then fresh else i))"

definition base_headers :: "string \<Rightarrow> url_parser \<Rightarrow> config \<Rightarrow> string \<Rightarrow> (string, string) jsmap" where
  "base_headers script_hash parse c rid =
     [(''X-Request-Id'', rid), (''X-Content-Type-Options'', ''nosniff''), (''X-Frame-Options'', ''DENY''),
      (''Referrer-Policy'', ''no-referrer''), (''Content-Security-Policy'', CONTENT_SECURITY_POLICY script_hash)] @
     (if (case parse (cf_issuerUrl c) of None \<Rightarrow> False | Some u \<Rightarrow> url_protocol u = ''https:'')
      then [(''Strict-Transport-Security'', ''max-age=31536000'')] else []) @
     [(''Cache-Control'', ''no-store'')]"

datatype router_name =
    Ops_router | Jwks_router | Discovery_router | Authorize_router | Token_router | Device_router
  | Consent_router | Grants_router | Admin_router | Oidc_router | Local_accounts_router

definition mounted :: "config \<Rightarrow> router_name list" where
  "mounted c =
     [Ops_router, Jwks_router, Discovery_router, Authorize_router, Token_router, Device_router, Consent_router,
      Grants_router, Admin_router] @
     (if cf_enableOidc c then [Oidc_router] else []) @
     (if cf_enableLocalAccounts c then [Local_accounts_router] else [])"

text \<open>The status an error carries, 0 when it has none.\<close>

definition error_status :: "json \<Rightarrow> rat" where
  "error_status err =
     (case member err ''status'' of
        Some (JNum n) \<Rightarrow> n
      | _ \<Rightarrow> (case member err ''statusCode'' of Some (JNum n) \<Rightarrow> n | _ \<Rightarrow> 0))"

definition error_boundary :: "json \<Rightarrow> bool \<Rightarrow> (rat \<times> json) option" where
  "error_boundary err headersSent =
     (if headersSent then None
      else if 400 \<le> error_status err \<and> error_status err \<le> 499
      then Some (error_status err,
                 JObj [(''error'', JStr ''invalid_request''),
                       (''error_description'', JStr ''The request could not be processed'')])
      else Some (500, JObj [(''error'', JStr ''server_error''),
                            (''error_description'', JStr ''An internal error occurred'')]))"

end
