(* ===== verification/Startup.thy ===== *)
theory Startup
  imports Http LocalAccounts
begin

text \<open>
  The start of the process, the second half of \<^verbatim>\<open>server.ts\<close>, and what of an error reaches the log,
  \<^verbatim>\<open>logger.ts\<close>.  pino, timers and signals belong to the platform.
\<close>

section \<open>Errors in the log\<close>

text \<open>What was thrown: an \<^verbatim>\<open>Error\<close> with its members, a string, or another value by its type.\<close>

record error_object =
  eo_name :: string
  eo_message :: string
  eo_stack :: "string option"
  eo_members :: "(string, json) jsmap"

datatype thrown = Thrown_error error_object | Thrown_string string | Thrown_other string

text \<open>\<^verbatim>\<open>stack.search(/^\s+at /m)\<close> and the slice from there; the flag says that a line starts here.\<close>

definition line_break :: "char \<Rightarrow> bool" where
  "line_break c \<longleftrightarrow> code c = 10 \<or> code c = 13"

fun frames_from :: "bool \<Rightarrow> string \<Rightarrow> string option" where
  "frames_from b [] = None"
| "frames_from b (c # cs) =
     (if b \<and> is_space c \<and> starts_with ''at '' (dropWhile is_space cs) then Some (c # cs)
      else frames_from (line_break c) cs)"

definition stackFrames :: "error_object \<Rightarrow> string option" where
  "stackFrames e = (case eo_stack e of None \<Rightarrow> None | Some st \<Rightarrow> frames_from True st)"

definition text_member :: "error_object \<Rightarrow> string \<Rightarrow> json option" where
  "text_member e k = (case jm_get (eo_members e) k of Some (JStr s) \<Rightarrow> Some (JStr s) | _ \<Rightarrow> None)"

definition code_member :: "error_object \<Rightarrow> json option" where
  "code_member e =
     (case jm_get (eo_members e) ''code'' of
        Some (JStr s) \<Rightarrow> Some (JStr s) | Some (JNum n) \<Rightarrow> Some (JNum n) | _ \<Rightarrow> None)"

definition status_member :: "error_object \<Rightarrow> json option" where
  "status_member e =
     (case jm_get (eo_members e) ''status'' of
        Some (JNum n) \<Rightarrow> Some (JNum n)
      | _ \<Rightarrow> (case jm_get (eo_members e) ''statusCode'' of Some (JNum n) \<Rightarrow> Some (JNum n) | _ \<Rightarrow> None))"

definition message_unsafe :: "error_object \<Rightarrow> bool" where
  "message_unsafe e \<longleftrightarrow>
     starts_with ''PrismaClient'' (eo_name e) \<or> jm_get (eo_members e) ''expose'' = Some (JBool True)"

definition optional_entry :: "string \<Rightarrow> json option \<Rightarrow> (string, json) jsmap" where
  "optional_entry k v = (case v of None \<Rightarrow> [] | Some j \<Rightarrow> [(k, j)])"

fun serializeError :: "thrown \<Rightarrow> (string, json) jsmap" where
  "serializeError (Thrown_string s) = [(''type'', JStr ''string''), (''value'', JStr (take 200 s))]"
| "serializeError (Thrown_other t) = [(''type'', JStr t)]"
| "serializeError (Thrown_error e) =
     (''name'', JStr (eo_name e)) #
     (if message_unsafe e then [] else [(''message'', JStr (eo_message e))]) @
     optional_entry ''code'' (code_member e) @
     optional_entry ''status'' (status_member e) @
     optional_entry ''oauthError'' (text_member e ''error'') @
     optional_entry ''oauthErrorDescription'' (text_member e ''error_description'') @
     optional_entry ''stack'' (map_option JStr (stackFrames e))"

section \<open>Start\<close>

definition warnIfSetupUnprotected :: "config \<Rightarrow> 'a db_scheme \<Rightarrow> bool" where
  "warnIfSetupUnprotected c s \<longleftrightarrow> cf_setupToken c = None \<and> \<not> localAccountsExist s"

text \<open>What the start does, in order; the registry listener that is started is the one of the theory
  \<^verbatim>\<open>Listener\<close>.\<close>

datatype start_action =
    Exit_process | Start_failed | Key_ready string | Registry_loaded | Registry_listener_started
  | Warn_setup_unprotected | Port_open nat

definition start_server ::
    "config \<Rightarrow> env \<Rightarrow> provider \<Rightarrow> time_ms \<Rightarrow> key_pair list \<Rightarrow> 'a upstream_state_scheme \<Rightarrow>
     'a upstream_state_scheme \<times> start_action list" where
  "start_server c e pv now gs s =
     (case (if cf_enableOidc c then (case getOidcConfig e pv now s of (s1, oc) \<Rightarrow> (s1, oc \<noteq> None)) else (s, True)) of
        (s1, False) \<Rightarrow> (s1, [Exit_process])
      | (s1, True) \<Rightarrow>
          (case ensureActiveSigningKey now gs s1 of
             (s2, None) \<Rightarrow> (s2, [Start_failed])
           | (s2, Some kid) \<Rightarrow>
               (let s3 = loadRegistry s2 in
                (s3, [Key_ready kid, Registry_loaded, Registry_listener_started] @
                     (if cf_enableLocalAccounts c \<and> warnIfSetupUnprotected c s3 then [Warn_setup_unprotected] else []) @
                     [Port_open (cf_port c)]))))"

end
