(* ===== verification/HttpProps.thy ===== *)
theory HttpProps
  imports Startup Jwks Sample
begin

text \<open>
  The content security policy cannot be injected into by a redirect target; a resource server that
  is given nothing but the issuer finds the published keys; what an error leaves in the log; and what
  holds once the server listens.
\<close>

section \<open>The content security policy\<close>

lemma plain_char: "c \<notin> {CHR '';'', CHR '' '', CHR '',''}" if "is_alnum c \<or> c \<in> set ''.-[]:+''"
  using that by (auto simp: is_alnum_def is_digit_def is_lower_def is_upper_def in_range_def code_def)

lemma starts_with_drop: "starts_with p s \<Longrightarrow> s = p @ drop (length p) s"
  by (metis append_take_drop_id starts_with_def)

lemma origin_source_plain: "is_origin_source s \<Longrightarrow> c \<in> set s \<Longrightarrow> c \<notin> {CHR '';'', CHR '' '', CHR '',''}"
proof -
  assume s: "is_origin_source s" and c: "c \<in> set s"
  obtain pre rest where pre: "pre = ''http://'' \<or> pre = ''https://''"
    and e: "s = pre @ rest" and "list_all origin_char rest"
  proof (cases "starts_with ''http://'' s")
    case True
    then have "s = ''http://'' @ drop 7 s" using starts_with_drop [of "''http://''" s] by (simp add: eval_nat_numeral)
    moreover have "list_all origin_char (drop 7 s)" using s True by (simp add: is_origin_source_def Let_def)
    ultimately show ?thesis using that by blast
  next
    case False
    then have h: "starts_with ''https://'' s" using s by (simp add: is_origin_source_def Let_def)
    then have "s = ''https://'' @ drop 8 s" using starts_with_drop [of "''https://''" s] by (simp add: eval_nat_numeral)
    moreover have "list_all origin_char (drop 8 s)" using s False by (simp add: is_origin_source_def Let_def)
    ultimately show ?thesis using that by blast
  qed
  with c have "c \<in> set pre \<or> origin_char c" by (auto simp: list_all_iff)
  then show ?thesis
  proof
    assume "c \<in> set pre"
    with pre show ?thesis by auto
  next
    assume "origin_char c"
    then show ?thesis by (intro plain_char) (auto simp: origin_char_def)
  qed
qed

lemma scheme_source_plain: "is_scheme_source s \<Longrightarrow> c \<in> set s \<Longrightarrow> c \<notin> {CHR '';'', CHR '' '', CHR '',''}"
proof -
  assume s: "is_scheme_source s" and c: "c \<in> set s"
  have "s \<noteq> []" "last s = CHR '':''" using s by (simp_all add: is_scheme_source_def)
  then have e: "s = butlast s @ [CHR '':'']" using append_butlast_last_id [of s] by simp
  from s obtain d ds where b: "butlast s = d # ds" "is_lower d"
      "list_all (\<lambda>x. is_lower x \<or> is_digit x \<or> x \<in> set ''+.-'') ds"
    by (auto simp: is_scheme_source_def split: list.splits)
  from c e b(1) have "c = CHR '':'' \<or> c = d \<or> c \<in> set ds" by (metis Un_iff empty_iff insert_iff list.set set_append)
  then have "is_alnum c \<or> c \<in> set ''.-[]:+''" using b(2,3) by (auto simp: is_alnum_def list_all_iff)
  then show ?thesis by (rule plain_char)
qed

lemma source_plain:
  assumes "formActionSource parse target = Some s" and "c \<in> set s"
  shows "c \<notin> {CHR '';'', CHR '' '', CHR '',''}"
  using assms origin_source_plain scheme_source_plain
  by (fastforce simp: formActionSource_def Let_def split: option.splits if_splits)

lemma source_is_of_target:
  assumes "formActionSource parse target = Some s"
  shows "\<exists>u. parse target = Some u \<and>
    (if url_protocol u = ''http:'' \<or> url_protocol u = ''https:'' then s = url_origin u else s = url_protocol u) \<and>
    s \<notin> set FORBIDDEN_SCHEMES"
proof -
  from assms obtain u where u: "parse target = Some u"
    and s: "s = (if url_protocol u = ''http:'' \<or> url_protocol u = ''https:'' then url_origin u else url_protocol u)"
    and k: "is_origin_source s \<or> is_scheme_source s"
    by (auto simp: formActionSource_def Let_def split: option.splits if_splits)
  have "\<not> is_origin_source x" if "x \<in> set FORBIDDEN_SCHEMES" for x
    using that by (auto simp: FORBIDDEN_SCHEMES_def is_origin_source_def starts_with_def)
  with k have "s \<notin> set FORBIDDEN_SCHEMES" by (auto simp: is_scheme_source_def)
  with u s show ?thesis by auto
qed

text \<open>The directives of the app-wide policy, with more sources of \<^verbatim>\<open>form-action\<close>.\<close>

definition policy_directives :: "string \<Rightarrow> string \<Rightarrow> string list" where
  "policy_directives script_hash extra =
     [''default-src '' @ quoted ''none'', '' script-src '' @ quoted (''sha256-'' @ script_hash),
      '' style-src '' @ quoted ''self'', '' img-src '' @ quoted ''self'' @ '' https:'', '' font-src '' @ quoted ''self'',
      '' form-action '' @ quoted ''self'' @ extra, '' frame-ancestors '' @ quoted ''none'', '' base-uri '' @ quoted ''none'']"

lemma semicolon_not_quote: "CHR '';'' \<noteq> char_of (39 :: nat)"
  by code_simp

lemma policy_split:
  assumes "CHR '';'' \<notin> set script_hash" and "CHR '';'' \<notin> set extra"
  shows "split_on CHR '';'' (POLICY_PREFIX script_hash @ '' '' @ quoted ''self'' @ extra @ ''; '' @ POLICY_SUFFIX) =
    policy_directives script_hash extra"
proof -
  have e: "POLICY_PREFIX script_hash @ '' '' @ quoted ''self'' @ extra @ ''; '' @ POLICY_SUFFIX =
      join '';'' (policy_directives script_hash extra)"
    by (simp add: POLICY_PREFIX_def POLICY_SUFFIX_def policy_directives_def quoted_def)
  have "\<forall>d \<in> set (policy_directives script_hash extra). CHR '';'' \<notin> set d"
    using assms semicolon_not_quote by (auto simp: policy_directives_def quoted_def)
  then show ?thesis unfolding e by (intro split_join) (simp_all add: policy_directives_def)
qed

text \<open>Whatever the redirect target of a client is, the policy of a page that widens
  \<^verbatim>\<open>form-action\<close> for it has the directives of the app-wide policy, and only \<^verbatim>\<open>form-action\<close> gains a
  source, one at most: the origin of an http(s) target or the scheme of another, never one of the script and
  data schemes, and with no space, semicolon or comma that would begin anything else.\<close>

theorem csp_cannot_be_injected:
  assumes "CHR '';'' \<notin> set script_hash"
  shows "split_on CHR '';'' (CONTENT_SECURITY_POLICY script_hash) = policy_directives script_hash [] \<and>
   (case formActionSource parse target of
      None \<Rightarrow> contentSecurityPolicyAllowingFormTarget script_hash parse target = CONTENT_SECURITY_POLICY script_hash
    | Some s \<Rightarrow>
        split_on CHR '';'' (contentSecurityPolicyAllowingFormTarget script_hash parse target) =
          policy_directives script_hash (CHR '' '' # s) \<and>
        set s \<inter> {CHR '';'', CHR '' '', CHR '',''} = {} \<and> s \<notin> set FORBIDDEN_SCHEMES \<and>
        (\<exists>u. parse target = Some u \<and>
           (if url_protocol u = ''http:'' \<or> url_protocol u = ''https:'' then s = url_origin u else s = url_protocol u)))"
proof -
  have app: "split_on CHR '';'' (CONTENT_SECURITY_POLICY script_hash) = policy_directives script_hash []"
    using policy_split [OF assms, of "[]"] by (simp add: CONTENT_SECURITY_POLICY_def)
  show ?thesis
  proof (cases "formActionSource parse target")
    case None
    with app show ?thesis by (simp add: contentSecurityPolicyAllowingFormTarget_def)
  next
    case (Some s)
    have "split_on CHR '';'' (contentSecurityPolicyAllowingFormTarget script_hash parse target) =
        policy_directives script_hash (CHR '' '' # s)"
      using policy_split [OF assms, of "CHR '' '' # s"] source_plain [OF Some] Some
      by (auto simp: contentSecurityPolicyAllowingFormTarget_def)
    moreover have "set s \<inter> {CHR '';'', CHR '' '', CHR '',''} = {}" using source_plain [OF Some] by blast
    ultimately show ?thesis using app Some source_is_of_target [OF Some] by auto
  qed
qed

section \<open>Discovery meets the key set cache\<close>

text \<open>The network answers a request for an address with a reply of the proxy, and perhaps more headers,
  within a size.\<close>

definition serves :: "platform \<Rightarrow> answers \<Rightarrow> nat \<Rightarrow> string \<Rightarrow> http_reply \<Rightarrow> bool" where
  "serves pf net cap u r \<longleftrightarrow>
     (case net u of
        Wire w \<Rightarrow>
          wr_status w = hr_status r \<and> list_all (\<lambda>(k, v). jm_get (wr_headers w) k = Some v) (hr_headers r) \<and> \<not> wr_broken w \<and>
          (case wr_contentLength w of None \<Rightarrow> True | Some n \<Rightarrow> n \<le> cap) \<and>
          length (concat (wr_chunks w)) \<le> cap \<and> pf_parse_json pf (concat (wr_chunks w)) = hr_body r
      | _ \<Rightarrow> False)"

lemma read_chunks_all: "length acc + length (concat cs) \<le> m \<Longrightarrow> read_chunks m acc cs = Some (acc @ concat cs)"
  by (induction m acc cs rule: read_chunks.induct) auto

lemma fetch_served:
  assumes "serves pf net cap u r" and "hr_status r = 200" and "hr_body r = Some j"
  shows "\<exists>headers. fetchJson pf net u cap = Inr (j, headers) \<and>
    list_all (\<lambda>(k, v). jm_get headers k = Some v) (hr_headers r)"
  using assms by (auto simp: serves_def fetchJson_def read_chunks_all split: wire.splits option.splits)

text \<open>What a parser keeps of an address whose path is extended: the scheme and the host.\<close>

definition same_site :: "url_parser \<Rightarrow> url \<Rightarrow> string \<Rightarrow> bool" where
  "same_site parse u x \<longleftrightarrow>
     (case parse x of None \<Rightarrow> False
      | Some v \<Rightarrow> url_protocol v = url_protocol u \<and> url_hostname v = url_hostname u)"

lemma same_site_secure:
  "same_site parse u x \<Longrightarrow> url_protocol u = ''https:'' \<or> url_protocol u = ''http:'' \<and> isLoopbackHost (url_hostname u) \<Longrightarrow>
   assertSecureUrl parse x = None"
  by (auto simp: same_site_def assertSecureUrl_def split: option.splits)

lemma jwks_max_age: "parseMaxAgeMs (Some ''public, max-age=3600'') = 3600 * 1000"
proof -
  have "find_max_age True (to_lower ''public, max-age=3600'') = Some ''3600''" by code_simp
  moreover have "number_of ''3600'' = 3600" by code_simp
  ultimately show ?thesis by (simp add: parseMaxAgeMs_def FAILURE_BACKOFF_MS_def)
qed

text \<open>C40: A resource server that is given only the issuer finds the proxy's keys.  Where the network answers for the
  discovery document and the key set with what the proxy replies, and the issuer is a bare https (or loopback)
  origin, a new cache discovers the address of the key set, and the first refresh fetches exactly the keys
  \<^verbatim>\<open>getJwks\<close> publishes, to be kept for the hour the reply allows.\<close>

theorem discovery_finds_keys:
  assumes "pf_parse_url pf (cf_issuerUrl c) = Some u"
    and "url_origin u = cf_issuerUrl c" and "url_pathname u = ''/''"
    and "url_protocol u = ''https:'' \<or> url_protocol u = ''http:'' \<and> isLoopbackHost (url_hostname u)"
    and "same_site (pf_parse_url pf) u (cf_issuerUrl c @ ''/.well-known/oauth-authorization-server'')"
    and "same_site (pf_parse_url pf) u (cf_issuerUrl c @ ''/.well-known/jwks.json'')"
    and "serves pf net MAX_DISCOVERY_BYTES (cf_issuerUrl c @ ''/.well-known/oauth-authorization-server'') (discovery_reply c)"
    and "serves pf net MAX_KEY_SET_BYTES (cf_issuerUrl c @ ''/.well-known/jwks.json'') (jwks_reply now s)"
  shows "fetchKeys pf net (new_cache (cf_issuerUrl c) None maxStale) =
    (Some (cf_issuerUrl c @ ''/.well-known/jwks.json''), Inr (getJwks now s, 3600 * 1000))"
proof -
  let ?i = "cf_issuerUrl c"
  have "strip_slashes ''/'' = []" by (simp add: strip_slashes_def)
  then have d: "discoveryUrl (pf_parse_url pf) ?i = Inr (?i @ ''/.well-known/oauth-authorization-server'')"
    using assms(1-3) by (simp add: discoveryUrl_def)
  have m: "member (buildMetadata c) ''issuer'' = Some (JStr ?i)"
    "member (buildMetadata c) ''jwks_uri'' = Some (JStr (?i @ ''/.well-known/jwks.json''))"
    by (simp_all add: buildMetadata_def Let_def)
  obtain hs where doc: "fetchJson pf net (?i @ ''/.well-known/oauth-authorization-server'') MAX_DISCOVERY_BYTES =
      Inr (buildMetadata c, hs)"
    using fetch_served [OF assms(7)] by (auto simp: discovery_reply_def)
  obtain hs' where keys: "fetchJson pf net (?i @ ''/.well-known/jwks.json'') MAX_KEY_SET_BYTES =
      Inr (JObj [(''keys'', JArr (getJwks now s))], hs')"
    and age: "jm_get hs' ''cache-control'' = Some ''public, max-age=3600''"
    using fetch_served [OF assms(8)] by (auto simp: jwks_reply_def)
  note secure = same_site_secure [OF assms(5,4)] same_site_secure [OF assms(6,4)]
  have found: "discoverJwksUri pf net ?i = Inr (?i @ ''/.well-known/jwks.json'')"
    by (simp add: discoverJwksUri_def d secure doc m)
  show ?thesis
    by (simp add: fetchKeys_def resolveJwksUri_def new_cache_def found secure keys age jwks_max_age Let_def truthy_def)
qed

definition hp_config :: config where
  "hp_config =
     \<lparr>cf_databaseUrl = ''postgres://db'', cf_issuerUrl = ''https://as.example'', cf_port = 3000, cf_logLevel = ''info'',
      cf_cookieSecret = replicate 32 CHR ''s'', cf_trustProxy = None, cf_metricsToken = None, cf_setupToken = None,
      cf_enableOidc = False, cf_oidc = None, cf_claimMap = [], cf_adminGroups = [], cf_enableLocalAccounts = True,
      cf_enableDcr = False, cf_allowInsecureClientMetadata = False, cf_trustPolicyPath = ''policy.yaml''\<rparr>"

text \<open>The network of the sample: the two documents as one letter each.\<close>

definition hp_net :: answers where
  "hp_net u =
     (if u = ''https://as.example/.well-known/oauth-authorization-server''
      then Wire \<lparr>wr_status = 200, wr_headers = [], wr_contentLength = None, wr_chunks = [''d''], wr_broken = False\<rparr>
      else if u = ''https://as.example/.well-known/jwks.json''
      then Wire \<lparr>wr_status = 200, wr_headers = [(''cache-control'', ''public, max-age=3600'')],
                 wr_contentLength = Some 1, wr_chunks = [''k''], wr_broken = False\<rparr>
      else Wire_error)"

definition hp_platform :: platform where
  "hp_platform =
     \<lparr>pf_parse_url = (\<lambda>x. Some (sample_url ''https:'' ''as.example'' ''/'')),
      pf_parse_json = (\<lambda>t. if t = ''d'' then Some (buildMetadata hp_config)
                           else if t = ''k'' then hr_body (jwks_reply 0 sample_state) else None)\<rparr>"

lemma discovery_finds_keys_sample:
  "getJwks 0 sample_state = [sk_publicJwk sample_key] \<and>
   fetchKeys hp_platform hp_net (new_cache (cf_issuerUrl hp_config) None None) =
     (Some (cf_issuerUrl hp_config @ ''/.well-known/jwks.json''), Inr (getJwks 0 sample_state, 3600 * 1000))"
proof
  show "getJwks 0 sample_state = [sk_publicJwk sample_key]"
    by (simp add: getJwks_def published_def sample_state_def sample_key_def)
  show "fetchKeys hp_platform hp_net (new_cache (cf_issuerUrl hp_config) None None) =
     (Some (cf_issuerUrl hp_config @ ''/.well-known/jwks.json''), Inr (getJwks 0 sample_state, 3600 * 1000))"
    by (rule discovery_finds_keys [of _ _ "sample_url ''https:'' ''as.example'' ''/''"])
       (simp_all add: hp_platform_def hp_config_def sample_url_def same_site_def serves_def hp_net_def
         discovery_reply_def jwks_reply_def MAX_DISCOVERY_BYTES_def MAX_KEY_SET_BYTES_def)
qed

section \<open>What an error leaves in the log\<close>

lemma optional_entry_keys: "k \<in> fst ` set (optional_entry k' v) \<Longrightarrow> k = k'"
  by (auto simp: optional_entry_def split: option.splits)

text \<open>Seven members and no other, whatever the error carries; the message not when it is unsafe.\<close>

lemma logged_members:
  "fst ` set (serializeError (Thrown_error e)) \<subseteq>
     {''name'', ''message'', ''code'', ''status'', ''oauthError'', ''oauthErrorDescription'', ''stack''} \<and>
   (message_unsafe e \<longrightarrow> ''message'' \<notin> fst ` set (serializeError (Thrown_error e)))"
  by (auto simp: optional_entry_def split: option.splits)

text \<open>A message of one line never reaches the log by way of the stack.\<close>

lemma frames_skip_line:
  "list_all (\<lambda>c. \<not> line_break c) h \<Longrightarrow> line_break c \<Longrightarrow> frames_from False (h @ c # frames) = frames_from True frames"
  by (induction h) auto

lemma one_line_message_stays_out:
  assumes "eo_stack e = Some (h @ CHR 0x0A # frames)" and "list_all (\<lambda>c. \<not> line_break c) h"
    and "h \<noteq> []" and "\<not> is_space (hd h)"
  shows "stackFrames e = frames_from True frames"
proof -
  obtain c cs where h: "h = c # cs" using assms(3) by (cases h) auto
  have "line_break (CHR 0x0A)" by code_simp
  then show ?thesis
    using assms h frames_skip_line [of cs "CHR 0x0A" frames] by (simp add: stackFrames_def)
qed

text \<open>A message with a line that looks like a frame does: the member \<^verbatim>\<open>stack\<close> of an error whose
  message is unsafe holds the rest of that message.  The sample is a body that is not JSON, quoted by the
  parser's error.\<close>

definition quoting_error :: error_object where
  "quoting_error =
     \<lparr>eo_name = ''SyntaxError'', eo_message = ''Unexpected token a in {'' @ CHR 0x0A # '' at hunter2'',
      eo_stack = Some (''SyntaxError: Unexpected token a in {'' @ CHR 0x0A # '' at hunter2'' @
                       CHR 0x0A # ''    at JSON.parse''),
      eo_members = [(''expose'', JBool True), (''status'', JNum 400)]\<rparr>"

lemma stack_repeats_message:
  "message_unsafe quoting_error \<and>
   serializeError (Thrown_error quoting_error) =
     [(''name'', JStr ''SyntaxError''), (''status'', JNum 400),
      (''stack'', JStr ('' at hunter2'' @ CHR 0x0A # ''    at JSON.parse''))]"
proof -
  have st: "stackFrames quoting_error = Some ('' at hunter2'' @ CHR 0x0A # ''    at JSON.parse'')"
    by code_simp
  have "starts_with ''PrismaClient'' (eo_name quoting_error) = False" by code_simp
  with st show ?thesis
    by (simp add: message_unsafe_def quoting_error_def optional_entry_def code_member_def status_member_def text_member_def)
qed

section \<open>A server that listens is ready\<close>

text \<open>With OIDC on, the provider was found; there is an active signing key; and the registry is the one of
  the enabled rows.\<close>

lemma getOidcConfig_keys:
  "getOidcConfig e pv now s = (s1, r) \<Longrightarrow>
     signingKeys s1 = signingKeys s \<and> (r \<noteq> None \<longrightarrow> oidcConfig s1 \<noteq> None)"
  by (auto simp: getOidcConfig_def split: option.splits prod.splits if_splits)

lemma listening_is_ready:
  assumes "start_server c e pv now gs s = (s', acts)" and "Port_open p \<in> set acts"
    and "appliedGeneration s \<le> nextGeneration s"
  shows "last acts = Port_open p \<and> Registry_listener_started \<in> set acts \<and>
    (\<exists>k \<in> set (signingKeys s'). active k) \<and> (cf_enableOidc c \<longrightarrow> oidcConfig s' \<noteq> None) \<and>
    registry s' = build_registry (filter sr_enabled (resourceServers s')) []"
proof -
  obtain s1 s2 kid where
    o: "(if cf_enableOidc c then (case getOidcConfig e pv now s of (t, oc) \<Rightarrow> (t, oc \<noteq> None)) else (s, True)) = (s1, True)"
    and k: "ensureActiveSigningKey now gs s1 = (s2, Some kid)" and s': "s' = loadRegistry s2"
    and acts: "last acts = Port_open p" "Registry_listener_started \<in> set acts"
    using assms(1,2) by (auto simp: start_server_def Let_def split: prod.splits bool.splits option.splits if_splits)
  from k obtain key where g: "getSigningKeyForSigning now gs s1 = (s2, Some key)"
    by (auto simp: ensureActiveSigningKey_def split: prod.splits)
  have keys: "\<exists>k \<in> set (signingKeys s2). active k" using getSigningKey_active [OF g] by blast
  have s2: "s2 = s1\<lparr>signingKeys := signingKeys s2\<rparr>" using getSigningKey_frame [OF g] .
  have s1: "oidcConfig s1 \<noteq> None" if "cf_enableOidc c"
  proof -
    obtain t r where t: "getOidcConfig e pv now s = (t, r)" by fastforce
    with o that have "t = s1" "r \<noteq> None" by simp_all
    with getOidcConfig_keys [OF t] show ?thesis by simp
  qed
  have gen: "appliedGeneration s1 \<le> nextGeneration s1"
    using o assms(3) by (auto simp: getOidcConfig_def split: option.splits prod.splits if_splits)
  have "oidcConfig s2 = oidcConfig s1" "appliedGeneration s2 \<le> nextGeneration s2"
    using gen by (subst s2, simp)+
  then show ?thesis
    using keys s1 acts by (auto simp: s' loadRegistry_def load_start_def load_end_def Let_def)
qed

end
