(* ===== verification/Spec2Isabelle.thy ===== *)
theory Spec2Isabelle
  imports TokenProps Runs NetProps SessionProps AccountProps SignInProps FlowProps AdminProps ProtectedProps CliProps ConfigProps HttpProps
begin

text \<open>
  A model of asterism, an OAuth authorization server that stands in front of MCP resource servers, and
  of the library with which those servers check its tokens.  The sources are two packages:
  \<^verbatim>\<open>src/packages/proxy\<close> and \<^verbatim>\<open>src/packages/asterism-verify\<close>.

  \<^bold>\<open>The program.\<close>  A client (known by the URL of its metadata document, which the proxy fetches) sends a user
  to \<^verbatim>\<open>/oauth/authorize\<close>, or starts a device flow.  The user signs in, with a local account or at an upstream
  OIDC provider, and consents; the client redeems a code, a device code or a refresh token at
  \<^verbatim>\<open>/oauth/token\<close> for a JWT that names one resource server as its audience.  The scopes a server has come
  from a metadata document it publishes, joined with the policy of the operator, who approves servers, reviews changed documents
  and denies clients on the admin pages or with commands.  State is in one database, with caches in memory.

  \<^bold>\<open>How the model is built.\<close>  The database is the record \<^verbatim>\<open>db\<close> of row lists; every component that
  keeps something in memory extends that record, \<^verbatim>\<open>db\<close> \<^verbatim>\<open>\<rightarrow>\<close> \<^verbatim>\<open>registry_state\<close> \<^verbatim>\<open>\<rightarrow>\<close>
  \<^verbatim>\<open>metrics_state\<close> \<^verbatim>\<open>\<rightarrow>\<close> \<^verbatim>\<open>client_state\<close> \<^verbatim>\<open>\<rightarrow>\<close> \<^verbatim>\<open>assertion_state\<close> \<^verbatim>\<open>\<rightarrow>\<close> \<^verbatim>\<open>upstream_state\<close>
  \<^verbatim>\<open>\<rightarrow>\<close> \<^verbatim>\<open>proxy_state\<close> \<^verbatim>\<open>\<rightarrow>\<close> \<^verbatim>\<open>admin_state\<close>, and an operation is written over any extension of the
  state it needs.  An operation takes the clock, the random values and the answers of the outside as
  arguments and returns the new state with its result; a refusal is a value.  A handler that awaits between
  its checks and its transaction is two functions, so that other requests can run in between: what the
  checks found is passed as a value, and the transaction runs on whatever the state has become.  Time is an
  integer of milliseconds.  Strings are character lists, a JavaScript \<^verbatim>\<open>Map\<close> is an association list in
  insertion order, addresses are words of 32 and 128 bits.  The names are those of the source.

  \<^bold>\<open>Theories and sources\<close> (paths below \<^verbatim>\<open>packages/proxy/src\<close> unless they begin with \<^verbatim>\<open>asterism-verify\<close>).

  \<^item> \<^verbatim>\<open>Prelude\<close>: strings, JSON, maps and tables, and three contracts: a table with a unique key
    (\<^verbatim>\<open>keyed_table\<close>), a system that redeems a credential at most once (\<^verbatim>\<open>single_use\<close>), and reachability
    with an invariant (\<^verbatim>\<open>transition_system\<close>).  They are interpreted on the tables of the schema, on the proxy as a whole
    (\<^verbatim>\<open>Runs\<close>), on the registry listener, and on the approved servers (\<^verbatim>\<open>ServerProps\<close>).
  \<^item> \<^verbatim>\<open>Schema\<close>: \<^verbatim>\<open>prisma/schema.prisma\<close>.  \<^verbatim>\<open>Env\<close>: the settings and platform functions the handlers use.
    \<^verbatim>\<open>Url\<close>: the parts of a URL.
  \<^item> \<^verbatim>\<open>Config\<close>: \<^verbatim>\<open>config.ts\<close>.  \<^verbatim>\<open>Http\<close>: \<^verbatim>\<open>oauth/discovery.ts\<close>, \<^verbatim>\<open>crypto/jwks-router.ts\<close>,
    \<^verbatim>\<open>security-headers.ts\<close>, \<^verbatim>\<open>ops.ts\<close> and the request half of \<^verbatim>\<open>server.ts\<close>.  \<^verbatim>\<open>Startup\<close>: its start, and
    \<^verbatim>\<open>logger.ts\<close>.
  \<^item> \<^verbatim>\<open>RateLimit\<close>: \<^verbatim>\<open>rate-limit.ts\<close>, with the contract \<^verbatim>\<open>fixed_window\<close>, which \<^verbatim>\<open>SafeFetch\<close>
    (\<^verbatim>\<open>clients/safe-fetch.ts\<close>) meets as well.  \<^verbatim>\<open>Metrics\<close>: \<^verbatim>\<open>metrics.ts\<close>.
  \<^item> \<^verbatim>\<open>Registry\<close>: \<^verbatim>\<open>resource-registry.ts\<close>, \<^verbatim>\<open>reserved-claims.ts\<close>, \<^verbatim>\<open>identity/released-claims.ts\<close>,
    \<^verbatim>\<open>oauth/fresh-sign-in.ts\<close>.  \<^verbatim>\<open>Listener\<close>: \<^verbatim>\<open>resource-servers/registry-listener.ts\<close>.  \<^verbatim>\<open>Metadata\<close>:
    \<^verbatim>\<open>resource-servers/metadata.ts\<close> and \<^verbatim>\<open>metadata-changes.ts\<close>.  \<^verbatim>\<open>Servers\<close>: \<^verbatim>\<open>service.ts\<close> and
    \<^verbatim>\<open>refresh-job.ts\<close>.  \<^verbatim>\<open>Canonical\<close>: the fingerprint of a snapshot determines it.
  \<^item> \<^verbatim>\<open>Clients\<close>: \<^verbatim>\<open>clients/cimd.ts\<close> and \<^verbatim>\<open>trust-policy.ts\<close>.  \<^verbatim>\<open>Denylist\<close>: \<^verbatim>\<open>clients/denylist.ts\<close>.
    \<^verbatim>\<open>ClientAssertion\<close>: \<^verbatim>\<open>oauth/client-assertion.ts\<close>.
  \<^item> \<^verbatim>\<open>SigningKeys\<close>, \<^verbatim>\<open>Tokens\<close>: \<^verbatim>\<open>crypto\<close>.  \<^verbatim>\<open>TokenEndpoint\<close>: \<^verbatim>\<open>oauth/token.ts\<close>.  \<^verbatim>\<open>Consent\<close>,
    \<^verbatim>\<open>Authorize\<close>, \<^verbatim>\<open>Device\<close>, \<^verbatim>\<open>Grants\<close>: the files of the same names in \<^verbatim>\<open>oauth\<close>, and \<^verbatim>\<open>cleanup.ts\<close>.
  \<^item> \<^verbatim>\<open>Session\<close>: \<^verbatim>\<open>cookies.ts\<close>, \<^verbatim>\<open>http-params.ts\<close> and session, csrf, flow-binding and self-login of
    \<^verbatim>\<open>identity\<close>.  \<^verbatim>\<open>LocalAccounts\<close>, \<^verbatim>\<open>LocalRouter\<close>: the local accounts and their pages.  \<^verbatim>\<open>Upstream\<close>,
    \<^verbatim>\<open>OidcCallback\<close>: \<^verbatim>\<open>upstream-refresh.ts\<close>, \<^verbatim>\<open>oidc.ts\<close> and \<^verbatim>\<open>oidc-router.ts\<close>.
  \<^item> \<^verbatim>\<open>AdminAuth\<close>, \<^verbatim>\<open>AdminRouter\<close>: \<^verbatim>\<open>admin\<close>.  \<^verbatim>\<open>CliArgs\<close>, \<^verbatim>\<open>Cli\<close>: \<^verbatim>\<open>cli\<close>.
  \<^item> \<^verbatim>\<open>Jwks\<close>, \<^verbatim>\<open>Verify\<close>, \<^verbatim>\<open>Protected\<close>: \<^verbatim>\<open>jwks-cache.ts\<close>, \<^verbatim>\<open>verify.ts\<close> and \<^verbatim>\<open>express.ts\<close> of
    \<^verbatim>\<open>asterism-verify/src\<close>.
  \<^item> \<^verbatim>\<open>Interleaving\<close>, \<^verbatim>\<open>World\<close>, \<^verbatim>\<open>AdminFlow\<close>, \<^verbatim>\<open>Runs\<close>: the handlers of the proxy, its admin pages, the
    operator's commands, the clean-up and the refresh job as one transition system.
  \<^item> \<^verbatim>\<open>Sample\<close>: a concrete environment and state, at which the properties are applied.

  \<^bold>\<open>What is proved.\<close>  The numbered properties stand in the theories whose names end in \<^verbatim>\<open>Props\<close> and in
  \<^verbatim>\<open>Runs\<close>; \<^verbatim>\<open>TokenFacts\<close> and the ends of the component theories hold the lemmas they share.

  \<^item> \<^verbatim>\<open>TokenProps\<close>: what a granted request implies for each grant, client authentication included; which
    refusals burn a code, revoke a family or change nothing; replay and reuse end the whole family.
    \<^verbatim>\<open>Runs\<close>: at most one redemption of each credential in every interleaving, and nothing is live that was not
    drawn.
  \<^item> \<^verbatim>\<open>FlowProps\<close>, \<^verbatim>\<open>SignInProps\<close>, \<^verbatim>\<open>SessionProps\<close>, \<^verbatim>\<open>AccountProps\<close>: what authorization, consent, login and
    callback establish; what sign-out ends, and what a revocation ends in every later run; the bounds of the
    login throttle.  Two limits of a revocation are shown by example or named with the property: a redemption that
    has passed its checks still commits (\<^verbatim>\<open>revoked_while_redeeming\<close>), and a new consent makes the same grant live.
  \<^item> \<^verbatim>\<open>NetProps\<close>: where the fetcher may connect, its block list against the table of special ranges,
    that redirects end, and that a client assertion works once.
  \<^item> \<^verbatim>\<open>ServerProps\<close>, \<^verbatim>\<open>ListenerProps\<close>, \<^verbatim>\<open>AdminProps\<close>, \<^verbatim>\<open>CliProps\<close>: only the operator widens access; what is
    accepted is what was reviewed, up to an exhibited collision of the truncated hash; exactly which rows a
    removal, a denial and a deactivation change; the registry follows the database; every change is proven and
    audited; commands parse back.
  \<^item> \<^verbatim>\<open>JwksProps\<close>, \<^verbatim>\<open>VerifyProps\<close>, \<^verbatim>\<open>ProtectedProps\<close>: the key cache refines a store of the last key set fetched,
    and spaces its requests by when they begin; the verifier accepts what the proxy mints and checks everything
    else; the proxy fetches and reads the metadata a server publishes, with each exception named.
  \<^item> \<^verbatim>\<open>ConfigProps\<close>, \<^verbatim>\<open>HttpProps\<close>: what a loaded configuration guarantees; discovery leads a resource server to the
    published keys; the content security policy; errors in the log; readiness at the start.

  \<^bold>\<open>Bounds.\<close>  No fuel is used.  The redirect loop ends by its count (the measure is the redirects left), the key
  creation by its three attempts, which consume the list of generated pairs it is given, user codes likewise; every other
  loop runs over a list.  The listener may run for ever; that it comes to rest is proved with the
  measure \<^verbatim>\<open>work\<close> over its own steps.

  \<^bold>\<open>Parameters.\<close>  Hashes, HMAC, bcrypt, jose, openid-client, DNS, HTTP, the URL and JSON parsers, IDNA,
  zod's URL check and the ordering of the locale are arguments.  Nothing is assumed of them except where a
  property has a hypothesis that states documented behaviour (\<^verbatim>\<open>jose_documented\<close>, \<^verbatim>\<open>jose_reads\<close>,
  \<^verbatim>\<open>same_site\<close>, \<^verbatim>\<open>serves\<close> and \<^verbatim>\<open>publishes\<close>, for example), and each of those has a concrete instance.  Transactions are atomic and
  unique keys are enforced, as the database documents.

  \<^bold>\<open>Not modelled.\<close>  The HTML templates and \<^verbatim>\<open>pages.ts\<close> (a page is the name of its view with its
  data), \<^verbatim>\<open>db.ts\<close>, the generated database client, the text of error messages and log lines, Express with its
  body parsers and static files, timers and signals of \<^verbatim>\<open>server.ts\<close>, the redaction done by pino, reading a line
  without echo, and the test helpers: they call the platform and decide nothing.  Deadlines of
  requests appear as the answer \<^verbatim>\<open>Wire_timeout\<close>.  The four workers of the refresh job run in order.
\<close>

end
